(* ===== verification/Prelude.thy ===== *)
theory Prelude
  imports Complex_Main
begin

text \<open>
  Shared vocabulary of the development.

  \<^item> \<open>json\<close>: the JSON values the services store in \<open>jsonb\<close> columns and put into messages,
    with the object operations of JavaScript that the services use (property access, spread,
    structural equality, the size of the serialised text).
  \<^item> \<open>exn\<close>: the exceptions the services throw, as values.
  \<^item> \<open>('s, 'a) action\<close>: an \<open>async\<close> method over the state \<open>'s\<close>. It returns an exception or a
    result, and the state it leaves behind in either case, so the effects made before a
    \<open>throw\<close> stay visible; \<open>transaction\<close> is the one operation that takes them back.
  \<^item> rows: a database table is the list of its rows in insertion order.
  \<^item> the collections \<open>keeps_intros\<close> (which actions preserve a predicate) and \<open>action_simps\<close>
    (how an action runs) carry the proofs of the components.
\<close>

named_theorems action_simps
named_theorems keeps_intros
named_theorems read_intros

type_synonym uuid = string
type_synonym time = int \<comment> \<open>milliseconds since the epoch, as \<open>Date.getTime()\<close>\<close>

section \<open>JSON values\<close>

datatype json =
    JNull
  | JBool bool
  | JNum rat
  | JStr string
  | JArr "json list"
  | JObj "(string \<times> json) list"

text \<open>\<open>x ?? null\<close> for an optional value that is put into a JSON document.\<close>

fun json_opt :: "('a \<Rightarrow> json) \<Rightarrow> 'a option \<Rightarrow> json" where
  "json_opt f None = JNull"
| "json_opt f (Some x) = f x"

abbreviation json_str_opt :: "string option \<Rightarrow> json" where
  "json_str_opt \<equiv> json_opt JStr"

abbreviation json_int :: "int \<Rightarrow> json" where
  "json_int i \<equiv> JNum (of_int i)"

text \<open>A date in a message: \<open>toISOString\<close>, represented by the milliseconds it prints.\<close>

abbreviation json_date :: "time \<Rightarrow> json" where
  "json_date t \<equiv> json_int t"

fun is_obj :: "json \<Rightarrow> bool" where
  "is_obj (JObj _) = True"
| "is_obj _ = False"

fun obj_fields :: "json \<Rightarrow> (string \<times> json) list" where
  "obj_fields (JObj fs) = fs"
| "obj_fields _ = []"

text \<open>Property access \<open>v[k]\<close>; \<open>None\<close> is \<open>undefined\<close>.\<close>

definition get_prop :: "json \<Rightarrow> string \<Rightarrow> json option" where
  "get_prop v k = map_of (obj_fields v) k"

text \<open>
  Assigning a property keeps the position of an existing key and appends a new one;
  the spread \<open>{...a, ...b}\<close> assigns the properties of \<open>b\<close> in order.
\<close>

fun put_field :: "string \<Rightarrow> 'v \<Rightarrow> (string \<times> 'v) list \<Rightarrow> (string \<times> 'v) list" where
  "put_field k v [] = [(k, v)]"
| "put_field k v ((k', v') # fs) = (if k = k' then (k, v) # fs else (k', v') # put_field k v fs)"

definition spread :: "(string \<times> 'v) list \<Rightarrow> (string \<times> 'v) list \<Rightarrow> (string \<times> 'v) list" where
  "spread a b = foldl (\<lambda>acc (k, v). put_field k v acc) a b"

lemma map_of_put_field [simp]: "map_of (put_field k v fs) = (map_of fs)(k \<mapsto> v)"
  by (induction fs) (auto simp: fun_eq_iff)

lemma map_of_spread:
  "distinct (map fst b) \<Longrightarrow> map_of (spread a b) = map_of a ++ map_of b"
proof (induction b arbitrary: a)
  case Nil
  then show ?case by (simp add: spread_def)
next
  case (Cons x b)
  obtain k v where x: "x = (k, v)" by (cases x)
  have "map_of (spread a (x # b)) = map_of (spread (put_field k v a) b)"
    by (simp add: spread_def x)
  also have "\<dots> = (map_of a)(k \<mapsto> v) ++ map_of b"
    using Cons by simp
  moreover have "map_of b k = None"
    using Cons.prems x by (simp add: map_of_eq_None_iff)
  ultimately show ?case
    by (auto simp: x map_add_def fun_eq_iff simp del: map_of_eq_None_iff split: option.split)
qed

text \<open>
  \<open>util.isDeepStrictEqual\<close> on JSON values: objects are compared as sets of properties,
  so the order of the keys, which \<open>jsonb\<close> does not keep, is irrelevant.
\<close>

function deep_equal :: "json \<Rightarrow> json \<Rightarrow> bool" where
  "deep_equal (JObj a) (JObj b) =
     (length a = length b \<and>
      list_all (\<lambda>kv. case map_of b (fst kv) of None \<Rightarrow> False | Some w \<Rightarrow> deep_equal (snd kv) w) a)"
| "deep_equal (JArr a) (JArr b) =
     (length a = length b \<and> list_all (\<lambda>p. deep_equal (fst p) (snd p)) (zip a b))"
| "deep_equal JNull v = (v = JNull)"
| "deep_equal (JBool x) v = (v = JBool x)"
| "deep_equal (JNum x) v = (v = JNum x)"
| "deep_equal (JStr x) v = (v = JStr x)"
| "deep_equal (JObj a) JNull = False"
| "deep_equal (JObj a) (JBool x1) = False"
| "deep_equal (JObj a) (JNum x2) = False"
| "deep_equal (JObj a) (JStr x3) = False"
| "deep_equal (JObj a) (JArr x4) = False"
| "deep_equal (JArr a) JNull = False"
| "deep_equal (JArr a) (JBool x5) = False"
| "deep_equal (JArr a) (JNum x6) = False"
| "deep_equal (JArr a) (JStr x7) = False"
| "deep_equal (JArr a) (JObj x8) = False"
  by pat_completeness auto

lemma size_obj_field: "kv \<in> set a \<Longrightarrow> size (snd kv) < size (JObj a)"
  by (induction a) (auto simp: prod.size_neq)

lemma size_arr_elem: "v \<in> set a \<Longrightarrow> size v < size (JArr a)"
  by (induction a) auto

termination deep_equal
  by (relation "measure (\<lambda>(v, w). size v)")
     (auto dest!: set_zip_leftD size_arr_elem dest: size_obj_field)

lemmas deep_equal_scalar [simp] = deep_equal.simps(3-6)

text \<open>
  The number of bytes of \<open>Buffer.byteLength(JSON.stringify(v), "utf8")\<close>. Characters are the
  Latin-1 code units: those from 128 on take two bytes in UTF-8. Integral numbers print in
  decimal; a fraction prints as its decimal expansion, cut after 20 places.
\<close>

fun nat_digits :: "nat \<Rightarrow> nat" where
  "nat_digits n = (if n < 10 then 1 else Suc (nat_digits (n div 10)))"

declare nat_digits.simps [simp del]

fun frac_digits :: "nat \<Rightarrow> rat \<Rightarrow> nat" where
  "frac_digits 0 x = 0"
| "frac_digits (Suc n) x = (if x = of_int \<lfloor>x\<rfloor> then 0 else Suc (frac_digits n (10 * x)))"

definition num_bytes :: "rat \<Rightarrow> nat" where
  "num_bytes x =
     (let a = \<bar>x\<bar>; f = frac_digits 20 a
      in (if x < 0 then 1 else 0) + nat_digits (nat \<lfloor>a\<rfloor>) + (if f = 0 then 0 else Suc f))"

definition char_bytes :: "char \<Rightarrow> nat" where
  "char_bytes c =
     (let n = of_char c :: nat in
      if n = 34 \<or> n = 92 \<or> n = 8 \<or> n = 9 \<or> n = 10 \<or> n = 12 \<or> n = 13 then 2
      else if n < 32 then 6 else if n < 128 then 1 else 2)"

definition str_bytes :: "string \<Rightarrow> nat" where
  "str_bytes s = 2 + sum_list (map char_bytes s)"

fun json_bytes :: "json \<Rightarrow> nat" where
  "json_bytes JNull = 4"
| "json_bytes (JBool b) = (if b then 4 else 5)"
| "json_bytes (JNum x) = num_bytes x"
| "json_bytes (JStr s) = str_bytes s"
| "json_bytes (JArr vs) = 2 + sum_list (map json_bytes vs) + (length vs - 1)"
| "json_bytes (JObj fs) =
     2 + sum_list (map (\<lambda>(k, v). str_bytes k + 1 + json_bytes v) fs) + (length fs - 1)"

section \<open>Strings\<close>

text \<open>
  \<open>String.prototype.trim\<close> and \<open>toLowerCase\<close> on Latin-1 strings; \<open>startsWith\<close> and
  \<open>slice(0, n)\<close>.
\<close>

definition is_space :: "char \<Rightarrow> bool" where
  "is_space c = ((of_char c :: nat) \<in> {9, 10, 11, 12, 13, 32, 160})"

definition js_trim :: "string \<Rightarrow> string" where
  "js_trim s = rev (dropWhile is_space (rev (dropWhile is_space s)))"

definition char_lower :: "char \<Rightarrow> char" where
  "char_lower c =
     (let n = of_char c :: nat in
      if 65 \<le> n \<and> n \<le> 90 \<or> 192 \<le> n \<and> n \<le> 222 \<and> n \<noteq> 215 then char_of (n + 32) else c)"

definition js_lower :: "string \<Rightarrow> string" where
  "js_lower s = map char_lower s"

definition starts_with :: "string \<Rightarrow> string \<Rightarrow> bool" where
  "starts_with p s = (take (length p) s = p)"

text \<open>A natural number in decimal.\<close>

definition digit_char :: "nat \<Rightarrow> char" where
  "digit_char d = char_of (48 + d)"

fun nat_str :: "nat \<Rightarrow> string" where
  "nat_str n = (if n < 10 then [digit_char n] else nat_str (n div 10) @ [digit_char (n mod 10)])"

declare nat_str.simps [simp del]

definition int_str :: "int \<Rightarrow> string" where
  "int_str i = (if i < 0 then ''-'' @ nat_str (nat (- i)) else nat_str (nat i))"

lemma dropWhile_idem [simp]: "dropWhile P (dropWhile P xs) = dropWhile P xs"
  by (induction xs) auto

lemma js_trim_idem [simp]: "js_trim (js_trim s) = js_trim s"
proof -
  have *: "dropWhile P (rev (dropWhile P (rev ys))) = rev (dropWhile P (rev ys))"
    if "ys = [] \<or> \<not> P (hd ys)" for P and ys :: string
    using that by (cases ys) (auto simp: dropWhile_append)
  have "dropWhile is_space s = [] \<or> \<not> is_space (hd (dropWhile is_space s))"
    using hd_dropWhile by blast
  note [simp] = * [of "dropWhile is_space s" is_space, OF this]
  show ?thesis
    by (simp add: js_trim_def)
qed

section \<open>Exceptions\<close>

text \<open>
  The HTTP exceptions of NestJS carry a message or a response object; \<open>PlainError\<close> and
  \<open>TypeErr\<close> are \<open>Error\<close> and \<open>TypeError\<close>; \<open>QueryFailed\<close> is the error PostgreSQL reports for
  the named constraint of the migrations.
\<close>

datatype exn =
    BadRequest json
  | Unauthorized string
  | Forbidden string
  | NotFound string
  | Conflict json
  | Gone string
  | Unprocessable string
  | UnsupportedMedia string
  | BadGateway string
  | Unavailable json
  | ServerError string
  | PlainError string
  | TypeErr string
  | QueryFailed string
  | CanvasRevisionConflict int \<comment> \<open>the private error class of the canvas service\<close>

section \<open>Actions\<close>

type_synonym ('s, 'a) action = "'s \<Rightarrow> (exn + 'a) \<times> 's"

definition ok :: "'a \<Rightarrow> ('s, 'a) action" where
  "ok x = (\<lambda>s. (Inr x, s))"

definition throw :: "exn \<Rightarrow> ('s, 'a) action" where
  "throw e = (\<lambda>s. (Inl e, s))"

text \<open>\<open>await m (\<lambda>x. rest)\<close> is \<open>const x = await m; rest\<close>: an exception of \<open>m\<close> skips the rest.\<close>

definition await :: "('s, 'a) action \<Rightarrow> ('a \<Rightarrow> ('s, 'b) action) \<Rightarrow> ('s, 'b) action" where
  "await m f = (\<lambda>s. case m s of (Inl e, t) \<Rightarrow> (Inl e, t) | (Inr x, t) \<Rightarrow> f x t)"

definition reads :: "('s \<Rightarrow> 'a) \<Rightarrow> ('s, 'a) action" where
  "reads f = (\<lambda>s. (Inr (f s), s))"

definition writes :: "('s \<Rightarrow> 's) \<Rightarrow> ('s, unit) action" where
  "writes f = (\<lambda>s. (Inr (), f s))"

text \<open>\<open>if (!ok) throw e\<close>.\<close>

definition require :: "bool \<Rightarrow> exn \<Rightarrow> ('s, unit) action" where
  "require b e = (if b then ok () else throw e)"

definition some_or_throw :: "'a option \<Rightarrow> exn \<Rightarrow> ('s, 'a) action" where
  "some_or_throw x e = (case x of None \<Rightarrow> throw e | Some y \<Rightarrow> ok y)"

text \<open>\<open>DataSource.transaction\<close>: an exception rolls every write of the body back.\<close>

definition transaction :: "('s, 'a) action \<Rightarrow> ('s, 'a) action" where
  "transaction m = (\<lambda>s. case m s of (Inl e, t) \<Rightarrow> (Inl e, s) | (Inr x, t) \<Rightarrow> (Inr x, t))"

text \<open>\<open>try { m } catch (e) { h(e) }\<close>: the handler starts in the state the exception left.\<close>

definition try_catch :: "('s, 'a) action \<Rightarrow> (exn \<Rightarrow> ('s, 'a) action) \<Rightarrow> ('s, 'a) action" where
  "try_catch m h = (\<lambda>s. case m s of (Inl e, t) \<Rightarrow> h e t | (Inr x, t) \<Rightarrow> (Inr x, t))"

text \<open>\<open>for (const x of xs) await f(x)\<close>.\<close>

fun for_each :: "'a list \<Rightarrow> ('a \<Rightarrow> ('s, unit) action) \<Rightarrow> ('s, unit) action" where
  "for_each [] f = ok ()"
| "for_each (x # xs) f = await (f x) (\<lambda>_. for_each xs f)"

lemma ok_run [action_simps]: "ok x s = (Inr x, s)"
  by (simp add: ok_def)

lemma throw_run [action_simps]: "throw e s = (Inl e, s)"
  by (simp add: throw_def)

lemma reads_run [action_simps]: "reads f s = (Inr (f s), s)"
  by (simp add: reads_def)

lemma writes_run [action_simps]: "writes f s = (Inr (), f s)"
  by (simp add: writes_def)

lemma require_run [action_simps]: "require b e s = (if b then Inr () else Inl e, s)"
  by (simp add: require_def ok_def throw_def)

lemma some_or_throw_run [action_simps]:
  "some_or_throw x e s = (case x of None \<Rightarrow> Inl e | Some y \<Rightarrow> Inr y, s)"
  by (simp add: some_or_throw_def ok_def throw_def split: option.split)

lemma await_run [action_simps]:
  "await m f s = (case m s of (r, t) \<Rightarrow> (case r of Inl e \<Rightarrow> (Inl e, t) | Inr x \<Rightarrow> f x t))"
  by (simp add: await_def split: prod.split sum.split)

lemma transaction_run [action_simps]:
  "transaction m s = (case m s of (r, t) \<Rightarrow> (case r of Inl e \<Rightarrow> (Inl e, s) | Inr x \<Rightarrow> (Inr x, t)))"
  by (simp add: transaction_def split: prod.split sum.split)

lemma try_catch_run [action_simps]:
  "try_catch m h s = (case m s of (r, t) \<Rightarrow> (case r of Inl e \<Rightarrow> h e t | Inr x \<Rightarrow> (Inr x, t)))"
  by (simp add: try_catch_def split: prod.split sum.split)

lemma await_Inr_iff:
  "await m f s = (Inr y, u) \<longleftrightarrow> (\<exists>x t. m s = (Inr x, t) \<and> f x t = (Inr y, u))"
  by (auto simp: await_def split: prod.splits sum.splits)

lemma await_InrE:
  assumes "await m f s = (Inr y, u)"
  obtains x t where "m s = (Inr x, t)" "f x t = (Inr y, u)"
  using assms by (auto simp: await_Inr_iff)

lemma await_InlE:
  assumes "await m f s = (Inl e, u)"
  obtains "m s = (Inl e, u)" | x t where "m s = (Inr x, t)" "f x t = (Inl e, u)"
  using assms by (auto simp: await_def split: prod.splits sum.splits)

lemma require_Inr_iff: "require b e s = (Inr x, t) \<longleftrightarrow> b \<and> t = s"
  by (auto simp: require_run)

lemma some_or_throw_Inr_iff: "some_or_throw x e s = (Inr y, t) \<longleftrightarrow> x = Some y \<and> t = s"
  by (auto simp: some_or_throw_run split: option.splits)

lemma transaction_Inr_iff: "transaction m s = (Inr x, t) \<longleftrightarrow> m s = (Inr x, t)"
  by (auto simp: transaction_def split: prod.splits sum.splits)

lemma transaction_Inl: "transaction m s = (Inl e, t) \<Longrightarrow> t = s"
  by (auto simp: transaction_def split: prod.splits sum.splits)

lemma ok_Inr_iff: "ok x s = (Inr y, t) \<longleftrightarrow> y = x \<and> t = s"
  by (auto simp: ok_def)

lemma throw_Inr_iff: "throw e s = (Inr y, t) \<longleftrightarrow> False"
  by (simp add: throw_def)

lemma reads_Inr_iff: "reads f s = (Inr y, t) \<longleftrightarrow> y = f s \<and> t = s"
  by (auto simp: reads_def)

lemma writes_Inr_iff: "writes f s = (Inr y, t) \<longleftrightarrow> t = f s"
  by (auto simp: writes_def)

lemmas action_Inr = await_Inr_iff require_Inr_iff some_or_throw_Inr_iff transaction_Inr_iff
  ok_Inr_iff throw_Inr_iff reads_Inr_iff writes_Inr_iff

section \<open>What an action keeps\<close>

text \<open>
  \<open>keeps I m\<close>: \<open>m\<close> preserves \<open>I\<close> whether it returns or throws. The rules take an action apart
  along the code; what is left are the writes.
\<close>

definition keeps :: "('s \<Rightarrow> bool) \<Rightarrow> ('s, 'a) action \<Rightarrow> bool" where
  "keeps I m \<longleftrightarrow> (\<forall>s. I s \<longrightarrow> I (snd (m s)))"

lemma keepsI: "(\<And>s. I s \<Longrightarrow> I (snd (m s))) \<Longrightarrow> keeps I m"
  by (simp add: keeps_def)

lemma keepsD: "keeps I m \<Longrightarrow> I s \<Longrightarrow> m s = (r, t) \<Longrightarrow> I t"
  unfolding keeps_def by (metis snd_conv)

lemma keeps_ok [keeps_intros]: "keeps I (ok x)"
  by (simp add: keeps_def ok_def)

lemma keeps_throw [keeps_intros]: "keeps I (throw e)"
  by (simp add: keeps_def throw_def)

lemma keeps_reads [keeps_intros]: "keeps I (reads f)"
  by (simp add: keeps_def reads_def)

lemma keeps_require [keeps_intros]: "keeps I (require b e)"
  by (simp add: keeps_def require_run)

lemma keeps_some_or_throw [keeps_intros]: "keeps I (some_or_throw x e)"
  by (simp add: keeps_def some_or_throw_run)

lemma keeps_writes [keeps_intros]: "(\<And>s. I s \<Longrightarrow> I (f s)) \<Longrightarrow> keeps I (writes f)"
  by (simp add: keeps_def writes_def)

lemma keeps_await [keeps_intros]:
  "keeps I m \<Longrightarrow> (\<And>x. keeps I (f x)) \<Longrightarrow> keeps I (await m f)"
  by (auto simp: keeps_def await_run split: prod.split sum.split)

lemma keeps_transaction [keeps_intros]: "keeps I m \<Longrightarrow> keeps I (transaction m)"
  by (auto simp: keeps_def transaction_run split: prod.split sum.split)

lemma keeps_try_catch [keeps_intros]:
  "keeps I m \<Longrightarrow> (\<And>e. keeps I (h e)) \<Longrightarrow> keeps I (try_catch m h)"
  by (auto simp: keeps_def try_catch_run split: prod.split sum.split)

lemma keeps_if [keeps_intros]: "keeps I m \<Longrightarrow> keeps I n \<Longrightarrow> keeps I (if b then m else n)"
  by simp

lemma keeps_case_option [keeps_intros]:
  "keeps I m \<Longrightarrow> (\<And>x. keeps I (f x)) \<Longrightarrow> keeps I (case v of None \<Rightarrow> m | Some x \<Rightarrow> f x)"
  by (cases v) auto

lemma keeps_case_prod [keeps_intros]:
  "(\<And>x y. keeps I (f x y)) \<Longrightarrow> keeps I (case p of (x, y) \<Rightarrow> f x y)"
  by (cases p) auto

lemma keeps_let [keeps_intros]: "(\<And>x. keeps I (f x)) \<Longrightarrow> keeps I (let x = v in f x)"
  by simp

lemma keeps_for_each [keeps_intros]: "(\<And>x. keeps I (f x)) \<Longrightarrow> keeps I (for_each xs f)"
  by (induction xs) (auto intro: keeps_ok keeps_await)

text \<open>A read-only action: whatever it answers, the state is the one it started in.\<close>

definition reads_only :: "('s, 'a) action \<Rightarrow> bool" where
  "reads_only m \<longleftrightarrow> (\<forall>s. snd (m s) = s)"

lemma reads_only_keeps: "reads_only m \<longleftrightarrow> (\<forall>s. keeps ((=) s) m)"
  by (auto simp: reads_only_def keeps_def)

lemma reads_onlyI: "(\<And>s. keeps ((=) s) m) \<Longrightarrow> reads_only m"
  by (simp add: reads_only_keeps)

lemma reads_onlyD: "reads_only m \<Longrightarrow> m s = (r, t) \<Longrightarrow> t = s"
  unfolding reads_only_def by (metis snd_conv)

lemma reads_only_keepsI: "reads_only m \<Longrightarrow> keeps I m"
  by (simp add: keeps_def reads_only_def)

lemma reads_only_ok [read_intros]: "reads_only (ok x)"
  and reads_only_throw [read_intros]: "reads_only (throw e)"
  and reads_only_reads [read_intros]: "reads_only (reads f)"
  and reads_only_require [read_intros]: "reads_only (require b e)"
  and reads_only_some_or_throw [read_intros]: "reads_only (some_or_throw v e)"
  by (simp_all add: reads_only_def action_simps)

lemma reads_only_await [read_intros]:
  "reads_only m \<Longrightarrow> (\<And>x. reads_only (f x)) \<Longrightarrow> reads_only (await m f)"
  by (auto simp: reads_only_keeps intro: keeps_await)

lemma reads_only_if [read_intros]:
  "reads_only m \<Longrightarrow> reads_only n \<Longrightarrow> reads_only (if b then m else n)"
  by simp

lemma reads_only_case_option [read_intros]:
  "reads_only m \<Longrightarrow> (\<And>x. reads_only (f x)) \<Longrightarrow>
   reads_only (case v of None \<Rightarrow> m | Some x \<Rightarrow> f x)"
  by (cases v) auto

text \<open>
  \<open>leaves P m s\<close>: from \<open>s\<close>, the state \<open>m\<close> ends in satisfies \<open>P\<close>, whether it returned or threw.
  A guard in front of the rest leaves the state alone, so \<open>P\<close> must hold now, for the exception,
  and after the rest, with what the guard found.
\<close>

definition leaves :: "('s \<Rightarrow> bool) \<Rightarrow> ('s, 'a) action \<Rightarrow> 's \<Rightarrow> bool" where
  "leaves P m s \<longleftrightarrow> P (snd (m s))"

lemma keeps_leaves: "keeps P m \<longleftrightarrow> (\<forall>s. P s \<longrightarrow> leaves P m s)"
  by (simp add: keeps_def leaves_def)

lemma leavesD: "leaves P m s \<Longrightarrow> m s = (r, t) \<Longrightarrow> P t"
  by (simp add: leaves_def)

lemma leaves_guard:
  assumes "reads_only m" and "P s" and "\<And>x. m s = (Inr x, s) \<Longrightarrow> leaves P (f x) s"
  shows "leaves P (await m f) s"
proof -
  obtain r where "m s = (r, s)"
    using assms(1) unfolding reads_only_def by (metis prod.collapse)
  with assms show ?thesis by (auto simp: await_run leaves_def split: sum.split)
qed

lemma leaves_if: "(b \<Longrightarrow> leaves P m s) \<Longrightarrow> (\<not> b \<Longrightarrow> leaves P n s) \<Longrightarrow> leaves P (if b then m else n) s"
  by simp

lemma leaves_ok: "P s \<Longrightarrow> leaves P (ok x) s"
  by (simp add: leaves_def ok_run)

lemma leaves_writes: "leaves P (f ()) (g s) \<Longrightarrow> leaves P (await (writes g) f) s"
  by (simp add: leaves_def await_run writes_run)

text \<open>An action that throws, after guards only, leaves everything as it was.\<close>

lemma throws_guard:
  assumes "reads_only m" and "\<And>x. m s = (Inr x, s) \<Longrightarrow> \<exists>e. f x s = (Inl e, s)"
  shows "\<exists>e. await m f s = (Inl e, s)"
proof -
  obtain r where "m s = (r, s)"
    using assms(1) unfolding reads_only_def by (metis prod.collapse)
  with assms show ?thesis by (auto simp: await_run split: sum.split)
qed

lemma throws_first: "\<exists>e. m s = (Inl e, s) \<Longrightarrow> \<exists>e. await m f s = (Inl e, s)"
  by (auto simp: await_run)

lemma throws_transaction: "\<not> (\<exists>x t. m s = (Inr x, t)) \<Longrightarrow> \<exists>e. transaction m s = (Inl e, s)"
  by (cases "m s"; cases "fst (m s)") (auto simp: transaction_run)

text \<open>What follows a step that keeps the property may rely on it.\<close>

lemma leaves_step:
  assumes "leaves P m s" and "\<And>x t. m s = (Inr x, t) \<Longrightarrow> P t \<Longrightarrow> leaves P (f x) t"
  shows "leaves P (await m f) s"
  using assms by (cases "m s") (auto simp: await_run leaves_def split: sum.split)

lemma leaves_keeps: "keeps P m \<Longrightarrow> P s \<Longrightarrow> leaves P m s"
  by (simp add: keeps_leaves)

text \<open>A stronger property may be carried up to the last step.\<close>

lemma leaves_via:
  assumes "keeps Q m" and "Q s" and "\<And>t. Q t \<Longrightarrow> P t"
    and "\<And>x t. m s = (Inr x, t) \<Longrightarrow> Q t \<Longrightarrow> leaves P (f x) t"
  shows "leaves P (await m f) s"
  using assms by (cases "m s") (auto simp: await_run leaves_def keeps_def split: sum.split)

lemma leaves_await:
  assumes "\<And>e t. m s = (Inl e, t) \<Longrightarrow> P t" and "\<And>x t. m s = (Inr x, t) \<Longrightarrow> leaves P (f x) t"
  shows "leaves P (await m f) s"
  using assms by (cases "m s") (auto simp: await_run leaves_def split: sum.split)

text \<open>A request whose result does not matter.\<close>

definition answer :: "('s, 'a) action \<Rightarrow> ('s, unit) action" where
  "answer m = await m (\<lambda>_. ok ())"

lemma leaves_answer: "leaves P m s \<Longrightarrow> leaves P (answer m) s"
  by (cases "m s") (auto simp: answer_def leaves_def await_run ok_run split: sum.split)

lemma keeps_answer: "keeps P m \<Longrightarrow> keeps P (answer m)"
  by (simp add: answer_def keeps_intros)

lemma leaves_transaction:
  assumes "P s" and "leaves P m s"
  shows "leaves P (transaction m) s"
  using assms by (cases "m s") (auto simp: leaves_def transaction_run split: sum.split)

text \<open>The same for what an action answers together with the state it leaves.\<close>

definition ends :: "(exn + 'a \<Rightarrow> 's \<Rightarrow> bool) \<Rightarrow> ('s, 'a) action \<Rightarrow> 's \<Rightarrow> bool" where
  "ends P m s \<longleftrightarrow> (case m s of (r, t) \<Rightarrow> P r t)"

lemma endsD: "ends P m s \<Longrightarrow> m s = (r, t) \<Longrightarrow> P r t"
  by (simp add: ends_def)

lemma ends_guard:
  assumes "reads_only m" and "\<And>e. P (Inl e) s" and "\<And>x. m s = (Inr x, s) \<Longrightarrow> ends P (f x) s"
  shows "ends P (await m f) s"
proof -
  obtain r where "m s = (r, s)"
    using assms(1) unfolding reads_only_def by (metis prod.collapse)
  with assms show ?thesis by (auto simp: await_run ends_def split: sum.split)
qed

lemma ends_await:
  assumes "\<And>e t. m s = (Inl e, t) \<Longrightarrow> P (Inl e) t" and "\<And>x t. m s = (Inr x, t) \<Longrightarrow> ends P (f x) t"
  shows "ends P (await m f) s"
  using assms by (cases "m s") (auto simp: await_run ends_def split: sum.split)

lemma ends_try:
  assumes "\<And>x t. m s = (Inr x, t) \<Longrightarrow> P (Inr x) t" and "\<And>e t. m s = (Inl e, t) \<Longrightarrow> ends P (h e) t"
  shows "ends P (try_catch m h) s"
  using assms by (cases "m s") (auto simp: try_catch_run ends_def split: sum.split)

section \<open>Tables\<close>

text \<open>
  \<open>save\<close> replaces the row with the same primary key or appends a new one; \<open>remove\<close> deletes
  it; \<open>update_where\<close> is the bulk \<open>UPDATE\<close>.
\<close>

fun save_row :: "('r \<Rightarrow> 'k) \<Rightarrow> 'r \<Rightarrow> 'r list \<Rightarrow> 'r list" where
  "save_row key r [] = [r]"
| "save_row key r (x # xs) = (if key x = key r then r # xs else x # save_row key r xs)"

definition remove_row :: "('r \<Rightarrow> 'k) \<Rightarrow> 'k \<Rightarrow> 'r list \<Rightarrow> 'r list" where
  "remove_row key k t = filter (\<lambda>r. key r \<noteq> k) t"

definition find_row :: "('r \<Rightarrow> 'k) \<Rightarrow> 'k \<Rightarrow> 'r list \<Rightarrow> 'r option" where
  "find_row key k t = find (\<lambda>r. key r = k) t"

definition update_where :: "('r \<Rightarrow> bool) \<Rightarrow> ('r \<Rightarrow> 'r) \<Rightarrow> 'r list \<Rightarrow> 'r list" where
  "update_where P f t = map (\<lambda>r. if P r then f r else r) t"

definition keyed :: "('r \<Rightarrow> 'k) \<Rightarrow> 'r list \<Rightarrow> bool" where
  "keyed key t \<longleftrightarrow> distinct (map key t)"

text \<open>Rows in descending order of a column, ties in insertion order.\<close>

definition sort_desc :: "('r \<Rightarrow> int) \<Rightarrow> 'r list \<Rightarrow> 'r list" where
  "sort_desc f t = sort_key (\<lambda>r. - f r) t"

lemma set_sort_desc [simp]: "set (sort_desc f t) = set t"
  by (simp add: sort_desc_def)

lemma length_sort_desc [simp]: "length (sort_desc f t) = length t"
  by (simp add: sort_desc_def)

text \<open>The first row in that order (\<open>findOne\<close> with \<open>order: DESC\<close>).\<close>

definition first_row :: "'r list \<Rightarrow> 'r option" where
  "first_row t = (case t of [] \<Rightarrow> None | r # _ \<Rightarrow> Some r)"

lemma first_row_Nil [simp]: "first_row [] = None"
  and first_row_Cons [simp]: "first_row (r # t) = Some r"
  by (simp_all add: first_row_def)

lemma first_row_in: "first_row t = Some r \<Longrightarrow> r \<in> set t"
  by (auto simp: first_row_def split: list.splits)

lemma first_row_None_iff [simp]: "first_row t = None \<longleftrightarrow> t = []"
  by (auto simp: first_row_def split: list.splits)

lemma first_row_sort_desc_max:
  assumes "first_row (sort_desc f t) = Some r" and "x \<in> set t"
  shows "f x \<le> f r"
proof -
  have "sorted (map (\<lambda>r. - f r) (sort_desc f t))"
    by (simp add: sort_desc_def)
  moreover obtain rest where "sort_desc f t = r # rest"
    using assms(1) by (auto simp: first_row_def split: list.splits)
  moreover have "x \<in> set (sort_desc f t)"
    using assms(2) by simp
  ultimately show ?thesis by auto
qed

lemma find_Some_conv: "find P t = Some r \<Longrightarrow> P r \<and> r \<in> set t"
  by (induction t) (auto split: if_splits)

lemma find_None_conv: "find P t = None \<longleftrightarrow> (\<forall>r \<in> set t. \<not> P r)"
  by (auto simp: find_None_iff)

lemma find_row_Some: "find_row key k t = Some r \<Longrightarrow> key r = k \<and> r \<in> set t"
  by (auto simp: find_row_def dest: find_Some_conv)

lemma find_row_None: "find_row key k t = None \<longleftrightarrow> k \<notin> key ` set t"
  by (auto simp: find_row_def find_None_conv)

lemma find_row_keyed: "keyed key t \<Longrightarrow> r \<in> set t \<Longrightarrow> find_row key (key r) t = Some r"
  by (induction t) (auto simp: find_row_def keyed_def image_iff)

lemma find_row_save [simp]:
  "find_row key k (save_row key r t) = (if k = key r then Some r else find_row key k t)"
  by (induction t) (auto simp: find_row_def)

lemma find_row_remove [simp]:
  "find_row key k (remove_row key k' t) = (if k = k' then None else find_row key k t)"
  by (induction t) (auto simp: find_row_def remove_row_def)

lemma keys_save_row: "key ` set (save_row key r t) = insert (key r) (key ` set t)"
  by (induction t) auto

lemma keyed_Nil [simp]: "keyed key []"
  by (simp add: keyed_def)

lemma keyed_save_row [simp]: "keyed key (save_row key r t) \<longleftrightarrow> keyed key t" if "keyed key t"
proof -
  have "set (map key (save_row key r t)) = insert (key r) (set (map key t))" for t
    using keys_save_row [of key r t] by simp
  then show ?thesis
    using that by (induction t) (auto simp: keyed_def)
qed

lemma keyed_remove_row [simp]: "keyed key t \<Longrightarrow> keyed key (remove_row key k t)"
  by (simp add: keyed_def remove_row_def distinct_map_filter)

lemma keyed_update_where:
  "(\<And>r. key (f r) = key r) \<Longrightarrow> keyed key (update_where P f t) = keyed key t"
  by (simp add: keyed_def update_where_def comp_def if_distrib cong: if_cong)

lemma set_save_row: "keyed key t \<Longrightarrow> set (save_row key r t) = insert r {x \<in> set t. key x \<noteq> key r}"
  by (induction t) (auto simp: keyed_def image_iff)

lemma set_save_row_subset: "set (save_row key r t) \<subseteq> insert r (set t)"
  by (induction t) auto

lemma save_row_map:
  "keyed key t \<Longrightarrow> key r \<in> key ` set t \<Longrightarrow>
   save_row key r t = map (\<lambda>x. if key x = key r then r else x) t"
proof (induction t)
  case (Cons x t)
  show ?case
  proof (cases "key x = key r")
    case True
    with Cons.prems(1) have "map (\<lambda>y. if key y = key r then r else y) t = t"
      by (intro map_idI) (auto simp: keyed_def image_iff)
    with True show ?thesis by simp
  next
    case False
    with Cons show ?thesis by (auto simp: keyed_def)
  qed
qed simp

text \<open>Saving the row a search found, still a match, leaves it the one the search finds.\<close>

lemma find_save_row:
  assumes "find P t = Some r" and "key r' = key r" and "P r'" and "keyed key t"
  shows "find P (save_row key r' t) = Some r'"
  using assms
proof (induction t)
  case (Cons x t)
  then show ?case
    by (cases "P x") (auto simp: keyed_def image_iff dest!: find_Some_conv)
qed simp

lemma find_save_other:
  assumes "find P t = Some x" and "find_row key (key r) t = Some r0" and "P r = P r0"
    and "key r \<noteq> key x"
  shows "find P (save_row key r t) = Some x"
  using assms by (induction t) (auto simp: find_row_def split: if_splits)

lemma find_append: "find P (a @ b) = (case find P a of None \<Rightarrow> find P b | Some r \<Rightarrow> Some r)"
  by (induction a) auto

lemma save_row_fresh: "key r \<notin> key ` set t \<Longrightarrow> save_row key r t = t @ [r]"
  by (induction t) auto

lemma in_save_row [simp]: "r \<in> set (save_row key r t)"
  by (induction t) auto

lemma map_key_save_row: "key r \<in> key ` set t \<Longrightarrow> map key (save_row key r t) = map key t"
  by (induction t) auto

lemma length_save_row:
  "length (save_row key r t) = (if key r \<in> key ` set t then length t else Suc (length t))"
  by (induction t) auto

section \<open>Names for examples\<close>

text \<open>A supply of pairwise different identifiers, for the states the witnesses run on.\<close>

definition fresh_name :: "string \<Rightarrow> nat \<Rightarrow> string" where
  "fresh_name p n = p @ replicate n CHR ''x''"

end
