(* ===== verification/Interfaces.thy ===== *)
theory Interfaces
  imports Prelude
begin

text \<open>
  The contracts between components, as locales. Each is interpreted on the model's own
  definitions in the theory of the component that provides them:

  \<^item> \<open>keyed_store\<close>: a TypeORM repository with a primary key (every entity table);
  \<^item> \<open>access_gate\<close>: a permission check that runs before a handler's effects (workspace roles,
    canvas mutation, session ownership, rule management);
  \<^item> \<open>versioned\<close>: optimistic concurrency, an update that carries the revision it was made
    against (canvas operations, draft schemas, workspaces);
  \<^item> \<open>fsm\<close> and \<open>ranked_fsm\<close>: state machines given by a transition function (sessions, source
    processing).
\<close>

section \<open>Repositories\<close>

locale keyed_store =
  fixes key :: "'r \<Rightarrow> 'k"
    and lookup :: "'k \<Rightarrow> 't \<Rightarrow> 'r option"
    and save :: "'r \<Rightarrow> 't \<Rightarrow> 't"
    and remove :: "'k \<Rightarrow> 't \<Rightarrow> 't"
    and rows :: "'t \<Rightarrow> 'r set"
    and inv :: "'t \<Rightarrow> bool"
  assumes lookup_save: "lookup k (save r t) = (if k = key r then Some r else lookup k t)"
    and lookup_remove: "lookup k (remove k' t) = (if k = k' then None else lookup k t)"
    and inv_save: "inv t \<Longrightarrow> inv (save r t)"
    and inv_remove: "inv t \<Longrightarrow> inv (remove k t)"
    and lookup_rows: "inv t \<Longrightarrow> lookup k t = Some r \<longleftrightarrow> r \<in> rows t \<and> key r = k"
begin

lemma rows_save: "inv t \<Longrightarrow> rows (save r t) = insert r {x \<in> rows t. key x \<noteq> key r}"
  using lookup_rows [of "save r t"] lookup_rows [of t] inv_save [of t r] lookup_save [of _ r t]
  by (auto simp: set_eq_iff) (metis option.inject)+

lemma rows_remove: "inv t \<Longrightarrow> rows (remove k t) = {x \<in> rows t. key x \<noteq> k}"
  using lookup_rows [of "remove k t"] lookup_rows [of t] inv_remove [of t k] lookup_remove [of _ k t]
  by (auto simp: set_eq_iff) (metis option.distinct(1))+

lemma key_unique: "inv t \<Longrightarrow> x \<in> rows t \<Longrightarrow> y \<in> rows t \<Longrightarrow> key x = key y \<Longrightarrow> x = y"
  using lookup_rows [of t] by (metis option.inject)

lemma all_save: "inv t \<Longrightarrow> (\<And>x. x \<in> rows t \<Longrightarrow> P x) \<Longrightarrow> P r \<Longrightarrow> x \<in> rows (save r t) \<Longrightarrow> P x"
  by (auto simp: rows_save)

lemma save_overwrites: "lookup k (save r (save r' t)) = lookup k (save r t)" if "key r = key r'"
  using that by (simp add: lookup_save)

lemma save_commutes:
  "key r \<noteq> key r' \<Longrightarrow> lookup k (save r (save r' t)) = lookup k (save r' (save r t))"
  by (simp add: lookup_save)

text \<open>A unique column stays unique when the new row does not repeat another row's value.\<close>

lemma unique_save:
  assumes "inv t" and "inj_on u (rows t)"
    and "\<And>x. x \<in> rows t \<Longrightarrow> key x \<noteq> key r \<Longrightarrow> u x \<noteq> u r"
  shows "inj_on u (rows (save r t))"
  using assms(2,3) unfolding rows_save [OF assms(1)] inj_on_def by (metis (mono_tags) insertE mem_Collect_eq)

end

lemma keyed_store_rows:
  "keyed_store key (find_row key) (save_row key) (remove_row key) set' inv'"
  if "set' = set" "inv' = keyed key"
proof unfold_locales
  fix t k r
  assume "inv' t"
  then show "find_row key k t = Some r \<longleftrightarrow> r \<in> set' t \<and> key r = k"
    using find_row_keyed [of key t] find_row_Some [of key k t] by (auto simp: that)
qed (auto simp: that)

section \<open>Permission checks\<close>

locale access_gate =
  fixes check :: "'u \<Rightarrow> 'o \<Rightarrow> ('s, 'm) action"
    and permitted :: "'s \<Rightarrow> 'u \<Rightarrow> 'o \<Rightarrow> bool"
  assumes check_reads_only: "reads_only (check u ob)"
    and check_grants: "check u ob s = (Inr m, t) \<Longrightarrow> permitted s u ob"
    and check_denies: "check u ob s = (Inl e, t) \<Longrightarrow> \<not> permitted s u ob"
begin

lemma check_state: "check u ob s = (r, t) \<Longrightarrow> t = s"
  using check_reads_only by (rule reads_onlyD)

text \<open>Behind the check, a result means that the caller was permitted,\<close>

lemma guarded_success:
  assumes "await (check u ob) f s = (Inr x, t)"
  shows "permitted s u ob"
  using assms check_grants by (auto simp: await_Inr_iff)

text \<open>and a caller who was not permitted gets an exception and changes nothing.\<close>

lemma guarded_denied:
  assumes "\<not> permitted s u ob"
  obtains e where "await (check u ob) f s = (Inl e, s)"
proof -
  obtain r t where run: "check u ob s = (r, t)" by (cases "check u ob s")
  then have "t = s" by (rule check_state)
  moreover obtain e where "r = Inl e"
    using run assms check_grants by (cases r) auto
  ultimately show thesis
    using run that by (auto simp: await_run)
qed

lemma guarded_permitted:
  assumes "permitted s u ob"
  obtains m where "await (check u ob) f s = f m s"
proof -
  obtain r t where run: "check u ob s = (r, t)" by (cases "check u ob s")
  then have "t = s" by (rule check_state)
  moreover obtain m where "r = Inr m"
    using run assms check_denies by (cases r) auto
  ultimately show thesis
    using run that by (auto simp: await_run)
qed

end

section \<open>Optimistic concurrency\<close>

text \<open>
  \<open>attempt n p s\<close> is an update \<open>p\<close> made against revision \<open>n\<close>: \<open>Some\<close> of the new state when it
  is accepted.
\<close>

locale versioned =
  fixes revision :: "'s \<Rightarrow> int"
    and attempt :: "int \<Rightarrow> 'p \<Rightarrow> 's \<Rightarrow> 's option"
  assumes stale_refused: "revision s \<noteq> n \<Longrightarrow> attempt n p s = None"
    and accepted_advances: "attempt n p s = Some t \<Longrightarrow> revision t = revision s + 1"
begin

lemma accepted_current: "attempt n p s = Some t \<Longrightarrow> revision s = n"
  using stale_refused [of s n p] by (cases "revision s = n") auto

text \<open>Of two updates made against the same revision, at most one is accepted.\<close>

lemma no_lost_update: "attempt n p s = Some t \<Longrightarrow> attempt n q t = None"
  using accepted_advances [of n p s t] accepted_current [of n p s t] stale_refused [of t n q]
  by simp

text \<open>Running updates one after the other, refused ones changing nothing.\<close>

fun attempts :: "(int \<times> 'p) list \<Rightarrow> 's \<Rightarrow> 's" where
  "attempts [] s = s"
| "attempts ((n, p) # rest) s =
     attempts rest (case attempt n p s of None \<Rightarrow> s | Some t \<Rightarrow> t)"

lemma attempts_revision: "revision s \<le> revision (attempts ps s)"
proof (induction ps arbitrary: s)
  case (Cons np ps)
  obtain n p where "np = (n, p)" by (cases np)
  show ?case
  proof (cases "attempt n p s")
    case None
    then show ?thesis using Cons.IH by (simp add: \<open>np = (n, p)\<close>)
  next
    case (Some t)
    then have "revision t = revision s + 1" by (rule accepted_advances)
    moreover have "revision t \<le> revision (attempts ps t)" by (rule Cons.IH)
    ultimately show ?thesis using Some by (simp add: \<open>np = (n, p)\<close>)
  qed
qed simp

text \<open>Once accepted, an update made against the same or an older revision is refused for good.\<close>

lemma old_revision_refused:
  assumes "attempt n p s = Some t" and "m \<le> n"
  shows "attempt m q (attempts ps t) = None"
proof -
  have "m < revision t"
    using assms(2) accepted_advances [OF assms(1)] accepted_current [OF assms(1)] by simp
  then have "revision (attempts ps t) \<noteq> m"
    using attempts_revision [of t ps] by simp
  then show ?thesis by (rule stale_refused)
qed

end

section \<open>State machines\<close>

locale fsm =
  fixes step :: "'st \<Rightarrow> 'ev \<Rightarrow> 'st option"
    and can :: "'st \<Rightarrow> 'st \<Rightarrow> bool"
  assumes can_step: "can a b \<longleftrightarrow> (\<exists>e. step a e = Some b)"
begin

fun run :: "'st \<Rightarrow> 'ev list \<Rightarrow> 'st option" where
  "run a [] = Some a"
| "run a (e # es) = (case step a e of None \<Rightarrow> None | Some b \<Rightarrow> run b es)"

lemma run_reaches: "run a es = Some b \<Longrightarrow> can\<^sup>*\<^sup>* a b"
proof (induction es arbitrary: a)
  case (Cons e es)
  then obtain c where "step a e = Some c" "run c es = Some b"
    by (auto split: option.splits)
  with Cons.IH can_step show ?case
    by (metis converse_rtranclp_into_rtranclp)
qed simp

lemma reaches_run: "can\<^sup>*\<^sup>* a b \<Longrightarrow> \<exists>es. run a es = Some b"
proof (induction rule: converse_rtranclp_induct)
  case base
  show ?case by (rule exI [of _ "[]"]) simp
next
  case (step x y)
  then obtain es where es: "run y es = Some b" by blast
  obtain e where "step x e = Some y" using step(1) can_step by blast
  with es have "run x (e # es) = Some b" by simp
  then show ?case by blast
qed

lemma invariant_run:
  assumes "\<And>a e b. P a \<Longrightarrow> step a e = Some b \<Longrightarrow> P b" and "P a" and "run a es = Some b"
  shows "P b"
  using assms(2,3)
proof (induction es arbitrary: a)
  case (Cons e es)
  then show ?case using assms(1) by (auto split: option.splits)
qed simp

end

locale ranked_fsm = fsm step can
  for step :: "'st::linorder \<Rightarrow> 'ev \<Rightarrow> 'st option" and can +
  assumes step_advances: "step a e = Some b \<Longrightarrow> a < b"
begin

lemma run_advances: "run a es = Some b \<Longrightarrow> a \<le> b"
proof (induction es arbitrary: a)
  case (Cons e es)
  then obtain c where "step a e = Some c" "run c es = Some b"
    by (auto split: option.splits)
  with Cons.IH [of c] step_advances [of a e c] show ?case by simp
qed simp

lemma never_back: "can\<^sup>*\<^sup>* a b \<Longrightarrow> b < a \<Longrightarrow> False"
  using reaches_run run_advances leD by blast

end

end
