(* ===== verification/Platform.thy ===== *)
theory Platform
  imports Interfaces
begin

text \<open>
  The ground the services stand on: the enumerations of \<open>src/database/enums/index.ts\<close>, the
  entities that several services share, the database state they have in common with the
  clock, the uuid supply, the socket rooms and the NATS connection, and the three operations
  every service calls: writing the audit log (\<open>AuditService.log\<close>), emitting to a socket room
  (\<open>RealtimeGateway\<close>) and publishing a message (\<open>NatsClientService.publish\<close>).

  Each service extends the record \<open>core\<close> with its own tables, so an operation of this
  theory runs unchanged inside every service. Handlers run at one instant \<open>now\<close>.
\<close>

section \<open>Enumerations\<close>

datatype UserRole = ADMIN | PROCESS_OWNER | BUSINESS_ANALYST | REVIEWER | VIEWER

fun user_role_str :: "UserRole \<Rightarrow> string" where
  "user_role_str UserRole.ADMIN = ''admin''"
| "user_role_str UserRole.PROCESS_OWNER = ''process_owner''"
| "user_role_str UserRole.BUSINESS_ANALYST = ''business_analyst''"
| "user_role_str UserRole.REVIEWER = ''reviewer''"
| "user_role_str UserRole.VIEWER = ''viewer''"

datatype WorkflowStatus =
  DRAFT | IN_ELICITATION | PENDING_REVIEW | VALIDATED | EXPORTED | ARCHIVED

fun workflow_status_str :: "WorkflowStatus \<Rightarrow> string" where
  "workflow_status_str WorkflowStatus.DRAFT = ''draft''"
| "workflow_status_str WorkflowStatus.IN_ELICITATION = ''in_elicitation''"
| "workflow_status_str WorkflowStatus.PENDING_REVIEW = ''pending_review''"
| "workflow_status_str WorkflowStatus.VALIDATED = ''validated''"
| "workflow_status_str WorkflowStatus.EXPORTED = ''exported''"
| "workflow_status_str WorkflowStatus.ARCHIVED = ''archived''"

datatype SessionMode = AUTO | INTERACTIVE

fun session_mode_str :: "SessionMode \<Rightarrow> string" where
  "session_mode_str AUTO = ''auto''"
| "session_mode_str INTERACTIVE = ''interactive''"

datatype SessionStatus =
    CREATED | AWAITING_INPUT | PROCESSING | DRAFT_READY | NEEDS_RECONCILIATION
  | IN_ELICITATION | IN_REVIEW | VALIDATED | EXPORTED | ARCHIVED | ERROR

fun session_status_str :: "SessionStatus \<Rightarrow> string" where
  "session_status_str SessionStatus.CREATED = ''created''"
| "session_status_str SessionStatus.AWAITING_INPUT = ''awaiting_input''"
| "session_status_str SessionStatus.PROCESSING = ''processing''"
| "session_status_str SessionStatus.DRAFT_READY = ''draft_ready''"
| "session_status_str SessionStatus.NEEDS_RECONCILIATION = ''needs_reconciliation''"
| "session_status_str SessionStatus.IN_ELICITATION = ''in_elicitation''"
| "session_status_str SessionStatus.IN_REVIEW = ''in_review''"
| "session_status_str SessionStatus.VALIDATED = ''validated''"
| "session_status_str SessionStatus.EXPORTED = ''exported''"
| "session_status_str SessionStatus.ARCHIVED = ''archived''"
| "session_status_str SessionStatus.ERROR = ''error''"

datatype ActorType = USER | AI_AGENT | SYSTEM

datatype AgentType =
    ORCHESTRATOR | INTAKE | EXTRACTION | PATTERN | GAP_DETECTION | QA | VALIDATION | EXPORT
  | DIVERGENCE | RULES_SKILLS_LOADER

fun agent_type_str :: "AgentType \<Rightarrow> string" where
  "agent_type_str AgentType.ORCHESTRATOR = ''ORCHESTRATOR''"
| "agent_type_str AgentType.INTAKE = ''INTAKE''"
| "agent_type_str AgentType.EXTRACTION = ''EXTRACTION''"
| "agent_type_str AgentType.PATTERN = ''PATTERN''"
| "agent_type_str AgentType.GAP_DETECTION = ''GAP_DETECTION''"
| "agent_type_str AgentType.QA = ''QA''"
| "agent_type_str AgentType.VALIDATION = ''VALIDATION''"
| "agent_type_str AgentType.EXPORT = ''EXPORT''"
| "agent_type_str AgentType.DIVERGENCE = ''DIVERGENCE''"
| "agent_type_str AgentType.RULES_SKILLS_LOADER = ''RULES_SKILLS_LOADER''"

datatype PipelineTaskType = FULL_PIPELINE | SCOPED_REPROCESS | EXPORT_ONLY | QA_ROUND

fun pipeline_task_type_str :: "PipelineTaskType \<Rightarrow> string" where
  "pipeline_task_type_str FULL_PIPELINE = ''FULL_PIPELINE''"
| "pipeline_task_type_str SCOPED_REPROCESS = ''SCOPED_REPROCESS''"
| "pipeline_task_type_str EXPORT_ONLY = ''EXPORT_ONLY''"
| "pipeline_task_type_str QA_ROUND = ''QA_ROUND''"

datatype PipelineStatus = PENDING | RUNNING | PAUSED | COMPLETED | FAILED | CANCELLED

datatype RuleType =
    EXTRACTION | ACTOR_MAPPING | STRUCTURAL_CONSTRAINT | VALIDATION | NAMING_CONVENTION
  | PROMPT_INJECTION

fun rule_type_str :: "RuleType \<Rightarrow> string" where
  "rule_type_str RuleType.EXTRACTION = ''EXTRACTION''"
| "rule_type_str RuleType.ACTOR_MAPPING = ''ACTOR_MAPPING''"
| "rule_type_str RuleType.STRUCTURAL_CONSTRAINT = ''STRUCTURAL_CONSTRAINT''"
| "rule_type_str RuleType.VALIDATION = ''VALIDATION''"
| "rule_type_str RuleType.NAMING_CONVENTION = ''NAMING_CONVENTION''"
| "rule_type_str RuleType.PROMPT_INJECTION = ''PROMPT_INJECTION''"

datatype RuleScope = ORG | WORKFLOW | AGENT

fun rule_scope_str :: "RuleScope \<Rightarrow> string" where
  "rule_scope_str RuleScope.ORG = ''ORG''"
| "rule_scope_str RuleScope.WORKFLOW = ''WORKFLOW''"
| "rule_scope_str RuleScope.AGENT = ''AGENT''"

section \<open>Callers\<close>

text \<open>The authenticated user of a request; the role is the string of the access token.\<close>

record request_user =
  ru_id :: uuid
  ru_orgId :: uuid
  ru_role :: string

section \<open>Shared entities\<close>

record workflow =
  wf_id :: uuid
  wf_title :: string
  wf_description :: "string option"
  wf_status :: WorkflowStatus
  wf_currentVersion :: int
  wf_orgId :: uuid
  wf_ownerId :: uuid
  wf_projectId :: "uuid option"
  wf_domain :: "string option"
  wf_tags :: "string list"
  wf_shareToken :: "string option"
  wf_shareExpiresAt :: "time option"
  wf_shareMaxViews :: "int option"
  wf_shareViewCount :: int
  wf_createdAt :: time
  wf_updatedAt :: time

record workflow_version =
  wv_id :: uuid
  wv_workflowId :: uuid
  wv_versionNumber :: int
  wv_elementsJson :: json
  wv_elsaJson :: "json option"
  wv_confidenceScore :: "rat option"
  wv_createdBy :: "uuid option"
  wv_createdAt :: time

record session =
  ses_id :: uuid
  ses_workflowId :: uuid
  ses_userId :: uuid
  ses_mode :: SessionMode
  ses_status :: SessionStatus
  ses_confidenceScore :: rat
  ses_createdAt :: time
  ses_finalizedAt :: "time option"
  ses_archivedAt :: "time option"

record audit_entry =
  al_id :: uuid
  al_workflowId :: "uuid option"
  al_actorId :: "uuid option"
  al_actorType :: ActorType
  al_eventType :: string
  al_elementId :: "string option"
  al_beforeState :: json
  al_afterState :: json
  al_createdAt :: time

record platform_audit =
  pa_organizationId :: uuid
  pa_workspaceId :: "uuid option"
  pa_actorId :: uuid
  pa_action :: string
  pa_entityType :: string
  pa_entityId :: string
  pa_before :: json
  pa_after :: json
  pa_correlationId :: string
  pa_createdAt :: time

text \<open>A message handed to NATS JetStream: subject, payload and the \<open>Nats-Msg-Id\<close> header.\<close>

record nats_msg =
  nm_subject :: string
  nm_payload :: json
  nm_msgId :: string

section \<open>The common state\<close>

text \<open>
  \<open>uuids\<close> is what \<open>gen_random_uuid()\<close> and \<open>randomUUID()\<close> will answer, in order from
  \<open>uuid_next\<close> on; \<open>rooms_live\<close> tells which socket rooms have a listener; \<open>nats_up\<close>, whether
  JetStream takes messages.
\<close>

record core =
  now :: time
  uuids :: "nat \<Rightarrow> uuid"
  uuid_next :: nat
  rooms_live :: "string \<Rightarrow> bool"
  nats_up :: bool
  workflows :: "workflow list"
  workflow_versions :: "workflow_version list"
  sessions :: "session list"
  audit_log :: "audit_entry list"
  emitted :: "(string \<times> string \<times> json) list"
  published :: "nats_msg list"

definition gen_uuid :: "('z core_scheme, uuid) action" where
  "gen_uuid = await (reads (\<lambda>s. uuids s (uuid_next s))) (\<lambda>u.
     await (writes (uuid_next_update Suc)) (\<lambda>_. ok u))"

definition current_time :: "('z core_scheme, time) action" where
  "current_time = reads now"

text \<open>
  \<open>AuditService.log\<close>: an entry that already has an id is refused, a missing field is stored
  as null.
\<close>

record audit_input =
  ai_id :: "uuid option"
  ai_workflowId :: "uuid option"
  ai_actorId :: "uuid option"
  ai_actorType :: ActorType
  ai_eventType :: string
  ai_elementId :: "string option"
  ai_beforeState :: json
  ai_afterState :: json

definition audit_insert :: "audit_input \<Rightarrow> ('z core_scheme, audit_entry) action" where
  "audit_insert e =
     await (require (case ai_id e of None \<Rightarrow> True | Some i \<Rightarrow> i = [])
       (BadRequest (JStr ''Audit log rows are immutable''))) (\<lambda>_.
     await gen_uuid (\<lambda>u.
     await current_time (\<lambda>t.
     let row = \<lparr> al_id = u, al_workflowId = ai_workflowId e, al_actorId = ai_actorId e,
                 al_actorType = ai_actorType e, al_eventType = ai_eventType e,
                 al_elementId = ai_elementId e, al_beforeState = ai_beforeState e,
                 al_afterState = ai_afterState e, al_createdAt = t \<rparr>
     in await (writes (audit_log_update (\<lambda>l. l @ [row]))) (\<lambda>_. ok row))))"

text \<open>A call of \<open>log\<close> without an id: workflow, actor, actor type, event, element, before, after.\<close>

definition audit ::
    "uuid option \<Rightarrow> uuid option \<Rightarrow> ActorType \<Rightarrow> string \<Rightarrow> string option \<Rightarrow> json \<Rightarrow> json \<Rightarrow>
     ('z core_scheme, unit) action" where
  "audit wid actor actorType event element old new =
     await (audit_insert \<lparr> ai_id = None, ai_workflowId = wid, ai_actorId = actor,
              ai_actorType = actorType, ai_eventType = event, ai_elementId = element,
              ai_beforeState = old, ai_afterState = new \<rparr>) (\<lambda>_. ok ())"

definition emit_to_room :: "string \<Rightarrow> string \<Rightarrow> json \<Rightarrow> ('z core_scheme, unit) action" where
  "emit_to_room room event payload =
     writes (emitted_update (\<lambda>l. l @ [(room, event, payload)]))"

definition has_listeners :: "string \<Rightarrow> ('z core_scheme, bool) action" where
  "has_listeners room = reads (\<lambda>s. rooms_live s room)"

definition nats_publish :: "string \<Rightarrow> json \<Rightarrow> string \<Rightarrow> ('z core_scheme, unit) action" where
  "nats_publish subject payload msgId =
     await (reads nats_up) (\<lambda>up.
     await (require up (PlainError ''NATS publish failed'')) (\<lambda>_.
     writes (published_update (\<lambda>l. l @
       [\<lparr> nm_subject = subject, nm_payload = payload, nm_msgId = msgId \<rparr>]))))"

text \<open>The room names of \<open>WS_ROOMS\<close>.\<close>

definition room_user :: "uuid \<Rightarrow> string" where "room_user i = ''user:'' @ i"
definition room_workspace :: "uuid \<Rightarrow> string" where "room_workspace i = ''workspace:'' @ i"
definition room_session :: "uuid \<Rightarrow> string" where "room_session i = ''session:'' @ i"
definition room_workflow :: "uuid \<Rightarrow> string" where "room_workflow i = ''workflow:'' @ i"
definition room_canvas :: "uuid \<Rightarrow> string" where "room_canvas i = ''canvas:'' @ i"

section \<open>How the common operations run\<close>

lemma gen_uuid_run [action_simps]:
  "gen_uuid s = (Inr (uuids s (uuid_next s)), s\<lparr>uuid_next := Suc (uuid_next s)\<rparr>)"
  by (simp add: gen_uuid_def action_simps)

lemma current_time_run [action_simps]: "current_time s = (Inr (now s), s)"
  by (simp add: current_time_def action_simps)

lemma emit_to_room_run [action_simps]:
  "emit_to_room r e p s = (Inr (), s\<lparr>emitted := emitted s @ [(r, e, p)]\<rparr>)"
  by (simp add: emit_to_room_def action_simps)

lemma has_listeners_run [action_simps]: "has_listeners r s = (Inr (rooms_live s r), s)"
  by (simp add: has_listeners_def action_simps)

lemma nats_publish_run [action_simps]:
  "nats_publish sub p m s =
     (if nats_up s
      then (Inr (), s\<lparr>published := published s @
             [\<lparr> nm_subject = sub, nm_payload = p, nm_msgId = m \<rparr>]\<rparr>)
      else (Inl (PlainError ''NATS publish failed''), s))"
  by (simp add: nats_publish_def action_simps)

lemma audit_insert_run:
  "ai_id e = None \<Longrightarrow>
   audit_insert e s =
     (let row = \<lparr> al_id = uuids s (uuid_next s), al_workflowId = ai_workflowId e,
                  al_actorId = ai_actorId e, al_actorType = ai_actorType e,
                  al_eventType = ai_eventType e, al_elementId = ai_elementId e,
                  al_beforeState = ai_beforeState e, al_afterState = ai_afterState e,
                  al_createdAt = now s \<rparr>
      in (Inr row, s\<lparr>uuid_next := Suc (uuid_next s), audit_log := audit_log s @ [row]\<rparr>))"
  by (simp add: audit_insert_def action_simps Let_def)

lemma audit_run [action_simps]:
  "audit wid actor ty event element before after s =
     (Inr (), s\<lparr>uuid_next := Suc (uuid_next s), audit_log := audit_log s @
       [\<lparr> al_id = uuids s (uuid_next s), al_workflowId = wid, al_actorId = actor, al_actorType = ty,
          al_eventType = event, al_elementId = element, al_beforeState = before,
          al_afterState = after, al_createdAt = now s \<rparr>]\<rparr>)"
  by (simp add: audit_def await_run audit_insert_run ok_run Let_def)

text \<open>
  A predicate is \<open>db_only\<close> when it does not look at the uuid counter, the audit log or the
  messages sent; such a predicate is kept by the three common operations.
\<close>

definition db_only :: "('z core_scheme \<Rightarrow> bool) \<Rightarrow> bool" where
  "db_only P \<longleftrightarrow>
     (\<forall>s n l e p. P s \<longrightarrow> P (uuid_next_update n s) \<and> P (audit_log_update l s) \<and>
        P (emitted_update e s) \<and> P (published_update p s))"

lemma db_onlyI:
  "(\<And>s n. P s \<Longrightarrow> P (uuid_next_update n s)) \<Longrightarrow> (\<And>s l. P s \<Longrightarrow> P (audit_log_update l s)) \<Longrightarrow>
   (\<And>s e. P s \<Longrightarrow> P (emitted_update e s)) \<Longrightarrow> (\<And>s p. P s \<Longrightarrow> P (published_update p s)) \<Longrightarrow> db_only P"
  by (simp add: db_only_def)

lemma keeps_gen_uuid [keeps_intros]: "db_only P \<Longrightarrow> keeps P gen_uuid"
  by (simp add: keeps_def db_only_def action_simps)

lemma keeps_current_time [keeps_intros]: "keeps P current_time"
  by (simp add: keeps_def action_simps)

lemma reads_current_time [read_intros]: "reads_only current_time"
  by (simp add: reads_only_def action_simps)

lemma keeps_emit [keeps_intros]: "db_only P \<Longrightarrow> keeps P (emit_to_room r e p)"
  by (simp add: keeps_def db_only_def action_simps)

lemma keeps_has_listeners [keeps_intros]: "keeps P (has_listeners r)"
  by (simp add: keeps_def action_simps)

lemma keeps_nats_publish [keeps_intros]: "db_only P \<Longrightarrow> keeps P (nats_publish sub p m)"
  by (simp add: keeps_def db_only_def action_simps)

lemma keeps_audit_insert [keeps_intros]: "db_only P \<Longrightarrow> keeps P (audit_insert e)"
  unfolding audit_insert_def Let_def
  by (intro keeps_intros) (auto simp: db_only_def intro: keeps_intros)

lemma keeps_audit [keeps_intros]: "db_only P \<Longrightarrow> keeps P (audit wid actor ty event element b a)"
  unfolding audit_def by (intro keeps_intros)

section \<open>The shared tables as repositories\<close>

interpretation workflow_repo:
  keyed_store wf_id "find_row wf_id" "save_row wf_id" "remove_row wf_id" set "keyed wf_id"
  by (rule keyed_store_rows) simp_all

interpretation session_repo:
  keyed_store ses_id "find_row ses_id" "save_row ses_id" "remove_row ses_id" set "keyed ses_id"
  by (rule keyed_store_rows) simp_all

section \<open>Lookups the services share\<close>

text \<open>\<open>workflowRepository.findOne({ where: { id, orgId } })\<close>.\<close>

definition workflow_in_org :: "uuid \<Rightarrow> uuid \<Rightarrow> 'z core_scheme \<Rightarrow> workflow option" where
  "workflow_in_org wid oid s = find (\<lambda>w. wf_id w = wid \<and> wf_orgId w = oid) (workflows s)"

definition findWorkflowInOrgOrThrow ::
    "uuid \<Rightarrow> uuid \<Rightarrow> string \<Rightarrow> ('z core_scheme, workflow) action" where
  "findWorkflowInOrgOrThrow wid oid message =
     await (reads (workflow_in_org wid oid)) (\<lambda>w. some_or_throw w (NotFound message))"

lemma findWorkflowInOrgOrThrow_run [action_simps]:
  "findWorkflowInOrgOrThrow wid oid m s =
     (case workflow_in_org wid oid s of None \<Rightarrow> Inl (NotFound m) | Some w \<Rightarrow> Inr w, s)"
  by (simp add: findWorkflowInOrgOrThrow_def action_simps)

lemma keeps_findWorkflow [keeps_intros]: "keeps P (findWorkflowInOrgOrThrow wid oid m)"
  by (simp add: keeps_def action_simps)

lemma reads_findWorkflow [read_intros]: "reads_only (findWorkflowInOrgOrThrow wid oid m)"
  unfolding findWorkflowInOrgOrThrow_def by (intro read_intros)

lemma findWorkflow_Inr_iff:
  "findWorkflowInOrgOrThrow wid oid m s = (Inr w, t) \<longleftrightarrow> workflow_in_org wid oid s = Some w \<and> t = s"
  by (auto simp: action_simps split: option.splits)

lemma workflow_in_org_Some:
  "workflow_in_org wid oid s = Some w \<Longrightarrow> wf_id w = wid \<and> wf_orgId w = oid \<and> w \<in> set (workflows s)"
  unfolding workflow_in_org_def by (drule find_Some_conv) auto

end
