(* ===== verification/SessionFsm.thy ===== *)
theory SessionFsm
  imports Platform
begin

text \<open>
  The session state machine of \<open>src/modules/sessions/session-fsm.ts\<close>: the table
  \<open>SESSION_TRANSITIONS\<close> as the list the code builds, and the two functions that search it. The
  table is compared with a transition function written by cases, and interpreted as an
  \<open>fsm\<close> for every session mode.
\<close>

datatype SessionFsmEvent =
    FIRST_USER_MESSAGE | AI_TASK_PUBLISHED | AI_RESULT_RECEIVED | AI_QUESTION_RECEIVED
  | USER_ANSWER_POSTED | DIVERGENCE_DETECTED | DIVERGENCE_RESOLVED | ENTER_REVIEW | VALIDATE
  | EXPORT_COMPLETED | USER_FINALIZES | PIPELINE_ERROR | USER_DELETES

fun session_fsm_event_str :: "SessionFsmEvent \<Rightarrow> string" where
  "session_fsm_event_str FIRST_USER_MESSAGE = ''first_user_message''"
| "session_fsm_event_str AI_TASK_PUBLISHED = ''ai_task_published''"
| "session_fsm_event_str AI_RESULT_RECEIVED = ''ai_result_received''"
| "session_fsm_event_str AI_QUESTION_RECEIVED = ''ai_question_received''"
| "session_fsm_event_str USER_ANSWER_POSTED = ''user_answer_posted''"
| "session_fsm_event_str DIVERGENCE_DETECTED = ''divergence_detected''"
| "session_fsm_event_str DIVERGENCE_RESOLVED = ''divergence_resolved''"
| "session_fsm_event_str ENTER_REVIEW = ''enter_review''"
| "session_fsm_event_str VALIDATE = ''validate''"
| "session_fsm_event_str EXPORT_COMPLETED = ''export_completed''"
| "session_fsm_event_str USER_FINALIZES = ''user_finalizes''"
| "session_fsm_event_str PIPELINE_ERROR = ''pipeline_error''"
| "session_fsm_event_str USER_DELETES = ''user_deletes''"

record TransitionRule =
  tr_from :: SessionStatus
  tr_event :: SessionFsmEvent
  tr_to :: SessionStatus
  tr_mode :: "SessionMode option"

abbreviation rule_any :: "SessionStatus \<Rightarrow> SessionFsmEvent \<Rightarrow> SessionStatus \<Rightarrow> TransitionRule" where
  "rule_any a e b \<equiv> \<lparr> tr_from = a, tr_event = e, tr_to = b, tr_mode = None \<rparr>"

text \<open>\<open>Object.values(SessionStatus)\<close>.\<close>

definition all_session_statuses :: "SessionStatus list" where
  "all_session_statuses =
     [SessionStatus.CREATED, SessionStatus.AWAITING_INPUT, SessionStatus.PROCESSING,
      SessionStatus.DRAFT_READY, SessionStatus.NEEDS_RECONCILIATION,
      SessionStatus.IN_ELICITATION, SessionStatus.IN_REVIEW, SessionStatus.VALIDATED,
      SessionStatus.EXPORTED, SessionStatus.ARCHIVED, SessionStatus.ERROR]"

definition SESSION_TRANSITIONS :: "TransitionRule list" where
  "SESSION_TRANSITIONS =
     [rule_any SessionStatus.CREATED FIRST_USER_MESSAGE SessionStatus.AWAITING_INPUT,
      rule_any SessionStatus.AWAITING_INPUT AI_TASK_PUBLISHED SessionStatus.PROCESSING,
      rule_any SessionStatus.PROCESSING AI_RESULT_RECEIVED SessionStatus.DRAFT_READY,
      \<lparr> tr_from = SessionStatus.PROCESSING, tr_event = AI_QUESTION_RECEIVED,
        tr_to = SessionStatus.IN_ELICITATION, tr_mode = Some INTERACTIVE \<rparr>,
      rule_any SessionStatus.IN_ELICITATION USER_ANSWER_POSTED SessionStatus.PROCESSING,
      rule_any SessionStatus.IN_ELICITATION AI_TASK_PUBLISHED SessionStatus.PROCESSING,
      rule_any SessionStatus.DRAFT_READY AI_TASK_PUBLISHED SessionStatus.PROCESSING,
      rule_any SessionStatus.DRAFT_READY AI_RESULT_RECEIVED SessionStatus.DRAFT_READY,
      rule_any SessionStatus.DRAFT_READY DIVERGENCE_DETECTED SessionStatus.NEEDS_RECONCILIATION,
      rule_any SessionStatus.NEEDS_RECONCILIATION DIVERGENCE_RESOLVED SessionStatus.DRAFT_READY,
      rule_any SessionStatus.DRAFT_READY ENTER_REVIEW SessionStatus.IN_REVIEW,
      rule_any SessionStatus.IN_REVIEW VALIDATE SessionStatus.VALIDATED,
      rule_any SessionStatus.VALIDATED EXPORT_COMPLETED SessionStatus.EXPORTED] @
     map (\<lambda>from. rule_any from USER_FINALIZES SessionStatus.DRAFT_READY)
       [SessionStatus.CREATED, SessionStatus.AWAITING_INPUT, SessionStatus.PROCESSING,
        SessionStatus.IN_ELICITATION, SessionStatus.DRAFT_READY,
        SessionStatus.NEEDS_RECONCILIATION, SessionStatus.IN_REVIEW] @
     map (\<lambda>from. rule_any from PIPELINE_ERROR SessionStatus.ERROR) all_session_statuses @
     map (\<lambda>from. rule_any from USER_DELETES SessionStatus.ARCHIVED) all_session_statuses"

definition transitionSessionStatus ::
    "SessionStatus \<Rightarrow> SessionFsmEvent \<Rightarrow> SessionMode option \<Rightarrow> exn + SessionStatus" where
  "transitionSessionStatus from event mode =
     (case find (\<lambda>c. tr_from c = from \<and> tr_event c = event \<and>
                     (tr_mode c = None \<or> tr_mode c = mode)) SESSION_TRANSITIONS of
        None \<Rightarrow> Inl (Unprocessable (''Invalid session transition: '' @ session_status_str from @
                  '' + '' @ session_fsm_event_str event))
      | Some rule \<Rightarrow> Inr (tr_to rule))"

definition canTransitionTo ::
    "SessionStatus \<Rightarrow> SessionStatus \<Rightarrow> SessionMode option \<Rightarrow> bool" where
  "canTransitionTo from to mode \<longleftrightarrow>
     list_ex (\<lambda>c. tr_from c = from \<and> tr_to c = to \<and> (tr_mode c = None \<or> tr_mode c = mode))
       SESSION_TRANSITIONS"

section \<open>The table against a transition function by cases\<close>

fun session_step :: "SessionMode option \<Rightarrow> SessionStatus \<Rightarrow> SessionFsmEvent \<Rightarrow> SessionStatus option" where
  "session_step m a FIRST_USER_MESSAGE =
     (if a \<in> {SessionStatus.CREATED} then Some SessionStatus.AWAITING_INPUT else None)"
| "session_step m a AI_TASK_PUBLISHED =
     (if a \<in> {SessionStatus.AWAITING_INPUT, SessionStatus.IN_ELICITATION, SessionStatus.DRAFT_READY} then Some SessionStatus.PROCESSING else None)"
| "session_step m a AI_RESULT_RECEIVED =
     (if a \<in> {SessionStatus.PROCESSING, SessionStatus.DRAFT_READY} then Some SessionStatus.DRAFT_READY else None)"
| "session_step m a AI_QUESTION_RECEIVED =
     (if a = SessionStatus.PROCESSING \<and> m = Some INTERACTIVE
      then Some SessionStatus.IN_ELICITATION else None)"
| "session_step m a USER_ANSWER_POSTED =
     (if a \<in> {SessionStatus.IN_ELICITATION} then Some SessionStatus.PROCESSING else None)"
| "session_step m a DIVERGENCE_DETECTED =
     (if a \<in> {SessionStatus.DRAFT_READY} then Some SessionStatus.NEEDS_RECONCILIATION else None)"
| "session_step m a DIVERGENCE_RESOLVED =
     (if a \<in> {SessionStatus.NEEDS_RECONCILIATION} then Some SessionStatus.DRAFT_READY else None)"
| "session_step m a ENTER_REVIEW =
     (if a \<in> {SessionStatus.DRAFT_READY} then Some SessionStatus.IN_REVIEW else None)"
| "session_step m a VALIDATE =
     (if a \<in> {SessionStatus.IN_REVIEW} then Some SessionStatus.VALIDATED else None)"
| "session_step m a EXPORT_COMPLETED =
     (if a \<in> {SessionStatus.VALIDATED} then Some SessionStatus.EXPORTED else None)"
| "session_step m a USER_FINALIZES =
     (if a \<in> {SessionStatus.VALIDATED, SessionStatus.EXPORTED, SessionStatus.ARCHIVED,
              SessionStatus.ERROR}
      then None else Some SessionStatus.DRAFT_READY)"
| "session_step m a PIPELINE_ERROR = Some SessionStatus.ERROR"
| "session_step m a USER_DELETES = Some SessionStatus.ARCHIVED"

lemma find_transition:
  "map_option tr_to
     (find (\<lambda>c. tr_from c = a \<and> tr_event c = e \<and> (tr_mode c = None \<or> tr_mode c = m))
        SESSION_TRANSITIONS) = session_step m a e"
  unfolding SESSION_TRANSITIONS_def all_session_statuses_def
  by (cases e; simp; cases a; simp)

text \<open>C1: the searched table is exactly the transition function by cases, and a missing
  transition is the 422 error that names the status and the event.\<close>

theorem transition_table_correct:
  "transitionSessionStatus a e m =
     (case session_step m a e of
        None \<Rightarrow> Inl (Unprocessable (''Invalid session transition: '' @ session_status_str a @
                  '' + '' @ session_fsm_event_str e))
      | Some b \<Rightarrow> Inr b)"
  by (simp add: transitionSessionStatus_def find_transition [symmetric] split: option.split)

lemma transition_Inr_iff:
  "transitionSessionStatus a e m = Inr b \<longleftrightarrow> session_step m a e = Some b"
  by (auto simp: transitionSessionStatus_def find_transition [symmetric] split: option.splits)

lemma transition_Inl_iff:
  "(\<exists>x. transitionSessionStatus a e m = Inl x) \<longleftrightarrow> session_step m a e = None"
  by (auto simp: transitionSessionStatus_def find_transition [symmetric] split: option.splits)

text \<open>No two applicable entries of the table disagree, so the order of the table is irrelevant.\<close>

lemma transitions_deterministic:
  assumes "c \<in> set SESSION_TRANSITIONS" and "tr_mode c = None \<or> tr_mode c = m"
  shows "session_step m (tr_from c) (tr_event c) = Some (tr_to c)"
proof -
  have "\<forall>c \<in> set SESSION_TRANSITIONS. tr_mode c = None \<or> tr_mode c = m \<longrightarrow>
          session_step m (tr_from c) (tr_event c) = Some (tr_to c)"
    unfolding SESSION_TRANSITIONS_def all_session_statuses_def by simp
  with assms show ?thesis by blast
qed

lemma canTransitionTo_step:
  "canTransitionTo a b m \<longleftrightarrow> (\<exists>e. session_step m a e = Some b)"
proof
  assume "canTransitionTo a b m"
  then show "\<exists>e. session_step m a e = Some b"
    using transitions_deterministic by (auto simp: canTransitionTo_def list_ex_iff)
next
  assume "\<exists>e. session_step m a e = Some b"
  then show "canTransitionTo a b m"
    by (auto simp: find_transition [symmetric] canTransitionTo_def list_ex_iff dest!: find_Some_conv)
qed

interpretation ses_fsm: fsm "session_step m" "\<lambda>a b. canTransitionTo a b m"
  for m
  by unfold_locales (rule canTransitionTo_step)

text \<open>\<open>canTransitionTo\<close>, which the admin override consults, says yes exactly when some
  event makes \<open>transitionSessionStatus\<close> return that status: no override is refused that an
  event could make, and none is allowed that no event makes.\<close>

theorem can_transition_iff_some_event:
  "canTransitionTo a b m \<longleftrightarrow> (\<exists>e. transitionSessionStatus a e m = Inr b)"
  by (simp add: canTransitionTo_step transition_Inr_iff)

section \<open>Reachable statuses\<close>

lemma reach_by: "ses_fsm.run m a es = Some b \<Longrightarrow> (\<lambda>a b. canTransitionTo a b m)\<^sup>*\<^sup>* a b"
  by (rule ses_fsm.run_reaches)

lemma reach_from_created:
  assumes "b \<noteq> SessionStatus.IN_ELICITATION \<or> m = Some INTERACTIVE"
  shows "(\<lambda>a b. canTransitionTo a b m)\<^sup>*\<^sup>* SessionStatus.CREATED b"
proof (cases b)
  case CREATED then show ?thesis by simp
next
  case AWAITING_INPUT then show ?thesis
    by (intro reach_by [where es = "[FIRST_USER_MESSAGE]"]) simp
next
  case PROCESSING then show ?thesis
    by (intro reach_by [where es = "[FIRST_USER_MESSAGE, AI_TASK_PUBLISHED]"]) simp
next
  case DRAFT_READY then show ?thesis
    by (intro reach_by [where es = "[USER_FINALIZES]"]) simp
next
  case NEEDS_RECONCILIATION then show ?thesis
    by (intro reach_by [where es = "[USER_FINALIZES, DIVERGENCE_DETECTED]"]) simp
next
  case IN_ELICITATION with assms show ?thesis
    by (intro reach_by [where es = "[FIRST_USER_MESSAGE, AI_TASK_PUBLISHED, AI_QUESTION_RECEIVED]"])
       simp
next
  case IN_REVIEW then show ?thesis
    by (intro reach_by [where es = "[USER_FINALIZES, ENTER_REVIEW]"]) simp
next
  case VALIDATED then show ?thesis
    by (intro reach_by [where es = "[USER_FINALIZES, ENTER_REVIEW, VALIDATE]"]) simp
next
  case EXPORTED then show ?thesis
    by (intro reach_by [where es = "[USER_FINALIZES, ENTER_REVIEW, VALIDATE, EXPORT_COMPLETED]"])
       simp
next
  case ARCHIVED then show ?thesis
    by (intro reach_by [where es = "[USER_DELETES]"]) simp
next
  case ERROR then show ?thesis
    by (intro reach_by [where es = "[PIPELINE_ERROR]"]) simp
qed

lemma step_elicitation: "session_step m a e = Some SessionStatus.IN_ELICITATION \<Longrightarrow> m = Some INTERACTIVE"
  by (cases e) (auto split: if_splits)

lemma reach_closed:
  assumes "(\<lambda>a b. canTransitionTo a b m)\<^sup>*\<^sup>* a b" and "a \<in> S"
    and "\<And>x e y. x \<in> S \<Longrightarrow> session_step m x e = Some y \<Longrightarrow> y \<in> S"
  shows "b \<in> S"
  using assms(1,2) by (induction rule: rtranclp_induct) (auto simp: canTransitionTo_step dest: assms(3))

text \<open>The statuses a new session can reach are all of them in interactive mode, and all but
  elicitation in automatic mode.\<close>

theorem reachable_statuses:
  "{b. (\<lambda>a b. canTransitionTo a b m)\<^sup>*\<^sup>* SessionStatus.CREATED b} =
     (if m = Some INTERACTIVE then UNIV else UNIV - {SessionStatus.IN_ELICITATION})"
proof (cases "m = Some INTERACTIVE")
  case True
  then show ?thesis using reach_from_created by auto
next
  case False
  then have "b \<noteq> SessionStatus.IN_ELICITATION"
    if "(\<lambda>a b. canTransitionTo a b m)\<^sup>*\<^sup>* SessionStatus.CREATED b" for b
    using reach_closed [OF that, of "UNIV - {SessionStatus.IN_ELICITATION}"] step_elicitation by auto
  with False show ?thesis using reach_from_created by auto
qed

lemma step_settled:
  "a \<in> {SessionStatus.EXPORTED, SessionStatus.ARCHIVED, SessionStatus.ERROR} \<Longrightarrow>
   session_step m a e = Some b \<Longrightarrow> b \<in> {SessionStatus.ARCHIVED, SessionStatus.ERROR}"
  by (cases e) (auto split: if_splits)

lemma step_validated:
  "session_step m SessionStatus.VALIDATED e = Some b \<Longrightarrow>
   b \<in> {SessionStatus.EXPORTED, SessionStatus.ARCHIVED, SessionStatus.ERROR}"
  by (cases e) (auto split: if_splits)

text \<open>validation is final: from a validated session the machine reaches the export, the
  archive and the error status and nothing else, so no event brings a validated session back
  into editing, processing or review.\<close>

theorem validated_is_final:
  "{b. (\<lambda>a b. canTransitionTo a b m)\<^sup>*\<^sup>* SessionStatus.VALIDATED b} =
     {SessionStatus.VALIDATED, SessionStatus.EXPORTED, SessionStatus.ARCHIVED, SessionStatus.ERROR}"
    (is "?R = ?S")
proof
  show "?R \<subseteq> ?S"
    using reach_closed [of m SessionStatus.VALIDATED _ ?S] step_settled step_validated
    by (auto; blast)
  show "?S \<subseteq> ?R"
    using reach_by [of m SessionStatus.VALIDATED "[EXPORT_COMPLETED]"]
      reach_by [of m SessionStatus.VALIDATED "[USER_DELETES]"]
      reach_by [of m SessionStatus.VALIDATED "[PIPELINE_ERROR]"]
    by simp
qed

end
