(* ===== verification/Workflows.thy ===== *)
theory Workflows
  imports Platform
begin

text \<open>
  Workflows and their versions: \<open>src/modules/workflows/workflows.service.ts\<close>. The tables are those of
  \<open>core\<close>; the trigger \<open>trg_enforce_workflow_current_version\<close> is a check of every write to
  \<open>current_version\<close>.
\<close>

section \<open>The tables\<close>

definition versions_of :: "uuid \<Rightarrow> 'z core_scheme \<Rightarrow> workflow_version list" where
  "versions_of wid s = filter (\<lambda>v. wv_workflowId v = wid) (workflow_versions s)"

definition latest_version :: "uuid \<Rightarrow> 'z core_scheme \<Rightarrow> workflow_version option" where
  "latest_version wid s = first_row (sort_desc wv_versionNumber (versions_of wid s))"

text \<open>\<open>COALESCE(MAX(version_number), 0)\<close>.\<close>

definition max_version :: "uuid \<Rightarrow> 'z core_scheme \<Rightarrow> int" where
  "max_version wid s = (case latest_version wid s of None \<Rightarrow> 0 | Some v \<Rightarrow> wv_versionNumber v)"

definition insert_workflow :: "workflow \<Rightarrow> ('z core_scheme, workflow) action" where
  "insert_workflow w =
     await gen_uuid (\<lambda>i.
     await current_time (\<lambda>t.
     let saved = w\<lparr>wf_id := i, wf_createdAt := t, wf_updatedAt := t\<rparr> in
     await (reads (\<lambda>s. i \<notin> wf_id ` set (workflows s))) (\<lambda>fresh.
     await (require fresh (QueryFailed ''workflow_pkey'')) (\<lambda>_.
     await (reads (max_version i)) (\<lambda>m.
     await (require (wf_currentVersion w \<le> m) (QueryFailed ''enforce_workflow_current_version'')) (\<lambda>_.
     await (writes (workflows_update (\<lambda>l. l @ [saved]))) (\<lambda>_. ok saved)))))))"

text \<open>\<open>save\<close> of a workflow that was read; the trigger runs when \<open>current_version\<close> is written.\<close>

definition save_workflow :: "workflow \<Rightarrow> ('z core_scheme, workflow) action" where
  "save_workflow w =
     await current_time (\<lambda>t.
     await (reads (\<lambda>s. wf_currentVersion w \<le> max_version (wf_id w) s \<or>
       map_option wf_currentVersion (find_row wf_id (wf_id w) (workflows s)) = Some (wf_currentVersion w))) (\<lambda>fine.
     await (require fine (QueryFailed ''enforce_workflow_current_version'')) (\<lambda>_.
     await (writes (workflows_update (save_row wf_id (w\<lparr>wf_updatedAt := t\<rparr>)))) (\<lambda>_.
     ok (w\<lparr>wf_updatedAt := t\<rparr>)))))"

record new_version =
  nv_workflowId :: uuid
  nv_versionNumber :: int
  nv_elementsJson :: json
  nv_elsaJson :: "json option"
  nv_confidenceScore :: "rat option"
  nv_createdBy :: "uuid option"

definition version_row :: "uuid \<Rightarrow> time \<Rightarrow> new_version \<Rightarrow> workflow_version" where
  "version_row i t v = \<lparr> wv_id = i, wv_workflowId = nv_workflowId v, wv_versionNumber = nv_versionNumber v,
     wv_elementsJson = nv_elementsJson v, wv_elsaJson = nv_elsaJson v, wv_confidenceScore = nv_confidenceScore v,
     wv_createdBy = nv_createdBy v, wv_createdAt = t \<rparr>"

definition insert_version :: "new_version \<Rightarrow> ('z core_scheme, workflow_version) action" where
  "insert_version v =
     await gen_uuid (\<lambda>i.
     await current_time (\<lambda>t.
     await (reads (\<lambda>s. nv_workflowId v \<in> wf_id ` set (workflows s))) (\<lambda>known.
     await (require known (QueryFailed ''workflow_version_workflow_id_fkey'')) (\<lambda>_.
     await (reads (\<lambda>s. nv_versionNumber v \<in> wv_versionNumber ` set (versions_of (nv_workflowId v) s))) (\<lambda>clash.
     await (require (\<not> clash) (QueryFailed ''uq_workflow_version_number'')) (\<lambda>_.
     await (writes (workflow_versions_update (\<lambda>l. l @ [version_row i t v]))) (\<lambda>_.
     ok (version_row i t v))))))))"

section \<open>The service\<close>

definition find_workflow :: "uuid \<Rightarrow> uuid \<Rightarrow> ('z core_scheme, workflow) action" where
  "find_workflow i org = findWorkflowInOrgOrThrow i org (''Workflow '' @ i @ '' not found'')"

record create_workflow_dto =
  cw_projectId :: uuid
  cw_title :: string
  cw_description :: "string option"
  cw_domain :: "string option"
  cw_tags :: "string list option"

definition blank_workflow :: "uuid \<Rightarrow> uuid \<Rightarrow> workflow" where
  "blank_workflow org owner = \<lparr> wf_id = [], wf_title = [], wf_description = None, wf_status = WorkflowStatus.DRAFT,
     wf_currentVersion = 0, wf_orgId = org, wf_ownerId = owner, wf_projectId = None, wf_domain = None,
     wf_tags = [], wf_shareToken = None, wf_shareExpiresAt = None, wf_shareMaxViews = None,
     wf_shareViewCount = 0, wf_createdAt = 0, wf_updatedAt = 0 \<rparr>"

text \<open>A new workflow gets its first version, and then says so.\<close>

definition add_workflow ::
    "workflow \<Rightarrow> json \<Rightarrow> json option \<Rightarrow> uuid \<Rightarrow> ('z core_scheme, workflow) action" where
  "add_workflow w elements elsa owner =
     await (insert_workflow w) (\<lambda>saved.
     await (insert_version \<lparr> nv_workflowId = wf_id saved, nv_versionNumber = 1, nv_elementsJson = elements,
              nv_elsaJson = elsa, nv_confidenceScore = None, nv_createdBy = Some owner \<rparr>) (\<lambda>_.
     save_workflow (saved\<lparr>wf_currentVersion := 1\<rparr>)))"

definition createWorkflow :: "create_workflow_dto \<Rightarrow> uuid \<Rightarrow> uuid \<Rightarrow> ('z core_scheme, workflow) action" where
  "createWorkflow dto org owner =
     await (add_workflow ((blank_workflow org owner)\<lparr>wf_title := cw_title dto, wf_description := cw_description dto,
              wf_domain := cw_domain dto, wf_tags := (case cw_tags dto of None \<Rightarrow> [] | Some t \<Rightarrow> t),
              wf_projectId := Some (cw_projectId dto)\<rparr>) (JObj []) None owner) (\<lambda>saved.
     await (audit (Some (wf_id saved)) (Some owner) ActorType.USER ''WORKFLOW_CREATED'' None JNull
              (JObj [(''title'', JStr (wf_title saved)), (''status'', JStr (workflow_status_str (wf_status saved)))])) (\<lambda>_.
     find_workflow (wf_id saved) org))"

text \<open>\<open>ILIKE\<close>: a percent sign stands for any text, an underscore for one character, a backslash escapes.\<close>

fun like :: "string \<Rightarrow> string \<Rightarrow> bool" where
  "like [] s \<longleftrightarrow> s = []"
| "like (p # ps) [] \<longleftrightarrow> p = CHR ''%'' \<and> like ps []"
| "like (p # ps) (c # cs) \<longleftrightarrow>
     (if p = CHR ''%'' then like ps (c # cs) \<or> like (p # ps) cs
      else if p = CHR ''_'' then like ps cs
      else if p = CHR 0x5C then ps \<noteq> [] \<and> hd ps = c \<and> like (tl ps) cs
      else p = c \<and> like ps cs)"

definition ilike :: "string \<Rightarrow> string \<Rightarrow> bool" where
  "ilike text pattern = like (js_lower pattern) (js_lower text)"

record workflow_filter =
  wq_status :: "WorkflowStatus option"
  wq_domain :: "string option"
  wq_tags :: "string list option"
  wq_projectId :: "uuid option"
  wq_search :: "string option"
  wq_page :: "int option"
  wq_limit :: "int option"

fun given :: "string option \<Rightarrow> (string \<Rightarrow> bool) \<Rightarrow> bool" where
  "given (Some (c # cs)) f = f (c # cs)"
| "given _ f = True"

definition workflow_matches :: "workflow_filter \<Rightarrow> uuid \<Rightarrow> workflow \<Rightarrow> bool" where
  "workflow_matches f org w \<longleftrightarrow> wf_orgId w = org \<and> wf_status w \<noteq> WorkflowStatus.ARCHIVED \<and>
     (case wq_status f of None \<Rightarrow> True | Some x \<Rightarrow> wf_status w = x) \<and>
     given (wq_domain f) (\<lambda>d. wf_domain w = Some d) \<and>
     (case wq_tags f of Some (t # ts) \<Rightarrow> list_ex (\<lambda>x. x \<in> set (wf_tags w)) (t # ts) | _ \<Rightarrow> True) \<and>
     given (wq_projectId f) (\<lambda>p. wf_projectId w = Some p) \<and>
     given (wq_search f) (\<lambda>q. let pattern = ''%'' @ q @ ''%'' in ilike (wf_title w) pattern \<or>
       (case wf_description w of None \<Rightarrow> False | Some d \<Rightarrow> ilike d pattern))"

text \<open>A limit of 0 is none.\<close>

definition page_of :: "int \<Rightarrow> int \<Rightarrow> 'a list \<Rightarrow> 'a list" where
  "page_of page limit xs = (let rest = drop (nat ((page - 1) * limit)) xs
     in if limit = 0 then rest else take (nat limit) rest)"

definition findAllWorkflows ::
    "workflow_filter \<Rightarrow> uuid \<Rightarrow> ('z core_scheme, workflow list \<times> nat) action" where
  "findAllWorkflows f org =
     (let page = (case wq_page f of None \<Rightarrow> 1 | Some p \<Rightarrow> p);
          limit = (case wq_limit f of None \<Rightarrow> 20 | Some l \<Rightarrow> l) in
      await (require (0 \<le> limit \<and> 0 \<le> (page - 1) * limit) (QueryFailed ''LIMIT or OFFSET must not be negative'')) (\<lambda>_.
      reads (\<lambda>s. let found = filter (workflow_matches f org) (workflows s)
        in (page_of page limit (sort_desc wf_updatedAt found), length found))))"

definition findOneWithLatestVersion ::
    "uuid \<Rightarrow> uuid \<Rightarrow> ('z core_scheme, workflow \<times> workflow_version option) action" where
  "findOneWithLatestVersion i org =
     await (find_workflow i org) (\<lambda>w. await (reads (latest_version i)) (\<lambda>v. ok (w, v)))"

text \<open>A field that may be \<open>null\<close> is \<open>None\<close> when it is missing.\<close>

record update_workflow_dto =
  uw_title :: "string option"
  uw_description :: "string option option"
  uw_domain :: "string option option"
  uw_tags :: "string list option"
  uw_status :: "WorkflowStatus option"
  uw_elements_json :: "json option"
  uw_source :: "string option"

fun truthy :: "json \<Rightarrow> bool" where
  "truthy JNull = False"
| "truthy (JBool b) = b"
| "truthy (JNum n) = (n \<noteq> 0)"
| "truthy (JStr s) = (s \<noteq> [])"
| "truthy _ = True"

definition update_default :: "'a \<Rightarrow> 'a option \<Rightarrow> 'a" where
  "update_default d x = (case x of None \<Rightarrow> d | Some y \<Rightarrow> y)"

definition edited_workflow :: "update_workflow_dto \<Rightarrow> workflow \<Rightarrow> workflow" where
  "edited_workflow dto w = w\<lparr>wf_title := (case uw_title dto of Some (c # cs) \<Rightarrow> c # cs | _ \<Rightarrow> wf_title w),
     wf_description := update_default (wf_description w) (uw_description dto),
     wf_domain := update_default (wf_domain w) (uw_domain dto),
     wf_tags := update_default (wf_tags w) (uw_tags dto),
     wf_status := update_default (wf_status w) (uw_status dto)\<rparr>"

definition workflow_shape :: "workflow \<Rightarrow> json" where
  "workflow_shape w = JObj [(''title'', JStr (wf_title w)), (''status'', JStr (workflow_status_str (wf_status w))),
     (''currentVersion'', json_int (wf_currentVersion w))]"

definition may_manage :: "workflow \<Rightarrow> uuid \<Rightarrow> string \<Rightarrow> bool" where
  "may_manage w caller role \<longleftrightarrow> wf_ownerId w = caller \<or> role = ''admin''"

text \<open>The transaction that adds a version: it counts from what the table says.\<close>

definition add_version :: "uuid \<Rightarrow> json \<Rightarrow> uuid \<Rightarrow> ('z core_scheme, unit) action" where
  "add_version i elements caller =
     await (reads (\<lambda>s. case find_row wf_id i (workflows s) of None \<Rightarrow> 0 | Some w \<Rightarrow> wf_currentVersion w)) (\<lambda>current.
     await (insert_version \<lparr> nv_workflowId = i, nv_versionNumber = current + 1, nv_elementsJson = elements,
              nv_elsaJson = None, nv_confidenceScore = None, nv_createdBy = Some caller \<rparr>) (\<lambda>_.
     await (reads (\<lambda>s. current + 1 \<le> max_version i s)) (\<lambda>fine.
     await (require fine (QueryFailed ''enforce_workflow_current_version'')) (\<lambda>_.
     await current_time (\<lambda>t.
     writes (workflows_update (update_where (\<lambda>w. wf_id w = i)
       (\<lambda>w. w\<lparr>wf_currentVersion := current + 1, wf_updatedAt := t\<rparr>))))))))"

definition updateWorkflow ::
    "uuid \<Rightarrow> update_workflow_dto \<Rightarrow> uuid \<Rightarrow> uuid \<Rightarrow> string \<Rightarrow> ('z core_scheme, workflow) action" where
  "updateWorkflow i dto org caller role =
     await (find_workflow i org) (\<lambda>w.
     await (require (may_manage w caller role) (Forbidden ''Only owner or admin can update this workflow'')) (\<lambda>_.
     let edited = edited_workflow dto w;
         versioned = (case uw_elements_json dto of None \<Rightarrow> False | Some e \<Rightarrow> truthy e) in
     await (if versioned then transaction (add_version i (the (uw_elements_json dto)) caller) else ok ()) (\<lambda>_.
     await (save_workflow (if versioned then edited\<lparr>wf_currentVersion := wf_currentVersion w + 1\<rparr> else edited)) (\<lambda>saved.
     await (audit (Some i) (Some caller) ActorType.USER
              (if versioned then ''WORKFLOW_VERSION_CREATED'' else ''WORKFLOW_UPDATED'') None
              (workflow_shape w) (workflow_shape saved)) (\<lambda>_.
     await (if versioned
            then await gen_uuid (\<lambda>c. nats_publish ''workflow.events.updated''
              (JObj [(''workflow_id'', JStr i), (''version_number'', json_int (wf_currentVersion saved)),
                (''changed_elements'', JArr []), (''source'', JStr (update_default ''user'' (uw_source dto))),
                (''correlation_id'', JStr c)]) (c @ '':workflow.events.updated:''))
            else ok ()) (\<lambda>_.
     find_workflow i org))))))"

definition archiveWorkflow :: "uuid \<Rightarrow> uuid \<Rightarrow> uuid \<Rightarrow> string \<Rightarrow> ('z core_scheme, workflow) action" where
  "archiveWorkflow i org caller role =
     await (find_workflow i org) (\<lambda>w.
     await (require (may_manage w caller role) (Forbidden ''Only owner or admin can archive this workflow'')) (\<lambda>_.
     await (save_workflow (w\<lparr>wf_status := WorkflowStatus.ARCHIVED\<rparr>)) (\<lambda>saved.
     await (audit (Some i) (Some caller) ActorType.USER ''WORKFLOW_ARCHIVED'' None
              (JObj [(''status'', JStr (workflow_status_str (wf_status w)))])
              (JObj [(''status'', JStr (workflow_status_str WorkflowStatus.ARCHIVED))])) (\<lambda>_.
     ok saved))))"

definition findVersions :: "uuid \<Rightarrow> uuid \<Rightarrow> ('z core_scheme, workflow_version list) action" where
  "findVersions i org = await (find_workflow i org) (\<lambda>_. reads (\<lambda>s. sort_desc wv_versionNumber (versions_of i s)))"

definition version_numbered :: "uuid \<Rightarrow> int \<Rightarrow> 'z core_scheme \<Rightarrow> workflow_version option" where
  "version_numbered i n s = find (\<lambda>v. wv_versionNumber v = n) (versions_of i s)"

definition findVersion :: "uuid \<Rightarrow> int \<Rightarrow> uuid \<Rightarrow> ('z core_scheme, workflow_version) action" where
  "findVersion i n org =
     await (find_workflow i org) (\<lambda>_.
     await (reads (version_numbered i n)) (\<lambda>v.
     some_or_throw v (NotFound (''Version '' @ int_str n @ '' not found for workflow '' @ i))))"

section \<open>Differences\<close>

text \<open>
  An element is found by its \<open>id\<close>; \<open>None\<close> is \<open>undefined\<close>. A \<open>Set\<close> compares objects by identity, and
  those of two versions are never the same. Reading a property of \<open>null\<close> throws.
\<close>

definition extractElements :: "json \<Rightarrow> json list" where
  "extractElements j = (case get_prop j ''elements'' of Some (JArr es) \<Rightarrow> es | _ \<Rightarrow> [])"

definition element_id :: "json \<Rightarrow> json option" where
  "element_id e = get_prop e ''id''"

fun is_reference :: "json option \<Rightarrow> bool" where
  "is_reference (Some (JArr _)) = True"
| "is_reference (Some (JObj _)) = True"
| "is_reference _ = False"

definition same_id :: "json \<Rightarrow> json \<Rightarrow> bool" where
  "same_id a b \<longleftrightarrow> element_id a = element_id b \<and> \<not> is_reference (element_id a)"

definition has_id :: "json list \<Rightarrow> json \<Rightarrow> bool" where
  "has_id es e = list_ex (same_id e) es"

record workflow_diff =
  wd_added :: "json list"
  wd_removed :: "json list"
  wd_modified :: "json list"

definition diff_elements :: "json list \<Rightarrow> json list \<Rightarrow> workflow_diff" where
  "diff_elements es1 es2 = \<lparr> wd_added = filter (\<lambda>e. \<not> has_id es1 e) es2,
     wd_removed = filter (\<lambda>e. \<not> has_id es2 e) es1,
     wd_modified = filter (\<lambda>e. has_id es1 e \<and> find (same_id e) es1 \<noteq> Some e) es2 \<rparr>"

definition computeDiff :: "uuid \<Rightarrow> int \<Rightarrow> int \<Rightarrow> uuid \<Rightarrow> ('z core_scheme, workflow_diff) action" where
  "computeDiff i n1 n2 org =
     await (find_workflow i org) (\<lambda>_.
     await (reads (\<lambda>s. (version_numbered i n1 s, version_numbered i n2 s))) (\<lambda>(v1, v2).
     await (require (v1 \<noteq> None \<and> v2 \<noteq> None) (NotFound ''One or both versions not found'')) (\<lambda>_.
     let es1 = extractElements (wv_elementsJson (the v1)); es2 = extractElements (wv_elementsJson (the v2)) in
     await (require (JNull \<notin> set es1 \<and> JNull \<notin> set es2) (TypeErr ''Cannot read properties of null'')) (\<lambda>_.
     ok (diff_elements es1 es2)))))"

definition duplicateWorkflow ::
    "uuid \<Rightarrow> uuid \<Rightarrow> uuid \<Rightarrow> string option \<Rightarrow> ('z core_scheme, workflow) action" where
  "duplicateWorkflow i org owner title =
     await (find_workflow i org) (\<lambda>w.
     await (reads (latest_version i)) (\<lambda>v.
     await (add_workflow ((blank_workflow org owner)\<lparr>wf_title := update_default (''Copy of '' @ wf_title w) title,
              wf_description := wf_description w, wf_domain := wf_domain w, wf_tags := wf_tags w\<rparr>)
              (case v of None \<Rightarrow> JObj [] | Some v \<Rightarrow> if wv_elementsJson v = JNull then JObj [] else wv_elementsJson v)
              (case v of None \<Rightarrow> None | Some v \<Rightarrow> wv_elsaJson v) owner) (\<lambda>saved.
     find_workflow (wf_id saved) org)))"

definition list_field :: "json \<Rightarrow> string \<Rightarrow> json" where
  "list_field j k = (case get_prop j k of None \<Rightarrow> JArr [] | Some v \<Rightarrow> if v = JNull then JArr [] else v)"

definition getDiagramData :: "uuid \<Rightarrow> uuid \<Rightarrow> ('z core_scheme, json \<times> json) action" where
  "getDiagramData i org =
     await (find_workflow i org) (\<lambda>_.
     reads (\<lambda>s. let j = (case latest_version i s of None \<Rightarrow> JObj [] | Some v \<Rightarrow> wv_elementsJson v)
       in (list_field j ''nodes'', list_field j ''edges'')))"

end
