(* ===== verification/Entities.thy ===== *)
theory Entities
  imports Platform
begin

text \<open>
  The tables the services around a session share: messages and documents, skills, the executions
  of the AI pipeline with their logs and dead letters, the knowledge graph with its snapshots and
  the reports that compare them (entities of \<open>src/modules\<close>).
\<close>

section \<open>Enumerations\<close>

datatype MessageRole = USER | AI | SYSTEM

datatype MessageType =
    USER_INPUT | AI_QUESTION | AI_RESPONSE | AI_SUMMARY | AI_UPDATE | AI_CONFIDENCE_REPORT
  | SYSTEM_NOTE | SYSTEM_STATUS

fun message_type_str :: "MessageType \<Rightarrow> string" where
  "message_type_str USER_INPUT = ''user_input''"
| "message_type_str AI_QUESTION = ''ai_question''"
| "message_type_str AI_RESPONSE = ''ai_response''"
| "message_type_str AI_SUMMARY = ''ai_summary''"
| "message_type_str AI_UPDATE = ''ai_update''"
| "message_type_str AI_CONFIDENCE_REPORT = ''ai_confidence_report''"
| "message_type_str SYSTEM_NOTE = ''system_note''"
| "message_type_str SYSTEM_STATUS = ''system_status''"

datatype AgentExecutionStatus = PENDING | RUNNING | COMPLETED | FAILED | SKIPPED

fun agent_execution_status_str :: "AgentExecutionStatus \<Rightarrow> string" where
  "agent_execution_status_str AgentExecutionStatus.PENDING = ''PENDING''"
| "agent_execution_status_str AgentExecutionStatus.RUNNING = ''RUNNING''"
| "agent_execution_status_str AgentExecutionStatus.COMPLETED = ''COMPLETED''"
| "agent_execution_status_str AgentExecutionStatus.FAILED = ''FAILED''"
| "agent_execution_status_str AgentExecutionStatus.SKIPPED = ''SKIPPED''"

datatype LogLevel = DEBUG | INFO | WARNING | ERROR

datatype SkillType =
    VOCABULARY | ARCHETYPE | FEW_SHOT_EXAMPLE | DOMAIN_KNOWLEDGE | ACTOR_CATALOG | PROMPT_TEMPLATE

fun skill_type_str :: "SkillType \<Rightarrow> string" where
  "skill_type_str VOCABULARY = ''VOCABULARY''"
| "skill_type_str ARCHETYPE = ''ARCHETYPE''"
| "skill_type_str FEW_SHOT_EXAMPLE = ''FEW_SHOT_EXAMPLE''"
| "skill_type_str DOMAIN_KNOWLEDGE = ''DOMAIN_KNOWLEDGE''"
| "skill_type_str ACTOR_CATALOG = ''ACTOR_CATALOG''"
| "skill_type_str PROMPT_TEMPLATE = ''PROMPT_TEMPLATE''"

datatype GraphType = INTENT | GENERATED | EXECUTED | RECONCILED

datatype GraphSource = AI_EXTRACTION | AI_GENERATION | ELSA_IMPORT | MANUAL_MERGE

datatype ComparisonType = INTENT_VS_GENERATED | GENERATED_VS_EXECUTED | INTENT_VS_EXECUTED

fun comparison_type_str :: "ComparisonType \<Rightarrow> string" where
  "comparison_type_str INTENT_VS_GENERATED = ''INTENT_VS_GENERATED''"
| "comparison_type_str GENERATED_VS_EXECUTED = ''GENERATED_VS_EXECUTED''"
| "comparison_type_str INTENT_VS_EXECUTED = ''INTENT_VS_EXECUTED''"

datatype DivergenceSeverity = NONE | LOW | MEDIUM | HIGH | CRITICAL

datatype DivergenceReportStatus = PENDING | RUNNING | COMPLETED | FAILED

section \<open>Entities\<close>

record message =
  msg_id :: uuid
  msg_sessionId :: uuid
  msg_role :: MessageRole
  msg_type :: MessageType
  msg_content :: string
  msg_metadata :: json
  msg_createdAt :: time
  msg_archivedAt :: "time option"

record document =
  doc_id :: uuid
  doc_workflowId :: "uuid option"
  doc_sessionId :: "uuid option"
  doc_filename :: string
  doc_fileType :: string
  doc_storageUrl :: string
  doc_fileSizeBytes :: int
  doc_extractedText :: "string option"
  doc_preprocessingConfidence :: "rat option"
  doc_docVersion :: int
  doc_deletedAt :: "time option"
  doc_createdAt :: time
  doc_archivedAt :: "time option"

record skill =
  sk_id :: uuid
  sk_orgId :: uuid
  sk_name :: string
  sk_description :: "string option"
  sk_skillType :: SkillType
  sk_content :: json
  sk_embedding :: "rat list option"
  sk_appliesToDomains :: "string list option"
  sk_appliesToAgents :: "AgentType list option"
  sk_isActive :: bool
  sk_isMandatory :: bool
  sk_usageCount :: int
  sk_version :: int
  sk_createdBy :: uuid
  sk_createdAt :: time
  sk_updatedAt :: time

record pipeline_execution =
  pe_id :: uuid
  pe_sessionId :: uuid
  pe_taskType :: PipelineTaskType
  pe_mode :: SessionMode
  pe_status :: PipelineStatus
  pe_inputPayload :: json
  pe_retryCount :: int
  pe_lastCheckpointAgent :: "AgentType option"
  pe_triggeredBy :: "uuid option"
  pe_natsMessageId :: "string option"
  pe_startedAt :: "time option"
  pe_completedAt :: "time option"
  pe_totalDurationMs :: "int option"
  pe_totalLlmCalls :: int
  pe_totalTokensConsumed :: int
  pe_finalConfidence :: "rat option"
  pe_errorSummary :: "string option"
  pe_createdAt :: time
  pe_archivedAt :: "time option"

record agent_execution =
  ae_id :: uuid
  ae_pipelineExecutionId :: uuid
  ae_agentDefinitionId :: uuid
  ae_status :: AgentExecutionStatus
  ae_orderIndex :: int
  ae_inputSnapshot :: "json option"
  ae_outputSnapshot :: "json option"
  ae_confidenceInput :: "rat option"
  ae_confidenceOutput :: "rat option"
  ae_llmCallsCount :: int
  ae_tokensConsumed :: int
  ae_errorMessage :: "string option"
  ae_durationMs :: "int option"
  ae_startedAt :: "time option"
  ae_completedAt :: "time option"
  ae_createdAt :: time

record agent_log =
  lg_id :: uuid
  lg_agentExecutionId :: uuid
  lg_logLevel :: LogLevel
  lg_message :: string
  lg_metadata :: json
  lg_createdAt :: time

record agent_definition =
  ad_id :: uuid
  ad_agentType :: AgentType
  ad_createdAt :: time

record dead_letter =
  dl_id :: uuid
  dl_subject :: string
  dl_payload :: json
  dl_reason :: string
  dl_deliveryCount :: int
  dl_lastError :: "string option"
  dl_createdAt :: time

record kg_node =
  kn_id :: uuid
  kn_sessionId :: uuid
  kn_type :: string
  kn_label :: string
  kn_inferred :: bool

record kg_edge =
  ke_id :: uuid
  ke_sessionId :: uuid
  ke_fromNodeId :: uuid
  ke_toNodeId :: uuid
  ke_relationType :: string

record graph_snapshot =
  gs_id :: uuid
  gs_workflowId :: uuid
  gs_workflowVersionId :: "uuid option"
  gs_sessionId :: "uuid option"
  gs_graphType :: GraphType
  gs_source :: GraphSource
  gs_nodes :: "json list"
  gs_edges :: "json list"
  gs_nodeCount :: int
  gs_edgeCount :: int
  gs_graphEmbedding :: "rat list option"
  gs_createdBy :: "uuid option"
  gs_createdAt :: time

record divergence_report =
  dr_id :: uuid
  dr_workflowId :: uuid
  dr_graphAId :: uuid
  dr_graphBId :: uuid
  dr_comparisonType :: ComparisonType
  dr_status :: DivergenceReportStatus
  dr_overallSimilarity :: "rat option"
  dr_severity :: "DivergenceSeverity option"
  dr_algorithmUsed :: "string option"
  dr_totalPoints :: int
  dr_criticalCount :: int
  dr_highCount :: int
  dr_mediumCount :: int
  dr_lowCount :: int
  dr_autoTriggered :: bool
  dr_triggeredBy :: "uuid option"
  dr_pipelineExecutionId :: "uuid option"
  dr_completedAt :: "time option"
  dr_createdAt :: time

text \<open>\<open>correlation_id\<close> is what the context of the request says, \<open>system\<close> outside of a request.\<close>

record tables = core +
  messages :: "message list"
  documents :: "document list"
  skills :: "skill list"
  pipeline_executions :: "pipeline_execution list"
  agent_executions :: "agent_execution list"
  agent_logs :: "agent_log list"
  agent_definitions :: "agent_definition list"
  dead_letters :: "dead_letter list"
  kg_nodes :: "kg_node list"
  kg_edges :: "kg_edge list"
  graph_snapshots :: "graph_snapshot list"
  divergence_reports :: "divergence_report list"
  correlation_id :: string

interpretation pipeline_repo:
  keyed_store pe_id "find_row pe_id" "save_row pe_id" "remove_row pe_id" set "keyed pe_id"
  by (rule keyed_store_rows) simp_all

interpretation message_repo:
  keyed_store msg_id "find_row msg_id" "save_row msg_id" "remove_row msg_id" set "keyed msg_id"
  by (rule keyed_store_rows) simp_all

text \<open>A new row gets an id that no row of its table has.\<close>

definition new_id :: "('r \<Rightarrow> uuid) \<Rightarrow> ('z tables_scheme \<Rightarrow> 'r list) \<Rightarrow> string \<Rightarrow> ('z tables_scheme, uuid) action" where
  "new_id key table constraint =
     await gen_uuid (\<lambda>i.
     await (reads (\<lambda>s. i \<notin> key ` set (table s))) (\<lambda>fresh.
     await (require fresh (QueryFailed constraint)) (\<lambda>_. ok i)))"

text \<open>\<open>smallint\<close> and \<open>integer\<close> columns.\<close>

definition smallint :: "int \<Rightarrow> bool" where
  "smallint n \<longleftrightarrow> - 32768 \<le> n \<and> n \<le> 32767"

definition integer :: "int \<Rightarrow> bool" where
  "integer n \<longleftrightarrow> - 2147483648 \<le> n \<and> n \<le> 2147483647"

end
