(* ===== verification/Jsonb.thy ===== *)
theory Jsonb
  imports Prelude "HOL-Library.Product_Lexorder" "HOL-Library.List_Lexorder"
begin

text \<open>
  What a \<open>jsonb\<close> column does to a value: the properties of every object are kept in the order of the
  length, then of the bytes, of their names, and what is read back has this order.
\<close>

definition utf8_bytes :: "string \<Rightarrow> nat" where
  "utf8_bytes s = sum_list (map (\<lambda>c. if (of_char c :: nat) < 128 then 1 else 2) s)"

definition jsonb_fields :: "(string \<times> 'v) list \<Rightarrow> (string \<times> 'v) list" where
  "jsonb_fields fs = sort_key (\<lambda>f. (utf8_bytes (fst f), map (of_char :: char \<Rightarrow> nat) (fst f))) fs"

fun jsonb :: "json \<Rightarrow> json" where
  "jsonb (JArr vs) = JArr (map jsonb vs)"
| "jsonb (JObj fs) = JObj (jsonb_fields (map (\<lambda>(k, v). (k, jsonb v)) fs))"
| "jsonb v = v"

end
