(* ===== verification/Rules.thy ===== *)
theory Rules
  imports Entities Jsonb
begin

text \<open>
  The business rules of \<open>src/modules/rules/rules.service.ts\<close>: their administration with the check for
  contradictions, import and export, the rules of a session, which come from a cache, and the
  simulation of a rule by the agent service, which is a parameter. A condition is \<open>None\<close> or the
  properties of an object.
\<close>

type_synonym condition = "(string \<times> json) list option"

section \<open>Entities and state\<close>

record rule =
  rl_id :: uuid
  rl_orgId :: uuid
  rl_workflowId :: "uuid option"
  rl_name :: string
  rl_description :: "string option"
  rl_ruleType :: RuleType
  rl_scope :: RuleScope
  rl_targetAgent :: "AgentType option"
  rl_condition :: condition
  rl_instruction :: string
  rl_priority :: int
  rl_version :: int
  rl_isActive :: bool
  rl_createdBy :: uuid
  rl_createdAt :: time
  rl_updatedAt :: time

record rule_version =
  rv_id :: uuid
  rv_ruleId :: uuid
  rv_version :: int
  rv_instruction :: string
  rv_condition :: condition
  rv_priority :: int
  rv_isActive :: bool
  rv_changedBy :: uuid
  rv_createdAt :: time

record rule_application =
  ra_id :: uuid
  ra_ruleId :: uuid
  ra_ruleVersion :: int
  ra_agentExecutionId :: uuid
  ra_triggered :: bool
  ra_impactDescription :: "string option"
  ra_createdAt :: time

record rule_cache_entry =
  rce_expiresAt :: time
  rce_rules :: "rule list"

record simulation_entry =
  sim_expiresAt :: time
  sim_result :: json

text \<open>
  \<open>simulate\<close> is the answer of the agent service to a request.
\<close>

record rules_state = tables +
  rules :: "rule list"
  rule_versions :: "rule_version list"
  rule_applications :: "rule_application list"
  rule_cache :: "uuid \<Rightarrow> rule_cache_entry option"
  simulation_cache :: "(string \<times> simulation_entry) list"
  fastapi_url :: "string option"
  simulate :: "json \<Rightarrow> json option"
  digest :: "string \<Rightarrow> string"

interpretation rule_repo:
  keyed_store rl_id "find_row rl_id" "save_row rl_id" "remove_row rl_id" set "keyed rl_id"
  by (rule keyed_store_rows) simp_all

definition ACTIVE_RULE_CACHE_TTL_MS :: time where "ACTIVE_RULE_CACHE_TTL_MS = 60000"
definition SIMULATION_CACHE_TTL_MS :: time where "SIMULATION_CACHE_TTL_MS = 5 * 60000"

definition CONTRADICTABLE_RULE_TYPES :: "RuleType list" where
  "CONTRADICTABLE_RULE_TYPES = [RuleType.ACTOR_MAPPING, RuleType.STRUCTURAL_CONSTRAINT]"

section \<open>Storing\<close>

text \<open>Conditions are \<open>jsonb\<close>; \<open>smallint\<close> columns refuse a number out of range.\<close>

definition jsonb_condition :: "condition \<Rightarrow> condition" where
  "jsonb_condition c = map_option (\<lambda>fs. jsonb_fields (map (\<lambda>(k, v). (k, jsonb v)) fs)) c"

definition stored :: "rule \<Rightarrow> rule" where
  "stored r = r\<lparr>rl_condition := jsonb_condition (rl_condition r)\<rparr>"

text \<open>
  \<open>save\<close> of a new rule and of a rule that was read before; the entity it returns keeps the
  condition as it was given.
\<close>

definition insert_rule :: "rule \<Rightarrow> ('z rules_state_scheme, rule) action" where
  "insert_rule r =
     await gen_uuid (\<lambda>i.
     await current_time (\<lambda>t.
     let saved = r\<lparr>rl_id := i, rl_createdAt := t, rl_updatedAt := t\<rparr>
     in await (require (smallint (rl_priority r) \<and> smallint (rl_version r)) (QueryFailed ''smallint'')) (\<lambda>_.
        await (reads (\<lambda>s. i \<notin> rl_id ` set (rules s))) (\<lambda>fresh.
        await (require fresh (QueryFailed ''rule_pkey'')) (\<lambda>_.
        await (writes (rules_update (\<lambda>l. l @ [stored saved]))) (\<lambda>_. ok saved))))))"

definition update_rule :: "rule \<Rightarrow> ('z rules_state_scheme, rule) action" where
  "update_rule r =
     await current_time (\<lambda>t.
     await (require (smallint (rl_priority r) \<and> smallint (rl_version r)) (QueryFailed ''smallint'')) (\<lambda>_.
     await (writes (rules_update (save_row rl_id (stored (r\<lparr>rl_updatedAt := t\<rparr>))))) (\<lambda>_.
     ok (r\<lparr>rl_updatedAt := t\<rparr>))))"

definition snapshotRuleVersion :: "rule \<Rightarrow> uuid \<Rightarrow> ('z rules_state_scheme, unit) action" where
  "snapshotRuleVersion r changedBy =
     await gen_uuid (\<lambda>i.
     await current_time (\<lambda>t.
     writes (rule_versions_update (\<lambda>l. l @ [\<lparr> rv_id = i, rv_ruleId = rl_id r, rv_version = rl_version r,
       rv_instruction = rl_instruction r, rv_condition = rl_condition r, rv_priority = rl_priority r,
       rv_isActive = rl_isActive r, rv_changedBy = changedBy, rv_createdAt = t \<rparr>]))))"

section \<open>Contradictions\<close>

text \<open>
  Reading a property also finds the prototype of an object; its functions print as \<open>undefined\<close>, so
  only \<open>__proto__\<close> is a value. \<open>JSON.stringify\<close> prints two values alike exactly when they are the
  same, with the properties in the same order.
\<close>

definition js_get :: "(string \<times> json) list \<Rightarrow> string \<Rightarrow> json option" where
  "js_get fs k = (case map_of fs k of Some v \<Rightarrow> Some v
     | None \<Rightarrow> if k = ''__proto__'' then Some (JObj []) else None)"

definition overlap_keys :: "condition \<Rightarrow> condition \<Rightarrow> string list" where
  "overlap_keys left right = (case (left, right) of
     (Some l, Some r) \<Rightarrow> filter (\<lambda>k. js_get r k \<noteq> None \<and> map_of l k = js_get r k) (map fst l)
   | _ \<Rightarrow> [])"

definition conditionsOverlap :: "condition \<Rightarrow> condition \<Rightarrow> bool" where
  "conditionsOverlap left right \<longleftrightarrow> left = None \<and> right = None \<or> overlap_keys left right \<noteq> []"

fun first_value :: "(string \<times> json) list \<Rightarrow> string list \<Rightarrow> string option" where
  "first_value fs [] = None"
| "first_value fs (k # ks) = (case map_of fs k of
     Some (JStr v) \<Rightarrow> if js_trim v \<noteq> [] then Some (js_trim v) else first_value fs ks
   | _ \<Rightarrow> first_value fs ks)"

definition pickFirstValue :: "condition \<Rightarrow> string list \<Rightarrow> string option" where
  "pickFirstValue c keys = (case c of None \<Rightarrow> None | Some fs \<Rightarrow> first_value fs keys)"

text \<open>The two special cases are one pattern: the same subject, and two values for it.\<close>

definition disputed :: "string list \<Rightarrow> string list \<Rightarrow> condition \<Rightarrow> condition \<Rightarrow> bool option" where
  "disputed subject claimed left right =
     (case (pickFirstValue left subject, pickFirstValue right subject,
            pickFirstValue left claimed, pickFirstValue right claimed) of
        (Some a, Some b, Some x, Some y) \<Rightarrow> if a = b then Some (x \<noteq> y) else None
      | _ \<Rightarrow> None)"

definition hasTypeSpecificConflict :: "rule \<Rightarrow> rule \<Rightarrow> bool" where
  "hasTypeSpecificConflict candidate existing =
     (case (if rl_ruleType candidate = RuleType.ACTOR_MAPPING
            then disputed [''source_label'', ''source'', ''actor'', ''alias'']
              [''canonical'', ''canonical_actor'', ''target'', ''mapped_actor'']
              (rl_condition candidate) (rl_condition existing)
            else if rl_ruleType candidate = RuleType.STRUCTURAL_CONSTRAINT
            then disputed [''structure'', ''pattern'', ''element''] [''mode'', ''constraint'', ''requirement'']
              (rl_condition candidate) (rl_condition existing)
            else None) of
        Some b \<Rightarrow> b
      | None \<Rightarrow> js_trim (rl_instruction candidate) \<noteq> js_trim (rl_instruction existing))"

definition conflicts_with :: "rule \<Rightarrow> rule \<Rightarrow> bool" where
  "conflicts_with candidate existing \<longleftrightarrow>
     conditionsOverlap (rl_condition candidate) (rl_condition existing) \<and>
     hasTypeSpecificConflict candidate existing"

fun join_strs :: "string \<Rightarrow> string list \<Rightarrow> string" where
  "join_strs sep [] = []"
| "join_strs sep [x] = x"
| "join_strs sep (x # y # xs) = x @ sep @ join_strs sep (y # xs)"

definition buildConflictDetail :: "rule \<Rightarrow> rule \<Rightarrow> string" where
  "buildConflictDetail candidate conflicting =
     (let keys = overlap_keys (rl_condition candidate) (rl_condition conflicting);
          segment = (if keys \<noteq> [] then '' overlapping condition keys: '' @ join_strs '', '' keys else [])
      in ''Conflicting '' @ rule_type_str (rl_ruleType candidate) @ '' rule in '' @
         rule_scope_str (rl_scope candidate) @ '' scope for the same target agent/workflow.'' @ segment)"

text \<open>A rule of a bundle that is not stored yet has no id; the property is left out.\<close>

definition conflict_json :: "rule \<Rightarrow> string \<Rightarrow> (string \<times> json) list" where
  "conflict_json conflicting detail = [(''code'', JStr ''RULE_CONFLICT'')] @
     (if rl_id conflicting = [] then [] else [(''conflicting_rule_id'', JStr (rl_id conflicting))]) @
     [(''conflicting_rule_name'', JStr (rl_name conflicting)), (''conflict_detail'', JStr detail)]"

definition emitConflictEvent :: "rule \<Rightarrow> rule \<Rightarrow> string \<Rightarrow> ('z core_scheme, unit) action" where
  "emitConflictEvent candidate conflicting detail =
     emit_to_room (case rl_workflowId candidate of
         Some (c # cs) \<Rightarrow> ''workflow:'' @ c # cs | _ \<Rightarrow> ''org:'' @ rl_orgId candidate)
       ''rules.conflict.detected''
       (JObj (conflict_json conflicting detail @ [(''incoming_rule_name'', JStr (rl_name candidate))]))"

definition by_priority :: "rule list \<Rightarrow> rule list" where
  "by_priority rs = sort_desc rl_priority (sort_desc rl_updatedAt rs)"

definition same_group :: "rule \<Rightarrow> rule \<Rightarrow> bool" where
  "same_group candidate r \<longleftrightarrow> rl_orgId r = rl_orgId candidate \<and> rl_isActive r \<and>
     rl_ruleType r = rl_ruleType candidate \<and> rl_scope r = rl_scope candidate \<and>
     rl_targetAgent r = rl_targetAgent candidate \<and> rl_workflowId r = rl_workflowId candidate"

definition ensureNoConflict :: "rule \<Rightarrow> uuid option \<Rightarrow> rule list option \<Rightarrow> ('z rules_state_scheme, unit) action" where
  "ensureNoConflict candidate excludeRuleId rulePool =
     (if \<not> rl_isActive candidate \<or> rl_ruleType candidate \<notin> set CONTRADICTABLE_RULE_TYPES then ok ()
      else await (case rulePool of Some p \<Rightarrow> ok p
                  | None \<Rightarrow> reads (\<lambda>s. by_priority (filter (same_group candidate) (rules s)))) (\<lambda>pool.
        case find (\<lambda>r. excludeRuleId \<noteq> Some (rl_id r) \<and> conflicts_with candidate r) pool of
          None \<Rightarrow> ok ()
        | Some r \<Rightarrow> let detail = buildConflictDetail candidate r in
            await (emitConflictEvent candidate r detail) (\<lambda>_.
            throw (Conflict (JObj (conflict_json r detail))))))"

section \<open>Caches\<close>

definition invalidateOrgRuleCache :: "uuid \<Rightarrow> ('z rules_state_scheme, unit) action" where
  "invalidateOrgRuleCache org = writes (rule_cache_update (\<lambda>c. c(org := None)))"

definition invalidateRuleSimulationCache :: "uuid \<Rightarrow> ('z rules_state_scheme, unit) action" where
  "invalidateRuleSimulationCache i =
     writes (simulation_cache_update (filter (\<lambda>e. \<not> starts_with (i @ '':'') (fst e))))"

definition active_rules :: "uuid \<Rightarrow> 'z rules_state_scheme \<Rightarrow> rule list" where
  "active_rules org s = by_priority (filter (\<lambda>r. rl_orgId r = org \<and> rl_isActive r) (rules s))"

definition getCachedActiveRules :: "uuid \<Rightarrow> ('z rules_state_scheme, rule list) action" where
  "getCachedActiveRules org =
     await current_time (\<lambda>t.
     await (reads (\<lambda>s. rule_cache s org)) (\<lambda>cached.
     case cached of
       Some e \<Rightarrow> if t < rce_expiresAt e then ok (rce_rules e)
         else await (reads (active_rules org)) (\<lambda>found.
              await (writes (rule_cache_update (\<lambda>c. c(org \<mapsto>
                \<lparr> rce_expiresAt = t + ACTIVE_RULE_CACHE_TTL_MS, rce_rules = found \<rparr>)))) (\<lambda>_. ok found))
     | None \<Rightarrow> await (reads (active_rules org)) (\<lambda>found.
              await (writes (rule_cache_update (\<lambda>c. c(org \<mapsto>
                \<lparr> rce_expiresAt = t + ACTIVE_RULE_CACHE_TTL_MS, rce_rules = found \<rparr>)))) (\<lambda>_. ok found))))"

section \<open>Answers\<close>

definition condition_json :: "condition \<Rightarrow> json" where
  "condition_json c = json_opt JObj c"

definition agent_json :: "AgentType option \<Rightarrow> json" where
  "agent_json a = json_opt (\<lambda>x. JStr (agent_type_str x)) a"

definition serializeRule :: "rule \<Rightarrow> json" where
  "serializeRule r = JObj [(''id'', JStr (rl_id r)), (''org_id'', JStr (rl_orgId r)),
     (''workflow_id'', json_str_opt (rl_workflowId r)), (''name'', JStr (rl_name r)),
     (''description'', json_str_opt (rl_description r)), (''type'', JStr (rule_type_str (rl_ruleType r))),
     (''scope'', JStr (rule_scope_str (rl_scope r))), (''target_agent'', agent_json (rl_targetAgent r)),
     (''condition'', condition_json (rl_condition r)), (''instruction'', JStr (rl_instruction r)),
     (''priority'', json_int (rl_priority r)), (''version'', json_int (rl_version r)),
     (''is_active'', JBool (rl_isActive r)), (''created_by'', JStr (rl_createdBy r)),
     (''created_at'', json_date (rl_createdAt r)), (''updated_at'', json_date (rl_updatedAt r))]"

definition serializeRuleVersion :: "rule_version \<Rightarrow> json" where
  "serializeRuleVersion v = JObj [(''id'', JStr (rv_id v)), (''rule_id'', JStr (rv_ruleId v)),
     (''version'', json_int (rv_version v)), (''instruction'', JStr (rv_instruction v)),
     (''condition'', condition_json (rv_condition v)), (''priority'', json_int (rv_priority v)),
     (''is_active'', JBool (rv_isActive v)), (''changed_by'', JStr (rv_changedBy v)),
     (''created_at'', json_date (rv_createdAt v))]"

definition auditShape :: "rule \<Rightarrow> json" where
  "auditShape r = JObj [(''rule_id'', JStr (rl_id r)), (''name'', JStr (rl_name r)),
     (''type'', JStr (rule_type_str (rl_ruleType r))), (''scope'', JStr (rule_scope_str (rl_scope r))),
     (''workflow_id'', json_str_opt (rl_workflowId r)), (''target_agent'', agent_json (rl_targetAgent r)),
     (''condition'', condition_json (rl_condition r)), (''instruction'', JStr (rl_instruction r)),
     (''priority'', json_int (rl_priority r)), (''version'', json_int (rl_version r)),
     (''is_active'', JBool (rl_isActive r))]"

definition audit_rule ::
    "uuid option \<Rightarrow> uuid \<Rightarrow> string \<Rightarrow> json \<Rightarrow> json \<Rightarrow> ('z core_scheme, unit) action" where
  "audit_rule workflowId actorId event old new =
     audit workflowId (Some actorId) ActorType.USER event None old new"

section \<open>Checks\<close>

definition assertRuleManager :: "request_user \<Rightarrow> ('s, unit) action" where
  "assertRuleManager caller =
     await (require (ru_orgId caller \<noteq> []) (Forbidden ''Organization scope is required'')) (\<lambda>_.
     require (ru_role caller \<in> {user_role_str UserRole.ADMIN, user_role_str BUSINESS_ANALYST})
       (Forbidden ''Admin or Business Analyst role is required''))"

definition present :: "uuid option \<Rightarrow> bool" where
  "present i \<longleftrightarrow> i \<noteq> None \<and> i \<noteq> Some []"

definition assertScopeConsistency ::
    "RuleScope \<Rightarrow> uuid option \<Rightarrow> AgentType option \<Rightarrow> uuid \<Rightarrow> ('z core_scheme, unit) action" where
  "assertScopeConsistency scope workflowId targetAgent orgId =
     await (require (scope = WORKFLOW \<longrightarrow> present workflowId)
              (BadRequest (JStr ''workflow_id is required for WORKFLOW scoped rules''))) (\<lambda>_.
     await (require (scope = ORG \<longrightarrow> \<not> present workflowId)
              (BadRequest (JStr ''workflow_id must be omitted for ORG scoped rules''))) (\<lambda>_.
     await (require (scope = AGENT \<longrightarrow> targetAgent \<noteq> None)
              (BadRequest (JStr ''target_agent is required for AGENT scoped rules''))) (\<lambda>_.
     if present workflowId
     then await (findWorkflowInOrgOrThrow (the workflowId) orgId ''Workflow not found'') (\<lambda>_. ok ())
     else ok ())))"

definition rule_in_org :: "uuid \<Rightarrow> uuid \<Rightarrow> 'z rules_state_scheme \<Rightarrow> rule option" where
  "rule_in_org i org s = find (\<lambda>r. rl_id r = i \<and> rl_orgId r = org) (rules s)"

definition findRuleOrThrow :: "uuid \<Rightarrow> uuid \<Rightarrow> ('z rules_state_scheme, rule) action" where
  "findRuleOrThrow i org =
     await (reads (rule_in_org i org)) (\<lambda>r. some_or_throw r (NotFound ''Rule not found''))"

section \<open>Administration\<close>

record create_rule_dto =
  cr_name :: string
  cr_description :: "string option"
  cr_type :: RuleType
  cr_scope :: RuleScope
  cr_workflow_id :: "uuid option"
  cr_target_agent :: "AgentType option"
  cr_condition :: condition
  cr_instruction :: string
  cr_priority :: "int option"

definition default :: "'a \<Rightarrow> 'a option \<Rightarrow> 'a" where
  "default d x = (case x of None \<Rightarrow> d | Some y \<Rightarrow> y)"

definition new_rule :: "create_rule_dto \<Rightarrow> int \<Rightarrow> bool \<Rightarrow> request_user \<Rightarrow> rule" where
  "new_rule dto version active caller = \<lparr> rl_id = [], rl_orgId = ru_orgId caller,
     rl_workflowId = cr_workflow_id dto, rl_name = js_trim (cr_name dto),
     rl_description = map_option js_trim (cr_description dto), rl_ruleType = cr_type dto,
     rl_scope = cr_scope dto, rl_targetAgent = cr_target_agent dto, rl_condition = cr_condition dto,
     rl_instruction = js_trim (cr_instruction dto), rl_priority = default 100 (cr_priority dto),
     rl_version = version, rl_isActive = active, rl_createdBy = ru_id caller, rl_createdAt = 0,
     rl_updatedAt = 0 \<rparr>"

definition invalidate :: "uuid \<Rightarrow> uuid \<Rightarrow> ('z rules_state_scheme, unit) action" where
  "invalidate org i = await (invalidateOrgRuleCache org) (\<lambda>_. invalidateRuleSimulationCache i)"

definition createRule :: "create_rule_dto \<Rightarrow> request_user \<Rightarrow> ('z rules_state_scheme, json) action" where
  "createRule dto caller =
     await (assertRuleManager caller) (\<lambda>_.
     await (assertScopeConsistency (cr_scope dto) (cr_workflow_id dto) (cr_target_agent dto) (ru_orgId caller)) (\<lambda>_.
     let candidate = new_rule dto 1 True caller in
     await (ensureNoConflict candidate None None) (\<lambda>_.
     await (insert_rule candidate) (\<lambda>saved.
     await (audit_rule (rl_workflowId saved) (ru_id caller) ''RULE_CREATED'' JNull (auditShape saved)) (\<lambda>_.
     await (invalidate (ru_orgId caller) (rl_id saved)) (\<lambda>_.
     ok (JObj [(''rule'', serializeRule saved)])))))))"

record rules_filter =
  rf_type :: "RuleType option"
  rf_scope :: "RuleScope option"
  rf_agent_type :: "AgentType option"

definition findAllRules :: "rules_filter \<Rightarrow> uuid \<Rightarrow> ('z rules_state_scheme, json) action" where
  "findAllRules f org = reads (\<lambda>s. let found = by_priority (filter (\<lambda>r. rl_orgId r = org \<and> rl_isActive r \<and>
       (case rf_type f of None \<Rightarrow> True | Some t \<Rightarrow> rl_ruleType r = t) \<and>
       (case rf_scope f of None \<Rightarrow> True | Some c \<Rightarrow> rl_scope r = c) \<and>
       (case rf_agent_type f of None \<Rightarrow> True | Some a \<Rightarrow> rl_targetAgent r = Some a)) (rules s))
     in JObj [(''rules'', JArr (map serializeRule found)), (''total'', json_int (int (length found)))])"

definition findOneRule :: "uuid \<Rightarrow> uuid \<Rightarrow> ('z rules_state_scheme, json) action" where
  "findOneRule i org =
     await (findRuleOrThrow i org) (\<lambda>r.
     reads (\<lambda>s. JObj [(''rule'', serializeRule r),
       (''versions'', JArr (map serializeRuleVersion
          (sort_desc rv_createdAt (filter (\<lambda>v. rv_ruleId v = rl_id r) (rule_versions s)))))]))"

text \<open>A field of an update that may be \<open>null\<close> is \<open>None\<close> when it is missing.\<close>

record update_rule_dto =
  ur_instruction :: "string option option"
  ur_condition :: "condition option"
  ur_priority :: "int option option"
  ur_isActive :: "bool option"

definition next_instruction :: "update_rule_dto \<Rightarrow> rule \<Rightarrow> ('s, string) action" where
  "next_instruction dto r = (case ur_instruction dto of
     None \<Rightarrow> ok (rl_instruction r)
   | Some None \<Rightarrow> throw (TypeErr ''Cannot read properties of null'')
   | Some (Some i) \<Rightarrow> ok (js_trim i))"

definition updated_rule :: "update_rule_dto \<Rightarrow> string \<Rightarrow> rule \<Rightarrow> rule" where
  "updated_rule dto instruction r = r\<lparr>rl_instruction := instruction,
     rl_condition := default (rl_condition r) (ur_condition dto),
     rl_priority := default (rl_priority r) (default None (ur_priority dto)),
     rl_isActive := default (rl_isActive r) (ur_isActive dto)\<rparr>"

definition update_event :: "update_rule_dto \<Rightarrow> rule \<Rightarrow> rule \<Rightarrow> string" where
  "update_event dto r r' =
     (if rl_isActive r' \<noteq> rl_isActive r \<and>
         (ur_instruction dto = None \<or> ur_instruction dto = Some None \<or> ur_instruction dto = Some (Some [])) \<and>
         ur_priority dto = None \<and> ur_condition dto = None
      then if rl_isActive r' then ''RULE_ACTIVATED'' else ''RULE_DEACTIVATED''
      else ''RULE_UPDATED'')"

definition updateRule ::
    "uuid \<Rightarrow> update_rule_dto \<Rightarrow> request_user \<Rightarrow> ('z rules_state_scheme, json) action" where
  "updateRule i dto caller =
     await (assertRuleManager caller) (\<lambda>_.
     await (findRuleOrThrow i (ru_orgId caller)) (\<lambda>r.
     await (next_instruction dto r) (\<lambda>instruction.
     let r' = updated_rule dto instruction r in
     if r' = r then ok (JObj [(''rule'', serializeRule r)])
     else
       await (if rl_isActive r' then ensureNoConflict r' (Some (rl_id r)) None else ok ()) (\<lambda>_.
       await (snapshotRuleVersion r (ru_id caller)) (\<lambda>_.
       await (update_rule (r'\<lparr>rl_version := rl_version r + 1\<rparr>)) (\<lambda>saved.
       await (audit_rule (rl_workflowId saved) (ru_id caller) (update_event dto r r') (auditShape r)
                (auditShape saved)) (\<lambda>_.
       await (invalidate (ru_orgId caller) (rl_id saved)) (\<lambda>_.
       ok (JObj [(''rule'', serializeRule saved)]))))))))) "

definition activateRule :: "uuid \<Rightarrow> request_user \<Rightarrow> ('z rules_state_scheme, json) action" where
  "activateRule i caller =
     await (assertRuleManager caller) (\<lambda>_.
     await (findRuleOrThrow i (ru_orgId caller)) (\<lambda>r.
     if rl_isActive r then ok (JObj [(''rule'', serializeRule r)])
     else
       await (ensureNoConflict (r\<lparr>rl_isActive := True\<rparr>) (Some (rl_id r)) None) (\<lambda>_.
       await (snapshotRuleVersion r (ru_id caller)) (\<lambda>_.
       await (update_rule (r\<lparr>rl_isActive := True, rl_version := rl_version r + 1\<rparr>)) (\<lambda>saved.
       await (audit_rule (rl_workflowId saved) (ru_id caller) ''RULE_ACTIVATED'' (auditShape r) (auditShape saved)) (\<lambda>_.
       await (invalidate (ru_orgId caller) (rl_id saved)) (\<lambda>_.
       ok (JObj [(''rule'', serializeRule saved)]))))))))"

definition deactivateRule :: "uuid \<Rightarrow> request_user \<Rightarrow> ('z rules_state_scheme, json) action" where
  "deactivateRule i caller =
     await (assertRuleManager caller) (\<lambda>_.
     await (findRuleOrThrow i (ru_orgId caller)) (\<lambda>r.
     if \<not> rl_isActive r then ok (JObj [(''rule'', serializeRule r)])
     else
       await (snapshotRuleVersion r (ru_id caller)) (\<lambda>_.
       await (update_rule (r\<lparr>rl_isActive := False, rl_version := rl_version r + 1\<rparr>)) (\<lambda>saved.
       await (audit_rule (rl_workflowId saved) (ru_id caller) ''RULE_DEACTIVATED'' (auditShape r) (auditShape saved)) (\<lambda>_.
       await (invalidate (ru_orgId caller) (rl_id saved)) (\<lambda>_.
       ok (JObj [(''rule'', serializeRule saved)])))))))"

definition softDeleteRule :: "uuid \<Rightarrow> request_user \<Rightarrow> ('z rules_state_scheme, unit) action" where
  "softDeleteRule i caller =
     await (assertRuleManager caller) (\<lambda>_.
     await (findRuleOrThrow i (ru_orgId caller)) (\<lambda>r.
     await (if rl_isActive r
            then await (snapshotRuleVersion r (ru_id caller)) (\<lambda>_.
                 update_rule (r\<lparr>rl_isActive := False, rl_version := rl_version r + 1\<rparr>))
            else ok r) (\<lambda>saved.
     await (audit_rule (rl_workflowId r) (ru_id caller) ''RULE_DELETED'' (auditShape r) (auditShape saved)) (\<lambda>_.
     invalidate (ru_orgId caller) (rl_id r)))))"

section \<open>Export and import\<close>

definition export_rule :: "rule \<Rightarrow> json" where
  "export_rule r = JObj [(''name'', JStr (rl_name r)), (''description'', json_str_opt (rl_description r)),
     (''type'', JStr (rule_type_str (rl_ruleType r))), (''scope'', JStr (rule_scope_str (rl_scope r))),
     (''workflow_id'', json_str_opt (rl_workflowId r)), (''target_agent'', agent_json (rl_targetAgent r)),
     (''condition'', condition_json (rl_condition r)), (''instruction'', JStr (rl_instruction r)),
     (''priority'', json_int (rl_priority r)), (''version'', json_int (rl_version r)),
     (''is_active'', JBool (rl_isActive r))]"

definition exportRules :: "uuid \<Rightarrow> ('z rules_state_scheme, json) action" where
  "exportRules org = reads (\<lambda>s. JObj [(''schema_version'', JStr ''1.0''), (''exported_at'', json_date (now s)),
     (''rules'', JArr (map export_rule (active_rules org s)))])"

record bundle_rule = create_rule_dto +
  br_version :: "int option"
  br_is_active :: "bool option"

record rules_bundle =
  rb_schema_version :: string
  rb_rules :: "bundle_rule list"

definition buildImportedRule :: "bundle_rule \<Rightarrow> request_user \<Rightarrow> ('z core_scheme, rule) action" where
  "buildImportedRule item caller =
     await (assertScopeConsistency (cr_scope item) (cr_workflow_id item) (cr_target_agent item) (ru_orgId caller)) (\<lambda>_.
     ok (new_rule (create_rule_dto.truncate item) (default 1 (br_version item)) (default True (br_is_active item)) caller))"

fun stage_rules ::
    "rule list \<Rightarrow> rule list \<Rightarrow> bundle_rule list \<Rightarrow> request_user \<Rightarrow> ('z rules_state_scheme, rule list) action" where
  "stage_rules active staged [] caller = ok staged"
| "stage_rules active staged (item # items) caller =
     await (buildImportedRule item caller) (\<lambda>candidate.
     await (ensureNoConflict candidate None (Some (active @ staged))) (\<lambda>_.
     stage_rules active (staged @ [candidate]) items caller))"

fun insert_rules :: "rule list \<Rightarrow> ('z rules_state_scheme, rule list) action" where
  "insert_rules [] = ok []"
| "insert_rules (r # rs) = await (insert_rule r) (\<lambda>x. await (insert_rules rs) (\<lambda>xs. ok (x # xs)))"

definition importRules :: "rules_bundle \<Rightarrow> request_user \<Rightarrow> ('z rules_state_scheme, json) action" where
  "importRules bundle caller =
     await (assertRuleManager caller) (\<lambda>_.
     await (getCachedActiveRules (ru_orgId caller)) (\<lambda>active.
     await (stage_rules active [] (rb_rules bundle) caller) (\<lambda>staged.
     await (transaction (insert_rules staged)) (\<lambda>saved.
     await (audit_rule None (ru_id caller) ''RULE_IMPORTED'' JNull
              (JObj [(''schema_version'', JStr (rb_schema_version bundle)),
                     (''imported_rule_ids'', JArr (map (\<lambda>r. JStr (rl_id r)) saved)),
                     (''count'', json_int (int (length saved)))])) (\<lambda>_.
     await (invalidateOrgRuleCache (ru_orgId caller)) (\<lambda>_.
     ok (JObj [(''imported_count'', json_int (int (length saved))),
               (''rules'', JArr (map serializeRule saved))])))))))"

section \<open>The rules of a session\<close>

definition matchesSessionScope :: "rule \<Rightarrow> uuid \<Rightarrow> bool" where
  "matchesSessionScope r workflowId =
     (if rl_scope r = WORKFLOW then rl_workflowId r = Some workflowId
      else \<not> (present (rl_workflowId r) \<and> rl_workflowId r \<noteq> Some workflowId))"

definition buildSessionContext :: "session \<Rightarrow> workflow \<Rightarrow> (string \<times> json) list" where
  "buildSessionContext ses w = [(''org_id'', JStr (wf_orgId w)), (''workflow_id'', JStr (wf_id w)),
     (''session_id'', JStr (ses_id ses)), (''session_mode'', JStr (session_mode_str (ses_mode ses))),
     (''session_status'', JStr (session_status_str (ses_status ses))),
     (''workflow_status'', JStr (workflow_status_str (wf_status w))),
     (''workflow_domain'', json_str_opt (wf_domain w)),
     (''workflow_tags'', JArr (map JStr (wf_tags w))), (''user_id'', JStr (ses_userId ses))]"

text \<open>\<open>includes\<close> compares objects and arrays by identity, so it never finds one.\<close>

fun is_container :: "json \<Rightarrow> bool" where
  "is_container (JArr _) = True"
| "is_container (JObj _) = True"
| "is_container _ = False"

definition includes_value :: "json list \<Rightarrow> json option \<Rightarrow> bool" where
  "includes_value vs v = (case v of None \<Rightarrow> False | Some x \<Rightarrow> \<not> is_container x \<and> x \<in> set vs)"

fun matches_entry :: "json \<Rightarrow> json option \<Rightarrow> bool" where
  "matches_entry (JArr expected) (Some (JArr actual)) = list_ex (\<lambda>v. includes_value actual (Some v)) expected"
| "matches_entry (JArr expected) actual = includes_value expected actual"
| "matches_entry expected (Some (JArr actual)) = includes_value actual (Some expected)"
| "matches_entry expected actual = (actual = Some expected)"

definition matchesRuleCondition :: "condition \<Rightarrow> (string \<times> json) list \<Rightarrow> bool" where
  "matchesRuleCondition c context = (case c of None \<Rightarrow> True
     | Some fs \<Rightarrow> list_all (\<lambda>(k, expected). matches_entry expected (js_get context k)) fs)"

definition getSessionContextRules ::
    "uuid \<Rightarrow> uuid \<Rightarrow> ('z rules_state_scheme, session \<times> workflow \<times> rule list) action" where
  "getSessionContextRules sessionId org =
     await (reads (\<lambda>s. find_row ses_id sessionId (sessions s))) (\<lambda>ses.
     await (some_or_throw ses (NotFound ''Session not found'')) (\<lambda>ses.
     await (findWorkflowInOrgOrThrow (ses_workflowId ses) org ''Session not found'') (\<lambda>w.
     await (getCachedActiveRules org) (\<lambda>active.
     ok (ses, w, by_priority (filter (\<lambda>r. matchesRuleCondition (rl_condition r) (buildSessionContext ses w))
           (filter (\<lambda>r. matchesSessionScope r (ses_workflowId ses)) active)))))))"

definition previewForSession :: "uuid \<Rightarrow> request_user \<Rightarrow> ('z rules_state_scheme, json) action" where
  "previewForSession sessionId caller =
     await (getSessionContextRules sessionId (ru_orgId caller)) (\<lambda>(ses, w, rs).
     ok (JObj [(''session_id'', JStr (ses_id ses)), (''workflow_id'', JStr (ses_workflowId ses)),
               (''rules'', JArr (map serializeRule rs))]))"

definition context_rule :: "rule \<Rightarrow> json" where
  "context_rule r = JObj [(''id'', JStr (rl_id r)), (''name'', JStr (rl_name r)),
     (''type'', JStr (rule_type_str (rl_ruleType r))), (''scope'', JStr (rule_scope_str (rl_scope r))),
     (''workflow_id'', json_str_opt (rl_workflowId r)), (''target_agent'', agent_json (rl_targetAgent r)),
     (''condition'', condition_json (rl_condition r)), (''instruction'', JStr (rl_instruction r)),
     (''priority'', json_int (rl_priority r)), (''version'', json_int (rl_version r))]"

definition listActiveRulesForContext :: "uuid \<Rightarrow> uuid \<Rightarrow> ('z rules_state_scheme, json) action" where
  "listActiveRulesForContext org sessionId =
     await (getSessionContextRules sessionId org) (\<lambda>(ses, w, rs). ok (JArr (map context_rule rs)))"

section \<open>Applications of rules\<close>

text \<open>The join: an application counts once for every chain from its execution to a workflow of the
  organization.\<close>

definition application_rows :: "uuid \<Rightarrow> uuid \<Rightarrow> 'z rules_state_scheme \<Rightarrow> (rule_application \<times> rule) list" where
  "application_rows execId org s =
     [(a, r). a \<leftarrow> sort_key ra_createdAt (filter (\<lambda>a. ra_agentExecutionId a = execId) (rule_applications s)),
              ae \<leftarrow> agent_executions s, ae_id ae = ra_agentExecutionId a,
              pe \<leftarrow> pipeline_executions s, pe_id pe = ae_pipelineExecutionId ae,
              ses \<leftarrow> sessions s, ses_id ses = pe_sessionId pe,
              w \<leftarrow> workflows s, wf_id w = ses_workflowId ses \<and> wf_orgId w = org,
              r \<leftarrow> rules s, rl_id r = ra_ruleId a]"

definition application_json :: "rule_application \<times> rule \<Rightarrow> json" where
  "application_json = (\<lambda>(a, r). JObj [(''id'', JStr (ra_id a)), (''rule_id'', JStr (ra_ruleId a)),
     (''rule_name'', JStr (rl_name r)), (''rule_type'', JStr (rule_type_str (rl_ruleType r))),
     (''rule_version'', json_int (ra_ruleVersion a)), (''agent_execution_id'', JStr (ra_agentExecutionId a)),
     (''triggered'', JBool (ra_triggered a)), (''impact_description'', json_str_opt (ra_impactDescription a)),
     (''created_at'', json_date (ra_createdAt a))])"

definition listRuleApplicationsForAgentExecution :: "uuid \<Rightarrow> uuid \<Rightarrow> ('z rules_state_scheme, json) action" where
  "listRuleApplicationsForAgentExecution execId org =
     await (reads (\<lambda>s. execId \<in> ae_id ` set (agent_executions s))) (\<lambda>found.
     await (require found (NotFound ''Agent execution not found'')) (\<lambda>_.
     reads (\<lambda>s. JObj [(''applications'', JArr (map application_json (application_rows execId org s)))])))"

section \<open>Simulation\<close>

definition buildSimulationCacheKey :: "(string \<Rightarrow> string) \<Rightarrow> uuid \<Rightarrow> string \<Rightarrow> AgentType \<Rightarrow> string" where
  "buildSimulationCacheKey sha i sample agent = i @ '':'' @ agent_type_str agent @ '':'' @ sha sample"

fun own_entries :: "json \<Rightarrow> (string \<times> json) list" where
  "own_entries (JObj fs) = fs"
| "own_entries (JArr vs) = map (\<lambda>(i, v). (nat_str i, v)) (enumerate 0 vs)"
| "own_entries _ = []"

definition changed_keys :: "json \<Rightarrow> json \<Rightarrow> string list" where
  "changed_keys a b = (let ka = map fst (own_entries a); kb = map fst (own_entries b) in
     filter (\<lambda>k. map_of (own_entries a) k \<noteq> map_of (own_entries b) k)
       (ka @ filter (\<lambda>k. k \<notin> set ka) kb))"

definition buildDiffSummary :: "json \<Rightarrow> json \<Rightarrow> string" where
  "buildDiffSummary a b =
     (if a = b then ''No observable difference detected.''
      else if is_container a \<and> is_container b \<and> changed_keys a b \<noteq> []
      then ''Outputs differ on keys: '' @ join_strs '', '' (changed_keys a b) @ ''.''
      else ''Rule simulation changed the output.'')"

definition simulation_request :: "string \<Rightarrow> AgentType \<Rightarrow> json \<Rightarrow> json" where
  "simulation_request sample agent r = JObj [(''sample_text'', JStr sample),
     (''simulate_agent'', JStr (agent_type_str agent)), (''rule'', r)]"

definition testRule :: "uuid \<Rightarrow> string \<Rightarrow> AgentType \<Rightarrow> request_user \<Rightarrow> ('z rules_state_scheme, json) action" where
  "testRule i sample agent caller =
     await (findRuleOrThrow i (ru_orgId caller)) (\<lambda>r.
     await (reads (\<lambda>s. buildSimulationCacheKey (digest s) (rl_id r) sample agent)) (\<lambda>key.
     await current_time (\<lambda>t.
     await (reads (\<lambda>s. map_of (simulation_cache s) key)) (\<lambda>cached.
     if (case cached of Some e \<Rightarrow> t < sim_expiresAt e | None \<Rightarrow> False) then ok (sim_result (the cached))
     else
       await (reads fastapi_url) (\<lambda>url.
       await (require (url \<noteq> None \<and> url \<noteq> Some []) (BadGateway ''FASTAPI internal URL is not configured'')) (\<lambda>_.
       await (reads (\<lambda>s. simulate s (simulation_request sample agent (serializeRule r)))) (\<lambda>withRule.
       await (reads (\<lambda>s. simulate s (simulation_request sample agent JNull))) (\<lambda>withoutRule.
       await (some_or_throw withRule (PlainError ''Request failed'')) (\<lambda>a.
       await (some_or_throw withoutRule (PlainError ''Request failed'')) (\<lambda>b.
       let result = JObj [(''with_rule_output'', a), (''without_rule_output'', b),
                          (''diff_summary'', JStr (buildDiffSummary a b))]
       in await (writes (simulation_cache_update (put_field key
              \<lparr> sim_expiresAt = t + SIMULATION_CACHE_TTL_MS, sim_result = result \<rparr>))) (\<lambda>_.
          ok result)))))))))))"

section \<open>Requests\<close>

datatype rules_request =
    Create create_rule_dto request_user
  | FindAll rules_filter uuid
  | FindOne uuid uuid
  | Update uuid update_rule_dto request_user
  | Activate uuid request_user
  | Deactivate uuid request_user
  | SoftDelete uuid request_user
  | Export uuid
  | Import rules_bundle request_user
  | Preview uuid request_user
  | ContextRules uuid uuid
  | Applications uuid uuid
  | TestRule uuid string AgentType request_user
  | Pass nat \<comment> \<open>time passes\<close>

fun serve_rules :: "rules_request \<Rightarrow> ('z rules_state_scheme, unit) action" where
  "serve_rules (Create dto u) = answer (createRule dto u)"
| "serve_rules (FindAll f org) = answer (findAllRules f org)"
| "serve_rules (FindOne i org) = answer (findOneRule i org)"
| "serve_rules (Update i dto u) = answer (updateRule i dto u)"
| "serve_rules (Activate i u) = answer (activateRule i u)"
| "serve_rules (Deactivate i u) = answer (deactivateRule i u)"
| "serve_rules (SoftDelete i u) = softDeleteRule i u"
| "serve_rules (Export org) = answer (exportRules org)"
| "serve_rules (Import b u) = answer (importRules b u)"
| "serve_rules (Preview i u) = answer (previewForSession i u)"
| "serve_rules (ContextRules org i) = answer (listActiveRulesForContext org i)"
| "serve_rules (Applications i org) = answer (listRuleApplicationsForAgentExecution i org)"
| "serve_rules (TestRule i sample agent u) = answer (testRule i sample agent u)"
| "serve_rules (Pass d) = writes (now_update (\<lambda>t. t + int d))"

fun serve_all_rules :: "rules_request list \<Rightarrow> 'z rules_state_scheme \<Rightarrow> 'z rules_state_scheme" where
  "serve_all_rules [] s = s"
| "serve_all_rules (q # qs) s = serve_all_rules qs (snd (serve_rules q s))"

end
