(* ===== verification/Sessions.thy ===== *)
theory Sessions
  imports SessionFsm Workflows Rules
begin

text \<open>
  Sessions: \<open>src/modules/sessions/sessions.service.ts\<close> with its guard, and the publication of AI tasks,
  \<open>src/modules/ai-gateway/ai-gateway.service.ts\<close>. The state is that of the rules, whose service the
  gateway asks for the rules of a session.
\<close>

section \<open>Shared steps\<close>

definition lifted :: "exn + 'a \<Rightarrow> ('s, 'a) action" where
  "lifted r = (case r of Inl e \<Rightarrow> throw e | Inr x \<Rightarrow> ok x)"

definition save_session :: "session \<Rightarrow> ('z core_scheme, unit) action" where
  "save_session ses = writes (sessions_update (save_row ses_id ses))"

text \<open>\<open>transitionSessionStatus\<close> assigned to the status of a session.\<close>

definition moved :: "SessionFsmEvent \<Rightarrow> session \<Rightarrow> ('s, session) action" where
  "moved event ses = await (lifted (transitionSessionStatus (ses_status ses) event (Some (ses_mode ses))))
     (\<lambda>b. ok (ses\<lparr>ses_status := b\<rparr>))"

definition save_pipeline :: "pipeline_execution \<Rightarrow> ('z tables_scheme, unit) action" where
  "save_pipeline p = writes (pipeline_executions_update (save_row pe_id p))"

definition latest_pipeline :: "uuid \<Rightarrow> 'z tables_scheme \<Rightarrow> pipeline_execution option" where
  "latest_pipeline sid s =
     first_row (sort_desc pe_createdAt (filter (\<lambda>p. pe_sessionId p = sid) (pipeline_executions s)))"

definition msg_id_for :: "string \<Rightarrow> string \<Rightarrow> string \<Rightarrow> string" where
  "msg_id_for correlation subject execution = correlation @ '':'' @ subject @ '':'' @ execution"

section \<open>Publishing a task\<close>

definition resolveOrgIdForSession :: "session \<Rightarrow> ('z core_scheme, uuid) action" where
  "resolveOrgIdForSession ses =
     await (reads (\<lambda>s. first_row [wf_orgId w. r \<leftarrow> sessions s, ses_id r = ses_id ses,
                                               w \<leftarrow> workflows s, wf_id w = ses_workflowId r])) (\<lambda>org.
     await (require (org \<noteq> None \<and> org \<noteq> Some []) (PlainError ''Unable to resolve orgId from session'')) (\<lambda>_.
     ok (the org)))"

record ai_task_params =
  tp_sessionId :: uuid
  tp_taskType :: PipelineTaskType
  tp_mode :: SessionMode
  tp_input :: json
  tp_triggeredBy :: "uuid option"
  tp_resumeFromCheckpoint :: "AgentType option"

definition new_pipeline :: "ai_task_params \<Rightarrow> uuid \<Rightarrow> time \<Rightarrow> pipeline_execution" where
  "new_pipeline p i t = \<lparr> pe_id = i, pe_sessionId = tp_sessionId p, pe_taskType = tp_taskType p,
     pe_mode = tp_mode p, pe_status = PipelineStatus.PENDING, pe_inputPayload = tp_input p, pe_retryCount = 0,
     pe_lastCheckpointAgent = None, pe_triggeredBy = tp_triggeredBy p, pe_natsMessageId = None,
     pe_startedAt = None, pe_completedAt = None, pe_totalDurationMs = None, pe_totalLlmCalls = 0,
     pe_totalTokensConsumed = 0, pe_finalConfidence = None, pe_errorSummary = None, pe_createdAt = t,
     pe_archivedAt = None \<rparr>"

definition offered_skills :: "uuid \<Rightarrow> 'z tables_scheme \<Rightarrow> skill list" where
  "offered_skills org s = take 50 (sort_desc (\<lambda>k. if sk_isMandatory k then 1 else 0)
     (sort_desc sk_updatedAt (filter (\<lambda>k. sk_orgId k = org \<and> sk_isActive k) (skills s))))"

definition context_load_event :: "string \<Rightarrow> uuid \<Rightarrow> uuid \<Rightarrow> json \<Rightarrow> uuid list \<Rightarrow> json" where
  "context_load_event correlation sid org active skill_ids = JObj [(''correlation_id'', JStr correlation),
     (''session_id'', JStr sid), (''org_id'', JStr org), (''active_rules'', active),
     (''skill_ids'', JArr (map JStr skill_ids))]"

definition task_new_event :: "string \<Rightarrow> uuid \<Rightarrow> ai_task_params \<Rightarrow> uuid \<Rightarrow> json" where
  "task_new_event correlation org p execution = JObj ([(''correlation_id'', JStr correlation),
     (''session_id'', JStr (tp_sessionId p)), (''org_id'', JStr org),
     (''task_type'', JStr (pipeline_task_type_str (tp_taskType p))),
     (''mode'', JStr (session_mode_str (tp_mode p))), (''input'', tp_input p),
     (''pipeline_execution_id'', JStr execution)] @
     (case tp_resumeFromCheckpoint p of None \<Rightarrow> [] | Some a \<Rightarrow> [(''resume_from_checkpoint'', JStr (agent_type_str a))]) @
     (case tp_triggeredBy p of Some (c # cs) \<Rightarrow> [(''triggered_by'', JStr (c # cs))] | _ \<Rightarrow> []))"

definition publishAiTask :: "ai_task_params \<Rightarrow> ('z rules_state_scheme, uuid \<times> string) action" where
  "publishAiTask p =
     await (reads (\<lambda>s. find_row ses_id (tp_sessionId p) (sessions s))) (\<lambda>ses.
     await (some_or_throw ses (PlainError ''Session not found when publishing ai task'')) (\<lambda>ses.
     await (resolveOrgIdForSession ses) (\<lambda>org.
     await (reads correlation_id) (\<lambda>correlation.
     await (new_id pe_id pipeline_executions ''pipeline_execution_pkey'') (\<lambda>i.
     await current_time (\<lambda>t.
     let execution = new_pipeline p i t in
     await (writes (pipeline_executions_update (\<lambda>l. l @ [execution]))) (\<lambda>_.
     await (listActiveRulesForContext org (ses_id ses)) (\<lambda>active.
     await (reads (\<lambda>s. map sk_id (offered_skills org s))) (\<lambda>skill_ids.
     await (nats_publish ''ai.context.load'' (context_load_event correlation (ses_id ses) org active skill_ids)
              (msg_id_for correlation ''ai.context.load'' [])) (\<lambda>_.
     await (nats_publish ''ai.tasks.new'' (task_new_event correlation org p i)
              (msg_id_for correlation ''ai.tasks.new'' i)) (\<lambda>_.
     let message = correlation @ '':ai.tasks.new:'' @ i in
     await (save_pipeline (execution\<lparr>pe_natsMessageId := Some message\<rparr>)) (\<lambda>_.
     ok (i, message)))))))))))))"

section \<open>The service\<close>

definition findSessionInOrgOrThrow :: "uuid \<Rightarrow> uuid \<Rightarrow> ('z core_scheme, session) action" where
  "findSessionInOrgOrThrow sid org =
     await (reads (\<lambda>s. find_row ses_id sid (sessions s))) (\<lambda>ses.
     await (some_or_throw ses (NotFound ''Session not found'')) (\<lambda>ses.
     await (findWorkflowInOrgOrThrow (ses_workflowId ses) org ''Session not found'') (\<lambda>_. ok ses)))"

text \<open>The guard of the routes with a session.\<close>

definition sessionOrgGuard :: "uuid option \<Rightarrow> uuid option \<Rightarrow> ('z core_scheme, bool) action" where
  "sessionOrgGuard org sid =
     await (require (present org) (Forbidden ''Organization scope is required'')) (\<lambda>_.
     if \<not> present sid then ok True
     else await (findSessionInOrgOrThrow (the sid) (the org)) (\<lambda>_. ok True))"

definition assertOwnerOrAdmin :: "session \<Rightarrow> request_user \<Rightarrow> ('s, unit) action" where
  "assertOwnerOrAdmin ses caller =
     require (ru_role caller = user_role_str UserRole.ADMIN \<or> ses_userId ses = ru_id caller)
       (Forbidden ''Only the session owner or an admin can manage this session'')"

definition assertAdmin :: "request_user \<Rightarrow> ('s, unit) action" where
  "assertAdmin caller = require (ru_role caller = user_role_str UserRole.ADMIN) (Forbidden ''Admin role is required'')"

definition date_or_null :: "time option \<Rightarrow> json" where
  "date_or_null t = json_opt (\<lambda>x. json_date x) t"

definition serializeSession :: "session \<Rightarrow> json" where
  "serializeSession ses = JObj [(''id'', JStr (ses_id ses)), (''workflowId'', JStr (ses_workflowId ses)),
     (''userId'', JStr (ses_userId ses)), (''mode'', JStr (session_mode_str (ses_mode ses))),
     (''status'', JStr (session_status_str (ses_status ses))), (''confidenceScore'', JNum (ses_confidenceScore ses)),
     (''createdAt'', json_date (ses_createdAt ses)), (''finalizedAt'', date_or_null (ses_finalizedAt ses)),
     (''archivedAt'', date_or_null (ses_archivedAt ses))]"

definition audit_session :: "session \<Rightarrow> request_user \<Rightarrow> string \<Rightarrow> json \<Rightarrow> json \<Rightarrow> ('z core_scheme, unit) action" where
  "audit_session ses caller event old new =
     audit (Some (ses_workflowId ses)) (Some (ru_id caller)) ActorType.USER event None old new"

definition createSession :: "uuid \<Rightarrow> SessionMode \<Rightarrow> request_user \<Rightarrow> ('z tables_scheme, json) action" where
  "createSession wid mode caller =
     await (findWorkflowInOrgOrThrow wid (ru_orgId caller) ''Workflow not found'') (\<lambda>w.
     await (new_id ses_id sessions ''session_pkey'') (\<lambda>i.
     await current_time (\<lambda>t.
     let ses = \<lparr> ses_id = i, ses_workflowId = wf_id w, ses_userId = ru_id caller, ses_mode = mode,
                 ses_status = SessionStatus.CREATED, ses_confidenceScore = 0, ses_createdAt = t,
                 ses_finalizedAt = None, ses_archivedAt = None \<rparr>
     in await (writes (sessions_update (\<lambda>l. l @ [ses]))) (\<lambda>_. ok (serializeSession ses)))))"

definition getSession :: "uuid \<Rightarrow> request_user \<Rightarrow> ('z core_scheme, json) action" where
  "getSession sid caller = await (findSessionInOrgOrThrow sid (ru_orgId caller)) (\<lambda>ses. ok (serializeSession ses))"

definition getSessionByWorkflowId :: "uuid \<Rightarrow> request_user \<Rightarrow> ('z core_scheme, json) action" where
  "getSessionByWorkflowId wid caller =
     await (findWorkflowInOrgOrThrow wid (ru_orgId caller) ''Workflow not found'') (\<lambda>_.
     await (reads (\<lambda>s. first_row (sort_desc ses_createdAt (filter (\<lambda>r. ses_workflowId r = wid) (sessions s))))) (\<lambda>ses.
     await (some_or_throw ses (NotFound (''No session found for workflow '' @ wid))) (\<lambda>ses.
     ok (serializeSession ses))))"

definition updateMode :: "uuid \<Rightarrow> SessionMode \<Rightarrow> request_user \<Rightarrow> ('z core_scheme, json) action" where
  "updateMode sid mode caller =
     await (findSessionInOrgOrThrow sid (ru_orgId caller)) (\<lambda>ses.
     await (assertOwnerOrAdmin ses caller) (\<lambda>_.
     if ses_mode ses = mode then ok (serializeSession ses)
     else let saved = ses\<lparr>ses_mode := mode\<rparr> in
       await (save_session saved) (\<lambda>_.
       await (audit_session ses caller ''SESSION_MODE_UPDATED''
                (JObj [(''mode'', JStr (session_mode_str (ses_mode ses)))])
                (JObj [(''mode'', JStr (session_mode_str mode))])) (\<lambda>_.
       ok (serializeSession saved)))))"

definition status_json :: "SessionStatus \<Rightarrow> string \<times> json" where
  "status_json b = (''status'', JStr (session_status_str b))"

definition finalize :: "uuid \<Rightarrow> request_user \<Rightarrow> ('z core_scheme, json) action" where
  "finalize sid caller =
     await (findSessionInOrgOrThrow sid (ru_orgId caller)) (\<lambda>ses.
     await (assertOwnerOrAdmin ses caller) (\<lambda>_.
     await (findWorkflowInOrgOrThrow (ses_workflowId ses) (ru_orgId caller) ''Workflow not found'') (\<lambda>_.
     await (moved USER_FINALIZES ses) (\<lambda>next.
     await current_time (\<lambda>t.
     let saved = next\<lparr>ses_finalizedAt := Some t\<rparr> in
     await (save_session saved) (\<lambda>_.
     await (reads (latest_version (ses_workflowId ses))) (\<lambda>v.
     await (audit_session ses caller ''SESSION_FINALIZED'' (JObj [status_json (ses_status ses)])
              (JObj [status_json (ses_status saved), (''finalized_at'', json_date t)])) (\<lambda>_.
     await (nats_publish ''session.events.finalized'' (JObj [(''session_id'', JStr (ses_id saved)),
              (''workflow_id'', JStr (ses_workflowId saved)),
              (''final_version_number'', json_int (case v of None \<Rightarrow> 0 | Some v \<Rightarrow> wv_versionNumber v)),
              (''final_confidence'', JNum (ses_confidenceScore saved)), (''finalized_at'', json_date t)])
              (msg_id_for (ses_id saved) ''session.events.finalized'' [])) (\<lambda>_.
     ok (serializeSession saved))))))))))"

definition getWorkflowState :: "uuid \<Rightarrow> request_user \<Rightarrow> ('z core_scheme, json) action" where
  "getWorkflowState sid caller =
     await (findSessionInOrgOrThrow sid (ru_orgId caller)) (\<lambda>ses.
     await (reads (latest_version (ses_workflowId ses))) (\<lambda>v.
     ok (JObj [(''sessionId'', JStr (ses_id ses)), (''workflowId'', JStr (ses_workflowId ses)),
       (''versionNumber'', json_opt (\<lambda>v. json_int (wv_versionNumber v)) v),
       (''elementsJson'', json_opt wv_elementsJson v)])))"

fun pipelineProgress :: "PipelineStatus \<Rightarrow> int" where
  "pipelineProgress PipelineStatus.COMPLETED = 100"
| "pipelineProgress PipelineStatus.RUNNING = 50"
| "pipelineProgress PipelineStatus.PAUSED = 50"
| "pipelineProgress PipelineStatus.FAILED = 100"
| "pipelineProgress PipelineStatus.CANCELLED = 100"
| "pipelineProgress PipelineStatus.PENDING = 0"

definition getProgress :: "uuid \<Rightarrow> request_user \<Rightarrow> ('z tables_scheme, json) action" where
  "getProgress sid caller =
     await (findSessionInOrgOrThrow sid (ru_orgId caller)) (\<lambda>ses.
     reads (\<lambda>s. let p = latest_pipeline (ses_id ses) s in JObj
       [(''current_agent'', case p of None \<Rightarrow> JNull | Some p \<Rightarrow> agent_json (pe_lastCheckpointAgent p)),
        (''progress_pct'', case p of None \<Rightarrow> json_int 0 | Some p \<Rightarrow> json_int (pipelineProgress (pe_status p))),
        (''overall_confidence'', JNum (case Option.bind p pe_finalConfidence of
           None \<Rightarrow> ses_confidenceScore ses | Some c \<Rightarrow> c))]))"

definition dispatchAiTask ::
    "uuid \<Rightarrow> json \<Rightarrow> request_user \<Rightarrow> PipelineTaskType option \<Rightarrow> AgentType option \<Rightarrow>
     ('z rules_state_scheme, uuid \<times> string) action" where
  "dispatchAiTask sid inp caller taskType resume =
     await (findSessionInOrgOrThrow sid (ru_orgId caller)) (\<lambda>ses.
     await (assertOwnerOrAdmin ses caller) (\<lambda>_.
     let task = (case taskType of None \<Rightarrow> FULL_PIPELINE | Some t \<Rightarrow> t) in
     await (publishAiTask \<lparr> tp_sessionId = ses_id ses, tp_taskType = task, tp_mode = ses_mode ses, tp_input = inp,
              tp_triggeredBy = Some (ru_id caller), tp_resumeFromCheckpoint = resume \<rparr>) (\<lambda>(execution, message).
     await (if ses_status ses = SessionStatus.CREATED
            then await (moved FIRST_USER_MESSAGE ses) (\<lambda>a. await (moved AI_TASK_PUBLISHED a) save_session)
            else if ses_status ses \<in> {SessionStatus.AWAITING_INPUT, SessionStatus.IN_ELICITATION}
            then await (moved AI_TASK_PUBLISHED ses) save_session
            else ok ()) (\<lambda>_.
     await (audit_session ses caller ''AI_TASK_DISPATCHED'' JNull
              (JObj [(''pipeline_execution_id'', JStr execution), (''task_type'', JStr (pipeline_task_type_str task)),
                     (''nats_message_id'', JStr message)])) (\<lambda>_.
     ok (execution, message))))))"

definition archiveSession :: "uuid \<Rightarrow> request_user \<Rightarrow> ('z tables_scheme, json) action" where
  "archiveSession sid caller =
     await (findSessionInOrgOrThrow sid (ru_orgId caller)) (\<lambda>ses.
     await (assertOwnerOrAdmin ses caller) (\<lambda>_.
     await (moved USER_DELETES ses) (\<lambda>next.
     await current_time (\<lambda>t.
     let saved = next\<lparr>ses_archivedAt := Some t\<rparr> in
     await (save_session saved) (\<lambda>_.
     await (writes (messages_update (update_where (\<lambda>m. msg_sessionId m = ses_id ses)
              (\<lambda>m. m\<lparr>msg_archivedAt := Some t\<rparr>)))) (\<lambda>_.
     await (writes (documents_update (update_where (\<lambda>d. doc_sessionId d = Some (ses_id ses))
              (\<lambda>d. d\<lparr>doc_archivedAt := Some t\<rparr>)))) (\<lambda>_.
     await (writes (pipeline_executions_update (update_where (\<lambda>p. pe_sessionId p = ses_id ses)
              (\<lambda>p. p\<lparr>pe_archivedAt := Some t\<rparr>)))) (\<lambda>_.
     await (audit_session ses caller ''SESSION_ARCHIVED'' (JObj [status_json (ses_status ses)])
              (JObj [status_json (ses_status saved), (''archived_at'', json_date t)])) (\<lambda>_.
     ok (serializeSession saved))))))))))"

record update_status_dto =
  us_status :: SessionStatus
  us_reason :: string
  us_force :: "bool option"

definition emitNeedsReconciliation :: "uuid \<Rightarrow> ('z core_scheme, unit) action" where
  "emitNeedsReconciliation sid = emit_to_room (room_session sid) ''session.needs_reconciliation''
     (JObj [(''session_id'', JStr sid), (''report_id'', JStr []), (''similarity_score'', json_int 0)])"

definition overrideStatus :: "uuid \<Rightarrow> update_status_dto \<Rightarrow> request_user \<Rightarrow> ('z core_scheme, json) action" where
  "overrideStatus sid dto caller =
     await (assertAdmin caller) (\<lambda>_.
     await (findSessionInOrgOrThrow sid (ru_orgId caller)) (\<lambda>ses.
     await (require (us_force dto = Some True \<or> canTransitionTo (ses_status ses) (us_status dto) (Some (ses_mode ses)))
              (Conflict (JStr ''Target status violates the session FSM''))) (\<lambda>_.
     await current_time (\<lambda>t.
     let saved = ses\<lparr>ses_status := us_status dto,
         ses_archivedAt := (if us_status dto = SessionStatus.ARCHIVED then Some t else ses_archivedAt ses),
         ses_finalizedAt := (if us_status dto = SessionStatus.DRAFT_READY \<and> ses_finalizedAt ses = None
                             then Some t else ses_finalizedAt ses)\<rparr>
     in await (save_session saved) (\<lambda>_.
        await (if us_status dto = SessionStatus.NEEDS_RECONCILIATION then emitNeedsReconciliation (ses_id ses) else ok ()) (\<lambda>_.
        await (audit_session ses caller ''SESSION_STATUS_OVERRIDDEN'' (JObj [status_json (ses_status ses)])
                 (JObj [status_json (ses_status saved), (''reason'', JStr (us_reason dto)),
                        (''force'', JBool (us_force dto = Some True))])) (\<lambda>_.
        ok (serializeSession saved)))))))) "

end
