(* ===== verification/AiGateway.thy ===== *)
theory AiGateway
  imports Sessions
begin

text \<open>
  What comes back from the AI workers: \<open>src/modules/ai-gateway/handlers\<close>, the subscriptions of
  \<open>ai-gateway.subscriber.service.ts\<close>, the dead letters, and the delivery of messages in
  \<open>src/infra/nats/nats.client.ts\<close>. The fields of a message have the types of its contract; a field that is
  missing or \<open>null\<close> is \<open>None\<close>.
\<close>

section \<open>State\<close>

text \<open>
  The sets of handled messages are lists in insertion order, as \<open>Set\<close> keeps it. \<open>ended_consumers\<close> are the
  subjects of the subscriptions whose loop has ended with an error.
\<close>

record gateway_state = rules_state +
  handled_results :: "string list"
  handled_progress :: "string list"
  handled_divergences :: "string list"
  ended_consumers :: "string list"
  divergence_threshold :: rat

definition idempotencyKey :: "string option \<Rightarrow> string \<Rightarrow> string \<Rightarrow> string" where
  "idempotencyKey msgId correlation subject =
     (case msgId of None \<Rightarrow> [] | Some m \<Rightarrow> m) @ '':'' @ correlation @ '':'' @ subject"

definition remember :: "string \<Rightarrow> string list \<Rightarrow> string list" where
  "remember key seen = (let all = (if key \<in> set seen then seen else seen @ [key])
     in if length all > 10000 \<and> hd all \<noteq> [] then tl all else all)"

text \<open>\<open>findOne\<close> ignores a condition whose value is missing.\<close>

definition row_where :: "('r \<Rightarrow> uuid) \<Rightarrow> uuid option \<Rightarrow> 'r list \<Rightarrow> 'r option" where
  "row_where key i rows = (case i of None \<Rightarrow> first_row rows | Some i \<Rightarrow> find_row key i rows)"

definition str_field :: "json \<Rightarrow> string \<Rightarrow> string option" where
  "str_field j k = (case get_prop j k of Some (JStr v) \<Rightarrow> Some v | _ \<Rightarrow> None)"

definition field :: "json \<Rightarrow> string \<Rightarrow> json option" where
  "field j k = (case get_prop j k of None \<Rightarrow> None | Some v \<Rightarrow> if v = JNull then None else Some v)"

definition num_field :: "json \<Rightarrow> string \<Rightarrow> rat option" where
  "num_field j k = (case get_prop j k of Some (JNum v) \<Rightarrow> Some v | _ \<Rightarrow> None)"

fun or_else :: "'a option \<Rightarrow> 'a \<Rightarrow> 'a" where
  "or_else None d = d"
| "or_else (Some x) d = x"

fun first_some :: "'a option list \<Rightarrow> 'a option" where
  "first_some [] = None"
| "first_some (None # xs) = first_some xs"
| "first_some (Some x # xs) = Some x"

section \<open>A finished pipeline\<close>

record result_event =
  re_correlation_id :: string
  re_session_id :: "uuid option"
  re_org_id :: string
  re_pipeline_execution_id :: uuid
  re_workflow_json :: "json option"
  re_elsa_json :: "json option"
  re_confidence :: rat
  re_summary :: "string option"
  re_version_number :: "int option"

definition find_pipeline :: "uuid \<Rightarrow> uuid option \<Rightarrow> 'z tables_scheme \<Rightarrow> pipeline_execution option" where
  "find_pipeline i sid s =
     find (\<lambda>p. pe_id p = i \<and> (case sid of None \<Rightarrow> True | Some x \<Rightarrow> pe_sessionId p = x)) (pipeline_executions s)"

definition assertOrgMatch :: "string \<Rightarrow> uuid \<Rightarrow> ('z core_scheme, unit) action" where
  "assertOrgMatch org sid =
     (if org = [] then ok ()
      else await (reads (\<lambda>s. find_row ses_id sid (sessions s))) (\<lambda>ses.
           await (some_or_throw ses (PlainError ''Session not found for org validation'')) (\<lambda>ses.
           await (reads (\<lambda>s. find_row wf_id (ses_workflowId ses) (workflows s))) (\<lambda>w.
           await (some_or_throw w (PlainError ''Workflow not found for org validation'')) (\<lambda>w.
           require (wf_orgId w = org) (PlainError ''org_id mismatch in NATS payload''))))))"

definition createWorkflowVersionFromResult ::
    "result_event \<Rightarrow> workflow \<Rightarrow> session \<Rightarrow> ('z core_scheme, workflow_version) action" where
  "createWorkflowVersionFromResult p w ses =
     await (reads (latest_version (wf_id w))) (\<lambda>current.
     insert_version \<lparr> nv_workflowId = wf_id w,
       nv_versionNumber = or_else (re_version_number p) ((case current of None \<Rightarrow> 0 | Some v \<Rightarrow> wv_versionNumber v) + 1),
       nv_elementsJson = or_else (re_workflow_json p) (JObj []), nv_elsaJson = re_elsa_json p,
       nv_confidenceScore = Some (re_confidence p), nv_createdBy = Some (ses_userId ses) \<rparr>)"

definition insert_message :: "message \<Rightarrow> ('z tables_scheme, unit) action" where
  "insert_message m =
     await (new_id msg_id messages ''message_pkey'') (\<lambda>i.
     await current_time (\<lambda>t.
     writes (messages_update (\<lambda>l. l @ [m\<lparr>msg_id := i, msg_createdAt := t\<rparr>]))))"

definition array_field :: "json \<Rightarrow> string \<Rightarrow> json list" where
  "array_field j k = (case get_prop j k of Some (JArr vs) \<Rightarrow> vs | _ \<Rightarrow> [])"

definition computeChangedElements :: "json \<Rightarrow> ('s, json) action" where
  "computeChangedElements j =
     (let entries = array_field j ''elements'' in
      await (require (JNull \<notin> set entries) (TypeErr ''Cannot read properties of null'')) (\<lambda>_.
      ok (JArr [JObj [(''element_id'', JStr e), (''change_type'', JStr ''modified'')].
            e \<leftarrow> List.map_filter (\<lambda>x. str_field x ''element_id'') entries])))"

definition markWorkflowUpdated :: "uuid \<Rightarrow> workflow_version \<Rightarrow> ('z core_scheme, unit) action" where
  "markWorkflowUpdated wid v =
     await (computeChangedElements (wv_elementsJson v)) (\<lambda>changed.
     nats_publish ''workflow.events.updated''
       (JObj [(''workflow_id'', JStr wid), (''version_number'', json_int (wv_versionNumber v)),
              (''changed_elements'', changed), (''source'', JStr ''ai''), (''correlation_id'', JStr [])])
       (msg_id_for [] ''workflow.events.updated'' []))"

definition save_snapshot :: "graph_snapshot \<Rightarrow> ('z tables_scheme, uuid) action" where
  "save_snapshot g =
     await (new_id gs_id graph_snapshots ''workflow_graph_snapshot_pkey'') (\<lambda>i.
     await current_time (\<lambda>t.
     await (require (smallint (gs_nodeCount g) \<and> smallint (gs_edgeCount g)) (QueryFailed ''smallint'')) (\<lambda>_.
     await (writes (graph_snapshots_update (\<lambda>l. l @ [g\<lparr>gs_id := i, gs_createdAt := t\<rparr>]))) (\<lambda>_. ok i))))"

definition snapshot_of ::
    "session \<Rightarrow> uuid \<Rightarrow> uuid option \<Rightarrow> GraphType \<Rightarrow> GraphSource \<Rightarrow> json list \<Rightarrow> json list \<Rightarrow> graph_snapshot" where
  "snapshot_of ses wid vid ty src nodes edges = \<lparr> gs_id = [], gs_workflowId = wid, gs_workflowVersionId = vid,
     gs_sessionId = Some (ses_id ses), gs_graphType = ty, gs_source = src, gs_nodes = nodes, gs_edges = edges,
     gs_nodeCount = int (length nodes), gs_edgeCount = int (length edges), gs_graphEmbedding = None,
     gs_createdBy = Some (ses_userId ses), gs_createdAt = 0 \<rparr>"

definition node_json :: "kg_node \<Rightarrow> json" where
  "node_json n = JObj [(''id'', JStr (kn_id n)), (''type'', JStr (kn_type n)), (''label'', JStr (kn_label n)),
     (''inferred'', JBool (kn_inferred n))]"

definition edge_json :: "kg_edge \<Rightarrow> json" where
  "edge_json e = JObj [(''id'', JStr (ke_id e)), (''from'', JStr (ke_fromNodeId e)), (''to'', JStr (ke_toNodeId e)),
     (''relationType'', JStr (ke_relationType e))]"

definition buildIntentSnapshot :: "session \<Rightarrow> uuid \<Rightarrow> ('z tables_scheme, uuid) action" where
  "buildIntentSnapshot ses wid =
     await (reads (\<lambda>s. map node_json (filter (\<lambda>n. kn_sessionId n = ses_id ses) (kg_nodes s)))) (\<lambda>nodes.
     await (reads (\<lambda>s. map edge_json (filter (\<lambda>e. ke_sessionId e = ses_id ses) (kg_edges s)))) (\<lambda>edges.
     save_snapshot (snapshot_of ses wid None INTENT AI_EXTRACTION nodes edges)))"

definition buildGeneratedSnapshot :: "session \<Rightarrow> uuid \<Rightarrow> workflow_version \<Rightarrow> ('z tables_scheme, uuid) action" where
  "buildGeneratedSnapshot ses wid v =
     save_snapshot (snapshot_of ses wid (Some (wv_id v)) GENERATED AI_GENERATION
       (array_field (wv_elementsJson v) ''nodes'') (array_field (wv_elementsJson v) ''edges''))"

definition createDivergenceReport :: "uuid \<Rightarrow> uuid \<Rightarrow> uuid \<Rightarrow> uuid \<Rightarrow> ('z tables_scheme, uuid) action" where
  "createDivergenceReport wid execution a b =
     await (new_id dr_id divergence_reports ''divergence_report_pkey'') (\<lambda>i.
     await current_time (\<lambda>t.
     await (writes (divergence_reports_update (\<lambda>l. l @ [\<lparr> dr_id = i, dr_workflowId = wid, dr_graphAId = a,
       dr_graphBId = b, dr_comparisonType = INTENT_VS_GENERATED, dr_status = DivergenceReportStatus.PENDING,
       dr_overallSimilarity = None, dr_severity = None, dr_algorithmUsed = None, dr_totalPoints = 0,
       dr_criticalCount = 0, dr_highCount = 0, dr_mediumCount = 0, dr_lowCount = 0, dr_autoTriggered = True,
       dr_triggeredBy = None, dr_pipelineExecutionId = Some execution, dr_completedAt = None,
       dr_createdAt = t \<rparr>]))) (\<lambda>_. ok i)))"

text \<open>What is stored and published once the version exists and the session has moved.\<close>

definition publish_result ::
    "result_event \<Rightarrow> workflow \<Rightarrow> session \<Rightarrow> pipeline_execution \<Rightarrow> workflow_version \<Rightarrow> ('z tables_scheme, unit) action" where
  "publish_result p w ses execution v =
     await (markWorkflowUpdated (wf_id w) v) (\<lambda>_.
     await (buildIntentSnapshot ses (wf_id w)) (\<lambda>a.
     await (buildGeneratedSnapshot ses (wf_id w) v) (\<lambda>b.
     await (createDivergenceReport (wf_id w) (pe_id execution) a b) (\<lambda>report.
     await (nats_publish ''ai.tasks.divergence'' (JObj [(''correlation_id'', JStr (re_correlation_id p)),
              (''report_id'', JStr report), (''graph_a_id'', JStr a), (''graph_b_id'', JStr b),
              (''comparison_type'', JStr (comparison_type_str INTENT_VS_GENERATED)), (''session_id'', JStr (ses_id ses))])
              (msg_id_for (re_correlation_id p) ''ai.tasks.divergence'' report)) (\<lambda>_.
     emit_to_room (room_session (ses_id ses)) ''workflow.updated''
       (JObj [(''workflowId'', JStr (wf_id w)), (''versionNumber'', json_int (wv_versionNumber v)),
              (''confidence'', JNum (re_confidence p))]))))))"

definition complete_pipeline :: "result_event \<Rightarrow> pipeline_execution \<Rightarrow> ('z tables_scheme, pipeline_execution) action" where
  "complete_pipeline p execution =
     await current_time (\<lambda>t.
     let done = execution\<lparr>pe_status := PipelineStatus.COMPLETED, pe_finalConfidence := Some (re_confidence p),
       pe_completedAt := Some t, pe_errorSummary := None\<rparr>
     in await (save_pipeline done) (\<lambda>_. ok done))"

definition applied_shape :: "int \<Rightarrow> SessionStatus \<Rightarrow> (string \<times> json) list" where
  "applied_shape n b = [(''workflow_current_version'', json_int n), (''session_status'', JStr (session_status_str b))]"

definition apply_result ::
    "result_event \<Rightarrow> pipeline_execution \<Rightarrow> session \<Rightarrow> workflow \<Rightarrow> ('z tables_scheme, unit) action" where
  "apply_result p execution ses w =
     await (createWorkflowVersionFromResult p w ses) (\<lambda>v.
     await (save_workflow (w\<lparr>wf_currentVersion := wv_versionNumber v, wf_status := PENDING_REVIEW\<rparr>)) (\<lambda>saved.
     await (moved AI_RESULT_RECEIVED (ses\<lparr>ses_confidenceScore := re_confidence p\<rparr>)) (\<lambda>next.
     await (save_session next) (\<lambda>_.
     await (complete_pipeline p execution) (\<lambda>done.
     await (insert_message \<lparr> msg_id = [], msg_sessionId = ses_id ses, msg_role = AI, msg_type = AI_UPDATE,
              msg_content = or_else (re_summary p) ''AI pipeline completed and workflow updated'',
              msg_metadata = JObj [(''correlation_id'', JStr (re_correlation_id p)),
                (''version_number'', json_int (wv_versionNumber v))],
              msg_createdAt = 0, msg_archivedAt = None \<rparr>) (\<lambda>_.
     await (audit (Some (wf_id w)) None ActorType.AI_AGENT ''AI_TASK_RESULT_APPLIED'' None
              (JObj (applied_shape (wf_currentVersion w) (ses_status ses)))
              (JObj (applied_shape (wf_currentVersion saved) (ses_status next) @
                 [(''confidence'', JNum (re_confidence p))]))) (\<lambda>_.
     publish_result p saved next done v)))))))"

definition process_result :: "result_event \<Rightarrow> ('z tables_scheme, unit) action" where
  "process_result p =
     await (require (re_pipeline_execution_id p \<noteq> []) (QueryFailed ''invalid input syntax for type uuid'')) (\<lambda>_.
     await (reads (find_pipeline (re_pipeline_execution_id p) (re_session_id p))) (\<lambda>execution.
     await (some_or_throw execution (PlainError ''Pipeline execution not found for ai.tasks.result'')) (\<lambda>execution.
     await (reads (\<lambda>s. row_where ses_id (re_session_id p) (sessions s))) (\<lambda>ses.
     await (some_or_throw ses (PlainError ''Session not found for ai.tasks.result'')) (\<lambda>ses.
     await (assertOrgMatch (re_org_id p) (ses_id ses)) (\<lambda>_.
     await (reads (\<lambda>s. find_row wf_id (ses_workflowId ses) (workflows s))) (\<lambda>w.
     await (some_or_throw w (PlainError ''Workflow not found for ai.tasks.result'')) (\<lambda>w.
     apply_result p execution ses w))))))))"

definition handle_result :: "result_event \<Rightarrow> string option \<Rightarrow> ('z gateway_state_scheme, unit) action" where
  "handle_result p msgId =
     (let key = idempotencyKey msgId (re_correlation_id p) ''ai.tasks.result'' in
      await (reads (\<lambda>s. key \<in> set (handled_results s))) (\<lambda>seen.
      if seen then ok ()
      else await (process_result p) (\<lambda>_. writes (handled_results_update (remember key)))))"

section \<open>Progress of an agent\<close>

record log_entry =
  le_level :: LogLevel
  le_message :: string
  le_metadata :: "json option"

record progress_event =
  pr_correlation_id :: string
  pr_session_id :: uuid
  pr_org_id :: string
  pr_pipeline_execution_id :: uuid
  pr_agent_execution_id :: uuid
  pr_agent_type :: AgentType
  pr_status :: AgentExecutionStatus
  pr_order_index :: int
  pr_progress_pct :: rat
  pr_confidence_input :: "rat option"
  pr_confidence_output :: "rat option"
  pr_llm_calls_delta :: "int option"
  pr_tokens_delta :: "int option"
  pr_started_at :: "time option"
  pr_completed_at :: "time option"
  pr_error_message :: "string option"
  pr_log :: "log_entry option"

definition resolveAgentDefinitionId :: "AgentType \<Rightarrow> ('z tables_scheme, uuid) action" where
  "resolveAgentDefinitionId a =
     await (reads (\<lambda>s. first_row (sort_key ad_createdAt (filter (\<lambda>d. ad_agentType d = a) (agent_definitions s))))) (\<lambda>d.
     await (some_or_throw d (PlainError (''Agent definition missing for '' @ agent_type_str a))) (\<lambda>d. ok (ad_id d)))"

text \<open>\<open>Math.max(0, count + delta)\<close>, where there is a delta.\<close>

definition counted :: "int option \<Rightarrow> int \<Rightarrow> int" where
  "counted delta n = (case delta of None \<Rightarrow> n | Some d \<Rightarrow> max 0 (n + d))"

definition or_keep :: "'a option \<Rightarrow> 'a option \<Rightarrow> 'a option" where
  "or_keep new old = (case new of None \<Rightarrow> old | Some x \<Rightarrow> Some x)"

definition nonempty :: "string option \<Rightarrow> string option" where
  "nonempty x = (if x = Some [] then None else x)"

definition new_agent_execution :: "progress_event \<Rightarrow> uuid \<Rightarrow> time \<Rightarrow> agent_execution" where
  "new_agent_execution p definition_id t = \<lparr> ae_id = pr_agent_execution_id p,
     ae_pipelineExecutionId = pr_pipeline_execution_id p, ae_agentDefinitionId = definition_id,
     ae_status = pr_status p, ae_orderIndex = pr_order_index p, ae_inputSnapshot = None, ae_outputSnapshot = None,
     ae_confidenceInput = pr_confidence_input p, ae_confidenceOutput = pr_confidence_output p,
     ae_llmCallsCount = 0, ae_tokensConsumed = 0, ae_errorMessage = pr_error_message p, ae_durationMs = None,
     ae_startedAt = pr_started_at p, ae_completedAt = pr_completed_at p, ae_createdAt = t \<rparr>"

definition advance_agent :: "progress_event \<Rightarrow> agent_execution \<Rightarrow> agent_execution" where
  "advance_agent p a = a\<lparr>ae_status := pr_status p, ae_orderIndex := pr_order_index p,
     ae_confidenceInput := or_keep (pr_confidence_input p) (ae_confidenceInput a),
     ae_confidenceOutput := or_keep (pr_confidence_output p) (ae_confidenceOutput a),
     ae_llmCallsCount := counted (pr_llm_calls_delta p) (ae_llmCallsCount a),
     ae_tokensConsumed := counted (pr_tokens_delta p) (ae_tokensConsumed a),
     ae_startedAt := or_keep (pr_started_at p) (ae_startedAt a),
     ae_completedAt := or_keep (pr_completed_at p) (ae_completedAt a),
     ae_errorMessage := or_keep (nonempty (pr_error_message p)) (ae_errorMessage a)\<rparr>"

definition advance_pipeline :: "progress_event \<Rightarrow> time \<Rightarrow> pipeline_execution \<Rightarrow> pipeline_execution" where
  "advance_pipeline p t e = e\<lparr>pe_totalLlmCalls := counted (pr_llm_calls_delta p) (pe_totalLlmCalls e),
     pe_totalTokensConsumed := counted (pr_tokens_delta p) (pe_totalTokensConsumed e),
     pe_lastCheckpointAgent := Some (pr_agent_type p),
     pe_status := (if pr_status p = AgentExecutionStatus.FAILED then PAUSED else PipelineStatus.RUNNING),
     pe_startedAt := (case pe_startedAt e of None \<Rightarrow> Some t | Some x \<Rightarrow> Some x),
     pe_completedAt := (if pr_status p \<in> {AgentExecutionStatus.COMPLETED, AgentExecutionStatus.FAILED} then None
                        else pe_completedAt e)\<rparr>"

definition insert_log :: "uuid \<Rightarrow> log_entry \<Rightarrow> ('z tables_scheme, unit) action" where
  "insert_log execution l =
     await (new_id lg_id agent_logs ''agent_log_pkey'') (\<lambda>i.
     await current_time (\<lambda>t.
     writes (agent_logs_update (\<lambda>rows. rows @ [\<lparr> lg_id = i, lg_agentExecutionId = execution, lg_logLevel = le_level l,
       lg_message = le_message l, lg_metadata = or_else (le_metadata l) (JObj []), lg_createdAt = t \<rparr>]))))"

definition handle_progress :: "progress_event \<Rightarrow> string option \<Rightarrow> ('z gateway_state_scheme, unit) action" where
  "handle_progress p msgId =
     (let key = idempotencyKey msgId (pr_correlation_id p) ''ai.tasks.progress'' in
      await (reads (\<lambda>s. key \<in> set (handled_progress s))) (\<lambda>seen.
      if seen then ok ()
      else
        await (assertOrgMatch (pr_org_id p) (pr_session_id p)) (\<lambda>_.
        await (reads (find_pipeline (pr_pipeline_execution_id p) (Some (pr_session_id p)))) (\<lambda>execution.
        await (some_or_throw execution (PlainError ''Pipeline execution not found for ai.tasks.progress'')) (\<lambda>execution.
        await (reads (\<lambda>s. find (\<lambda>a. ae_id a = pr_agent_execution_id p \<and>
                 ae_pipelineExecutionId a = pr_pipeline_execution_id p) (agent_executions s))) (\<lambda>existing.
        await (resolveAgentDefinitionId (pr_agent_type p)) (\<lambda>definition_id.
        await current_time (\<lambda>t.
        let agent = advance_agent p (or_else existing (new_agent_execution p definition_id t)) in
        await (require (smallint (ae_orderIndex agent) \<and> smallint (ae_llmCallsCount agent) \<and>
                 integer (ae_tokensConsumed agent)) (QueryFailed ''smallint'')) (\<lambda>_.
        await (writes (agent_executions_update (save_row ae_id agent))) (\<lambda>_.
        await (case pr_log p of None \<Rightarrow> ok () | Some l \<Rightarrow> insert_log (ae_id agent) l) (\<lambda>_.
        let next = advance_pipeline p t execution in
        await (require (integer (pe_totalLlmCalls next) \<and> integer (pe_totalTokensConsumed next)) (QueryFailed ''integer'')) (\<lambda>_.
        await (save_pipeline next) (\<lambda>_.
        await (emit_to_room (room_session (pr_session_id p)) ''pipeline.progress'' (JObj
          [(''pipelineExecutionId'', JStr (pr_pipeline_execution_id p)),
           (''agentExecutionId'', JStr (pr_agent_execution_id p)), (''agentType'', JStr (agent_type_str (pr_agent_type p))),
           (''status'', JStr (agent_execution_status_str (pr_status p))), (''progressPct'', JNum (pr_progress_pct p))])) (\<lambda>_.
        writes (handled_progress_update (remember key)))))))))))))))) "

section \<open>The result of a comparison\<close>

record divergence_event =
  dv_correlation_id :: string
  dv_report_id :: uuid
  dv_session_id :: uuid
  dv_similarity_score :: rat

definition handle_divergence :: "divergence_event \<Rightarrow> string option \<Rightarrow> ('z gateway_state_scheme, unit) action" where
  "handle_divergence p msgId =
     (let key = idempotencyKey msgId (dv_correlation_id p) ''ai.tasks.divergence.result'' in
      await (reads (\<lambda>s. key \<in> set (handled_divergences s))) (\<lambda>seen.
      if seen then ok ()
      else
        await (reads (\<lambda>s. find_row dr_id (dv_report_id p) (divergence_reports s))) (\<lambda>report.
        await (some_or_throw report (PlainError ''Divergence report not found'')) (\<lambda>report.
        await (reads divergence_threshold) (\<lambda>threshold.
        await (writes (divergence_reports_update (save_row dr_id
                 (report\<lparr>dr_overallSimilarity := Some (dv_similarity_score p)\<rparr>)))) (\<lambda>_.
        await (if dv_similarity_score p < threshold
               then await (reads (\<lambda>s. find_row ses_id (dv_session_id p) (sessions s))) (\<lambda>ses. case ses of
                      None \<Rightarrow> ok ()
                    | Some ses \<Rightarrow>
                        await (save_session (ses\<lparr>ses_status := NEEDS_RECONCILIATION\<rparr>)) (\<lambda>_.
                        emit_to_room (room_session (ses_id ses)) ''session.needs_reconciliation''
                          (JObj [(''similarityScore'', JNum (dv_similarity_score p)), (''threshold'', JNum threshold)])))
               else ok ()) (\<lambda>_.
        writes (handled_divergences_update (remember key)))))))))"

section \<open>Messages that keep failing\<close>

text \<open>\<open>error.message\<close>; an exception with a response object takes its message or the words of its class.\<close>

fun response_message :: "string \<Rightarrow> json \<Rightarrow> string" where
  "response_message cls (JStr m) = m"
| "response_message cls j = (case get_prop j ''message'' of Some (JStr m) \<Rightarrow> m | _ \<Rightarrow> cls)"

fun error_message :: "exn \<Rightarrow> string" where
  "error_message (BadRequest j) = response_message ''Bad Request Exception'' j"
| "error_message (Conflict j) = response_message ''Conflict Exception'' j"
| "error_message (Unauthorized m) = m"
| "error_message (Forbidden m) = m"
| "error_message (NotFound m) = m"
| "error_message (Gone m) = m"
| "error_message (Unprocessable m) = m"
| "error_message (UnsupportedMedia m) = m"
| "error_message (BadGateway m) = m"
| "error_message (Unavailable j) = response_message ''Service Unavailable Exception'' j"
| "error_message (ServerError m) = m"
| "error_message (PlainError m) = m"
| "error_message (TypeErr m) = m"
| "error_message (QueryFailed m) = m"
| "error_message (CanvasRevisionConflict n) = []"

definition recordFailure ::
    "string \<Rightarrow> json \<Rightarrow> string \<Rightarrow> int \<Rightarrow> string option \<Rightarrow> ('z tables_scheme, unit) action" where
  "recordFailure subject payload reason count lastError =
     await (new_id dl_id dead_letters ''dead_letter_pkey'') (\<lambda>i.
     await current_time (\<lambda>t.
     await (require (smallint count) (QueryFailed ''smallint'')) (\<lambda>_.
     writes (dead_letters_update (\<lambda>l. l @ [\<lparr> dl_id = i, dl_subject = subject, dl_payload = payload, dl_reason = reason,
       dl_deliveryCount = count, dl_lastError = lastError, dl_createdAt = t \<rparr>])))))"

definition retry_exhausted :: "string \<Rightarrow> json \<Rightarrow> exn \<Rightarrow> int \<Rightarrow> ('z tables_scheme, unit) action" where
  "retry_exhausted subject payload e count =
     (let reason = ''max deliveries reached for '' @ subject in
      await (case nonempty (str_field payload ''pipeline_execution_id'') of
          None \<Rightarrow> ok ()
        | Some i \<Rightarrow> await (reads (\<lambda>s. find_row pe_id i (pipeline_executions s))) (\<lambda>x. case x of
              None \<Rightarrow> ok ()
            | Some x \<Rightarrow> await current_time (\<lambda>t. save_pipeline (x\<lparr>pe_status := PipelineStatus.FAILED,
                  pe_errorSummary := Some (error_message e), pe_completedAt := Some t\<rparr>)))) (\<lambda>_.
      await (case nonempty (str_field payload ''session_id'') of
          None \<Rightarrow> ok ()
        | Some sid \<Rightarrow> emit_to_room (room_session sid) ''pipeline.failed'' (JObj [(''subject'', JStr subject),
            (''reason'', JStr reason), (''lastError'', JStr (error_message e))])) (\<lambda>_.
      recordFailure subject payload reason count (Some (error_message e)))))"

text \<open>
  One delivery of a message: acknowledged when the handler returns, given back when it throws, and
  on the third delivery handed to \<open>onExhausted\<close> and terminated. The server delivers a message that
  was given back again, with the next count, at most \<open>max_deliver\<close> times.
\<close>

datatype delivery = Acked | Given_back | Terminated | Unsettled

definition max_deliver :: int where "max_deliver = 3"

definition attempt ::
    "('s, unit) action \<Rightarrow> (exn \<Rightarrow> int \<Rightarrow> ('s, unit) action) \<Rightarrow> int \<Rightarrow> ('s, delivery) action" where
  "attempt handler onExhausted count =
     try_catch (await handler (\<lambda>_. ok Acked))
       (\<lambda>e. if 3 \<le> count then await (onExhausted e count) (\<lambda>_. ok Terminated) else ok Given_back)"

fun deliveries ::
    "('s, unit) action \<Rightarrow> (exn \<Rightarrow> int \<Rightarrow> ('s, unit) action) \<Rightarrow> int list \<Rightarrow> ('s, delivery) action" where
  "deliveries handler onExhausted [] = ok Given_back"
| "deliveries handler onExhausted (n # ns) = await (attempt handler onExhausted n) (\<lambda>d.
     if d = Given_back then deliveries handler onExhausted ns else ok d)"

text \<open>
  The loop over the messages of a subscription. When \<open>onExhausted\<close> throws, the error leaves the \<open>for await\<close>
  loop before \<open>msg.term\<close>: the message is neither acknowledged nor terminated, and no later message of the
  subscription is taken.
\<close>

definition deliver ::
    "string \<Rightarrow> ('z gateway_state_scheme, unit) action \<Rightarrow> (exn \<Rightarrow> int \<Rightarrow> ('z gateway_state_scheme, unit) action) \<Rightarrow>
     ('z gateway_state_scheme, delivery) action" where
  "deliver subject handler onExhausted =
     await (reads (\<lambda>s. subject \<in> set (ended_consumers s))) (\<lambda>ended.
     if ended then ok Unsettled
     else try_catch (deliveries handler onExhausted [1..max_deliver])
       (\<lambda>_. await (writes (ended_consumers_update (\<lambda>l. l @ [subject]))) (\<lambda>_. ok Unsettled)))"

section \<open>The subscriptions\<close>

definition enrichResultPayload :: "json \<Rightarrow> ('z tables_scheme, result_event) action" where
  "enrichResultPayload j =
     (let sid = str_field j ''session_id'' in
      await (reads (\<lambda>s. first_row (sort_desc pe_createdAt
               (filter (\<lambda>p. case sid of None \<Rightarrow> True | Some x \<Rightarrow> pe_sessionId p = x) (pipeline_executions s))))) (\<lambda>latest.
      await (reads (\<lambda>s. row_where ses_id sid (sessions s))) (\<lambda>ses.
      await (case ses of None \<Rightarrow> ok None
             | Some r \<Rightarrow> reads (\<lambda>s. find_row wf_id (ses_workflowId r) (workflows s))) (\<lambda>w.
      await current_time (\<lambda>t.
      ok \<lparr> re_correlation_id = or_else (first_some [str_field j ''correlation_id'', Option.bind latest pe_natsMessageId])
             (''enriched-'' @ int_str t),
           re_session_id = sid,
           re_org_id = (case w of None \<Rightarrow> [] | Some w \<Rightarrow> wf_orgId w),
           re_pipeline_execution_id =
             or_else (first_some [str_field j ''pipeline_execution_id'', map_option pe_id latest]) [],
           re_workflow_json = Some (or_else (first_some [field j ''elements_json'', field j ''workflow_json'']) (JObj [])),
           re_elsa_json = field j ''workflow_json'',
           re_confidence = or_else (num_field j ''confidence'') 0,
           re_summary = Some (or_else (first_some [str_field j ''ai_summary'', str_field j ''summary'']) ''AI pipeline completed''),
           re_version_number = None \<rparr>)))))"

definition result_handler :: "json \<Rightarrow> ('z gateway_state_scheme, unit) action" where
  "result_handler j = await (enrichResultPayload j) (\<lambda>p. handle_result p None)"

definition on_result :: "json \<Rightarrow> ('z gateway_state_scheme, delivery) action" where
  "on_result j = deliver ''ai.tasks.result'' (result_handler j) (retry_exhausted ''ai.tasks.result'' j)"

definition relay_progress :: "json \<Rightarrow> ('z core_scheme, unit) action" where
  "relay_progress j = (case nonempty (str_field j ''session_id'') of
     None \<Rightarrow> ok ()
   | Some sid \<Rightarrow> emit_to_room (room_session sid) ''pipeline.progress'' (JObj
       [(''agentName'', or_else (field j ''agent_name'') (JStr ''pipeline'')),
        (''status'', or_else (field j ''status'') (JStr ''running'')),
        (''progressPct'', or_else (field j ''progress_pct'') (json_int 0)),
        (''message'', or_else (field j ''message'') (JStr []))]))"

definition on_progress :: "json \<Rightarrow> ('z gateway_state_scheme, delivery) action" where
  "on_progress j = deliver ''ai.tasks.progress'' (relay_progress j) (retry_exhausted ''ai.tasks.progress'' j)"

definition on_divergence :: "divergence_event \<Rightarrow> json \<Rightarrow> ('z gateway_state_scheme, delivery) action" where
  "on_divergence p j = deliver ''ai.tasks.divergence.result'' (handle_divergence p None) (retry_exhausted ''ai.tasks.divergence.result'' j)"

end
