(* ===== verification/WorkflowsProps.thy ===== *)
theory WorkflowsProps
  imports Workflows
begin

text \<open>
  The versions of every workflow are numbered from 1 without gaps, and the workflow names the last
  one; the differences of two versions are exactly what turns one into the other.
\<close>

section \<open>The invariant\<close>

definition numbers :: "uuid \<Rightarrow> workflow_version list \<Rightarrow> int list" where
  "numbers i vs = map wv_versionNumber (filter (\<lambda>v. wv_workflowId v = i) vs)"

definition numbered_to :: "int \<Rightarrow> int list \<Rightarrow> bool" where
  "numbered_to n ns \<longleftrightarrow> 0 \<le> n \<and> distinct ns \<and> set ns = {1..n}"

definition versions_ok :: "'z core_scheme \<Rightarrow> bool" where
  "versions_ok s \<longleftrightarrow> keyed wf_id (workflows s) \<and>
     (\<forall>v \<in> set (workflow_versions s). wv_workflowId v \<in> wf_id ` set (workflows s)) \<and>
     (\<forall>w \<in> set (workflows s). numbered_to (wf_currentVersion w) (numbers (wf_id w) (workflow_versions s)))"

lemma numbers_append [simp]: "numbers i (vs @ ws) = numbers i vs @ numbers i ws"
  by (simp add: numbers_def)

lemma numbers_single [simp]: "numbers i [v] = (if wv_workflowId v = i then [wv_versionNumber v] else [])"
  by (simp add: numbers_def)

lemma versions_ok_frame:
  "versions_ok s \<Longrightarrow> workflows t = workflows s \<Longrightarrow> workflow_versions t = workflow_versions s \<Longrightarrow> versions_ok t"
  by (simp add: versions_ok_def)

lemma versions_ok_db_only: "db_only versions_ok"
  by (rule db_onlyI; erule versions_ok_frame; simp)

lemma numbered_next: "numbered_to n ns \<Longrightarrow> numbered_to (n + 1) (ns @ [n + 1])"
  by (auto simp: numbered_to_def)

text \<open>A workflow advances together with its versions.\<close>

lemma versions_ok_advance:
  assumes ok: "versions_ok s" and w: "w \<in> set (workflows s)" "wf_id w = i"
    and v: "wv_workflowId v = i" "wv_versionNumber v = wf_currentVersion w + 1"
    and vs: "workflow_versions t = workflow_versions s @ [v]" and keyed: "keyed wf_id (workflows t)"
    and ids: "wf_id ` set (workflows t) = wf_id ` set (workflows s)"
    and new: "\<And>x. x \<in> set (workflows t) \<Longrightarrow> wf_id x = i \<Longrightarrow> wf_currentVersion x = wf_currentVersion w + 1"
    and old: "\<And>x. x \<in> set (workflows t) \<Longrightarrow> wf_id x \<noteq> i \<Longrightarrow> x \<in> set (workflows s)"
  shows "versions_ok t"
proof -
  have "numbered_to (wf_currentVersion x) (numbers (wf_id x) (workflow_versions t))" if "x \<in> set (workflows t)" for x
  proof (cases "wf_id x = i")
    case True
    have "numbered_to (wf_currentVersion w) (numbers i (workflow_versions s))"
      using ok w unfolding versions_ok_def by blast
    from numbered_next [OF this] show ?thesis using new [OF that True] True v by (simp add: vs)
  next
    case False
    with old [OF that] ok v(1) show ?thesis by (simp add: versions_ok_def vs)
  qed
  moreover have "i \<in> wf_id ` set (workflows s)" using w by auto
  ultimately show ?thesis
    using ok keyed v(1) by (auto simp: versions_ok_def vs ids)
qed

lemma versions_ok_save:
  assumes ok: "versions_ok s" and w: "w \<in> set (workflows s)" "wf_id w' = wf_id w"
    and same: "wf_currentVersion w' = wf_currentVersion w"
    and t: "workflows t = save_row wf_id w' (workflows s)" "workflow_versions t = workflow_versions s"
  shows "versions_ok t"
proof -
  have keyed: "keyed wf_id (workflows s)" using ok by (simp add: versions_ok_def)
  have "set (workflows t) = insert w' {x \<in> set (workflows s). wf_id x \<noteq> wf_id w'}"
    using set_save_row [OF keyed] by (simp add: t)
  moreover have "wf_id ` set (workflows t) = wf_id ` set (workflows s)"
    using w by (auto simp: t keys_save_row)
  ultimately show ?thesis
    using ok w same keyed_save_row [OF keyed, of w'] unfolding versions_ok_def by (auto simp: t)
qed

lemma latest_version_ok:
  assumes "versions_ok s" and "w \<in> set (workflows s)"
  shows "max_version (wf_id w) s = wf_currentVersion w"
proof -
  let ?n = "wf_currentVersion w"
  have n: "0 \<le> ?n" and set: "wv_versionNumber ` set (versions_of (wf_id w) s) = {1..?n}"
    using assms by (auto simp: versions_ok_def numbered_to_def numbers_def versions_of_def)
  show ?thesis
  proof (cases "latest_version (wf_id w) s")
    case None
    then have "set (versions_of (wf_id w) s) = {}"
      by (metis latest_version_def first_row_None_iff set_sort_desc list.set(1))
    then have "{1..?n} = {}" using set by simp
    then show ?thesis using n None by (simp add: max_version_def)
  next
    case (Some v)
    then have f: "first_row (sort_desc wv_versionNumber (versions_of (wf_id w) s)) = Some v"
      by (simp add: latest_version_def)
    have "v \<in> set (versions_of (wf_id w) s)" using first_row_in [OF f] by simp
    then have v: "wv_versionNumber v \<in> {1..?n}" using set by blast
    then have "?n \<in> wv_versionNumber ` set (versions_of (wf_id w) s)" using set by auto
    then have "?n \<le> wv_versionNumber v" using first_row_sort_desc_max [OF f] by auto
    then show ?thesis using v Some by (simp add: max_version_def)
  qed
qed

lemma max_version_ge:
  assumes "x \<in> set (versions_of i s)"
  shows "wv_versionNumber x \<le> max_version i s"
proof (cases "first_row (sort_desc wv_versionNumber (versions_of i s))")
  case None
  then show ?thesis using assms by (metis first_row_None_iff set_sort_desc empty_iff list.set(1))
next
  case (Some v)
  then show ?thesis
    using first_row_sort_desc_max [OF Some assms] by (simp add: max_version_def latest_version_def)
qed

section \<open>The operations\<close>

lemma insert_version_Inr:
  "insert_version v s = (Inr x, t) \<Longrightarrow> x = version_row (uuids s (uuid_next s)) (now s) v \<and>
   t = s\<lparr>uuid_next := Suc (uuid_next s), workflow_versions := workflow_versions s @ [x]\<rparr> \<and>
   nv_workflowId v \<in> wf_id ` set (workflows s)"
  by (cases s) (auto simp: insert_version_def action_Inr gen_uuid_run current_time_run)

lemma insert_version_Inl:
  "insert_version v s = (Inl e, t) \<Longrightarrow> workflows t = workflows s \<and> workflow_versions t = workflow_versions s"
  by (auto simp: insert_version_def action_simps split: if_splits)

lemma save_workflow_Inr:
  "save_workflow w s = (Inr x, t) \<Longrightarrow> x = w\<lparr>wf_updatedAt := now s\<rparr> \<and> t = s\<lparr>workflows := save_row wf_id x (workflows s)\<rparr>"
  by (cases s) (auto simp: save_workflow_def action_Inr current_time_run)

lemma save_workflow_Inl: "save_workflow w s = (Inl e, t) \<Longrightarrow> t = s"
  by (auto simp: save_workflow_def action_simps split: if_splits)

lemma version_row_fields [simp]:
  "wv_workflowId (version_row i t v) = nv_workflowId v" "wv_versionNumber (version_row i t v) = nv_versionNumber v"
  by (simp_all add: version_row_def)

lemma keeps_save_same:
  assumes "versions_ok s" and "w \<in> set (workflows s)" "wf_id w' = wf_id w" "wf_currentVersion w' = wf_currentVersion w"
  shows "leaves versions_ok (save_workflow w') s"
  unfolding leaves_def
proof (cases "save_workflow w' s")
  case (Pair r t)
  show "versions_ok (snd (save_workflow w' s))"
  proof (cases r)
    case (Inl e)
    then show ?thesis using Pair save_workflow_Inl assms(1) by fastforce
  next
    case (Inr x)
    with Pair have "x = w'\<lparr>wf_updatedAt := now s\<rparr>" "t = s\<lparr>workflows := save_row wf_id x (workflows s)\<rparr>"
      using save_workflow_Inr by blast+
    then show ?thesis
      using versions_ok_save [OF assms(1,2), of x t] assms(3,4) Pair by simp
  qed
qed

lemma leaves_add_workflow:
  fixes s :: "'z core_scheme"
  assumes ok: "versions_ok s" and w: "wf_currentVersion w = 0"
  shows "leaves versions_ok (add_workflow w elements elsa owner) s"
  unfolding add_workflow_def
proof (rule leaves_await)
  show "versions_ok t" if "insert_workflow w s = (Inl e, t)" for e t
    using that ok by (auto simp: insert_workflow_def action_simps Let_def split: if_splits intro: versions_ok_frame)
  fix saved and t :: "'z core_scheme"
  assume "insert_workflow w s = (Inr saved, t)"
  then have t: "workflows t = workflows s @ [saved]" "workflow_versions t = workflow_versions s"
    and new: "wf_id saved \<notin> wf_id ` set (workflows s)" and zero: "wf_currentVersion saved = 0"
    using w by (auto simp: insert_workflow_def action_Inr gen_uuid_run current_time_run Let_def)
  have none: "numbers (wf_id saved) (workflow_versions s) = []"
  proof -
    have "wv_workflowId v \<noteq> wf_id saved" if "v \<in> set (workflow_versions s)" for v
      using ok new that unfolding versions_ok_def by metis
    then show ?thesis by (simp add: numbers_def filter_empty_conv)
  qed
  have ok_t: "versions_ok t"
    using ok new none by (auto simp: versions_ok_def t keyed_def numbered_to_def zero)
  let ?v = "\<lparr> nv_workflowId = wf_id saved, nv_versionNumber = 1, nv_elementsJson = elements, nv_elsaJson = elsa,
    nv_confidenceScore = None, nv_createdBy = Some owner \<rparr>"
  show "leaves versions_ok (await (insert_version ?v) (\<lambda>_. save_workflow (saved\<lparr>wf_currentVersion := 1\<rparr>))) t"
  proof (rule leaves_await)
    show "versions_ok u" if "insert_version ?v t = (Inl e, u)" for e u
      using insert_version_Inl [OF that] versions_ok_frame [OF ok_t] by blast
    fix x and u :: "'z core_scheme"
    assume "insert_version ?v t = (Inr x, u)"
    then have x: "wv_workflowId x = wf_id saved" "wv_versionNumber x = 1"
      and u: "workflows u = workflows t" "workflow_versions u = workflow_versions t @ [x]" "now u = now t"
      using insert_version_Inr by fastforce+
    have in_t: "saved \<in> set (workflows t)" by (simp add: t)
    have keyed: "keyed wf_id (workflows t)" using ok_t by (simp add: versions_ok_def)
    have "x \<in> set (versions_of (wf_id saved) u)" by (simp add: versions_of_def u x)
    from max_version_ge [OF this] have "1 \<le> max_version (wf_id saved) u" by (simp add: x(2))
    then obtain y z where "save_workflow (saved\<lparr>wf_currentVersion := 1\<rparr>) u = (Inr y, z)"
      by (simp add: save_workflow_def action_simps)
    moreover from save_workflow_Inr [OF this] have "versions_ok z"
    proof (intro versions_ok_advance [OF ok_t in_t refl, of x z])
      show "keyed wf_id (workflows z)" if "y = saved\<lparr>wf_currentVersion := 1, wf_updatedAt := now u\<rparr> \<and> z = u\<lparr>workflows := save_row wf_id y (workflows u)\<rparr>"
        using that keyed by (simp add: u)
    qed (use zero x u in_t set_save_row [OF keyed] in \<open>auto simp: keys_save_row\<close>)
    ultimately show "leaves versions_ok (save_workflow (saved\<lparr>wf_currentVersion := 1\<rparr>)) u"
      by (simp add: leaves_def)
  qed
qed


lemma find_workflow_Inr:
  "find_workflow i org s = (Inr w, t) \<Longrightarrow> t = s \<and> w \<in> set (workflows s) \<and> wf_id w = i \<and> wf_orgId w = org"
  using workflow_in_org_Some by (auto simp: find_workflow_def findWorkflow_Inr_iff)

lemma reads_find_workflow [read_intros]: "reads_only (find_workflow i org)"
  unfolding find_workflow_def by (intro read_intros)

lemma edited_fields [simp]:
  "wf_id (edited_workflow dto w) = wf_id w" "wf_currentVersion (edited_workflow dto w) = wf_currentVersion w"
  by (simp_all add: edited_workflow_def)

text \<open>What follows a save only reads or writes outside the tables.\<close>

lemma leaves_then: "leaves versions_ok m s \<Longrightarrow> (\<And>x. keeps versions_ok (f x)) \<Longrightarrow> leaves versions_ok (await m f) s"
  by (rule leaves_step) (auto intro: leaves_keeps)

lemma keeps_db_only_tail:
  assumes "db_only P"
  shows "keeps P (await (audit a b c d e f g) (\<lambda>_. find_workflow i org))"
    "keeps P (await (audit a b c d e f g) (\<lambda>_. ok x))"
  using assms reads_only_keepsI [OF reads_find_workflow] by (auto intro: keeps_intros)

lemma leaves_createWorkflow: "versions_ok s \<Longrightarrow> leaves versions_ok (createWorkflow dto org owner) s"
  unfolding createWorkflow_def
  by (rule leaves_then, rule leaves_add_workflow, assumption, simp add: blank_workflow_def)
     (rule keeps_db_only_tail(1) [OF versions_ok_db_only])

lemma leaves_duplicateWorkflow: "versions_ok s \<Longrightarrow> leaves versions_ok (duplicateWorkflow i org owner title) s"
  unfolding duplicateWorkflow_def
  by (rule leaves_guard, rule read_intros, assumption, rule leaves_guard, rule read_intros, assumption,
      rule leaves_then, rule leaves_add_workflow, assumption, simp add: blank_workflow_def)
     (rule reads_only_keepsI [OF reads_find_workflow])

lemma leaves_archiveWorkflow: "versions_ok s \<Longrightarrow> leaves versions_ok (archiveWorkflow i org caller role) s"
  unfolding archiveWorkflow_def
proof (rule leaves_guard, rule read_intros, assumption, rule leaves_guard, rule read_intros, assumption, rule leaves_then)
  fix w
  assume "versions_ok s" and "find_workflow i org s = (Inr w, s)"
  then show "leaves versions_ok (save_workflow (w\<lparr>wf_status := WorkflowStatus.ARCHIVED\<rparr>)) s"
    using find_workflow_Inr [of i org s w s] by (intro keeps_save_same [of s w]) simp_all
qed (rule keeps_db_only_tail(2) [OF versions_ok_db_only])

lemma add_version_Inr:
  assumes ok: "versions_ok s" and w: "w \<in> set (workflows s)" "wf_id w = i"
    and run: "add_version i elements caller s = (Inr u, t)"
  shows "versions_ok t \<and> w\<lparr>wf_currentVersion := wf_currentVersion w + 1, wf_updatedAt := now s\<rparr> \<in> set (workflows t)"
proof -
  have keyed: "keyed wf_id (workflows s)" using ok by (simp add: versions_ok_def)
  have found: "find_row wf_id i (workflows s) = Some w" using find_row_keyed [OF keyed w(1)] w(2) by simp
  let ?n = "wf_currentVersion w + 1"
  let ?f = "\<lambda>w. w\<lparr>wf_currentVersion := ?n, wf_updatedAt := now s\<rparr>"
  let ?v = "\<lparr> nv_workflowId = i, nv_versionNumber = ?n, nv_elementsJson = elements, nv_elsaJson = None,
    nv_confidenceScore = None, nv_createdBy = Some caller \<rparr>"
  obtain x r where i: "insert_version ?v s = (Inr x, r)"
    and rest: "await (reads (\<lambda>s. ?n \<le> max_version i s)) (\<lambda>fine.
     await (require fine (QueryFailed ''enforce_workflow_current_version'')) (\<lambda>_.
     await current_time (\<lambda>t.
     writes (workflows_update (update_where (\<lambda>w. wf_id w = i)
       (\<lambda>w. w\<lparr>wf_currentVersion := ?n, wf_updatedAt := t\<rparr>)))))) r = (Inr u, t)"
    using run unfolding add_version_def await_Inr_iff [of "reads f" for f] await_Inr_iff [of "insert_version v" for v]
      reads_Inr_iff found option.case by blast
  have t: "t = workflows_update (update_where (\<lambda>w. wf_id w = i) (\<lambda>w. w\<lparr>wf_currentVersion := ?n, wf_updatedAt := now r\<rparr>)) r"
    using rest by (simp add: await_run reads_run require_run current_time_run writes_run split: if_splits)
  from insert_version_Inr [OF i] have x: "wv_workflowId x = i" "wv_versionNumber x = ?n"
    and r: "workflow_versions r = workflow_versions s @ [x]" "workflows r = workflows s" "now r = now s"
    by simp_all
  have t: "workflow_versions t = workflow_versions s @ [x]" "workflows t = update_where (\<lambda>w. wf_id w = i) ?f (workflows s)"
    by (simp_all add: t r)
  have same: "wf_id (if wf_id y = i then ?f y else y) = wf_id y" for y by simp
  have "versions_ok t"
  proof (rule versions_ok_advance [OF ok w x t(1)])
    show "keyed wf_id (workflows t)" using keyed by (simp add: t(2) keyed_update_where)
    show "wf_id ` set (workflows t) = wf_id ` set (workflows s)"
      by (simp only: t(2) update_where_def set_map image_image same)
    fix y
    assume "y \<in> set (workflows t)"
    then obtain z where "z \<in> set (workflows s)" "y = (if wf_id z = i then ?f z else z)"
      unfolding t(2) update_where_def set_map by blast
    then show "wf_id y = i \<Longrightarrow> wf_currentVersion y = ?n" "wf_id y \<noteq> i \<Longrightarrow> y \<in> set (workflows s)"
      by (simp_all split: if_splits)
  qed
  then show ?thesis using w by (auto simp: t(2) update_where_def)
qed

lemma leaves_updateWorkflow: "versions_ok s \<Longrightarrow> leaves versions_ok (updateWorkflow i dto org caller role) s"
  unfolding updateWorkflow_def Let_def
proof (rule leaves_guard, rule read_intros, assumption, rule leaves_guard, rule read_intros, assumption)
  fix w
  assume ok: "versions_ok s" and "find_workflow i org s = (Inr w, s)"
  note w = find_workflow_Inr [OF this(2)]
  let ?v = "case uw_elements_json dto of None \<Rightarrow> False | Some e \<Rightarrow> truthy e"
  let ?w = "edited_workflow dto w"
  let ?rest = "\<lambda>saved. await (audit (Some i) (Some caller) ActorType.USER
              (if ?v then ''WORKFLOW_VERSION_CREATED'' else ''WORKFLOW_UPDATED'') None
              (workflow_shape w) (workflow_shape saved)) (\<lambda>_.
     await (if ?v
            then await gen_uuid (\<lambda>c. nats_publish ''workflow.events.updated''
              (JObj [(''workflow_id'', JStr i), (''version_number'', json_int (wf_currentVersion saved)),
                (''changed_elements'', JArr []), (''source'', JStr (update_default ''user'' (uw_source dto))),
                (''correlation_id'', JStr c)]) (c @ '':workflow.events.updated:''))
            else ok ()) (\<lambda>_. find_workflow i org))"
  have rest: "keeps versions_ok (?rest saved)" for saved
    by (intro keeps_intros versions_ok_db_only) (rule reads_only_keepsI [OF reads_find_workflow])
  show "leaves versions_ok (await (if ?v then transaction (add_version i (the (uw_elements_json dto)) caller) else ok ())
     (\<lambda>_. await (save_workflow (if ?v then ?w\<lparr>wf_currentVersion := wf_currentVersion w + 1\<rparr> else ?w)) ?rest)) s"
  proof (cases ?v)
    case True
    have "leaves versions_ok (await (transaction (add_version i (the (uw_elements_json dto)) caller))
      (\<lambda>_. await (save_workflow (?w\<lparr>wf_currentVersion := wf_currentVersion w + 1\<rparr>)) ?rest)) s"
    proof (rule leaves_await)
      show "versions_ok t" if "transaction (add_version i (the (uw_elements_json dto)) caller) s = (Inl e, t)" for e t
        using transaction_Inl [OF that] ok by simp
      fix u t
      assume "transaction (add_version i (the (uw_elements_json dto)) caller) s = (Inr u, t)"
      then have "versions_ok t \<and> w\<lparr>wf_currentVersion := wf_currentVersion w + 1, wf_updatedAt := now s\<rparr> \<in> set (workflows t)"
        using add_version_Inr [OF ok, of w i "the (uw_elements_json dto)" caller u t] w by (simp add: transaction_Inr_iff)
      then show "leaves versions_ok (await (save_workflow (?w\<lparr>wf_currentVersion := wf_currentVersion w + 1\<rparr>)) ?rest) t"
        by (intro leaves_then [OF _ rest] keeps_save_same [of t
              "w\<lparr>wf_currentVersion := wf_currentVersion w + 1, wf_updatedAt := now s\<rparr>"]) simp_all
    qed
    then show ?thesis by (simp only: if_P [OF True])
  next
    case False
    have "leaves versions_ok (await (ok ()) (\<lambda>_. await (save_workflow ?w) ?rest)) s"
      by (rule leaves_guard, rule read_intros, rule ok, rule leaves_then [OF keeps_save_same [OF ok]]) (use w rest in auto)
    then show ?thesis by (simp only: if_not_P [OF False])
  qed
qed


section \<open>Differences\<close>

text \<open>Elements that are named by different texts, as the editors of workflows create them.\<close>

fun is_name :: "json option \<Rightarrow> bool" where
  "is_name (Some (JStr _)) = True"
| "is_name _ = False"

definition named :: "json list \<Rightarrow> bool" where
  "named es \<longleftrightarrow> distinct (map element_id es) \<and> list_all (\<lambda>e. is_name (element_id e)) es"

text \<open>What a client does with a difference: drop, replace, append.\<close>

definition patch :: "json list \<Rightarrow> workflow_diff \<Rightarrow> json list" where
  "patch es d = map (\<lambda>e. case find (same_id e) (wd_modified d) of Some e' \<Rightarrow> e' | None \<Rightarrow> e)
     (filter (\<lambda>e. \<not> has_id (wd_removed d) e) es) @ wd_added d"

lemma name_no_reference: "is_name x \<Longrightarrow> \<not> is_reference x"
  by (cases x rule: is_name.cases) simp_all

lemma named_same_id:
  assumes "named es" and "e \<in> set es"
  shows "same_id e x \<longleftrightarrow> element_id e = element_id x" "same_id x e \<longleftrightarrow> element_id x = element_id e"
  using assms name_no_reference by (auto simp: same_id_def named_def list_all_iff)

lemma named_unique: "named es \<Longrightarrow> a \<in> set es \<Longrightarrow> b \<in> set es \<Longrightarrow> element_id a = element_id b \<Longrightarrow> a = b"
  by (simp add: named_def distinct_map inj_on_def)

lemma named_has_id: "named es \<Longrightarrow> has_id es x \<longleftrightarrow> element_id x \<in> element_id ` set es"
  using named_same_id(2) by (auto simp: has_id_def list_ex_iff image_iff)

lemma named_find:
  assumes "named es"
  shows "find (same_id x) es = Some y \<longleftrightarrow> y \<in> set es \<and> element_id x = element_id y"
proof
  assume "find (same_id x) es = Some y"
  then show "y \<in> set es \<and> element_id x = element_id y"
    using named_same_id(2) [OF assms] by (auto dest: find_Some_conv)
next
  assume y: "y \<in> set es \<and> element_id x = element_id y"
  then obtain z where z: "find (same_id x) es = Some z"
    using named_same_id(2) [OF assms] by (cases "find (same_id x) es") (auto simp: find_None_conv)
  then have "z \<in> set es \<and> element_id x = element_id z"
    using named_same_id(2) [OF assms] by (auto dest: find_Some_conv)
  with y z named_unique [OF assms] show "find (same_id x) es = Some y" by metis
qed

lemma named_filter: "named es \<Longrightarrow> named (filter P es)"
  by (simp add: named_def list_all_iff distinct_map_filter)

lemma patched_element:
  assumes n: "named es1" "named es2" and e: "e \<in> set es1" "\<not> has_id (wd_removed (diff_elements es1 es2)) e"
  defines "e' \<equiv> case find (same_id e) (wd_modified (diff_elements es1 es2)) of Some e' \<Rightarrow> e' | None \<Rightarrow> e"
  shows "e' \<in> set es2 \<and> element_id e' = element_id e"
proof -
  let ?m = "wd_modified (diff_elements es1 es2)"
  have m: "named ?m" and r: "named (wd_removed (diff_elements es1 es2))"
    using n by (simp_all add: diff_elements_def named_filter)
  have "element_id e \<in> element_id ` set es2"
    using e named_has_id [OF r] named_has_id [OF n(2)] by (auto simp: diff_elements_def)
  then obtain x where x: "x \<in> set es2" "element_id x = element_id e" by auto
  show ?thesis
  proof (cases "x \<in> set ?m")
    case True
    then have "find (same_id e) ?m = Some x" using named_find [OF m] x(2) by simp
    then show ?thesis using x by (simp add: e'_def)
  next
    case False
    then have "find (same_id x) es1 = Some x"
      using x e(1) named_has_id [OF n(1), of x] by (auto simp: diff_elements_def)
    then have "x = e" using named_find [OF n(1)] named_unique [OF n(1)] e(1) x(2) by metis
    moreover have "find (same_id e) ?m = None"
      using False x named_find [OF m, of e] named_unique [OF n(2)] \<open>x = e\<close>
      by (cases "find (same_id e) ?m") (auto simp: diff_elements_def)
    ultimately show ?thesis using x by (simp add: e'_def)
  qed
qed

lemma patch_diff:
  assumes n: "named es1" "named es2"
  shows "distinct (map element_id (patch es1 (diff_elements es1 es2)))"
    "set (patch es1 (diff_elements es1 es2)) = set es2"
proof -
  let ?d = "diff_elements es1 es2"
  let ?k = "filter (\<lambda>e. \<not> has_id (wd_removed ?d) e) es1"
  let ?f = "\<lambda>e. case find (same_id e) (wd_modified ?d) of Some e' \<Rightarrow> e' | None \<Rightarrow> e"
  have ids: "element_id (?f e) = element_id e" "?f e \<in> set es2" if "e \<in> set ?k" for e
    using patched_element [OF n] that by auto
  have map_ids: "map element_id (map ?f ?k) = map element_id ?k"
    using ids(1) by simp
  have added: "named (wd_added ?d)" using n by (simp add: diff_elements_def named_filter)
  have disj: "element_id ` set ?k \<inter> element_id ` set (wd_added ?d) = {}"
    using named_has_id [OF n(1)] by (auto simp: diff_elements_def) (metis image_eqI)
  show "distinct (map element_id (patch es1 ?d))"
    unfolding patch_def map_append map_ids distinct_append
    using named_filter [OF n(1)] added disj by (simp add: named_def)
  have "x \<in> set (patch es1 ?d)" if x: "x \<in> set es2" for x
  proof (cases "element_id x \<in> element_id ` set es1")
    case False
    then show ?thesis using x named_has_id [OF n(1)] by (simp add: patch_def diff_elements_def)
  next
    case True
    then obtain e where e: "e \<in> set es1" "element_id e = element_id x" by auto
    have "\<not> has_id (wd_removed ?d) e"
    proof
      assume "has_id (wd_removed ?d) e"
      then obtain y where "y \<in> set es1" "\<not> has_id es2 y" "element_id y = element_id e"
        using named_has_id [OF named_filter [OF n(1)]] by (auto simp: diff_elements_def)
      then show False using named_has_id [OF n(2)] x e(2) by auto
    qed
    then have "e \<in> set ?k" using e by simp
    then have "?f e = x" using ids named_unique [OF n(2)] x e(2) by metis
    then show ?thesis using \<open>e \<in> set ?k\<close> by (force simp: patch_def)
  qed
  moreover have "set (patch es1 ?d) \<subseteq> set es2"
    using ids(2) by (auto simp: patch_def) (simp add: diff_elements_def)
  ultimately show "set (patch es1 ?d) = set es2" by blast
qed

end
