(* ===== verification/RulesProps.thy ===== *)
theory RulesProps
  imports Rules
begin

text \<open>
  What the administration of rules keeps: no two active rules contradict each other, as long as
  the conditions of the requests are in the form the database stores, and the cache of active
  rules is never stale.
\<close>

section \<open>Conditions\<close>

text \<open>A condition whose values the database stores as they are, without a property that shadows
  the prototype.\<close>

definition normal_condition :: "condition \<Rightarrow> bool" where
  "normal_condition c = (case c of None \<Rightarrow> True
     | Some fs \<Rightarrow> distinct (map fst fs) \<and> ''__proto__'' \<notin> fst ` set fs \<and> list_all (\<lambda>f. jsonb (snd f) = snd f) fs)"

lemma distinct_fst_sort: "distinct (map fst fs) \<Longrightarrow> distinct (map fst (sort_key f fs))"
  by (simp add: distinct_map)

lemma map_of_jsonb_fields: "distinct (map fst fs) \<Longrightarrow> map_of (jsonb_fields fs) = map_of fs"
  by (simp add: map_of_inject_set jsonb_fields_def distinct_fst_sort)

definition same_condition :: "condition \<Rightarrow> condition \<Rightarrow> bool" where
  "same_condition c d \<longleftrightarrow> (c = None \<longleftrightarrow> d = None) \<and> map_option map_of c = map_option map_of d"

lemma stored_condition:
  assumes "normal_condition c"
  shows "normal_condition (jsonb_condition c)" "same_condition c (jsonb_condition c)"
proof -
  have "normal_condition (jsonb_condition c) \<and> same_condition c (jsonb_condition c)"
  proof (cases c)
    case (Some fs)
    have "map (\<lambda>(k, v). (k, jsonb v)) fs = fs"
      using assms Some by (intro map_idI) (auto simp: normal_condition_def list_all_iff)
    then show ?thesis
      using assms Some map_of_jsonb_fields [of fs]
      by (simp add: normal_condition_def jsonb_condition_def same_condition_def list_all_iff)
         (simp add: jsonb_fields_def distinct_fst_sort)
  qed (simp add: jsonb_condition_def same_condition_def normal_condition_def)
  then show "normal_condition (jsonb_condition c)" "same_condition c (jsonb_condition c)" by simp_all
qed

lemma overlap_iff:
  assumes "normal_condition left" and "normal_condition right"
  shows "conditionsOverlap left right \<longleftrightarrow> left = None \<and> right = None \<or>
    (\<exists>l r k v. left = Some l \<and> right = Some r \<and> map_of l k = Some v \<and> map_of r k = Some v)"
proof (cases "left = None \<or> right = None")
  case True
  then show ?thesis by (auto simp: conditionsOverlap_def overlap_keys_def split: option.splits)
next
  case False
  then obtain l r where lr: "left = Some l" "right = Some r" by auto
  have proto: "map_of l ''__proto__'' = None"
    using assms(1) lr by (simp add: normal_condition_def map_of_eq_None_iff)
  have "overlap_keys left right \<noteq> [] \<longleftrightarrow> (\<exists>k v. map_of l k = Some v \<and> map_of r k = Some v)"
  proof
    assume "overlap_keys left right \<noteq> []"
    then obtain k where k: "k \<in> fst ` set l" "js_get r k \<noteq> None" "map_of l k = js_get r k"
      by (auto simp: overlap_keys_def lr filter_empty_conv)
    then obtain v where "map_of l k = Some v" by auto
    moreover have "k \<noteq> ''__proto__''" using calculation proto by auto
    ultimately show "\<exists>k v. map_of l k = Some v \<and> map_of r k = Some v"
      using k(3) by (auto simp: js_get_def split: option.splits)
  next
    assume "\<exists>k v. map_of l k = Some v \<and> map_of r k = Some v"
    then obtain k v where kv: "map_of l k = Some v" "map_of r k = Some v" by blast
    then have "k \<in> fst ` set l" by (auto dest!: map_of_SomeD intro: rev_image_eqI)
    with kv have "k \<in> set (overlap_keys left right)" by (simp add: overlap_keys_def lr js_get_def)
    then show "overlap_keys left right \<noteq> []" by auto
  qed
  then show ?thesis by (simp add: conditionsOverlap_def lr)
qed

lemma first_value_cong: "map_of a = map_of b \<Longrightarrow> first_value a ks = first_value b ks"
  by (induction ks) (auto split: option.splits json.splits)

lemma pick_cong: "same_condition c d \<Longrightarrow> pickFirstValue c ks = pickFirstValue d ks"
  by (cases c; cases d) (auto simp: same_condition_def pickFirstValue_def intro: first_value_cong)

lemma disputed_sym: "disputed subj claimed a b = disputed subj claimed b a"
  by (auto simp: disputed_def split: option.splits)

text \<open>Contradiction does not depend on the order of properties, and is symmetric within a type.\<close>

lemma conflicts_cong:
  assumes "normal_condition (rl_condition r)" "normal_condition (rl_condition x)"
    and "normal_condition c" "same_condition (rl_condition r) c"
  shows "conflicts_with (r\<lparr>rl_condition := c\<rparr>) x = conflicts_with r x"
proof -
  have "conditionsOverlap c (rl_condition x) = conditionsOverlap (rl_condition r) (rl_condition x)"
    using assms by (auto simp: overlap_iff same_condition_def)
  moreover have "disputed S C c d = disputed S C (rl_condition r) d" for S C d
    by (simp add: disputed_def pick_cong [OF assms(4)])
  then have "hasTypeSpecificConflict (r\<lparr>rl_condition := c\<rparr>) x = hasTypeSpecificConflict r x"
    by (simp add: hasTypeSpecificConflict_def cong: option.case_cong)
  ultimately show ?thesis by (simp add: conflicts_with_def)
qed

lemma conflicts_sym:
  assumes "normal_condition (rl_condition r)" "normal_condition (rl_condition x)"
    and "rl_ruleType r = rl_ruleType x"
  shows "conflicts_with r x = conflicts_with x r"
proof -
  have "conditionsOverlap (rl_condition r) (rl_condition x) = conditionsOverlap (rl_condition x) (rl_condition r)"
    using overlap_iff [OF assms(1,2)] overlap_iff [OF assms(2,1)] by blast
  moreover have "hasTypeSpecificConflict r x = hasTypeSpecificConflict x r"
    unfolding hasTypeSpecificConflict_def assms(3) disputed_sym [of _ _ "rl_condition r" "rl_condition x"]
      eq_commute [of "js_trim (rl_instruction r)" "js_trim (rl_instruction x)"] ..
  ultimately show ?thesis by (simp add: conflicts_with_def)
qed

section \<open>The invariant\<close>

definition clash :: "rule \<Rightarrow> rule \<Rightarrow> bool" where
  "clash r x \<longleftrightarrow> rl_isActive r \<and> rl_ruleType r \<in> set CONTRADICTABLE_RULE_TYPES \<and> same_group r x \<and>
     conflicts_with r x"

definition consistent :: "rule list \<Rightarrow> bool" where
  "consistent rs \<longleftrightarrow> keyed rl_id rs \<and> (\<forall>r \<in> set rs. normal_condition (rl_condition r)) \<and>
     (\<forall>r \<in> set rs. \<forall>x \<in> set rs. \<not> clash r x)"

text \<open>The cache is checked except for one organization, whose entry is about to be dropped.\<close>

definition cache_but :: "uuid set \<Rightarrow> 'z rules_state_scheme \<Rightarrow> bool" where
  "cache_but orgs s \<longleftrightarrow> (\<forall>org e. org \<notin> orgs \<longrightarrow> rule_cache s org = Some e \<longrightarrow> rce_rules e = active_rules org s)"

definition rules_inv :: "'z rules_state_scheme \<Rightarrow> bool" where
  "rules_inv s \<longleftrightarrow> consistent (rules s) \<and> cache_but {} s"

lemma active_rules_cong: "rules t = rules s \<Longrightarrow> active_rules org t = active_rules org s"
  by (simp add: active_rules_def)

lemma rules_inv_frame: "rules_inv s \<Longrightarrow> rules t = rules s \<Longrightarrow> rule_cache t = rule_cache s \<Longrightarrow> rules_inv t"
  using active_rules_cong [of t s] by (simp add: rules_inv_def cache_but_def)

lemma rules_inv_db_only: "db_only rules_inv"
  by (rule db_onlyI; erule rules_inv_frame; simp)

lemma clash_self: "\<not> clash r r"
proof -
  have "\<not> hasTypeSpecificConflict r r"
    by (auto simp: hasTypeSpecificConflict_def disputed_def split: option.splits)
  then show ?thesis by (simp add: clash_def conflicts_with_def)
qed

lemma clash_sym:
  assumes "normal_condition (rl_condition r)" "normal_condition (rl_condition x)" and "clash x r"
  shows "clash r x"
  using assms(3) conflicts_sym [OF assms(1,2)] by (auto simp: clash_def same_group_def)

lemma consistent_insert:
  assumes "consistent rs" and "rl_id r \<notin> rl_id ` set rs" and "normal_condition (rl_condition r)"
    and "\<And>x. x \<in> set rs \<Longrightarrow> \<not> clash r x"
  shows "consistent (rs @ [r])"
proof -
  have "\<not> clash x r" if "x \<in> set rs" for x
    using assms(1,4) clash_sym [OF assms(3)] that unfolding consistent_def by blast
  then show ?thesis using assms clash_self by (auto simp: consistent_def keyed_def)
qed

lemma consistent_save:
  assumes "consistent rs" and "normal_condition (rl_condition r)"
    and "\<And>x. x \<in> set rs \<Longrightarrow> rl_id x \<noteq> rl_id r \<Longrightarrow> \<not> clash r x"
  shows "consistent (save_row rl_id r rs)"
proof -
  have keyed: "keyed rl_id rs" using assms(1) by (simp add: consistent_def)
  have "\<not> clash x r" if "x \<in> set rs" "rl_id x \<noteq> rl_id r" for x
    using assms(1,3) clash_sym [OF assms(2)] that unfolding consistent_def by blast
  then show ?thesis
    using assms clash_self keyed unfolding consistent_def set_save_row [OF keyed] by auto
qed

lemma stored_fields [simp]:
  "rl_id (stored r) = rl_id r" "rl_orgId (stored r) = rl_orgId r" "rl_isActive (stored r) = rl_isActive r"
  "rl_ruleType (stored r) = rl_ruleType r"
  by (simp_all add: stored_def)

lemma clash_stored:
  assumes "normal_condition (rl_condition r)" "normal_condition (rl_condition x)"
  shows "clash (stored r) x = clash r x"
  using conflicts_cong [OF assms stored_condition [OF assms(1)]]
  by (simp add: clash_def stored_def same_group_def)

text \<open>What the check found out.\<close>

lemma ensure_Inr:
  assumes "ensureNoConflict r ex pool s = (Inr u, t)"
  shows "t = s" "\<And>x. rl_isActive r \<Longrightarrow> rl_ruleType r \<in> set CONTRADICTABLE_RULE_TYPES \<Longrightarrow>
    x \<in> set (case pool of Some p \<Rightarrow> p | None \<Rightarrow> filter (same_group r) (rules s)) \<Longrightarrow>
    ex \<noteq> Some (rl_id x) \<Longrightarrow> \<not> conflicts_with r x"
proof -
  show "t = s"
    using assms by (auto simp: ensureNoConflict_def action_Inr Let_def split: if_splits option.splits)
  fix x
  assume a: "rl_isActive r" "rl_ruleType r \<in> set CONTRADICTABLE_RULE_TYPES"
    "x \<in> set (case pool of Some p \<Rightarrow> p | None \<Rightarrow> filter (same_group r) (rules s))" "ex \<noteq> Some (rl_id x)"
  let ?p = "case pool of Some p \<Rightarrow> p | None \<Rightarrow> by_priority (filter (same_group r) (rules s))"
  have "find (\<lambda>x. ex \<noteq> Some (rl_id x) \<and> conflicts_with r x) ?p = None"
    using assms a(1,2)
    by (cases pool) (auto simp: ensureNoConflict_def action_Inr Let_def split: if_splits option.splits)
  moreover have "x \<in> set ?p" using a(3) by (cases pool) (simp_all add: by_priority_def)
  ultimately show "\<not> conflicts_with r x" using a(4) by (auto simp: find_None_conv)
qed

lemma keeps_ensure [keeps_intros]: "db_only P \<Longrightarrow> keeps P (ensureNoConflict r ex pool)"
  unfolding ensureNoConflict_def emitConflictEvent_def Let_def
  by (intro keeps_intros; cases pool; simp; intro keeps_intros)

section \<open>Every request keeps it\<close>

definition pending_inv :: "uuid \<Rightarrow> 'z rules_state_scheme \<Rightarrow> bool" where
  "pending_inv org s \<longleftrightarrow> consistent (rules s) \<and> cache_but {org} s"

lemma audit_rule_run:
  "audit_rule w a e b c s = (Inr (), snd (audit_rule w a e b c s)) \<and>
   rules (snd (audit_rule w a e b c s)) = rules s \<and>
   rule_cache (snd (audit_rule w a e b c s)) = rule_cache (s :: 'z rules_state_scheme)"
  by (simp add: audit_rule_def audit_run)

lemma leaves_audit_rule:
  assumes "\<And>t. rules t = rules s \<Longrightarrow> rule_cache t = rule_cache s \<Longrightarrow> leaves P (f ()) t"
  shows "leaves P (await (audit_rule w a e b c) f) (s :: 'z rules_state_scheme)"
proof -
  obtain t where "audit_rule w a e b c s = (Inr (), t)" "rules t = rules s" "rule_cache t = rule_cache s"
    using audit_rule_run [of w a e b c s] by (metis snd_conv)
  then show ?thesis using assms by (simp add: leaves_def await_run)
qed

lemma pending_frame:
  "pending_inv org s \<Longrightarrow> rules t = rules s \<Longrightarrow> rule_cache t = rule_cache s \<Longrightarrow> pending_inv org t"
  using active_rules_cong [of t s] by (simp add: pending_inv_def cache_but_def)

lemma invalidate_org_inv:
  "pending_inv org s \<Longrightarrow> rules_inv (rule_cache_update (\<lambda>c. c(org := None)) s)"
  by (simp add: pending_inv_def rules_inv_def cache_but_def active_rules_def)

lemma leaves_invalidate: "pending_inv org s \<Longrightarrow> leaves rules_inv (invalidate org i) s"
  using invalidate_org_inv [of org s]
  by (simp add: invalidate_def invalidateOrgRuleCache_def invalidateRuleSimulationCache_def leaves_def
      action_simps rules_inv_frame)

lemma leaves_invalidate_ok: "pending_inv org s \<Longrightarrow> leaves rules_inv (await (invalidate org i) (\<lambda>_. ok x)) s"
  using leaves_invalidate [of org s i]
  by (cases "invalidate org i s") (auto simp: leaves_def await_run ok_run split: sum.split)

lemma leaves_commit:
  "pending_inv org s \<Longrightarrow>
   leaves rules_inv (await (audit_rule w a e b c) (\<lambda>_. await (invalidate org i) (\<lambda>_. ok x))) s"
  by (rule leaves_audit_rule, rule leaves_invalidate_ok, rule pending_frame)

lemma active_rules_save:
  assumes "\<And>x. x \<in> set rs \<Longrightarrow> rl_id x = rl_id r \<Longrightarrow> rl_orgId x = rl_orgId r" and "org \<noteq> rl_orgId r"
  shows "filter (\<lambda>x. rl_orgId x = org \<and> rl_isActive x) (save_row rl_id r rs) =
    filter (\<lambda>x. rl_orgId x = org \<and> rl_isActive x) rs"
  using assms(1)
proof (induction rs)
  case (Cons y rs)
  have "rl_orgId y = rl_orgId r" if "rl_id y = rl_id r" using Cons.prems [of y] that by simp
  moreover have "filter (\<lambda>x. rl_orgId x = org \<and> rl_isActive x) (save_row rl_id r rs) =
      filter (\<lambda>x. rl_orgId x = org \<and> rl_isActive x) rs"
    by (rule Cons.IH) (use Cons.prems in simp)
  ultimately show ?case using assms(2) by simp
qed (use assms(2) in simp)

lemma update_rule_Inr:
  "update_rule r s = (Inr x, t) \<Longrightarrow> x = r\<lparr>rl_updatedAt := now s\<rparr> \<and>
   t = s\<lparr>rules := save_row rl_id (stored x) (rules s)\<rparr>"
  by (cases s) (auto simp: update_rule_def action_Inr current_time_run)

lemma update_rule_Inl: "update_rule r s = (Inl e, t) \<Longrightarrow> t = s"
  by (auto simp: update_rule_def action_simps split: if_splits)

lemma insert_rule_Inr:
  assumes "insert_rule r s = (Inr x, t)"
  shows "\<exists>i. x = r\<lparr>rl_id := i, rl_createdAt := now s, rl_updatedAt := now s\<rparr> \<and> i \<notin> rl_id ` set (rules s) \<and>
    rules t = rules s @ [stored x] \<and> rule_cache t = rule_cache s \<and> now t = now s"
  using assms by (auto simp: insert_rule_def action_Inr current_time_run gen_uuid_run Let_def)

lemma insert_rule_Inl: "insert_rule r s = (Inl e, t) \<Longrightarrow> rules t = rules s \<and> rule_cache t = rule_cache s"
  by (auto simp: insert_rule_def action_simps gen_uuid_run Let_def split: if_splits)

lemma update_rule_pending:
  assumes inv: "rules_inv s" and run: "update_rule r s = (Inr x, t)"
    and old: "y \<in> set (rules s)" "rl_id y = rl_id r" "rl_orgId y = rl_orgId r"
    and normal: "normal_condition (rl_condition r)"
    and free: "\<And>x. x \<in> set (rules s) \<Longrightarrow> rl_id x \<noteq> rl_id r \<Longrightarrow> \<not> clash r x"
  shows "pending_inv (rl_orgId r) t"
proof -
  have x: "x = r\<lparr>rl_updatedAt := now s\<rparr>" and t: "t = s\<lparr>rules := save_row rl_id (stored x) (rules s)\<rparr>"
    using update_rule_Inr [OF run] by simp_all
  have cons: "consistent (rules s)" using inv by (simp add: rules_inv_def)
  have same: "clash x z = clash r z" for z
    by (simp add: x clash_def same_group_def conflicts_with_def hasTypeSpecificConflict_def cong: option.case_cong)
  have "consistent (rules t)"
    unfolding t rules_state.simps
  proof (simp, rule consistent_save [OF cons])
    show nx: "normal_condition (rl_condition (stored x))"
      using stored_condition(1) [OF normal] by (simp add: stored_def x)
    show "\<not> clash (stored x) z" if "z \<in> set (rules s)" "rl_id z \<noteq> rl_id (stored x)" for z
      using clash_stored [of x z] free [of z] that normal cons same [of z] by (simp add: x consistent_def)
  qed
  moreover have "cache_but {rl_orgId r} t"
  proof -
    have one: "z = y" if "z \<in> set (rules s)" "rl_id z = rl_id r" for z
      using rule_repo.key_unique [of "rules s" z y] cons that old by (simp add: consistent_def)
    have "active_rules org t = active_rules org s" if other: "org \<noteq> rl_orgId r" for org
    proof -
      have "filter (\<lambda>z. rl_orgId z = org \<and> rl_isActive z) (save_row rl_id (stored x) (rules s)) =
          filter (\<lambda>z. rl_orgId z = org \<and> rl_isActive z) (rules s)"
      proof (rule active_rules_save)
        show "rl_orgId z = rl_orgId (stored x)" if "z \<in> set (rules s)" "rl_id z = rl_id (stored x)" for z
          using one [of z] that old(3) by (simp add: x)
      qed (use other in \<open>simp add: x\<close>)
      then show ?thesis by (simp add: active_rules_def t)
    qed
    then show ?thesis using inv by (simp add: cache_but_def rules_inv_def t)
  qed
  ultimately show ?thesis by (simp add: pending_inv_def)
qed

text \<open>A rule that is stored under a new id clashes with what its candidate clashed with.\<close>

definition stored_as :: "uuid \<Rightarrow> time \<Rightarrow> rule \<Rightarrow> rule" where
  "stored_as i t r = stored (r\<lparr>rl_id := i, rl_createdAt := t, rl_updatedAt := t\<rparr>)"

lemma clash_ids:
  "clash (r\<lparr>rl_id := i, rl_createdAt := t, rl_updatedAt := t\<rparr>) x = clash r x"
  "clash x (r\<lparr>rl_id := i, rl_createdAt := t, rl_updatedAt := t\<rparr>) = clash x r"
  by (simp_all add: clash_def same_group_def conflicts_with_def hasTypeSpecificConflict_def cong: option.case_cong)

lemma clash_active: "clash r x \<Longrightarrow> rl_isActive r \<and> rl_isActive x \<and> rl_orgId x = rl_orgId r"
  by (simp add: clash_def same_group_def)

lemma stored_as_normal: "normal_condition (rl_condition r) \<Longrightarrow> normal_condition (rl_condition (stored_as i t r))"
  using stored_condition(1) by (simp add: stored_as_def stored_def)

lemma clash_stored_as:
  assumes "normal_condition (rl_condition r)" "normal_condition (rl_condition x)"
  shows "clash (stored_as i t r) x = clash r x" "clash x (stored_as i t r) = clash x r"
proof -
  let ?r = "r\<lparr>rl_id := i, rl_createdAt := t, rl_updatedAt := t\<rparr>"
  have n: "normal_condition (rl_condition ?r)" using assms(1) by simp
  show left: "clash (stored_as i t r) x = clash r x"
    using clash_stored [OF n assms(2)] clash_ids(1) by (simp add: stored_as_def)
  show "clash x (stored_as i t r) = clash x r"
    using left clash_sym [OF assms(2) stored_as_normal [OF assms(1)]] clash_sym [OF stored_as_normal [OF assms(1)] assms(2)]
      clash_sym [OF assms(2,1)] clash_sym [OF assms] by blast
qed

lemma insert_pending:
  assumes inv: "pending_inv (rl_orgId r) s" and run: "insert_rule r s = (Inr x, t)"
    and normal: "normal_condition (rl_condition r)" and free: "\<And>x. x \<in> set (rules s) \<Longrightarrow> \<not> clash r x"
  shows "pending_inv (rl_orgId r) t \<and> (\<exists>i. rules t = rules s @ [stored_as i (now s) r] \<and>
    x = r\<lparr>rl_id := i, rl_createdAt := now s, rl_updatedAt := now s\<rparr>)"
proof -
  obtain i where x: "x = r\<lparr>rl_id := i, rl_createdAt := now s, rl_updatedAt := now s\<rparr>"
    and i: "i \<notin> rl_id ` set (rules s)" and t: "rules t = rules s @ [stored x]" "rule_cache t = rule_cache s"
    using insert_rule_Inr [OF run] by blast
  have new: "stored x = stored_as i (now s) r" by (simp add: x stored_as_def)
  have cons: "consistent (rules s)" using inv by (simp add: pending_inv_def)
  have "consistent (rules s @ [stored_as i (now s) r])"
  proof (rule consistent_insert [OF cons])
    show "rl_id (stored_as i (now s) r) \<notin> rl_id ` set (rules s)" using i by (simp add: stored_as_def)
    show "\<not> clash (stored_as i (now s) r) z" if "z \<in> set (rules s)" for z
      using clash_stored_as(1) [OF normal, of z] free that cons by (simp add: consistent_def)
  qed (rule stored_as_normal [OF normal])
  moreover have "active_rules org t = active_rules org s" if "org \<noteq> rl_orgId r" for org
    using that by (simp add: active_rules_def t(1) new stored_as_def)
  ultimately have "pending_inv (rl_orgId r) t"
    using inv t(2) unfolding pending_inv_def cache_but_def t(1) new by simp
  then show ?thesis using t(1) x unfolding new by blast
qed

lemma pending_of_inv: "rules_inv s \<Longrightarrow> pending_inv org s"
  by (simp add: rules_inv_def pending_inv_def cache_but_def)

section \<open>The operations\<close>

lemma rule_in_org_Some: "rule_in_org i org s = Some r \<Longrightarrow> r \<in> set (rules s) \<and> rl_id r = i \<and> rl_orgId r = org"
  by (auto simp: rule_in_org_def dest: find_Some_conv)

lemma findRule_Inr: "findRuleOrThrow i org s = (Inr r, t) \<Longrightarrow> r \<in> set (rules s) \<and> rl_id r = i \<and> rl_orgId r = org"
  by (auto simp: findRuleOrThrow_def action_Inr dest: rule_in_org_Some)

lemma reads_manager [read_intros]: "reads_only (assertRuleManager caller)"
  unfolding assertRuleManager_def by (intro read_intros)

lemma reads_findRule [read_intros]: "reads_only (findRuleOrThrow i org)"
  unfolding findRuleOrThrow_def by (intro read_intros)

lemma reads_scope [read_intros]: "reads_only (assertScopeConsistency sc w a org)"
  unfolding assertScopeConsistency_def by (intro read_intros)

lemma reads_next_instruction [read_intros]: "reads_only (next_instruction dto r)"
  by (auto simp: next_instruction_def intro: read_intros split: option.split)

lemma snapshot_frame:
  "snapshotRuleVersion r u s = (x, t) \<Longrightarrow> rules t = rules s \<and> rule_cache t = rule_cache s \<and> x = Inr ()"
  by (auto simp: snapshotRuleVersion_def action_simps gen_uuid_run)

lemma leaves_snapshot:
  assumes "rules_inv s" and "\<And>t. rules_inv t \<Longrightarrow> rules t = rules s \<Longrightarrow> leaves P (f ()) t"
  shows "leaves P (await (snapshotRuleVersion r u) f) s"
  by (rule leaves_await) (use assms rules_inv_frame [OF assms(1)] snapshot_frame in \<open>fastforce+\<close>)

lemma leaves_createRule:
  assumes inv: "rules_inv s" and normal: "normal_condition (cr_condition dto)"
  shows "leaves rules_inv (createRule dto caller) s"
  unfolding createRule_def Let_def
proof (rule leaves_guard, rule read_intros, rule inv, rule leaves_guard, rule read_intros, rule inv, rule leaves_await)
  let ?r = "new_rule dto 1 True caller"
  have r: "rl_condition ?r = cr_condition dto" "rl_orgId ?r = ru_orgId caller" "rl_isActive ?r"
    by (simp_all add: new_rule_def)
  show "rules_inv t" if "ensureNoConflict ?r None None s = (Inl e, t)" for e t
    using keepsD [OF keeps_ensure [OF rules_inv_db_only] inv that] .
  fix u t
  assume e: "ensureNoConflict ?r None None s = (Inr u, t)"
  have free: "\<not> clash ?r x" if "x \<in> set (rules s)" for x
    using ensure_Inr(2) [OF e r(3), of x] that by (auto simp: clash_def)
  show "leaves rules_inv (await (insert_rule ?r) (\<lambda>saved.
     await (audit_rule (rl_workflowId saved) (ru_id caller) ''RULE_CREATED'' JNull (auditShape saved)) (\<lambda>_.
     await (invalidate (ru_orgId caller) (rl_id saved)) (\<lambda>_. ok (JObj [(''rule'', serializeRule saved)]))))) t"
    unfolding ensure_Inr(1) [OF e]
  proof (rule leaves_await)
    show "rules_inv t" if "insert_rule ?r s = (Inl e, t)" for e t
      using insert_rule_Inl [OF that] rules_inv_frame [OF inv] by blast
    fix x t
    assume "insert_rule ?r s = (Inr x, t)"
    from insert_pending [OF pending_of_inv [OF inv] this] normal r free
    have "pending_inv (ru_orgId caller) t" by simp
    then show "leaves rules_inv (await (audit_rule (rl_workflowId x) (ru_id caller) ''RULE_CREATED'' JNull (auditShape x)) (\<lambda>_.
       await (invalidate (ru_orgId caller) (rl_id x)) (\<lambda>_. ok (JObj [(''rule'', serializeRule x)])))) t"
      by (rule leaves_commit)
  qed
qed

text \<open>The rest of an update of a rule that was read: snapshot, save, audit, invalidate.\<close>

lemma leaves_change:
  fixes s :: "'z rules_state_scheme"
  assumes inv: "rules_inv s" and old: "y \<in> set (rules s)" "rl_id y = rl_id r" "rl_orgId y = rl_orgId r"
    and normal: "normal_condition (rl_condition r)"
    and free: "\<And>x. x \<in> set (rules s) \<Longrightarrow> rl_id x \<noteq> rl_id r \<Longrightarrow> \<not> clash r x"
    and rest: "\<And>x t. pending_inv (rl_orgId r) t \<Longrightarrow> leaves rules_inv (f x) t"
  shows "leaves rules_inv (await (snapshotRuleVersion y0 u) (\<lambda>_. await (update_rule r) f)) s"
proof (rule leaves_snapshot [OF inv])
  fix t :: "'z rules_state_scheme"
  assume t: "rules_inv t" "rules t = rules s"
  show "leaves rules_inv (await (update_rule r) f) t"
  proof (rule leaves_await)
    show "rules_inv u" if "update_rule r t = (Inl e, u)" for e u
      using update_rule_Inl [OF that] t(1) by simp
    show "leaves rules_inv (f x) u" if "update_rule r t = (Inr x, u)" for x u
      using update_rule_pending [OF t(1) that _ old(2,3) normal] old(1) free t(2) by (intro rest) simp
  qed
qed

lemma normal_stored: "rules_inv s \<Longrightarrow> r \<in> set (rules s) \<Longrightarrow> normal_condition (rl_condition r)"
  by (simp add: rules_inv_def consistent_def)

lemma inactive_clash: "\<not> rl_isActive r \<Longrightarrow> \<not> clash r x"
  by (simp add: clash_def)

lemma clash_version [simp]:
  "clash (r\<lparr>rl_version := n\<rparr>) x = clash r x"
  "clash (r\<lparr>rl_isActive := b, rl_version := n\<rparr>) x = clash (r\<lparr>rl_isActive := b\<rparr>) x"
  by (simp_all add: clash_def same_group_def conflicts_with_def hasTypeSpecificConflict_def cong: option.case_cong)

lemma clash_inactive [simp]: "\<not> clash (r\<lparr>rl_isActive := False\<rparr>) x"
  by (simp add: inactive_clash)

lemma ensured_free:
  assumes "ensureNoConflict r (Some (rl_id r)) None s = (Inr u, t)" and "x \<in> set (rules s)" "rl_id x \<noteq> rl_id r"
  shows "\<not> clash r x"
proof
  assume c: "clash r x"
  then have "rl_isActive r" "rl_ruleType r \<in> set CONTRADICTABLE_RULE_TYPES"
    "x \<in> set (case None of Some p \<Rightarrow> p | None \<Rightarrow> filter (same_group r) (rules s))"
    using assms(2) by (simp_all add: clash_def)
  from ensure_Inr(2) [OF assms(1) this] assms(3) have "\<not> conflicts_with r x" by simp
  with c show False by (simp add: clash_def)
qed

lemma leaves_ensure:
  assumes "rules_inv s" and "\<And>u. ensureNoConflict r ex pool s = (Inr u, s) \<Longrightarrow> leaves rules_inv (f u) s"
  shows "leaves rules_inv (await (ensureNoConflict r ex pool) f) s"
  by (rule leaves_await)
     (use keepsD [OF keeps_ensure [OF rules_inv_db_only] assms(1)] ensure_Inr(1) assms(2) in \<open>fastforce+\<close>)

lemma updated_fields [simp]:
  "rl_id (updated_rule dto i r) = rl_id r" "rl_orgId (updated_rule dto i r) = rl_orgId r"
  "rl_condition (updated_rule dto i r) = default (rl_condition r) (ur_condition dto)"
  by (simp_all add: updated_rule_def)

lemma leaves_updateRule:
  assumes inv: "rules_inv s" and normal: "normal_condition (default None (ur_condition dto))"
  shows "leaves rules_inv (updateRule i dto caller) s"
  unfolding updateRule_def Let_def
proof (rule leaves_guard, rule read_intros, rule inv, rule leaves_guard, rule read_intros, rule inv,
    rule leaves_guard, rule read_intros, rule inv)
  fix r instruction
  assume "findRuleOrThrow i (ru_orgId caller) s = (Inr r, s)"
  note r = findRule_Inr [OF this]
  let ?r = "updated_rule dto instruction r"
  have n: "normal_condition (rl_condition ?r)"
    using normal normal_stored [OF inv conjunct1 [OF r]] by (simp add: default_def split: option.splits)
  have change: "leaves rules_inv (await (snapshotRuleVersion r (ru_id caller)) (\<lambda>_.
       await (update_rule (?r\<lparr>rl_version := rl_version r + 1\<rparr>)) (\<lambda>saved.
       await (audit_rule (rl_workflowId saved) (ru_id caller) (update_event dto r ?r) (auditShape r)
                (auditShape saved)) (\<lambda>_.
       await (invalidate (ru_orgId caller) (rl_id saved)) (\<lambda>_.
       ok (JObj [(''rule'', serializeRule saved)])))))) s"
    if "\<And>x. x \<in> set (rules s) \<Longrightarrow> rl_id x \<noteq> rl_id r \<Longrightarrow> \<not> clash ?r x"
    using r n that by (intro leaves_change [OF inv, of r] leaves_commit) auto
  show "leaves rules_inv (if ?r = r then ok (JObj [(''rule'', serializeRule r)])
     else
       await (if rl_isActive ?r then ensureNoConflict ?r (Some (rl_id r)) None else ok ()) (\<lambda>_.
       await (snapshotRuleVersion r (ru_id caller)) (\<lambda>_.
       await (update_rule (?r\<lparr>rl_version := rl_version r + 1\<rparr>)) (\<lambda>saved.
       await (audit_rule (rl_workflowId saved) (ru_id caller) (update_event dto r ?r) (auditShape r)
                (auditShape saved)) (\<lambda>_.
       await (invalidate (ru_orgId caller) (rl_id saved)) (\<lambda>_.
       ok (JObj [(''rule'', serializeRule saved)]))))))) s"
  proof (cases "?r = r")
    case True
    with inv show ?thesis by (simp add: leaves_def ok_run)
  next
    case False
    show ?thesis
    proof (cases "rl_isActive ?r")
      case True
      show ?thesis
        unfolding if_not_P [OF False] if_P [OF True]
        by (rule leaves_ensure [OF inv], rule change)
           (use ensured_free [of ?r] in fastforce)
    next
      case inactive: False
      show ?thesis
        unfolding if_not_P [OF False] if_not_P [OF inactive]
        by (rule leaves_guard, rule read_intros, rule inv, rule change, rule inactive_clash [OF inactive])
    qed
  qed
qed

lemma leaves_activateRule: "rules_inv s \<Longrightarrow> leaves rules_inv (activateRule i caller) s"
  unfolding activateRule_def
proof (rule leaves_guard, rule read_intros, assumption, rule leaves_guard, rule read_intros, assumption)
  fix r
  assume inv: "rules_inv s" and "findRuleOrThrow i (ru_orgId caller) s = (Inr r, s)"
  note r = findRule_Inr [OF this(2)]
  show "leaves rules_inv (if rl_isActive r then ok (JObj [(''rule'', serializeRule r)])
     else
       await (ensureNoConflict (r\<lparr>rl_isActive := True\<rparr>) (Some (rl_id r)) None) (\<lambda>_.
       await (snapshotRuleVersion r (ru_id caller)) (\<lambda>_.
       await (update_rule (r\<lparr>rl_isActive := True, rl_version := rl_version r + 1\<rparr>)) (\<lambda>saved.
       await (audit_rule (rl_workflowId saved) (ru_id caller) ''RULE_ACTIVATED'' (auditShape r) (auditShape saved)) (\<lambda>_.
       await (invalidate (ru_orgId caller) (rl_id saved)) (\<lambda>_.
       ok (JObj [(''rule'', serializeRule saved)]))))))) s"
  proof (cases "rl_isActive r")
    case False
    show ?thesis
      unfolding if_not_P [OF False]
    proof (rule leaves_ensure [OF inv], rule leaves_change [OF inv, of r])
      fix u
      assume "ensureNoConflict (r\<lparr>rl_isActive := True\<rparr>) (Some (rl_id r)) None s = (Inr u, s)"
      then show "\<not> clash (r\<lparr>rl_isActive := True, rl_version := rl_version r + 1\<rparr>) x"
        if "x \<in> set (rules s)" "rl_id x \<noteq> rl_id (r\<lparr>rl_isActive := True, rl_version := rl_version r + 1\<rparr>)" for x
        using ensured_free [of "r\<lparr>rl_isActive := True\<rparr>" s u s x] that by simp
    qed (use r normal_stored [OF inv] in \<open>auto intro: leaves_commit\<close>)
  qed (use inv in \<open>simp add: leaves_def ok_run\<close>)
qed

lemma leaves_deactivateRule: "rules_inv s \<Longrightarrow> leaves rules_inv (deactivateRule i caller) s"
  unfolding deactivateRule_def
proof (rule leaves_guard, rule read_intros, assumption, rule leaves_guard, rule read_intros, assumption)
  fix r
  assume inv: "rules_inv s" and "findRuleOrThrow i (ru_orgId caller) s = (Inr r, s)"
  note r = findRule_Inr [OF this(2)]
  show "leaves rules_inv (if \<not> rl_isActive r then ok (JObj [(''rule'', serializeRule r)])
     else
       await (snapshotRuleVersion r (ru_id caller)) (\<lambda>_.
       await (update_rule (r\<lparr>rl_isActive := False, rl_version := rl_version r + 1\<rparr>)) (\<lambda>saved.
       await (audit_rule (rl_workflowId saved) (ru_id caller) ''RULE_DEACTIVATED'' (auditShape r) (auditShape saved)) (\<lambda>_.
       await (invalidate (ru_orgId caller) (rl_id saved)) (\<lambda>_.
       ok (JObj [(''rule'', serializeRule saved)])))))) s"
  proof (cases "rl_isActive r")
    case True
    have act: "(\<not> rl_isActive r) = False" using True by simp
    show ?thesis
      unfolding act if_False
      by (rule leaves_change [OF inv, of r])
         (use r normal_stored [OF inv] in \<open>auto intro: leaves_commit inactive_clash\<close>)
  qed (use inv in \<open>simp add: leaves_def ok_run\<close>)
qed

lemma leaves_softDelete: "rules_inv s \<Longrightarrow> leaves rules_inv (softDeleteRule i caller) s"
  unfolding softDeleteRule_def
proof (rule leaves_guard, rule read_intros, assumption, rule leaves_guard, rule read_intros, assumption)
  fix r
  assume inv: "rules_inv s" and "findRuleOrThrow i (ru_orgId caller) s = (Inr r, s)"
  note r = findRule_Inr [OF this(2)]
  let ?rest = "\<lambda>saved. await (audit_rule (rl_workflowId r) (ru_id caller) ''RULE_DELETED'' (auditShape r) (auditShape saved)) (\<lambda>_.
     invalidate (ru_orgId caller) (rl_id r))"
  have rest: "leaves rules_inv (?rest saved) t" if "pending_inv (ru_orgId caller) t" for saved and t :: "'a rules_state_scheme"
    using that by (rule leaves_audit_rule [OF leaves_invalidate [OF pending_frame]])
  show "leaves rules_inv (await (if rl_isActive r
            then await (snapshotRuleVersion r (ru_id caller)) (\<lambda>_.
                 update_rule (r\<lparr>rl_isActive := False, rl_version := rl_version r + 1\<rparr>))
            else ok r) ?rest) s"
  proof (cases "rl_isActive r")
    case True
    have split: "await (await m f) g = await m (\<lambda>x. await (f x) g)" for m f g
      by (auto simp: fun_eq_iff await_def split: prod.split sum.split)
    show ?thesis
      unfolding if_P [OF True] split
      by (rule leaves_change [OF inv, of r])
         (use r normal_stored [OF inv] rest in \<open>auto intro: inactive_clash\<close>)
  next
    case False
    show ?thesis
      unfolding if_not_P [OF False]
      by (rule leaves_guard, rule read_intros, rule inv, rule rest, rule pending_of_inv [OF inv])
  qed
qed

text \<open>The cache.\<close>

lemma getCached_Inr:
  assumes "rules_inv s"
  shows "\<exists>t. getCachedActiveRules org s = (Inr (active_rules org s), t) \<and> rules_inv t \<and> rules t = rules s \<and>
    sessions t = sessions s \<and> workflows t = workflows s"
proof -
  have "rules_inv (rule_cache_update (\<lambda>c. c(org \<mapsto> \<lparr> rce_expiresAt = n, rce_rules = active_rules org s \<rparr>)) s)" for n
    using assms by (simp add: rules_inv_def cache_but_def active_rules_def)
  then show ?thesis
    using assms
    by (auto simp: getCachedActiveRules_def action_simps rules_inv_def cache_but_def split: option.split)
qed

lemma leaves_getCached:
  assumes "rules_inv s"
    and "\<And>t. rules_inv t \<Longrightarrow> rules t = rules s \<Longrightarrow> leaves P (f (active_rules org s)) t"
  shows "leaves P (await (getCachedActiveRules org) f) s"
  using getCached_Inr [OF assms(1), of org] assms(2) by (auto simp: leaves_def await_run)

lemma keeps_getCached [keeps_intros]: "keeps rules_inv (getCachedActiveRules org)"
  unfolding keeps_def using getCached_Inr by (metis snd_conv)

lemma keeps_sessionRules [keeps_intros]: "keeps rules_inv (getSessionContextRules i org)"
  unfolding getSessionContextRules_def by (intro keeps_intros)

lemma keeps_testRule: "keeps rules_inv (testRule i sample agent caller)"
  unfolding testRule_def Let_def
  by (intro keeps_intros reads_only_keepsI [OF reads_findRule]) (auto elim: rules_inv_frame)

text \<open>An import: what was checked rule by rule can be stored rule by rule.\<close>

fun clear :: "uuid \<Rightarrow> rule list \<Rightarrow> rule list \<Rightarrow> bool" where
  "clear org base [] = True"
| "clear org base (r # rs) = (normal_condition (rl_condition r) \<and> rl_orgId r = org \<and>
     (\<forall>x \<in> set base. \<not> clash r x) \<and> clear org (base @ [r]) rs)"

lemma clear_mono:
  assumes "clear org base rs"
    and "\<And>r x. r \<in> set rs \<Longrightarrow> normal_condition (rl_condition r) \<Longrightarrow> x \<in> set base' \<Longrightarrow> clash r x \<Longrightarrow>
      rl_orgId r = org \<Longrightarrow> \<exists>y \<in> set base. clash r y"
  shows "clear org base' rs"
  using assms
proof (induction rs arbitrary: base base')
  case (Cons r rs)
  have "clear org (base' @ [r]) rs"
  proof (rule Cons.IH [of "base @ [r]"])
    show "\<exists>y \<in> set (base @ [r]). clash q y"
      if "q \<in> set rs" "normal_condition (rl_condition q)" "x \<in> set (base' @ [r])" "clash q x" "rl_orgId q = org" for q x
      using Cons.prems(2) [of q x] that by auto
  qed (use Cons.prems(1) in simp)
  moreover have "\<not> clash r x" if "x \<in> set base'" for x
    using Cons.prems(1) Cons.prems(2) [of r x] that by auto
  ultimately show ?case using Cons.prems(1) by simp
qed simp

lemma built_rule:
  "buildImportedRule item caller s = (Inr r, t) \<Longrightarrow> t = s \<and> rl_orgId r = ru_orgId caller \<and>
   rl_condition r = cr_condition item"
  by (auto simp: buildImportedRule_def action_Inr new_rule_def create_rule_dto.truncate_def
      dest: reads_onlyD [OF reads_scope])

lemma staged_clear:
  assumes "stage_rules active staged items caller s = (Inr res, t)"
    and "\<forall>item \<in> set items. normal_condition (cr_condition item)"
  shows "t = s \<and> (\<exists>new. res = staged @ new \<and> clear (ru_orgId caller) (active @ staged) new)"
  using assms
proof (induction items arbitrary: staged)
  case (Cons item items)
  from Cons.prems(1) obtain r u v where r: "buildImportedRule item caller s = (Inr r, s)"
    and e: "ensureNoConflict r None (Some (active @ staged)) s = (Inr u, s)"
    and rest: "stage_rules active (staged @ [r]) items caller s = (Inr res, t)"
    using built_rule ensure_Inr(1) by (fastforce simp: action_Inr)
  from Cons.IH [OF rest] Cons.prems(2) obtain new where
    new: "t = s" "res = staged @ r # new" "clear (ru_orgId caller) (active @ staged @ [r]) new" by auto
  have "\<not> clash r x" if "x \<in> set (active @ staged)" for x
    using ensure_Inr(2) [OF e, of x] that by (auto simp: clash_def)
  then have "clear (ru_orgId caller) (active @ staged) (r # new)"
    using new(3) built_rule [OF r] Cons.prems(2) by simp
  then show ?case using new(1,2) by blast
qed (simp add: ok_run)

lemma inserted_pending:
  assumes "pending_inv org s" "clear org (rules s) rs" "insert_rules rs s = (Inr xs, t)"
  shows "pending_inv org t"
  using assms
proof (induction rs arbitrary: s xs)
  case (Cons r rs)
  from Cons.prems(3) obtain x u ys where r: "insert_rule r s = (Inr x, u)" and rest: "insert_rules rs u = (Inr ys, t)"
    by (auto simp: action_Inr)
  have org: "rl_orgId r = org" and n: "normal_condition (rl_condition r)"
    and free: "\<And>x. x \<in> set (rules s) \<Longrightarrow> \<not> clash r x" and later: "clear org (rules s @ [r]) rs"
    using Cons.prems(2) by simp_all
  from insert_pending [OF _ r n free] Cons.prems(1) org obtain i where
    u: "pending_inv org u" "rules u = rules s @ [stored_as i (now s) r]" by auto
  have "clear org (rules u) rs"
    by (rule clear_mono [OF later])
       (use clash_stored_as(2) [OF n] in \<open>auto simp: u(2)\<close>)
  then show ?case by (rule Cons.IH [OF u(1) _ rest])
qed (simp add: ok_run)

lemma leaves_importRules:
  fixes s :: "'z rules_state_scheme"
  assumes inv: "rules_inv s" and normal: "\<forall>item \<in> set (rb_rules bundle). normal_condition (cr_condition item)"
  shows "leaves rules_inv (importRules bundle caller) s"
  unfolding importRules_def
proof (rule leaves_guard, rule read_intros, rule inv, rule leaves_getCached [OF inv], rule leaves_await)
  fix t :: "'z rules_state_scheme"
  assume t: "rules_inv t" "rules t = rules s"
  let ?org = "ru_orgId caller"
  have keeps: "keeps rules_inv (stage_rules active staged items caller)" for active staged items
  proof (induction items arbitrary: staged)
    case (Cons item items)
    have "reads_only (buildImportedRule item caller)" unfolding buildImportedRule_def by (intro read_intros)
    then show ?case
      unfolding stage_rules.simps
      by (intro keeps_await keeps_ensure rules_inv_db_only Cons.IH) (rule reads_only_keepsI)
  qed (simp add: keeps_intros)
  show "rules_inv u"
    if "stage_rules (active_rules ?org s) [] (rb_rules bundle) caller t = (Inl e, u)" for e u
    using keepsD [OF keeps t(1) that] .
  fix staged u
  assume "stage_rules (active_rules ?org s) [] (rb_rules bundle) caller t = (Inr staged, u)"
  from staged_clear [OF this normal] have u: "u = t" and "clear ?org (active_rules ?org s) staged" by auto
  then have c: "clear ?org (rules t) staged"
    by (elim clear_mono) (use t(2) clash_active in \<open>fastforce simp: active_rules_def by_priority_def\<close>)
  show "leaves rules_inv (await (transaction (insert_rules staged)) (\<lambda>saved.
     await (audit_rule None (ru_id caller) ''RULE_IMPORTED'' JNull
              (JObj [(''schema_version'', JStr (rb_schema_version bundle)),
                     (''imported_rule_ids'', JArr (map (\<lambda>r. JStr (rl_id r)) saved)),
                     (''count'', json_int (int (length saved)))])) (\<lambda>_.
     await (invalidateOrgRuleCache ?org) (\<lambda>_.
     ok (JObj [(''imported_count'', json_int (int (length saved))),
               (''rules'', JArr (map serializeRule saved))]))))) u"
    unfolding u
  proof (rule leaves_await)
    show "rules_inv v" if "transaction (insert_rules staged) t = (Inl e, v)" for e v
      using transaction_Inl [OF that] t(1) by simp
    fix saved v
    assume "transaction (insert_rules staged) t = (Inr saved, v)"
    then have p: "pending_inv ?org v"
      using inserted_pending [OF pending_of_inv [OF t(1)] c] by (simp add: transaction_Inr_iff)
    show "leaves rules_inv (await (audit_rule None (ru_id caller) ''RULE_IMPORTED'' JNull
              (JObj [(''schema_version'', JStr (rb_schema_version bundle)),
                     (''imported_rule_ids'', JArr (map (\<lambda>r. JStr (rl_id r)) saved)),
                     (''count'', json_int (int (length saved)))])) (\<lambda>_.
       await (invalidateOrgRuleCache ?org) (\<lambda>_.
       ok (JObj [(''imported_count'', json_int (int (length saved))),
               (''rules'', JArr (map serializeRule saved))])))) v"
      by (rule leaves_audit_rule)
         (use pending_frame [OF p] in \<open>auto simp: invalidateOrgRuleCache_def leaves_def action_simps intro: invalidate_org_inv\<close>)
  qed
qed

section \<open>All requests\<close>

text \<open>The requests whose conditions the database stores as they are.\<close>

fun normal_request :: "rules_request \<Rightarrow> bool" where
  "normal_request (Create dto _) = normal_condition (cr_condition dto)"
| "normal_request (Update _ dto _) = normal_condition (default None (ur_condition dto))"
| "normal_request (Import b _) = list_all (\<lambda>item. normal_condition (cr_condition item)) (rb_rules b)"
| "normal_request _ = True"

lemma leaves_serve:
  assumes "rules_inv s" and "normal_request q"
  shows "leaves rules_inv (serve_rules q) s"
proof -
  have "keeps rules_inv (findAllRules f org)" "keeps rules_inv (findOneRule i org)"
    "keeps rules_inv (exportRules org)" "keeps rules_inv (previewForSession i u)"
    "keeps rules_inv (listActiveRulesForContext org i)"
    "keeps rules_inv (listRuleApplicationsForAgentExecution i org)" for f org i u
    unfolding findAllRules_def findOneRule_def exportRules_def previewForSession_def
      listActiveRulesForContext_def listRuleApplicationsForAgentExecution_def
    by (intro keeps_intros reads_only_keepsI [OF reads_findRule])+
  note reads = this keeps_testRule
  show ?thesis
  proof (cases q)
    case (Pass d)
    then show ?thesis using rules_inv_frame [OF assms(1), of "now_update (\<lambda>t. t + int d) s"]
      by (simp add: leaves_def writes_run)
  qed (use assms reads [THEN leaves_keeps] leaves_createRule leaves_updateRule leaves_activateRule
         leaves_deactivateRule leaves_softDelete leaves_importRules
       in \<open>auto intro!: leaves_answer simp: list_all_iff\<close>)
qed

lemma serve_all_rules_inv: "rules_inv s \<Longrightarrow> list_all normal_request qs \<Longrightarrow> rules_inv (serve_all_rules qs s)"
  by (induction qs arbitrary: s) (use leaves_serve in \<open>auto simp: leaves_def\<close>)

end
