(* ===== verification/GatewayProps.thy ===== *)
theory GatewayProps
  imports AiGateway WorkflowsProps RulesProps
begin

text \<open>
  What the services around a session keep: the numbering of the versions of a workflow, also when
  results fail halfway, and the session state machine; and how messages are settled.
\<close>

section \<open>Versions\<close>

lemma keeps_versions_frame:
  assumes "\<And>s. workflows (f s) = workflows s" "\<And>s. workflow_versions (f s) = workflow_versions s"
  shows "keeps versions_ok (writes f)"
  by (rule keeps_writes) (rule versions_ok_frame, assumption, simp_all add: assms)

lemma keeps_lifted [keeps_intros]: "keeps P (lifted r)"
  by (cases r) (simp_all add: lifted_def keeps_intros)

lemma keeps_moved [keeps_intros]: "keeps P (moved e ses)"
  unfolding moved_def by (intro keeps_intros)

lemma keeps_new_id [keeps_intros]: "db_only P \<Longrightarrow> keeps P (new_id key table c)"
  unfolding new_id_def by (intro keeps_intros)

text \<open>What looks at the workflows and their versions only.\<close>

definition versions_only :: "('s core_scheme \<Rightarrow> bool) \<Rightarrow> bool" where
  "versions_only P \<longleftrightarrow>
     (\<forall>s t. P s \<longrightarrow> workflows t = workflows s \<longrightarrow> workflow_versions t = workflow_versions s \<longrightarrow> P t)"

lemma versions_only_ok: "versions_only versions_ok"
  using versions_ok_frame unfolding versions_only_def by blast

lemma versions_only_db: "versions_only P \<Longrightarrow> db_only P"
  unfolding versions_only_def by (rule db_onlyI) (metis (no_types, lifting) core.simps core.surjective)+

lemma keeps_versions_only:
  assumes "versions_only P" and "\<And>s. workflows (f s) = workflows s" and "\<And>s. workflow_versions (f s) = workflow_versions s"
  shows "keeps P (writes f)"
  using assms unfolding versions_only_def by (intro keeps_writes) blast

lemma keeps_versions_tables:
  assumes "versions_only P"
  shows "keeps P (save_session ses)" "keeps P (save_pipeline p)" "keeps P (insert_message m)"
    "keeps P (save_snapshot g)" "keeps P (createDivergenceReport wid i a b)" "keeps P (complete_pipeline r e)"
    "keeps P (publish_result r w ses e v)" "keeps P (retry_exhausted sub j x n)"
  unfolding save_session_def save_pipeline_def insert_message_def save_snapshot_def createDivergenceReport_def
    complete_pipeline_def publish_result_def markWorkflowUpdated_def computeChangedElements_def
    buildIntentSnapshot_def buildGeneratedSnapshot_def retry_exhausted_def recordFailure_def Let_def
  by (intro keeps_intros versions_only_db [OF assms] keeps_versions_only [OF assms]; simp)+

lemmas versions_saves = keeps_versions_tables [OF versions_only_ok]

lemma latest_number:
  "max_version i s = (case latest_version i s of None \<Rightarrow> 0 | Some v \<Rightarrow> wv_versionNumber v)"
  by (simp add: max_version_def)

text \<open>The version of a result is stored together with the number the workflow names.\<close>

lemma result_version:
  fixes s :: "'z core_scheme"
  assumes ok: "versions_ok s" and w: "w \<in> set (workflows s)" and p: "re_version_number p = None"
  shows "\<exists>v t. createWorkflowVersionFromResult p w ses s = (Inr v, t) \<and>
     wv_workflowId v = wf_id w \<and> wv_versionNumber v = wf_currentVersion w + 1 \<and>
     t = s\<lparr>uuid_next := Suc (uuid_next s), workflow_versions := workflow_versions s @ [v]\<rparr>"
proof -
  let ?n = "wf_currentVersion w + 1"
  have n: "(case latest_version (wf_id w) s of None \<Rightarrow> 0 | Some v \<Rightarrow> wv_versionNumber v) + 1 = ?n"
    using latest_version_ok [OF ok w] by (simp add: latest_number)
  have "?n \<notin> wv_versionNumber ` set (versions_of (wf_id w) s)"
    using max_version_ge [of _ "wf_id w" s] latest_version_ok [OF ok w] by force
  moreover have "wf_id w \<in> wf_id ` set (workflows s)" using w by simp
  ultimately show ?thesis
    unfolding createWorkflowVersionFromResult_def await_run reads_run prod.case sum.case n p
    by (simp add: insert_version_def action_simps gen_uuid_run current_time_run versions_of_def)
qed

lemma save_next_version:
  fixes s :: "'z core_scheme"
  assumes ok: "versions_ok s" and w: "w \<in> set (workflows s)"
    and v: "wv_workflowId v = wf_id w" "wv_versionNumber v = wf_currentVersion w + 1"
    and t: "workflow_versions t = workflow_versions s @ [v]" "workflows t = workflows s"
    and w': "wf_id w' = wf_id w" "wf_currentVersion w' = wf_currentVersion w + 1"
  shows "\<exists>x. save_workflow w' t = (Inr x, t\<lparr>workflows := save_row wf_id x (workflows s)\<rparr>) \<and>
     x = w'\<lparr>wf_updatedAt := now t\<rparr> \<and> versions_ok (t\<lparr>workflows := save_row wf_id x (workflows s)\<rparr>)"
proof -
  have keyed: "keyed wf_id (workflows s)" using ok by (simp add: versions_ok_def)
  let ?x = "w'\<lparr>wf_updatedAt := now t\<rparr>"
  have "v \<in> set (versions_of (wf_id w) t)" using v by (simp add: versions_of_def t)
  from max_version_ge [OF this] have "wf_currentVersion w' \<le> max_version (wf_id w') t" using v w' by simp
  then have run: "save_workflow w' t = (Inr ?x, t\<lparr>workflows := save_row wf_id ?x (workflows s)\<rparr>)"
    by (simp add: save_workflow_def action_simps current_time_run t)
  have "versions_ok (t\<lparr>workflows := save_row wf_id ?x (workflows s)\<rparr>)"
  proof (rule versions_ok_advance [OF ok w refl v])
    show "keyed wf_id (workflows (t\<lparr>workflows := save_row wf_id ?x (workflows s)\<rparr>))" using keyed by simp
    show "wf_id ` set (workflows (t\<lparr>workflows := save_row wf_id ?x (workflows s)\<rparr>)) = wf_id ` set (workflows s)"
      using w w' by (auto simp: keys_save_row)
  qed (use w' set_save_row [OF keyed] in \<open>auto simp: t\<close>)
  with run show ?thesis by blast
qed

text \<open>Applying a result stores the next version; what comes after that does not touch versions.\<close>

lemma leaves_apply_result:
  fixes s :: "'z tables_scheme"
  assumes ok: "versions_ok s" and w: "w \<in> set (workflows s)" and p: "re_version_number p = None"
    and P: "versions_only P"
    and stored: "\<And>v x t. wv_workflowId v = wf_id w \<Longrightarrow>
      x = w\<lparr>wf_currentVersion := wf_currentVersion w + 1, wf_status := PENDING_REVIEW, wf_updatedAt := now s\<rparr> \<Longrightarrow>
      workflow_versions t = workflow_versions s @ [v] \<Longrightarrow> workflows t = save_row wf_id x (workflows s) \<Longrightarrow>
      versions_ok t \<Longrightarrow> P t"
  shows "leaves P (apply_result p e ses w) s"
proof -
  obtain v t where v: "createWorkflowVersionFromResult p w ses s = (Inr v, t)" "wv_workflowId v = wf_id w"
      "wv_versionNumber v = wf_currentVersion w + 1"
    and t: "t = s\<lparr>uuid_next := Suc (uuid_next s), workflow_versions := workflow_versions s @ [v]\<rparr>"
    using result_version [OF ok w p] by blast
  let ?w = "w\<lparr>wf_currentVersion := wv_versionNumber v, wf_status := PENDING_REVIEW\<rparr>"
  obtain x where x: "save_workflow ?w t = (Inr x, t\<lparr>workflows := save_row wf_id x (workflows s)\<rparr>)"
    and x': "x = ?w\<lparr>wf_updatedAt := now t\<rparr>"
    and ok': "versions_ok (t\<lparr>workflows := save_row wf_id x (workflows s)\<rparr>)"
    using save_next_version [OF ok w v(2,3), of t ?w] by (auto simp: t v(3))
  have P': "P (t\<lparr>workflows := save_row wf_id x (workflows s)\<rparr>)"
    by (rule stored [OF v(2) _ _ _ ok']) (simp_all add: t x' v(3))
  show ?thesis
    unfolding apply_result_def
  proof (rule leaves_await)
    fix v' t'
    assume "createWorkflowVersionFromResult p w ses s = (Inr v', t')"
    with v(1) have v': "v' = v" "t' = t" by auto
    show "leaves P (await (save_workflow (w\<lparr>wf_currentVersion := wv_versionNumber v', wf_status := PENDING_REVIEW\<rparr>)) (\<lambda>saved.
     await (moved AI_RESULT_RECEIVED (ses\<lparr>ses_confidenceScore := re_confidence p\<rparr>)) (\<lambda>next.
     await (save_session next) (\<lambda>_.
     await (complete_pipeline p e) (\<lambda>done.
     await (insert_message \<lparr> msg_id = [], msg_sessionId = ses_id ses, msg_role = AI, msg_type = AI_UPDATE,
              msg_content = or_else (re_summary p) ''AI pipeline completed and workflow updated'',
              msg_metadata = JObj [(''correlation_id'', JStr (re_correlation_id p)),
                (''version_number'', json_int (wv_versionNumber v'))],
              msg_createdAt = 0, msg_archivedAt = None \<rparr>) (\<lambda>_.
     await (audit (Some (wf_id w)) None ActorType.AI_AGENT ''AI_TASK_RESULT_APPLIED'' None
              (JObj (applied_shape (wf_currentVersion w) (ses_status ses)))
              (JObj (applied_shape (wf_currentVersion saved) (ses_status next) @
                 [(''confidence'', JNum (re_confidence p))]))) (\<lambda>_.
     publish_result p saved next done v'))))))) t'"
      unfolding v'
      by (rule leaves_await, simp add: x, rule leaves_keeps,
          intro keeps_intros keeps_versions_tables [OF P] versions_only_db [OF P])
         (use x P' in auto)
  qed (use v in auto)
qed


section \<open>Deliveries\<close>

lemma reads_assertOrgMatch [read_intros]: "reads_only (assertOrgMatch org i)"
  unfolding assertOrgMatch_def by (intro read_intros)

lemma leaves_process_result:
  assumes ok: "versions_ok s" and p: "re_version_number p = None"
  shows "leaves versions_ok (process_result p) s"
  unfolding process_result_def
proof (rule leaves_guard, rule read_intros, rule ok, rule leaves_guard, rule read_intros, rule ok,
    rule leaves_guard, rule read_intros, rule ok, rule leaves_guard, rule read_intros, rule ok,
    rule leaves_guard, rule read_intros, rule ok, rule leaves_guard, rule read_intros, rule ok,
    rule leaves_guard, rule read_intros, rule ok, rule leaves_guard, rule read_intros, rule ok)
  fix e ses0 w0 w and ses :: session
  assume "reads (\<lambda>s. find_row wf_id (ses_workflowId ses) (workflows s)) s = (Inr w0, s)"
    "some_or_throw w0 (PlainError ''Workflow not found for ai.tasks.result'') s = (Inr w, s)"
  then have "find_row wf_id (ses_workflowId ses) (workflows s) = Some w"
    by (simp add: reads_run some_or_throw_Inr_iff)
  from find_row_Some [OF this] have "w \<in> set (workflows s)" by simp
  then show "leaves versions_ok (apply_result p e ses w) s" by (rule leaves_apply_result [OF ok _ p versions_only_ok])
qed

lemma leaves_handle_result:
  fixes s :: "'z gateway_state_scheme"
  assumes ok: "versions_ok s" and p: "re_version_number p = None"
  shows "leaves versions_ok (handle_result p msgId) s"
  unfolding handle_result_def Let_def
proof (rule leaves_guard, rule read_intros, rule ok)
  fix seen
  show "leaves versions_ok (if seen then ok ()
      else await (process_result p) (\<lambda>_. writes (handled_results_update (remember
        (idempotencyKey msgId (re_correlation_id p) ''ai.tasks.result''))))) s"
  proof (cases seen)
    case False
    show ?thesis
      unfolding if_not_P [OF False]
      by (rule leaves_then, rule leaves_process_result [OF ok p], rule keeps_versions_frame) simp_all
  qed (use ok in \<open>simp add: leaves_def ok_run\<close>)
qed

lemma enriched_version:
  "enrichResultPayload j s = (r, t) \<Longrightarrow> t = s \<and> (\<forall>p. r = Inr p \<longrightarrow> re_version_number p = None)"
  by (auto simp: enrichResultPayload_def action_simps current_time_run Let_def split: option.splits sum.splits)

lemma keeps_result_handler: "keeps versions_ok (result_handler j :: ('z gateway_state_scheme, unit) action)"
  unfolding keeps_leaves result_handler_def
proof (intro allI impI, rule leaves_await)
  fix s :: "'z gateway_state_scheme" and p t
  assume "versions_ok s" "enrichResultPayload j s = (Inr p, t)"
  with enriched_version [of j s "Inr p" t] show "leaves versions_ok (handle_result p None) t"
    using leaves_handle_result by blast
qed (use enriched_version in blast)

lemma keeps_deliver:
  assumes "keeps P h" and "\<And>e n. keeps P (x e n)" and "\<And>f. keeps P (writes (ended_consumers_update f))"
  shows "keeps P (deliver sub h x)"
proof -
  have "keeps P (attempt h x n)" for n
    unfolding attempt_def using assms by (intro keeps_intros)
  then have "keeps P (deliveries h x ns)" for ns
    by (induction ns) (auto intro: keeps_intros)
  then show ?thesis unfolding deliver_def
    by (intro keeps_intros) (use assms(3) in \<open>simp_all add: keeps_def writes_run\<close>)
qed

lemma keeps_on_result: "keeps versions_ok (on_result j :: ('z gateway_state_scheme, delivery) action)"
  unfolding on_result_def by (intro keeps_deliver keeps_result_handler versions_saves keeps_versions_frame) simp_all

lemma keeps_handle_divergence: "keeps versions_ok (handle_divergence p m :: ('z gateway_state_scheme, unit) action)"
  unfolding handle_divergence_def Let_def
  by (intro keeps_intros versions_saves versions_ok_db_only keeps_versions_frame) simp_all

lemma keeps_handle_progress: "keeps versions_ok (handle_progress p m :: ('z gateway_state_scheme, unit) action)"
proof -
  have ad: "reads_only (resolveAgentDefinitionId a)" for a unfolding resolveAgentDefinitionId_def by (intro read_intros)
  show ?thesis
    unfolding handle_progress_def insert_log_def Let_def
    by (intro keeps_intros reads_only_keepsI [OF reads_assertOrgMatch] reads_only_keepsI [OF ad] versions_saves versions_ok_db_only
        keeps_versions_frame) simp_all
qed

text \<open>A message is settled: a delivery that returns is acknowledged or terminated.\<close>

lemma deliveries_settle:
  "deliveries h x ns s = (Inr d, t) \<Longrightarrow> ns \<noteq> [] \<Longrightarrow> 3 \<le> last ns \<Longrightarrow> d \<noteq> Given_back"
proof (induction ns arbitrary: s)
  case (Cons n ns)
  from Cons.prems(1) obtain c u where c: "attempt h x n s = (Inr c, u)"
    and rest: "(if c = Given_back then deliveries h x ns else ok c) u = (Inr d, t)"
    by (auto simp: await_Inr_iff)
  show ?case
  proof (cases "c = Given_back")
    case True
    then have "n < 3"
      using c by (auto simp: attempt_def try_catch_run await_run ok_run split: sum.splits prod.splits if_splits)
    then have "ns \<noteq> []" "3 \<le> last ns" using Cons.prems(2,3) by (auto split: if_splits)
    then show ?thesis using Cons.IH rest True by simp
  qed (use rest in \<open>simp add: ok_run\<close>)
qed simp


section \<open>Requests and messages\<close>

text \<open>Everything that writes to workflows, versions and sessions here; time passes in between.\<close>

datatype gateway_request =
    CreateWorkflow create_workflow_dto uuid uuid
  | UpdateWorkflow uuid update_workflow_dto uuid uuid string
  | ArchiveWorkflow uuid uuid uuid string
  | DuplicateWorkflow uuid uuid uuid "string option"
  | CreateSession uuid SessionMode request_user
  | UpdateMode uuid SessionMode request_user
  | Finalize uuid request_user
  | Dispatch uuid json request_user "PipelineTaskType option" "AgentType option"
  | ArchiveSession uuid request_user
  | OverrideStatus uuid update_status_dto request_user
  | ResultMessage json
  | ProgressMessage json
  | DivergenceMessage divergence_event json
  | Elapse nat

fun serve_gateway :: "gateway_request \<Rightarrow> ('z gateway_state_scheme, unit) action" where
  "serve_gateway (CreateWorkflow dto org u) = answer (createWorkflow dto org u)"
| "serve_gateway (UpdateWorkflow i dto org u r) = answer (updateWorkflow i dto org u r)"
| "serve_gateway (ArchiveWorkflow i org u r) = answer (archiveWorkflow i org u r)"
| "serve_gateway (DuplicateWorkflow i org u t) = answer (duplicateWorkflow i org u t)"
| "serve_gateway (CreateSession w m u) = answer (createSession w m u)"
| "serve_gateway (UpdateMode i m u) = answer (updateMode i m u)"
| "serve_gateway (Finalize i u) = answer (finalize i u)"
| "serve_gateway (Dispatch i x u t a) = answer (dispatchAiTask i x u t a)"
| "serve_gateway (ArchiveSession i u) = answer (archiveSession i u)"
| "serve_gateway (OverrideStatus i dto u) = answer (overrideStatus i dto u)"
| "serve_gateway (ResultMessage j) = answer (on_result j)"
| "serve_gateway (ProgressMessage j) = answer (on_progress j)"
| "serve_gateway (DivergenceMessage p j) = answer (on_divergence p j)"
| "serve_gateway (Elapse d) = writes (now_update (\<lambda>t. t + int d))"

fun serve_gateways :: "gateway_request list \<Rightarrow> 'z gateway_state_scheme \<Rightarrow> 'z gateway_state_scheme" where
  "serve_gateways [] s = s"
| "serve_gateways (q # qs) s = serve_gateways qs (snd (serve_gateway q s))"

lemma reads_findSession [read_intros]: "reads_only (findSessionInOrgOrThrow i org)"
  unfolding findSessionInOrgOrThrow_def by (intro read_intros)

lemma reads_owner [read_intros]: "reads_only (assertOwnerOrAdmin ses u)"
  unfolding assertOwnerOrAdmin_def by (intro read_intros)

lemma reads_admin [read_intros]: "reads_only (assertAdmin u)"
  unfolding assertAdmin_def by (intro read_intros)

lemma keeps_checks [keeps_intros]:
  "keeps P (findSessionInOrgOrThrow i org)" "keeps P (assertOwnerOrAdmin ses u)" "keeps P (assertAdmin u)"
  by (intro reads_only_keepsI read_intros)+

lemma keeps_audit_session [keeps_intros]: "db_only P \<Longrightarrow> keeps P (audit_session ses u e a b)"
  unfolding audit_session_def by (intro keeps_intros)

text \<open>
  A predicate that the rule cache and the table of executions do not matter to is kept by the
  publication of a task.
\<close>

lemma keeps_context_rules:
  assumes "\<And>f. keeps P (writes (rule_cache_update f))"
  shows "keeps P (listActiveRulesForContext org i)"
  unfolding listActiveRulesForContext_def getSessionContextRules_def getCachedActiveRules_def
  by (intro keeps_intros assms)

lemma keeps_publishAiTask:
  fixes P :: "'z rules_state_scheme \<Rightarrow> bool"
  assumes "db_only P" and "\<And>f. keeps P (writes (rule_cache_update f))"
    and "\<And>f. keeps P (writes (pipeline_executions_update f))"
  shows "keeps P (publishAiTask p)"
  unfolding publishAiTask_def resolveOrgIdForSession_def Let_def save_pipeline_def
  by (intro keeps_intros assms keeps_context_rules)

lemma keeps_versions_serve: "keeps versions_ok (serve_gateway q :: ('z gateway_state_scheme, unit) action)"
proof -
  have sessions:
    "keeps versions_ok (createSession w m u :: ('z gateway_state_scheme, json) action)"
    "keeps versions_ok (updateMode i m u :: ('z gateway_state_scheme, json) action)"
    "keeps versions_ok (finalize i u :: ('z gateway_state_scheme, json) action)"
    "keeps versions_ok (archiveSession i u :: ('z gateway_state_scheme, json) action)"
    "keeps versions_ok (overrideStatus i dto u :: ('z gateway_state_scheme, json) action)" for i w m u dto
    unfolding createSession_def updateMode_def finalize_def archiveSession_def overrideStatus_def Let_def
      emitNeedsReconciliation_def
    by (intro keeps_intros versions_saves versions_ok_db_only keeps_versions_frame; simp)+
  have dispatch: "keeps versions_ok (dispatchAiTask i x u t a :: ('z gateway_state_scheme, uuid \<times> string) action)"
    for i x u t a
    unfolding dispatchAiTask_def Let_def
    by (intro keeps_intros keeps_publishAiTask versions_saves versions_ok_db_only keeps_versions_frame; simp)
  have messages:
    "keeps versions_ok (on_progress j :: ('z gateway_state_scheme, delivery) action)"
    "keeps versions_ok (on_divergence p j :: ('z gateway_state_scheme, delivery) action)" for j p
    unfolding on_progress_def on_divergence_def relay_progress_def
    by (intro keeps_deliver versions_saves keeps_handle_divergence keeps_intros versions_ok_db_only keeps_versions_frame; simp)+
  have workflows:
    "keeps versions_ok (createWorkflow dto org u :: ('z gateway_state_scheme, workflow) action)"
    "keeps versions_ok (updateWorkflow i dto' org u r :: ('z gateway_state_scheme, workflow) action)"
    "keeps versions_ok (archiveWorkflow i org u r :: ('z gateway_state_scheme, workflow) action)"
    "keeps versions_ok (duplicateWorkflow i org u t :: ('z gateway_state_scheme, workflow) action)"
    for dto dto' org u i r t
    by (simp_all add: keeps_leaves leaves_createWorkflow leaves_updateWorkflow leaves_archiveWorkflow
        leaves_duplicateWorkflow)
  show ?thesis
  proof (cases q)
    case (Elapse d)
    then show ?thesis by (simp add: keeps_versions_frame)
  qed (simp_all add: keeps_answer workflows sessions dispatch messages keeps_on_result)
qed

lemma serve_gateways_versions: "versions_ok s \<Longrightarrow> versions_ok (serve_gateways qs s)"
  by (induction qs arbitrary: s) (use keeps_versions_serve in \<open>auto simp: keeps_def\<close>)

end
