(* ===== verification/GatewayFsm.thy ===== *)
theory GatewayFsm
  imports GatewayProps
begin

text \<open>
  The status of a session only moves along the session state machine, except for an override that an
  administrator forces and for the result of a comparison.
\<close>

definition fsm_edge :: "SessionStatus \<Rightarrow> SessionStatus \<Rightarrow> bool" where
  "fsm_edge a b \<longleftrightarrow> (\<exists>m. canTransitionTo a b m)"

definition status_of :: "uuid \<Rightarrow> 'z core_scheme \<Rightarrow> SessionStatus option" where
  "status_of i s = map_option ses_status (find_row ses_id i (sessions s))"

text \<open>The session has gone from \<open>a\<close> to where it is now.\<close>

definition came_from :: "uuid \<Rightarrow> SessionStatus \<Rightarrow> 'z core_scheme \<Rightarrow> bool" where
  "came_from i a s \<longleftrightarrow> (\<exists>b. status_of i s = Some b \<and> fsm_edge\<^sup>*\<^sup>* a b)"

lemma came_from_frame: "came_from i a s \<Longrightarrow> sessions t = sessions s \<Longrightarrow> came_from i a t"
  by (simp add: came_from_def status_of_def)

lemma came_from_db_only: "db_only (came_from i a)"
  by (rule db_onlyI; erule came_from_frame; simp)

lemma same_sessions_db_only: "db_only (\<lambda>s. sessions s = l)"
  by (rule db_onlyI) simp_all

text \<open>Both properties look at the sessions only.\<close>

definition sessions_only :: "('s core_scheme \<Rightarrow> bool) \<Rightarrow> bool" where
  "sessions_only P \<longleftrightarrow> (\<forall>s t. P s \<longrightarrow> sessions t = sessions s \<longrightarrow> P t)"

lemma sessions_only_intros:
  "sessions_only (came_from i a)" "sessions_only (\<lambda>s. sessions s = l)"
  using came_from_frame by (auto simp: sessions_only_def)

lemma sessions_only_db: "sessions_only P \<Longrightarrow> db_only P"
  unfolding sessions_only_def by (rule db_onlyI) (erule allE, erule allE, erule impE, assumption, erule mp, simp)+

lemma keeps_session_writes:
  assumes "sessions_only P" and "\<And>s. sessions (f s) = sessions s"
  shows "keeps P (writes f)"
  using assms unfolding sessions_only_def by (intro keeps_writes) blast

lemma keeps_sessions_tables:
  assumes "sessions_only P"
  shows "keeps P (save_pipeline p)" "keeps P (insert_message m)" "keeps P (save_snapshot g)"
    "keeps P (createDivergenceReport wid i a b)" "keeps P (insert_version v)" "keeps P (save_workflow w)"
    "keeps P (insert_workflow w)" "keeps P (complete_pipeline r e)" "keeps P (publish_result r w ses e v')"
    "keeps P (recordFailure sub j reason n err)" "keeps P (retry_exhausted sub j x n)"
  unfolding save_pipeline_def insert_message_def save_snapshot_def createDivergenceReport_def insert_version_def
    save_workflow_def insert_workflow_def complete_pipeline_def publish_result_def markWorkflowUpdated_def
    computeChangedElements_def buildIntentSnapshot_def buildGeneratedSnapshot_def recordFailure_def
    retry_exhausted_def Let_def
  by (intro keeps_intros sessions_only_db [OF assms] keeps_session_writes [OF assms]; simp)+

text \<open>A session that is saved where it was read.\<close>

lemma leaves_save_session:
  assumes "came_from i a s" and "find_row ses_id (ses_id ses) (sessions s) = Some ses"
    and "ses_id next = ses_id ses" and "fsm_edge\<^sup>*\<^sup>* (ses_status ses) (ses_status next)"
  shows "leaves (came_from i a) (save_session next) s"
  using assms by (auto simp: leaves_def save_session_def writes_run came_from_def status_of_def
      intro: rtranclp_trans)

lemma moved_Inr: "moved e ses s = (Inr next, t) \<Longrightarrow> t = s \<and> next = ses\<lparr>ses_status := ses_status next\<rparr> \<and>
  fsm_edge (ses_status ses) (ses_status next)"
  by (auto simp: moved_def lifted_def action_Inr transition_Inr_iff fsm_edge_def canTransitionTo_step split: sum.splits)

lemma findSession_Inr:
  "findSessionInOrgOrThrow i org s = (Inr ses, t) \<Longrightarrow> t = s \<and> find_row ses_id (ses_id ses) (sessions s) = Some ses"
  by (auto simp: findSessionInOrgOrThrow_def action_Inr findWorkflow_Inr_iff dest: find_row_Some)

lemma reads_moved [read_intros]: "reads_only (moved e ses)"
  unfolding moved_def lifted_def by (cases "transitionSessionStatus (ses_status ses) e (Some (ses_mode ses))")
    (simp_all, (intro read_intros)+)


text \<open>A step that moves a session and saves it, with what follows it.\<close>

lemma leaves_move_and_save:
  assumes s: "came_from i a s" and ses: "find_row ses_id (ses_id ses) (sessions s) = Some ses"
    and edge: "fsm_edge\<^sup>*\<^sup>* (ses_status ses) (ses_status next)" "ses_id next = ses_id ses"
    and rest: "\<And>x. keeps (came_from i a) (f x)"
  shows "leaves (came_from i a) (await (save_session next) f) s"
  by (rule leaves_step, rule leaves_save_session [OF s ses edge(2,1)]) (auto intro: leaves_keeps rest)

lemma rule_cache_sessions: "sessions_only P \<Longrightarrow> keeps P (writes (rule_cache_update f))"
  by (rule keeps_session_writes) simp_all

lemma came_from_append: "came_from i a s \<Longrightarrow> came_from i a (sessions_update (\<lambda>l. l @ [x]) s)"
  by (auto simp: came_from_def status_of_def find_row_def find_append)

lemma keeps_createSession: "keeps (came_from i a) (createSession w m u)"
  unfolding createSession_def Let_def
  by (intro keeps_intros came_from_db_only) (rule came_from_append)

lemma moved_reach:
  assumes "moved e ses s = (Inr next, t)"
  shows "ses_id next = ses_id ses" "fsm_edge\<^sup>*\<^sup>* (ses_status ses) (ses_status next)"
proof -
  have n: "next = ses\<lparr>ses_status := ses_status next\<rparr>" and e: "fsm_edge (ses_status ses) (ses_status next)"
    using moved_Inr [OF assms] by simp_all
  show "ses_id next = ses_id ses" by (subst n) simp
  show "fsm_edge\<^sup>*\<^sup>* (ses_status ses) (ses_status next)" using e by (rule r_into_rtranclp)
qed

lemma leaves_updateMode: "came_from i a s \<Longrightarrow> leaves (came_from i a) (updateMode j m u) s"
  unfolding updateMode_def Let_def
  apply (rule leaves_guard, rule read_intros, assumption)
  apply (rule leaves_guard, rule read_intros, assumption)
  apply (rule leaves_if, rule leaves_ok, assumption)
  subgoal premises prems for ses
    by (rule leaves_move_and_save [OF prems(1) conjunct2 [OF findSession_Inr [OF prems(2)]]])
       (auto intro!: keeps_intros came_from_db_only)
  done

lemma leaves_finalize: "came_from i a s \<Longrightarrow> leaves (came_from i a) (finalize j u) s"
  unfolding finalize_def Let_def
  apply (rule leaves_guard, rule read_intros, assumption)
  apply (rule leaves_guard, rule read_intros, assumption)
  apply (rule leaves_guard, rule read_intros, assumption)
  apply (rule leaves_guard, rule read_intros, assumption)
  apply (rule leaves_guard, rule read_intros, assumption)
  subgoal premises prems for ses x y nxt t
    by (rule leaves_move_and_save [OF prems(1) conjunct2 [OF findSession_Inr [OF prems(2)]]])
       (use moved_reach [OF prems(5)] in \<open>auto intro!: keeps_intros came_from_db_only\<close>)
  done

lemma leaves_archiveSession: "came_from i a s \<Longrightarrow> leaves (came_from i a) (archiveSession j u) s"
  unfolding archiveSession_def Let_def
  apply (rule leaves_guard, rule read_intros, assumption)
  apply (rule leaves_guard, rule read_intros, assumption)
  apply (rule leaves_guard, rule read_intros, assumption)
  apply (rule leaves_guard, rule read_intros, assumption)
  subgoal premises prems for ses x nxt t
    by (rule leaves_move_and_save [OF prems(1) conjunct2 [OF findSession_Inr [OF prems(2)]]])
       (use moved_reach [OF prems(4)] in
         \<open>auto intro!: keeps_intros came_from_db_only elim!: came_from_frame\<close>)
  done

lemma leaves_overrideStatus:
  "us_force dto \<noteq> Some True \<Longrightarrow> came_from i a s \<Longrightarrow> leaves (came_from i a) (overrideStatus j dto u) s"
  unfolding overrideStatus_def Let_def
  apply (rule leaves_guard, rule read_intros, assumption)
  apply (rule leaves_guard, rule read_intros, assumption)
  apply (rule leaves_guard, rule read_intros, assumption)
  apply (rule leaves_guard, rule read_intros, assumption)
  subgoal premises prems for x ses y t
  proof (rule leaves_move_and_save [OF prems(2) conjunct2 [OF findSession_Inr [OF prems(4)]]])
    have "fsm_edge (ses_status ses) (us_status dto)"
      using prems(1,5) by (auto simp: require_Inr_iff fsm_edge_def)
    then show "fsm_edge\<^sup>*\<^sup>* (ses_status ses) (ses_status (ses\<lparr>ses_status := us_status dto,
         ses_archivedAt := (if us_status dto = SessionStatus.ARCHIVED then Some t else ses_archivedAt ses),
         ses_finalizedAt := (if us_status dto = SessionStatus.DRAFT_READY \<and> ses_finalizedAt ses = None
                             then Some t else ses_finalizedAt ses)\<rparr>))" by simp
  qed (auto intro!: keeps_intros came_from_db_only simp: emitNeedsReconciliation_def)
  done

lemma leaves_saved_by:
  assumes "came_from i a s" and "find_row ses_id (ses_id ses) (sessions s) = Some ses"
    and "moved e ses s = (Inr next, t)"
  shows "leaves (came_from i a) (save_session next) s"
  using leaves_save_session [OF assms(1,2) moved_reach [OF assms(3)]] .

lemma leaves_published:
  assumes s: "came_from i a s" and ses: "find_row ses_id (ses_id ses) (sessions s) = Some ses"
  shows "leaves (came_from i a)
     (if ses_status ses = SessionStatus.CREATED
      then await (moved FIRST_USER_MESSAGE ses) (\<lambda>a. await (moved AI_TASK_PUBLISHED a) save_session)
      else if ses_status ses \<in> {SessionStatus.AWAITING_INPUT, SessionStatus.IN_ELICITATION}
      then await (moved AI_TASK_PUBLISHED ses) save_session
      else ok ()) s"
proof (intro leaves_if)
  show "leaves (came_from i a) (ok ()) s" by (rule leaves_ok, rule s)
  show "leaves (came_from i a) (await (moved FIRST_USER_MESSAGE ses) (\<lambda>a. await (moved AI_TASK_PUBLISHED a) save_session)) s"
  proof (rule leaves_guard, rule read_intros, rule s, rule leaves_guard, rule read_intros, rule s)
    fix x y
    assume x: "moved FIRST_USER_MESSAGE ses s = (Inr x, s)" and y: "moved AI_TASK_PUBLISHED x s = (Inr y, s)"
    show "leaves (came_from i a) (save_session y) s"
      by (rule leaves_save_session [OF s ses])
         (use moved_reach [OF x] moved_reach [OF y] in \<open>auto intro: rtranclp_trans\<close>)
  qed
  show "leaves (came_from i a) (await (moved AI_TASK_PUBLISHED ses) save_session) s"
    by (rule leaves_guard, rule read_intros, rule s) (rule leaves_saved_by [OF s ses])
qed

lemma leaves_dispatch: "came_from i a s \<Longrightarrow> leaves (came_from i a) (dispatchAiTask j x u t g) s"
  unfolding dispatchAiTask_def Let_def
  apply (rule leaves_guard, rule read_intros, assumption)
  apply (rule leaves_guard, rule read_intros, assumption)
  subgoal premises prems for ses y
  proof (rule leaves_via [where Q = "\<lambda>r. sessions r = sessions s"])
    show "keeps (\<lambda>r. sessions r = sessions s) (publishAiTask p)" for p
      by (rule keeps_publishAiTask) (simp_all add: same_sessions_db_only keeps_session_writes sessions_only_intros)
    show "came_from i a r" if "sessions r = sessions s" for r :: "'a rules_state_scheme"
      using prems(1) that by (rule came_from_frame)
    fix z :: "uuid \<times> string" and r :: "'a rules_state_scheme"
    assume r: "sessions r = sessions s"
    have r': "came_from i a r" using prems(1) r by (rule came_from_frame)
    have found: "find_row ses_id (ses_id ses) (sessions r) = Some ses" using findSession_Inr [OF prems(2)] r by simp
    show "leaves (came_from i a) (case z of (execution, message) \<Rightarrow>
     await (if ses_status ses = SessionStatus.CREATED
            then await (moved FIRST_USER_MESSAGE ses) (\<lambda>a. await (moved AI_TASK_PUBLISHED a) save_session)
            else if ses_status ses \<in> {SessionStatus.AWAITING_INPUT, SessionStatus.IN_ELICITATION}
            then await (moved AI_TASK_PUBLISHED ses) save_session
            else ok ()) (\<lambda>_.
     await (audit_session ses u ''AI_TASK_DISPATCHED'' JNull
              (JObj [(''pipeline_execution_id'', JStr execution),
                     (''task_type'', JStr (pipeline_task_type_str (case t of None \<Rightarrow> FULL_PIPELINE | Some t \<Rightarrow> t))),
                     (''nats_message_id'', JStr message)])) (\<lambda>_.
     ok (execution, message)))) r"
      by (cases z, simp only: prod.case, rule leaves_step, rule leaves_published [OF r' found], rule leaves_keeps)
         (auto intro!: keeps_intros came_from_db_only)
  qed simp
  done

lemma leaves_apply_result_fsm:
  fixes s :: "'z tables_scheme"
  assumes s: "came_from i a s" and ses: "find_row ses_id (ses_id ses) (sessions s) = Some ses"
  shows "leaves (came_from i a) (apply_result p e ses w) s"
proof -
  let ?Q = "\<lambda>r :: 'z tables_scheme. sessions r = sessions s"
  have created: "keeps ?Q (createWorkflowVersionFromResult p w ses)"
    unfolding createWorkflowVersionFromResult_def
    by (intro keeps_intros keeps_sessions_tables sessions_only_intros)
  show ?thesis
    unfolding apply_result_def
  proof (rule leaves_via [OF created refl came_from_frame [OF s]], assumption)
    fix v r
    assume r: "?Q r"
    show "leaves (came_from i a) (await (save_workflow (w\<lparr>wf_currentVersion := wv_versionNumber v, wf_status := PENDING_REVIEW\<rparr>)) (\<lambda>saved.
     await (moved AI_RESULT_RECEIVED (ses\<lparr>ses_confidenceScore := re_confidence p\<rparr>)) (\<lambda>next.
     await (save_session next) (\<lambda>_.
     await (complete_pipeline p e) (\<lambda>done.
     await (insert_message \<lparr> msg_id = [], msg_sessionId = ses_id ses, msg_role = AI, msg_type = AI_UPDATE,
              msg_content = or_else (re_summary p) ''AI pipeline completed and workflow updated'',
              msg_metadata = JObj [(''correlation_id'', JStr (re_correlation_id p)),
                (''version_number'', json_int (wv_versionNumber v))],
              msg_createdAt = 0, msg_archivedAt = None \<rparr>) (\<lambda>_.
     await (audit (Some (wf_id w)) None ActorType.AI_AGENT ''AI_TASK_RESULT_APPLIED'' None
              (JObj (applied_shape (wf_currentVersion w) (ses_status ses)))
              (JObj (applied_shape (wf_currentVersion saved) (ses_status next) @
                 [(''confidence'', JNum (re_confidence p))]))) (\<lambda>_.
     publish_result p saved next done v)))))) ) r"
    proof (rule leaves_via [where Q = ?Q, OF _ r came_from_frame [OF s]], rule keeps_sessions_tables, rule sessions_only_intros, assumption)
      fix saved r'
      assume r': "?Q r'"
      have s': "came_from i a r'" using s r' by (rule came_from_frame)
      show "leaves (came_from i a) (await (moved AI_RESULT_RECEIVED (ses\<lparr>ses_confidenceScore := re_confidence p\<rparr>)) (\<lambda>next.
     await (save_session next) (\<lambda>_.
     await (complete_pipeline p e) (\<lambda>done.
     await (insert_message \<lparr> msg_id = [], msg_sessionId = ses_id ses, msg_role = AI, msg_type = AI_UPDATE,
              msg_content = or_else (re_summary p) ''AI pipeline completed and workflow updated'',
              msg_metadata = JObj [(''correlation_id'', JStr (re_correlation_id p)),
                (''version_number'', json_int (wv_versionNumber v))],
              msg_createdAt = 0, msg_archivedAt = None \<rparr>) (\<lambda>_.
     await (audit (Some (wf_id w)) None ActorType.AI_AGENT ''AI_TASK_RESULT_APPLIED'' None
              (JObj (applied_shape (wf_currentVersion w) (ses_status ses)))
              (JObj (applied_shape (wf_currentVersion saved) (ses_status next) @
                 [(''confidence'', JNum (re_confidence p))]))) (\<lambda>_.
     publish_result p saved next done v)))))) r'"
      proof (rule leaves_guard, rule read_intros, rule s')
        fix nxt
        assume m: "moved AI_RESULT_RECEIVED (ses\<lparr>ses_confidenceScore := re_confidence p\<rparr>) r' = (Inr nxt, r')"
        show "leaves (came_from i a) (await (save_session nxt) (\<lambda>_.
     await (complete_pipeline p e) (\<lambda>done.
     await (insert_message \<lparr> msg_id = [], msg_sessionId = ses_id ses, msg_role = AI, msg_type = AI_UPDATE,
              msg_content = or_else (re_summary p) ''AI pipeline completed and workflow updated'',
              msg_metadata = JObj [(''correlation_id'', JStr (re_correlation_id p)),
                (''version_number'', json_int (wv_versionNumber v))],
              msg_createdAt = 0, msg_archivedAt = None \<rparr>) (\<lambda>_.
     await (audit (Some (wf_id w)) None ActorType.AI_AGENT ''AI_TASK_RESULT_APPLIED'' None
              (JObj (applied_shape (wf_currentVersion w) (ses_status ses)))
              (JObj (applied_shape (wf_currentVersion saved) (ses_status nxt) @
                 [(''confidence'', JNum (re_confidence p))]))) (\<lambda>_.
     publish_result p saved nxt done v))))) r'"
          by (rule leaves_move_and_save [OF s', of ses])
             (use ses r' moved_reach [OF m] in
               \<open>auto intro!: keeps_intros came_from_db_only keeps_sessions_tables sessions_only_intros\<close>)
      qed
    qed
  qed
qed


lemma row_where_found: "row_where key i rows = Some r \<Longrightarrow> find_row key (key r) rows = Some r"
  by (cases i; cases rows) (auto simp: row_where_def first_row_def dest: find_row_Some, simp add: find_row_def)

lemma leaves_process_result_fsm:
  assumes s: "came_from i a s"
  shows "leaves (came_from i a) (process_result p) s"
  unfolding process_result_def
proof (rule leaves_guard, rule read_intros, rule s, rule leaves_guard, rule read_intros, rule s,
    rule leaves_guard, rule read_intros, rule s, rule leaves_guard, rule read_intros, rule s,
    rule leaves_guard, rule read_intros, rule s, rule leaves_guard, rule read_intros, rule s,
    rule leaves_guard, rule read_intros, rule s, rule leaves_guard, rule read_intros, rule s)
  fix e ses0 w and ses :: session
  assume "reads (\<lambda>s. row_where ses_id (re_session_id p) (sessions s)) s = (Inr ses0, s)"
    "some_or_throw ses0 (PlainError ''Session not found for ai.tasks.result'') s = (Inr ses, s)"
  then have "row_where ses_id (re_session_id p) (sessions s) = Some ses"
    by (simp add: reads_run some_or_throw_Inr_iff)
  then show "leaves (came_from i a) (apply_result p e ses w) s"
    by (intro leaves_apply_result_fsm [OF s] row_where_found)
qed

lemma keeps_on_result_fsm: "keeps (came_from i a) (on_result j :: ('z gateway_state_scheme, delivery) action)"
proof -
  have P: "keeps (came_from i a) (process_result p :: ('z gateway_state_scheme, unit) action)" for p
    by (simp add: keeps_leaves leaves_process_result_fsm)
  have H: "keeps (came_from i a) (result_handler j :: ('z gateway_state_scheme, unit) action)"
    unfolding result_handler_def enrichResultPayload_def handle_result_def Let_def
    by (intro keeps_intros P came_from_db_only keeps_session_writes sessions_only_intros) simp_all
  show ?thesis
    unfolding on_result_def
    by (rule keeps_deliver [OF H])
      (rule keeps_sessions_tables keeps_session_writes, rule sessions_only_intros, (simp; fail)?)+
qed

lemma keeps_on_progress_fsm: "keeps (came_from i a) (on_progress j :: ('z gateway_state_scheme, delivery) action)"
  unfolding on_progress_def relay_progress_def
  by (intro keeps_deliver keeps_sessions_tables keeps_session_writes sessions_only_intros keeps_intros came_from_db_only) simp_all

lemma keeps_workflows_fsm:
  "keeps (came_from i a) (createWorkflow dto org u)"
  "keeps (came_from i a) (updateWorkflow j dto' org u r)"
  "keeps (came_from i a) (archiveWorkflow j org u r)"
  "keeps (came_from i a) (duplicateWorkflow j org u t)"
  unfolding createWorkflow_def updateWorkflow_def archiveWorkflow_def duplicateWorkflow_def add_workflow_def
    add_version_def insert_version_def save_workflow_def insert_workflow_def find_workflow_def Let_def
  by (intro keeps_intros came_from_db_only keeps_session_writes sessions_only_intros; simp)+


text \<open>What leaves the state machine aside: an override that is forced, and the result of a comparison.\<close>

fun ordinary :: "gateway_request \<Rightarrow> bool" where
  "ordinary (OverrideStatus i dto u) \<longleftrightarrow> us_force dto \<noteq> Some True"
| "ordinary (DivergenceMessage p j) \<longleftrightarrow> False"
| "ordinary _ \<longleftrightarrow> True"

lemma keeps_serve_fsm:
  "ordinary q \<Longrightarrow> keeps (came_from i a) (serve_gateway q :: ('z gateway_state_scheme, unit) action)"
  by (cases q)
    (simp_all add: keeps_answer keeps_workflows_fsm keeps_createSession keeps_on_result_fsm keeps_on_progress_fsm
      keeps_leaves [of _ "updateMode j m u" for j m u] keeps_leaves [of _ "finalize j u" for j u]
      keeps_leaves [of _ "dispatchAiTask j x u t g" for j x u t g] keeps_leaves [of _ "archiveSession j u" for j u]
      keeps_leaves [of _ "overrideStatus j d u" for j d u] leaves_updateMode leaves_finalize leaves_dispatch
      leaves_archiveSession leaves_overrideStatus keeps_session_writes sessions_only_intros)

lemma serve_gateways_came_from:
  "list_all ordinary qs \<Longrightarrow> came_from i a s \<Longrightarrow> came_from i a (serve_gateways qs s)"
  by (induction qs arbitrary: s) (simp_all add: keeps_serve_fsm [unfolded keeps_def, rule_format])

end
