(* ===== verification/GatewayResults.thy ===== *)
theory GatewayResults
  imports GatewayFsm
begin

text \<open>
  What one result message does: a result that the session cannot take, one that was handled before,
  and one that does not say which session it is for.
\<close>

lemma apply_result_refused:
  fixes s :: "'z tables_scheme"
  assumes ok: "versions_ok s" and w: "w \<in> set (workflows s)" and p: "re_version_number p = None"
    and refused: "transitionSessionStatus (ses_status r) AI_RESULT_RECEIVED (Some (ses_mode r)) = Inl e"
  shows "\<exists>v n. wv_workflowId v = wf_id w \<and> apply_result p x r w s = (Inl e, s\<lparr>uuid_next := n,
    workflow_versions := workflow_versions s @ [v], workflows := save_row wf_id
      (w\<lparr>wf_currentVersion := wf_currentVersion w + 1, wf_status := PENDING_REVIEW, wf_updatedAt := now s\<rparr>) (workflows s)\<rparr>)"
proof -
  obtain v t where v: "createWorkflowVersionFromResult p w r s = (Inr v, t)" "wv_workflowId v = wf_id w"
      "wv_versionNumber v = wf_currentVersion w + 1"
    and t: "t = s\<lparr>uuid_next := Suc (uuid_next s), workflow_versions := workflow_versions s @ [v]\<rparr>"
    using result_version [OF ok w p] by blast
  let ?w = "w\<lparr>wf_currentVersion := wv_versionNumber v, wf_status := PENDING_REVIEW\<rparr>"
  have x: "save_workflow ?w t = (Inr (?w\<lparr>wf_updatedAt := now t\<rparr>),
      t\<lparr>workflows := save_row wf_id (?w\<lparr>wf_updatedAt := now t\<rparr>) (workflows s)\<rparr>)"
    using save_next_version [OF ok w v(2,3), of t ?w] by (auto simp: t v(3))
  have m: "moved AI_RESULT_RECEIVED (r\<lparr>ses_confidenceScore := c\<rparr>) u = (Inl e, u)" for c u
    using refused by (simp add: moved_def lifted_def await_run throw_run)
  show ?thesis
    using v(2) by (intro exI [of _ v] exI [of _ "Suc (uuid_next s)"])
      (simp add: apply_result_def await_run v(1) x m, simp add: t v(3))
qed

text \<open>A result whose references are in order reaches \<open>apply_result\<close>.\<close>

lemma process_result_run:
  assumes "re_pipeline_execution_id p \<noteq> []"
    and "find_pipeline (re_pipeline_execution_id p) (re_session_id p) s = Some x"
    and "row_where ses_id (re_session_id p) (sessions s) = Some r"
    and "find_row wf_id (ses_workflowId r) (workflows s) = Some w"
    and "re_org_id p = wf_orgId w \<or> re_org_id p = []"
  shows "process_result p s = apply_result p x r w s"
  using assms row_where_found [OF assms(3)]
  by (auto simp: process_result_def assertOrgMatch_def action_simps)

definition asked :: "json \<Rightarrow> string \<Rightarrow> uuid \<Rightarrow> bool" where
  "asked j c pid \<longleftrightarrow> str_field j ''correlation_id'' = Some c \<and> str_field j ''pipeline_execution_id'' = Some pid \<and> pid \<noteq> []"

lemma enriched_run:
  assumes "asked j c pid" and "row_where ses_id (str_field j ''session_id'') (sessions s) = Some r"
    and "find_row wf_id (ses_workflowId r) (workflows s) = Some w"
  shows "\<exists>p. enrichResultPayload j s = (Inr p, s) \<and> re_correlation_id p = c \<and> re_pipeline_execution_id p = pid \<and>
    re_session_id p = str_field j ''session_id'' \<and> re_org_id p = wf_orgId w \<and> re_version_number p = None"
  using assms by (simp add: enrichResultPayload_def asked_def action_simps current_time_run Let_def)

text \<open>One attempt at a new result.\<close>

lemma result_handler_run:
  fixes s :: "'z gateway_state_scheme"
  assumes j: "asked j c pid" "idempotencyKey None c ''ai.tasks.result'' \<notin> set (handled_results s)"
    and r: "row_where ses_id (str_field j ''session_id'') (sessions s) = Some r"
    and w: "find_row wf_id (ses_workflowId r) (workflows s) = Some w"
    and x: "find_pipeline pid (str_field j ''session_id'') s = Some x"
  shows "\<exists>p. re_version_number p = None \<and> result_handler j s = await (apply_result p x r w) (\<lambda>_.
    writes (handled_results_update (remember (idempotencyKey None c ''ai.tasks.result'')))) s"
proof -
  obtain p where p: "enrichResultPayload j s = (Inr p, s)" "re_correlation_id p = c" "re_pipeline_execution_id p = pid"
      "re_session_id p = str_field j ''session_id''" "re_org_id p = wf_orgId w" "re_version_number p = None"
    using enriched_run [OF j(1) r w] by blast
  have "process_result p s = apply_result p x r w s"
    using j(1) r w x p by (intro process_result_run) (auto simp: asked_def)
  then have "result_handler j s = await (apply_result p x r w) (\<lambda>_.
      writes (handled_results_update (remember (idempotencyKey None c ''ai.tasks.result'')))) s"
    using j(2) p by (simp add: result_handler_def handle_result_def await_run reads_run Let_def)
  with p show ?thesis by blast
qed

section \<open>Refused\<close>

text \<open>A session that cannot take the result, with \<open>n\<close> the version of its workflow.\<close>

definition refusing :: "json \<Rightarrow> session \<Rightarrow> exn \<Rightarrow> uuid \<Rightarrow> int \<Rightarrow> 'z gateway_state_scheme \<Rightarrow> bool" where
  "refusing j r e wid n s \<longleftrightarrow> versions_ok s \<and> (\<exists>c pid sid w x. asked j c pid \<and>
     idempotencyKey None c ''ai.tasks.result'' \<notin> set (handled_results s) \<and>
     str_field j ''session_id'' = Some sid \<and> find_row ses_id sid (sessions s) = Some r \<and> ses_workflowId r = wid \<and>
     transitionSessionStatus (ses_status r) AI_RESULT_RECEIVED (Some (ses_mode r)) = Inl e \<and>
     find_row wf_id wid (workflows s) = Some w \<and> wf_currentVersion w = n \<and>
     find_pipeline pid (Some sid) s = Some x)"

lemma refusing_step:
  fixes s :: "'z gateway_state_scheme"
  assumes "refusing j r e wid n s"
  shows "\<exists>t v. result_handler j s = (Inl e, t) \<and> refusing j r e wid (n + 1) t \<and> sessions t = sessions s \<and>
    workflow_versions t = workflow_versions s @ [v] \<and> wv_workflowId v = wid \<and>
    (\<exists>w. find_row wf_id wid (workflows t) = Some w \<and> wf_status w = PENDING_REVIEW)"
proof -
  from assms obtain c pid sid w x where ok: "versions_ok s" and j: "asked j c pid"
    "idempotencyKey None c ''ai.tasks.result'' \<notin> set (handled_results s)"
    "str_field j ''session_id'' = Some sid" and r: "find_row ses_id sid (sessions s) = Some r" "ses_workflowId r = wid"
    "transitionSessionStatus (ses_status r) AI_RESULT_RECEIVED (Some (ses_mode r)) = Inl e"
    and w: "find_row wf_id wid (workflows s) = Some w" "wf_currentVersion w = n"
    and x: "find_pipeline pid (Some sid) s = Some x"
    by (auto simp: refusing_def)
  have w': "w \<in> set (workflows s)" "wf_id w = wid" using find_row_Some [OF w(1)] by simp_all
  have r': "row_where ses_id (str_field j ''session_id'') (sessions s) = Some r" using r j by (simp add: row_where_def)
  obtain p where p: "re_version_number p = None" and run: "result_handler j s = await (apply_result p x r w) (\<lambda>_.
      writes (handled_results_update (remember (idempotencyKey None c ''ai.tasks.result'')))) s"
    using result_handler_run [OF j(1,2) r', of w x] w r x j by auto
  let ?w = "w\<lparr>wf_currentVersion := wf_currentVersion w + 1, wf_status := PENDING_REVIEW, wf_updatedAt := now s\<rparr>"
  obtain v m where v: "wv_workflowId v = wf_id w" and t: "apply_result p x r w s = (Inl e, s\<lparr>uuid_next := m,
      workflow_versions := workflow_versions s @ [v], workflows := save_row wf_id ?w (workflows s)\<rparr>)"
    using apply_result_refused [OF ok w'(1) p r(3)] by blast
  let ?t = "s\<lparr>uuid_next := m, workflow_versions := workflow_versions s @ [v], workflows := save_row wf_id ?w (workflows s)\<rparr>"
  have "leaves versions_ok (apply_result p x r w) s"
    by (rule leaves_apply_result [OF ok w'(1) p versions_only_ok])
  then have ok': "versions_ok ?t" by (simp add: leaves_def t)
  have found: "find_row wf_id wid (workflows ?t) = Some ?w" using w w' by simp
  have "refusing j r e wid (n + 1) ?t"
    unfolding refusing_def using ok' j r found w x by (auto simp: find_pipeline_def)
  then show ?thesis
    using run t v w'(2) found by (intro exI [of _ ?t] exI [of _ v]) (simp add: await_run)
qed


text \<open>A delivery, its attempts written out.\<close>

lemma deliver_run:
  assumes "sub \<notin> set (ended_consumers s)"
  shows "deliver sub h x s = (case h s of (Inr _, t) \<Rightarrow> (Inr Acked, t) | (Inl _, t) \<Rightarrow>
    (case h t of (Inr _, u) \<Rightarrow> (Inr Acked, u) | (Inl _, u) \<Rightarrow>
    (case h u of (Inr _, v) \<Rightarrow> (Inr Acked, v) | (Inl e, v) \<Rightarrow>
    (case x e 3 v of (Inr _, z) \<Rightarrow> (Inr Terminated, z)
     | (Inl e', z) \<Rightarrow> (Inr Unsettled, z\<lparr>ended_consumers := ended_consumers z @ [sub]\<rparr>)))))"
proof -
  have "[1..max_deliver] = [1, 2, 3]" unfolding max_deliver_def by code_simp
  then show ?thesis
    using assms by (simp add: deliver_def attempt_def try_catch_run await_run ok_run reads_run writes_run
        split: prod.split sum.split)
qed

lemma deliver_ended: "sub \<in> set (ended_consumers s) \<Longrightarrow> deliver sub h x s = (Inr Unsettled, s)"
  by (simp add: deliver_def await_run ok_run reads_run)

lemma versions_only_intros: "versions_only (\<lambda>s. workflows s = l)" "versions_only (\<lambda>s. workflow_versions s = l')"
  by (simp_all add: versions_only_def)

lemma retry_exhausted_frame:
  "sessions (snd (retry_exhausted sub j x n s)) = sessions s"
  "workflows (snd (retry_exhausted sub j x n s)) = workflows s"
  "workflow_versions (snd (retry_exhausted sub j x n s)) = workflow_versions s"
  by (rule keeps_sessions_tables(11) [OF sessions_only_intros(2), unfolded keeps_def, rule_format], rule refl)
    (rule keeps_versions_tables(8) [OF versions_only_intros(1), unfolded keeps_def, rule_format], rule refl,
     rule keeps_versions_tables(8) [OF versions_only_intros(2), unfolded keeps_def, rule_format], rule refl)

lemma on_result_refused:
  fixes s :: "'z gateway_state_scheme"
  assumes "refusing j r e wid n s" and live: "''ai.tasks.result'' \<notin> set (ended_consumers s)"
  shows "let t = snd (on_result j s) in sessions t = sessions s \<and>
    length (versions_of wid t) = length (versions_of wid s) + 3 \<and>
    (\<exists>w. find_row wf_id wid (workflows t) = Some w \<and> wf_currentVersion w = n + 3 \<and> wf_status w = PENDING_REVIEW)"
proof -
  obtain t1 v1 where 1: "result_handler j s = (Inl e, t1)" "refusing j r e wid (n + 1) t1" "sessions t1 = sessions s"
      "workflow_versions t1 = workflow_versions s @ [v1]" "wv_workflowId v1 = wid"
    using refusing_step [OF assms(1)] by blast
  obtain t2 v2 where 2: "result_handler j t1 = (Inl e, t2)" "refusing j r e wid (n + 1 + 1) t2" "sessions t2 = sessions t1"
      "workflow_versions t2 = workflow_versions t1 @ [v2]" "wv_workflowId v2 = wid"
    using refusing_step [OF 1(2)] by blast
  obtain t3 v3 where 3: "result_handler j t2 = (Inl e, t3)" "refusing j r e wid (n + 1 + 1 + 1) t3" "sessions t3 = sessions t2"
      "workflow_versions t3 = workflow_versions t2 @ [v3]" "wv_workflowId v3 = wid"
      "\<exists>w. find_row wf_id wid (workflows t3) = Some w \<and> wf_status w = PENDING_REVIEW"
    using refusing_step [OF 2(2)] by blast
  let ?x = "retry_exhausted ''ai.tasks.result'' j e 3 :: ('z gateway_state_scheme, unit) action"
  let ?t = "snd (on_result j s)"
  note frame = retry_exhausted_frame [of "''ai.tasks.result''" j e 3 t3]
  have "\<exists>l. ?t = (snd (?x t3))\<lparr>ended_consumers := l\<rparr>"
    using live by (cases "?x t3")
      (auto simp: on_result_def deliver_run 1 2 3 split: sum.split intro: exI [of _ "ended_consumers (snd (?x t3))"])
  then have frame: "sessions ?t = sessions t3" "workflows ?t = workflows t3" "workflow_versions ?t = workflow_versions t3"
    using frame by auto
  moreover have "\<exists>w. find_row wf_id wid (workflows t3) = Some w \<and> wf_currentVersion w = n + 3 \<and> wf_status w = PENDING_REVIEW"
    using 3(2,6) by (auto simp: refusing_def)
  moreover have "length (versions_of wid ?t) = length (versions_of wid s) + 3"
    by (simp add: versions_of_def frame 1 2 3)
  ultimately show ?thesis using 1(3) 2(3) 3(3) by (simp add: Let_def)
qed

section \<open>Handled before\<close>

lemma handled_again:
  fixes s :: "'z gateway_state_scheme"
  assumes j: "str_field j ''correlation_id'' = Some c"
    and seen: "idempotencyKey None c ''ai.tasks.result'' \<in> set (handled_results s)"
  shows "result_handler j s = (Inr (), s)"
  using j seen by (simp add: result_handler_def enrichResultPayload_def handle_result_def action_simps current_time_run
      Let_def split: option.split)

text \<open>What tells how messages were settled; the tables a result writes to are others.\<close>

definition settled_view :: "'z gateway_state_scheme \<Rightarrow> _" where
  "settled_view s = (handled_results s, dead_letters s, ended_consumers s)"

lemma keeps_process_view:
  "keeps (\<lambda>t :: 'z gateway_state_scheme. settled_view t = v) (process_result p)"
proof -
  let ?P = "\<lambda>t :: 'z gateway_state_scheme. settled_view t = v"
  have d: "db_only ?P" by (rule db_onlyI) (simp_all add: settled_view_def)
  show ?thesis
    unfolding process_result_def assertOrgMatch_def apply_result_def createWorkflowVersionFromResult_def insert_version_def
      save_workflow_def save_session_def complete_pipeline_def save_pipeline_def insert_message_def publish_result_def
      markWorkflowUpdated_def computeChangedElements_def buildIntentSnapshot_def buildGeneratedSnapshot_def
      save_snapshot_def createDivergenceReport_def Let_def
    by (intro keeps_intros d; simp add: settled_view_def)
qed

lemma process_result_view: "process_result p s = (x, t) \<Longrightarrow> settled_view t = settled_view s"
  using keepsD [OF keeps_process_view refl] by blast

lemma process_result_handled:
  fixes s :: "'z gateway_state_scheme"
  assumes "process_result p s = (x, t)"
  shows "handled_results t = handled_results s"
  using process_result_view [OF assms] by (simp add: settled_view_def)

text \<open>A handler run adds at most its own key to the results handled.\<close>

lemma result_handler_view:
  fixes s :: "'z gateway_state_scheme"
  assumes "result_handler j s = (r, t)"
  shows "dead_letters t = dead_letters s \<and> ended_consumers t = ended_consumers s \<and>
    (handled_results t = handled_results s \<or> isl r = False \<and> (\<exists>k. handled_results t = remember k (handled_results s)))"
proof -
  have "(\<exists>e. r = Inl e \<and> t = s) \<or> (\<exists>p. handle_result p None s = (r, t))"
    using assms by (auto simp: result_handler_def await_run dest: enriched_version split: prod.splits sum.splits)
  moreover have "?thesis" if "handle_result p None s = (r, t)" for p
    using that
    by (auto simp: handle_result_def await_run reads_run ok_run writes_run Let_def settled_view_def
        dest!: process_result_view split: if_splits prod.splits sum.splits)
  ultimately show ?thesis by auto
qed

text \<open>With at most \<open>n\<close> entries after a key, it is still there after the next one, until the list is full.\<close>

definition recent :: "nat \<Rightarrow> string \<Rightarrow> string list \<Rightarrow> bool" where
  "recent n key l \<longleftrightarrow> (\<exists>a b. l = a @ key # b \<and> length b \<le> n)"

lemma recent_later: "recent n key l \<Longrightarrow> n \<le> m \<Longrightarrow> recent m key l"
  unfolding recent_def
  by (elim exE conjE, intro exI conjI, assumption, erule (1) order_trans)

lemma recent_mem: "recent n key l \<Longrightarrow> key \<in> set l"
  by (auto simp: recent_def)

lemma recent_new: "key \<notin> set l \<Longrightarrow> recent 0 key (remember key l)"
proof -
  assume "key \<notin> set l"
  then have "remember key l = l @ [key] \<or> l \<noteq> [] \<and> remember key l = tl l @ [key]"
    by (cases l) (auto simp: remember_def Let_def)
  then show ?thesis by (auto simp: recent_def)
qed

lemma recent_remember:
  assumes "recent n key l" and "n < 9999"
  shows "recent (Suc n) key (remember k l)"
proof -
  obtain a b where l: "l = a @ key # b" "length b \<le> n" using assms(1) by (auto simp: recent_def)
  obtain c where all: "(if k \<in> set l then l else l @ [k]) = a @ key # c" "length c \<le> Suc n"
    using l by (cases "k \<in> set l") auto
  show ?thesis
  proof (cases "length (a @ key # c) > 10000 \<and> hd (a @ key # c) \<noteq> []")
    case True
    then have "a \<noteq> []" using all(2) assms(2) by (cases a) auto
    then have "remember k l = tl a @ key # c" using True by (simp add: remember_def all(1) Let_def)
    with all(2) show ?thesis unfolding recent_def by blast
  next
    case False
    then have "remember k l = a @ key # c" unfolding remember_def all(1) Let_def by (rule if_not_P)
    with all(2) show ?thesis unfolding recent_def by blast
  qed
qed

lemma keeps_recent_result:
  fixes s :: "'z gateway_state_scheme"
  assumes "recent n key (handled_results s)" and "n < 9999"
  shows "recent (Suc n) key (handled_results (snd (on_result j s)))"
proof (cases "''ai.tasks.result'' \<in> set (ended_consumers s)")
  case True
  with assms show ?thesis by (auto simp: on_result_def deliver_ended intro: recent_later)
next
  case False
  let ?h = "result_handler j :: ('z gateway_state_scheme, unit) action"
  have fail: "handled_results u = handled_results t" if "?h t = (Inl e, u)" for t u e
    using result_handler_view [OF that] by auto
  have done_: "handled_results u = handled_results t \<or> (\<exists>k. handled_results u = remember k (handled_results t))"
    if "?h t = (Inr y, u)" for t u y
    using result_handler_view [OF that] by auto
  have settled: "recent (Suc n) key (handled_results u)"
    if "handled_results u = handled_results s \<or> (\<exists>k. handled_results u = remember k (handled_results s))"
    for u :: "'z gateway_state_scheme"
    using that recent_remember [OF assms] recent_later [OF assms(1)] by auto
  have exhausted: "handled_results v = handled_results u" if "retry_exhausted sub j e m u = (y, v)"
    for sub e m y and u v :: "'z gateway_state_scheme"
  proof -
    have d: "db_only (\<lambda>t :: 'z gateway_state_scheme. handled_results t = handled_results u)" by (rule db_onlyI) simp_all
    have "keeps (\<lambda>t :: 'z gateway_state_scheme. handled_results t = handled_results u) (retry_exhausted sub j e m)"
      unfolding retry_exhausted_def recordFailure_def save_pipeline_def Let_def by (intro keeps_intros d; simp)
    from keepsD [OF this refl that] show ?thesis .
  qed
  obtain r1 t1 where 1: "?h s = (r1, t1)" by fastforce
  obtain r2 t2 where 2: "?h t1 = (r2, t2)" by fastforce
  obtain r3 t3 where 3: "?h t2 = (r3, t3)" by fastforce
  have "snd (on_result j s) = (case r1 of Inr _ \<Rightarrow> t1 | Inl _ \<Rightarrow> (case r2 of Inr _ \<Rightarrow> t2 | Inl _ \<Rightarrow>
      (case r3 of Inr _ \<Rightarrow> t3 | Inl e \<Rightarrow> (case retry_exhausted ''ai.tasks.result'' j e 3 t3 of (Inr _, z) \<Rightarrow> z
     | (Inl e', z) \<Rightarrow> z\<lparr>ended_consumers := ended_consumers z @ [''ai.tasks.result'']\<rparr>))))"
    by (simp add: on_result_def deliver_run [OF False] 1 2 3 split: sum.split prod.split)
  then show ?thesis
    using done_ [of s] done_ [of t1] done_ [of t2] fail [of s] fail [of t1] fail [of t2] 1 2 3
    by (intro settled) (auto dest!: exhausted split: sum.splits prod.splits)
qed

lemma handled_is_recent:
  fixes s :: "'z gateway_state_scheme"
  assumes j: "str_field j ''correlation_id'' = Some c" and run: "result_handler j s = (Inr (), t)"
    and new: "idempotencyKey None c ''ai.tasks.result'' \<notin> set (handled_results s)"
  shows "recent 0 (idempotencyKey None c ''ai.tasks.result'') (handled_results t)"
proof -
  from run obtain p u where p: "enrichResultPayload j s = (Inr p, u)" and h: "handle_result p None u = (Inr (), t)"
    by (auto simp: result_handler_def await_Inr_iff)
  have "re_correlation_id p = c" "u = s"
    using p j by (auto simp: enrichResultPayload_def action_simps current_time_run Let_def split: option.splits)
  with h new show ?thesis
    by (auto simp: handle_result_def await_Inr_iff reads_run Let_def writes_run dest!: process_result_handled intro!: recent_new)
qed

text \<open>Nothing else touches the results handled.\<close>

fun is_result :: "gateway_request \<Rightarrow> bool" where
  "is_result (ResultMessage j) \<longleftrightarrow> True"
| "is_result _ \<longleftrightarrow> False"

lemma keeps_handled_serve:
  assumes "\<not> is_result q"
  shows "keeps (\<lambda>t :: 'z gateway_state_scheme. handled_results t = l) (serve_gateway q)"
proof -
  let ?P = "\<lambda>t :: 'z gateway_state_scheme. handled_results t = l"
  have d: "db_only ?P" by (rule db_onlyI) simp_all
  have workflows:
    "keeps ?P (createWorkflow dto org u)" "keeps ?P (updateWorkflow i dto' org u r)"
    "keeps ?P (archiveWorkflow i org u r)" "keeps ?P (duplicateWorkflow i org u t)"
    for dto dto' org u i r t
    unfolding createWorkflow_def updateWorkflow_def archiveWorkflow_def duplicateWorkflow_def add_workflow_def
      add_version_def insert_version_def save_workflow_def insert_workflow_def find_workflow_def Let_def
    by (intro keeps_intros d; simp)+
  have sessions:
    "keeps ?P (createSession w m u)" "keeps ?P (updateMode i m u)" "keeps ?P (finalize i u)"
    "keeps ?P (archiveSession i u)" "keeps ?P (overrideStatus i dto u)" for i w m u dto
    unfolding createSession_def updateMode_def finalize_def archiveSession_def overrideStatus_def
      emitNeedsReconciliation_def save_session_def save_workflow_def insert_message_def Let_def
    by (intro keeps_intros d; simp)+
  have publish: "keeps ?P (publishAiTask p)" for p
    by (intro keeps_publishAiTask d; simp add: keeps_def writes_run)
  have dispatch: "keeps ?P (dispatchAiTask i x u t a)" for i x u t a
    unfolding dispatchAiTask_def save_session_def save_pipeline_def insert_message_def Let_def
    by (intro keeps_intros publish d; simp)
  have exhausted: "keeps ?P (retry_exhausted sub j e m)" for sub j e m
    unfolding retry_exhausted_def recordFailure_def save_pipeline_def Let_def by (intro keeps_intros d; simp)
  have messages: "keeps ?P (on_progress j)" "keeps ?P (on_divergence p j)" for j p
    unfolding on_progress_def on_divergence_def relay_progress_def handle_divergence_def save_session_def Let_def
    by (intro keeps_deliver exhausted keeps_intros d; simp add: keeps_def writes_run)+
  show ?thesis
    using assms by (cases q) (simp_all add: keeps_answer workflows sessions dispatch messages keeps_writes)
qed

lemma recent_serve:
  "recent n key (handled_results s) \<Longrightarrow> n + length (filter is_result qs) < 10000 \<Longrightarrow>
   recent (n + length (filter is_result qs)) key (handled_results (serve_gateways qs s))"
proof (induction qs arbitrary: n s)
  case (Cons q qs)
  show ?case
  proof (cases "is_result q")
    case True
    then obtain j where q: "q = ResultMessage j" by (cases q) auto
    have "handled_results (snd (serve_gateway q s)) = handled_results (snd (on_result j s))"
      by (cases "on_result j s") (simp add: q answer_def await_run ok_run try_catch_run split: sum.split)
    then have "recent (Suc n) key (handled_results (snd (serve_gateway q s)))"
      using keeps_recent_result [OF Cons.prems(1), of j] Cons.prems(2) True by simp
    from Cons.IH [OF this] Cons.prems(2) True show ?thesis by simp
  next
    case False
    have "handled_results (snd (serve_gateway q s)) = handled_results s"
      using keeps_handled_serve [OF False, of "handled_results s"] unfolding keeps_def by blast
    then show ?thesis using Cons.IH [of n "snd (serve_gateway q s)"] Cons.prems False by simp
  qed
qed simp

section \<open>Settled\<close>

lemma recordFailure_run:
  fixes u :: "'z gateway_state_scheme"
  assumes "recordFailure sub j reason n err u = (x, v)"
  shows "ended_consumers v = ended_consumers u \<and> handled_results v = handled_results u \<and>
    pipeline_executions v = pipeline_executions u \<and>
    (case x of Inl _ \<Rightarrow> dead_letters v = dead_letters u
     | Inr _ \<Rightarrow> \<exists>l. dead_letters v = dead_letters u @ [l] \<and> dl_subject l = sub \<and> dl_payload l = j \<and>
         dl_reason l = reason \<and> dl_deliveryCount l = n \<and> dl_lastError l = err)"
  using assms by (auto simp: recordFailure_def new_id_def action_simps gen_uuid_run current_time_run
      split: if_splits sum.splits prod.splits)

text \<open>What is left of a message that failed for the last time, and its execution.\<close>

lemma retry_exhausted_run:
  fixes u :: "'z gateway_state_scheme"
  assumes "retry_exhausted sub j e n u = (x, v)"
  shows "ended_consumers v = ended_consumers u \<and> handled_results v = handled_results u \<and>
    (case x of Inl _ \<Rightarrow> dead_letters v = dead_letters u
     | Inr _ \<Rightarrow> (\<exists>l. dead_letters v = dead_letters u @ [l] \<and> dl_subject l = sub \<and> dl_payload l = j \<and>
         dl_deliveryCount l = n \<and> dl_lastError l = Some (error_message e)) \<and>
         (\<forall>i p. nonempty (str_field j ''pipeline_execution_id'') = Some i \<longrightarrow>
            find_row pe_id i (pipeline_executions v) = Some p \<longrightarrow> pe_status p = PipelineStatus.FAILED))"
proof -
  let ?fail = "case nonempty (str_field j ''pipeline_execution_id'') of
          None \<Rightarrow> ok ()
        | Some i \<Rightarrow> await (reads (\<lambda>s. find_row pe_id i (pipeline_executions s))) (\<lambda>x. case x of
              None \<Rightarrow> ok ()
            | Some x \<Rightarrow> await current_time (\<lambda>t. save_pipeline (x\<lparr>pe_status := PipelineStatus.FAILED,
                  pe_errorSummary := Some (error_message e), pe_completedAt := Some t\<rparr>)))"
  have "\<exists>u1. ?fail u = (Inr (), u1) \<and> settled_view u1 = settled_view u \<and>
      (\<forall>i p. nonempty (str_field j ''pipeline_execution_id'') = Some i \<longrightarrow>
        find_row pe_id i (pipeline_executions u1) = Some p \<longrightarrow> pe_status p = PipelineStatus.FAILED)"
    by (auto simp: action_simps current_time_run save_pipeline_def settled_view_def dest: find_row_Some split: option.splits)
  then obtain u1 where u1: "?fail u = (Inr (), u1)" "settled_view u1 = settled_view u"
    "\<forall>i p. nonempty (str_field j ''pipeline_execution_id'') = Some i \<longrightarrow>
        find_row pe_id i (pipeline_executions u1) = Some p \<longrightarrow> pe_status p = PipelineStatus.FAILED" by blast
  let ?tell = "case nonempty (str_field j ''session_id'') of
          None \<Rightarrow> ok ()
        | Some sid \<Rightarrow> emit_to_room (room_session sid) ''pipeline.failed'' (JObj [(''subject'', JStr sub),
            (''reason'', JStr (''max deliveries reached for '' @ sub)), (''lastError'', JStr (error_message e))])"
  obtain u2 where u2: "?tell u1 = (Inr (), u2)" "settled_view u2 = settled_view u1"
    "pipeline_executions u2 = pipeline_executions u1"
    by (cases "nonempty (str_field j ''session_id'')") (auto simp: ok_run emit_to_room_run settled_view_def)
  have "recordFailure sub j (''max deliveries reached for '' @ sub) n (Some (error_message e)) u2 = (x, v)"
    using assms unfolding retry_exhausted_def Let_def await_run u1(1) prod.case sum.case u2(1) .
  from recordFailure_run [OF this] show ?thesis
    using u1(2,3) u2(2,3) by (auto simp: settled_view_def split: sum.splits)
qed

lemma on_result_settles:
  fixes s :: "'z gateway_state_scheme"
  assumes live: "''ai.tasks.result'' \<notin> set (ended_consumers s)" and run: "on_result j s = (r, t)"
  shows "(\<exists>u. r = Inr Acked \<and> result_handler j u = (Inr (), t) \<and> dead_letters t = dead_letters s \<and>
       ended_consumers t = ended_consumers s) \<or>
    (\<exists>e1 e2 e3 s1 s2 s3. result_handler j s = (Inl e1, s1) \<and> result_handler j s1 = (Inl e2, s2) \<and>
       result_handler j s2 = (Inl e3, s3) \<and>
       (r = Inr Terminated \<and> ended_consumers t = ended_consumers s \<and>
          (\<exists>l. dead_letters t = dead_letters s @ [l] \<and> dl_subject l = ''ai.tasks.result'' \<and> dl_payload l = j \<and>
             dl_deliveryCount l = 3 \<and> dl_lastError l = Some (error_message e3)) \<and>
          (\<forall>i p. nonempty (str_field j ''pipeline_execution_id'') = Some i \<longrightarrow>
             find_row pe_id i (pipeline_executions t) = Some p \<longrightarrow> pe_status p = PipelineStatus.FAILED) \<or>
        r = Inr Unsettled \<and> dead_letters t = dead_letters s \<and>
          ended_consumers t = ended_consumers s @ [''ai.tasks.result'']))"
proof -
  let ?h = "result_handler j :: ('z gateway_state_scheme, unit) action"
  obtain r1 s1 where 1: "?h s = (r1, s1)" by fastforce
  obtain r2 s2 where 2: "?h s1 = (r2, s2)" by fastforce
  obtain r3 s3 where 3: "?h s2 = (r3, s3)" by fastforce
  note v = result_handler_view [OF 1] result_handler_view [OF 2] result_handler_view [OF 3]
  note run = run [unfolded on_result_def deliver_run [OF live] 1 prod.case]
  show ?thesis
  proof (cases r1)
    case (Inr y)
    with run 1 v show ?thesis by auto
  next
    case e1: (Inl e1)
    note run = run [unfolded e1 sum.case 2 prod.case]
    show ?thesis
    proof (cases r2)
      case (Inr y)
      with run 2 v show ?thesis by auto
    next
      case e2: (Inl e2)
      note run = run [unfolded e2 sum.case 3 prod.case]
      show ?thesis
      proof (cases r3)
        case (Inr y)
        with run 3 v show ?thesis by auto
      next
        case e3: (Inl e3)
        obtain x z where x: "retry_exhausted ''ai.tasks.result'' j e3 3 s3 = (x, z)" by fastforce
        note run = run [unfolded e3 sum.case x prod.case]
        have "r = Inr Terminated \<and> ended_consumers t = ended_consumers s \<and>
          (\<exists>l. dead_letters t = dead_letters s @ [l] \<and> dl_subject l = ''ai.tasks.result'' \<and> dl_payload l = j \<and>
             dl_deliveryCount l = 3 \<and> dl_lastError l = Some (error_message e3)) \<and>
          (\<forall>i p. nonempty (str_field j ''pipeline_execution_id'') = Some i \<longrightarrow>
             find_row pe_id i (pipeline_executions t) = Some p \<longrightarrow> pe_status p = PipelineStatus.FAILED) \<or>
          r = Inr Unsettled \<and> dead_letters t = dead_letters s \<and> ended_consumers t = ended_consumers s @ [''ai.tasks.result'']"
        proof (cases x)
          case (Inl e)
          with run v retry_exhausted_run [OF x] show ?thesis by auto
        next
          case (Inr y)
          with run v retry_exhausted_run [OF x] show ?thesis by simp
        qed
        with 1 2 3 e1 e2 e3 show ?thesis by blast
      qed
    qed
  qed
qed

section \<open>No session named\<close>

lemma result_without_session:
  fixes s :: "'z gateway_state_scheme"
  assumes ok: "versions_ok s"
    and j: "asked j c pid" "idempotencyKey None c ''ai.tasks.result'' \<notin> set (handled_results s)"
      "str_field j ''session_id'' = None"
    and r: "first_row (sessions s) = Some r" and w: "find_row wf_id (ses_workflowId r) (workflows s) = Some w"
    and x: "find_row pe_id pid (pipeline_executions s) = Some x"
  shows "\<exists>v. workflow_versions (snd (result_handler j s)) = workflow_versions s @ [v] \<and> wv_workflowId v = wf_id w"
proof -
  have r': "row_where ses_id (str_field j ''session_id'') (sessions s) = Some r" using r j(3) by (simp add: row_where_def)
  have x': "find_pipeline pid (str_field j ''session_id'') s = Some x" using x j(3) by (simp add: find_pipeline_def find_row_def)
  obtain p where p: "re_version_number p = None" and run: "result_handler j s = await (apply_result p x r w) (\<lambda>_.
      writes (handled_results_update (remember (idempotencyKey None c ''ai.tasks.result'')))) s"
    using result_handler_run [OF j(1,2) r' w x'] by blast
  have w': "w \<in> set (workflows s)" using find_row_Some [OF w] by simp
  let ?P = "\<lambda>t :: 'z gateway_state_scheme. \<exists>v. workflow_versions t = workflow_versions s @ [v] \<and> wv_workflowId v = wf_id w"
  have P: "versions_only ?P" by (simp add: versions_only_def)
  have "leaves ?P (apply_result p x r w) s"
    by (rule leaves_apply_result [OF ok w' p P]) blast
  then show ?thesis
    unfolding run by (cases "apply_result p x r w s") (auto simp: leaves_def await_run writes_run split: sum.split)
qed

end
