(* ===== verification/GatewayClaims.thy ===== *)
theory GatewayClaims
  imports GatewayResults
begin

text \<open>
  The properties of workflows, sessions and what the AI workers send, with a small instance: the
  workflow ''w'' of the organization ''o'', its session ''s'', and the execution ''p''.
\<close>

section \<open>A small instance\<close>

definition ada :: request_user where
  "ada = \<lparr> ru_id = ''ada'', ru_orgId = ''o'', ru_role = user_role_str UserRole.ADMIN \<rparr>"

definition demo_workflow :: "uuid \<Rightarrow> uuid \<Rightarrow> workflow" where
  "demo_workflow i org = (blank_workflow org ''ada'')\<lparr>wf_id := i, wf_title := ''t''\<rparr>"

definition demo_session :: "uuid \<Rightarrow> uuid \<Rightarrow> SessionStatus \<Rightarrow> session" where
  "demo_session i w b = \<lparr> ses_id = i, ses_workflowId = w, ses_userId = ''ada'', ses_mode = AUTO, ses_status = b,
     ses_confidenceScore = 0, ses_createdAt = 0, ses_finalizedAt = None, ses_archivedAt = None \<rparr>"

definition demo_pipeline :: "uuid \<Rightarrow> uuid \<Rightarrow> pipeline_execution" where
  "demo_pipeline i sid = new_pipeline \<lparr> tp_sessionId = sid, tp_taskType = FULL_PIPELINE, tp_mode = AUTO,
     tp_input = JNull, tp_triggeredBy = None, tp_resumeFromCheckpoint = None \<rparr> i 0"

definition demo_report :: divergence_report where
  "demo_report = \<lparr> dr_id = ''d'', dr_workflowId = ''w'', dr_graphAId = ''a'', dr_graphBId = ''b'',
     dr_comparisonType = INTENT_VS_GENERATED, dr_status = DivergenceReportStatus.PENDING,
     dr_overallSimilarity = None, dr_severity = None, dr_algorithmUsed = None, dr_totalPoints = 0,
     dr_criticalCount = 0, dr_highCount = 0, dr_mediumCount = 0, dr_lowCount = 0, dr_autoTriggered = True,
     dr_triggeredBy = None, dr_pipelineExecutionId = None, dr_completedAt = None, dr_createdAt = 0 \<rparr>"

definition demo_gateway :: "SessionStatus \<Rightarrow> gateway_state" where
  "demo_gateway b = \<lparr> now = 10, uuids = fresh_name ''id'', uuid_next = 0, rooms_live = (\<lambda>_. True), nats_up = True,
     workflows = [demo_workflow ''w'' ''o''], workflow_versions = [], sessions = [demo_session ''s'' ''w'' b],
     audit_log = [], emitted = [], published = [],
     messages = [], documents = [], skills = [], pipeline_executions = [demo_pipeline ''p'' ''s''],
     agent_executions = [], agent_logs = [],
     agent_definitions = [], dead_letters = [], kg_nodes = [], kg_edges = [], graph_snapshots = [],
     divergence_reports = [demo_report], correlation_id = ''system'',
     rules = [], rule_versions = [], rule_applications = [],
     rule_cache = (\<lambda>_. None), simulation_cache = [], fastapi_url = None, simulate = (\<lambda>_. None),
     digest = (\<lambda>x. x), handled_results = [], handled_progress = [], handled_divergences = [],
     ended_consumers = [],
     divergence_threshold = 3 / 4 \<rparr>"

definition demo_result :: json where
  "demo_result = JObj [(''correlation_id'', JStr ''c''), (''session_id'', JStr ''s''),
     (''pipeline_execution_id'', JStr ''p''), (''confidence'', JNum 1), (''elements_json'', JObj [])]"

lemma demo_versions_ok: "versions_ok (demo_gateway b)"
  by (simp add: versions_ok_def demo_gateway_def demo_workflow_def blank_workflow_def keyed_def numbered_to_def
      numbers_def)


section \<open>Versions\<close>

text \<open>C31: Whatever requests and messages are served, refused and failing ones included, the versions of a
  workflow are numbered from one without a gap, no number is used twice, and the current version of
  the workflow is the last one.\<close>

theorem workflow_versions_gapless:
  assumes "versions_ok s" and "w \<in> set (workflows (serve_gateways qs s))"
  shows "distinct (numbers (wf_id w) (workflow_versions (serve_gateways qs s))) \<and>
    set (numbers (wf_id w) (workflow_versions (serve_gateways qs s))) = {1..wf_currentVersion w}"
  using serve_gateways_versions [OF assms(1), of qs] assms(2) by (auto simp: versions_ok_def numbered_to_def)

theorem workflow_versions_gapless_witness:
  "let t = serve_gateways [ResultMessage demo_result] (demo_gateway PROCESSING) in
     set (numbers ''w'' (workflow_versions t)) = {1..1}"
proof -
  let ?t = "serve_gateways [ResultMessage demo_result] (demo_gateway PROCESSING)"
  have w: "wf_id (hd (workflows ?t)) = ''w''" "wf_currentVersion (hd (workflows ?t)) = 1" by code_simp+
  have "workflows ?t \<noteq> []" by code_simp
  then have "hd (workflows ?t) \<in> set (workflows ?t)" by (rule hd_in_set)
  from workflow_versions_gapless [OF demo_versions_ok this] show ?thesis by (simp only: w Let_def)
qed

section \<open>Sessions\<close>

definition final_statuses :: "SessionStatus set" where
  "final_statuses = {SessionStatus.VALIDATED, SessionStatus.EXPORTED, SessionStatus.ARCHIVED, SessionStatus.ERROR}"

lemma final_closed: "fsm_edge\<^sup>*\<^sup>* a b \<Longrightarrow> a \<in> final_statuses \<Longrightarrow> b \<in> final_statuses"
proof (induction rule: rtranclp_induct)
  case (step b c)
  then obtain m e where "session_step m b e = Some c" by (auto simp: fsm_edge_def canTransitionTo_step)
  with step show ?case using step_settled [of b m e c] step_validated [of m e c] by (auto simp: final_statuses_def)
qed

text \<open>C32: As long as no administrator forces a status and no comparison is reported, a session stays and its
  status only moves along the state machine, whatever is served; a session that has been validated, exported or
  archived, or has ended in an error, never leaves these four statuses. (Only the status is meant: tasks and
  results for such a session are still served.)\<close>

theorem session_statuses_follow_fsm:
  assumes "list_all ordinary qs" and "find_row ses_id i (sessions s) = Some r"
  shows "\<exists>r'. find_row ses_id i (sessions (serve_gateways qs s)) = Some r' \<and>
    fsm_edge\<^sup>*\<^sup>* (ses_status r) (ses_status r') \<and>
    (ses_status r \<in> final_statuses \<longrightarrow> ses_status r' \<in> final_statuses)"
proof -
  have "came_from i (ses_status r) s" using assms(2) by (simp add: came_from_def status_of_def)
  from serve_gateways_came_from [OF assms(1) this] show ?thesis
    using final_closed by (auto simp: came_from_def status_of_def)
qed

theorem session_statuses_follow_fsm_witness:
  "\<exists>r'. find_row ses_id ''s'' (sessions (serve_gateways [Finalize ''s'' ada, ArchiveSession ''s'' ada, ResultMessage demo_result]
       (demo_gateway SessionStatus.IN_ELICITATION))) = Some r' \<and>
     fsm_edge\<^sup>*\<^sup>* SessionStatus.IN_ELICITATION (ses_status r')"
  using session_statuses_follow_fsm [of "[Finalize ''s'' ada, ArchiveSession ''s'' ada, ResultMessage demo_result]" "''s''"
      "demo_gateway SessionStatus.IN_ELICITATION" "demo_session ''s'' ''w'' SessionStatus.IN_ELICITATION"]
  by (auto simp: demo_gateway_def demo_session_def find_row_def simp del: serve_gateways.simps)

text \<open>The result of a comparison below the threshold sets the session to \<open>NEEDS_RECONCILIATION\<close> whatever its
  status was, an archived or validated session included: the state machine is not asked.\<close>

theorem divergence_overrides_any_status:
  assumes "idempotencyKey m (dv_correlation_id p) ''ai.tasks.divergence.result'' \<notin> set (handled_divergences s)"
    and "find_row dr_id (dv_report_id p) (divergence_reports s) = Some report"
    and "dv_similarity_score p < divergence_threshold s"
    and "find_row ses_id (dv_session_id p) (sessions s) = Some r"
  shows "fst (handle_divergence p m s) = Inr () \<and>
    find_row ses_id (dv_session_id p) (sessions (snd (handle_divergence p m s))) =
      Some (r\<lparr>ses_status := NEEDS_RECONCILIATION\<rparr>)"
proof -
  have "ses_id r = dv_session_id p" using find_row_Some [OF assms(4)] by simp
  then show ?thesis
    using assms by (simp add: handle_divergence_def Let_def action_simps save_session_def emit_to_room_def)
qed

theorem divergence_overrides_any_status_witness:
  "let p = \<lparr> dv_correlation_id = ''c'', dv_report_id = ''d'', dv_session_id = ''s'', dv_similarity_score = 1 / 2 \<rparr> in
     map ses_status (sessions (snd (handle_divergence p None (demo_gateway SessionStatus.ARCHIVED)))) = [NEEDS_RECONCILIATION] \<and>
     \<not> fsm_edge SessionStatus.ARCHIVED NEEDS_RECONCILIATION"
proof -
  let ?p = "\<lparr> dv_correlation_id = ''c'', dv_report_id = ''d'', dv_session_id = ''s'', dv_similarity_score = 1 / 2 \<rparr>"
  let ?s = "demo_gateway SessionStatus.ARCHIVED"
  have "find_row ses_id ''s'' (sessions (snd (handle_divergence ?p None ?s))) =
      Some ((demo_session ''s'' ''w'' SessionStatus.ARCHIVED)\<lparr>ses_status := NEEDS_RECONCILIATION\<rparr>)"
    using divergence_overrides_any_status [of None ?p ?s demo_report "demo_session ''s'' ''w'' SessionStatus.ARCHIVED"]
    by (simp add: demo_gateway_def demo_session_def demo_report_def find_row_def)
  moreover have "length (sessions (snd (handle_divergence ?p None ?s))) = 1" by code_simp
  ultimately have "map ses_status (sessions (snd (handle_divergence ?p None ?s))) = [NEEDS_RECONCILIATION]"
    by (auto simp: length_Suc_conv find_row_def split: if_splits)
  moreover have "\<not> fsm_edge SessionStatus.ARCHIVED NEEDS_RECONCILIATION"
    using step_settled [of SessionStatus.ARCHIVED] by (auto simp: fsm_edge_def canTransitionTo_step)
  ultimately show ?thesis by simp
qed

section \<open>Differences\<close>

definition demo_elements :: "string list \<Rightarrow> json list" where
  "demo_elements names = [JObj [(''id'', JStr i)]. i \<leftarrow> names]"

definition demo_versions :: "json \<Rightarrow> json \<Rightarrow> gateway_state" where
  "demo_versions a b = demo_gateway PROCESSING \<lparr>workflow_versions :=
     [version_row ''1'' 0 \<lparr> nv_workflowId = ''w'', nv_versionNumber = 1, nv_elementsJson = a, nv_elsaJson = None,
        nv_confidenceScore = None, nv_createdBy = None \<rparr>,
      version_row ''2'' 0 \<lparr> nv_workflowId = ''w'', nv_versionNumber = 2, nv_elementsJson = b, nv_elsaJson = None,
        nv_confidenceScore = None, nv_createdBy = None \<rparr>]\<rparr>"

lemmas demo_versions_simps = demo_versions_def version_row_def version_numbered_def versions_of_def

text \<open>C35: Let all elements of two versions be objects whose ids are strings, no two of a version the same. Then
  the difference of the versions carries the one to the other: dropping what was removed, replacing what was
  modified and appending what was added gives elements with distinct ids that are those of the second
  version. (The code does not check the ids; without that the difference loses elements.)\<close>

theorem diff_round_trip:
  assumes "computeDiff i n1 n2 org s = (Inr d, t)"
    and "version_numbered i n1 s = Some v1" and "version_numbered i n2 s = Some v2"
    and "named (extractElements (wv_elementsJson v1))" and "named (extractElements (wv_elementsJson v2))"
  shows "distinct (map element_id (patch (extractElements (wv_elementsJson v1)) d)) \<and>
    set (patch (extractElements (wv_elementsJson v1)) d) = set (extractElements (wv_elementsJson v2))"
proof -
  have "d = diff_elements (extractElements (wv_elementsJson v1)) (extractElements (wv_elementsJson v2))"
    using assms(1-3) by (auto simp: computeDiff_def action_Inr find_workflow_def findWorkflow_Inr_iff Let_def reads_run)
  then show ?thesis
    using patch_diff [OF assms(4,5)] by simp
qed

theorem diff_round_trip_witness:
  "let a = demo_elements [''x'', ''y'']; b = demo_elements [''y'', ''z''];
       s = demo_versions (JObj [(''elements'', JArr a)]) (JObj [(''elements'', JArr b)]) in
     \<exists>d. computeDiff ''w'' 1 2 ''o'' s = (Inr d, s) \<and> wd_added d = demo_elements [''z''] \<and>
       wd_removed d = demo_elements [''x''] \<and> set (patch a d) = set b"
proof -
  let ?a = "demo_elements [''x'', ''y'']" and ?b = "demo_elements [''y'', ''z'']"
  let ?s = "demo_versions (JObj [(''elements'', JArr ?a)]) (JObj [(''elements'', JArr ?b)])"
  have run: "computeDiff ''w'' 1 2 ''o'' ?s =
      (Inr \<lparr> wd_added = demo_elements [''z''], wd_removed = demo_elements [''x''], wd_modified = [] \<rparr>, ?s)"
    by (simp add: computeDiff_def find_workflow_def action_simps demo_versions_simps demo_gateway_def demo_workflow_def
        blank_workflow_def extractElements_def get_prop_def demo_elements_def diff_elements_def has_id_def same_id_def
        element_id_def workflow_in_org_def Let_def)
  have "set (patch ?a \<lparr> wd_added = demo_elements [''z''], wd_removed = demo_elements [''x''], wd_modified = [] \<rparr>) = set ?b"
    using diff_round_trip [OF run, of "hd (workflow_versions ?s)" "last (workflow_versions ?s)"]
    by (simp add: demo_versions_simps extractElements_def get_prop_def named_def demo_elements_def element_id_def)
  with run show ?thesis unfolding Let_def by (intro exI conjI) simp_all
qed

text \<open>The difference of two versions whose content is a list, which is what a request to update a workflow
  must send, is always empty: the elements are looked for under a key.\<close>

theorem diff_of_lists_is_empty:
  assumes "find_workflow i org s = (Inr w, s)"
    and "version_numbered i n1 s = Some v1" and "wv_elementsJson v1 = JArr es1"
    and "version_numbered i n2 s = Some v2" and "wv_elementsJson v2 = JArr es2"
  shows "computeDiff i n1 n2 org s = (Inr \<lparr> wd_added = [], wd_removed = [], wd_modified = [] \<rparr>, s)"
  using assms by (simp add: computeDiff_def action_simps extractElements_def get_prop_def diff_elements_def)

theorem diff_of_lists_is_empty_witness:
  "let s = demo_versions (JArr []) (JArr (demo_elements [''x''])) in
     computeDiff ''w'' 1 2 ''o'' s = (Inr \<lparr> wd_added = [], wd_removed = [], wd_modified = [] \<rparr>, s)"
  using diff_of_lists_is_empty [of "''w''" "''o''" "demo_versions (JArr []) (JArr (demo_elements [''x'']))"
      "demo_workflow ''w'' ''o''" 1 "hd (workflow_versions (demo_versions (JArr []) (JArr (demo_elements [''x'']))))" "[]"
      2 "last (workflow_versions (demo_versions (JArr []) (JArr (demo_elements [''x'']))))" "demo_elements [''x'']"]
  by (simp add: find_workflow_def action_simps demo_versions_simps demo_gateway_def demo_workflow_def
      blank_workflow_def workflow_in_org_def)

section \<open>Deliveries\<close>

text \<open>C34: What becomes of a result message, while its subscription is alive. Either a run of the handler
  succeeds and the message is acknowledged, with nothing recorded. Or the handler fails three times, each time on
  what the failure before left, and then one dead letter with this message, the count three and the last error is
  added, the execution the message names has failed and the message is terminated; or that record cannot be
  written: then nothing is recorded, the message stays unsettled and the subscription has ended, so that every
  later message has no effect.\<close>

theorem results_end_settled:
  fixes s :: "'z gateway_state_scheme"
  assumes "''ai.tasks.result'' \<notin> set (ended_consumers s)" and "on_result j s = (r, t)"
  shows "(\<exists>u. r = Inr Acked \<and> result_handler j u = (Inr (), t) \<and> dead_letters t = dead_letters s \<and>
       ended_consumers t = ended_consumers s) \<or>
    (\<exists>e1 e2 e3 s1 s2 s3. result_handler j s = (Inl e1, s1) \<and> result_handler j s1 = (Inl e2, s2) \<and>
       result_handler j s2 = (Inl e3, s3) \<and>
       (r = Inr Terminated \<and> ended_consumers t = ended_consumers s \<and>
          (\<exists>l. dead_letters t = dead_letters s @ [l] \<and> dl_subject l = ''ai.tasks.result'' \<and> dl_payload l = j \<and>
             dl_deliveryCount l = 3 \<and> dl_lastError l = Some (error_message e3)) \<and>
          (\<forall>i p. nonempty (str_field j ''pipeline_execution_id'') = Some i \<longrightarrow>
             find_row pe_id i (pipeline_executions t) = Some p \<longrightarrow> pe_status p = PipelineStatus.FAILED) \<or>
        r = Inr Unsettled \<and> dead_letters t = dead_letters s \<and>
          ended_consumers t = ended_consumers s @ [''ai.tasks.result''] \<and>
          (\<forall>j'. on_result j' t = (Inr Unsettled, t))))"
proof -
  have "on_result j' t = (Inr Unsettled, t)" if "ended_consumers t = ended_consumers s @ [''ai.tasks.result'']" for j'
    using that by (simp add: on_result_def deliver_ended)
  then show ?thesis using on_result_settles [OF assms] by blast
qed

theorem results_end_settled_witness:
  "let s = demo_gateway SessionStatus.ARCHIVED; t = snd (on_result demo_result s) in
     \<exists>l. dead_letters t = [l] \<and> dl_payload l = demo_result \<and> dl_deliveryCount l = 3"
proof -
  let ?s = "demo_gateway SessionStatus.ARCHIVED"
  have n: "length (dead_letters (snd (on_result demo_result ?s))) = 1" by code_simp
  have s: "''ai.tasks.result'' \<notin> set (ended_consumers ?s)" "dead_letters ?s = []" by (simp_all add: demo_gateway_def)
  obtain r t where run: "on_result demo_result ?s = (r, t)" by fastforce
  show ?thesis
    using results_end_settled [OF s(1) run] n unfolding Let_def run snd_conv s(2) by (elim disjE exE conjE) simp_all
qed

text \<open>A result for a session that cannot take it, an archived one for instance, is refused only after its
  version has been stored. Each of the three attempts stores the content once more: the workflow ends
  three versions further, pending review, while the session stays as it was.\<close>

theorem refused_result_is_stored_three_times:
  assumes "refusing j r e wid n s" and "''ai.tasks.result'' \<notin> set (ended_consumers s)"
  shows "let t = snd (on_result j s) in sessions t = sessions s \<and>
    length (versions_of wid t) = length (versions_of wid s) + 3 \<and>
    (\<exists>w. find_row wf_id wid (workflows t) = Some w \<and> wf_currentVersion w = n + 3 \<and> wf_status w = PENDING_REVIEW)"
  using assms by (rule on_result_refused)

theorem refused_result_is_stored_three_times_witness:
  "let s = demo_gateway SessionStatus.ARCHIVED; t = snd (on_result demo_result s) in
     length (versions_of ''w'' s) = 0 \<and> length (versions_of ''w'' t) = 3 \<and> length (dead_letters t) = 1"
proof -
  let ?s = "demo_gateway SessionStatus.ARCHIVED" and ?r = "demo_session ''s'' ''w'' SessionStatus.ARCHIVED"
  obtain e where e: "transitionSessionStatus SessionStatus.ARCHIVED AI_RESULT_RECEIVED (Some AUTO) = Inl e"
    by (cases "transitionSessionStatus SessionStatus.ARCHIVED AI_RESULT_RECEIVED (Some AUTO)")
       (auto simp: transition_Inr_iff)
  have "refusing demo_result ?r e ''w'' 0 ?s"
    using demo_versions_ok [of SessionStatus.ARCHIVED] e
    by (simp add: refusing_def asked_def str_field_def demo_result_def get_prop_def demo_gateway_def demo_session_def
        demo_workflow_def blank_workflow_def find_pipeline_def demo_pipeline_def new_pipeline_def find_row_def)
  moreover have "''ai.tasks.result'' \<notin> set (ended_consumers ?s)" by (simp add: demo_gateway_def)
  note refused_result_is_stored_three_times [OF calculation this]
  ultimately have "length (versions_of ''w'' (snd (on_result demo_result ?s))) =
      length (versions_of ''w'' ?s) + 3"
    by (simp only: Let_def)
  moreover have "length (versions_of ''w'' ?s) = 0" "length (dead_letters (snd (on_result demo_result ?s))) = 1" by code_simp+
  ultimately show ?thesis unfolding Let_def by simp
qed

text \<open>C33: A result with a correlation id that has been handled, for the first time, has no further effect: when it is
  delivered again, at once or after any other requests and messages, among them fewer than 10000
  results, nothing changes, and it is acknowledged as long as the subscription is alive. (A result without a correlation
  id takes one from the latest execution or from the clock, which may be another at the next delivery, and after
  10000 further results the key may have been dropped.)\<close>

theorem redelivered_result_has_no_effect:
  fixes s :: "'z gateway_state_scheme"
  assumes "str_field j ''correlation_id'' = Some c" and "result_handler j s = (Inr (), t)"
    and "idempotencyKey None c ''ai.tasks.result'' \<notin> set (handled_results s)"
    and "length (filter is_result qs) < 10000"
  shows "snd (on_result j (serve_gateways qs t)) = serve_gateways qs t \<and>
    (''ai.tasks.result'' \<notin> set (ended_consumers (serve_gateways qs t)) \<longrightarrow>
       fst (on_result j (serve_gateways qs t)) = Inr Acked)"
proof -
  let ?u = "serve_gateways qs t" and ?key = "idempotencyKey None c ''ai.tasks.result''"
  have "recent 0 ?key (handled_results t)" by (rule handled_is_recent [OF assms(1-3)])
  from recent_mem [OF recent_serve [OF this]] assms(4) have "?key \<in> set (handled_results ?u)" by simp
  then have "result_handler j ?u = (Inr (), ?u)" by (rule handled_again [OF assms(1)])
  then show ?thesis
    by (cases "''ai.tasks.result'' \<in> set (ended_consumers ?u)") (simp_all add: on_result_def deliver_run deliver_ended)
qed

theorem redelivered_result_has_no_effect_witness:
  "let t = snd (result_handler demo_result (demo_gateway PROCESSING)); u = serve_gateways [Elapse 5, ProgressMessage JNull] t in
     length (workflow_versions u) = 1 \<and> on_result demo_result u = (Inr Acked, u)"
proof -
  let ?x = "result_handler demo_result (demo_gateway PROCESSING)"
  let ?u = "serve_gateways [Elapse 5, ProgressMessage JNull] (snd ?x)"
  have "fst ?x = Inr ()" and u: "length (workflow_versions ?u) = 1" "ended_consumers ?u = []" by code_simp+
  then have x: "?x = (Inr (), snd ?x)" by (metis prod.collapse)
  have c: "str_field demo_result ''correlation_id'' = Some ''c''" by code_simp
  have new: "idempotencyKey None ''c'' ''ai.tasks.result'' \<notin> set (handled_results (demo_gateway PROCESSING))"
    by (simp add: demo_gateway_def)
  have "length (filter is_result [Elapse 5, ProgressMessage JNull]) < 10000" by simp
  from redelivered_result_has_no_effect [OF c x new this] have "snd (on_result demo_result ?u) = ?u \<and> (''ai.tasks.result'' \<notin> set (ended_consumers ?u) \<longrightarrow>
      fst (on_result demo_result ?u) = Inr Acked)" .
  then have "on_result demo_result ?u = (Inr Acked, ?u)" using u(2) by (simp add: prod_eq_iff)
  with u(1) show ?thesis by (simp only: Let_def)
qed

text \<open>A result that does not name a session is not refused: a lookup without a value takes the first row of
  the table, and the version is stored for the workflow of whatever session comes first, whichever
  organization it belongs to and whichever session the execution was for.\<close>

theorem result_without_session_hits_first:
  fixes s :: "'z gateway_state_scheme"
  assumes "versions_ok s" and "asked j c pid"
    and "idempotencyKey None c ''ai.tasks.result'' \<notin> set (handled_results s)"
    and "str_field j ''session_id'' = None" and "first_row (sessions s) = Some r"
    and "find_row wf_id (ses_workflowId r) (workflows s) = Some w"
    and "find_row pe_id pid (pipeline_executions s) = Some x"
  shows "\<exists>v. workflow_versions (snd (result_handler j s)) = workflow_versions s @ [v] \<and> wv_workflowId v = wf_id w"
  using assms by (rule result_without_session)

definition two_organizations :: gateway_state where
  "two_organizations = demo_gateway PROCESSING
     \<lparr>workflows := [demo_workflow ''w'' ''o'', demo_workflow ''w2'' ''o2''],
      sessions := [demo_session ''s'' ''w'' PROCESSING, demo_session ''s2'' ''w2'' PROCESSING],
      pipeline_executions := [demo_pipeline ''p'' ''s2'']\<rparr>"

theorem result_without_session_hits_first_witness:
  "let j = JObj [(''correlation_id'', JStr ''c''), (''pipeline_execution_id'', JStr ''p'')];
       t = snd (result_handler j two_organizations) in
     \<exists>v. workflow_versions t = [v] \<and> wv_workflowId v = ''w'' \<and> map pe_sessionId (pipeline_executions t) = [''s2'']"
proof -
  let ?j = "JObj [(''correlation_id'', JStr ''c''), (''pipeline_execution_id'', JStr ''p'')]"
  have "versions_ok two_organizations"
    by (simp add: versions_ok_def two_organizations_def demo_gateway_def demo_workflow_def blank_workflow_def keyed_def
        numbered_to_def numbers_def)
  from result_without_session_hits_first [OF this, of ?j "''c''" "''p''" "demo_session ''s'' ''w'' PROCESSING"
      "demo_workflow ''w'' ''o''" "demo_pipeline ''p'' ''s2''"]
  have "\<exists>v. workflow_versions (snd (result_handler ?j two_organizations)) = [v] \<and> wv_workflowId v = ''w''"
    by (simp add: two_organizations_def demo_gateway_def asked_def str_field_def get_prop_def demo_session_def
        demo_workflow_def blank_workflow_def demo_pipeline_def new_pipeline_def find_row_def)
  moreover have "map pe_sessionId (pipeline_executions (snd (result_handler ?j two_organizations))) = [''s2'']" by code_simp
  ultimately show ?thesis by (simp only: Let_def) blast
qed

end
