(* ===== verification/Tenancy.thy ===== *)
theory Tenancy
  imports Platform
begin

text \<open>
  Organizations, workspaces and their members: the entities of
  \<open>src/modules/workspaces/entities\<close> and \<open>src/modules/organizations/entities\<close>, the state
  \<open>tenancy\<close> that extends the common state with their tables, and the role checks of
  \<open>WorkspacePermissionService\<close>, interpreted as \<open>access_gate\<close>s that the other services use.
\<close>

section \<open>Entities\<close>

datatype OrganizationRole = OWNER | ADMIN | MEMBER | BILLING

record organization_member =
  om_id :: uuid
  om_organizationId :: uuid
  om_userId :: uuid
  om_role :: OrganizationRole
  om_active :: bool
  om_createdAt :: time
  om_updatedAt :: time

datatype WorkspaceRole = OWNER | ADMIN | EDITOR | COMMENTER | VIEWER

datatype WorkspaceMemberStatus = ACTIVE | SUSPENDED | REMOVED

record workspace_member =
  wm_id :: uuid
  wm_organizationId :: uuid
  wm_workspaceId :: uuid
  wm_userId :: uuid
  wm_role :: WorkspaceRole
  wm_status :: WorkspaceMemberStatus
  wm_invitedBy :: "uuid option"
  wm_joinedAt :: "time option"
  wm_createdAt :: time
  wm_updatedAt :: time

datatype WorkspaceStage =
    CREATED | ONBOARDING | COLLECTING_SOURCES | RESEARCHING | STRATEGY_READY | DESIGNING
  | CONCEPT_REVIEW | BRAND_SYSTEM_READY | EXPORTED | ARCHIVED

record workspace =
  ws_id :: uuid
  ws_organizationId :: uuid
  ws_name :: string
  ws_description :: "string option"
  ws_stage :: WorkspaceStage
  ws_thumbnailAssetId :: "uuid option"
  ws_settings :: json
  ws_createdBy :: uuid
  ws_archived :: bool
  ws_version :: int
  ws_createdAt :: time
  ws_updatedAt :: time
  ws_deletedAt :: "time option"

datatype InvitationStatus = PENDING | ACCEPTED | EXPIRED | REVOKED

record workspace_invitation =
  wi_id :: uuid
  wi_organizationId :: uuid
  wi_workspaceId :: uuid
  wi_email :: string
  wi_role :: WorkspaceRole
  wi_tokenHash :: string
  wi_invitedBy :: uuid
  wi_expiresAt :: time
  wi_acceptedAt :: "time option"
  wi_revokedAt :: "time option"
  wi_status :: InvitationStatus
  wi_createdAt :: time
  wi_updatedAt :: time

text \<open>The columns of the user table the workspace services read.\<close>

record user_account =
  usr_id :: uuid
  usr_email :: string
  usr_orgId :: uuid
  usr_isActive :: bool

text \<open>
  \<open>sha256\<close> stands for \<open>createHash('sha256').update(t).digest('hex')\<close> and \<open>tokens\<close> for the
  results of \<open>randomBytes(32).toString('base64url')\<close>, in order; \<open>disconnects\<close> records the
  sockets that were closed, as pairs of workspace and user; \<open>production\<close> is
  \<open>NODE_ENV === 'production'\<close>.
\<close>

record tenancy = core +
  org_members :: "organization_member list"
  workspaces :: "workspace list"
  ws_members :: "workspace_member list"
  invitations :: "workspace_invitation list"
  users :: "user_account list"
  sha256 :: "string \<Rightarrow> string"
  tokens :: "nat \<Rightarrow> string"
  token_next :: nat
  production :: bool
  disconnects :: "(uuid \<times> uuid) list"

interpretation ws_member_repo:
  keyed_store wm_id "find_row wm_id" "save_row wm_id" "remove_row wm_id" set "keyed wm_id"
  by (rule keyed_store_rows) simp_all

interpretation workspace_repo:
  keyed_store ws_id "find_row ws_id" "save_row ws_id" "remove_row ws_id" set "keyed ws_id"
  by (rule keyed_store_rows) simp_all

interpretation invitation_repo:
  keyed_store wi_id "find_row wi_id" "save_row wi_id" "remove_row wi_id" set "keyed wi_id"
  by (rule keyed_store_rows) simp_all

section \<open>Workspace permissions\<close>

text \<open>\<open>READ\<close> is every role (\<open>Object.values(WorkspaceRole)\<close>).\<close>

definition READ :: "WorkspaceRole list" where
  "READ = [WorkspaceRole.OWNER, WorkspaceRole.ADMIN, EDITOR, COMMENTER, WorkspaceRole.VIEWER]"

definition EDIT :: "WorkspaceRole list" where
  "EDIT = [WorkspaceRole.OWNER, WorkspaceRole.ADMIN, EDITOR]"

definition COMMENT :: "WorkspaceRole list" where
  "COMMENT = EDIT @ [COMMENTER]"

definition MANAGE :: "WorkspaceRole list" where
  "MANAGE = [WorkspaceRole.OWNER, WorkspaceRole.ADMIN]"

definition active_member ::
    "uuid \<Rightarrow> uuid \<Rightarrow> WorkspaceRole list \<Rightarrow> workspace_member \<Rightarrow> bool" where
  "active_member userId workspaceId roles m \<longleftrightarrow>
     wm_userId m = userId \<and> wm_workspaceId m = workspaceId \<and>
     wm_status m = ACTIVE \<and> wm_role m \<in> set roles"

definition requireRole ::
    "uuid \<Rightarrow> uuid \<Rightarrow> WorkspaceRole list \<Rightarrow> ('z tenancy_scheme, workspace_member) action" where
  "requireRole userId workspaceId roles =
     await (reads (\<lambda>s. find (active_member userId workspaceId roles) (ws_members s))) (\<lambda>member.
     some_or_throw member (Forbidden ''Workspace access denied''))"

definition requireMember ::
    "uuid \<Rightarrow> uuid \<Rightarrow> ('z tenancy_scheme, workspace_member) action" where
  "requireMember userId workspaceId = requireRole userId workspaceId READ"

definition requireEditor ::
    "uuid \<Rightarrow> uuid \<Rightarrow> uuid \<Rightarrow> ('z tenancy_scheme, workspace_member) action" where
  "requireEditor userId workspaceId organizationId =
     await (reads (\<lambda>s. find (\<lambda>m. om_userId m = userId \<and> om_organizationId m = organizationId \<and>
              om_active m) (org_members s))) (\<lambda>organizationMember.
     await (reads (\<lambda>s. find (\<lambda>m. active_member userId workspaceId EDIT m \<and>
              wm_organizationId m = organizationId) (ws_members s))) (\<lambda>member.
     await (require (organizationMember \<noteq> None \<and> member \<noteq> None)
              (Forbidden ''Workspace access denied'')) (\<lambda>_.
     some_or_throw member (Forbidden ''Workspace access denied''))))"

definition can_ws ::
    "uuid \<Rightarrow> uuid \<Rightarrow> WorkspaceRole list \<Rightarrow> 'z tenancy_scheme \<Rightarrow> bool" where
  "can_ws userId workspaceId roles s \<longleftrightarrow>
     list_ex (active_member userId workspaceId roles) (ws_members s)"

definition canRead :: "uuid \<Rightarrow> uuid \<Rightarrow> 'z tenancy_scheme \<Rightarrow> bool" where
  "canRead userId workspaceId = can_ws userId workspaceId READ"

definition canEdit :: "uuid \<Rightarrow> uuid \<Rightarrow> 'z tenancy_scheme \<Rightarrow> bool" where
  "canEdit userId workspaceId = can_ws userId workspaceId EDIT"

definition canComment :: "uuid \<Rightarrow> uuid \<Rightarrow> 'z tenancy_scheme \<Rightarrow> bool" where
  "canComment userId workspaceId = can_ws userId workspaceId COMMENT"

definition canManageMembers :: "uuid \<Rightarrow> uuid \<Rightarrow> 'z tenancy_scheme \<Rightarrow> bool" where
  "canManageMembers userId workspaceId = can_ws userId workspaceId MANAGE"

definition canApprove :: "uuid \<Rightarrow> uuid \<Rightarrow> 'z tenancy_scheme \<Rightarrow> bool" where
  "canApprove userId workspaceId = can_ws userId workspaceId EDIT"

definition canExport :: "uuid \<Rightarrow> uuid \<Rightarrow> 'z tenancy_scheme \<Rightarrow> bool" where
  "canExport userId workspaceId = can_ws userId workspaceId EDIT"

section \<open>The checks as gates\<close>

lemma requireRole_run [action_simps]:
  "requireRole u w roles s =
     (case find (active_member u w roles) (ws_members s) of
        None \<Rightarrow> Inl (Forbidden ''Workspace access denied'') | Some m \<Rightarrow> Inr m, s)"
  by (simp add: requireRole_def action_simps)

lemma keeps_requireRole [keeps_intros]: "keeps P (requireRole u w roles)"
  by (simp add: keeps_def action_simps)

lemma reads_requireRole [read_intros]: "reads_only (requireRole u w roles)"
  by (simp add: reads_only_def action_simps)

lemma reads_requireMember [read_intros]: "reads_only (requireMember u w)"
  by (simp add: requireMember_def reads_requireRole)

lemma requireRole_Inr_iff:
  "requireRole u w roles s = (Inr m, t) \<longleftrightarrow>
   find (active_member u w roles) (ws_members s) = Some m \<and> t = s"
  by (auto simp: action_simps split: option.splits)

lemma keeps_requireMember [keeps_intros]: "keeps P (requireMember u w)"
  by (simp add: requireMember_def keeps_requireRole)

lemma requireRole_Inr:
  "requireRole u w roles s = (Inr m, t) \<Longrightarrow>
   t = s \<and> active_member u w roles m \<and> m \<in> set (ws_members s)"
  by (auto simp: action_simps split: option.splits dest: find_Some_conv)

lemma can_ws_find:
  "can_ws u w roles s \<longleftrightarrow> find (active_member u w roles) (ws_members s) \<noteq> None"
  by (auto simp: can_ws_def list_ex_iff find_None_conv)

interpretation role_gate:
  access_gate "\<lambda>u (w, roles). requireRole u w roles" "\<lambda>s u (w, roles). can_ws u w roles s"
  by unfold_locales
     (auto simp: reads_only_def action_simps can_ws_find split: option.splits prod.splits)

definition editor_permitted :: "'z tenancy_scheme \<Rightarrow> uuid \<Rightarrow> uuid \<times> uuid \<Rightarrow> bool" where
  "editor_permitted s u = (\<lambda>(w, org).
     (\<exists>m \<in> set (org_members s). om_userId m = u \<and> om_organizationId m = org \<and> om_active m) \<and>
     (\<exists>m \<in> set (ws_members s). active_member u w EDIT m \<and> wm_organizationId m = org))"

lemma requireEditor_run:
  "requireEditor u w org s =
     (if find (\<lambda>m. om_userId m = u \<and> om_organizationId m = org \<and> om_active m) (org_members s) = None
      then Inl (Forbidden ''Workspace access denied'')
      else case find (\<lambda>m. active_member u w EDIT m \<and> wm_organizationId m = org) (ws_members s) of
             None \<Rightarrow> Inl (Forbidden ''Workspace access denied'') | Some m \<Rightarrow> Inr m, s)"
  by (simp add: requireEditor_def action_simps split: option.split)

lemma keeps_requireEditor [keeps_intros]: "keeps P (requireEditor u w org)"
  by (simp add: keeps_def requireEditor_run)

lemma reads_requireEditor [read_intros]: "reads_only (requireEditor u w org)"
  by (simp add: reads_only_def requireEditor_run)

interpretation editor_gate:
  access_gate "\<lambda>u (w, org). requireEditor u w org" editor_permitted
  by unfold_locales
     (auto simp: reads_only_def requireEditor_run editor_permitted_def find_None_conv
           split: option.splits prod.splits if_splits dest!: find_Some_conv)

text \<open>C2: \<open>requireEditor\<close> lets a caller through exactly when the organization has an active
  membership of the caller, and the workspace has one of the caller with status active, with role
  owner, admin or editor, recorded under that same organization; it returns such a membership, refuses
  everybody else with \<open>Workspace access denied\<close>, and never changes the state.\<close>

theorem requireEditor_correct:
  "snd (requireEditor u w org s) = s \<and>
   (fst (requireEditor u w org s) = Inl (Forbidden ''Workspace access denied'') \<or>
    (\<exists>m \<in> set (ws_members s). fst (requireEditor u w org s) = Inr m \<and>
       wm_workspaceId m = w \<and> wm_userId m = u \<and> wm_status m = ACTIVE \<and>
       wm_role m \<in> {WorkspaceRole.OWNER, WorkspaceRole.ADMIN, EDITOR} \<and> wm_organizationId m = org)) \<and>
   ((\<exists>m. fst (requireEditor u w org s) = Inr m) \<longleftrightarrow>
    (\<exists>om \<in> set (org_members s). om_userId om = u \<and> om_organizationId om = org \<and> om_active om) \<and>
    (\<exists>m \<in> set (ws_members s). wm_workspaceId m = w \<and> wm_userId m = u \<and> wm_status m = ACTIVE \<and>
       wm_role m \<in> {WorkspaceRole.OWNER, WorkspaceRole.ADMIN, EDITOR} \<and> wm_organizationId m = org))"
  by (auto simp: requireEditor_run find_None_conv active_member_def EDIT_def
           split: option.splits dest!: find_Some_conv)

text \<open>The permission levels are nested: who may manage members may edit, who may edit may
  comment, who may comment may read; and \<open>requireMember\<close> succeeds exactly for those who may
  read.\<close>

theorem permission_hierarchy:
  "{(u, w). canManageMembers u w s} \<subseteq> {(u, w). canEdit u w s} \<and>
   {(u, w). canEdit u w s} \<subseteq> {(u, w). canComment u w s} \<and>
   {(u, w). canComment u w s} \<subseteq> {(u, w). canRead u w s} \<and>
   {(u, w). canRead u w s} = {(u, w). \<exists>m. fst (requireMember u w s) = Inr m}"
  by (auto simp: canManageMembers_def canEdit_def canComment_def canRead_def can_ws_def list_ex_iff
        active_member_def MANAGE_def EDIT_def COMMENT_def READ_def requireMember_def action_simps
        find_None_conv split: option.splits dest!: find_Some_conv)

section \<open>A small instance\<close>

text \<open>
  One organization ''o'' with a workspace ''w'': ''ann'' owns it, ''bob'' is an editor. The
  witnesses of the development run on it.
\<close>

definition demo_member :: "uuid \<Rightarrow> uuid \<Rightarrow> WorkspaceRole \<Rightarrow> workspace_member" where
  "demo_member i u r = \<lparr> wm_id = i, wm_organizationId = ''o'', wm_workspaceId = ''w'', wm_userId = u,
     wm_role = r, wm_status = ACTIVE, wm_invitedBy = None, wm_joinedAt = Some 0,
     wm_createdAt = 0, wm_updatedAt = 0 \<rparr>"

definition demo_org_member :: "uuid \<Rightarrow> uuid \<Rightarrow> organization_member" where
  "demo_org_member i u = \<lparr> om_id = i, om_organizationId = ''o'', om_userId = u,
     om_role = OrganizationRole.MEMBER, om_active = True, om_createdAt = 0, om_updatedAt = 0 \<rparr>"

definition demo_workspace :: workspace where
  "demo_workspace = \<lparr> ws_id = ''w'', ws_organizationId = ''o'', ws_name = ''W'',
     ws_description = None, ws_stage = CREATED, ws_thumbnailAssetId = None, ws_settings = JObj [],
     ws_createdBy = ''ann'', ws_archived = False, ws_version = 1, ws_createdAt = 0,
     ws_updatedAt = 0, ws_deletedAt = None \<rparr>"

definition demo_tenancy :: tenancy where
  "demo_tenancy = \<lparr> now = 10, uuids = fresh_name ''id'', uuid_next = 0, rooms_live = (\<lambda>_. True),
     nats_up = True, workflows = [], workflow_versions = [], sessions = [], audit_log = [],
     emitted = [], published = [],
     org_members = [demo_org_member ''om1'' ''ann'', demo_org_member ''om2'' ''bob''],
     workspaces = [demo_workspace],
     ws_members = [demo_member ''m1'' ''ann'' WorkspaceRole.OWNER, demo_member ''m2'' ''bob'' EDITOR],
     invitations = [],
     users = [\<lparr> usr_id = ''ann'', usr_email = ''Ann'', usr_orgId = ''o'', usr_isActive = True \<rparr>,
              \<lparr> usr_id = ''bob'', usr_email = ''bob'', usr_orgId = ''o'', usr_isActive = True \<rparr>],
     sha256 = (\<lambda>t. t), tokens = fresh_name ''tok'', token_next = 0, production = False,
     disconnects = [] \<rparr>"

lemmas demo_simps = demo_tenancy_def demo_workspace_def demo_member_def demo_org_member_def
  fresh_name_def

end
