(* ===== verification/Workspaces.thy ===== *)
theory Workspaces
  imports Tenancy
begin

text \<open>
  The workspace services of \<open>src/modules/workspaces\<close>: \<open>WorkspaceMembershipService\<close> (roles,
  suspension, removal), \<open>WorkspaceInvitationsService\<close> and \<open>WorkspacesService\<close>. The central
  invariant is that a workspace never loses its last active owner.
\<close>

section \<open>Membership\<close>

text \<open>
  \<open>save\<close> of a loaded entity: TypeORM updates the row, and its update time, only when a column
  changed.
\<close>

definition save_member :: "workspace_member \<Rightarrow> ('z tenancy_scheme, workspace_member) action" where
  "save_member m =
     await (reads (\<lambda>s. if find_row wm_id (wm_id m) (ws_members s) = Some m then m
                       else m\<lparr>wm_updatedAt := now s\<rparr>)) (\<lambda>saved.
     await (writes (ws_members_update (save_row wm_id saved))) (\<lambda>_. ok saved))"

definition find_member :: "uuid \<Rightarrow> uuid \<Rightarrow> ('z tenancy_scheme, workspace_member) action" where
  "find_member workspaceId i =
     await (reads (\<lambda>s. find (\<lambda>m. wm_id m = i \<and> wm_workspaceId m = workspaceId) (ws_members s)))
       (\<lambda>member. some_or_throw member (NotFound ''Workspace member not found''))"

definition assertCanManage ::
    "workspace_member \<Rightarrow> workspace_member \<Rightarrow> ('z tenancy_scheme, unit) action" where
  "assertCanManage caller target =
     require (\<not> (wm_role caller = WorkspaceRole.ADMIN \<and> wm_role target = WorkspaceRole.OWNER))
       (Forbidden ''Admins cannot modify owners'')"

definition active_owner :: "uuid \<Rightarrow> workspace_member \<Rightarrow> bool" where
  "active_owner workspaceId m \<longleftrightarrow>
     wm_workspaceId m = workspaceId \<and> wm_role m = WorkspaceRole.OWNER \<and> wm_status m = ACTIVE"

definition assertAnotherOwner :: "uuid \<Rightarrow> uuid \<Rightarrow> ('z tenancy_scheme, unit) action" where
  "assertAnotherOwner workspaceId excludingId =
     await (reads (\<lambda>s. length (filter (\<lambda>m. active_owner workspaceId m \<and> wm_id m \<noteq> excludingId)
              (ws_members s)))) (\<lambda>count.
     require (count \<noteq> 0) (BadRequest (JStr ''Cannot modify the last workspace owner'')))"

definition list_members ::
    "uuid \<Rightarrow> uuid \<Rightarrow> ('z tenancy_scheme, workspace_member list) action" where
  "list_members workspaceId userId =
     await (requireMember userId workspaceId) (\<lambda>_.
     reads (\<lambda>s. sort_key wm_createdAt (filter (\<lambda>m. wm_workspaceId m = workspaceId) (ws_members s))))"

definition changeRole ::
    "uuid \<Rightarrow> uuid \<Rightarrow> WorkspaceRole \<Rightarrow> uuid \<Rightarrow> ('z tenancy_scheme, workspace_member) action" where
  "changeRole workspaceId memberId role userId =
     await (requireRole userId workspaceId MANAGE) (\<lambda>caller.
     await (find_member workspaceId memberId) (\<lambda>target.
     await (assertCanManage caller target) (\<lambda>_.
     await (if wm_role target = WorkspaceRole.OWNER \<and> role \<noteq> WorkspaceRole.OWNER
            then assertAnotherOwner workspaceId (wm_id target) else ok ()) (\<lambda>_.
     await (require (\<not> (role = WorkspaceRole.OWNER \<and> wm_role caller \<noteq> WorkspaceRole.OWNER))
              (Forbidden ''Only owners can transfer ownership'')) (\<lambda>_.
     save_member (target\<lparr>wm_role := role\<rparr>))))))"

text \<open>
  \<open>RealtimeGateway.disconnectWorkspaceMember\<close>: every socket of the user's room is told and
  closed.
\<close>

definition disconnectWorkspaceMember :: "uuid \<Rightarrow> uuid \<Rightarrow> ('z tenancy_scheme, unit) action" where
  "disconnectWorkspaceMember workspaceId userId =
     await (has_listeners (room_user userId)) (\<lambda>live.
     if \<not> live then ok ()
     else await (emit_to_room (room_user userId) ''workspace.access.revoked''
                   (JObj [(''workspaceId'', JStr workspaceId)])) (\<lambda>_.
          writes (disconnects_update (\<lambda>d. d @ [(workspaceId, userId)]))))"

definition setStatus ::
    "uuid \<Rightarrow> uuid \<Rightarrow> uuid \<Rightarrow> WorkspaceMemberStatus \<Rightarrow>
     ('z tenancy_scheme, workspace_member) action" where
  "setStatus workspaceId memberId userId status =
     await (requireRole userId workspaceId MANAGE) (\<lambda>caller.
     await (find_member workspaceId memberId) (\<lambda>target.
     await (assertCanManage caller target) (\<lambda>_.
     await (if wm_role target = WorkspaceRole.OWNER \<and> status \<noteq> ACTIVE
            then assertAnotherOwner workspaceId (wm_id target) else ok ()) (\<lambda>_.
     await (save_member (target\<lparr>wm_status := status\<rparr>)) (\<lambda>saved.
     await (if status \<noteq> ACTIVE then disconnectWorkspaceMember workspaceId (wm_userId target)
            else ok ()) (\<lambda>_.
     ok saved))))))"

definition suspend_member where
  "suspend_member workspaceId memberId userId = setStatus workspaceId memberId userId SUSPENDED"

definition restore_member where
  "restore_member workspaceId memberId userId = setStatus workspaceId memberId userId ACTIVE"

definition remove_member where
  "remove_member workspaceId memberId userId = setStatus workspaceId memberId userId REMOVED"

text \<open>The requests the membership controller serves, and a run of them.\<close>

datatype membership_request =
    ChangeRole uuid uuid WorkspaceRole uuid
  | Suspend uuid uuid uuid
  | Restore uuid uuid uuid
  | Remove uuid uuid uuid

fun serve_membership ::
    "membership_request \<Rightarrow> ('z tenancy_scheme, workspace_member) action" where
  "serve_membership (ChangeRole w i r u) = changeRole w i r u"
| "serve_membership (Suspend w i u) = suspend_member w i u"
| "serve_membership (Restore w i u) = restore_member w i u"
| "serve_membership (Remove w i u) = remove_member w i u"

fun serve_memberships :: "membership_request list \<Rightarrow> 'z tenancy_scheme \<Rightarrow> 'z tenancy_scheme" where
  "serve_memberships [] s = s"
| "serve_memberships (r # rs) s = serve_memberships rs (snd (serve_membership r s))"

section \<open>A workspace keeps an owner\<close>

definition has_owner :: "uuid \<Rightarrow> 'z tenancy_scheme \<Rightarrow> bool" where
  "has_owner w s \<longleftrightarrow> (\<exists>m \<in> set (ws_members s). active_owner w m)"

definition owner_inv :: "uuid \<Rightarrow> 'z tenancy_scheme \<Rightarrow> bool" where
  "owner_inv w s \<longleftrightarrow> keyed wm_id (ws_members s) \<and> has_owner w s"

lemma save_member_run:
  "save_member m s =
     (let m' = (if find_row wm_id (wm_id m) (ws_members s) = Some m then m
                else m\<lparr>wm_updatedAt := now s\<rparr>)
      in (Inr m', s\<lparr>ws_members := save_row wm_id m' (ws_members s)\<rparr>))"
  by (simp add: save_member_def action_simps Let_def)

lemma find_member_run [action_simps]:
  "find_member w i s =
     (case find (\<lambda>m. wm_id m = i \<and> wm_workspaceId m = w) (ws_members s) of
        None \<Rightarrow> Inl (NotFound ''Workspace member not found'') | Some m \<Rightarrow> Inr m, s)"
  by (simp add: find_member_def action_simps)

lemma keeps_find_member [keeps_intros]: "keeps P (find_member w i)"
  by (simp add: keeps_def action_simps)

lemma find_member_Inr_iff:
  "find_member w i s = (Inr m, t) \<longleftrightarrow>
   find (\<lambda>m. wm_id m = i \<and> wm_workspaceId m = w) (ws_members s) = Some m \<and> t = s"
  by (auto simp: find_member_run split: option.splits)

lemma assertAnotherOwner_run:
  "assertAnotherOwner w i s =
     (if \<exists>m \<in> set (ws_members s). active_owner w m \<and> wm_id m \<noteq> i then Inr ()
      else Inl (BadRequest (JStr ''Cannot modify the last workspace owner'')), s)"
  by (simp add: assertAnotherOwner_def action_simps filter_empty_conv)

lemma assertAnotherOwner_Inr_iff:
  "assertAnotherOwner w i s = (Inr x, t) \<longleftrightarrow>
   t = s \<and> (\<exists>m \<in> set (ws_members s). active_owner w m \<and> wm_id m \<noteq> i)"
  by (auto simp: assertAnotherOwner_run split: if_splits)

lemma reads_membership_checks [read_intros]:
  "reads_only (find_member w i)" "reads_only (assertCanManage c m)"
  "reads_only (assertAnotherOwner w i)"
  by (simp_all add: reads_only_def find_member_run assertCanManage_def assertAnotherOwner_run
        require_run)

text \<open>Saving a changed member keeps an owner when another one remains or the member is one.\<close>

lemma save_member_owner:
  assumes inv: "keyed wm_id (ws_members s)"
    and owner: "(\<exists>o' \<in> set (ws_members s). active_owner w o' \<and> wm_id o' \<noteq> wm_id m) \<or> active_owner w m"
  shows "owner_inv w (snd (save_member m s))"
proof -
  let ?m = "if find_row wm_id (wm_id m) (ws_members s) = Some m then m
            else m\<lparr>wm_updatedAt := now s\<rparr>"
  have id: "wm_id ?m = wm_id m" by simp
  have ao: "active_owner w ?m = active_owner w m" by (simp add: active_owner_def)
  have rows: "set (save_row wm_id ?m (ws_members s)) =
      insert ?m {x \<in> set (ws_members s). wm_id x \<noteq> wm_id m}"
    using ws_member_repo.rows_save [OF inv, of ?m] id by simp
  have "has_owner w (s\<lparr>ws_members := save_row wm_id ?m (ws_members s)\<rparr>)"
  proof (cases "active_owner w m")
    case True
    with ao have "active_owner w ?m" by simp
    then show ?thesis unfolding has_owner_def by (auto simp: rows)
  next
    case False
    with owner show ?thesis unfolding has_owner_def by (auto simp: rows)
  qed
  moreover have "keyed wm_id (save_row wm_id ?m (ws_members s))"
    using inv by (rule ws_member_repo.inv_save)
  ultimately show ?thesis
    by (simp add: owner_inv_def save_member_run Let_def)
qed

lemma keeps_disconnect [keeps_intros]:
  "(\<And>s f. P s \<Longrightarrow> P (emitted_update f s)) \<Longrightarrow> (\<And>s f. P s \<Longrightarrow> P (disconnects_update f s)) \<Longrightarrow>
   keeps P (disconnectWorkspaceMember w u)"
  unfolding disconnectWorkspaceMember_def emit_to_room_def has_listeners_def
  by (intro keeps_intros) auto

text \<open>
  The shape the two membership operations share: after the checks one member \<open>target\<close> is
  saved as \<open>f target\<close>, which may lose its owner status only when another active owner was
  found.
\<close>

lemma member_change_keeps_owner:
  assumes inv: "owner_inv w s"
    and target: "find (\<lambda>m. wm_id m = i \<and> wm_workspaceId m = v) (ws_members s) = Some target"
    and same: "wm_id (f target) = wm_id target" "wm_workspaceId (f target) = wm_workspaceId target"
    and lose: "active_owner v target \<Longrightarrow> \<not> active_owner v (f target) \<Longrightarrow>
       \<exists>m \<in> set (ws_members s). active_owner v m \<and> wm_id m \<noteq> wm_id target"
  shows "owner_inv w (snd (save_member (f target) s))"
proof (rule save_member_owner)
  show keyed: "keyed wm_id (ws_members s)" using inv by (simp add: owner_inv_def)
  obtain o' where o': "o' \<in> set (ws_members s)" "active_owner w o'"
    using inv by (auto simp: owner_inv_def has_owner_def)
  have t: "target \<in> set (ws_members s)" "wm_workspaceId target = v"
    using find_Some_conv [OF target] by auto
  show "(\<exists>o' \<in> set (ws_members s). active_owner w o' \<and> wm_id o' \<noteq> wm_id (f target)) \<or>
        active_owner w (f target)"
  proof (cases "wm_id o' = wm_id target")
    case False
    then show ?thesis using o' same by auto
  next
    case True
    then have "o' = target"
      using ws_member_repo.key_unique [OF keyed] o'(1) t(1) by blast
    with o'(2) t(2) have "w = v" by (auto simp: active_owner_def)
    with lose o'(2) \<open>o' = target\<close> same show ?thesis by auto
  qed
qed

text \<open>The checks before the save are the same in both operations.\<close>

lemma checked_save_keeps_owner:
  assumes inv: "owner_inv w s"
    and found: "find_member v i s = (Inr target, s)"
    and guard: "(if wm_role target = WorkspaceRole.OWNER \<and> c
      then assertAnotherOwner v (wm_id target) else ok ()) s = (Inr z, s)"
    and same: "wm_id (f target) = wm_id target" "wm_workspaceId (f target) = wm_workspaceId target"
    and lose: "active_owner v target \<Longrightarrow> \<not> active_owner v (f target) \<Longrightarrow> c"
  shows "leaves (owner_inv w) (save_member (f target)) s"
  unfolding leaves_def
  by (rule member_change_keeps_owner [OF inv, of i v])
     (use found guard lose same in
       \<open>auto simp: find_member_Inr_iff assertAnotherOwner_Inr_iff active_owner_def split: if_splits\<close>)

lemma changeRole_keeps_owner: "owner_inv w s \<Longrightarrow> leaves (owner_inv w) (changeRole v i r u) s"
  unfolding changeRole_def
  apply (rule leaves_guard, (rule read_intros)+, assumption)+
  apply (rule checked_save_keeps_owner [where f = "wm_role_update (\<lambda>_. r)"], assumption,
      assumption, assumption)
    apply (auto simp: active_owner_def)
  done

lemma setStatus_keeps_owner: "owner_inv w s \<Longrightarrow> leaves (owner_inv w) (setStatus v i u st) s"
  unfolding setStatus_def
  apply (rule leaves_guard, (rule read_intros)+, assumption)+
  apply (rule leaves_step)
   apply (rule checked_save_keeps_owner [where f = "wm_status_update (\<lambda>_. st)"], assumption,
      assumption, assumption)
     apply (auto simp: active_owner_def owner_inv_def has_owner_def intro!: leaves_keeps keeps_intros)
  done

lemma serve_membership_keeps_owner: "owner_inv w s \<Longrightarrow> leaves (owner_inv w) (serve_membership r) s"
  by (cases r) (simp_all add: changeRole_keeps_owner setStatus_keeps_owner suspend_member_def
      restore_member_def remove_member_def)

text \<open>C3: whatever sequence of role changes, suspensions, restorations and removals is served, by
  whatever callers, a workspace that has an active owner keeps having one.\<close>

theorem workspace_keeps_owner:
  assumes "keyed wm_id (ws_members s)" and "has_owner w s"
  shows "has_owner w (serve_memberships rs s)"
proof -
  have "owner_inv w s \<Longrightarrow> owner_inv w (serve_memberships rs s)"
    using serve_membership_keeps_owner [of w]
    by (induction rs arbitrary: s) (auto simp: leaves_def)
  then show ?thesis
    using assms by (simp add: owner_inv_def)
qed

text \<open>A run on the small instance: bob is promoted by ann, then suspends her.\<close>

theorem workspace_keeps_owner_witness:
  "has_owner ''w'' (serve_memberships
     [ChangeRole ''w'' ''m2'' WorkspaceRole.OWNER ''ann'', Suspend ''w'' ''m1'' ''bob'',
      ChangeRole ''w'' ''m2'' COMMENTER ''bob''] demo_tenancy)"
  by (rule workspace_keeps_owner)
     (auto simp: keyed_def has_owner_def active_owner_def demo_simps)

section \<open>Invitations\<close>

definition hash_token :: "string \<Rightarrow> ('z tenancy_scheme, string) action" where
  "hash_token token = reads (\<lambda>s. sha256 s token)"

definition new_token :: "('z tenancy_scheme, string) action" where
  "new_token = await (reads (\<lambda>s. tokens s (token_next s))) (\<lambda>t.
     await (writes (token_next_update Suc)) (\<lambda>_. ok t))"

text \<open>The partial unique index \<open>uq_workspace_invitation_pending\<close>; \<open>email\<close> is \<open>citext\<close>.\<close>

definition pending_for :: "uuid \<Rightarrow> string \<Rightarrow> workspace_invitation \<Rightarrow> bool" where
  "pending_for w email i \<longleftrightarrow>
     wi_workspaceId i = w \<and> js_lower (wi_email i) = js_lower email \<and> wi_status i = PENDING"

definition insert_invitation :: "workspace_invitation \<Rightarrow> ('z tenancy_scheme, unit) action" where
  "insert_invitation i =
     await (reads invitations) (\<lambda>rows.
     await (require (\<not> list_ex (\<lambda>r. wi_tokenHash r = wi_tokenHash i) rows)
              (QueryFailed ''workspace_invitation_token_hash_key'')) (\<lambda>_.
     await (require (\<not> (wi_status i = PENDING \<and>
                        list_ex (pending_for (wi_workspaceId i) (wi_email i)) rows))
              (QueryFailed ''uq_workspace_invitation_pending'')) (\<lambda>_.
     writes (invitations_update (\<lambda>t. t @ [i])))))"

definition save_invitation :: "workspace_invitation \<Rightarrow> ('z tenancy_scheme, unit) action" where
  "save_invitation i = await current_time (\<lambda>t.
     writes (invitations_update (save_row wi_id (i\<lparr>wi_updatedAt := t\<rparr>))))"

text \<open>
  The controller gets the invitation without its hash and, outside production, the token: the
  pair below.
\<close>

definition create_invitation ::
    "uuid \<Rightarrow> string \<Rightarrow> WorkspaceRole \<Rightarrow> uuid \<Rightarrow>
     ('z tenancy_scheme, workspace_invitation \<times> string option) action" where
  "create_invitation workspaceId dto_email dto_role userId =
     await (requireRole userId workspaceId MANAGE) (\<lambda>caller.
     await (require (\<not> (dto_role = WorkspaceRole.OWNER \<and> wm_role caller \<noteq> WorkspaceRole.OWNER))
              (Conflict (JStr ''Only owners can invite owners''))) (\<lambda>_.
     let email = js_lower (js_trim dto_email) in
     await (reads (\<lambda>s. list_ex (pending_for workspaceId email) (invitations s))) (\<lambda>pending.
     await (require (\<not> pending) (Conflict (JStr ''A pending invitation already exists''))) (\<lambda>_.
     await new_token (\<lambda>token.
     await (hash_token token) (\<lambda>h.
     await current_time (\<lambda>t.
     await gen_uuid (\<lambda>u.
     let invitation = \<lparr> wi_id = u, wi_organizationId = wm_organizationId caller,
           wi_workspaceId = workspaceId, wi_email = email, wi_role = dto_role, wi_tokenHash = h,
           wi_invitedBy = userId, wi_expiresAt = t + 7 * 24 * 60 * 60000, wi_acceptedAt = None,
           wi_revokedAt = None, wi_status = PENDING, wi_createdAt = t, wi_updatedAt = t \<rparr> in
     await (insert_invitation invitation) (\<lambda>_.
     await (reads production) (\<lambda>prod.
     ok (invitation, if prod then None else Some token)))))))))))"

definition list_invitations ::
    "uuid \<Rightarrow> uuid \<Rightarrow> ('z tenancy_scheme, workspace_invitation list) action" where
  "list_invitations workspaceId userId =
     await (requireRole userId workspaceId MANAGE) (\<lambda>_.
     reads (\<lambda>s. sort_desc wi_createdAt
              (filter (\<lambda>i. wi_workspaceId i = workspaceId) (invitations s))))"

definition revoke_invitation :: "uuid \<Rightarrow> uuid \<Rightarrow> uuid \<Rightarrow> ('z tenancy_scheme, bool) action" where
  "revoke_invitation workspaceId i userId =
     await (requireRole userId workspaceId MANAGE) (\<lambda>_.
     await (reads (\<lambda>s. find (\<lambda>r. wi_id r = i \<and> wi_workspaceId r = workspaceId \<and>
              wi_status r = PENDING) (invitations s))) (\<lambda>found.
     await (some_or_throw found (NotFound ''Pending invitation not found'')) (\<lambda>invitation.
     await current_time (\<lambda>t.
     await (save_invitation (invitation\<lparr>wi_status := REVOKED, wi_revokedAt := Some t\<rparr>)) (\<lambda>_.
     ok True)))))"

definition member_of :: "uuid \<Rightarrow> uuid \<Rightarrow> 'z tenancy_scheme \<Rightarrow> workspace_member option" where
  "member_of w u s = find (\<lambda>m. wm_workspaceId m = w \<and> wm_userId m = u) (ws_members s)"

definition insert_member :: "workspace_member \<Rightarrow> ('z tenancy_scheme, unit) action" where
  "insert_member m =
     await (reads (member_of (wm_workspaceId m) (wm_userId m))) (\<lambda>clash.
     await (require (clash = None) (QueryFailed ''uq_workspace_member'')) (\<lambda>_.
     writes (ws_members_update (\<lambda>t. t @ [m]))))"

text \<open>The body of \<open>accept\<close>, step by step: what the invitation allows, then the membership.\<close>

definition join_workspace ::
    "workspace_invitation \<Rightarrow> uuid \<Rightarrow> ('z tenancy_scheme, workspace_member) action" where
  "join_workspace invitation userId =
     await (reads (member_of (wi_workspaceId invitation) userId)) (\<lambda>found.
     case found of
       Some m \<Rightarrow> save_member (m\<lparr>wm_role := wi_role invitation, wm_status := ACTIVE\<rparr>)
     | None \<Rightarrow>
         await current_time (\<lambda>t.
         await gen_uuid (\<lambda>u.
         let m = \<lparr> wm_id = u, wm_organizationId = wi_organizationId invitation,
                   wm_workspaceId = wi_workspaceId invitation, wm_userId = userId,
                   wm_role = wi_role invitation, wm_status = ACTIVE,
                   wm_invitedBy = Some (wi_invitedBy invitation), wm_joinedAt = Some t,
                   wm_createdAt = t, wm_updatedAt = t \<rparr>
         in await (insert_member m) (\<lambda>_. ok m))))"

definition use_invitation ::
    "workspace_invitation \<Rightarrow> uuid \<Rightarrow> ('z tenancy_scheme, workspace_member) action" where
  "use_invitation invitation userId =
     await (require (wi_status invitation = PENDING) (Gone ''Invitation is no longer valid'')) (\<lambda>_.
     await current_time (\<lambda>t.
     if wi_expiresAt invitation \<le> t
     then await (save_invitation (invitation\<lparr>wi_status := EXPIRED\<rparr>)) (\<lambda>_.
          throw (Gone ''Invitation expired''))
     else await (join_workspace invitation userId) (\<lambda>m.
          await (save_invitation (invitation\<lparr>wi_status := ACCEPTED, wi_acceptedAt := Some t\<rparr>)) (\<lambda>_.
          ok m))))"

definition accept_body :: "string \<Rightarrow> uuid \<Rightarrow> ('z tenancy_scheme, workspace_member) action" where
  "accept_body token userId =
     await (hash_token token) (\<lambda>h.
     await (reads (\<lambda>s. find (\<lambda>i. wi_tokenHash i = h) (invitations s))) (\<lambda>found.
     await (some_or_throw found (NotFound ''Invitation not found'')) (\<lambda>invitation.
     await (reads (\<lambda>s. find (\<lambda>u. usr_id u = userId) (users s))) (\<lambda>foundUser.
     await (some_or_throw foundUser (PlainError ''EntityNotFoundError'')) (\<lambda>user.
     await (require (js_lower (usr_email user) = js_lower (wi_email invitation))
              (Conflict (JStr ''Invitation email does not match current user''))) (\<lambda>_.
     await (reads (member_of (wi_workspaceId invitation) userId)) (\<lambda>existing.
     case (wi_status invitation = ACCEPTED, existing) of
       (True, Some m) \<Rightarrow> ok m
     | _ \<Rightarrow> use_invitation invitation userId)))))))"

definition accept_invitation :: "string \<Rightarrow> uuid \<Rightarrow> ('z tenancy_scheme, workspace_member) action" where
  "accept_invitation token userId = transaction (accept_body token userId)"

subsection \<open>Accepting is all or nothing, and idempotent\<close>

lemma join_workspace_Inr:
  assumes "join_workspace i u s = (Inr m, t)" and "keyed wm_id (ws_members s)"
  shows "member_of (wi_workspaceId i) u t = Some m \<and> invitations t = invitations s \<and>
    users t = users s \<and> sha256 t = sha256 s \<and> now t = now s \<and>
    wm_role m = wi_role i \<and> wm_status m = ACTIVE"
proof (cases "member_of (wi_workspaceId i) u s")
  case None
  then show ?thesis
    using assms
    by (auto simp: join_workspace_def insert_member_def action_simps Let_def member_of_def
          find_append)
next
  case (Some x)
  then have "wm_workspaceId x = wi_workspaceId i \<and> wm_userId x = u"
    by (auto simp: member_of_def dest: find_Some_conv)
  with Some assms show ?thesis
    by (auto simp: join_workspace_def action_simps save_member_run Let_def member_of_def
          find_save_row split: if_splits)
qed

lemma use_invitation_Inr_iff:
  "use_invitation i u s = (Inr m, t) \<longleftrightarrow>
   wi_status i = PENDING \<and> now s < wi_expiresAt i \<and>
   (\<exists>s1. join_workspace i u s = (Inr m, s1) \<and>
     t = s1\<lparr>invitations := save_row wi_id (i\<lparr>wi_status := ACCEPTED, wi_acceptedAt := Some (now s),
            wi_updatedAt := now s1\<rparr>) (invitations s1)\<rparr>)"
  by (auto simp: use_invitation_def save_invitation_def action_Inr current_time_run
        split: if_splits)

lemma accept_body_Inr_iff:
  "accept_body tok u s = (Inr m, t) \<longleftrightarrow>
   (\<exists>i usr. find (\<lambda>i. wi_tokenHash i = sha256 s tok) (invitations s) = Some i \<and>
      find (\<lambda>x. usr_id x = u) (users s) = Some usr \<and>
      js_lower (usr_email usr) = js_lower (wi_email i) \<and>
      (if wi_status i = ACCEPTED \<and> member_of (wi_workspaceId i) u s \<noteq> None
       then member_of (wi_workspaceId i) u s = Some m \<and> t = s
       else use_invitation i u s = (Inr m, t)))"
  by (cases "find (\<lambda>i. wi_tokenHash i = sha256 s tok) (invitations s)";
      cases "find (\<lambda>x. usr_id x = u) (users s)")
     (auto simp: accept_body_def hash_token_def action_Inr split: option.splits bool.splits)

text \<open>C4: accepting an invitation is all or nothing: a refused acceptance leaves no trace, and an
  accepted one can be repeated, which returns the same membership and changes nothing more.\<close>

theorem accept_atomic_idempotent:
  assumes "keyed wm_id (ws_members s)" and "keyed wi_id (invitations s)"
  shows "case accept_invitation tok u s of
     (Inl e, t) \<Rightarrow> t = s
   | (Inr m, t) \<Rightarrow> member_of (wm_workspaceId m) u t = Some m \<and>
                  accept_invitation tok u t = (Inr m, t)"
proof (cases "accept_invitation tok u s")
  case (Pair r t)
  show ?thesis
  proof (cases r)
    case (Inl e)
    with Pair transaction_Inl show ?thesis by (auto simp: accept_invitation_def)
  next
    case (Inr m)
    with Pair have "accept_body tok u s = (Inr m, t)"
      by (simp add: accept_invitation_def transaction_Inr_iff)
    then obtain i usr where
      i: "find (\<lambda>i. wi_tokenHash i = sha256 s tok) (invitations s) = Some i" and
      usr: "find (\<lambda>x. usr_id x = u) (users s) = Some usr"
        "js_lower (usr_email usr) = js_lower (wi_email i)" and
      end': "if wi_status i = ACCEPTED \<and> member_of (wi_workspaceId i) u s \<noteq> None
        then member_of (wi_workspaceId i) u s = Some m \<and> t = s
        else use_invitation i u s = (Inr m, t)"
      unfolding accept_body_Inr_iff by blast
    have m_in: "wm_workspaceId m = v" if "member_of v u t' = Some m" for v t'
      using that by (auto simp: member_of_def dest: find_Some_conv)
    show ?thesis
    proof (cases "wi_status i = ACCEPTED \<and> member_of (wi_workspaceId i) u s \<noteq> None")
      case True
      with end' have "member_of (wi_workspaceId i) u s = Some m" "t = s" by simp_all
      with m_in [of "wi_workspaceId i" s] Pair Inr show ?thesis by simp
    next
      case False
      with end' obtain s1 where
        join: "join_workspace i u s = (Inr m, s1)" and
        t: "t = s1\<lparr>invitations := save_row wi_id (i\<lparr>wi_status := ACCEPTED,
             wi_acceptedAt := Some (now s), wi_updatedAt := now s1\<rparr>) (invitations s1)\<rparr>"
        by (auto simp: use_invitation_Inr_iff)
      note s1 = join_workspace_Inr [OF join assms(1)]
      have "member_of (wi_workspaceId i) u t = Some m"
        using s1 t by (simp add: member_of_def)
      moreover have "find (\<lambda>i. wi_tokenHash i = sha256 t tok) (invitations t) =
          Some (i\<lparr>wi_status := ACCEPTED, wi_acceptedAt := Some (now s), wi_updatedAt := now s1\<rparr>)"
        using s1 t i assms(2) find_Some_conv [OF i] by (simp add: find_save_row)
      ultimately have "accept_body tok u t = (Inr m, t)"
        using usr s1 t by (auto simp: accept_body_Inr_iff)
      then have "accept_invitation tok u t = (Inr m, t)"
        by (simp add: accept_invitation_def transaction_Inr_iff)
      with m_in [of "wi_workspaceId i" t] \<open>member_of (wi_workspaceId i) u t = Some m\<close> Pair Inr
      show ?thesis by simp
    qed
  qed
qed

subsection \<open>At most one pending invitation\<close>

definition pending_unique :: "'z tenancy_scheme \<Rightarrow> bool" where
  "pending_unique s \<longleftrightarrow>
     distinct (map (\<lambda>i. (wi_workspaceId i, js_lower (wi_email i)))
       (filter (\<lambda>i. wi_status i = PENDING) (invitations s)))"

lemma char_lower_idem [simp]: "char_lower (char_lower c) = char_lower c"
  by (auto simp: char_lower_def Let_def)

lemma js_lower_idem [simp]: "js_lower (js_lower e) = js_lower e"
  by (simp add: js_lower_def)

lemma pending_unique_append:
  "pending_unique s \<Longrightarrow>
   wi_status i = PENDING \<longrightarrow> \<not> list_ex (pending_for (wi_workspaceId i) (wi_email i)) (invitations s) \<Longrightarrow>
   pending_unique (invitations_update (\<lambda>t. t @ [i]) s)"
  by (auto simp: pending_unique_def pending_for_def list_ex_iff)

lemma pending_unique_close:
  "pending_unique s \<Longrightarrow> wi_status i \<noteq> PENDING \<Longrightarrow>
   pending_unique (invitations_update (save_row wi_id i) s)"
proof -
  assume "wi_status i \<noteq> PENDING"
  then have "set (filter (\<lambda>i. wi_status i = PENDING) (save_row wi_id i t)) \<subseteq>
      set (filter (\<lambda>i. wi_status i = PENDING) t)" for t
    using set_save_row_subset [of wi_id i t] by auto
  with \<open>wi_status i \<noteq> PENDING\<close> have "distinct (map g (filter (\<lambda>i. wi_status i = PENDING) t)) \<Longrightarrow>
      distinct (map g (filter (\<lambda>i. wi_status i = PENDING) (save_row wi_id i t)))"
    for t and g :: "workspace_invitation \<Rightarrow> string \<times> string"
    by (induction t) (auto simp: image_iff, blast)
  then show "pending_unique s \<Longrightarrow> ?thesis"
    by (simp add: pending_unique_def)
qed

datatype invitation_request =
    Invite uuid string WorkspaceRole uuid
  | Revoke uuid uuid uuid
  | Accept string uuid

fun serve_invitation :: "invitation_request \<Rightarrow> ('z tenancy_scheme, unit) action" where
  "serve_invitation (Invite w e r u) = await (create_invitation w e r u) (\<lambda>_. ok ())"
| "serve_invitation (Revoke w i u) = await (revoke_invitation w i u) (\<lambda>_. ok ())"
| "serve_invitation (Accept tok u) = await (accept_invitation tok u) (\<lambda>_. ok ())"

lemma keeps_pending_save:
  "wi_status i \<noteq> PENDING \<Longrightarrow> keeps pending_unique (save_invitation i)"
  unfolding save_invitation_def
  by (intro keeps_intros keeps_current_time pending_unique_close) auto

lemma pending_unique_db_only: "db_only pending_unique"
  by (rule db_onlyI) (simp_all add: pending_unique_def)

lemma keeps_pending_insert: "keeps pending_unique (insert_invitation i)"
  by (rule keepsI) (auto simp: insert_invitation_def action_simps intro!: pending_unique_append)

lemma keeps_pending_serve: "keeps pending_unique (serve_invitation r)"
proof -
  have frame: "pending_unique (f s) = pending_unique s"
    if "invitations (f s) = invitations s" for f :: "'z tenancy_scheme \<Rightarrow> 'z tenancy_scheme" and s
    using that by (simp add: pending_unique_def)
  show ?thesis
    by (cases r)
       (auto simp: create_invitation_def revoke_invitation_def accept_invitation_def
          accept_body_def use_invitation_def join_workspace_def save_member_def insert_member_def
          new_token_def hash_token_def Let_def frame
          intro!: keeps_intros keeps_pending_save keeps_pending_insert pending_unique_db_only
          split: bool.split option.split)
qed

fun serve_invitations :: "invitation_request list \<Rightarrow> 'z tenancy_scheme \<Rightarrow> 'z tenancy_scheme" where
  "serve_invitations [] s = s"
| "serve_invitations (r # rs) s = serve_invitations rs (snd (serve_invitation r s))"

lemma serve_invitations_pending: "pending_unique s \<Longrightarrow> pending_unique (serve_invitations rs s)"
  using keeps_pending_serve by (induction rs arbitrary: s) (auto simp: keeps_def)

lemma create_invitation_no_clash:
  "fst (create_invitation w e r u s) \<noteq> Inl (QueryFailed ''uq_workspace_invitation_pending'')"
  by (auto simp: create_invitation_def insert_invitation_def new_token_def hash_token_def Let_def
        action_simps pending_for_def split: option.splits sum.splits if_splits)

text \<open>C5: whatever sequence of invitations, revocations and acceptances is served, no address has
  two pending invitations to the same workspace, and inviting never runs into the unique index of
  the database: the check before it answers first.\<close>

theorem one_pending_invitation:
  assumes "pending_unique s"
  shows "pending_unique (serve_invitations rs s) \<and>
    fst (create_invitation w e r u (serve_invitations rs s)) \<noteq>
      Inl (QueryFailed ''uq_workspace_invitation_pending'')"
  using assms by (simp add: serve_invitations_pending create_invitation_no_clash)

theorem one_pending_invitation_witness:
  "pending_unique (serve_invitations [Invite ''w'' '' Zoe '' EDITOR ''ann'', Accept ''tok'' ''bob'']
     demo_tenancy)"
  by (rule one_pending_invitation [THEN conjunct1])
     (simp add: pending_unique_def demo_simps)

theorem accept_atomic_idempotent_witness:
  "case accept_invitation ''tok'' ''bob''
      (serve_invitations [Invite ''w'' ''Bob'' COMMENTER ''ann''] demo_tenancy) of
     (Inl e, t) \<Rightarrow> False
   | (Inr m, t) \<Rightarrow> member_of (wm_workspaceId m) ''bob'' t = Some m \<and>
                  accept_invitation ''tok'' ''bob'' t = (Inr m, t)"
proof -
  let ?s = "serve_invitations [Invite ''w'' ''Bob'' COMMENTER ''ann''] demo_tenancy"
  have ok: "case fst (accept_invitation ''tok'' ''bob'' ?s) of Inl e \<Rightarrow> False | Inr m \<Rightarrow> True"
    by code_simp
  have "keyed wm_id (ws_members ?s)" "keyed wi_id (invitations ?s)"
    by code_simp+
  from accept_atomic_idempotent [OF this, where tok = "''tok''" and u = "''bob''"] ok show ?thesis
    by (auto split: prod.splits sum.splits)
qed

subsection \<open>Expiry is never stored\<close>

text \<open>accepting an expired invitation answers 410 and leaves the invitation pending, since the
  transaction takes the EXPIRED status back; the address then cannot be invited again, although
  nobody can use the invitation any more.\<close>

theorem expired_invitation_blocks_reinvite:
  assumes "find (\<lambda>i. wi_tokenHash i = sha256 s tok) (invitations s) = Some i"
    and "wi_status i = PENDING" and "wi_expiresAt i \<le> now s"
    and "find (\<lambda>x. usr_id x = u) (users s) = Some usr"
    and "js_lower (usr_email usr) = js_lower (wi_email i)"
    and "can_ws v (wi_workspaceId i) MANAGE s" and "js_lower (js_trim e) = js_lower (wi_email i)"
    and "r \<noteq> WorkspaceRole.OWNER"
  shows "accept_invitation tok u s = (Inl (Gone ''Invitation expired''), s) \<and>
    create_invitation (wi_workspaceId i) e r v s =
      (Inl (Conflict (JStr ''A pending invitation already exists'')), s)"
proof -
  have "fst (accept_body tok u s) = Inl (Gone ''Invitation expired'')"
    using assms by (simp add: accept_body_def use_invitation_def save_invitation_def hash_token_def
        action_simps split: prod.split option.split)
  then have "accept_invitation tok u s = (Inl (Gone ''Invitation expired''), s)"
    by (cases "accept_body tok u s") (simp add: accept_invitation_def transaction_run)
  moreover have "list_ex (pending_for (wi_workspaceId i) (js_lower (js_trim e))) (invitations s)"
    using find_Some_conv [OF assms(1)] assms by (auto simp: list_ex_iff pending_for_def)
  ultimately show ?thesis
    using assms
    by (auto simp: create_invitation_def action_simps can_ws_find Let_def split: option.splits)
qed

definition demo_invitation :: "time \<Rightarrow> WorkspaceRole \<Rightarrow> workspace_invitation" where
  "demo_invitation expires r = \<lparr> wi_id = ''i'', wi_organizationId = ''o'', wi_workspaceId = ''w'',
     wi_email = ''ann'', wi_role = r, wi_tokenHash = ''h'', wi_invitedBy = ''ann'',
     wi_expiresAt = expires, wi_acceptedAt = None, wi_revokedAt = None, wi_status = PENDING,
     wi_createdAt = 0, wi_updatedAt = 0 \<rparr>"

theorem expired_invitation_blocks_reinvite_witness:
  "accept_invitation ''h'' ''ann'' (demo_tenancy\<lparr>invitations := [demo_invitation 5 EDITOR]\<rparr>) =
     (Inl (Gone ''Invitation expired''), demo_tenancy\<lparr>invitations := [demo_invitation 5 EDITOR]\<rparr>)"
proof -
  have lower: "js_lower ''ann'' = ''ann''" "js_lower ''Ann'' = ''ann''" "js_trim ''ann'' = ''ann''"
    by code_simp+
  show ?thesis
    by (rule expired_invitation_blocks_reinvite [where i = "demo_invitation 5 EDITOR" and
          v = "''ann''" and e = "''ann''" and r = EDITOR, THEN conjunct1])
       (auto simp: demo_invitation_def demo_simps can_ws_def active_member_def MANAGE_def lower)
qed

text \<open>
  An invitation also overwrites the role of a member who has one: the only owner, invited as a
  viewer, stops being the owner by accepting, and the workspace is left without one. The check
  for another owner that the membership service makes is missing here.
\<close>

lemma accept_can_demote_the_last_owner:
  "has_owner ''w'' (demo_tenancy\<lparr>invitations := [demo_invitation 50 WorkspaceRole.VIEWER]\<rparr>) \<and>
   \<not> has_owner ''w'' (snd (accept_invitation ''h'' ''ann''
        (demo_tenancy\<lparr>invitations := [demo_invitation 50 WorkspaceRole.VIEWER]\<rparr>)))"
  by code_simp

section \<open>Workspaces\<close>

record create_workspace_dto =
  cwd_name :: string
  cwd_description :: "string option"
  cwd_settings :: "json option"

record update_workspace_dto =
  uwd_name :: "string option"
  uwd_description :: "string option"
  uwd_settings :: "json option"
  uwd_version :: int

text \<open>
  \<open>find\<close> leaves soft-deleted rows out. \<open>save\<close> of a loaded workspace writes it, with a new update
  time and the next version, when a column changed.
\<close>

definition find_workspace :: "uuid \<Rightarrow> ('z tenancy_scheme, workspace) action" where
  "find_workspace i =
     await (reads (\<lambda>s. find (\<lambda>w. ws_id w = i \<and> ws_deletedAt w = None) (workspaces s)))
       (\<lambda>w. some_or_throw w (NotFound ''Workspace not found''))"

definition save_workspace :: "workspace \<Rightarrow> ('z tenancy_scheme, workspace) action" where
  "save_workspace w =
     await (reads (\<lambda>s. if find_row ws_id (ws_id w) (workspaces s) = Some w then w
                       else w\<lparr>ws_updatedAt := now s, ws_version := ws_version w + 1\<rparr>)) (\<lambda>saved.
     await (writes (workspaces_update (save_row ws_id saved))) (\<lambda>_. ok saved))"

definition createWorkspace ::
    "create_workspace_dto \<Rightarrow> uuid \<Rightarrow> uuid \<Rightarrow> ('z tenancy_scheme, workspace) action" where
  "createWorkspace dto userId organizationId =
     await (reads (\<lambda>s. list_ex (\<lambda>m. om_organizationId m = organizationId \<and> om_userId m = userId \<and>
              om_active m) (org_members s))) (\<lambda>orgMember.
     await (require orgMember (NotFound ''Organization not found'')) (\<lambda>_.
     transaction (
       await current_time (\<lambda>t.
       await gen_uuid (\<lambda>i.
       let w = \<lparr> ws_id = i, ws_organizationId = organizationId, ws_name = cwd_name dto,
             ws_description = cwd_description dto, ws_stage = CREATED, ws_thumbnailAssetId = None,
             ws_settings = (case cwd_settings dto of None \<Rightarrow> JObj [] | Some j \<Rightarrow> j),
             ws_createdBy = userId, ws_archived = False, ws_version = 1, ws_createdAt = t,
             ws_updatedAt = t, ws_deletedAt = None \<rparr> in
       await (writes (workspaces_update (\<lambda>r. r @ [w]))) (\<lambda>_.
       await gen_uuid (\<lambda>k.
       await (insert_member \<lparr> wm_id = k, wm_organizationId = organizationId, wm_workspaceId = i,
             wm_userId = userId, wm_role = WorkspaceRole.OWNER, wm_status = ACTIVE,
             wm_invitedBy = None, wm_joinedAt = Some t, wm_createdAt = t, wm_updatedAt = t \<rparr>) (\<lambda>_.
       ok w))))))))"

definition listWorkspaces :: "uuid \<Rightarrow> ('z tenancy_scheme, workspace list) action" where
  "listWorkspaces userId = reads (\<lambda>s.
     sort_desc ws_updatedAt (filter (\<lambda>w. ws_deletedAt w = None \<and>
       list_ex (\<lambda>m. wm_workspaceId m = ws_id w \<and> wm_userId m = userId \<and> wm_status m = ACTIVE)
         (ws_members s)) (workspaces s)))"

definition getWorkspace :: "uuid \<Rightarrow> uuid \<Rightarrow> ('z tenancy_scheme, workspace) action" where
  "getWorkspace i userId = await (requireMember userId i) (\<lambda>_. find_workspace i)"

text \<open>\<open>Object.assign\<close> of the defined properties of the dto other than \<open>version\<close>.\<close>

definition assign_workspace :: "update_workspace_dto \<Rightarrow> workspace \<Rightarrow> workspace" where
  "assign_workspace dto w = w\<lparr>
     ws_name := (case uwd_name dto of None \<Rightarrow> ws_name w | Some n \<Rightarrow> n),
     ws_description := (case uwd_description dto of None \<Rightarrow> ws_description w | Some d \<Rightarrow> Some d),
     ws_settings := (case uwd_settings dto of None \<Rightarrow> ws_settings w | Some j \<Rightarrow> j) \<rparr>"

definition updateWorkspace ::
    "uuid \<Rightarrow> update_workspace_dto \<Rightarrow> uuid \<Rightarrow> ('z tenancy_scheme, workspace) action" where
  "updateWorkspace i dto userId =
     await (requireRole userId i MANAGE) (\<lambda>_.
     await (find_workspace i) (\<lambda>w.
     await (require (ws_version w = uwd_version dto)
              (Conflict (JStr ''Workspace was modified; reload and retry''))) (\<lambda>_.
     save_workspace (assign_workspace dto w))))"

definition archiveWorkspace :: "uuid \<Rightarrow> uuid \<Rightarrow> bool \<Rightarrow> ('z tenancy_scheme, workspace) action" where
  "archiveWorkspace i userId arch =
     await (requireRole userId i MANAGE) (\<lambda>_.
     await (find_workspace i) (\<lambda>w.
     save_workspace (w\<lparr>ws_archived := arch, ws_stage := (if arch then ARCHIVED else CREATED)\<rparr>)))"

definition removeWorkspace :: "uuid \<Rightarrow> uuid \<Rightarrow> ('z tenancy_scheme, unit) action" where
  "removeWorkspace i userId =
     await (requireRole userId i [WorkspaceRole.OWNER]) (\<lambda>_.
     await (find_workspace i) (\<lambda>w.
     await current_time (\<lambda>t.
     writes (workspaces_update (save_row ws_id
       (w\<lparr>ws_deletedAt := Some t, ws_updatedAt := t, ws_version := ws_version w + 1\<rparr>))))))"

definition duplicateWorkspace :: "uuid \<Rightarrow> uuid \<Rightarrow> ('z tenancy_scheme, workspace) action" where
  "duplicateWorkspace i userId =
     await (getWorkspace i userId) (\<lambda>source.
     createWorkspace \<lparr> cwd_name = ws_name source @ '' Copy'', cwd_description = ws_description source,
       cwd_settings = Some (ws_settings source) \<rparr> userId (ws_organizationId source))"

subsection \<open>The creator owns the workspace; stale updates are refused\<close>

lemma find_workspace_Inr_iff:
  "find_workspace i s = (Inr w, t) \<longleftrightarrow>
   find (\<lambda>w. ws_id w = i \<and> ws_deletedAt w = None) (workspaces s) = Some w \<and> t = s"
  by (auto simp: find_workspace_def action_Inr)

lemma reads_find_workspace [read_intros]: "reads_only (find_workspace i)"
  unfolding find_workspace_def by (intro read_intros)

lemma save_workspace_run:
  "save_workspace w s =
     (let w' = (if find_row ws_id (ws_id w) (workspaces s) = Some w then w
                else w\<lparr>ws_updatedAt := now s, ws_version := ws_version w + 1\<rparr>)
      in (Inr w', s\<lparr>workspaces := save_row ws_id w' (workspaces s)\<rparr>))"
  by (simp add: save_workspace_def action_simps Let_def)

text \<open>An active member of an organization creates workspaces in it; the new workspace is
  readable by its creator, who is its one and only member, as an owner. Everybody else is told
  that the organization does not exist, and nothing is stored.\<close>

theorem created_workspace_is_owned:
  assumes fresh: "uuids s (uuid_next s) \<notin> ws_id ` set (workspaces s)"
      "uuids s (uuid_next s) \<notin> wm_workspaceId ` set (ws_members s)"
  shows "if list_ex (\<lambda>m. om_organizationId m = org \<and> om_userId m = u \<and> om_active m) (org_members s)
    then \<exists>w m t. createWorkspace dto u org s = (Inr w, t) \<and> getWorkspace (ws_id w) u t = (Inr w, t) \<and>
           ws_organizationId w = org \<and> ws_name w = cwd_name dto \<and>
           filter (\<lambda>m. wm_workspaceId m = ws_id w) (ws_members t) = [m] \<and>
           wm_userId m = u \<and> active_owner (ws_id w) m
    else createWorkspace dto u org s = (Inl (NotFound ''Organization not found''), s)"
proof -
  let ?w = "uuids s (uuid_next s)"
  have "member_of ?w u s = None"
    and "find (active_member u ?w READ) (ws_members s) = None"
    and "filter (\<lambda>m. wm_workspaceId m = ?w) (ws_members s) = []"
    and "find (\<lambda>w. ws_id w = ?w \<and> ws_deletedAt w = None) (workspaces s) = None"
    using fresh
    by (auto simp: image_iff member_of_def find_None_conv active_member_def filter_empty_conv)
  moreover have "active_member u ?w READ m" if "wm_userId m = u" "wm_workspaceId m = ?w"
      "wm_status m = ACTIVE" for m
    using that by (cases "wm_role m") (auto simp: active_member_def READ_def)
  ultimately show ?thesis
    by (simp add: createWorkspace_def insert_member_def getWorkspace_def requireMember_def
        find_workspace_def action_simps Let_def find_append active_owner_def member_of_def)
qed

theorem created_workspace_is_owned_witness:
  "\<exists>w m t. createWorkspace \<lparr> cwd_name = ''New'', cwd_description = None, cwd_settings = None \<rparr>
     ''bob'' ''o'' demo_tenancy = (Inr w, t) \<and>
     filter (\<lambda>m. wm_workspaceId m = ws_id w) (ws_members t) = [m] \<and> wm_userId m = ''bob''"
  using created_workspace_is_owned [of demo_tenancy "''o''" "''bob''"
    "\<lparr> cwd_name = ''New'', cwd_description = None, cwd_settings = None \<rparr>"]
  by (auto simp: demo_simps)

text \<open>An update is accepted only from an owner or admin who knows the current version; it
  then stores exactly the fields that were sent, and a change takes the version one further. In
  every other case it is refused and nothing is stored.\<close>

theorem update_workspace_correct:
  "case updateWorkspace i dto u s of
     (Inr w', t) \<Rightarrow>
       can_ws u i MANAGE s \<and>
       (\<exists>w. find (\<lambda>w. ws_id w = i \<and> ws_deletedAt w = None) (workspaces s) = Some w \<and>
            ws_version w = uwd_version dto \<and>
            t = s\<lparr>workspaces := save_row ws_id w' (workspaces s)\<rparr> \<and>
            (w' = assign_workspace dto w \<or>
             w' = (assign_workspace dto w)\<lparr>ws_updatedAt := now s, ws_version := ws_version w + 1\<rparr>) \<and>
            (ws_version w' = ws_version w \<longleftrightarrow>
               find_row ws_id i (workspaces s) = Some (assign_workspace dto w)))
   | (Inl e, t) \<Rightarrow> t = s"
proof (cases "updateWorkspace i dto u s")
  case (Pair r t)
  show ?thesis
  proof (cases r)
    case (Inr w')
    with Pair obtain w where
      "find (active_member u i MANAGE) (ws_members s) \<noteq> None" and
      w: "find (\<lambda>w. ws_id w = i \<and> ws_deletedAt w = None) (workspaces s) = Some w" and
      v: "ws_version w = uwd_version dto" and
      saved: "save_workspace (assign_workspace dto w) s = (Inr w', t)"
      by (auto simp: updateWorkspace_def await_Inr_iff require_Inr_iff requireRole_Inr_iff
            find_workspace_Inr_iff)
    moreover have "ws_id w = i" using find_Some_conv [OF w] by simp
    ultimately show ?thesis
      using Pair Inr
      by (auto simp: can_ws_find save_workspace_run Let_def assign_workspace_def
            split: if_splits)
  next
    case (Inl e)
    with Pair have "t = s"
      by (auto simp: updateWorkspace_def save_workspace_run Let_def find_workspace_def action_simps
            split: option.splits if_splits)
    with Pair Inl show ?thesis by simp
  qed
qed

end
