(* ===== verification/CanvasRealtime.thy ===== *)
theory CanvasRealtime
  imports Tenancy
begin

text \<open>
  The canvas entities of \<open>src/modules/canvas/entities\<close>, the state \<open>canvas_state\<close> that adds
  their tables and the in-memory maps of \<open>CanvasRealtimeService\<close>, and that service: broadcasts
  to the room of a canvas, throttled cursors, presence.
\<close>

section \<open>Entities\<close>

record canvas =
  cv_id :: uuid
  cv_workflowId :: uuid
  cv_workspaceId :: "uuid option"
  cv_revision :: int
  cv_width :: int
  cv_height :: int
  cv_background :: string
  cv_createdAt :: time
  cv_updatedAt :: time

text \<open>The \<open>double precision\<close> columns are rationals here.\<close>

record canvas_object =
  co_id :: uuid
  co_canvasId :: uuid
  co_type :: string
  co_elsaType :: "string option"
  co_label :: "string option"
  co_properties :: json
  co_positionX :: rat
  co_positionY :: rat
  co_width :: "rat option"
  co_height :: "rat option"
  co_style :: "json option"
  co_isLocked :: bool
  co_createdBy :: "uuid option"
  co_createdAt :: time
  co_updatedAt :: time

record canvas_operation =
  op_id :: uuid
  op_canvasId :: uuid
  op_organizationId :: "uuid option"
  op_workspaceId :: "uuid option"
  op_canvasObjectId :: "uuid option"
  op_userId :: uuid
  op_opType :: string
  op_opPayload :: json
  op_versionVector :: "json option"
  op_sequenceNumber :: int
  op_clientRevision :: "int option"
  op_createdAt :: time

record canvas_snapshot =
  sn_id :: uuid
  sn_canvasId :: uuid
  sn_snapshotData :: json
  sn_createdBy :: "uuid option"
  sn_trigger :: string
  sn_createdAt :: time

record canvas_version =
  cn_id :: uuid
  cn_canvasId :: uuid
  cn_workflowVersionId :: "uuid option"
  cn_snapshotId :: "uuid option"
  cn_label :: "string option"
  cn_type :: string
  cn_createdBy :: "uuid option"
  cn_createdAt :: time

record cursor_state =
  cs_positionX :: rat
  cs_positionY :: rat
  cs_selectedObjectIds :: "uuid list"
  cs_lastEmittedAt :: time

text \<open>
  \<open>cursors\<close> maps a user to the last cursor, \<open>presence\<close> a canvas to the users on it, in the
  order they joined (a \<open>Set\<close> of the language keeps it).
\<close>

record canvas_state = tenancy +
  canvases :: "canvas list"
  canvas_objects :: "canvas_object list"
  canvas_operations :: "canvas_operation list"
  canvas_snapshots :: "canvas_snapshot list"
  canvas_versions :: "canvas_version list"
  cursors :: "uuid \<rightharpoonup> cursor_state"
  presence :: "uuid \<rightharpoonup> uuid list"

interpretation canvas_repo:
  keyed_store cv_id "find_row cv_id" "save_row cv_id" "remove_row cv_id" set "keyed cv_id"
  by (rule keyed_store_rows) simp_all

interpretation canvas_object_repo:
  keyed_store co_id "find_row co_id" "save_row co_id" "remove_row co_id" set "keyed co_id"
  by (rule keyed_store_rows) simp_all

section \<open>Broadcasts\<close>

definition emitIfListeners :: "string \<Rightarrow> string \<Rightarrow> json \<Rightarrow> ('z core_scheme, unit) action" where
  "emitIfListeners room event payload =
     await (has_listeners room) (\<lambda>live. if live then emit_to_room room event payload else ok ())"

definition emitCanvasEvent :: "uuid \<Rightarrow> string \<Rightarrow> json \<Rightarrow> ('z core_scheme, unit) action" where
  "emitCanvasEvent canvasId event payload = emitIfListeners (room_canvas canvasId) event payload"

definition broadcastObjectCreated ::
    "uuid \<Rightarrow> uuid \<Rightarrow> canvas_object \<Rightarrow> ('z core_scheme, unit) action" where
  "broadcastObjectCreated canvasId workflowId obj =
     emitIfListeners (room_canvas canvasId) ''canvas.object.created'' (JObj [
       (''canvas_id'', JStr canvasId), (''workflow_id'', JStr workflowId),
       (''object_id'', JStr (co_id obj)), (''type'', JStr (co_type obj)),
       (''label'', json_str_opt (co_label obj)),
       (''position_x'', JNum (co_positionX obj)), (''position_y'', JNum (co_positionY obj))])"

definition broadcastObjectUpdated ::
    "uuid \<Rightarrow> uuid \<Rightarrow> canvas_object \<Rightarrow> ('z core_scheme, unit) action" where
  "broadcastObjectUpdated canvasId workflowId obj =
     emitIfListeners (room_canvas canvasId) ''canvas.object.updated'' (JObj [
       (''canvas_id'', JStr canvasId), (''workflow_id'', JStr workflowId),
       (''object_id'', JStr (co_id obj)), (''label'', json_str_opt (co_label obj)),
       (''position_x'', JNum (co_positionX obj)), (''position_y'', JNum (co_positionY obj)),
       (''width'', json_opt JNum (co_width obj)), (''height'', json_opt JNum (co_height obj))])"

definition broadcastObjectMoved ::
    "uuid \<Rightarrow> uuid \<Rightarrow> canvas_object \<Rightarrow> ('z core_scheme, unit) action" where
  "broadcastObjectMoved canvasId workflowId obj =
     emitIfListeners (room_canvas canvasId) ''canvas.object.moved'' (JObj [
       (''canvas_id'', JStr canvasId), (''workflow_id'', JStr workflowId),
       (''object_id'', JStr (co_id obj)),
       (''position_x'', JNum (co_positionX obj)), (''position_y'', JNum (co_positionY obj))])"

definition broadcastObjectDeleted :: "uuid \<Rightarrow> uuid \<Rightarrow> uuid \<Rightarrow> ('z core_scheme, unit) action" where
  "broadcastObjectDeleted canvasId workflowId objectId =
     emitIfListeners (room_canvas canvasId) ''canvas.object.deleted'' (JObj [
       (''canvas_id'', JStr canvasId), (''workflow_id'', JStr workflowId),
       (''object_id'', JStr objectId)])"

definition broadcastCanvasCommitted ::
    "uuid \<Rightarrow> uuid \<Rightarrow> canvas_version \<Rightarrow> uuid \<Rightarrow> int \<Rightarrow> ('z core_scheme, unit) action" where
  "broadcastCanvasCommitted canvasId workflowId v workflowVersionId versionNumber =
     emitIfListeners (room_canvas canvasId) ''canvas.committed'' (JObj [
       (''canvas_id'', JStr canvasId), (''workflow_id'', JStr workflowId),
       (''version_id'', JStr (cn_id v)), (''workflow_version_id'', JStr workflowVersionId),
       (''version_number'', json_int versionNumber)])"

record operation_accepted =
  oa_organization_id :: uuid
  oa_workspace_id :: uuid
  oa_canvas_id :: uuid
  oa_operation_id :: uuid
  oa_actor_id :: uuid
  oa_canvas_revision :: int
  oa_occurred_at :: time

definition broadcastOperationAccepted :: "operation_accepted \<Rightarrow> ('z core_scheme, unit) action" where
  "broadcastOperationAccepted p =
     emitCanvasEvent (oa_canvas_id p) ''canvas.operation.accepted'' (JObj [
       (''organization_id'', JStr (oa_organization_id p)),
       (''workspace_id'', JStr (oa_workspace_id p)), (''canvas_id'', JStr (oa_canvas_id p)),
       (''operation_id'', JStr (oa_operation_id p)), (''actor_id'', JStr (oa_actor_id p)),
       (''canvas_revision'', json_int (oa_canvas_revision p)),
       (''occurred_at'', json_date (oa_occurred_at p))])"

record operation_rejected =
  or_organization_id :: uuid
  or_workspace_id :: uuid
  or_canvas_id :: uuid
  or_operation_id :: uuid
  or_actor_id :: uuid
  or_client_revision :: int
  or_current_revision :: int
  or_occurred_at :: time

definition broadcastOperationRejected :: "operation_rejected \<Rightarrow> ('z core_scheme, unit) action" where
  "broadcastOperationRejected p =
     emitCanvasEvent (or_canvas_id p) ''canvas.operation.rejected'' (JObj [
       (''organization_id'', JStr (or_organization_id p)),
       (''workspace_id'', JStr (or_workspace_id p)), (''canvas_id'', JStr (or_canvas_id p)),
       (''operation_id'', JStr (or_operation_id p)), (''actor_id'', JStr (or_actor_id p)),
       (''client_revision'', json_int (or_client_revision p)),
       (''current_revision'', json_int (or_current_revision p)),
       (''code'', JStr ''CANVAS_REVISION_CONFLICT''),
       (''occurred_at'', json_date (or_occurred_at p))])"

text \<open>
  The payloads of the snapshot and AI preview broadcasts are made by their callers and carry
  the canvas; here they are a JSON document beside the canvas id.
\<close>

definition broadcastSnapshotCreated :: "uuid \<Rightarrow> json \<Rightarrow> ('z core_scheme, unit) action" where
  "broadcastSnapshotCreated canvas_id payload =
     emitCanvasEvent canvas_id ''canvas.snapshot.created'' payload"

datatype ai_preview_event =
    Queued | Superseded | Started | Progress | Ready | Stale | Failed | Cancelled | Accepted | Rejected

fun ai_preview_event_str :: "ai_preview_event \<Rightarrow> string" where
  "ai_preview_event_str Queued = ''canvas.ai.preview.queued''"
| "ai_preview_event_str Superseded = ''canvas.ai.preview.superseded''"
| "ai_preview_event_str Started = ''canvas.ai.preview.started''"
| "ai_preview_event_str Progress = ''canvas.ai.preview.progress''"
| "ai_preview_event_str Ready = ''canvas.ai.preview.ready''"
| "ai_preview_event_str Stale = ''canvas.ai.preview.stale''"
| "ai_preview_event_str Failed = ''canvas.ai.preview.failed''"
| "ai_preview_event_str Cancelled = ''canvas.ai.preview.cancelled''"
| "ai_preview_event_str Accepted = ''canvas.ai.preview.accepted''"
| "ai_preview_event_str Rejected = ''canvas.ai.preview.rejected''"

definition broadcastAiPreview ::
    "ai_preview_event \<Rightarrow> uuid \<Rightarrow> json \<Rightarrow> ('z core_scheme, unit) action" where
  "broadcastAiPreview e canvas_id payload =
     emitCanvasEvent canvas_id (ai_preview_event_str e) payload"

lemma emitIfListeners_run [action_simps]:
  "emitIfListeners r e p s =
     (Inr (), if rooms_live s r then s\<lparr>emitted := emitted s @ [(r, e, p)]\<rparr> else s)"
  by (simp add: emitIfListeners_def action_simps)

lemma keeps_emitIfListeners: "db_only P \<Longrightarrow> keeps P (emitIfListeners r e p)"
  unfolding emitIfListeners_def by (intro keeps_intros)

lemma keeps_broadcasts [keeps_intros]:
  assumes "db_only P"
  shows "keeps P (broadcastObjectCreated c w x)" "keeps P (broadcastObjectUpdated c w x)"
    "keeps P (broadcastObjectMoved c w x)" "keeps P (broadcastObjectDeleted c w i)"
    "keeps P (broadcastCanvasCommitted c w v i n)" "keeps P (broadcastOperationAccepted a)"
    "keeps P (broadcastOperationRejected r)"
  using keeps_emitIfListeners [OF assms]
  by (simp_all add: broadcastObjectCreated_def broadcastObjectUpdated_def broadcastObjectMoved_def
      broadcastObjectDeleted_def broadcastCanvasCommitted_def broadcastOperationAccepted_def
      broadcastOperationRejected_def emitCanvasEvent_def)

section \<open>Cursors\<close>

definition CURSOR_THROTTLE_MS :: int where "CURSOR_THROTTLE_MS = 50"

definition handleCursorUpdate ::
    "uuid \<Rightarrow> uuid \<Rightarrow> rat \<Rightarrow> rat \<Rightarrow> uuid list \<Rightarrow> ('z canvas_state_scheme, unit) action" where
  "handleCursorUpdate canvasId userId positionX positionY selectedObjectIds =
     await current_time (\<lambda>t.
     await (reads (\<lambda>s. cursors s userId)) (\<lambda>existing.
     let put = (\<lambda>since. writes (cursors_update (\<lambda>m. m(userId \<mapsto> \<lparr> cs_positionX = positionX,
           cs_positionY = positionY, cs_selectedObjectIds = selectedObjectIds,
           cs_lastEmittedAt = since \<rparr>))));
         publish = await (put t) (\<lambda>_.
           emitIfListeners (room_canvas canvasId) ''canvas.cursor'' (JObj [
             (''canvas_id'', JStr canvasId), (''user_id'', JStr userId),
             (''position_x'', JNum positionX), (''position_y'', JNum positionY),
             (''selected_object_ids'', JArr (map JStr selectedObjectIds))]))
     in case existing of
          None \<Rightarrow> publish
        | Some c \<Rightarrow> if t - cs_lastEmittedAt c < CURSOR_THROTTLE_MS then put (cs_lastEmittedAt c)
                    else publish))"

definition flushCursor :: "uuid \<Rightarrow> ('z canvas_state_scheme, unit) action" where
  "flushCursor userId = writes (cursors_update (\<lambda>m. m(userId := None)))"

text \<open>
  A session of cursor moves of one user on one canvas: before each move the clock advances by
  the given delay.
\<close>

fun cursor_moves ::
    "uuid \<Rightarrow> uuid \<Rightarrow> (int \<times> rat \<times> rat \<times> uuid list) list \<Rightarrow>
     'z canvas_state_scheme \<Rightarrow> 'z canvas_state_scheme" where
  "cursor_moves c u [] s = s"
| "cursor_moves c u ((d, x, y, sel) # ms) s =
     cursor_moves c u ms (snd (handleCursorUpdate c u x y sel (s\<lparr>now := now s + d\<rparr>)))"

lemma handleCursorUpdate_run:
  "handleCursorUpdate c u x y sel s =
     (let throttled = (case cursors s u of None \<Rightarrow> False
                       | Some k \<Rightarrow> now s - cs_lastEmittedAt k < CURSOR_THROTTLE_MS);
          since = (case cursors s u of None \<Rightarrow> now s
                | Some k \<Rightarrow> if throttled then cs_lastEmittedAt k else now s);
          s' = s\<lparr>cursors := (cursors s)(u \<mapsto> \<lparr> cs_positionX = x, cs_positionY = y,
                  cs_selectedObjectIds = sel, cs_lastEmittedAt = since \<rparr>)\<rparr>
      in (Inr (), if throttled \<or> \<not> rooms_live s (room_canvas c) then s'
                  else s'\<lparr>emitted := emitted s @ [(room_canvas c, ''canvas.cursor'', JObj [
             (''canvas_id'', JStr c), (''user_id'', JStr u),
             (''position_x'', JNum x), (''position_y'', JNum y),
             (''selected_object_ids'', JArr (map JStr sel))])]\<rparr>))"
  by (simp add: handleCursorUpdate_def action_simps Let_def split: option.split)

lemma cursor_moves_budget:
  assumes "\<forall>m \<in> set ms. 0 \<le> fst m" and "cursors s u = Some k" and "cs_lastEmittedAt k \<le> now s"
  shows "CURSOR_THROTTLE_MS * (int (length (emitted (cursor_moves c u ms s))) - int (length (emitted s)))
    \<le> now (cursor_moves c u ms s) - cs_lastEmittedAt k"
  using assms
proof (induction ms arbitrary: s k)
  case (Cons m ms)
  obtain d x y sel where m: "m = (d, x, y, sel)" by (cases m) auto
  let ?s = "snd (handleCursorUpdate c u x y sel (s\<lparr>now := now s + d\<rparr>))"
  let ?thr = "now s + d - cs_lastEmittedAt k < CURSOR_THROTTLE_MS"
  have d: "0 \<le> d" using Cons.prems(1) m by simp
  have since: "\<exists>k'. cursors ?s u = Some k' \<and>
      cs_lastEmittedAt k' = (if ?thr then cs_lastEmittedAt k else now s + d)"
    and len: "length (emitted ?s) = length (emitted s) +
      (if ?thr \<or> \<not> rooms_live s (room_canvas c) then 0 else 1)"
    and now: "now ?s = now s + d"
    using Cons.prems(2) by (auto simp: handleCursorUpdate_run Let_def)
  from since obtain k' where k': "cursors ?s u = Some k'"
    "cs_lastEmittedAt k' = (if ?thr then cs_lastEmittedAt k else now s + d)" by blast
  have "cs_lastEmittedAt k' \<le> now ?s"
    using k' now Cons.prems(3) d by simp
  then have "CURSOR_THROTTLE_MS * (int (length (emitted (cursor_moves c u ms ?s))) -
      int (length (emitted ?s))) \<le> now (cursor_moves c u ms ?s) - cs_lastEmittedAt k'"
    using Cons.IH [of ?s k'] Cons.prems(1) k'(1) m by simp
  moreover have "CURSOR_THROTTLE_MS * (int (length (emitted ?s)) - int (length (emitted s))) \<le>
      cs_lastEmittedAt k' - cs_lastEmittedAt k"
    using len k'(2) Cons.prems(3) d by (auto simp: CURSOR_THROTTLE_MS_def)
  ultimately show ?case
    by (simp add: m algebra_simps)
qed simp

text \<open>Cursors are throttled: however many moves a user makes, in whatever rhythm, they lead to
  at most one broadcast per 50 milliseconds elapsed, plus the first one; and the cursor kept in
  memory is always the last position.\<close>

theorem cursor_throttled:
  assumes "\<forall>m \<in> set ms. 0 \<le> fst m" and "cursors s u = None"
  shows "CURSOR_THROTTLE_MS *
      (int (length (emitted (cursor_moves c u ((0, x, y, sel) # ms) s))) - int (length (emitted s)) - 1)
    \<le> now (cursor_moves c u ((0, x, y, sel) # ms) s) - now s"
proof -
  let ?s = "snd (handleCursorUpdate c u x y sel (s\<lparr>now := now s\<rparr>))"
  have k: "cursors ?s u = Some \<lparr> cs_positionX = x, cs_positionY = y, cs_selectedObjectIds = sel,
      cs_lastEmittedAt = now s \<rparr>" and "now ?s = now s"
    and len: "length (emitted ?s) \<le> Suc (length (emitted s))"
    using assms(2) by (auto simp: handleCursorUpdate_run Let_def)
  from cursor_moves_budget [OF assms(1) k, of c] this
  have "CURSOR_THROTTLE_MS * (int (length (emitted (cursor_moves c u ms ?s))) - int (length (emitted ?s)))
    \<le> now (cursor_moves c u ms ?s) - now s"
    by simp
  moreover have "CURSOR_THROTTLE_MS * (int (length (emitted ?s)) - int (length (emitted s)) - 1) \<le> 0"
    using len by (simp add: CURSOR_THROTTLE_MS_def)
  ultimately show ?thesis by (simp add: algebra_simps)
qed

section \<open>Presence\<close>

definition trackPresence :: "uuid \<Rightarrow> uuid \<Rightarrow> ('z canvas_state_scheme, unit) action" where
  "trackPresence canvasId userId =
     await (reads (\<lambda>s. case presence s canvasId of None \<Rightarrow> [] | Some us \<Rightarrow> us)) (\<lambda>us.
     let users' = (if userId \<in> set us then us else us @ [userId]) in
     await (writes (presence_update (\<lambda>m. m(canvasId \<mapsto> users')))) (\<lambda>_.
     emitIfListeners (room_canvas canvasId) ''canvas.presence.join'' (JObj [
       (''canvas_id'', JStr canvasId), (''user_id'', JStr userId),
       (''connection_count'', json_int (int (length users')))])))"

definition untrackPresence :: "uuid \<Rightarrow> uuid \<Rightarrow> ('z canvas_state_scheme, unit) action" where
  "untrackPresence canvasId userId =
     await (reads (\<lambda>s. presence s canvasId)) (\<lambda>found. case found of
       None \<Rightarrow> ok ()
     | Some us \<Rightarrow>
         let users' = filter (\<lambda>u. u \<noteq> userId) us in
         await (writes (presence_update (\<lambda>m.
                  m(canvasId := (if users' = [] then None else Some users'))))) (\<lambda>_.
         emitIfListeners (room_canvas canvasId) ''canvas.presence.leave'' (JObj [
           (''canvas_id'', JStr canvasId), (''user_id'', JStr userId),
           (''connection_count'', json_int (int (length users')))])))"

definition getPresenceCount :: "uuid \<Rightarrow> 'z canvas_state_scheme \<Rightarrow> nat" where
  "getPresenceCount canvasId s = (case presence s canvasId of None \<Rightarrow> 0 | Some us \<Rightarrow> length us)"

datatype presence_event = Join uuid uuid | Leave uuid uuid

fun presence_step :: "presence_event \<Rightarrow> 'z canvas_state_scheme \<Rightarrow> 'z canvas_state_scheme" where
  "presence_step (Join c u) s = snd (trackPresence c u s)"
| "presence_step (Leave c u) s = snd (untrackPresence c u s)"

text \<open>The specification: the set of users that joined a canvas and have not left it since.\<close>

fun present :: "uuid \<Rightarrow> presence_event list \<Rightarrow> uuid set \<Rightarrow> uuid set" where
  "present c [] A = A"
| "present c (Join c' u # es) A = present c es (if c' = c then insert u A else A)"
| "present c (Leave c' u # es) A = present c es (if c' = c then A - {u} else A)"

definition presence_inv :: "'z canvas_state_scheme \<Rightarrow> bool" where
  "presence_inv s \<longleftrightarrow> (\<forall>c us. presence s c = Some us \<longrightarrow> distinct us \<and> us \<noteq> [])"

definition users_on :: "uuid \<Rightarrow> 'z canvas_state_scheme \<Rightarrow> uuid set" where
  "users_on c s = (case presence s c of None \<Rightarrow> {} | Some us \<Rightarrow> set us)"

lemma presence_step_correct:
  assumes "presence_inv s"
  shows "presence_inv (presence_step e s)"
    and "users_on c (presence_step e s) = present c [e] (users_on c s)"
  using assms
  by (cases e; auto simp: trackPresence_def untrackPresence_def presence_inv_def users_on_def
        action_simps Let_def filter_empty_conv split: option.splits)+

lemma presence_run:
  "presence_inv s \<Longrightarrow>
   presence_inv (fold presence_step es s) \<and>
   users_on c (fold presence_step es s) = present c es (users_on c s)"
proof (induction es arbitrary: s)
  case (Cons e es)
  have "present c [e] A = B \<Longrightarrow> present c (e # es) A = present c es B" for A B
    by (cases e) auto
  with Cons presence_step_correct [OF Cons.prems] show ?case by simp
qed simp

lemma presence_counts:
  assumes "presence_inv s"
  shows "getPresenceCount c s = card (users_on c s)" and "presence s c = None \<longleftrightarrow> users_on c s = {}"
  using assms
  by (auto simp: getPresenceCount_def presence_inv_def users_on_def distinct_card split: option.splits)

text \<open>Presence is exact: from an empty map, after any sequence of joins and leaves, repeated and
  unmatched ones included, the count of a canvas is the number of users that joined it and have
  not left since, and a canvas nobody is on takes no memory.\<close>

theorem presence_exact:
  "getPresenceCount c (fold presence_step es (s\<lparr>presence := Map.empty\<rparr>)) = card (present c es {}) \<and>
   (presence (fold presence_step es (s\<lparr>presence := Map.empty\<rparr>)) c = None) = (present c es {} = {})"
proof -
  let ?s = "s\<lparr>presence := Map.empty\<rparr>"
  have "presence_inv ?s" "users_on c ?s = {}"
    by (auto simp: presence_inv_def users_on_def)
  with presence_run [of ?s es c] have "presence_inv (fold presence_step es ?s)"
    and on: "users_on c (fold presence_step es ?s) = present c es {}" by simp_all
  with presence_counts show ?thesis by (metis on)
qed

section \<open>A small instance\<close>

text \<open>
  The workflow ''f'' of ''ann'' with its canvas ''c'', bound to the workspace ''w'', on which
  one object has been placed by the first operation.
\<close>

definition demo_workflow :: workflow where
  "demo_workflow = \<lparr> wf_id = ''f'', wf_title = ''F'', wf_description = None,
     wf_status = WorkflowStatus.DRAFT, wf_currentVersion = 0, wf_orgId = ''o'', wf_ownerId = ''ann'',
     wf_projectId = None, wf_domain = None, wf_tags = [], wf_shareToken = None,
     wf_shareExpiresAt = None, wf_shareMaxViews = None, wf_shareViewCount = 0, wf_createdAt = 0,
     wf_updatedAt = 0 \<rparr>"

definition demo_canvas :: canvas where
  "demo_canvas = \<lparr> cv_id = ''c'', cv_workflowId = ''f'', cv_workspaceId = Some ''w'',
     cv_revision = 1, cv_width = 1440, cv_height = 1024, cv_background = ''#FFFFFF'',
     cv_createdAt = 0, cv_updatedAt = 0 \<rparr>"

definition demo_object :: canvas_object where
  "demo_object = \<lparr> co_id = ''ob'', co_canvasId = ''c'', co_type = ''activity'',
     co_elsaType = None, co_label = Some ''A'', co_properties = JObj [], co_positionX = 1,
     co_positionY = 2, co_width = None, co_height = None, co_style = None, co_isLocked = False,
     co_createdBy = Some ''ann'', co_createdAt = 0, co_updatedAt = 0 \<rparr>"

definition demo_operation :: canvas_operation where
  "demo_operation = \<lparr> op_id = ''op1'', op_canvasId = ''c'', op_organizationId = Some ''o'',
     op_workspaceId = Some ''w'', op_canvasObjectId = Some ''ob'', op_userId = ''ann'',
     op_opType = ''object_create'', op_opPayload = JObj [], op_versionVector = None,
     op_sequenceNumber = 1, op_clientRevision = Some 0, op_createdAt = 0 \<rparr>"

definition demo_canvas_state :: canvas_state where
  "demo_canvas_state = tenancy.extend (demo_tenancy\<lparr>workflows := [demo_workflow]\<rparr>)
     (canvas_state.fields [demo_canvas] [demo_object] [demo_operation] [] [] Map.empty Map.empty)"

lemmas demo_canvas_simps = demo_canvas_state_def demo_workflow_def demo_canvas_def demo_object_def
  demo_operation_def tenancy.defs canvas_state.defs demo_simps

definition ann :: request_user where
  "ann = \<lparr> ru_id = ''ann'', ru_orgId = ''o'', ru_role = ''admin'' \<rparr>"

definition bob :: request_user where
  "bob = \<lparr> ru_id = ''bob'', ru_orgId = ''o'', ru_role = ''viewer'' \<rparr>"

theorem cursor_throttled_witness:
  "CURSOR_THROTTLE_MS *
      (int (length (emitted (cursor_moves ''c'' ''bob''
        [(0, 1, 1, []), (20, 2, 2, []), (40, 3, 3, [])] demo_canvas_state))) - 1)
    \<le> now (cursor_moves ''c'' ''bob''
        [(0, 1, 1, []), (20, 2, 2, []), (40, 3, 3, [])] demo_canvas_state) - 10"
  using cursor_throttled [of "[(20, 2, 2, []), (40, 3, 3, [])]" demo_canvas_state "''bob''" "''c''"
    1 1 "[]"]
  by (simp add: demo_canvas_simps)

end
