(* ===== verification/Canvas.thy ===== *)
theory Canvas
  imports CanvasRealtime
begin

text \<open>
  \<open>CanvasService\<close> of \<open>src/modules/canvas/services/canvas.service.ts\<close>: the objects of a canvas,
  its operation log with optimistic concurrency and idempotent retries, snapshots and commits
  into workflow versions. The constraints of the canvas tables
  (\<open>1700000010500-AddCanvasTables\<close>, \<open>1700000021000-AddCanvasAiPreviewPersistence\<close>) are part of
  the inserts.
\<close>

section \<open>Lookups and permissions\<close>

definition findCanvasOrThrow :: "uuid \<Rightarrow> ('z canvas_state_scheme, canvas) action" where
  "findCanvasOrThrow canvasId =
     await (reads (\<lambda>s. find_row cv_id canvasId (canvases s))) (\<lambda>c.
     some_or_throw c (NotFound ''Canvas not found''))"

definition lockCanvas :: "uuid \<Rightarrow> ('z canvas_state_scheme, canvas) action" where
  "lockCanvas canvasId =
     await (reads (\<lambda>s. find_row cv_id canvasId (canvases s))) (\<lambda>c.
     some_or_throw c (NotFound ''Canvas not found''))"

text \<open>The join of the canvas with its workflow.\<close>

definition canvas_workflow :: "uuid \<Rightarrow> 'z canvas_state_scheme \<Rightarrow> workflow option" where
  "canvas_workflow canvasId s =
     (case find_row cv_id canvasId (canvases s) of
        None \<Rightarrow> None | Some c \<Rightarrow> find_row wf_id (cv_workflowId c) (workflows s))"

definition resolveWorkflowId :: "uuid \<Rightarrow> uuid \<Rightarrow> ('z canvas_state_scheme, uuid) action" where
  "resolveWorkflowId canvasId orgId =
     await (reads (canvas_workflow canvasId)) (\<lambda>row.
     await (some_or_throw row (NotFound ''Canvas not found'')) (\<lambda>w.
     await (require (wf_orgId w = orgId) (NotFound ''Canvas not found'')) (\<lambda>_.
     ok (wf_id w))))"

definition findObjectInOrgOrThrow ::
    "uuid \<Rightarrow> uuid \<Rightarrow> ('z canvas_state_scheme, canvas_object) action" where
  "findObjectInOrgOrThrow objectId orgId =
     await (reads (\<lambda>s. find_row co_id objectId (canvas_objects s))) (\<lambda>found.
     await (some_or_throw found (NotFound ''Canvas object not found'')) (\<lambda>obj.
     await (resolveWorkflowId (co_canvasId obj) orgId) (\<lambda>_.
     ok obj)))"

definition legacyMutationRoles :: "string list" where
  "legacyMutationRoles = map user_role_str [UserRole.ADMIN, PROCESS_OWNER, BUSINESS_ANALYST]"

definition requireCanvasMutationPermission ::
    "canvas \<Rightarrow> request_user \<Rightarrow> ('z canvas_state_scheme, unit) action" where
  "requireCanvasMutationPermission c caller =
     (case cv_workspaceId c of
        Some w \<Rightarrow> await (requireEditor (ru_id caller) w (ru_orgId caller)) (\<lambda>_. ok ())
      | None \<Rightarrow> require (ru_role caller \<in> set legacyMutationRoles)
                  (Forbidden ''Canvas mutation access denied''))"

definition MAX_CANVAS_OPERATION_PAYLOAD_BYTES :: nat where
  "MAX_CANVAS_OPERATION_PAYLOAD_BYTES = 65536"

definition assertOperationPayloadBounded :: "json \<Rightarrow> ('z canvas_state_scheme, unit) action" where
  "assertOperationPayloadBounded payload =
     require (json_bytes payload \<le> MAX_CANVAS_OPERATION_PAYLOAD_BYTES)
       (BadRequest (JStr ''Canvas operation payload exceeds 65536 bytes''))"

section \<open>Writes\<close>

definition insert_canvas :: "canvas \<Rightarrow> ('z canvas_state_scheme, unit) action" where
  "insert_canvas c =
     await (reads canvases) (\<lambda>rows.
     await (require (cv_id c \<notin> cv_id ` set rows) (QueryFailed ''canvas_pkey'')) (\<lambda>_.
     await (require (cv_workflowId c \<notin> cv_workflowId ` set rows)
              (QueryFailed ''uq_canvas_workflow_id'')) (\<lambda>_.
     writes (canvases_update (\<lambda>t. t @ [c])))))"

definition save_canvas :: "canvas \<Rightarrow> ('z canvas_state_scheme, unit) action" where
  "save_canvas c = await current_time (\<lambda>t.
     writes (canvases_update (save_row cv_id (c\<lparr>cv_updatedAt := t\<rparr>))))"

definition save_object :: "canvas_object \<Rightarrow> ('z canvas_state_scheme, canvas_object) action" where
  "save_object obj =
     await (reads (\<lambda>s. if find_row co_id (co_id obj) (canvas_objects s) = Some obj then obj
                       else obj\<lparr>co_updatedAt := now s\<rparr>)) (\<lambda>saved.
     await (writes (canvas_objects_update (save_row co_id saved))) (\<lambda>_. ok saved))"

text \<open>\<open>ON DELETE SET NULL\<close> on the operations of a deleted object.\<close>

definition remove_object :: "uuid \<Rightarrow> ('z canvas_state_scheme, unit) action" where
  "remove_object i =
     await (writes (canvas_objects_update (remove_row co_id i))) (\<lambda>_.
     writes (canvas_operations_update (update_where (\<lambda>x. op_canvasObjectId x = Some i)
       (\<lambda>x. x\<lparr>op_canvasObjectId := None\<rparr>))))"

text \<open>The constraints of \<open>canvas_operation\<close>.\<close>

definition scope_ok :: "canvas_operation \<Rightarrow> bool" where
  "scope_ok x \<longleftrightarrow>
     (op_organizationId x = None \<and> op_workspaceId x = None \<and> op_clientRevision x = None) \<or>
     (op_organizationId x \<noteq> None \<and> op_workspaceId x \<noteq> None \<and> op_clientRevision x \<noteq> None)"

definition tenant_ok :: "canvas_operation \<Rightarrow> 'z canvas_state_scheme \<Rightarrow> bool" where
  "tenant_ok x s =
     (case (op_workspaceId x, op_organizationId x) of
        (Some w, Some org) \<Rightarrow>
          list_ex (\<lambda>r. ws_id r = w \<and> ws_organizationId r = org) (workspaces s)
      | _ \<Rightarrow> True)"

definition canvas_binding_ok :: "canvas_operation \<Rightarrow> 'z canvas_state_scheme \<Rightarrow> bool" where
  "canvas_binding_ok x s =
     list_ex (\<lambda>c. cv_id c = op_canvasId x \<and>
       (case op_workspaceId x of None \<Rightarrow> True | Some w \<Rightarrow> cv_workspaceId c = Some w)) (canvases s)"

definition insert_operation :: "canvas_operation \<Rightarrow> ('z canvas_state_scheme, unit) action" where
  "insert_operation x =
     await (reads (\<lambda>s. s)) (\<lambda>s.
     await (require (op_id x \<notin> op_id ` set (canvas_operations s))
              (QueryFailed ''canvas_operation_pkey'')) (\<lambda>_.
     await (require (scope_ok x) (QueryFailed ''ck_canvas_operation_phase04_scope'')) (\<lambda>_.
     await (require (case op_clientRevision x of None \<Rightarrow> True | Some n \<Rightarrow> 0 \<le> n)
              (QueryFailed ''ck_canvas_operation_client_revision'')) (\<lambda>_.
     await (require (canvas_binding_ok x s)
              (QueryFailed ''fk_canvas_operation_canvas_workspace'')) (\<lambda>_.
     await (require (case op_canvasObjectId x of None \<Rightarrow> True
                     | Some i \<Rightarrow> i \<in> co_id ` set (canvas_objects s))
              (QueryFailed ''canvas_operation_canvas_object_id_fkey'')) (\<lambda>_.
     await (require (tenant_ok x s) (QueryFailed ''fk_canvas_operation_tenant_workspace'')) (\<lambda>_.
     writes (canvas_operations_update (\<lambda>t. t @ [x])))))))))"

section \<open>Canvas\<close>

definition canvas_of_workflow :: "uuid \<Rightarrow> 'z canvas_state_scheme \<Rightarrow> canvas option" where
  "canvas_of_workflow w s = find (\<lambda>c. cv_workflowId c = w) (canvases s)"

definition getOrCreateCanvas :: "uuid \<Rightarrow> uuid \<Rightarrow> ('z canvas_state_scheme, canvas) action" where
  "getOrCreateCanvas workflowId orgId =
     await (findWorkflowInOrgOrThrow workflowId orgId ''Workflow not found'') (\<lambda>w.
     await (reads (canvas_of_workflow (wf_id w))) (\<lambda>existing. case existing of
       Some c \<Rightarrow> ok c
     | None \<Rightarrow>
         await current_time (\<lambda>t.
         await gen_uuid (\<lambda>i.
         let c = \<lparr> cv_id = i, cv_workflowId = wf_id w, cv_workspaceId = None, cv_revision = 0,
                   cv_width = 1440, cv_height = 1024, cv_background = ''#FFFFFF'',
                   cv_createdAt = t, cv_updatedAt = t \<rparr>
         in await (insert_canvas c) (\<lambda>_.
            await (audit (Some (wf_id w)) None ActorType.SYSTEM ''CANVAS_CREATED'' None JNull
                     (JObj [(''canvas_id'', JStr i)])) (\<lambda>_.
            ok c))))))"

definition getCanvas :: "uuid \<Rightarrow> uuid \<Rightarrow> ('z canvas_state_scheme, canvas) action" where
  "getCanvas workflowId orgId =
     await (findWorkflowInOrgOrThrow workflowId orgId ''Workflow not found'') (\<lambda>w.
     await (reads (canvas_of_workflow (wf_id w))) (\<lambda>c.
     some_or_throw c (NotFound ''Canvas not found for this workflow'')))"

section \<open>Appending an operation of the server\<close>

definition appendOperationWithLockedCanvas ::
    "canvas \<Rightarrow> uuid option \<Rightarrow> uuid \<Rightarrow> string \<Rightarrow> json \<Rightarrow> json option \<Rightarrow>
     ('z canvas_state_scheme, canvas_operation) action" where
  "appendOperationWithLockedCanvas c canvasObjectId userId opType opPayload versionVector =
     await (case cv_workspaceId c of
              None \<Rightarrow> ok None
            | Some _ \<Rightarrow> await (reads (\<lambda>s. find_row wf_id (cv_workflowId c) (workflows s))) (\<lambda>w.
                        await (some_or_throw w (NotFound ''Canvas workflow not found'')) (\<lambda>w.
                        ok (Some (wf_orgId w))))) (\<lambda>org.
     await current_time (\<lambda>t.
     await gen_uuid (\<lambda>i.
     let x = \<lparr> op_id = i, op_canvasId = cv_id c, op_organizationId = org,
               op_workspaceId = cv_workspaceId c, op_canvasObjectId = canvasObjectId,
               op_userId = userId, op_opType = opType, op_opPayload = opPayload,
               op_versionVector = versionVector, op_sequenceNumber = cv_revision c + 1,
               op_clientRevision = (if cv_workspaceId c = None then None else Some (cv_revision c)),
               op_createdAt = t \<rparr>
     in await (insert_operation x) (\<lambda>_.
        await (save_canvas (c\<lparr>cv_revision := cv_revision c + 1\<rparr>)) (\<lambda>_.
        ok x)))))"

definition appendOperation ::
    "uuid \<Rightarrow> uuid option \<Rightarrow> uuid \<Rightarrow> string \<Rightarrow> json \<Rightarrow> json option \<Rightarrow>
     ('z canvas_state_scheme, canvas_operation) action" where
  "appendOperation canvasId canvasObjectId userId opType opPayload versionVector =
     transaction (await (lockCanvas canvasId) (\<lambda>c.
       appendOperationWithLockedCanvas c canvasObjectId userId opType opPayload versionVector))"

section \<open>Objects\<close>

record create_object_dto =
  cob_type :: string
  cob_elsa_type :: "string option"
  cob_label :: "string option"
  cob_properties :: "json option"
  cob_position_x :: rat
  cob_position_y :: rat
  cob_width :: "rat option"
  cob_height :: "rat option"
  cob_style :: "json option"

record update_object_dto =
  uob_label :: "string option"
  uob_elsa_type :: "string option"
  uob_properties :: "json option"
  uob_position_x :: "rat option"
  uob_position_y :: "rat option"
  uob_width :: "rat option"
  uob_height :: "rat option"
  uob_style :: "json option"

record move_object_dto =
  mob_position_x :: rat
  mob_position_y :: rat

definition createObject ::
    "uuid \<Rightarrow> create_object_dto \<Rightarrow> request_user \<Rightarrow> ('z canvas_state_scheme, canvas_object) action" where
  "createObject workflowId dto caller =
     await (getOrCreateCanvas workflowId (ru_orgId caller)) (\<lambda>c.
     await (requireCanvasMutationPermission c caller) (\<lambda>_.
     await (transaction (
       await (lockCanvas (cv_id c)) (\<lambda>locked.
       await current_time (\<lambda>t.
       await gen_uuid (\<lambda>i.
       let obj = \<lparr> co_id = i, co_canvasId = cv_id c, co_type = cob_type dto,
             co_elsaType = cob_elsa_type dto, co_label = cob_label dto,
             co_properties = (case cob_properties dto of None \<Rightarrow> JObj [] | Some p \<Rightarrow> p),
             co_positionX = cob_position_x dto, co_positionY = cob_position_y dto,
             co_width = cob_width dto, co_height = cob_height dto, co_style = cob_style dto,
             co_isLocked = False, co_createdBy = Some (ru_id caller), co_createdAt = t,
             co_updatedAt = t \<rparr>
       in await (writes (canvas_objects_update (\<lambda>r. r @ [obj]))) (\<lambda>_.
          await (appendOperationWithLockedCanvas locked (Some i) (ru_id caller) ''object_create''
                   (JObj [(''type'', JStr (co_type obj)), (''elsa_type'', json_str_opt (co_elsaType obj)),
                          (''label'', json_str_opt (co_label obj)),
                          (''position_x'', JNum (co_positionX obj)),
                          (''position_y'', JNum (co_positionY obj))]) None) (\<lambda>_.
          ok obj)))))) ) (\<lambda>saved.
     await (audit (Some workflowId) (Some (ru_id caller)) ActorType.USER ''CANVAS_OBJECT_CREATED''
              (Some (co_id saved)) JNull
              (JObj [(''type'', JStr (co_type saved)), (''label'', json_str_opt (co_label saved))])) (\<lambda>_.
     await (broadcastObjectCreated (cv_id c) workflowId saved) (\<lambda>_.
     ok saved)))))"

text \<open>The part that \<open>updateObject\<close>, \<open>moveObject\<close> and \<open>deleteObject\<close> share: lock, find, refuse.\<close>

definition lockObject ::
    "uuid \<Rightarrow> uuid \<Rightarrow> request_user \<Rightarrow> string \<Rightarrow> ('z canvas_state_scheme, canvas_object) action" where
  "lockObject objectId canvasId caller refusal =
     await (reads (\<lambda>s. find (\<lambda>x. co_id x = objectId \<and> co_canvasId x = canvasId) (canvas_objects s)))
       (\<lambda>found.
     await (some_or_throw found (NotFound ''Canvas object not found'')) (\<lambda>obj.
     await (require (\<not> (co_isLocked obj \<and> ru_role caller \<noteq> user_role_str UserRole.ADMIN))
              (Forbidden refusal)) (\<lambda>_.
     ok obj)))"

definition assign_object :: "update_object_dto \<Rightarrow> canvas_object \<Rightarrow> canvas_object" where
  "assign_object dto obj = obj\<lparr>
     co_label := (case uob_label dto of None \<Rightarrow> co_label obj | v \<Rightarrow> v),
     co_elsaType := (case uob_elsa_type dto of None \<Rightarrow> co_elsaType obj | v \<Rightarrow> v),
     co_properties := (case uob_properties dto of None \<Rightarrow> co_properties obj | Some v \<Rightarrow> v),
     co_positionX := (case uob_position_x dto of None \<Rightarrow> co_positionX obj | Some v \<Rightarrow> v),
     co_positionY := (case uob_position_y dto of None \<Rightarrow> co_positionY obj | Some v \<Rightarrow> v),
     co_width := (case uob_width dto of None \<Rightarrow> co_width obj | v \<Rightarrow> v),
     co_height := (case uob_height dto of None \<Rightarrow> co_height obj | v \<Rightarrow> v),
     co_style := (case uob_style dto of None \<Rightarrow> co_style obj | v \<Rightarrow> v) \<rparr>"

definition position_fields :: "canvas_object \<Rightarrow> (string \<times> json) list" where
  "position_fields obj =
     [(''position_x'', JNum (co_positionX obj)), (''position_y'', JNum (co_positionY obj))]"

definition size_fields :: "canvas_object \<Rightarrow> (string \<times> json) list" where
  "size_fields obj =
     [(''width'', json_opt JNum (co_width obj)), (''height'', json_opt JNum (co_height obj))]"

definition label_field :: "canvas_object \<Rightarrow> (string \<times> json) list" where
  "label_field obj = [(''label'', json_str_opt (co_label obj))]"

definition updateObject ::
    "uuid \<Rightarrow> update_object_dto \<Rightarrow> request_user \<Rightarrow> ('z canvas_state_scheme, canvas_object) action" where
  "updateObject objectId dto caller =
     await (findObjectInOrgOrThrow objectId (ru_orgId caller)) (\<lambda>existing.
     await (findCanvasOrThrow (co_canvasId existing)) (\<lambda>c.
     await (requireCanvasMutationPermission c caller) (\<lambda>_.
     await (transaction (
       await (lockCanvas (cv_id c)) (\<lambda>locked.
       await (lockObject objectId (cv_id c) caller ''Cannot modify a locked object'') (\<lambda>obj.
       await (save_object (assign_object dto obj)) (\<lambda>saved.
       await (appendOperationWithLockedCanvas locked (Some (co_id saved)) (ru_id caller)
                ''object_update''
                (JObj (label_field saved @ position_fields saved @ size_fields saved)) None) (\<lambda>_.
       ok (saved, JObj (label_field obj @ position_fields obj @ size_fields obj))))))) )
       (\<lambda>(saved, beforeState).
     await (resolveWorkflowId (co_canvasId existing) (ru_orgId caller)) (\<lambda>wid.
     await (audit (Some wid) (Some (ru_id caller)) ActorType.USER ''CANVAS_OBJECT_UPDATED''
              (Some (co_id saved)) beforeState (JObj (label_field saved @ position_fields saved))) (\<lambda>_.
     await (resolveWorkflowId (co_canvasId existing) (ru_orgId caller)) (\<lambda>wid.
     await (broadcastObjectUpdated (co_canvasId existing) wid saved) (\<lambda>_.
     ok saved))))))))"

definition moveObject ::
    "uuid \<Rightarrow> move_object_dto \<Rightarrow> request_user \<Rightarrow> ('z canvas_state_scheme, canvas_object) action" where
  "moveObject objectId dto caller =
     await (findObjectInOrgOrThrow objectId (ru_orgId caller)) (\<lambda>existing.
     await (findCanvasOrThrow (co_canvasId existing)) (\<lambda>c.
     await (requireCanvasMutationPermission c caller) (\<lambda>_.
     await (transaction (
       await (lockCanvas (cv_id c)) (\<lambda>locked.
       await (lockObject objectId (cv_id c) caller ''Cannot move a locked object'') (\<lambda>obj.
       await (save_object (obj\<lparr>co_positionX := mob_position_x dto,
                co_positionY := mob_position_y dto\<rparr>)) (\<lambda>saved.
       await (appendOperationWithLockedCanvas locked (Some (co_id saved)) (ru_id caller)
                ''object_move'' (JObj (position_fields saved)) None) (\<lambda>_.
       ok (saved, JObj (position_fields obj))))))) )
       (\<lambda>(saved, beforeState).
     await (resolveWorkflowId (co_canvasId existing) (ru_orgId caller)) (\<lambda>wid.
     await (audit (Some wid) (Some (ru_id caller)) ActorType.USER ''CANVAS_OBJECT_MOVED''
              (Some (co_id saved)) beforeState (JObj (position_fields saved))) (\<lambda>_.
     await (resolveWorkflowId (co_canvasId existing) (ru_orgId caller)) (\<lambda>wid.
     await (broadcastObjectMoved (co_canvasId existing) wid saved) (\<lambda>_.
     ok saved))))))))"

definition deleteObject :: "uuid \<Rightarrow> request_user \<Rightarrow> ('z canvas_state_scheme, bool) action" where
  "deleteObject objectId caller =
     await (findObjectInOrgOrThrow objectId (ru_orgId caller)) (\<lambda>existing.
     await (findCanvasOrThrow (co_canvasId existing)) (\<lambda>c.
     await (requireCanvasMutationPermission c caller) (\<lambda>_.
     await (transaction (
       await (lockCanvas (cv_id c)) (\<lambda>locked.
       await (lockObject objectId (cv_id c) caller ''Cannot delete a locked object'') (\<lambda>obj.
       await (remove_object (co_id obj)) (\<lambda>_.
       await (appendOperationWithLockedCanvas locked (Some objectId) (ru_id caller)
                ''object_delete''
                (JObj ((''type'', JStr (co_type obj)) # label_field obj)) None) (\<lambda>_.
       ok obj)))))) (\<lambda>deleted.
     await (resolveWorkflowId (co_canvasId deleted) (ru_orgId caller)) (\<lambda>wid.
     await (audit (Some wid) (Some (ru_id caller)) ActorType.USER ''CANVAS_OBJECT_DELETED''
              (Some objectId) (JObj ((''type'', JStr (co_type deleted)) # label_field deleted))
              JNull) (\<lambda>_.
     await (broadcastObjectDeleted (co_canvasId deleted) wid objectId) (\<lambda>_.
     ok True)))))))"

definition getObjects :: "uuid \<Rightarrow> uuid \<Rightarrow> ('z canvas_state_scheme, canvas_object list) action" where
  "getObjects workflowId orgId =
     await (getCanvas workflowId orgId) (\<lambda>c.
     reads (\<lambda>s. sort_key co_createdAt (filter (\<lambda>x. co_canvasId x = cv_id c) (canvas_objects s))))"

definition getObject :: "uuid \<Rightarrow> uuid \<Rightarrow> ('z canvas_state_scheme, canvas_object) action" where
  "getObject objectId orgId = findObjectInOrgOrThrow objectId orgId"

section \<open>Operations sent by clients\<close>

record create_operation_dto =
  cod_operation_id :: uuid
  cod_client_revision :: int
  cod_canvas_object_id :: "uuid option"
  cod_op_type :: string
  cod_op_payload :: json
  cod_version_vector :: "json option"

definition CANVAS_OPERATION_TYPES :: "string list" where
  "CANVAS_OPERATION_TYPES = [''object_create'', ''object_move'', ''object_resize'', ''object_delete'',
     ''object_relabel'', ''property_update'', ''edge_create'', ''edge_delete'', ''edge_reroute'',
     ''bulk_paste'']"

fun deep_equal_opt :: "json option \<Rightarrow> json option \<Rightarrow> bool" where
  "deep_equal_opt None None = True"
| "deep_equal_opt (Some a) (Some b) = deep_equal a b"
| "deep_equal_opt _ _ = False"

definition sameLogicalOperation ::
    "canvas_operation \<Rightarrow> canvas \<Rightarrow> create_operation_dto \<Rightarrow> request_user \<Rightarrow> bool" where
  "sameLogicalOperation existing c dto caller \<longleftrightarrow>
     op_canvasId existing = cv_id c \<and>
     op_canvasObjectId existing = cod_canvas_object_id dto \<and>
     op_userId existing = ru_id caller \<and>
     op_opType existing = cod_op_type dto \<and>
     op_sequenceNumber existing = cod_client_revision dto + 1 \<and>
     op_organizationId existing = Some (ru_orgId caller) \<and>
     op_workspaceId existing = cv_workspaceId c \<and>
     op_clientRevision existing = Some (cod_client_revision dto) \<and>
     deep_equal (op_opPayload existing) (cod_op_payload dto) \<and>
     deep_equal_opt (op_versionVector existing) (cod_version_vector dto)"

text \<open>What happens to an operation whose id is new, on the locked canvas.\<close>

definition apply_operation ::
    "canvas \<Rightarrow> create_operation_dto \<Rightarrow> request_user \<Rightarrow>
     ('z canvas_state_scheme, canvas_operation) action" where
  "apply_operation locked dto caller =
     await (require (cod_client_revision dto = cv_revision locked)
              (CanvasRevisionConflict (cv_revision locked))) (\<lambda>_.
     await (case cod_canvas_object_id dto of
              None \<Rightarrow> ok ()
            | Some i \<Rightarrow>
                await (reads (\<lambda>s. list_ex (\<lambda>x. co_id x = i \<and> co_canvasId x = cv_id locked)
                         (canvas_objects s))) (\<lambda>objectExists.
                require objectExists
                  (BadRequest (JStr ''Canvas object does not belong to this canvas'')))) (\<lambda>_.
     await current_time (\<lambda>t.
     let x = \<lparr> op_id = cod_operation_id dto, op_canvasId = cv_id locked,
               op_organizationId = Some (ru_orgId caller), op_workspaceId = cv_workspaceId locked,
               op_canvasObjectId = cod_canvas_object_id dto, op_userId = ru_id caller,
               op_opType = cod_op_type dto, op_opPayload = cod_op_payload dto,
               op_versionVector = cod_version_vector dto,
               op_sequenceNumber = cv_revision locked + 1,
               op_clientRevision = Some (cod_client_revision dto), op_createdAt = t \<rparr>
     in await (insert_operation x) (\<lambda>_.
        await (save_canvas (locked\<lparr>cv_revision := cv_revision locked + 1\<rparr>)) (\<lambda>_.
        ok x)))))"

definition operation_transaction ::
    "canvas \<Rightarrow> create_operation_dto \<Rightarrow> request_user \<Rightarrow>
     ('z canvas_state_scheme, canvas_operation \<times> bool \<times> canvas) action" where
  "operation_transaction c dto caller = transaction (
     await (lockCanvas (cv_id c)) (\<lambda>locked.
     await (reads (\<lambda>s. find_row op_id (cod_operation_id dto) (canvas_operations s))) (\<lambda>found.
     case found of
       Some existing \<Rightarrow>
         await (require (sameLogicalOperation existing c dto caller)
                  (Conflict (JStr ''Operation ID is already used by a different operation''))) (\<lambda>_.
         ok (existing, True, locked))
     | None \<Rightarrow> await (apply_operation locked dto caller) (\<lambda>x. ok (x, False, locked)))))"

definition createOperation ::
    "uuid \<Rightarrow> create_operation_dto \<Rightarrow> request_user \<Rightarrow>
     ('z canvas_state_scheme, canvas_operation) action" where
  "createOperation workflowId dto caller =
     await (getOrCreateCanvas workflowId (ru_orgId caller)) (\<lambda>c.
     await (requireCanvasMutationPermission c caller) (\<lambda>_.
     await (assertOperationPayloadBounded (cod_op_payload dto)) (\<lambda>_.
     try_catch
       (await (operation_transaction c dto caller) (\<lambda>(x, duplicate, locked).
        await (case (duplicate, cv_workspaceId locked) of
                 (False, Some w) \<Rightarrow> broadcastOperationAccepted \<lparr>
                    oa_organization_id = ru_orgId caller, oa_workspace_id = w,
                    oa_canvas_id = cv_id c, oa_operation_id = op_id x, oa_actor_id = ru_id caller,
                    oa_canvas_revision = op_sequenceNumber x, oa_occurred_at = op_createdAt x \<rparr>
               | _ \<Rightarrow> ok ()) (\<lambda>_.
        ok x)))
       (\<lambda>e. case e of
          CanvasRevisionConflict current \<Rightarrow>
            await current_time (\<lambda>t.
            await (case cv_workspaceId c of
                     Some w \<Rightarrow> broadcastOperationRejected \<lparr>
                       or_organization_id = ru_orgId caller, or_workspace_id = w,
                       or_canvas_id = cv_id c, or_operation_id = cod_operation_id dto,
                       or_actor_id = ru_id caller, or_client_revision = cod_client_revision dto,
                       or_current_revision = current, or_occurred_at = t \<rparr>
                   | None \<Rightarrow> ok ()) (\<lambda>_.
            throw (Conflict (JObj [(''code'', JStr ''CANVAS_REVISION_CONFLICT''),
              (''message'', JStr ''Canvas revision is stale''),
              (''currentRevision'', json_int current)]))))
        | _ \<Rightarrow> throw e))))"

record operation_filter =
  of_since_sequence :: "int option"
  of_limit :: "nat option"

definition getOperationHistory ::
    "uuid \<Rightarrow> operation_filter \<Rightarrow> uuid \<Rightarrow> ('z canvas_state_scheme, canvas_operation list) action" where
  "getOperationHistory workflowId flt orgId =
     await (getCanvas workflowId orgId) (\<lambda>c.
     reads (\<lambda>s. take (case of_limit flt of None \<Rightarrow> 200 | Some n \<Rightarrow> n)
       (sort_key op_sequenceNumber
         (filter (\<lambda>x. op_canvasId x = cv_id c \<and>
            (case of_since_sequence flt of None \<Rightarrow> True | Some n \<Rightarrow> n < op_sequenceNumber x))
          (canvas_operations s)))))"

section \<open>Snapshots and commits\<close>

definition snapshot_object :: "canvas_object \<Rightarrow> json" where
  "snapshot_object obj = JObj [
     (''id'', JStr (co_id obj)), (''type'', JStr (co_type obj)),
     (''elsa_type'', json_str_opt (co_elsaType obj)), (''label'', json_str_opt (co_label obj)),
     (''properties'', co_properties obj),
     (''position_x'', JNum (co_positionX obj)), (''position_y'', JNum (co_positionY obj)),
     (''width'', json_opt JNum (co_width obj)), (''height'', json_opt JNum (co_height obj)),
     (''style'', json_opt (\<lambda>j. j) (co_style obj)), (''is_locked'', JBool (co_isLocked obj))]"

definition buildSnapshotData :: "canvas_object list \<Rightarrow> json" where
  "buildSnapshotData objects = JObj [(''objects'', JArr (map snapshot_object objects))]"

definition element_json :: "canvas_object \<Rightarrow> json" where
  "element_json obj = JObj [
     (''id'', JStr (co_id obj)), (''type'', JStr (co_type obj)),
     (''elsa_type'', json_str_opt (co_elsaType obj)), (''label'', json_str_opt (co_label obj)),
     (''properties'', co_properties obj),
     (''position'', JObj [(''x'', JNum (co_positionX obj)), (''y'', JNum (co_positionY obj))]),
     (''width'', json_opt JNum (co_width obj)), (''height'', json_opt JNum (co_height obj)),
     (''style'', json_opt (\<lambda>j. j) (co_style obj))]"

definition objects_of :: "uuid \<Rightarrow> 'z canvas_state_scheme \<Rightarrow> canvas_object list" where
  "objects_of canvasId s =
     sort_key co_createdAt (filter (\<lambda>x. co_canvasId x = canvasId) (canvas_objects s))"

definition createSnapshot ::
    "uuid \<Rightarrow> string option \<Rightarrow> request_user \<Rightarrow> ('z canvas_state_scheme, canvas_snapshot) action" where
  "createSnapshot workflowId trigger caller =
     await (getCanvas workflowId (ru_orgId caller)) (\<lambda>c.
     await (reads (objects_of (cv_id c))) (\<lambda>objects.
     await current_time (\<lambda>t.
     await gen_uuid (\<lambda>i.
     let saved = \<lparr> sn_id = i, sn_canvasId = cv_id c, sn_snapshotData = buildSnapshotData objects,
                   sn_createdBy = Some (ru_id caller),
                   sn_trigger = (case trigger of None \<Rightarrow> ''manual'' | Some x \<Rightarrow> x),
                   sn_createdAt = t \<rparr>
     in await (writes (canvas_snapshots_update (\<lambda>r. r @ [saved]))) (\<lambda>_.
        await (audit (Some workflowId) (Some (ru_id caller)) ActorType.USER
                 ''CANVAS_SNAPSHOT_CREATED'' (Some (sn_id saved)) JNull
                 (JObj [(''trigger'', JStr (sn_trigger saved))])) (\<lambda>_.
        ok saved))))))"

definition getSnapshots :: "uuid \<Rightarrow> uuid \<Rightarrow> ('z canvas_state_scheme, canvas_snapshot list) action" where
  "getSnapshots workflowId orgId =
     await (getCanvas workflowId orgId) (\<lambda>c.
     reads (\<lambda>s. sort_desc sn_createdAt (filter (\<lambda>x. sn_canvasId x = cv_id c) (canvas_snapshots s))))"

definition getSnapshot :: "uuid \<Rightarrow> uuid \<Rightarrow> ('z canvas_state_scheme, canvas_snapshot) action" where
  "getSnapshot snapshotId orgId =
     await (reads (\<lambda>s. find_row sn_id snapshotId (canvas_snapshots s))) (\<lambda>found.
     await (some_or_throw found (NotFound ''Snapshot not found'')) (\<lambda>snapshot.
     await (resolveWorkflowId (sn_canvasId snapshot) orgId) (\<lambda>_.
     ok snapshot)))"

definition insert_workflow_version :: "workflow_version \<Rightarrow> ('z canvas_state_scheme, unit) action" where
  "insert_workflow_version v =
     await (reads (\<lambda>s. list_ex (\<lambda>r. wv_workflowId r = wv_workflowId v \<and>
              wv_versionNumber r = wv_versionNumber v) (workflow_versions s))) (\<lambda>clash.
     await (require (\<not> clash) (QueryFailed ''uq_workflow_version_number'')) (\<lambda>_.
     writes (workflow_versions_update (\<lambda>t. t @ [v]))))"

text \<open>The four writes of the commit transaction; the result is the id of the workflow version.\<close>

definition commit_writes ::
    "workflow \<Rightarrow> canvas \<Rightarrow> string option \<Rightarrow> canvas_object list \<Rightarrow> request_user \<Rightarrow>
     ('z canvas_state_scheme, uuid) action" where
  "commit_writes w c label objects caller =
     await current_time (\<lambda>t.
     await gen_uuid (\<lambda>snapshotId.
     await (writes (canvas_snapshots_update (\<lambda>r. r @ [\<lparr> sn_id = snapshotId, sn_canvasId = cv_id c,
              sn_snapshotData = buildSnapshotData objects, sn_createdBy = Some (ru_id caller),
              sn_trigger = ''pre-commit'', sn_createdAt = t \<rparr>]))) (\<lambda>_.
     await gen_uuid (\<lambda>versionId.
     await (insert_workflow_version \<lparr> wv_id = versionId, wv_workflowId = wf_id w,
              wv_versionNumber = wf_currentVersion w + 1,
              wv_elementsJson = JObj [(''elements'', JArr (map element_json objects))],
              wv_elsaJson = None, wv_confidenceScore = None, wv_createdBy = Some (ru_id caller),
              wv_createdAt = t \<rparr>) (\<lambda>_.
     await (writes (workflows_update (update_where (\<lambda>r. wf_id r = wf_id w)
              (\<lambda>r. r\<lparr>wf_currentVersion := wf_currentVersion w + 1, wf_updatedAt := t\<rparr>)))) (\<lambda>_.
     await gen_uuid (\<lambda>k.
     await (writes (canvas_versions_update (\<lambda>r. r @ [\<lparr> cn_id = k, cn_canvasId = cv_id c,
              cn_workflowVersionId = Some versionId, cn_snapshotId = Some snapshotId,
              cn_label = label, cn_type = ''committed'', cn_createdBy = Some (ru_id caller),
              cn_createdAt = t \<rparr>]))) (\<lambda>_.
     ok versionId))))))))"

text \<open>After the transaction: the version is read back, audited and announced.\<close>

definition finish_commit ::
    "workflow \<Rightarrow> canvas \<Rightarrow> canvas_object list \<Rightarrow> request_user \<Rightarrow> uuid \<Rightarrow>
     ('z canvas_state_scheme, canvas_version) action" where
  "finish_commit w c objects caller versionId =
     await (reads (\<lambda>s. first_row (sort_desc cn_createdAt (filter (\<lambda>v. cn_canvasId v = cv_id c \<and>
              cn_workflowVersionId v = Some versionId) (canvas_versions s))))) (\<lambda>found.
     await (some_or_throw found
              (PlainError ''Failed to create canvas version during commit'')) (\<lambda>saved.
     await (audit (Some (wf_id w)) (Some (ru_id caller)) ActorType.USER ''CANVAS_COMMITTED''
              (Some (cn_id saved)) JNull (JObj [(''workflow_version_id'', JStr versionId),
                (''version_number'', json_int (wf_currentVersion w + 1)),
                (''object_count'', json_int (int (length objects)))])) (\<lambda>_.
     await (broadcastCanvasCommitted (cv_id c) (wf_id w) saved versionId (wf_currentVersion w + 1)) (\<lambda>_.
     ok saved))))"

definition commitCanvas ::
    "uuid \<Rightarrow> string option \<Rightarrow> request_user \<Rightarrow> ('z canvas_state_scheme, canvas_version) action" where
  "commitCanvas workflowId label caller =
     await (findWorkflowInOrgOrThrow workflowId (ru_orgId caller) ''Workflow not found'') (\<lambda>w.
     await (require (wf_ownerId w = ru_id caller \<or> ru_role caller = user_role_str UserRole.ADMIN)
              (Forbidden ''Only owner or admin can commit the canvas'')) (\<lambda>_.
     await (getCanvas workflowId (ru_orgId caller)) (\<lambda>c.
     await (reads (objects_of (cv_id c))) (\<lambda>objects.
     await (transaction (commit_writes w c label objects caller)) (\<lambda>versionId.
     finish_commit w c objects caller versionId)))))"

definition getVersions :: "uuid \<Rightarrow> uuid \<Rightarrow> ('z canvas_state_scheme, canvas_version list) action" where
  "getVersions workflowId orgId =
     await (getCanvas workflowId orgId) (\<lambda>c.
     reads (\<lambda>s. sort_desc cn_createdAt (filter (\<lambda>x. cn_canvasId x = cv_id c) (canvas_versions s))))"

definition getVersion :: "uuid \<Rightarrow> uuid \<Rightarrow> ('z canvas_state_scheme, canvas_version) action" where
  "getVersion versionId orgId =
     await (reads (\<lambda>s. find_row cn_id versionId (canvas_versions s))) (\<lambda>found.
     await (some_or_throw found (NotFound ''Canvas version not found'')) (\<lambda>v.
     await (resolveWorkflowId (cn_canvasId v) orgId) (\<lambda>_.
     ok v)))"

text \<open>The requests that change canvas state.\<close>

datatype canvas_request =
    OpenCanvas uuid request_user
  | CreateObject uuid create_object_dto request_user
  | UpdateObject uuid update_object_dto request_user
  | MoveObject uuid move_object_dto request_user
  | DeleteObject uuid request_user
  | AppendOperation uuid "uuid option" uuid string json "json option"
  | SubmitOperation uuid create_operation_dto request_user
  | TakeSnapshot uuid "string option" request_user
  | Commit uuid "string option" request_user

fun serve_canvas :: "canvas_request \<Rightarrow> ('z canvas_state_scheme, unit) action" where
  "serve_canvas (OpenCanvas w u) = await (getOrCreateCanvas w (ru_orgId u)) (\<lambda>_. ok ())"
| "serve_canvas (CreateObject w d u) = await (createObject w d u) (\<lambda>_. ok ())"
| "serve_canvas (UpdateObject i d u) = await (updateObject i d u) (\<lambda>_. ok ())"
| "serve_canvas (MoveObject i d u) = await (moveObject i d u) (\<lambda>_. ok ())"
| "serve_canvas (DeleteObject i u) = await (deleteObject i u) (\<lambda>_. ok ())"
| "serve_canvas (AppendOperation c i u ty p v) = await (appendOperation c i u ty p v) (\<lambda>_. ok ())"
| "serve_canvas (SubmitOperation w d u) = await (createOperation w d u) (\<lambda>_. ok ())"
| "serve_canvas (TakeSnapshot w tr u) = await (createSnapshot w tr u) (\<lambda>_. ok ())"
| "serve_canvas (Commit w l u) = await (commitCanvas w l u) (\<lambda>_. ok ())"

fun serve_canvases :: "canvas_request list \<Rightarrow> 'z canvas_state_scheme \<Rightarrow> 'z canvas_state_scheme" where
  "serve_canvases [] s = s"
| "serve_canvases (r # rs) s = serve_canvases rs (snd (serve_canvas r s))"

end
