(* ===== verification/CanvasLog.thy ===== *)
theory CanvasLog
  imports Canvas
begin

text \<open>
  The operation log of a canvas. A \<open>log_invariant\<close> is a property of the canvases and their
  operations that opening a canvas and appending an operation preserve; every request of the
  canvas service then preserves it. Two instances: the log of a canvas is gapless, and its
  revision never goes back.
\<close>

section \<open>What appending does\<close>

definition appended ::
    "canvas \<Rightarrow> 'z canvas_state_scheme \<Rightarrow> (exn + canvas_operation) \<times> 'z canvas_state_scheme \<Rightarrow> bool" where
  "appended c s = (\<lambda>(r, t). case r of
     Inl e \<Rightarrow> canvases t = canvases s \<and> canvas_operations t = canvas_operations s
   | Inr x \<Rightarrow> canvases t = save_row cv_id (c\<lparr>cv_revision := cv_revision c + 1,
               cv_updatedAt := now s\<rparr>) (canvases s) \<and>
             canvas_operations t = canvas_operations s @ [x] \<and>
             op_canvasId x = cv_id c \<and> op_sequenceNumber x = cv_revision c + 1 \<and>
             op_id x \<notin> op_id ` set (canvas_operations s) \<and> scope_ok x \<and>
             (case op_canvasObjectId x of None \<Rightarrow> True
              | Some i \<Rightarrow> i \<in> co_id ` set (canvas_objects s)))"

lemma save_canvas_run [action_simps]:
  "save_canvas c s =
     (Inr (), s\<lparr>canvases := save_row cv_id (c\<lparr>cv_updatedAt := now s\<rparr>) (canvases s)\<rparr>)"
  by (simp add: save_canvas_def action_simps)

lemma insert_operation_Inr_iff:
  "insert_operation x s = (Inr u, t) \<longleftrightarrow>
   op_id x \<notin> op_id ` set (canvas_operations s) \<and> scope_ok x \<and>
   (case op_clientRevision x of None \<Rightarrow> True | Some n \<Rightarrow> 0 \<le> n) \<and> canvas_binding_ok x s \<and>
   (case op_canvasObjectId x of None \<Rightarrow> True | Some i \<Rightarrow> i \<in> co_id ` set (canvas_objects s)) \<and>
   tenant_ok x s \<and> t = canvas_operations_update (\<lambda>t. t @ [x]) s"
  by (auto simp: insert_operation_def action_Inr)

lemma insert_operation_Inl: "insert_operation x s = (Inl e, t) \<Longrightarrow> t = s"
  by (auto simp: insert_operation_def action_simps split: if_splits)

lemma insert_and_save:
  assumes "op_canvasId x = cv_id c" "op_sequenceNumber x = cv_revision c + 1"
  shows "appended c s (await (insert_operation x) (\<lambda>_.
     await (save_canvas (c\<lparr>cv_revision := cv_revision c + 1\<rparr>)) (\<lambda>_. ok x)) s)"
proof (cases "insert_operation x s")
  case (Pair r t)
  show ?thesis
  proof (cases r)
    case (Inl e)
    with Pair insert_operation_Inl [of x s e t] show ?thesis
      by (simp add: appended_def await_run)
  next
    case (Inr u)
    with Pair have "insert_operation x s = (Inr u, t)" by simp
    then show ?thesis
      using assms unfolding insert_operation_Inr_iff
      by (simp add: Pair Inr appended_def await_run save_canvas_run ok_run)
  qed
qed

lemma appended_shift: "appended c (s\<lparr>uuid_next := n\<rparr>) rt = appended c s rt"
  by (auto simp: appended_def split: sum.splits prod.splits option.splits)

lemma append_appended: "appended c s (appendOperationWithLockedCanvas c i u ty p v s)"
proof -
  have prefix: "appended c s (await m f s)"
    if "m s = (Inr y, s)" "appended c s (f y s)" for m y and f
    using that by (simp add: await_run)
  show ?thesis
  proof (cases "cv_workspaceId c")
    case None
    then show ?thesis
      unfolding appendOperationWithLockedCanvas_def Let_def
      by (simp add: await_run [of gen_uuid] await_run [of current_time] await_run [of "ok _"]
          gen_uuid_run current_time_run ok_run insert_and_save [THEN appended_shift [THEN iffD1]])
  next
    case (Some w)
    show ?thesis
    proof (cases "find_row wf_id (cv_workflowId c) (workflows s)")
      case None
      with Some show ?thesis
        by (simp add: appendOperationWithLockedCanvas_def action_simps appended_def)
    next
      case (Some wf)
      with \<open>cv_workspaceId c = Some w\<close> show ?thesis
        unfolding appendOperationWithLockedCanvas_def Let_def
        by (simp add: await_run [of gen_uuid] await_run [of current_time] await_run [of "reads _"]
            await_run [of "some_or_throw _ _"] await_run [of "await _ _"] reads_run some_or_throw_run
            gen_uuid_run current_time_run ok_run insert_and_save [THEN appended_shift [THEN iffD1]])
    qed
  qed
qed

text \<open>The case distinction of \<open>createOperation\<close>'s transaction on a new id appends, too.\<close>

lemma apply_appended: "appended c s (apply_operation c dto u s)"
proof (cases "cod_client_revision dto = cv_revision c \<and>
    (case cod_canvas_object_id dto of None \<Rightarrow> True
     | Some i \<Rightarrow> list_ex (\<lambda>x. co_id x = i \<and> co_canvasId x = cv_id c) (canvas_objects s))")
  case True
  then show ?thesis
    unfolding apply_operation_def Let_def
    by (auto simp: await_run [of "require _ _"] await_run [of current_time] await_run [of "ok _"]
        await_run [of "await _ _"] await_run [of "reads _"] reads_run require_run current_time_run
        ok_run insert_and_save split: option.splits)
next
  case False
  then show ?thesis
    by (auto simp: apply_operation_def action_simps appended_def split: option.splits)
qed

section \<open>Invariants of the log\<close>

definition locked_in :: "canvas \<Rightarrow> 'z canvas_state_scheme \<Rightarrow> bool" where
  "locked_in c s \<longleftrightarrow> find_row cv_id (cv_id c) (canvases s) = Some c"

lemma lockCanvas_Inr_iff:
  "lockCanvas i s = (Inr c, t) \<longleftrightarrow> find_row cv_id i (canvases s) = Some c \<and> t = s"
  by (auto simp: lockCanvas_def action_Inr)

lemma lockCanvas_locked: "lockCanvas i s = (Inr c, t) \<Longrightarrow> locked_in c s \<and> cv_id c = i"
  by (auto simp: lockCanvas_Inr_iff locked_in_def dest: find_row_Some)

lemma reads_canvas [read_intros]:
  "reads_only (lockCanvas i)" "reads_only (findCanvasOrThrow i)" "reads_only (resolveWorkflowId i org)"
  "reads_only (findObjectInOrgOrThrow i org)" "reads_only (lockObject i k u msg)"
  "reads_only (assertOperationPayloadBounded j)" "reads_only (getCanvas w org)"
  unfolding lockCanvas_def findCanvasOrThrow_def resolveWorkflowId_def findObjectInOrgOrThrow_def
    lockObject_def assertOperationPayloadBounded_def getCanvas_def
  by (intro read_intros)+

lemma reads_permission [read_intros]: "reads_only (requireCanvasMutationPermission c u)"
  unfolding requireCanvasMutationPermission_def by (intro read_intros)

lemmas keeps_canvas_reads [keeps_intros] =
  reads_canvas [THEN reads_only_keepsI] reads_permission [THEN reads_only_keepsI]

locale log_invariant =
  fixes P :: "'z canvas_state_scheme \<Rightarrow> bool"
  assumes frame: "P s \<Longrightarrow> canvases t = canvases s \<Longrightarrow>
      map (\<lambda>x. (op_id x, op_canvasId x, op_sequenceNumber x)) (canvas_operations t) =
      map (\<lambda>x. (op_id x, op_canvasId x, op_sequenceNumber x)) (canvas_operations s) \<Longrightarrow> P t"
    and open_canvas: "P s \<Longrightarrow> cv_id c \<notin> cv_id ` set (canvases s) \<Longrightarrow> cv_revision c = 0 \<Longrightarrow>
      P (canvases_update (\<lambda>t. t @ [c]) s)"
    and append: "P s \<Longrightarrow> locked_in c s \<Longrightarrow> appended c s (r, t) \<Longrightarrow> P t"
begin

lemma P_db_only: "db_only P"
  by (rule db_onlyI) (auto elim: frame)

lemma Q_db_only: "db_only (\<lambda>s. P s \<and> locked_in c s)"
  using P_db_only by (auto simp: db_only_def locked_in_def)

lemma leaves_append: "P s \<and> locked_in c s \<Longrightarrow> leaves P (appendOperationWithLockedCanvas c i u ty p v) s"
  using append append_appended unfolding leaves_def by (metis prod.collapse)

lemma leaves_apply: "P s \<and> locked_in c s \<Longrightarrow> leaves P (apply_operation c dto u) s"
  using append apply_appended unfolding leaves_def by (metis prod.collapse)

lemma keeps_insert_canvas: "cv_revision c = 0 \<Longrightarrow> keeps P (insert_canvas c)"
  by (rule keepsI) (auto simp: insert_canvas_def action_simps intro: open_canvas)

lemma keeps_open: "keeps P (getOrCreateCanvas w org)"
  unfolding getOrCreateCanvas_def Let_def
  by (intro keeps_intros keeps_insert_canvas P_db_only) simp

lemma locked_keeps:
  assumes "\<And>c s. P s \<and> locked_in c s \<Longrightarrow> cv_id c = i \<Longrightarrow> leaves P (f c) s"
  shows "keeps P (transaction (await (lockCanvas i) f))"
  unfolding keeps_leaves
  by (intro allI impI leaves_transaction leaves_guard read_intros assms)
     (auto dest: lockCanvas_locked)

text \<open>Rows of the other tables may change while the canvas is locked.\<close>

lemma keeps_locked_objects:
  "keeps (\<lambda>s. P s \<and> locked_in c s) (writes (canvas_objects_update f))"
  by (rule keeps_writes) (auto simp: locked_in_def elim: frame)

lemma keeps_locked_save_object: "keeps (\<lambda>s. P s \<and> locked_in c s) (save_object obj)"
  unfolding save_object_def by (intro keeps_intros keeps_locked_objects)

lemma keeps_locked_remove: "keeps (\<lambda>s. P s \<and> locked_in c s) (remove_object i)"
proof -
  have "P (canvas_operations_update (update_where (\<lambda>x. op_canvasObjectId x = Some i)
      (op_canvasObjectId_update (\<lambda>_. None))) s)" if "P s" for s
    by (rule frame [OF that]) (simp_all add: update_where_def)
  then show ?thesis
    unfolding remove_object_def
    by (intro keeps_intros keeps_locked_objects) (auto simp: locked_in_def)
qed

lemma append_then_ok:
  "P s \<and> locked_in c s \<Longrightarrow>
   leaves P (await (appendOperationWithLockedCanvas c i u ty p v) (\<lambda>x. ok (g x))) s"
  by (rule leaves_step) (auto intro: leaves_append leaves_keeps keeps_ok)

text \<open>Under the lock, \<open>leaves P\<close> is shown step by step, carrying \<open>locked_in c\<close>.\<close>

lemmas under_lock = leaves_via [where P = P and Q = "\<lambda>s. P s \<and> locked_in c s" for c]

lemmas lock_keeps = keeps_locked_objects keeps_locked_save_object keeps_locked_remove
  keeps_gen_uuid [OF Q_db_only] keeps_current_time reads_canvas [THEN reads_only_keepsI]

lemma keeps_createObject: "keeps P (createObject w dto u)"
  unfolding createObject_def Let_def
  apply (rule keeps_await [OF keeps_open])
  apply (rule keeps_await [OF reads_permission [THEN reads_only_keepsI]])
  apply (rule keeps_await)
   apply (rule locked_keeps)
   apply (rule under_lock, rule lock_keeps, assumption, simp)+
   apply (erule append_then_ok)
  apply (intro keeps_intros P_db_only)
  done

lemma keeps_updateObject: "keeps P (updateObject i dto u)"
  unfolding updateObject_def
  apply (rule keeps_await, rule keeps_canvas_reads)+
  apply (rule keeps_await)
   apply (rule locked_keeps)
   apply (rule under_lock, rule lock_keeps, assumption, simp)+
   apply (erule append_then_ok)
  apply (intro keeps_intros P_db_only)
  done

lemma keeps_moveObject: "keeps P (moveObject i dto u)"
  unfolding moveObject_def
  apply (rule keeps_await, rule keeps_canvas_reads)+
  apply (rule keeps_await)
   apply (rule locked_keeps)
   apply (rule under_lock, rule lock_keeps, assumption, simp)+
   apply (erule append_then_ok)
  apply (intro keeps_intros P_db_only)
  done

lemma keeps_deleteObject: "keeps P (deleteObject i u)"
  unfolding deleteObject_def
  apply (rule keeps_await, rule keeps_canvas_reads)+
  apply (rule keeps_await)
   apply (rule locked_keeps)
   apply (rule under_lock, rule lock_keeps, assumption, simp)+
   apply (erule append_then_ok)
  apply (intro keeps_intros P_db_only)
  done

lemma keeps_operation_transaction: "keeps P (operation_transaction c dto u)"
  unfolding operation_transaction_def
  apply (rule locked_keeps)
  apply (rule leaves_guard, rule read_intros, simp)
  apply (split option.split, intro conjI allI impI)
   apply (rule leaves_step, erule leaves_apply, rule leaves_keeps, rule keeps_ok, assumption)
  apply (rule leaves_keeps, intro keeps_intros, simp)
  done

lemma keeps_createOperation: "keeps P (createOperation w dto u)"
  unfolding createOperation_def
  apply (rule keeps_await [OF keeps_open])
  apply (rule keeps_await, rule keeps_canvas_reads)+
  apply (rule keeps_try_catch)
   apply (rule keeps_await [OF keeps_operation_transaction])
   apply (auto intro!: keeps_intros P_db_only split: option.split bool.split exn.split)
  done

text \<open>Snapshots and commits do not touch the log.\<close>

lemma keeps_other_writes:
  "keeps P (writes (canvas_snapshots_update f))" "keeps P (writes (workflows_update g))"
  "keeps P (writes (workflow_versions_update h))" "keeps P (writes (canvas_versions_update k))"
  by (auto intro!: keeps_writes elim: frame)

lemma keeps_createSnapshot: "keeps P (createSnapshot w tr u)"
  unfolding createSnapshot_def Let_def by (intro keeps_other_writes keeps_intros P_db_only)

lemma keeps_commitCanvas: "keeps P (commitCanvas w l u)"
  unfolding commitCanvas_def finish_commit_def commit_writes_def insert_workflow_version_def
  by (intro keeps_other_writes keeps_intros P_db_only)

lemma keeps_appendOperation: "keeps P (appendOperation c i u ty p v)"
  unfolding appendOperation_def by (rule locked_keeps) (rule leaves_append)

lemma keeps_serve: "keeps P (serve_canvas r)"
  by (cases r)
     (auto intro!: keeps_await keeps_ok keeps_open keeps_createObject keeps_updateObject
        keeps_moveObject keeps_deleteObject keeps_createOperation keeps_createSnapshot
        keeps_commitCanvas keeps_appendOperation)

lemma serve_all: "P s \<Longrightarrow> P (serve_canvases rs s)"
  using keeps_serve by (induction rs arbitrary: s) (auto simp: keeps_def)

end

section \<open>The log is gapless\<close>

definition log_inv :: "'z canvas_state_scheme \<Rightarrow> bool" where
  "log_inv s \<longleftrightarrow>
     keyed cv_id (canvases s) \<and> keyed op_id (canvas_operations s) \<and>
     op_canvasId ` set (canvas_operations s) \<subseteq> cv_id ` set (canvases s) \<and>
     (\<forall>c \<in> set (canvases s). 0 \<le> cv_revision c \<and>
        map op_sequenceNumber (filter (\<lambda>x. op_canvasId x = cv_id c) (canvas_operations s)) =
        [1..cv_revision c])"

definition log_of :: "uuid \<Rightarrow> 'z canvas_state_scheme \<Rightarrow> canvas_operation list" where
  "log_of i s = filter (\<lambda>x. op_canvasId x = i) (canvas_operations s)"

lemma map_filter_via:
  assumes "map (\<lambda>x. (f x, g x, h x)) xs = map (\<lambda>x. (f x, g x, h x)) ys"
  shows "map h (filter (\<lambda>x. g x = k) xs) = map h (filter (\<lambda>x. g x = k) ys)"
    and "map f xs = map f ys" and "g ` set xs = g ` set ys"
  using assms
  by (induction xs ys rule: list_induct2') (auto split: if_splits)

lemma upto_snoc: "0 \<le> n \<Longrightarrow> [1..n + 1] = [1..n] @ [n + 1 :: int]"
  by (subst upto_rec2) auto

lemma log_inv_frame:
  assumes "log_inv s" and "canvases t = canvases s"
    and "map (\<lambda>x. (op_id x, op_canvasId x, op_sequenceNumber x)) (canvas_operations t) =
      map (\<lambda>x. (op_id x, op_canvasId x, op_sequenceNumber x)) (canvas_operations s)"
  shows "log_inv t"
  using assms(1) map_filter_via [OF assms(3)] unfolding log_inv_def assms(2) keyed_def by simp

lemma log_inv_append:
  assumes inv: "log_inv s" and lock: "locked_in c s" and app: "appended c s (r, t)"
  shows "log_inv t"
proof (cases r)
  case (Inl e)
  with app log_inv_frame [OF inv, of t] show ?thesis by (simp add: appended_def)
next
  case (Inr x)
  let ?c = "c\<lparr>cv_revision := cv_revision c + 1, cv_updatedAt := now s\<rparr>"
  from app Inr have t: "canvases t = save_row cv_id ?c (canvases s)"
    "canvas_operations t = canvas_operations s @ [x]"
    and x: "op_canvasId x = cv_id c" "op_sequenceNumber x = cv_revision c + 1"
      "op_id x \<notin> op_id ` set (canvas_operations s)"
    by (auto simp: appended_def)
  have k: "keyed cv_id (canvases s)" using inv by (simp add: log_inv_def)
  have c: "c \<in> set (canvases s)"
    using lock find_row_Some unfolding locked_in_def by metis
  have rows: "set (canvases t) = insert ?c {y \<in> set (canvases s). cv_id y \<noteq> cv_id c}"
    using canvas_repo.rows_save [OF k, of ?c] t(1) by simp
  have "keyed cv_id (canvases t)" using k t(1) by simp
  moreover have "keyed op_id (canvas_operations t)"
    using inv t(2) x(3) by (auto simp: log_inv_def keyed_def)
  moreover have "op_canvasId ` set (canvas_operations t) \<subseteq> cv_id ` set (canvases t)"
    using inv t(2) x(1) keys_save_row [of cv_id ?c "canvases s"]
    by (auto simp: log_inv_def t(1))
  moreover have "0 \<le> cv_revision d \<and>
      map op_sequenceNumber (filter (\<lambda>y. op_canvasId y = cv_id d) (canvas_operations t)) =
      [1..cv_revision d]" if d: "d \<in> set (canvases t)" for d
  proof (cases "cv_id d = cv_id c")
    case True
    with d rows have "d = ?c" by auto
    moreover have "0 \<le> cv_revision c"
      and "map op_sequenceNumber (filter (\<lambda>y. op_canvasId y = cv_id c) (canvas_operations s)) =
        [1..cv_revision c]"
      using inv c by (simp_all add: log_inv_def)
    ultimately show ?thesis
      using upto_snoc [of "cv_revision c"] by (simp add: t(2) x(1,2))
  next
    case False
    with d rows have "d \<in> set (canvases s)" by auto
    with inv False show ?thesis by (simp add: log_inv_def t(2) x(1))
  qed
  ultimately show ?thesis by (simp add: log_inv_def)
qed

interpretation log: log_invariant log_inv
proof unfold_locales
  fix s :: "'a canvas_state_scheme" and c :: canvas
  assume inv: "log_inv s" and new: "cv_id c \<notin> cv_id ` set (canvases s)" "cv_revision c = 0"
  have owned: "op_canvasId ` set (canvas_operations s) \<subseteq> cv_id ` set (canvases s)"
    using inv unfolding log_inv_def by blast
  have "op_canvasId x \<noteq> cv_id c" if "x \<in> set (canvas_operations s)" for x
    using imageI [OF that, of op_canvasId] subsetD [OF owned] new(1) by metis
  then have "filter (\<lambda>x. op_canvasId x = cv_id c) (canvas_operations s) = []"
    by (simp add: filter_empty_conv)
  moreover have "op_canvasId ` set (canvas_operations s) \<subseteq> insert (cv_id c) (cv_id ` set (canvases s))"
    using owned by blast
  ultimately show "log_inv (canvases_update (\<lambda>t. t @ [c]) s)"
    using inv new unfolding log_inv_def keyed_def by simp
qed (fact log_inv_frame log_inv_append)+

text \<open>C6: the operation log of every canvas is gapless: whatever requests are served, by whatever
  users, interrupted by whatever errors, the operations of a canvas carry the sequence numbers
  1, 2, and so on up to its revision, in the order they were stored.\<close>

theorem canvas_log_gapless:
  assumes "log_inv s" and "c \<in> set (canvases (serve_canvases rs s))"
  shows "map op_sequenceNumber (log_of (cv_id c) (serve_canvases rs s)) = [1..cv_revision c]"
  using log.serve_all [OF assms(1), of rs] assms(2) by (simp add: log_inv_def log_of_def)

lemma demo_log_inv: "log_inv demo_canvas_state"
  by (simp add: log_inv_def keyed_def demo_canvas_simps)

theorem canvas_log_gapless_witness:
  "list_all (\<lambda>c. map op_sequenceNumber (log_of (cv_id c) (serve_canvases
       [MoveObject ''ob'' \<lparr> mob_position_x = 5, mob_position_y = 6 \<rparr> bob] demo_canvas_state)) =
     [1..cv_revision c])
     (canvases (serve_canvases [MoveObject ''ob'' \<lparr> mob_position_x = 5, mob_position_y = 6 \<rparr> bob]
       demo_canvas_state))"
  unfolding list_all_iff using canvas_log_gapless [OF demo_log_inv] by blast

section \<open>The revision never goes back\<close>

definition canvas_revision :: "uuid \<Rightarrow> 'z canvas_state_scheme \<Rightarrow> int" where
  "canvas_revision i s =
     (case find_row cv_id i (canvases s) of None \<Rightarrow> 0 | Some c \<Rightarrow> cv_revision c)"

definition canvas_of_workflow_at :: "uuid \<Rightarrow> uuid \<Rightarrow> int \<Rightarrow> 'z canvas_state_scheme \<Rightarrow> bool" where
  "canvas_of_workflow_at w i n s \<longleftrightarrow> keyed cv_id (canvases s) \<and>
     (case canvas_of_workflow w s of None \<Rightarrow> False | Some c \<Rightarrow> cv_id c = i \<and> n \<le> cv_revision c)"

interpretation revision: log_invariant "canvas_of_workflow_at w i n" for w i n
proof unfold_locales
  fix s :: "'a canvas_state_scheme" and c :: canvas
  assume "canvas_of_workflow_at w i n s" "cv_id c \<notin> cv_id ` set (canvases s)" "cv_revision c = 0"
  then show "canvas_of_workflow_at w i n (canvases_update (\<lambda>t. t @ [c]) s)"
    by (auto simp: canvas_of_workflow_at_def canvas_of_workflow_def find_append keyed_def
          split: option.splits)
next
  fix s t :: "'a canvas_state_scheme" and c :: canvas and r
  assume floor: "canvas_of_workflow_at w i n s" and lock: "locked_in c s" and app: "appended c s (r, t)"
  let ?c = "c\<lparr>cv_revision := cv_revision c + 1, cv_updatedAt := now s\<rparr>"
  obtain d where d: "find (\<lambda>c. cv_workflowId c = w) (canvases s) = Some d" "cv_id d = i"
      "n \<le> cv_revision d" and k: "keyed cv_id (canvases s)"
    using floor by (auto simp: canvas_of_workflow_at_def canvas_of_workflow_def split: option.splits)
  show "canvas_of_workflow_at w i n t"
  proof (cases r)
    case (Inl e)
    with app floor show ?thesis
      by (simp add: appended_def canvas_of_workflow_at_def canvas_of_workflow_def)
  next
    case (Inr x)
    with app have t: "canvases t = save_row cv_id ?c (canvases s)" by (simp add: appended_def)
    show ?thesis
    proof (cases "cv_id c = cv_id d")
      case True
      have "d \<in> set (canvases s)" "cv_workflowId d = w" using find_Some_conv [OF d(1)] by auto
      moreover have "c \<in> set (canvases s)" using lock find_row_Some unfolding locked_in_def by metis
      ultimately have "c = d" using canvas_repo.key_unique [OF k] True by blast
      with d k \<open>cv_workflowId d = w\<close> show ?thesis
        using find_save_row [of "\<lambda>c. cv_workflowId c = w" "canvases s" d cv_id ?c]
        by (simp add: canvas_of_workflow_at_def canvas_of_workflow_def t)
    next
      case False
      then have "find (\<lambda>c. cv_workflowId c = w) (canvases t) = Some d"
        unfolding t using lock
        by (intro find_save_other [where key = cv_id and r = ?c and r0 = c, OF d(1)])
           (simp_all add: locked_in_def)
      with d k show ?thesis by (simp add: canvas_of_workflow_at_def canvas_of_workflow_def t)
    qed
  qed
qed (auto simp: canvas_of_workflow_at_def canvas_of_workflow_def)

end
