(* ===== verification/CanvasProps.thy ===== *)
theory CanvasProps
  imports CanvasLog
begin

text \<open>
  The properties of the canvas service: what an accepted operation stores, retries, stale
  revisions (through the \<open>versioned\<close> interface), locked objects, commits, and the two
  operations that can never succeed against the constraints of the database.
\<close>

section \<open>Deep equality is reflexive\<close>

text \<open>JavaScript objects have distinct keys.\<close>

fun json_wf :: "json \<Rightarrow> bool" where
  "json_wf (JObj fs) = (distinct (map fst fs) \<and> list_all (\<lambda>kv. json_wf (snd kv)) fs)"
| "json_wf (JArr vs) = list_all json_wf vs"
| "json_wf _ = True"

lemma deep_equal_refl: "json_wf v \<Longrightarrow> deep_equal v v"
proof (induction v)
  case (JObj fs)
  have "case map_of fs (fst kv) of None \<Rightarrow> False | Some w \<Rightarrow> deep_equal (snd kv) w"
    if kv: "kv \<in> set fs" for kv
  proof -
    have "map_of fs (fst kv) = Some (snd kv)"
      using kv JObj.prems by simp
    moreover have "deep_equal (snd kv) (snd kv)"
      using JObj.IH [of kv "snd kv"] JObj.prems kv by (auto simp: list_all_iff snds.simps)
    ultimately show ?thesis by simp
  qed
  then show ?case by (simp add: list_all_iff)
next
  case (JArr vs)
  then have "deep_equal v v" if "v \<in> set vs" for v
    using that by (simp add: list_all_iff)
  then show ?case by (auto simp: list_all_iff zip_same_conv_map)
qed simp_all

section \<open>The canvas of a workflow\<close>

lemma canvas_of_workflow_Some:
  "canvas_of_workflow w s = Some c \<Longrightarrow> cv_workflowId c = w \<and> c \<in> set (canvases s)"
  unfolding canvas_of_workflow_def by (drule find_Some_conv) simp

lemma log_inv_find:
  assumes "log_inv s" and "canvas_of_workflow w s = Some c"
  shows "find_row cv_id (cv_id c) (canvases s) = Some c"
  using assms(1) find_row_keyed [of cv_id "canvases s" c] canvas_of_workflow_Some [OF assms(2)]
  by (simp add: log_inv_def)

text \<open>What opening a canvas leaves behind: the canvas, found again by the same call.\<close>

lemma getOrCreate_Inr_iff:
  "getOrCreateCanvas w org s = (Inr c, t) \<longleftrightarrow>
   (\<exists>wf. workflow_in_org w org s = Some wf) \<and>
   (case canvas_of_workflow w s of
      Some c' \<Rightarrow> c = c' \<and> t = s
    | None \<Rightarrow> c = \<lparr> cv_id = uuids s (uuid_next s), cv_workflowId = w, cv_workspaceId = None,
               cv_revision = 0, cv_width = 1440, cv_height = 1024, cv_background = ''#FFFFFF'',
               cv_createdAt = now s, cv_updatedAt = now s \<rparr> \<and>
             cv_id c \<notin> cv_id ` set (canvases s) \<and> w \<notin> cv_workflowId ` set (canvases s) \<and>
             t = snd (audit (Some w) None ActorType.SYSTEM ''CANVAS_CREATED'' None JNull
                   (JObj [(''canvas_id'', JStr (cv_id c))])
                   (s\<lparr>uuid_next := Suc (uuid_next s), canvases := canvases s @ [c]\<rparr>)))"
proof (cases "workflow_in_org w org s")
  case (Some wf)
  then have "wf_id wf = w" using workflow_in_org_Some by blast
  with Some show ?thesis
    by (auto simp: getOrCreateCanvas_def insert_canvas_def Let_def action_Inr findWorkflow_Inr_iff
          gen_uuid_run current_time_run audit_run split: option.splits)
qed (auto simp: getOrCreateCanvas_def action_Inr findWorkflow_Inr_iff)

lemma getOrCreate_Inr:
  assumes "getOrCreateCanvas w org s = (Inr c, t)"
  shows "canvas_of_workflow w t = Some c" "workflow_in_org w org t \<noteq> None"
    "canvas_operations t = canvas_operations s" "canvas_objects t = canvas_objects s"
    "ws_members t = ws_members s" "org_members t = org_members s"
    "\<And>c'. canvas_of_workflow w s = Some c' \<Longrightarrow> t = s \<and> c' = c"
    "canvas_of_workflow w s = None \<Longrightarrow> cv_workspaceId c = None"
  using assms
  by (auto simp: getOrCreate_Inr_iff audit_run canvas_of_workflow_def workflow_in_org_def find_append
        split: option.splits)

lemma getOrCreate_found:
  "workflow_in_org w org t \<noteq> None \<Longrightarrow> canvas_of_workflow w t = Some c \<Longrightarrow>
   getOrCreateCanvas w org t = (Inr c, t)"
  by (auto simp: getOrCreateCanvas_def action_simps dest: workflow_in_org_Some split: option.splits)

lemma permission_Inr_iff:
  "requireCanvasMutationPermission c u s = (Inr x, t) \<longleftrightarrow>
   t = s \<and> (case cv_workspaceId c of
      Some w \<Rightarrow> editor_permitted s (ru_id u) (w, ru_orgId u)
    | None \<Rightarrow> ru_role u \<in> set legacyMutationRoles)"
proof (cases "cv_workspaceId c")
  case None
  then show ?thesis by (auto simp: requireCanvasMutationPermission_def require_Inr_iff)
next
  case (Some w)
  obtain r where run: "requireEditor (ru_id u) w (ru_orgId u) s = (r, s)"
    using reads_onlyD [OF reads_requireEditor] by (metis prod.collapse)
  then show ?thesis
    using Some editor_gate.check_grants [of "ru_id u" "(w, ru_orgId u)" s]
      editor_gate.check_denies [of "ru_id u" "(w, ru_orgId u)" s]
    by (cases r) (auto simp: requireCanvasMutationPermission_def action_Inr)
qed

section \<open>Accepted operations\<close>

lemma apply_Inr:
  assumes "apply_operation c dto u s = (Inr x, t)"
  shows "cod_client_revision dto = cv_revision c"
    "x = \<lparr> op_id = cod_operation_id dto, op_canvasId = cv_id c,
           op_organizationId = Some (ru_orgId u), op_workspaceId = cv_workspaceId c,
           op_canvasObjectId = cod_canvas_object_id dto, op_userId = ru_id u,
           op_opType = cod_op_type dto, op_opPayload = cod_op_payload dto,
           op_versionVector = cod_version_vector dto, op_sequenceNumber = cv_revision c + 1,
           op_clientRevision = Some (cod_client_revision dto), op_createdAt = now s \<rparr>"
    "scope_ok x"
    "case cod_canvas_object_id dto of None \<Rightarrow> True
     | Some i \<Rightarrow> \<exists>y \<in> set (canvas_objects s). co_id y = i \<and> co_canvasId y = cv_id c"
    "t = s\<lparr>canvases := save_row cv_id (c\<lparr>cv_revision := cv_revision c + 1, cv_updatedAt := now s\<rparr>)
             (canvases s), canvas_operations := canvas_operations s @ [x]\<rparr>"
  using assms
  by (auto simp: apply_operation_def Let_def action_Inr insert_operation_Inr_iff save_canvas_run
        current_time_run list_ex_iff split: option.splits)

lemma operation_transaction_Inr_iff:
  "operation_transaction c dto u s = (Inr (x, dup, locked), t) \<longleftrightarrow>
   find_row cv_id (cv_id c) (canvases s) = Some locked \<and>
   (case find_row op_id (cod_operation_id dto) (canvas_operations s) of
      Some e \<Rightarrow> sameLogicalOperation e c dto u \<and> x = e \<and> dup \<and> t = s
    | None \<Rightarrow> apply_operation locked dto u s = (Inr x, t) \<and> \<not> dup)"
  by (auto simp: operation_transaction_def action_Inr lockCanvas_Inr_iff split: option.splits)

text \<open>The accepted path of \<open>createOperation\<close>, up to its broadcast.\<close>

definition announced :: "canvas_operation \<Rightarrow> request_user \<Rightarrow> uuid \<Rightarrow> uuid \<Rightarrow>
    'z canvas_state_scheme \<Rightarrow> 'z canvas_state_scheme" where
  "announced x u w i t = snd (broadcastOperationAccepted \<lparr> oa_organization_id = ru_orgId u,
     oa_workspace_id = w, oa_canvas_id = i, oa_operation_id = op_id x, oa_actor_id = ru_id u,
     oa_canvas_revision = op_sequenceNumber x, oa_occurred_at = op_createdAt x \<rparr> t)"

lemma announced_frame [simp]:
  "canvases (announced x u w i t) = canvases t"
  "canvas_operations (announced x u w i t) = canvas_operations t"
  "canvas_objects (announced x u w i t) = canvas_objects t"
  "workflows (announced x u w i t) = workflows t"
  "ws_members (announced x u w i t) = ws_members t"
  "org_members (announced x u w i t) = org_members t"
  by (simp_all add: announced_def broadcastOperationAccepted_def emitCanvasEvent_def action_simps)

lemma broadcast_accepted_Inr_iff:
  "broadcastOperationAccepted p s = (Inr y, t) \<longleftrightarrow> t = snd (broadcastOperationAccepted p s)"
  by (auto simp: broadcastOperationAccepted_def emitCanvasEvent_def action_simps)

lemma try_catch_Inr:
  "(\<And>e s' y t'. h e s' \<noteq> (Inr y, t')) \<Longrightarrow> try_catch m h s = (Inr x, t) \<longleftrightarrow> m s = (Inr x, t)"
  by (auto simp: try_catch_run split: prod.splits sum.splits)

lemma createOperation_Inr_iff:
  "createOperation w dto u s = (Inr x, t) \<longleftrightarrow>
   (\<exists>c s1 dup locked s2. getOrCreateCanvas w (ru_orgId u) s = (Inr c, s1) \<and>
      requireCanvasMutationPermission c u s1 = (Inr (), s1) \<and>
      json_bytes (cod_op_payload dto) \<le> MAX_CANVAS_OPERATION_PAYLOAD_BYTES \<and>
      operation_transaction c dto u s1 = (Inr (x, dup, locked), s2) \<and>
      t = (case (dup, cv_workspaceId locked) of
             (False, Some v) \<Rightarrow> announced x u v (cv_id c) s2 | _ \<Rightarrow> s2))"
proof -
  have fin: "(case p of (x', dup, locked) \<Rightarrow>
        await (case (dup, cv_workspaceId locked) of
            (False, Some w) \<Rightarrow> broadcastOperationAccepted \<lparr>
               oa_organization_id = ru_orgId u, oa_workspace_id = w, oa_canvas_id = cv_id c,
               oa_operation_id = op_id x', oa_actor_id = ru_id u,
               oa_canvas_revision = op_sequenceNumber x', oa_occurred_at = op_createdAt x' \<rparr>
          | _ \<Rightarrow> ok ()) (\<lambda>_. ok x')) s2 = (Inr x, t) \<longleftrightarrow>
      fst p = x \<and> t = (case (fst (snd p), cv_workspaceId (snd (snd p))) of
        (False, Some v) \<Rightarrow> announced x u v (cv_id c) s2 | _ \<Rightarrow> s2)"
    for p c and s2 t :: "'a canvas_state_scheme"
    by (auto simp: announced_def broadcastOperationAccepted_def emitCanvasEvent_def action_simps
          split: prod.split bool.split option.split)
  have read: "requireCanvasMutationPermission c u s1 = (Inr y, s2) \<longleftrightarrow>
      s2 = s1 \<and> requireCanvasMutationPermission c u s1 = (Inr (), s1)" for c y and s1 s2 :: "'a canvas_state_scheme"
    by (auto simp: permission_Inr_iff)
  show ?thesis
    unfolding createOperation_def assertOperationPayloadBounded_def
    apply (subst await_Inr_iff)
    apply (subst await_Inr_iff)
    apply (subst await_Inr_iff)
    apply (subst try_catch_Inr)
     apply (auto simp: action_Inr split: exn.splits) [1]
    apply (subst await_Inr_iff)
    apply (subst fin)
    apply (subst read)
    apply (simp only: require_Inr_iff split_paired_Ex fst_conv snd_conv)
    apply blast
    done
qed

lemma scope_workspace: "scope_ok x \<Longrightarrow> op_organizationId x = Some i \<Longrightarrow> \<exists>v. op_workspaceId x = Some v"
  by (auto simp: scope_ok_def)

lemma find_row_append_fresh:
  "find_row key k t = None \<Longrightarrow> key r = k \<Longrightarrow> find_row key k (t @ [r]) = Some r"
  by (auto simp: find_row_def find_append)

text \<open>What a new operation, accepted, was and did.\<close>

lemma createOperation_new:
  assumes inv: "log_inv s" and run: "createOperation w dto u s = (Inr x, t)"
    and new: "cod_operation_id dto \<notin> op_id ` set (canvas_operations s)"
  obtains c v where "canvas_of_workflow w s = Some c" "cv_workspaceId c = Some v"
    "editor_permitted s (ru_id u) (v, ru_orgId u)" "cod_client_revision dto = cv_revision c"
    "apply_operation c dto u s =
       (Inr x, s\<lparr>canvases := save_row cv_id (c\<lparr>cv_revision := cv_revision c + 1, cv_updatedAt := now s\<rparr>)
         (canvases s), canvas_operations := canvas_operations s @ [x]\<rparr>)"
    "t = announced x u v (cv_id c)
      (s\<lparr>canvases := save_row cv_id (c\<lparr>cv_revision := cv_revision c + 1, cv_updatedAt := now s\<rparr>)
         (canvases s), canvas_operations := canvas_operations s @ [x]\<rparr>)"
proof -
  from run obtain c s1 dup locked s2 where
    get: "getOrCreateCanvas w (ru_orgId u) s = (Inr c, s1)" and
    perm: "requireCanvasMutationPermission c u s1 = (Inr (), s1)" and
    tx: "operation_transaction c dto u s1 = (Inr (x, dup, locked), s2)" and
    t: "t = (case (dup, cv_workspaceId locked) of
             (False, Some v) \<Rightarrow> announced x u v (cv_id c) s2 | _ \<Rightarrow> s2)"
    unfolding createOperation_Inr_iff by blast
  note g = getOrCreate_Inr [OF get]
  have inv1: "log_inv s1"
    using keepsD [OF log.keeps_open inv get] .
  have "c \<in> set (canvases s1)" using g(1) canvas_of_workflow_Some by blast
  then have found: "find_row cv_id (cv_id c) (canvases s1) = Some c"
    using inv1 find_row_keyed by (auto simp: log_inv_def)
  have "find_row op_id (cod_operation_id dto) (canvas_operations s1) = None"
    using new g(3) by (simp add: find_row_None)
  with tx found have locked: "locked = c" "\<not> dup" and app: "apply_operation c dto u s1 = (Inr x, s2)"
    by (auto simp: operation_transaction_Inr_iff)
  note a = apply_Inr [OF app]
  have "op_organizationId x = Some (ru_orgId u)" using a(2) by simp
  with a(3) obtain v where "op_workspaceId x = Some v" using scope_workspace by blast
  then have v: "cv_workspaceId c = Some v" using a(2) by simp
  then have "canvas_of_workflow w s \<noteq> None" using g(8) by auto
  then have [simp]: "s1 = s" and c: "canvas_of_workflow w s = Some c" using g(7) by auto
  show thesis
    by (rule that [OF c v]) (use perm v a app locked t in \<open>auto simp: permission_Inr_iff\<close>)
qed

text \<open>C7: an operation with a new id is accepted only from an editor of the canvas's workspace, on
  the current revision, about an object of the canvas; it is stored under the next sequence
  number, takes the revision one further, changes nothing else in the database, and is announced
  to the room of the canvas.\<close>

theorem accepted_operation_correct:
  assumes "log_inv s" and "createOperation w dto u s = (Inr x, t)"
    and "cod_operation_id dto \<notin> op_id ` set (canvas_operations s)"
  shows "\<exists>c v. canvas_of_workflow w s = Some c \<and> cv_workspaceId c = Some v \<and>
    editor_permitted s (ru_id u) (v, ru_orgId u) \<and>
    cod_client_revision dto = cv_revision c \<and>
    (case cod_canvas_object_id dto of None \<Rightarrow> True
     | Some i \<Rightarrow> i \<in> co_id ` set (objects_of (cv_id c) s)) \<and>
    op_id x = cod_operation_id dto \<and> op_opPayload x = cod_op_payload dto \<and>
    op_userId x = ru_id u \<and> op_sequenceNumber x = cv_revision c + 1 \<and>
    canvas_operations t = canvas_operations s @ [x] \<and>
    canvas_revision (cv_id c) t = cv_revision c + 1 \<and>
    canvas_objects t = canvas_objects s \<and> workflows t = workflows s \<and>
    emitted t = emitted s @ (if rooms_live s (room_canvas (cv_id c))
      then [(room_canvas (cv_id c), ''canvas.operation.accepted'', JObj [
         (''organization_id'', JStr (ru_orgId u)), (''workspace_id'', JStr v),
         (''canvas_id'', JStr (cv_id c)), (''operation_id'', JStr (cod_operation_id dto)),
         (''actor_id'', JStr (ru_id u)), (''canvas_revision'', json_int (cv_revision c + 1)),
         (''occurred_at'', json_date (now s))])] else [])"
proof -
  from createOperation_new [OF assms] obtain c v where
    c: "canvas_of_workflow w s = Some c" "cv_workspaceId c = Some v"
    "editor_permitted s (ru_id u) (v, ru_orgId u)" "cod_client_revision dto = cv_revision c" and
    app: "apply_operation c dto u s =
       (Inr x, s\<lparr>canvases := save_row cv_id (c\<lparr>cv_revision := cv_revision c + 1, cv_updatedAt := now s\<rparr>)
         (canvases s), canvas_operations := canvas_operations s @ [x]\<rparr>)" and
    t: "t = announced x u v (cv_id c)
      (s\<lparr>canvases := save_row cv_id (c\<lparr>cv_revision := cv_revision c + 1, cv_updatedAt := now s\<rparr>)
         (canvases s), canvas_operations := canvas_operations s @ [x]\<rparr>)"
    by blast
  note a = apply_Inr [OF app]
  have obj: "case cod_canvas_object_id dto of None \<Rightarrow> True
     | Some i \<Rightarrow> i \<in> co_id ` set (objects_of (cv_id c) s)"
    using a(4) by (auto simp: objects_of_def split: option.splits)
  have em: "emitted t = emitted s @ (if rooms_live s (room_canvas (cv_id c))
      then [(room_canvas (cv_id c), ''canvas.operation.accepted'', JObj [
         (''organization_id'', JStr (ru_orgId u)), (''workspace_id'', JStr v),
         (''canvas_id'', JStr (cv_id c)), (''operation_id'', JStr (cod_operation_id dto)),
         (''actor_id'', JStr (ru_id u)), (''canvas_revision'', json_int (cv_revision c + 1)),
         (''occurred_at'', json_date (now s))])] else [])"
    unfolding t announced_def broadcastOperationAccepted_def emitCanvasEvent_def
    by (simp add: emitIfListeners_run a(2))
  have rev: "canvas_revision (cv_id c) t = cv_revision c + 1"
    by (simp add: t canvas_revision_def)
  show ?thesis
    by (intro exI [of _ c] exI [of _ v] conjI c obj em rev) (simp_all add: a(2) t)
qed

text \<open>retrying is safe: a client that repeats an accepted request, with the same operation id,
  gets the same operation back, and the repetition changes nothing at all.\<close>

theorem operation_retry_idempotent:
  assumes inv: "log_inv s" and run: "createOperation w dto u s = (Inr x, t)"
    and wf: "json_wf (cod_op_payload dto)" "list_all json_wf (case cod_version_vector dto of
      None \<Rightarrow> [] | Some j \<Rightarrow> [j])"
  shows "createOperation w dto u t = (Inr x, t)"
proof (cases "cod_operation_id dto \<in> op_id ` set (canvas_operations s)")
  case False
  from createOperation_new [OF inv run False] obtain c v where
    c: "canvas_of_workflow w s = Some c" "cv_workspaceId c = Some v"
    "editor_permitted s (ru_id u) (v, ru_orgId u)" "cod_client_revision dto = cv_revision c" and
    app: "apply_operation c dto u s =
       (Inr x, s\<lparr>canvases := save_row cv_id (c\<lparr>cv_revision := cv_revision c + 1, cv_updatedAt := now s\<rparr>)
         (canvases s), canvas_operations := canvas_operations s @ [x]\<rparr>)" and
    t: "t = announced x u v (cv_id c)
      (s\<lparr>canvases := save_row cv_id (c\<lparr>cv_revision := cv_revision c + 1, cv_updatedAt := now s\<rparr>)
         (canvases s), canvas_operations := canvas_operations s @ [x]\<rparr>)"
    by blast
  let ?c = "c\<lparr>cv_revision := cv_revision c + 1, cv_updatedAt := now s\<rparr>"
  note a = apply_Inr [OF app]
  have k: "keyed cv_id (canvases s)" using inv by (simp add: log_inv_def)
  have find: "canvas_of_workflow w t = Some ?c"
    unfolding canvas_of_workflow_def t announced_frame
    using find_save_row [of "\<lambda>c. cv_workflowId c = w" "canvases s" c cv_id ?c]
      c(1) canvas_of_workflow_Some [OF c(1)] k
    by (simp add: canvas_of_workflow_def)
  have org: "workflow_in_org w (ru_orgId u) t \<noteq> None"
    using run unfolding createOperation_Inr_iff getOrCreate_Inr_iff
    by (auto simp: t workflow_in_org_def)
  have perm: "requireCanvasMutationPermission ?c u t = (Inr (), t)"
    using c by (simp add: permission_Inr_iff editor_permitted_def t)
  have same: "sameLogicalOperation x ?c dto u"
    using c a(2) wf deep_equal_refl
    by (cases "cod_version_vector dto") (auto simp: sameLogicalOperation_def)
  have x: "find_row op_id (cod_operation_id dto) (canvas_operations t) = Some x"
    using False a(2) by (simp add: t find_row_append_fresh find_row_None)
  have "operation_transaction ?c dto u t = (Inr (x, True, ?c), t)"
    unfolding operation_transaction_Inr_iff using x same by (simp add: t)
  moreover have "json_bytes (cod_op_payload dto) \<le> MAX_CANVAS_OPERATION_PAYLOAD_BYTES"
    using run unfolding createOperation_Inr_iff by blast
  ultimately show ?thesis
    unfolding createOperation_Inr_iff
    using getOrCreate_found [OF org find] perm by fastforce
next
  case True
  from run obtain c s1 dup locked s2 where
    get: "getOrCreateCanvas w (ru_orgId u) s = (Inr c, s1)" and
    perm: "requireCanvasMutationPermission c u s1 = (Inr (), s1)" and
    size: "json_bytes (cod_op_payload dto) \<le> MAX_CANVAS_OPERATION_PAYLOAD_BYTES" and
    tx: "operation_transaction c dto u s1 = (Inr (x, dup, locked), s2)" and
    t: "t = (case (dup, cv_workspaceId locked) of
             (False, Some v) \<Rightarrow> announced x u v (cv_id c) s2 | _ \<Rightarrow> s2)"
    unfolding createOperation_Inr_iff by blast
  note g = getOrCreate_Inr [OF get]
  have "find_row op_id (cod_operation_id dto) (canvas_operations s1) \<noteq> None"
    using True g(3) by (simp add: find_row_None)
  with tx have "dup" "s2 = s1" by (auto simp: operation_transaction_Inr_iff split: option.splits)
  with t have "t = s1" by simp
  then show ?thesis
    unfolding createOperation_Inr_iff
    using getOrCreate_found [OF g(2,1)] perm size tx \<open>dup\<close> \<open>s2 = s1\<close> by fastforce
qed

section \<open>Stale operations\<close>

text \<open>
  The optimistic concurrency of one canvas: an attempt is a new operation, applied under the
  lock, against the revision the client has seen.
\<close>

definition attempt_operation ::
    "uuid \<Rightarrow> int \<Rightarrow> create_operation_dto \<times> request_user \<Rightarrow>
     'z canvas_state_scheme \<Rightarrow> 'z canvas_state_scheme option" where
  "attempt_operation i n p s =
     (case find_row cv_id i (canvases s) of
        None \<Rightarrow> None
      | Some c \<Rightarrow> (case apply_operation c ((fst p)\<lparr>cod_client_revision := n\<rparr>) (snd p) s of
                    (Inl e, t) \<Rightarrow> None | (Inr x, t) \<Rightarrow> Some t))"

interpretation canvas_rev: versioned "canvas_revision i" "attempt_operation i" for i
proof unfold_locales
  fix s :: "'a canvas_state_scheme" and n p
  assume "canvas_revision i s \<noteq> n"
  then show "attempt_operation i n p s = None"
    by (auto simp: attempt_operation_def canvas_revision_def split: option.splits prod.splits sum.splits
          dest: apply_Inr(1))
next
  fix s t :: "'a canvas_state_scheme" and n p
  assume "attempt_operation i n p s = Some t"
  then obtain c x where c: "find_row cv_id i (canvases s) = Some c" and
    app: "apply_operation c ((fst p)\<lparr>cod_client_revision := n\<rparr>) (snd p) s = (Inr x, t)"
    by (auto simp: attempt_operation_def split: option.splits prod.splits sum.splits)
  moreover have "cv_id c = i" using find_row_Some [OF c] by simp
  ultimately show "canvas_revision i t = canvas_revision i s + 1"
    using apply_Inr(5) [OF app] by (simp add: canvas_revision_def)
qed

text \<open>A new operation that the service accepts is an accepted attempt.\<close>

lemma createOperation_attempt:
  assumes "log_inv s" and "createOperation w dto u s = (Inr x, t)"
    and "cod_operation_id dto \<notin> op_id ` set (canvas_operations s)"
  shows "\<exists>c t'. canvas_of_workflow w s = Some c \<and>
    attempt_operation (cv_id c) (cod_client_revision dto) (dto, u) s = Some t'"
proof -
  from createOperation_new [OF assms] obtain c t' where
    "canvas_of_workflow w s = Some c" "apply_operation c dto u s = (Inr x, t')" by metis
  moreover have "find_row cv_id (cv_id c) (canvases s) = Some c"
    using log_inv_find [OF assms(1)] \<open>canvas_of_workflow w s = Some c\<close> .
  ultimately show ?thesis by (auto simp: attempt_operation_def)
qed

text \<open>C8: no update is lost: once an operation has been accepted on a canvas, another operation made
  against the same revision, or an older one, is refused then and for ever, whatever other requests
  are served in between.\<close>

theorem stale_operation_refused:
  assumes inv: "log_inv s" and acc: "createOperation w dto u s = (Inr x, t)"
    and new: "cod_operation_id dto \<notin> op_id ` set (canvas_operations s)"
    and stale: "cod_client_revision dto' \<le> cod_client_revision dto"
    and other: "cod_operation_id dto' \<notin> op_id ` set (canvas_operations (serve_canvases rs t))"
  shows "\<not> (\<exists>y t'. createOperation w dto' v (serve_canvases rs t) = (Inr y, t'))"
proof
  let ?t = "serve_canvases rs t"
  assume "\<exists>y t'. createOperation w dto' v ?t = (Inr y, t')"
  then obtain y t' where run: "createOperation w dto' v ?t = (Inr y, t')" by blast
  have inv_t: "log_inv t" and inv': "log_inv ?t"
    using log.serve_all keepsD [OF log.keeps_createOperation inv acc] by blast+
  from createOperation_new [OF inv acc new] obtain c k where
    c: "canvas_of_workflow w s = Some c" "cod_client_revision dto = cv_revision c"
    and "t = announced x u k (cv_id c)
      (s\<lparr>canvases := save_row cv_id (c\<lparr>cv_revision := cv_revision c + 1, cv_updatedAt := now s\<rparr>)
         (canvases s), canvas_operations := canvas_operations s @ [x]\<rparr>)"
    by blast
  then have t: "canvases t = save_row cv_id
      (c\<lparr>cv_revision := cv_revision c + 1, cv_updatedAt := now s\<rparr>) (canvases s)"
    by simp
  have "canvas_of_workflow_at w (cv_id c) (cv_revision c + 1) t"
    using inv_t find_save_row [of "\<lambda>c. cv_workflowId c = w" "canvases s" c cv_id
        "c\<lparr>cv_revision := cv_revision c + 1, cv_updatedAt := now s\<rparr>"]
      c(1) canvas_of_workflow_Some [OF c(1)] inv
    by (simp add: canvas_of_workflow_at_def canvas_of_workflow_def t log_inv_def)
  then have at': "canvas_of_workflow_at w (cv_id c) (cv_revision c + 1) ?t"
    by (rule revision.serve_all)
  then obtain c' where c': "canvas_of_workflow w ?t = Some c'" "cv_id c' = cv_id c"
    "cv_revision c + 1 \<le> cv_revision c'"
    by (auto simp: canvas_of_workflow_at_def split: option.splits)
  then obtain t'' where
    "attempt_operation (cv_id c') (cod_client_revision dto') (dto', v) ?t = Some t''"
    using createOperation_attempt [OF inv' run other] by auto
  then have "canvas_revision (cv_id c') ?t = cod_client_revision dto'"
    by (rule canvas_rev.accepted_current)
  moreover have "canvas_revision (cv_id c') ?t = cv_revision c'"
    by (simp add: canvas_revision_def log_inv_find [OF inv' c'(1)])
  ultimately show False
    using stale c(2) c'(3) by simp
qed

section \<open>What the constraints of the database rule out\<close>

lemma append_Inr:
  assumes "appendOperationWithLockedCanvas c (Some i) u ty p v s = (Inr x, t)"
  shows "i \<in> co_id ` set (canvas_objects s)"
proof -
  have "op_canvasObjectId x = Some i"
    using assms by (auto simp: appendOperationWithLockedCanvas_def Let_def action_Inr)
  then show ?thesis
    using append_appended [of c s "Some i" u ty p v] by (simp add: appended_def assms)
qed

text \<open>no object can ever be deleted: the operation that records the deletion refers to the row
  that was just removed, which its foreign key refuses, so the transaction is rolled back. Every
  request ends in an exception and leaves the database as it was.\<close>

theorem deleteObject_never_succeeds:
  "\<exists>e. deleteObject i u s = (Inl e, s)"
proof -
  have tx: "\<exists>e. transaction (await (lockCanvas (cv_id c)) (\<lambda>locked.
       await (lockObject i (cv_id c) u ''Cannot delete a locked object'') (\<lambda>obj.
       await (remove_object (co_id obj)) (\<lambda>_.
       await (appendOperationWithLockedCanvas locked (Some i) (ru_id u) ''object_delete''
                (JObj ((''type'', JStr (co_type obj)) # label_field obj)) None) (\<lambda>_.
       ok obj))))) s = (Inl e, s)" for c
  proof -
    have no: "\<not> (\<exists>obj t. await (lockCanvas (cv_id c)) (\<lambda>locked.
       await (lockObject i (cv_id c) u ''Cannot delete a locked object'') (\<lambda>obj.
       await (remove_object (co_id obj)) (\<lambda>_.
       await (appendOperationWithLockedCanvas locked (Some i) (ru_id u) ''object_delete''
                (JObj ((''type'', JStr (co_type obj)) # label_field obj)) None) (\<lambda>_.
       ok obj)))) s = (Inr obj, t))"
      by (auto simp: await_Inr_iff remove_object_def lockObject_def action_Inr remove_row_def
            dest!: append_Inr find_Some_conv)
    then show ?thesis by (rule throws_transaction)
  qed
  show ?thesis
    unfolding deleteObject_def
    by (rule throws_guard, rule read_intros)+ (rule throws_first, rule tx)
qed

text \<open>A canvas that is not bound to a workspace takes no operation from a client: the service
  stores the organization and the client revision of every operation, which the scope check of
  the table only allows together with a workspace.\<close>

theorem legacy_canvas_takes_no_operation:
  assumes "log_inv s" and "cod_operation_id dto \<notin> op_id ` set (canvas_operations s)"
    and "case canvas_of_workflow w s of None \<Rightarrow> True | Some c \<Rightarrow> cv_workspaceId c = None"
  shows "\<not> (\<exists>x t. createOperation w dto u s = (Inr x, t))"
  using createOperation_new [OF assms(1) _ assms(2)] assms(3) by fastforce

section \<open>Commits\<close>

text \<open>The version row a commit stores.\<close>

definition committed_version ::
    "workflow \<Rightarrow> canvas \<Rightarrow> request_user \<Rightarrow> 'z canvas_state_scheme \<Rightarrow> workflow_version" where
  "committed_version flow c u s = \<lparr> wv_id = uuids s (Suc (uuid_next s)), wv_workflowId = wf_id flow,
     wv_versionNumber = wf_currentVersion flow + 1,
     wv_elementsJson = JObj [(''elements'', JArr (map element_json (objects_of (cv_id c) s)))],
     wv_elsaJson = None, wv_confidenceScore = None, wv_createdBy = Some (ru_id u),
     wv_createdAt = now s \<rparr>"

lemma commit_writes_run:
  "commit_writes flow c l (objects_of (cv_id c) s) u s =
     (let s1 = s\<lparr>uuid_next := Suc (Suc (uuid_next s)), canvas_snapshots := canvas_snapshots s @
            [\<lparr> sn_id = uuids s (uuid_next s), sn_canvasId = cv_id c,
               sn_snapshotData = buildSnapshotData (objects_of (cv_id c) s),
               sn_createdBy = Some (ru_id u), sn_trigger = ''pre-commit'', sn_createdAt = now s \<rparr>]\<rparr>
      in if list_ex (\<lambda>r. wv_workflowId r = wf_id flow \<and> wv_versionNumber r = wf_currentVersion flow + 1)
              (workflow_versions s)
         then (Inl (QueryFailed ''uq_workflow_version_number''), s1)
         else (Inr (uuids s (Suc (uuid_next s))),
           s1\<lparr>uuid_next := Suc (Suc (Suc (uuid_next s))),
             workflow_versions := workflow_versions s @ [committed_version flow c u s],
             workflows := update_where (\<lambda>r. wf_id r = wf_id flow)
               (\<lambda>r. r\<lparr>wf_currentVersion := wf_currentVersion flow + 1, wf_updatedAt := now s\<rparr>)
               (workflows s),
             canvas_versions := canvas_versions s @
               [\<lparr> cn_id = uuids s (Suc (Suc (uuid_next s))), cn_canvasId = cv_id c,
                  cn_workflowVersionId = Some (uuids s (Suc (uuid_next s))),
                  cn_snapshotId = Some (uuids s (uuid_next s)), cn_label = l,
                  cn_type = ''committed'', cn_createdBy = Some (ru_id u), cn_createdAt = now s \<rparr>]\<rparr>))"
  by (simp add: commit_writes_def insert_workflow_version_def committed_version_def action_simps Let_def)

lemma getCanvas_Inr_iff:
  "getCanvas w org s = (Inr c, t) \<longleftrightarrow>
   workflow_in_org w org s \<noteq> None \<and> canvas_of_workflow w s = Some c \<and> t = s"
proof (cases "workflow_in_org w org s")
  case (Some flow)
  then have "wf_id flow = w" using workflow_in_org_Some by blast
  with Some show ?thesis by (auto simp: getCanvas_def action_Inr findWorkflow_Inr_iff)
qed (auto simp: getCanvas_def action_Inr findWorkflow_Inr_iff)

lemma finish_commit_Inr:
  assumes "finish_commit flow c objs u k s = (Inr v, t)"
  shows "workflow_versions t = workflow_versions s" "workflows t = workflows s"
    "canvas_objects t = canvas_objects s" "canvas_operations t = canvas_operations s"
    "canvas_versions t = canvas_versions s" "v \<in> set (canvas_versions s)" "cn_canvasId v = cv_id c"
    "cn_workflowVersionId v = Some k"
  using assms
  by (auto simp: finish_commit_def broadcastCanvasCommitted_def action_simps
        split: option.splits dest!: first_row_in)

text \<open>The version is there after the transaction, so reading it back never fails.\<close>

lemma finish_commit_Inl:
  assumes "commit_writes flow c l (objects_of (cv_id c) s) u s = (Inr k, s1)"
  shows "finish_commit flow c objs u k s1 \<noteq> (Inl e, t)"
proof -
  have "\<exists>v \<in> set (canvas_versions s1). cn_canvasId v = cv_id c \<and> cn_workflowVersionId v = Some k"
    using assms by (auto simp: commit_writes_run Let_def split: if_splits)
  then have "filter (\<lambda>v. cn_canvasId v = cv_id c \<and> cn_workflowVersionId v = Some k)
      (canvas_versions s1) \<noteq> []"
    by (auto simp: filter_empty_conv)
  then have "first_row (sort_desc cn_createdAt (filter (\<lambda>v. cn_canvasId v = cv_id c \<and>
      cn_workflowVersionId v = Some k) (canvas_versions s1))) \<noteq> None"
    by (metis first_row_None_iff length_0_conv length_sort_desc)
  then obtain v where "first_row (sort_desc cn_createdAt (filter (\<lambda>v. cn_canvasId v = cv_id c \<and>
      cn_workflowVersionId v = Some k) (canvas_versions s1))) = Some v"
    by blast
  then show ?thesis
    by (simp add: finish_commit_def broadcastCanvasCommitted_def action_simps)
qed

text \<open>a commit is all or nothing. It succeeds only for the owner of the workflow or an
  administrator; it then stores exactly the objects now on the canvas as the workflow version with
  the next number, moves the workflow's current version to it, and returns a canvas version that
  points to it. When it fails, nothing has changed.\<close>

theorem commit_correct:
  "case commitCanvas w label u s of
     (Inl e, t) \<Rightarrow> t = s
   | (Inr v, t) \<Rightarrow>
       \<exists>flow c. workflow_in_org w (ru_orgId u) s = Some flow \<and> canvas_of_workflow w s = Some c \<and>
         (wf_ownerId flow = ru_id u \<or> ru_role u = user_role_str UserRole.ADMIN) \<and>
         workflow_versions t = workflow_versions s @ [committed_version flow c u s] \<and>
         workflows t = update_where (\<lambda>r. wf_id r = w)
           (\<lambda>r. r\<lparr>wf_currentVersion := wf_currentVersion flow + 1, wf_updatedAt := now s\<rparr>) (workflows s) \<and>
         canvas_objects t = canvas_objects s \<and> canvas_operations t = canvas_operations s \<and>
         length (canvas_versions t) = Suc (length (canvas_versions s)) \<and>
         v \<in> set (canvas_versions t) \<and> cn_canvasId v = cv_id c \<and>
         cn_workflowVersionId v = Some (wv_id (committed_version flow c u s))"
proof (cases "workflow_in_org w (ru_orgId u) s")
  case None
  then show ?thesis by (simp add: commitCanvas_def action_simps)
next
  case (Some flow)
  then have id: "wf_id flow = w" using workflow_in_org_Some by blast
  show ?thesis
  proof (cases "commitCanvas w label u s")
    case (Pair r t)
    show ?thesis
    proof (cases r)
      case (Inl e)
      have "t = s"
        using Pair Inl Some id
        by (auto simp: commitCanvas_def getCanvas_def action_simps finish_commit_Inl
              split: option.splits if_splits sum.splits prod.splits)
      with Pair Inl show ?thesis by simp
    next
      case (Inr v)
      with Pair Some obtain c k s1 where
        who: "wf_ownerId flow = ru_id u \<or> ru_role u = user_role_str UserRole.ADMIN" and
        c: "canvas_of_workflow w s = Some c" and
        tx: "commit_writes flow c label (objects_of (cv_id c) s) u s = (Inr k, s1)" and
        fin: "finish_commit flow c (objects_of (cv_id c) s) u k s1 = (Inr v, t)"
        by (auto simp: commitCanvas_def action_Inr findWorkflow_Inr_iff getCanvas_Inr_iff)
      have k: "k = uuids s (Suc (uuid_next s))"
        using tx by (auto simp: commit_writes_run Let_def split: if_splits)
      show ?thesis
        using Pair Inr Some id who c finish_commit_Inr [OF fin] k tx
        by (auto simp: commit_writes_run Let_def committed_version_def split: if_splits)
    qed
  qed
qed

section \<open>Witnesses\<close>

definition demo_dto :: create_operation_dto where
  "demo_dto = \<lparr> cod_operation_id = ''op2'', cod_client_revision = 1, cod_canvas_object_id = Some ''ob'',
     cod_op_type = ''object_move'', cod_op_payload = JObj [(''x'', JNum 3)],
     cod_version_vector = None \<rparr>"

lemma demo_accepted:
  "case createOperation ''f'' demo_dto bob demo_canvas_state of
     (Inl e, t) \<Rightarrow> False
   | (Inr x, t) \<Rightarrow> op_id x = ''op2'' \<and> map op_id (canvas_operations t) = [''op1'', ''op2'']"
  by code_simp

lemma demo_new: "cod_operation_id demo_dto \<notin> op_id ` set (canvas_operations demo_canvas_state)"
  by (simp add: demo_dto_def demo_canvas_simps)

lemma demo_run:
  obtains x t where "createOperation ''f'' demo_dto bob demo_canvas_state = (Inr x, t)"
    "map op_id (canvas_operations t) = [''op1'', ''op2'']"
  using demo_accepted by (auto split: prod.splits sum.splits)

theorem accepted_operation_correct_witness:
  "\<exists>x t. createOperation ''f'' demo_dto bob demo_canvas_state = (Inr x, t) \<and>
     op_sequenceNumber x = 2 \<and> canvas_revision ''c'' t = 2"
proof -
  obtain x t where run: "createOperation ''f'' demo_dto bob demo_canvas_state = (Inr x, t)"
    by (rule demo_run)
  from accepted_operation_correct [OF demo_log_inv run demo_new] run show ?thesis
    by (auto simp: canvas_of_workflow_def demo_canvas_simps)
qed

theorem operation_retry_idempotent_witness:
  "\<exists>x t. createOperation ''f'' demo_dto bob demo_canvas_state = (Inr x, t) \<and>
     createOperation ''f'' demo_dto bob t = (Inr x, t)"
proof -
  obtain x t where run: "createOperation ''f'' demo_dto bob demo_canvas_state = (Inr x, t)"
    by (rule demo_run)
  from operation_retry_idempotent [OF demo_log_inv run] run show ?thesis
    by (auto simp: demo_dto_def)
qed

theorem stale_operation_refused_witness:
  "\<exists>x t. createOperation ''f'' demo_dto bob demo_canvas_state = (Inr x, t) \<and>
     \<not> (\<exists>y t'. createOperation ''f'' (demo_dto\<lparr>cod_operation_id := ''op3''\<rparr>) ann t = (Inr y, t'))"
proof -
  obtain x t where run: "createOperation ''f'' demo_dto bob demo_canvas_state = (Inr x, t)"
    and ids: "map op_id (canvas_operations t) = [''op1'', ''op2'']"
    by (rule demo_run)
  have "op_id ` set (canvas_operations t) = {''op1'', ''op2''}"
    by (metis ids list.set_map empty_set list.simps(15))
  then have "\<not> (\<exists>y t'. createOperation ''f'' (demo_dto\<lparr>cod_operation_id := ''op3''\<rparr>) ann
      (serve_canvases [] t) = (Inr y, t'))"
    by (intro stale_operation_refused [OF demo_log_inv run demo_new]) (simp_all add: demo_dto_def)
  with run show ?thesis by auto
qed

theorem legacy_canvas_takes_no_operation_witness:
  "\<not> (\<exists>x t. createOperation ''f'' demo_dto ann
     (demo_canvas_state\<lparr>canvases := [demo_canvas\<lparr>cv_workspaceId := None\<rparr>]\<rparr>) = (Inr x, t))"
  by (rule legacy_canvas_takes_no_operation)
     (simp_all add: demo_new [unfolded demo_canvas_simps] log_inv_def keyed_def canvas_of_workflow_def
        demo_dto_def demo_canvas_simps)

end
