(* ===== verification/Patterns.thy ===== *)
theory Patterns
  imports Prelude
begin

text \<open>Regular expressions, for the validator of page schemas and the serializer of canvas snapshots.\<close>

section \<open>Matching\<close>

text \<open>
  The regular expressions of the services are sequences of character classes, repeated classes and
  word boundaries. \<open>re_match\<close> is told the character before the current position.
\<close>

datatype atom = Cls "char \<Rightarrow> bool" | Many "char \<Rightarrow> bool" | Boundary

definition between :: "nat \<Rightarrow> nat \<Rightarrow> char \<Rightarrow> bool" where
  "between a b c = (let n = of_char c in a \<le> n \<and> n \<le> b)"

definition is_digit :: "char \<Rightarrow> bool" where "is_digit = between 48 57"
definition is_upper :: "char \<Rightarrow> bool" where "is_upper = between 65 90"
definition is_alnum :: "char \<Rightarrow> bool" where
  "is_alnum c = (is_digit c \<or> is_upper c \<or> between 97 122 c)"
definition is_word :: "char \<Rightarrow> bool" where "is_word c = (is_alnum c \<or> c = CHR ''_'')"

definition word_before :: "char option \<Rightarrow> bool" where
  "word_before p = (case p of None \<Rightarrow> False | Some c \<Rightarrow> is_word c)"

definition word_after :: "string \<Rightarrow> bool" where
  "word_after s = (case s of [] \<Rightarrow> False | c # _ \<Rightarrow> is_word c)"

function re_match :: "atom list \<Rightarrow> char option \<Rightarrow> string \<Rightarrow> bool" where
  "re_match [] p s = True"
| "re_match (Cls f # r) p s =
     (case s of [] \<Rightarrow> False | c # cs \<Rightarrow> f c \<and> re_match r (Some c) cs)"
| "re_match (Many f # r) p s =
     (re_match r p s \<or> (case s of [] \<Rightarrow> False | c # cs \<Rightarrow> f c \<and> re_match (Many f # r) (Some c) cs))"
| "re_match (Boundary # r) p s = (word_before p \<noteq> word_after s \<and> re_match r p s)"
  by pat_completeness auto

termination
  by (relation "measures [\<lambda>(r, p, s). length s, \<lambda>(r, p, s). length r]") auto

fun re_search :: "atom list \<Rightarrow> char option \<Rightarrow> string \<Rightarrow> bool" where
  "re_search r p [] = re_match r p []"
| "re_search r p (c # cs) = (re_match r p (c # cs) \<or> re_search r (Some c) cs)"

text \<open>\<open>pattern.test(value)\<close>.\<close>

definition re_test :: "atom list \<Rightarrow> string \<Rightarrow> bool" where
  "re_test r s = re_search r None s"

definition lit :: "string \<Rightarrow> atom list" where
  "lit s = map (\<lambda>c. Cls (\<lambda>x. x = c)) s"

definition ilit :: "string \<Rightarrow> atom list" where
  "ilit s = map (\<lambda>c. Cls (\<lambda>x. char_lower x = char_lower c)) s"

definition spaces :: "atom list" where "spaces = [Many is_space]"
definition spaces1 :: "atom list" where "spaces1 = [Cls is_space, Many is_space]"

definition some_test :: "atom list list \<Rightarrow> string \<Rightarrow> bool" where
  "some_test ps v = list_ex (\<lambda>p. re_test p v) ps"

end
