(* ===== verification/SchemaValidator.thy ===== *)
theory SchemaValidator
  imports Patterns
begin

text \<open>
  \<open>validateApplicationSchema\<close> of \<open>src/modules/applications/schema-validator.ts\<close>: the checks of an
  application schema, in the order the code makes them, with every error it reports; and a
  declarative specification of the schemas it accepts.
\<close>

section \<open>Patterns\<close>

definition EXECUTABLE_PATTERNS :: "atom list list" where
  "EXECUTABLE_PATTERNS =
    [ilit ''javascript:'',
     ilit ''<script'' @ [Cls (\<lambda>c. is_space c \<or> c = CHR ''>'')],
     ilit ''onerror'' @ spaces @ lit ''='', ilit ''onclick'' @ spaces @ lit ''='',
     ilit ''onload'' @ spaces @ lit ''='', ilit ''onmouseover'' @ spaces @ lit ''='',
     ilit ''eval'' @ spaces @ lit ''('', ilit ''new'' @ spaces1 @ ilit ''Function'' @ spaces @ lit ''('']"

definition sql_words :: "string \<Rightarrow> string \<Rightarrow> atom list" where
  "sql_words a b = [Boundary] @ ilit a @ spaces1 @ ilit b @ [Boundary]"

definition SQL_PATTERNS :: "atom list list" where
  "SQL_PATTERNS =
    [sql_words ''DROP'' ''TABLE'', sql_words ''DELETE'' ''FROM'', sql_words ''INSERT'' ''INTO'',
     sql_words ''ALTER'' ''TABLE'', [Boundary] @ ilit ''EXEC'' @ [Boundary],
     [Boundary] @ ilit ''EXECUTE'' @ [Boundary], sql_words ''UNION'' ''SELECT'']"

text \<open>The optional \<open>RSA\<close> of the first pattern makes two.\<close>

definition SECRET_PATTERNS :: "atom list list" where
  "SECRET_PATTERNS =
    [ilit ''-----BEGIN'' @ spaces1 @ ilit ''PRIVATE'' @ spaces1 @ ilit ''KEY-----'',
     ilit ''-----BEGIN'' @ spaces1 @ ilit ''RSA'' @ spaces1 @ ilit ''PRIVATE'' @ spaces1 @ ilit ''KEY-----'',
     lit ''sk-'' @ replicate 20 (Cls is_alnum) @ [Many is_alnum],
     lit ''AKIA'' @ replicate 16 (Cls (\<lambda>c. is_digit c \<or> is_upper c))]"

section \<open>Errors\<close>

record validation_error =
  ve_code :: string
  ve_path :: string
  ve_message :: string
  ve_severity :: string

definition err :: "string \<Rightarrow> string \<Rightarrow> string \<Rightarrow> validation_error" where
  "err path message code =
     \<lparr> ve_code = code, ve_path = path, ve_message = message, ve_severity = ''error'' \<rparr>"

definition MAX_NESTING_DEPTH :: nat where "MAX_NESTING_DEPTH = 20"
definition MAX_NODES :: nat where "MAX_NODES = 5000"
definition MAX_PAGES :: nat where "MAX_PAGES = 200"
definition SUPPORTED_SCHEMA_VERSIONS :: "string list" where
  "SUPPORTED_SCHEMA_VERSIONS = [''1.0.0'']"
definition PROHIBITED_KEYS :: "string list" where
  "PROHIBITED_KEYS = [''prototype'', ''constructor'']"

text \<open>\<open>v !== null && typeof v === 'object'\<close>; arrays are objects whose keys are their indices.\<close>

fun is_object :: "json \<Rightarrow> bool" where
  "is_object (JObj _) = True"
| "is_object (JArr _) = True"
| "is_object _ = False"

fun entries :: "json \<Rightarrow> (string \<times> json) list" where
  "entries (JObj fs) = fs"
| "entries (JArr vs) = zip (map nat_str [0..<length vs]) vs"
| "entries _ = []"

fun truthy :: "json option \<Rightarrow> bool" where
  "truthy None = False"
| "truthy (Some JNull) = False"
| "truthy (Some (JBool b)) = b"
| "truthy (Some (JNum x)) = (x \<noteq> 0)"
| "truthy (Some (JStr s)) = (s \<noteq> [])"
| "truthy (Some _) = True"

text \<open>\<open>typeof v === 'string'\<close>, with the string.\<close>

fun as_str :: "json option \<Rightarrow> string option" where
  "as_str (Some (JStr s)) = Some s"
| "as_str _ = None"

lemma size_get_prop: "get_prop v k = Some w \<Longrightarrow> size w < size v"
  by (cases v) (auto simp: get_prop_def dest!: map_of_SomeD size_obj_field)

lemma size_entries: "kv \<in> set (entries v) \<Longrightarrow> size (snd kv) < size v"
proof (cases v)
  case (JArr vs)
  assume "kv \<in> set (entries v)"
  then have "snd kv \<in> set vs" using JArr set_zip_rightD [of "fst kv" "snd kv"] by simp
  then show ?thesis using JArr size_arr_elem by simp
qed (auto dest: size_obj_field)

section \<open>Dangerous values\<close>

definition string_errors :: "string \<Rightarrow> string \<Rightarrow> bool \<Rightarrow> validation_error list" where
  "string_errors path v secrets =
     (if some_test EXECUTABLE_PATTERNS v
      then [err path ''Value may contain executable code'' ''EXECUTABLE_CONTENT''] else []) @
     (if some_test SQL_PATTERNS v
      then [err path ''Value may contain SQL statements'' ''SQL_CONTENT''] else []) @
     (if secrets \<and> some_test SECRET_PATTERNS v
      then [err path ''Value may contain secrets or credentials'' ''SECRET_CONTENT''] else [])"

text \<open>
  The set of visited objects of the code guards against cyclic objects; a JSON document is a
  tree, no object of it is met twice.
\<close>

function scanForDangerousValues :: "json \<Rightarrow> string \<Rightarrow> validation_error list" where
  "scanForDangerousValues obj path = concat (map (\<lambda>(key, value).
     let valuePath = path @ ''.'' @ key in
     (if key \<in> set PROHIBITED_KEYS
      then [err valuePath (''Prohibited key \"'' @ key @ ''\"'') ''PROHIBITED_KEY''] else []) @
     (case value of
        JStr v \<Rightarrow> string_errors valuePath v True
      | JArr vs \<Rightarrow> concat (map (\<lambda>(i, v).
          let itemPath = valuePath @ ''['' @ nat_str i @ '']'' in
          if is_object v then scanForDangerousValues v itemPath
          else case v of JStr s \<Rightarrow> string_errors itemPath s False | _ \<Rightarrow> [])
          (zip [0..<length vs] vs))
      | JObj fs \<Rightarrow> scanForDangerousValues value valuePath
      | _ \<Rightarrow> [])) (entries obj))"
  by pat_completeness auto

termination
  by (relation "measure (\<lambda>(obj, path). size obj)")
     (auto dest!: size_entries set_zip_rightD size_arr_elem)

declare scanForDangerousValues.simps [simp del]

section \<open>Component nodes\<close>

text \<open>The state the recursion threads: the errors so far, the ids seen, the number of nodes.\<close>

record walk =
  wk_errors :: "validation_error list"
  wk_seen :: "string list"
  wk_count :: nat

definition add_errors :: "validation_error list \<Rightarrow> walk \<Rightarrow> walk" where
  "add_errors es w = w\<lparr>wk_errors := wk_errors w @ es\<rparr>"

definition prohibited_errors :: "json \<Rightarrow> (string \<Rightarrow> string) \<Rightarrow> string \<Rightarrow> validation_error list" where
  "prohibited_errors v at_path suffix = concat (map (\<lambda>(key, _).
     if key \<in> set PROHIBITED_KEYS
     then [err (at_path key) (''Prohibited key \"'' @ key @ ''\"'' @ suffix) ''PROHIBITED_KEY''] else [])
     (entries v))"

definition check_node_id :: "json \<Rightarrow> string \<Rightarrow> walk \<Rightarrow> walk" where
  "check_node_id node path w =
     (case as_str (get_prop node ''id'') of
        None \<Rightarrow> add_errors [err (path @ ''.id'') ''Component id is required'' ''NODE_ID_REQUIRED''] w
      | Some i \<Rightarrow>
          if i = [] then add_errors [err (path @ ''.id'') ''Component id is required'' ''NODE_ID_REQUIRED''] w
          else if i \<in> set (wk_seen w)
          then add_errors [err (path @ ''.id'') (''Duplicate node id \"'' @ i @ ''\"'') ''NODE_ID_DUPLICATE''] w
          else w\<lparr>wk_seen := wk_seen w @ [i]\<rparr>)"

definition node_type_errors :: "json \<Rightarrow> string \<Rightarrow> validation_error list" where
  "node_type_errors node path =
     (case as_str (get_prop node ''type'') of
        Some (c # cs) \<Rightarrow> []
      | _ \<Rightarrow> [err (path @ ''.type'') ''Component type is required'' ''NODE_TYPE_REQUIRED''])"

definition props_errors :: "json \<Rightarrow> string \<Rightarrow> validation_error list" where
  "props_errors node path =
     (case get_prop node ''props'' of
        None \<Rightarrow> []
      | Some p \<Rightarrow> if is_object p then scanForDangerousValues p (path @ ''.props'')
                  else [err (path @ ''.props'') ''Props must be an object'' ''PROPS_TYPE''])"

definition styles_errors :: "json \<Rightarrow> string \<Rightarrow> validation_error list" where
  "styles_errors node path =
     (case get_prop node ''styles'' of
        None \<Rightarrow> []
      | Some p \<Rightarrow> if is_object p then []
                  else [err (path @ ''.styles'') ''Styles must be an object'' ''STYLES_TYPE''])"

text \<open>The checks of one node before its children.\<close>

definition check_node :: "json \<Rightarrow> string \<Rightarrow> walk \<Rightarrow> walk" where
  "check_node node path w =
     (let w = add_errors (prohibited_errors node (\<lambda>key. path @ ''.'' @ key) []) w;
          w = check_node_id node path w;
          w = add_errors (node_type_errors node path) w;
          w = w\<lparr>wk_count := Suc (wk_count w)\<rparr>;
          w = add_errors (props_errors node path) w
      in add_errors (styles_errors node path) w)"

function (sequential) validateComponentNode :: "json \<Rightarrow> string \<Rightarrow> nat \<Rightarrow> walk \<Rightarrow> walk"
  and validateChildren :: "json list \<Rightarrow> string \<Rightarrow> nat \<Rightarrow> nat \<Rightarrow> walk \<Rightarrow> walk" where
  "validateComponentNode node path depth w =
     (if depth > MAX_NESTING_DEPTH
      then add_errors [err path ''Maximum nesting depth of 20 exceeded'' ''NESTING_DEPTH''] w
      else if \<not> is_object node
      then add_errors [err path ''Component node must be an object'' ''NODE_TYPE''] w
      else let w = check_node node path w in
           case get_prop node ''children'' of
             None \<Rightarrow> w
           | Some (JArr cs) \<Rightarrow> validateChildren cs path 0 (Suc depth) w
           | _ \<Rightarrow> add_errors [err (path @ ''.children'') ''Children must be an array'' ''CHILDREN_TYPE''] w)"
| "validateChildren [] path index depth w = w"
| "validateChildren (c # cs) path index depth w =
     validateChildren cs path (Suc index) depth
       (validateComponentNode c (path @ ''.children['' @ nat_str index @ '']'') depth w)"
  by pat_completeness auto

termination
  by (relation "measure (\<lambda>x. case x of Inl (n, _, _, _) \<Rightarrow> size n | Inr (cs, _, _, _, _) \<Rightarrow> size_list size cs)")
     (auto dest: size_get_prop)

declare validateComponentNode.simps [simp del]

section \<open>The schema\<close>

record pages_walk =
  pw_errors :: "validation_error list"
  pw_routes :: "string list"
  pw_pageIds :: "string list"
  pw_nodeIds :: "string list"
  pw_nodeCount :: nat

definition page_errors :: "validation_error list \<Rightarrow> pages_walk \<Rightarrow> pages_walk" where
  "page_errors es w = w\<lparr>pw_errors := pw_errors w @ es\<rparr>"

definition check_page_id :: "json \<Rightarrow> string \<Rightarrow> pages_walk \<Rightarrow> pages_walk" where
  "check_page_id page path w =
     (case as_str (get_prop page ''id'') of
        None \<Rightarrow> page_errors [err (path @ ''.id'') ''Page id is required'' ''PAGE_ID_REQUIRED''] w
      | Some i \<Rightarrow>
          if i = [] then page_errors [err (path @ ''.id'') ''Page id is required'' ''PAGE_ID_REQUIRED''] w
          else if i \<in> set (pw_pageIds w)
          then page_errors [err (path @ ''.id'') (''Duplicate page id \"'' @ i @ ''\"'') ''PAGE_ID_DUPLICATE''] w
          else w\<lparr>pw_pageIds := pw_pageIds w @ [i]\<rparr>)"

definition page_name_errors :: "json \<Rightarrow> string \<Rightarrow> validation_error list" where
  "page_name_errors page path =
     (case as_str (get_prop page ''name'') of
        Some _ \<Rightarrow> []
      | None \<Rightarrow> [err (path @ ''.name'') ''Page name is required'' ''PAGE_NAME_REQUIRED''])"

definition check_route :: "json \<Rightarrow> string \<Rightarrow> pages_walk \<Rightarrow> pages_walk" where
  "check_route page path w =
     (case as_str (get_prop page ''route'') of
        None \<Rightarrow> page_errors [err (path @ ''.route'') ''Page route is required'' ''PAGE_ROUTE_REQUIRED''] w
      | Some r \<Rightarrow>
          let w = (if starts_with ''/'' r then w
                   else page_errors [err (path @ ''.route'')
                     (''Route \"'' @ r @ ''\" must start with \"/\"'') ''PAGE_ROUTE_FORMAT''] w)
          in if r \<in> set (pw_routes w)
             then page_errors [err (path @ ''.route'') (''Duplicate route \"'' @ r @ ''\"'')
                    ''PAGE_ROUTE_DUPLICATE''] w
             else w\<lparr>pw_routes := pw_routes w @ [r]\<rparr>)"

definition check_root :: "json \<Rightarrow> string \<Rightarrow> pages_walk \<Rightarrow> pages_walk" where
  "check_root page path w =
     (if truthy (get_prop page ''root'')
      then let r = validateComponentNode (the (get_prop page ''root'')) (path @ ''.root'') 0
                     \<lparr> wk_errors = pw_errors w, wk_seen = pw_nodeIds w, wk_count = pw_nodeCount w \<rparr>
           in w\<lparr>pw_errors := wk_errors r, pw_nodeIds := wk_seen r, pw_nodeCount := wk_count r\<rparr>
      else page_errors [err (path @ ''.root'') ''Root component is required'' ''ROOT_REQUIRED''] w)"

definition validate_page :: "json \<Rightarrow> nat \<Rightarrow> pages_walk \<Rightarrow> pages_walk" where
  "validate_page page index w =
     (let path = ''pages['' @ nat_str index @ '']'' in
      if \<not> is_object page then page_errors [err path ''Page must be an object'' ''PAGE_TYPE''] w
      else let w = page_errors (prohibited_errors page (\<lambda>key. path @ ''.'' @ key) []) w;
               w = check_page_id page path w;
               w = page_errors (page_name_errors page path) w;
               w = check_route page path w
           in check_root page path w)"

fun validate_pages :: "json list \<Rightarrow> nat \<Rightarrow> pages_walk \<Rightarrow> pages_walk" where
  "validate_pages [] index w = w"
| "validate_pages (p # ps) index w = validate_pages ps (Suc index) (validate_page p index w)"

definition version_errors :: "json \<Rightarrow> validation_error list" where
  "version_errors schema =
     (case as_str (get_prop schema ''schemaVersion'') of
        Some (c # cs) \<Rightarrow>
          if c # cs \<in> set SUPPORTED_SCHEMA_VERSIONS then []
          else [err ''schemaVersion'' (''Unsupported schema version \"'' @ (c # cs) @
                  ''\". Supported: 1.0.0'') ''SCHEMA_VERSION_UNSUPPORTED'']
      | _ \<Rightarrow> [err ''schemaVersion'' ''schemaVersion is required and must be a non-empty string''
              ''SCHEMA_VERSION_REQUIRED''])"

definition metadata_errors :: "json \<Rightarrow> validation_error list" where
  "metadata_errors schema =
     (case get_prop schema ''metadata'' of
        Some m \<Rightarrow>
          if is_object m
          then (if as_str (get_prop m ''applicationId'') = None
                then [err ''metadata.applicationId'' ''metadata.applicationId is required'' ''METADATA_MISSING'']
                else []) @
               (if as_str (get_prop m ''name'') = None
                then [err ''metadata.name'' ''metadata.name is required'' ''METADATA_MISSING''] else [])
          else [err ''metadata'' ''metadata is required'' ''METADATA_MISSING'']
      | None \<Rightarrow> [err ''metadata'' ''metadata is required'' ''METADATA_MISSING''])"

definition pages_errors :: "json \<Rightarrow> validation_error list" where
  "pages_errors schema =
     (case get_prop schema ''pages'' of
        None \<Rightarrow> []
      | Some (JArr pages) \<Rightarrow>
          (if length pages > MAX_PAGES
           then [err ''pages'' (''Too many pages: '' @ nat_str (length pages) @ '', max: 200'')
                   ''PAGES_MAX_EXCEEDED''] else []) @
          (let w = validate_pages pages 0 \<lparr> pw_errors = [], pw_routes = [], pw_pageIds = [],
                     pw_nodeIds = [], pw_nodeCount = 0 \<rparr>
           in pw_errors w @
              (if pw_nodeCount w > MAX_NODES
               then [err ''pages'' (''Too many component nodes: '' @ nat_str (pw_nodeCount w) @
                       '', max: 5000'') ''NODES_MAX_EXCEEDED''] else []))
      | _ \<Rightarrow> [err ''pages'' ''pages must be an array'' ''PAGES_TYPE''])"

text \<open>The errors; the schema is valid when there is none.\<close>

definition validateApplicationSchema :: "json \<Rightarrow> validation_error list" where
  "validateApplicationSchema schema =
     (if \<not> is_object schema
      then [err ''$'' ''Schema must be a non-null object'' ''SCHEMA_TYPE'']
      else prohibited_errors schema (\<lambda>_. ''$'') '' at root'' @
           version_errors schema @ metadata_errors schema @ pages_errors schema)"

section \<open>What a valid schema is\<close>

text \<open>
  The specification says what holds of a valid schema, without errors, paths, sets of seen ids
  or an order of checks.
\<close>

definition harmless :: "string \<Rightarrow> bool" where
  "harmless s \<longleftrightarrow> \<not> some_test EXECUTABLE_PATTERNS s \<and> \<not> some_test SQL_PATTERNS s"

definition secret :: "string \<Rightarrow> bool" where
  "secret s = some_test SECRET_PATTERNS s"

function safe_value :: "json \<Rightarrow> bool" where
  "safe_value obj \<longleftrightarrow> list_all (\<lambda>kv. fst kv \<notin> set PROHIBITED_KEYS \<and>
     (case snd kv of
        JStr v \<Rightarrow> harmless v \<and> \<not> secret v
      | JArr vs \<Rightarrow> list_all (\<lambda>v. if is_object v then safe_value v
                                  else case v of JStr s \<Rightarrow> harmless s | _ \<Rightarrow> True) vs
      | JObj fs \<Rightarrow> safe_value (snd kv)
      | _ \<Rightarrow> True)) (entries obj)"
  by pat_completeness auto

termination
  by (relation "measure size") (auto dest!: size_entries size_arr_elem)

declare safe_value.simps [simp del]

definition clean_keys :: "json \<Rightarrow> bool" where
  "clean_keys v \<longleftrightarrow> list_all (\<lambda>kv. fst kv \<notin> set PROHIBITED_KEYS) (entries v)"

definition nonempty_str :: "json option \<Rightarrow> bool" where
  "nonempty_str v = (case as_str v of Some (c # cs) \<Rightarrow> True | _ \<Rightarrow> False)"

definition node_id :: "json \<Rightarrow> string" where
  "node_id node = (case as_str (get_prop node ''id'') of None \<Rightarrow> [] | Some i \<Rightarrow> i)"

definition head_ok :: "json \<Rightarrow> bool" where
  "head_ok node \<longleftrightarrow> clean_keys node \<and> nonempty_str (get_prop node ''id'') \<and>
     nonempty_str (get_prop node ''type'') \<and>
     (case get_prop node ''props'' of None \<Rightarrow> True | Some p \<Rightarrow> is_object p \<and> safe_value p) \<and>
     (case get_prop node ''styles'' of None \<Rightarrow> True | Some p \<Rightarrow> is_object p)"

function node_ok :: "nat \<Rightarrow> json \<Rightarrow> bool" where
  "node_ok depth node \<longleftrightarrow> depth \<le> MAX_NESTING_DEPTH \<and> is_object node \<and> head_ok node \<and>
     (case get_prop node ''children'' of
        None \<Rightarrow> True | Some (JArr cs) \<Rightarrow> list_all (node_ok (Suc depth)) cs | _ \<Rightarrow> False)"
  by pat_completeness auto

termination
  by (relation "measure (\<lambda>(d, n). size n)") (auto dest!: size_get_prop size_arr_elem)

declare node_ok.simps [simp del]

function node_ids :: "json \<Rightarrow> string list" where
  "node_ids node = node_id node #
     (case get_prop node ''children'' of Some (JArr cs) \<Rightarrow> concat (map node_ids cs) | _ \<Rightarrow> [])"
  by pat_completeness auto

termination
  by (relation "measure size") (auto dest!: size_get_prop size_arr_elem)

declare node_ids.simps [simp del]

definition str_prop :: "json \<Rightarrow> string \<Rightarrow> string" where
  "str_prop v k = (case as_str (get_prop v k) of None \<Rightarrow> [] | Some s \<Rightarrow> s)"

definition page_ok :: "json \<Rightarrow> bool" where
  "page_ok page \<longleftrightarrow> is_object page \<and> clean_keys page \<and> nonempty_str (get_prop page ''id'') \<and>
     as_str (get_prop page ''name'') \<noteq> None \<and> as_str (get_prop page ''route'') \<noteq> None \<and>
     starts_with ''/'' (str_prop page ''route'') \<and>
     (case get_prop page ''root'' of None \<Rightarrow> False | Some r \<Rightarrow> node_ok 0 r)"

definition page_node_ids :: "json \<Rightarrow> string list" where
  "page_node_ids page = (case get_prop page ''root'' of None \<Rightarrow> [] | Some r \<Rightarrow> node_ids r)"

definition schema_ok :: "json \<Rightarrow> bool" where
  "schema_ok schema \<longleftrightarrow> is_object schema \<and> clean_keys schema \<and>
     str_prop schema ''schemaVersion'' = ''1.0.0'' \<and>
     (case get_prop schema ''metadata'' of
        None \<Rightarrow> False
      | Some m \<Rightarrow> is_object m \<and> as_str (get_prop m ''applicationId'') \<noteq> None \<and>
                  as_str (get_prop m ''name'') \<noteq> None) \<and>
     (case get_prop schema ''pages'' of
        None \<Rightarrow> True
      | Some (JArr pages) \<Rightarrow>
          length pages \<le> MAX_PAGES \<and> list_all page_ok pages \<and>
          distinct (map (\<lambda>p. str_prop p ''id'') pages) \<and>
          distinct (map (\<lambda>p. str_prop p ''route'') pages) \<and>
          distinct (concat (map page_node_ids pages)) \<and>
          length (concat (map page_node_ids pages)) \<le> MAX_NODES
      | _ \<Rightarrow> False)"

section \<open>The validator accepts exactly the valid schemas\<close>

lemma concat_Nil_iff: "concat xs = [] \<longleftrightarrow> (\<forall>x \<in> set xs. x = [])"
  by (induction xs) auto

lemma string_errors_Nil:
  "string_errors path v b = [] \<longleftrightarrow> harmless v \<and> \<not> (b \<and> secret v)"
  by (auto simp: string_errors_def harmless_def secret_def)

lemma prohibited_errors_Nil: "prohibited_errors v f x = [] \<longleftrightarrow> clean_keys v"
  by (auto simp: prohibited_errors_def clean_keys_def concat_Nil_iff list_all_iff split: if_splits)

lemma zip_enum_all: "(\<forall>x \<in> set (zip [n..<n + length vs] vs). P (snd x)) \<longleftrightarrow> (\<forall>v \<in> set vs. P v)"
proof -
  have "snd ` set (zip [n..<n + length vs] vs) = set vs"
    by (simp flip: set_map)
  then show ?thesis by (metis (no_types) image_eqI image_iff)
qed

lemma scan_Nil: "scanForDangerousValues obj path = [] \<longleftrightarrow> safe_value obj"
proof (induction obj path rule: scanForDangerousValues.induct)
  case (1 obj path)
  have item: "(case snd kv of
        JStr v \<Rightarrow> string_errors p v True
      | JArr vs \<Rightarrow> concat (map (\<lambda>(i, v).
          let itemPath = p @ ''['' @ nat_str i @ '']'' in
          if is_object v then scanForDangerousValues v itemPath
          else case v of JStr s \<Rightarrow> string_errors itemPath s False | _ \<Rightarrow> [])
          (zip [0..<length vs] vs))
      | JObj fs \<Rightarrow> scanForDangerousValues (snd kv) p
      | _ \<Rightarrow> []) = [] \<longleftrightarrow>
     (case snd kv of
        JStr v \<Rightarrow> harmless v \<and> \<not> secret v
      | JArr vs \<Rightarrow> list_all (\<lambda>v. if is_object v then safe_value v
                                  else case v of JStr s \<Rightarrow> harmless s | _ \<Rightarrow> True) vs
      | JObj fs \<Rightarrow> safe_value (snd kv)
      | _ \<Rightarrow> True)"
    if kv: "kv \<in> set (entries obj)" and p: "p = path @ ''.'' @ fst kv" for kv p
  proof (cases "snd kv")
    case (JArr vs)
    have "(let itemPath = p @ ''['' @ nat_str i @ '']'' in
          if is_object v then scanForDangerousValues v itemPath
          else case v of JStr s \<Rightarrow> string_errors itemPath s False | _ \<Rightarrow> []) = [] \<longleftrightarrow>
        (if is_object v then safe_value v else case v of JStr s \<Rightarrow> harmless s | _ \<Rightarrow> True)"
      if "(i, v) \<in> set (zip [0..<length vs] vs)" for i v
      using "1.IH"(1) [OF kv prod.collapse p JArr that refl refl] that
      by (auto simp: Let_def string_errors_Nil split: json.split)
    then have "(\<forall>x \<in> set (zip [0..<length vs] vs). (case x of (i, v) \<Rightarrow>
          let itemPath = p @ ''['' @ nat_str i @ '']'' in
          if is_object v then scanForDangerousValues v itemPath
          else case v of JStr s \<Rightarrow> string_errors itemPath s False | _ \<Rightarrow> []) = []) \<longleftrightarrow>
        (\<forall>x \<in> set (zip [0..<length vs] vs). (\<lambda>v. if is_object v then safe_value v
           else case v of JStr s \<Rightarrow> harmless s | _ \<Rightarrow> True) (snd x))"
      by (intro ball_cong refl) (simp only: split_paired_all prod.case snd_conv)
    then show ?thesis
      using zip_enum_all [of 0 vs "\<lambda>v. if is_object v then safe_value v
           else case v of JStr s \<Rightarrow> harmless s | _ \<Rightarrow> True"]
      by (simp add: JArr concat_Nil_iff list_all_iff)
  next
    case (JObj fs)
    then show ?thesis using "1.IH"(2) [OF kv prod.collapse p JObj] by simp
  qed (auto simp: string_errors_Nil)
  show ?case
    unfolding scanForDangerousValues.simps [of obj] safe_value.simps [of obj] concat_Nil_iff
      list_all_iff [of _ "entries obj"]
    using item by (auto simp: Let_def split_beta split: if_splits)
qed

text \<open>Errors are never taken back.\<close>

lemma add_errors_simps [simp]:
  "wk_errors (add_errors es w) = wk_errors w @ es" "wk_seen (add_errors es w) = wk_seen w"
  "wk_count (add_errors es w) = wk_count w" "add_errors [] w = w"
  by (simp_all add: add_errors_def)

lemma add_errors_snoc: "add_errors es w = w \<longleftrightarrow> es = []"
  by (metis add_errors_simps(1,4) append_self_conv)

lemma node_type_errors_Nil: "node_type_errors n p = [] \<longleftrightarrow> nonempty_str (get_prop n ''type'')"
  by (auto simp: node_type_errors_def nonempty_str_def split: option.splits list.splits)

lemma props_errors_Nil:
  "props_errors n p = [] \<longleftrightarrow>
   (case get_prop n ''props'' of None \<Rightarrow> True | Some p \<Rightarrow> is_object p \<and> safe_value p)"
  by (auto simp: props_errors_def scan_Nil split: option.splits)

lemma styles_errors_Nil:
  "styles_errors n p = [] \<longleftrightarrow> (case get_prop n ''styles'' of None \<Rightarrow> True | Some p \<Rightarrow> is_object p)"
  by (auto simp: styles_errors_def split: option.splits)

lemma check_node_id_cases:
  "check_node_id n p w =
     (if nonempty_str (get_prop n ''id'') \<and> node_id n \<notin> set (wk_seen w)
      then w\<lparr>wk_seen := wk_seen w @ [node_id n]\<rparr>
      else add_errors (wk_errors (check_node_id n p (w\<lparr>wk_errors := []\<rparr>))) w)"
  "wk_errors (check_node_id n p (w\<lparr>wk_errors := []\<rparr>)) = [] \<longleftrightarrow>
     nonempty_str (get_prop n ''id'') \<and> node_id n \<notin> set (wk_seen w)"
  by (auto simp: check_node_id_def nonempty_str_def node_id_def split: option.splits list.splits)

lemma check_node_correct:
  assumes "wk_errors w = []"
  shows "if head_ok n \<and> node_id n \<notin> set (wk_seen w)
    then check_node n p w = w\<lparr>wk_seen := wk_seen w @ [node_id n], wk_count := Suc (wk_count w)\<rparr>
    else wk_errors (check_node n p w) \<noteq> []"
proof (cases "nonempty_str (get_prop n ''id'') \<and> node_id n \<notin> set (wk_seen w)")
  case True
  then have id: "check_node_id n p w' = w'\<lparr>wk_seen := wk_seen w' @ [node_id n]\<rparr>"
    if "wk_seen w' = wk_seen w" for w'
    using that by (simp add: check_node_id_cases(1))
  show ?thesis
  proof (cases "head_ok n")
    case ok: True
    then have "prohibited_errors n (\<lambda>k. p @ ''.'' @ k) [] = []" "node_type_errors n p = []"
      "props_errors n p = []" "styles_errors n p = []"
      by (simp_all add: head_ok_def prohibited_errors_Nil node_type_errors_Nil props_errors_Nil
          styles_errors_Nil)
    with ok True show ?thesis by (simp add: check_node_def Let_def id)
  next
    case bad: False
    then have "prohibited_errors n (\<lambda>k. p @ ''.'' @ k) [] \<noteq> [] \<or> node_type_errors n p \<noteq> [] \<or>
      props_errors n p \<noteq> [] \<or> styles_errors n p \<noteq> []"
      using True by (auto simp: head_ok_def prohibited_errors_Nil node_type_errors_Nil props_errors_Nil
          styles_errors_Nil)
    with bad True show ?thesis by (auto simp: check_node_def Let_def id)
  qed
next
  case False
  have "wk_errors (check_node_id n p w') \<noteq> []" if "wk_seen w' = wk_seen w" for w'
    using that False check_node_id_cases(2) [of n p w'] by (subst check_node_id_cases(1)) auto
  then show ?thesis
    using False by (auto simp: check_node_def Let_def head_ok_def)
qed

lemma check_node_keeps_errors: "wk_errors w \<noteq> [] \<Longrightarrow> wk_errors (check_node n p w) \<noteq> []"
  by (auto simp: check_node_def Let_def check_node_id_def split: option.split)

lemma walk_keeps_errors:
  "wk_errors w \<noteq> [] \<Longrightarrow> wk_errors (validateComponentNode n p d w) \<noteq> []"
  "wk_errors w \<noteq> [] \<Longrightarrow> wk_errors (validateChildren cs p i d w) \<noteq> []"
proof (induction n p d w and cs p i d w rule: validateComponentNode_validateChildren.induct)
  case (1 n p d w)
  then show ?case
    by (auto simp: validateComponentNode.simps [of n] Let_def check_node_keeps_errors
          split: option.split json.split)
qed auto

text \<open>
  From a state without errors, a walk over a node ends without errors exactly when the node is
  fine and its ids are new; then the ids are recorded and the nodes counted.
\<close>

definition walk_spec :: "bool \<Rightarrow> string list \<Rightarrow> walk \<Rightarrow> walk \<Rightarrow> bool" where
  "walk_spec good ids w r \<longleftrightarrow>
     (if good \<and> distinct (wk_seen w @ ids)
      then r = w\<lparr>wk_seen := wk_seen w @ ids, wk_count := wk_count w + length ids\<rparr>
      else wk_errors r \<noteq> [])"

lemma walk_spec_append:
  assumes "walk_spec g1 ids1 w r1" and "walk_spec g2 ids2 r1 r2" and "g1" "distinct (wk_seen w @ ids1)"
  shows "walk_spec (g1 \<and> g2) (ids1 @ ids2) w r2"
proof -
  have "r1 = w\<lparr>wk_seen := wk_seen w @ ids1, wk_count := wk_count w + length ids1\<rparr>"
    using assms(1,3,4) by (simp add: walk_spec_def)
  with assms(2-4) show ?thesis by (auto simp: walk_spec_def split: if_splits)
qed

lemma walk_correct:
  "wk_errors w = [] \<Longrightarrow> distinct (wk_seen w) \<Longrightarrow>
   walk_spec (node_ok d n) (node_ids n) w (validateComponentNode n p d w)"
  "wk_errors w = [] \<Longrightarrow> distinct (wk_seen w) \<Longrightarrow>
   walk_spec (list_all (node_ok d) cs) (concat (map node_ids cs)) w (validateChildren cs p i d w)"
proof (induction n p d w and cs p i d w rule: validateComponentNode_validateChildren.induct)
  case (1 n p d w)
  show ?case
  proof (cases "d \<le> MAX_NESTING_DEPTH \<and> is_object n \<and> head_ok n \<and> node_id n \<notin> set (wk_seen w)")
    case False
    then have "wk_errors (validateComponentNode n p d w) \<noteq> []"
      using check_node_correct [OF "1.prems"(1), of n p] walk_keeps_errors(2)
      by (auto simp: validateComponentNode.simps [of n] Let_def split: option.split json.split if_splits)
    with False show ?thesis
      by (auto simp: walk_spec_def node_ok.simps [of d] node_ids.simps [of n])
  next
    case True
    let ?w = "w\<lparr>wk_seen := wk_seen w @ [node_id n], wk_count := Suc (wk_count w)\<rparr>"
    have head: "check_node n p w = ?w"
      using check_node_correct [OF "1.prems"(1), of n p] True by simp
    show ?thesis
    proof (cases "\<exists>cs. get_prop n ''children'' = Some (JArr cs)")
      case True
      then obtain cs where cs: "get_prop n ''children'' = Some (JArr cs)" by blast
      have "walk_spec (list_all (node_ok (Suc d)) cs) (concat (map node_ids cs)) ?w
          (validateChildren cs p 0 (Suc d) ?w)"
        using "1.IH" [of ?w "JArr cs" cs] head cs \<open>d \<le> _ \<and> _\<close> "1.prems" by simp
      then show ?thesis
        using \<open>d \<le> _ \<and> _\<close> cs head
        by (auto simp: walk_spec_def validateComponentNode.simps [of n] node_ok.simps [of d]
              node_ids.simps [of n] Let_def split: if_splits)
    next
      case no: False
      then show ?thesis
        using True head "1.prems"
        by (auto simp: walk_spec_def validateComponentNode.simps [of n] node_ok.simps [of d]
              node_ids.simps [of n] Let_def split: option.splits json.splits)
    qed
  qed
next
  case (2 p i d w)
  then show ?case by (simp add: walk_spec_def)
next
  case (3 c cs p i d w)
  let ?r = "validateComponentNode c (p @ ''.children['' @ nat_str i @ '']'') d w"
  have c: "walk_spec (node_ok d c) (node_ids c) w ?r" using 3 by simp
  show ?case
  proof (cases "node_ok d c \<and> distinct (wk_seen w @ node_ids c)")
    case True
    with c have r: "?r = w\<lparr>wk_seen := wk_seen w @ node_ids c,
        wk_count := wk_count w + length (node_ids c)\<rparr>"
      by (simp add: walk_spec_def)
    have "walk_spec (list_all (node_ok d) cs) (concat (map node_ids cs)) ?r
        (validateChildren cs p (Suc i) d ?r)"
    proof (rule "3.IH"(2))
      show "wk_errors ?r = []" unfolding r using "3.prems" by simp
      show "distinct (wk_seen ?r)" unfolding r using True by simp
    qed
    from walk_spec_append [OF c this] True show ?thesis by simp
  next
    case False
    with c have "wk_errors ?r \<noteq> []" by (auto simp: walk_spec_def)
    then have "wk_errors (validateChildren cs p (Suc i) d ?r) \<noteq> []"
      by (rule walk_keeps_errors(2))
    with False show ?thesis by (auto simp: walk_spec_def)
  qed
qed

text \<open>The same for the pages.\<close>

lemma page_errors_simps [simp]:
  "pw_errors (page_errors es w) = pw_errors w @ es" "pw_routes (page_errors es w) = pw_routes w"
  "pw_pageIds (page_errors es w) = pw_pageIds w" "pw_nodeIds (page_errors es w) = pw_nodeIds w"
  "pw_nodeCount (page_errors es w) = pw_nodeCount w" "page_errors [] w = w"
  by (simp_all add: page_errors_def)

lemma page_keeps_errors: "pw_errors w \<noteq> [] \<Longrightarrow> pw_errors (validate_page p i w) \<noteq> []"
  by (auto simp: validate_page_def check_root_def check_route_def check_page_id_def Let_def
        intro!: walk_keeps_errors(1) split: option.split)

lemma pages_keep_errors: "pw_errors w \<noteq> [] \<Longrightarrow> pw_errors (validate_pages ps i w) \<noteq> []"
  by (induction ps i w rule: validate_pages.induct) (auto simp: page_keeps_errors)

definition pages_distinct :: "pages_walk \<Rightarrow> json list \<Rightarrow> bool" where
  "pages_distinct w ps \<longleftrightarrow> distinct (pw_pageIds w @ map (\<lambda>p. str_prop p ''id'') ps) \<and>
     distinct (pw_routes w @ map (\<lambda>p. str_prop p ''route'') ps) \<and>
     distinct (pw_nodeIds w @ concat (map page_node_ids ps))"

definition pages_seen :: "pages_walk \<Rightarrow> json list \<Rightarrow> pages_walk" where
  "pages_seen w ps = w\<lparr>pw_pageIds := pw_pageIds w @ map (\<lambda>p. str_prop p ''id'') ps,
     pw_routes := pw_routes w @ map (\<lambda>p. str_prop p ''route'') ps,
     pw_nodeIds := pw_nodeIds w @ concat (map page_node_ids ps),
     pw_nodeCount := pw_nodeCount w + length (concat (map page_node_ids ps))\<rparr>"

lemma check_page_id_eq:
  "check_page_id p path w =
     (if nonempty_str (get_prop p ''id'') \<and> str_prop p ''id'' \<notin> set (pw_pageIds w)
      then w\<lparr>pw_pageIds := pw_pageIds w @ [str_prop p ''id'']\<rparr>
      else page_errors (pw_errors (check_page_id p path (w\<lparr>pw_errors := []\<rparr>))) w)"
  "pw_errors (check_page_id p path (w\<lparr>pw_errors := []\<rparr>)) = [] \<longleftrightarrow>
     nonempty_str (get_prop p ''id'') \<and> str_prop p ''id'' \<notin> set (pw_pageIds w)"
  by (auto simp: check_page_id_def nonempty_str_def str_prop_def split: option.splits list.splits)

lemma check_route_eq:
  assumes "pw_errors w = []"
  shows "if as_str (get_prop p ''route'') \<noteq> None \<and> starts_with ''/'' (str_prop p ''route'') \<and>
      str_prop p ''route'' \<notin> set (pw_routes w)
    then check_route p path w = w\<lparr>pw_routes := pw_routes w @ [str_prop p ''route'']\<rparr>
    else pw_errors (check_route p path w) \<noteq> []"
  using assms by (auto simp: check_route_def str_prop_def Let_def split: option.splits)

lemma node_ok_truthy: "node_ok d r \<Longrightarrow> truthy (Some r)"
  unfolding node_ok.simps [of d r] by (cases r) auto

lemma check_root_eq:
  assumes "pw_errors w = []" and "distinct (pw_nodeIds w)"
  shows "if (case get_prop p ''root'' of None \<Rightarrow> False | Some r \<Rightarrow> node_ok 0 r) \<and>
      distinct (pw_nodeIds w @ page_node_ids p)
    then check_root p path w = w\<lparr>pw_nodeIds := pw_nodeIds w @ page_node_ids p,
      pw_nodeCount := pw_nodeCount w + length (page_node_ids p)\<rparr>
    else pw_errors (check_root p path w) \<noteq> []"
proof (cases "truthy (get_prop p ''root'')")
  case False
  then show ?thesis using node_ok_truthy by (auto simp: check_root_def split: option.splits)
next
  case True
  then obtain r where r: "get_prop p ''root'' = Some r" by (cases "get_prop p ''root''") auto
  let ?w = "\<lparr> wk_errors = pw_errors w, wk_seen = pw_nodeIds w, wk_count = pw_nodeCount w \<rparr>"
  have "walk_spec (node_ok 0 r) (node_ids r) ?w (validateComponentNode r (path @ ''.root'') 0 ?w)"
    by (rule walk_correct(1)) (simp_all add: assms)
  then show ?thesis
    using True r assms
    by (auto simp: walk_spec_def check_root_def page_node_ids_def Let_def split: if_splits)
qed

lemma validate_page_correct:
  assumes e: "pw_errors w = []" and d: "distinct (pw_nodeIds w)" "distinct (pw_pageIds w)"
      "distinct (pw_routes w)"
  shows "if page_ok p \<and> pages_distinct w [p] then validate_page p i w = pages_seen w [p]
    else pw_errors (validate_page p i w) \<noteq> []"
proof (cases "is_object p \<and> clean_keys p \<and> nonempty_str (get_prop p ''id'') \<and>
    str_prop p ''id'' \<notin> set (pw_pageIds w) \<and> as_str (get_prop p ''name'') \<noteq> None \<and>
    as_str (get_prop p ''route'') \<noteq> None \<and> starts_with ''/'' (str_prop p ''route'') \<and>
    str_prop p ''route'' \<notin> set (pw_routes w)")
  case True
  let ?path = "''pages['' @ nat_str i @ '']''"
  have "prohibited_errors p (\<lambda>key. ?path @ ''.'' @ key) [] = []" "page_name_errors p ?path = []"
    using True by (auto simp: prohibited_errors_Nil page_name_errors_def)
  moreover have "check_page_id p ?path w = w\<lparr>pw_pageIds := pw_pageIds w @ [str_prop p ''id'']\<rparr>"
    using True check_page_id_eq(1) [of p ?path w] by simp
  moreover have "check_route p ?path (w\<lparr>pw_pageIds := pw_pageIds w @ [str_prop p ''id'']\<rparr>) =
      w\<lparr>pw_pageIds := pw_pageIds w @ [str_prop p ''id''], pw_routes := pw_routes w @ [str_prop p ''route'']\<rparr>"
    using True e check_route_eq [of "w\<lparr>pw_pageIds := pw_pageIds w @ [str_prop p ''id'']\<rparr>" p ?path] by simp
  ultimately have "validate_page p i w = check_root p ?path
      (w\<lparr>pw_pageIds := pw_pageIds w @ [str_prop p ''id''], pw_routes := pw_routes w @ [str_prop p ''route'']\<rparr>)"
    using True by (simp add: validate_page_def Let_def del: append.simps)
  then show ?thesis
    using True e d check_root_eq [of "w\<lparr>pw_pageIds := pw_pageIds w @ [str_prop p ''id''],
        pw_routes := pw_routes w @ [str_prop p ''route'']\<rparr>" p ?path]
    by (auto simp: page_ok_def pages_distinct_def pages_seen_def split: if_splits)
next
  case False
  let ?path = "''pages['' @ nat_str i @ '']''"
  have root: "pw_errors v \<noteq> [] \<Longrightarrow> pw_errors (check_root p path v) \<noteq> []" for v path
    by (auto simp: check_root_def Let_def intro!: walk_keeps_errors(1))
  have route: "pw_errors v \<noteq> [] \<Longrightarrow> pw_errors (check_route p path v) \<noteq> []" for v path
    by (auto simp: check_route_def Let_def split: option.split)
  have pid: "pw_errors v \<noteq> [] \<Longrightarrow> pw_errors (check_page_id p path v) \<noteq> []" for v path
    by (auto simp: check_page_id_def split: option.split)
  have "pw_errors (validate_page p i w) \<noteq> []"
  proof (cases "is_object p \<and> clean_keys p \<and> as_str (get_prop p ''name'') \<noteq> None")
    case False
    then show ?thesis
      by (auto simp: validate_page_def Let_def prohibited_errors_Nil page_name_errors_def intro!: root route pid split: option.split)
  next
    case ok: True
    then have head: "prohibited_errors p (\<lambda>key. ?path @ ''.'' @ key) [] = []"
      "page_name_errors p ?path = []"
      by (auto simp: prohibited_errors_Nil page_name_errors_def)
    show ?thesis
    proof (cases "nonempty_str (get_prop p ''id'') \<and> str_prop p ''id'' \<notin> set (pw_pageIds w)")
      case bad: False
      then have "pw_errors (check_page_id p ?path w) \<noteq> []"
        using e check_page_id_eq(2) [of p ?path w] by (subst check_page_id_eq(1)) auto
      with ok head show ?thesis
        by (simp add: validate_page_def Let_def root route del: append.simps)
    next
      case id: True
      then have "check_page_id p ?path w = w\<lparr>pw_pageIds := pw_pageIds w @ [str_prop p ''id'']\<rparr>"
        using check_page_id_eq(1) [of p ?path w] by simp
      moreover have "pw_errors (check_route p ?path (w\<lparr>pw_pageIds := pw_pageIds w @ [str_prop p ''id'']\<rparr>)) \<noteq> []"
        using False ok id e check_route_eq [of "w\<lparr>pw_pageIds := pw_pageIds w @ [str_prop p ''id'']\<rparr>" p ?path]
        by (auto split: if_splits)
      ultimately show ?thesis
        using ok head by (simp add: validate_page_def Let_def root del: append.simps)
    qed
  qed
  moreover have "\<not> (page_ok p \<and> pages_distinct w [p])"
    using False by (auto simp: page_ok_def pages_distinct_def)
  ultimately show ?thesis by auto
qed

lemma validate_pages_correct:
  "pw_errors w = [] \<Longrightarrow> distinct (pw_nodeIds w) \<Longrightarrow> distinct (pw_pageIds w) \<Longrightarrow> distinct (pw_routes w) \<Longrightarrow>
   if list_all page_ok ps \<and> pages_distinct w ps then validate_pages ps i w = pages_seen w ps
   else pw_errors (validate_pages ps i w) \<noteq> []"
proof (induction ps i w rule: validate_pages.induct)
  case (1 i w)
  then show ?case by (simp add: pages_seen_def pages_distinct_def)
next
  case (2 p ps i w)
  note page = validate_page_correct [OF "2.prems", of p i]
  show ?case
  proof (cases "page_ok p \<and> pages_distinct w [p]")
    case True
    with page have r: "validate_page p i w = pages_seen w [p]" by simp
    have d: "pages_distinct w (p # ps) \<longleftrightarrow> pages_distinct (pages_seen w [p]) ps"
      by (simp add: pages_distinct_def pages_seen_def)
    have s: "pages_seen w (p # ps) = pages_seen (pages_seen w [p]) ps"
      by (simp add: pages_seen_def add.assoc)
    have "if list_all page_ok ps \<and> pages_distinct (pages_seen w [p]) ps
      then validate_pages ps (Suc i) (pages_seen w [p]) = pages_seen (pages_seen w [p]) ps
      else pw_errors (validate_pages ps (Suc i) (pages_seen w [p])) \<noteq> []"
      using "2.IH" [unfolded r] "2.prems" True by (simp add: pages_seen_def pages_distinct_def)
    then show ?thesis
      using True by (simp add: r d s)
  next
    case False
    with page have "pw_errors (validate_page p i w) \<noteq> []" by auto
    then have "pw_errors (validate_pages (p # ps) i w) \<noteq> []"
      by (simp add: pages_keep_errors)
    moreover have "\<not> (list_all page_ok (p # ps) \<and> pages_distinct w (p # ps))"
      using False by (auto simp: pages_distinct_def)
    ultimately show ?thesis by auto
  qed
qed

lemma version_errors_Nil:
  "version_errors s = [] \<longleftrightarrow> str_prop s ''schemaVersion'' = ''1.0.0''"
  by (auto simp: version_errors_def str_prop_def SUPPORTED_SCHEMA_VERSIONS_def
        split: option.splits list.splits)

lemma metadata_errors_Nil:
  "metadata_errors s = [] \<longleftrightarrow>
   (case get_prop s ''metadata'' of None \<Rightarrow> False
    | Some m \<Rightarrow> is_object m \<and> as_str (get_prop m ''applicationId'') \<noteq> None \<and>
        as_str (get_prop m ''name'') \<noteq> None)"
  by (auto simp: metadata_errors_def split: option.splits)

lemma pages_errors_Nil:
  "pages_errors s = [] \<longleftrightarrow>
   (case get_prop s ''pages'' of
      None \<Rightarrow> True
    | Some (JArr pages) \<Rightarrow>
        length pages \<le> MAX_PAGES \<and> list_all page_ok pages \<and>
        distinct (map (\<lambda>p. str_prop p ''id'') pages) \<and>
        distinct (map (\<lambda>p. str_prop p ''route'') pages) \<and>
        distinct (concat (map page_node_ids pages)) \<and>
        length (concat (map page_node_ids pages)) \<le> MAX_NODES
    | _ \<Rightarrow> False)"
proof -
  let ?w = "\<lparr> pw_errors = [], pw_routes = [], pw_pageIds = [], pw_nodeIds = [], pw_nodeCount = 0 \<rparr>"
  have "if list_all page_ok ps \<and> pages_distinct ?w ps then validate_pages ps 0 ?w = pages_seen ?w ps
      else pw_errors (validate_pages ps 0 ?w) \<noteq> []" for ps
    by (rule validate_pages_correct) simp_all
  note pages = this
  show ?thesis
  proof (cases "\<exists>ps. get_prop s ''pages'' = Some (JArr ps)")
    case True
    then obtain ps where "get_prop s ''pages'' = Some (JArr ps)" by blast
    with pages [of ps] show ?thesis
      by (auto simp: pages_errors_def Let_def pages_distinct_def pages_seen_def split: if_splits)
  next
    case False
    then show ?thesis
      by (auto simp: pages_errors_def split: option.split json.split)
  qed
qed

lemma validator_iff: "validateApplicationSchema schema = [] \<longleftrightarrow> schema_ok schema"
  by (simp add: validateApplicationSchema_def schema_ok_def prohibited_errors_Nil version_errors_Nil
      metadata_errors_Nil pages_errors_Nil)

text \<open>C9: the validator accepts exactly the valid schemas: it reports no error if and only if the
  schema has the supported version and its metadata, at most 200 pages with pairwise distinct ids
  and routes that start with a slash, component trees at most 20 levels deep whose ids are distinct
  over all pages, at most 5000 nodes altogether, and no prohibited key or dangerous value where
  it looks for them.\<close>

theorem validator_correct:
  "(validateApplicationSchema schema = []) = schema_ok schema"
  by (rule validator_iff)

text \<open>
  The secret scan skips the strings of an array: the same key that is refused as a property is
  accepted as an array element.
\<close>

definition keyed_schema :: "json \<Rightarrow> json" where
  "keyed_schema v = JObj [(''schemaVersion'', JStr ''1.0.0''),
     (''metadata'', JObj [(''applicationId'', JStr ''a''), (''name'', JStr ''n'')]),
     (''pages'', JArr [JObj [(''id'', JStr ''p''), (''name'', JStr ''P''), (''route'', JStr ''/''),
        (''root'', JObj [(''id'', JStr ''n''), (''type'', JStr ''t''), (''props'', JObj [(''k'', v)])])]])]"

text \<open>a string without code or SQL is accepted in a property exactly when it is no secret, and
  as the element of an array in every case, secret or not.\<close>

theorem secret_in_array_accepted:
  "(validateApplicationSchema (keyed_schema (JStr v)) = []) = (harmless v \<and> \<not> secret v) \<and>
   (validateApplicationSchema (keyed_schema (JArr [JStr v])) = []) = harmless v"
  by (simp add: validator_iff keyed_schema_def schema_ok_def clean_keys_def PROHIBITED_KEYS_def
      str_prop_def get_prop_def page_ok_def nonempty_str_def starts_with_def
      page_node_ids_def node_ids.simps node_id_def node_ok.simps head_ok_def safe_value.simps
      MAX_PAGES_def MAX_NODES_def MAX_NESTING_DEPTH_def)

end
