(* ===== verification/Applications.thy ===== *)
theory Applications
  imports Platform SchemaValidator
begin

text \<open>
  \<open>ApplicationsService\<close> of \<open>src/modules/applications/applications.service.ts\<close>: drafts with a
  schema revision, numbered versions, publishing. The constraints of
  \<open>1700000024000-AddApplicationConstraints\<close> are part of the writes.
\<close>

section \<open>Entities\<close>

datatype ApplicationStatus = DRAFT | PUBLISHED | ARCHIVED

fun application_status_str :: "ApplicationStatus \<Rightarrow> string" where
  "application_status_str DRAFT = ''draft''"
| "application_status_str PUBLISHED = ''published''"
| "application_status_str ARCHIVED = ''archived''"

record application =
  app_id :: uuid
  app_name :: string
  app_description :: "string option"
  app_status :: ApplicationStatus
  app_currentVersion :: int
  app_orgId :: uuid
  app_ownerId :: uuid
  app_projectId :: uuid
  app_schemaRevision :: int
  app_draftSchema :: "json option"
  app_publishedVersionId :: "uuid option"
  app_createdAt :: time
  app_updatedAt :: time

record application_version =
  av_id :: uuid
  av_applicationId :: uuid
  av_versionNumber :: int
  av_schemaVersion :: string
  av_schema :: json
  av_description :: "string option"
  av_isPublished :: bool
  av_publishedAt :: "time option"
  av_publishedBy :: "uuid option"
  av_createdBy :: "uuid option"
  av_createdAt :: time

record apps_state = core +
  applications :: "application list"
  app_versions :: "application_version list"

interpretation application_repo:
  keyed_store app_id "find_row app_id" "save_row app_id" "remove_row app_id" set "keyed app_id"
  by (rule keyed_store_rows) simp_all

interpretation app_version_repo:
  keyed_store av_id "find_row av_id" "save_row av_id" "remove_row av_id" set "keyed av_id"
  by (rule keyed_store_rows) simp_all

section \<open>Reads and writes\<close>

definition app_in_org :: "uuid \<Rightarrow> uuid \<Rightarrow> 'z apps_state_scheme \<Rightarrow> application option" where
  "app_in_org i orgId s = find (\<lambda>a. app_id a = i \<and> app_orgId a = orgId) (applications s)"

definition findOne :: "uuid \<Rightarrow> uuid \<Rightarrow> ('z apps_state_scheme, application) action" where
  "findOne i orgId =
     await (reads (app_in_org i orgId)) (\<lambda>a.
     some_or_throw a (NotFound (''Application '' @ i @ '' not found'')))"

definition same_name :: "uuid \<Rightarrow> uuid \<Rightarrow> string \<Rightarrow> application \<Rightarrow> bool" where
  "same_name org project name a \<longleftrightarrow>
     app_orgId a = org \<and> app_projectId a = project \<and> app_name a = name"

definition insert_application :: "application \<Rightarrow> ('z apps_state_scheme, unit) action" where
  "insert_application a =
     await (reads applications) (\<lambda>rows.
     await (require (app_id a \<notin> app_id ` set rows) (QueryFailed ''PK_application_id'')) (\<lambda>_.
     await (require (\<not> list_ex (same_name (app_orgId a) (app_projectId a) (app_name a)) rows)
              (QueryFailed ''uq_application_org_project_name'')) (\<lambda>_.
     writes (applications_update (\<lambda>t. t @ [a])))))"

definition save_application :: "application \<Rightarrow> ('z apps_state_scheme, application) action" where
  "save_application a =
     await (reads (\<lambda>s. list_ex (\<lambda>r. app_id r \<noteq> app_id a \<and>
              same_name (app_orgId a) (app_projectId a) (app_name a) r) (applications s))) (\<lambda>clash.
     await (require (\<not> clash) (QueryFailed ''uq_application_org_project_name'')) (\<lambda>_.
     await (reads (\<lambda>s. if find_row app_id (app_id a) (applications s) = Some a then a
                       else a\<lparr>app_updatedAt := now s\<rparr>)) (\<lambda>saved.
     await (writes (applications_update (save_row app_id saved))) (\<lambda>_. ok saved))))"

definition insert_version :: "application_version \<Rightarrow> ('z apps_state_scheme, unit) action" where
  "insert_version v =
     await (reads app_versions) (\<lambda>rows.
     await (require (av_id v \<notin> av_id ` set rows) (QueryFailed ''PK_application_version_id'')) (\<lambda>_.
     await (require (\<not> list_ex (\<lambda>r. av_applicationId r = av_applicationId v \<and>
              av_versionNumber r = av_versionNumber v) rows)
              (QueryFailed ''uq_application_version_number'')) (\<lambda>_.
     await (require (1 \<le> av_versionNumber v) (QueryFailed ''ck_app_version_number'')) (\<lambda>_.
     writes (app_versions_update (\<lambda>t. t @ [v]))))))"

definition save_version :: "application_version \<Rightarrow> ('z apps_state_scheme, unit) action" where
  "save_version v = writes (app_versions_update (save_row av_id v))"

text \<open>\<open>auditService.log({ elementId, actorId, actorType: USER, ... })\<close>.\<close>

definition audit_app ::
    "uuid \<Rightarrow> uuid \<Rightarrow> string \<Rightarrow> json \<Rightarrow> json \<Rightarrow> ('z core_scheme, unit) action" where
  "audit_app element actor event old new =
     audit None (Some actor) ActorType.USER event (Some element) old new"

definition json_error :: "validation_error \<Rightarrow> json" where
  "json_error e = JObj [(''code'', JStr (ve_code e)), (''path'', JStr (ve_path e)),
     (''message'', JStr (ve_message e)), (''severity'', JStr (ve_severity e))]"

definition invalid_schema :: "validation_error list \<Rightarrow> exn" where
  "invalid_schema es = BadRequest (JObj [(''code'', JStr ''INVALID_SCHEMA''),
     (''message'', JStr ''Application schema validation failed''),
     (''errors'', JArr (map json_error es))])"

text \<open>The document that is validated and stored: the fields sent override the defaults.\<close>

definition full_schema :: "string \<Rightarrow> application \<Rightarrow> json \<Rightarrow> json" where
  "full_schema schemaVersion a sent = JObj (spread
     [(''schemaVersion'', JStr schemaVersion),
      (''metadata'', JObj [(''applicationId'', JStr (app_id a)), (''name'', JStr (app_name a))])]
     (obj_fields sent))"

section \<open>Operations\<close>

record create_application_dto =
  cad_name :: string
  cad_description :: "string option"
  cad_projectId :: uuid

record update_application_dto =
  uad_name :: "string option"
  uad_description :: "string option"

record save_draft_dto =
  sdd_schema :: json
  sdd_schemaVersion :: "string option"
  sdd_expectedRevision :: "int option"

record create_version_dto =
  cvd_schemaVersion :: string
  cvd_schema :: json
  cvd_description :: "string option"

record duplicate_dto =
  dup_name :: string
  dup_description :: "string option"

record application_filter =
  af_search :: "string option"
  af_projectId :: "uuid option"
  af_page :: nat
  af_limit :: nat

definition name_exists :: "string \<Rightarrow> exn" where
  "name_exists message = Conflict (JObj [(''code'', JStr ''APPLICATION_NAME_EXISTS''),
     (''message'', JStr message)])"

definition createApplication ::
    "create_application_dto \<Rightarrow> uuid \<Rightarrow> uuid \<Rightarrow> ('z apps_state_scheme, application) action" where
  "createApplication dto orgId ownerId =
     await (reads (\<lambda>s. list_ex (same_name orgId (cad_projectId dto) (cad_name dto)) (applications s)))
       (\<lambda>existing.
     await (require (\<not> existing) (name_exists (''Application with name \"'' @ cad_name dto @
              ''\" already exists in this project''))) (\<lambda>_.
     await gen_uuid (\<lambda>i.
     await current_time (\<lambda>t.
     let a = \<lparr> app_id = i, app_name = cad_name dto, app_description = cad_description dto,
               app_status = DRAFT, app_currentVersion = 0, app_orgId = orgId, app_ownerId = ownerId,
               app_projectId = cad_projectId dto, app_schemaRevision = 1, app_draftSchema = None,
               app_publishedVersionId = None, app_createdAt = t, app_updatedAt = t \<rparr>
     in await (insert_application a) (\<lambda>_.
        await (audit_app i ownerId ''APPLICATION_CREATED'' JNull
                 (JObj [(''name'', JStr (app_name a)), (''orgId'', JStr orgId),
                        (''projectId'', JStr (app_projectId a))])) (\<lambda>_.
        ok a))))))"

text \<open>\<open>ILIKE '%search%'\<close>, for a search text without the wildcards of \<open>LIKE\<close>.\<close>

fun is_infix :: "string \<Rightarrow> string \<Rightarrow> bool" where
  "is_infix p [] = (p = [])"
| "is_infix p (c # cs) = (starts_with p (c # cs) \<or> is_infix p cs)"

definition findAll ::
    "application_filter \<Rightarrow> uuid \<Rightarrow> ('z apps_state_scheme, application list \<times> nat) action" where
  "findAll flt orgId =
     await (reads (\<lambda>s. filter (\<lambda>a. app_orgId a = orgId \<and>
              (case af_projectId flt of Some (c # cs) \<Rightarrow> app_projectId a = c # cs | _ \<Rightarrow> True) \<and>
              (case af_search flt of Some (c # cs) \<Rightarrow> is_infix (js_lower (c # cs)) (js_lower (app_name a))
               | _ \<Rightarrow> True)) (applications s))) (\<lambda>matching.
     ok (take (af_limit flt) (drop ((af_page flt - 1) * af_limit flt) (sort_desc app_updatedAt matching)),
         length matching))"

definition refuse_archived :: "application \<Rightarrow> string \<Rightarrow> ('z apps_state_scheme, unit) action" where
  "refuse_archived a message = require (app_status a \<noteq> ARCHIVED) (BadRequest (JStr message))"

definition updateApplication ::
    "uuid \<Rightarrow> update_application_dto \<Rightarrow> uuid \<Rightarrow> uuid \<Rightarrow> ('z apps_state_scheme, application) action" where
  "updateApplication i dto orgId actorId =
     await (findOne i orgId) (\<lambda>a.
     await (refuse_archived a ''Cannot modify an archived application'') (\<lambda>_.
     await (save_application (a\<lparr>
              app_name := (case uad_name dto of None \<Rightarrow> app_name a | Some n \<Rightarrow> n),
              app_description := (case uad_description dto of None \<Rightarrow> app_description a | d \<Rightarrow> d)\<rparr>)) (\<lambda>saved.
     await (audit_app i actorId ''APPLICATION_UPDATED''
              (JObj [(''name'', JStr (app_name a)), (''description'', json_str_opt (app_description a))])
              (JObj [(''name'', JStr (app_name saved)),
                     (''description'', json_str_opt (app_description saved))])) (\<lambda>_.
     ok saved))))"

definition revision_conflict :: "int \<Rightarrow> int \<Rightarrow> exn" where
  "revision_conflict stored expected = Conflict (JObj [
     (''code'', JStr ''APPLICATION_SCHEMA_REVISION_CONFLICT''),
     (''message'', JStr (''Schema revision conflict: stored='' @ int_str stored @
        '', expected='' @ int_str expected)),
     (''storedRevision'', json_int stored), (''expectedRevision'', json_int expected)])"

definition saveDraftSchema ::
    "uuid \<Rightarrow> save_draft_dto \<Rightarrow> uuid \<Rightarrow> uuid \<Rightarrow> ('z apps_state_scheme, application \<times> int) action" where
  "saveDraftSchema i dto orgId actorId = transaction (
     await (findOne i orgId) (\<lambda>a.
     await (refuse_archived a ''Cannot modify an archived application'') (\<lambda>_.
     await (require (case sdd_expectedRevision dto of None \<Rightarrow> True | Some n \<Rightarrow> app_schemaRevision a = n)
              (revision_conflict (app_schemaRevision a)
                 (case sdd_expectedRevision dto of None \<Rightarrow> 0 | Some n \<Rightarrow> n))) (\<lambda>_.
     let schema = full_schema (case sdd_schemaVersion dto of None \<Rightarrow> ''1.0.0'' | Some v \<Rightarrow> v) a (sdd_schema dto);
         errors = validateApplicationSchema schema
     in await (require (errors = []) (invalid_schema errors)) (\<lambda>_.
        await (save_application (a\<lparr>app_draftSchema := Some schema,
                 app_schemaRevision := app_schemaRevision a + 1\<rparr>)) (\<lambda>saved.
        ok (saved, app_schemaRevision saved)))))))"

definition createVersion ::
    "uuid \<Rightarrow> create_version_dto \<Rightarrow> uuid \<Rightarrow> uuid \<Rightarrow> ('z apps_state_scheme, application_version) action" where
  "createVersion i dto orgId actorId = transaction (
     await (findOne i orgId) (\<lambda>a.
     await (refuse_archived a ''Cannot create version for archived application'') (\<lambda>_.
     let schema = full_schema (cvd_schemaVersion dto) a (cvd_schema dto);
         errors = validateApplicationSchema schema;
         versionNumber = app_currentVersion a + 1
     in await (require (errors = []) (invalid_schema errors)) (\<lambda>_.
        await gen_uuid (\<lambda>k.
        await current_time (\<lambda>t.
        let v = \<lparr> av_id = k, av_applicationId = i, av_versionNumber = versionNumber,
                  av_schemaVersion = cvd_schemaVersion dto, av_schema = schema,
                  av_description = cvd_description dto, av_isPublished = False,
                  av_publishedAt = None, av_publishedBy = None, av_createdBy = Some actorId,
                  av_createdAt = t \<rparr>
        in await (insert_version v) (\<lambda>_.
           await (writes (applications_update (update_where (\<lambda>r. app_id r = i)
                    (\<lambda>r. r\<lparr>app_currentVersion := versionNumber, app_draftSchema := Some schema,
                          app_updatedAt := t\<rparr>)))) (\<lambda>_.
           await (audit_app i actorId ''APPLICATION_VERSION_CREATED''
                    (JObj [(''currentVersion'', json_int (app_currentVersion a))])
                    (JObj [(''currentVersion'', json_int versionNumber), (''versionId'', JStr k)])) (\<lambda>_.
           ok v))))))))) "

definition publishVersion ::
    "uuid \<Rightarrow> uuid \<Rightarrow> uuid \<Rightarrow> uuid \<Rightarrow> ('z apps_state_scheme, application_version) action" where
  "publishVersion i versionId orgId actorId = transaction (
     await (findOne i orgId) (\<lambda>a.
     await (refuse_archived a ''Cannot publish an archived application'') (\<lambda>_.
     await (reads (\<lambda>s. find (\<lambda>v. av_id v = versionId \<and> av_applicationId v = i) (app_versions s))) (\<lambda>found.
     await (some_or_throw found (NotFound (''Version '' @ versionId @ '' not found for application '' @ i)))
       (\<lambda>v.
     await (require (\<not> av_isPublished v) (Conflict (JObj [(''code'', JStr ''VERSION_ALREADY_PUBLISHED''),
              (''message'', JStr (''Version '' @ int_str (av_versionNumber v) @ '' is already published''))])))
       (\<lambda>_.
     await current_time (\<lambda>t.
     let saved = v\<lparr>av_isPublished := True, av_publishedAt := Some t, av_publishedBy := Some actorId\<rparr>
     in await (save_version saved) (\<lambda>_.
        await (save_application (a\<lparr>app_publishedVersionId := Some (av_id saved),
                 app_status := PUBLISHED\<rparr>)) (\<lambda>a'.
        await (audit_app i actorId ''APPLICATION_PUBLISHED''
                 (JObj [(''publishedVersionId'', json_str_opt (app_publishedVersionId a'))])
                 (JObj [(''publishedVersionId'', JStr (av_id saved)),
                        (''versionNumber'', json_int (av_versionNumber v))])) (\<lambda>_.
        ok saved))))))))))"

definition unpublishVersion ::
    "uuid \<Rightarrow> uuid \<Rightarrow> uuid \<Rightarrow> ('z apps_state_scheme, application) action" where
  "unpublishVersion i orgId actorId = transaction (
     await (findOne i orgId) (\<lambda>a.
     await (refuse_archived a ''Cannot unpublish an archived application'') (\<lambda>_.
     await (some_or_throw (app_publishedVersionId a) (BadRequest (JObj [(''code'', JStr ''NOT_PUBLISHED''),
              (''message'', JStr ''Application is not published'')]))) (\<lambda>pv.
     await (reads (\<lambda>s. find_row av_id pv (app_versions s))) (\<lambda>oldVersion.
     await (case oldVersion of Some v \<Rightarrow> save_version (v\<lparr>av_isPublished := False\<rparr>) | None \<Rightarrow> ok ()) (\<lambda>_.
     await (save_application (a\<lparr>app_publishedVersionId := None, app_status := DRAFT\<rparr>)) (\<lambda>saved.
     await (audit_app i actorId ''APPLICATION_UNPUBLISHED''
              (JObj [(''publishedVersionId'', json_str_opt (app_publishedVersionId saved))])
              (JObj [(''status'', JStr (application_status_str DRAFT))])) (\<lambda>_.
     ok saved))))))))"

definition getPublishedVersion :: "uuid \<Rightarrow> uuid \<Rightarrow> ('z apps_state_scheme, application_version) action" where
  "getPublishedVersion i orgId =
     await (findOne i orgId) (\<lambda>a.
     await (some_or_throw (app_publishedVersionId a)
              (NotFound (''No published version found for application '' @ i))) (\<lambda>pv.
     await (reads (\<lambda>s. find_row av_id pv (app_versions s))) (\<lambda>found.
     some_or_throw found (NotFound (''Published version '' @ pv @ '' not found'')))))"

definition findVersions :: "uuid \<Rightarrow> uuid \<Rightarrow> ('z apps_state_scheme, application_version list) action" where
  "findVersions i orgId =
     await (findOne i orgId) (\<lambda>_.
     reads (\<lambda>s. sort_desc av_versionNumber (filter (\<lambda>v. av_applicationId v = i) (app_versions s))))"

definition findVersion ::
    "uuid \<Rightarrow> uuid \<Rightarrow> uuid \<Rightarrow> ('z apps_state_scheme, application_version) action" where
  "findVersion i versionId orgId =
     await (findOne i orgId) (\<lambda>_.
     await (reads (\<lambda>s. find (\<lambda>v. av_id v = versionId \<and> av_applicationId v = i) (app_versions s))) (\<lambda>found.
     some_or_throw found (NotFound (''Version '' @ versionId @ '' not found''))))"

text \<open>The copy of the published version that \<open>duplicate\<close> makes, when there is one.\<close>

definition copy_published ::
    "application \<Rightarrow> application \<Rightarrow> uuid \<Rightarrow> ('z apps_state_scheme, application) action" where
  "copy_published original saved actorId =
     (case app_publishedVersionId original of
        None \<Rightarrow> ok saved
      | Some pv \<Rightarrow>
          await (reads (\<lambda>s. find_row av_id pv (app_versions s))) (\<lambda>found. case found of
            None \<Rightarrow> ok saved
          | Some source \<Rightarrow>
              await gen_uuid (\<lambda>k.
              await current_time (\<lambda>t.
              await (insert_version \<lparr> av_id = k, av_applicationId = app_id saved, av_versionNumber = 1,
                       av_schemaVersion = av_schemaVersion source, av_schema = av_schema source,
                       av_description = Some (''Duplicated from '' @ app_name original @ '' v'' @
                         int_str (av_versionNumber source)),
                       av_isPublished = False, av_publishedAt = None, av_publishedBy = None,
                       av_createdBy = Some actorId, av_createdAt = t \<rparr>) (\<lambda>_.
              save_application (saved\<lparr>app_currentVersion := 1\<rparr>))))))"

definition duplicateApplication ::
    "uuid \<Rightarrow> duplicate_dto \<Rightarrow> uuid \<Rightarrow> uuid \<Rightarrow> ('z apps_state_scheme, application) action" where
  "duplicateApplication i dto orgId actorId = transaction (
     await (findOne i orgId) (\<lambda>original.
     await (refuse_archived original ''Cannot duplicate an archived application'') (\<lambda>_.
     await (reads (\<lambda>s. list_ex (same_name orgId (app_projectId original) (dup_name dto)) (applications s)))
       (\<lambda>existing.
     await (require (\<not> existing) (name_exists (''Application with name \"'' @ dup_name dto @
              ''\" already exists''))) (\<lambda>_.
     await gen_uuid (\<lambda>k.
     await current_time (\<lambda>t.
     let copy = \<lparr> app_id = k, app_name = dup_name dto,
           app_description = (case dup_description dto of None \<Rightarrow> app_description original | d \<Rightarrow> d),
           app_status = DRAFT, app_currentVersion = 0, app_orgId = orgId, app_ownerId = actorId,
           app_projectId = app_projectId original, app_schemaRevision = 1,
           app_draftSchema = app_draftSchema original, app_publishedVersionId = None,
           app_createdAt = t, app_updatedAt = t \<rparr>
     in await (insert_application copy) (\<lambda>_.
        await (copy_published original copy actorId) (\<lambda>saved.
        await (audit_app (app_id saved) actorId ''APPLICATION_DUPLICATED'' JNull
                 (JObj [(''name'', JStr (app_name saved)), (''originalId'', JStr i),
                        (''orgId'', JStr orgId), (''projectId'', JStr (app_projectId saved))])) (\<lambda>_.
        ok saved))))))))))"

definition archiveApplication :: "uuid \<Rightarrow> uuid \<Rightarrow> uuid \<Rightarrow> ('z apps_state_scheme, unit) action" where
  "archiveApplication i orgId actorId =
     await (findOne i orgId) (\<lambda>a.
     await (save_application (a\<lparr>app_status := ARCHIVED\<rparr>)) (\<lambda>_.
     audit_app i actorId ''APPLICATION_ARCHIVED''
       (JObj [(''status'', JStr (application_status_str (app_status a)))])
       (JObj [(''status'', JStr (application_status_str ARCHIVED))])))"

datatype app_request =
    CreateApp create_application_dto uuid uuid
  | UpdateApp uuid update_application_dto uuid uuid
  | SaveDraft uuid save_draft_dto uuid uuid
  | CreateVersion uuid create_version_dto uuid uuid
  | Publish uuid uuid uuid uuid
  | Unpublish uuid uuid uuid
  | Duplicate uuid duplicate_dto uuid uuid
  | Archive uuid uuid uuid

fun serve_app :: "app_request \<Rightarrow> ('z apps_state_scheme, unit) action" where
  "serve_app (CreateApp d org u) = await (createApplication d org u) (\<lambda>_. ok ())"
| "serve_app (UpdateApp i d org u) = await (updateApplication i d org u) (\<lambda>_. ok ())"
| "serve_app (SaveDraft i d org u) = await (saveDraftSchema i d org u) (\<lambda>_. ok ())"
| "serve_app (CreateVersion i d org u) = await (createVersion i d org u) (\<lambda>_. ok ())"
| "serve_app (Publish i v org u) = await (publishVersion i v org u) (\<lambda>_. ok ())"
| "serve_app (Unpublish i org u) = await (unpublishVersion i org u) (\<lambda>_. ok ())"
| "serve_app (Duplicate i d org u) = await (duplicateApplication i d org u) (\<lambda>_. ok ())"
| "serve_app (Archive i org u) = archiveApplication i org u"

fun serve_apps :: "app_request list \<Rightarrow> 'z apps_state_scheme \<Rightarrow> 'z apps_state_scheme" where
  "serve_apps [] s = s"
| "serve_apps (r # rs) s = serve_apps rs (snd (serve_app r s))"

end
