(* ===== verification/AppsProps.thy ===== *)
theory AppsProps
  imports Applications
begin

text \<open>
  The invariant of applications: the versions of each application are numbered from 1 to its
  \<open>currentVersion\<close>, and its published version exists and is marked, exactly when its status says
  so. Every operation of \<open>Applications\<close> preserves it, although some of them pass through
  states inside their transaction where it fails for the one application.
\<close>

section \<open>How the steps run\<close>

lemma findOne_Inr_iff: "findOne i org s = (Inr a, t) \<longleftrightarrow> app_in_org i org s = Some a \<and> t = s"
  by (auto simp: findOne_def action_Inr)

lemma app_in_org_Some:
  "app_in_org i org s = Some a \<Longrightarrow> app_id a = i \<and> app_orgId a = org \<and> a \<in> set (applications s)"
  unfolding app_in_org_def by (drule find_Some_conv) simp

lemma reads_apps [read_intros]: "reads_only (findOne i org)" "reads_only (refuse_archived a m)"
  unfolding findOne_def refuse_archived_def by (intro read_intros)+

lemmas keeps_apps_reads [keeps_intros] = reads_apps [THEN reads_only_keepsI]

lemma save_application_run:
  "save_application a s =
     (if list_ex (\<lambda>r. app_id r \<noteq> app_id a \<and>
              same_name (app_orgId a) (app_projectId a) (app_name a) r) (applications s)
      then (Inl (QueryFailed ''uq_application_org_project_name''), s)
      else let a' = (if find_row app_id (app_id a) (applications s) = Some a then a
                     else a\<lparr>app_updatedAt := now s\<rparr>)
           in (Inr a', s\<lparr>applications := save_row app_id a' (applications s)\<rparr>))"
  by (simp add: save_application_def action_simps Let_def)

lemma leaves_save_application:
  assumes "P s"
    and "\<And>u. P (s\<lparr>applications := save_row app_id (a\<lparr>app_updatedAt := u\<rparr>) (applications s)\<rparr>)"
  shows "leaves P (save_application a) s"
proof -
  have "a = a\<lparr>app_updatedAt := app_updatedAt a\<rparr>" by simp
  with assms(2) [of "app_updatedAt a"]
  have "P (s\<lparr>applications := save_row app_id a (applications s)\<rparr>)" by simp
  with assms show ?thesis
    by (auto simp: leaves_def save_application_run Let_def)
qed

lemma audit_app_run [action_simps]:
  "audit_app e u ev b a s = audit None (Some u) ActorType.USER ev (Some e) b a s"
  by (simp add: audit_app_def)

lemma keeps_audit_app [keeps_intros]: "db_only P \<Longrightarrow> keeps P (audit_app e u ev b a)"
  unfolding audit_app_def by (rule keeps_audit)

section \<open>Versions and publishing stay consistent\<close>

definition own_versions :: "uuid \<Rightarrow> application_version list \<Rightarrow> application_version list" where
  "own_versions i vs = filter (\<lambda>v. av_applicationId v = i) vs"

definition app_ok :: "application_version list \<Rightarrow> application \<Rightarrow> bool" where
  "app_ok vs a \<longleftrightarrow>
     0 \<le> app_currentVersion a \<and>
     map av_versionNumber (own_versions (app_id a) vs) = [1..app_currentVersion a] \<and>
     (case app_publishedVersionId a of
        None \<Rightarrow> app_status a \<noteq> PUBLISHED
      | Some pv \<Rightarrow> app_status a \<noteq> DRAFT \<and>
          (\<exists>v \<in> set (own_versions (app_id a) vs). av_id v = pv \<and> av_isPublished v))"

text \<open>Inside a transaction one application may be ahead of its versions.\<close>

definition app_inv_but :: "uuid set \<Rightarrow> 'z apps_state_scheme \<Rightarrow> bool" where
  "app_inv_but X s \<longleftrightarrow>
     keyed app_id (applications s) \<and> keyed av_id (app_versions s) \<and>
     av_applicationId ` set (app_versions s) \<subseteq> app_id ` set (applications s) \<and>
     (\<forall>a \<in> set (applications s). app_id a \<notin> X \<longrightarrow> app_ok (app_versions s) a)"

abbreviation app_inv :: "'z apps_state_scheme \<Rightarrow> bool" where
  "app_inv \<equiv> app_inv_but {}"

lemma app_inv_db_only: "db_only (app_inv_but X)"
  by (rule db_onlyI) (simp_all add: app_inv_but_def)

lemma version_has_app:
  "app_inv_but X s \<Longrightarrow> v \<in> set (app_versions s) \<Longrightarrow> av_applicationId v \<in> app_id ` set (applications s)"
  unfolding app_inv_but_def by blast

lemma app_ok_update [simp]: "app_ok vs (a\<lparr>app_updatedAt := u\<rparr>) = app_ok vs a"
  by (simp add: app_ok_def split: option.split)

lemma app_inv_mono: "app_inv_but X s \<Longrightarrow> X \<subseteq> Y \<Longrightarrow> app_inv_but Y s"
  by (auto simp: app_inv_but_def)

lemma save_app_inv:
  assumes "app_inv_but X s" and "app_id a \<in> app_id ` set (applications s)"
    and "app_ok (app_versions s) a"
  shows "app_inv_but (X - {app_id a}) (s\<lparr>applications := save_row app_id a (applications s)\<rparr>)"
proof -
  have k: "keyed app_id (applications s)" using assms(1) by (simp add: app_inv_but_def)
  have "set (save_row app_id a (applications s)) =
      insert a {x \<in> set (applications s). app_id x \<noteq> app_id a}"
    by (rule application_repo.rows_save [OF k])
  moreover have "app_id ` set (save_row app_id a (applications s)) = app_id ` set (applications s)"
    using keys_save_row [of app_id a "applications s"] assms(2) by auto
  ultimately show ?thesis
    using assms k by (auto simp: app_inv_but_def)
qed

lemma leaves_save_app_inv:
  assumes "app_inv_but X s" and "app_id a \<in> app_id ` set (applications s)"
    and "app_ok (app_versions s) a"
  shows "\<And>r t. save_application a s = (Inr r, t) \<Longrightarrow> app_inv_but (X - {app_id a}) t"
  using save_app_inv [OF assms(1), of "a\<lparr>app_updatedAt := now s\<rparr>"] save_app_inv [OF assms] assms
  by (auto simp: save_application_run Let_def split: if_splits)

text \<open>A saved version keeps its place, its application and its number.\<close>

lemma own_versions_save:
  assumes "keyed av_id vs" and "v \<in> set vs" and "av_id v' = av_id v"
    and "av_applicationId v' = av_applicationId v"
  shows "own_versions j (save_row av_id v' vs) =
    map (\<lambda>x. if av_id x = av_id v then v' else x) (own_versions j vs)"
proof -
  have "av_applicationId x = av_applicationId v" if "x \<in> set vs" "av_id x = av_id v" for x
    using app_version_repo.key_unique [OF assms(1)] that assms(2) by metis
  then have "filter (\<lambda>x. av_applicationId x = j) (map (\<lambda>x. if av_id x = av_id v then v' else x) vs) =
      map (\<lambda>x. if av_id x = av_id v then v' else x) (filter (\<lambda>x. av_applicationId x = j) vs)"
    using assms(4) by (simp add: filter_map comp_def cong: filter_cong) (rule arg_cong, auto intro: filter_cong)
  moreover have "save_row av_id v' vs = map (\<lambda>x. if av_id x = av_id v then v' else x) vs"
    using save_row_map [OF assms(1), of v'] assms(2,3) by (simp add: image_iff) metis
  ultimately show ?thesis by (simp add: own_versions_def)
qed

lemma save_version_numbers:
  assumes "keyed av_id vs" and "v \<in> set vs" and "av_id v' = av_id v"
    and "av_applicationId v' = av_applicationId v" and "av_versionNumber v' = av_versionNumber v"
  shows "map av_versionNumber (own_versions j (save_row av_id v' vs)) =
    map av_versionNumber (own_versions j vs)"
proof -
  have "av_versionNumber (if av_id x = av_id v then v' else x) = av_versionNumber x"
    if "x \<in> set (own_versions j vs)" for x
    using app_version_repo.key_unique [OF assms(1), of x v] that assms(2,5) by (auto simp: own_versions_def)
  then show ?thesis
    by (simp add: own_versions_save [OF assms(1-4)] cong: map_cong)
qed

lemma insert_version_Inr_iff:
  "insert_version v s = (Inr x, t) \<longleftrightarrow>
   av_id v \<notin> av_id ` set (app_versions s) \<and>
   \<not> list_ex (\<lambda>r. av_applicationId r = av_applicationId v \<and> av_versionNumber r = av_versionNumber v)
       (app_versions s) \<and>
   1 \<le> av_versionNumber v \<and> t = app_versions_update (\<lambda>t. t @ [v]) s"
  by (auto simp: insert_version_def action_Inr)

lemma reads_insert_version_Inl: "insert_version v s = (Inl e, t) \<Longrightarrow> t = s"
  by (auto simp: insert_version_def action_simps split: if_splits)

lemma own_versions_append:
  "own_versions j (vs @ [v]) = own_versions j vs @ (if av_applicationId v = j then [v] else [])"
  by (simp add: own_versions_def)

lemma app_ok_other: "own_versions (app_id a) ws = own_versions (app_id a) vs \<Longrightarrow> app_ok ws a = app_ok vs a"
  unfolding app_ok_def by (simp only:)

text \<open>A new version puts its application ahead of its counter; the counter then follows.\<close>

lemma insert_version_inv:
  assumes "app_inv_but X s" and "insert_version v s = (Inr x, t)"
    and "av_applicationId v \<in> app_id ` set (applications s)"
  shows "app_inv_but (insert (av_applicationId v) X) t"
  using assms
  by (auto simp: app_inv_but_def insert_version_Inr_iff keyed_def own_versions_append
        app_ok_other [of _ "app_versions s @ [v]" "app_versions s"])

lemma app_ok_next:
  assumes "app_ok vs a" and "av_applicationId v = app_id a"
    and "av_versionNumber v = app_currentVersion a + 1"
    and "app_id b = app_id a" "app_currentVersion b = app_currentVersion a + 1"
      "app_publishedVersionId b = app_publishedVersionId a" "app_status b = app_status a"
  shows "app_ok (vs @ [v]) b"
proof -
  have "[1..app_currentVersion a + 1] = [1..app_currentVersion a] @ [app_currentVersion a + 1]"
    using assms(1) by (subst upto_rec2) (auto simp: app_ok_def)
  with assms show ?thesis
    by (auto simp: app_ok_def own_versions_append split: option.splits)
qed

lemma update_app_inv:
  assumes "app_inv_but X s"
    and "\<And>a. a \<in> set (applications s) \<Longrightarrow> app_id a = i \<Longrightarrow> app_ok (app_versions s) (f a)"
    and "\<And>a. app_id (f a) = app_id a"
  shows "app_inv_but (X - {i})
    (s\<lparr>applications := update_where (\<lambda>r. app_id r = i) f (applications s)\<rparr>)"
proof -
  have "map app_id (update_where (\<lambda>r. app_id r = i) f t) = map app_id t" for t
    by (simp add: update_where_def assms(3))
  then have "app_id ` set (update_where (\<lambda>r. app_id r = i) f (applications s)) = app_id ` set (applications s)"
    by (metis set_map)
  with assms keyed_update_where [of app_id f "\<lambda>r. app_id r = i"] show ?thesis
    by (auto simp: app_inv_but_def update_where_def split: if_splits)
qed

lemma app_in_set: "app_in_org i org s = Some a \<Longrightarrow> i \<in> app_id ` set (applications s) \<and> app_id a = i"
  using app_in_org_Some by blast

lemma app_inv_ok: "app_inv s \<Longrightarrow> app_in_org i org s = Some a \<Longrightarrow> app_ok (app_versions s) a"
  using app_in_org_Some unfolding app_inv_but_def by blast

lemma leaves_save_app:
  assumes "app_inv s" and "app_id a \<in> app_id ` set (applications s)" and "app_ok (app_versions s) a"
    and rest: "\<And>a' t. app_inv t \<Longrightarrow> leaves app_inv (f a') t"
  shows "leaves app_inv (await (save_application a) f) s"
proof (rule leaves_step)
  show "leaves app_inv (save_application a) s"
    using save_app_inv [OF assms(1), of "a\<lparr>app_updatedAt := now s\<rparr>"] save_app_inv [OF assms(1-3)] assms
    by (auto simp: leaves_def save_application_run Let_def)
qed (rule rest)

lemma keeps_insert_application:
  assumes "app_currentVersion a = 0" "app_publishedVersionId a = None" "app_status a = DRAFT"
  shows "keeps app_inv (insert_application a)"
proof (rule keepsI)
  fix s :: "'z apps_state_scheme" assume inv: "app_inv s"
  have "own_versions (app_id a) (app_versions s) = []" if "app_id a \<notin> app_id ` set (applications s)"
    unfolding own_versions_def filter_empty_conv using version_has_app [OF inv] that by metis
  then have "app_id a \<notin> app_id ` set (applications s) \<longrightarrow> app_ok (app_versions s) a"
    using assms by (simp add: app_ok_def)
  with inv have "app_id a \<notin> app_id ` set (applications s) \<longrightarrow>
      app_inv (applications_update (\<lambda>t. t @ [a]) s)"
    by (auto simp: app_inv_but_def keyed_def)
  with inv show "app_inv (snd (insert_application a s))"
    by (simp add: insert_application_def action_simps)
qed

lemma keeps_createApplication: "keeps app_inv (createApplication dto org u)"
  unfolding createApplication_def Let_def
  by (intro keeps_intros keeps_insert_application app_inv_db_only) simp_all

lemma leaves_updateApplication: "app_inv s \<Longrightarrow> leaves app_inv (updateApplication i dto org u) s"
  unfolding updateApplication_def
  apply (rule leaves_guard, rule read_intros, assumption)+
  apply (rule leaves_save_app, assumption)
      apply (auto simp: findOne_Inr_iff dest: app_in_set) [1]
     apply (frule app_inv_ok, auto simp: findOne_Inr_iff app_ok_def split: option.splits) [1]
    apply simp_all
  apply (auto intro!: leaves_keeps keeps_intros app_inv_db_only)
  done

lemma leaves_saveDraft: "app_inv s \<Longrightarrow> leaves app_inv (saveDraftSchema i dto org u) s"
  unfolding saveDraftSchema_def Let_def
  apply (rule leaves_transaction, assumption)
  apply (rule leaves_guard, rule read_intros, assumption)+
  apply (rule leaves_save_app, assumption)
      apply (auto simp: findOne_Inr_iff dest: app_in_set) [1]
     apply (frule app_inv_ok, auto simp: findOne_Inr_iff app_ok_def split: option.splits) [1]
    apply simp_all
  apply (auto intro!: leaves_keeps keeps_intros)
  done

lemma leaves_archive: "app_inv s \<Longrightarrow> leaves app_inv (archiveApplication i org u) s"
  unfolding archiveApplication_def
  apply (rule leaves_guard, rule read_intros, assumption)+
  apply (rule leaves_save_app, assumption)
      apply (auto simp: findOne_Inr_iff dest: app_in_set) [1]
     apply (frule app_inv_ok, auto simp: findOne_Inr_iff app_ok_def split: option.splits) [1]
    apply simp_all
  apply (auto intro!: leaves_keeps keeps_intros app_inv_db_only)
  done

text \<open>Publishing first marks the version, which nobody minds, then points the application to it.\<close>

lemma mark_version_inv:
  assumes inv: "app_inv s" and v: "v \<in> set (app_versions s)"
    and v': "av_id v' = av_id v" "av_applicationId v' = av_applicationId v"
      "av_versionNumber v' = av_versionNumber v" and flag: "av_isPublished v' \<or> X = {av_applicationId v}"
  shows "app_inv_but X (app_versions_update (save_row av_id v') s)"
proof -
  let ?vs = "app_versions s" and ?ws = "save_row av_id v' (app_versions s)"
  have k: "keyed av_id ?vs" using inv by (simp add: app_inv_but_def)
  have "app_ok ?ws a" if "app_ok ?vs a" "app_id a \<notin> X" for a
  proof -
    have "\<exists>y \<in> set (own_versions (app_id a) ?ws). av_id y = pv \<and> av_isPublished y"
      if pv: "\<exists>x \<in> set (own_versions (app_id a) ?vs). av_id x = pv \<and> av_isPublished x" for pv
    proof -
      obtain x where x: "x \<in> set (own_versions (app_id a) ?vs)" "av_id x = pv" "av_isPublished x"
        using pv by blast
      let ?y = "if av_id x = av_id v then v' else x"
      have "?y \<in> set (own_versions (app_id a) ?ws)"
        unfolding own_versions_save [OF k v v'(1,2)] using x(1) by force
      moreover have "av_id ?y = pv" using x v' by simp
      moreover have "av_isPublished ?y"
      proof (cases "av_id x = av_id v")
        case True
        then have "x = v"
          using app_version_repo.key_unique [OF k, of x v] x(1) v by (simp add: own_versions_def)
        then have "app_id a = av_applicationId v" using x(1) by (simp add: own_versions_def)
        with flag \<open>app_id a \<notin> X\<close> True show ?thesis by auto
      qed (use x in simp)
      ultimately show ?thesis by blast
    qed
    with that(1) show ?thesis
      by (auto simp: app_ok_def save_version_numbers [OF k v v'] split: option.splits)
  qed
  moreover have "av_applicationId ` set ?ws \<subseteq> app_id ` set (applications s)"
    using set_save_row_subset [of av_id v' ?vs] version_has_app [OF inv] v v'(2)
    by (metis (no_types, lifting) image_subset_iff insert_iff subsetD)
  ultimately show ?thesis
    using inv by (auto simp: app_inv_but_def)
qed

text \<open>
  Unpublishing first unmarks the version, then the application forgets it; creating a version
  first stores it, then the counter follows. In between the invariant fails for the one
  application, which the transaction hides: what matters is a transaction that succeeds.
\<close>

lemma leaves_transaction_success:
  "P s \<Longrightarrow> (\<And>x t. m s = (Inr x, t) \<Longrightarrow> P t) \<Longrightarrow> leaves P (transaction m) s"
  by (cases "m s") (auto simp: leaves_def transaction_run split: sum.split)

lemma save_application_Inr:
  assumes "save_application a s = (Inr a', t)" and "app_inv_but X s" "X \<subseteq> {app_id a}"
    and "app_id a \<in> app_id ` set (applications s)" "app_ok (app_versions s) a"
  shows "app_inv t" "a' = a \<or> a' = a\<lparr>app_updatedAt := now s\<rparr>" "app_versions t = app_versions s"
    "applications t = save_row app_id a' (applications s)"
proof -
  have [simp]: "X - {app_id a} = {}" using assms(3) by auto
  show "app_inv t" "a' = a \<or> a' = a\<lparr>app_updatedAt := now s\<rparr>" "app_versions t = app_versions s"
    "applications t = save_row app_id a' (applications s)"
    using assms(1) save_app_inv [OF assms(2), of "a\<lparr>app_updatedAt := now s\<rparr>"]
      save_app_inv [OF assms(2,4,5)] assms(4,5)
    by (auto simp: save_application_run Let_def split: if_splits)
qed

lemma app_inv_frame:
  "app_inv_but X s \<Longrightarrow> applications t = applications s \<Longrightarrow> app_versions t = app_versions s \<Longrightarrow> app_inv_but X t"
  by (simp add: app_inv_but_def)

lemma audit_app_frame:
  "audit_app e u ev b a s = (r, t) \<Longrightarrow>
   applications t = applications s \<and> app_versions t = app_versions (s :: 'z apps_state_scheme)"
  by (auto simp: audit_app_run audit_run)

lemmas app_run = await_Inr_iff findOne_Inr_iff refuse_archived_def require_Inr_iff
  some_or_throw_Inr_iff reads_Inr_iff writes_Inr_iff ok_Inr_iff current_time_run gen_uuid_run

lemma leaves_transactionI:
  assumes "m = transaction n" and "P s" and "\<And>x t. m s = (Inr x, t) \<Longrightarrow> P t"
  shows "leaves P m s"
  using leaves_transaction_success [of P s n] assms by (auto simp: transaction_Inr_iff)

lemma publish_Inr:
  assumes "publishVersion i k org u s = (Inr r, t)"
  obtains a v s2 a' where "app_in_org i org s = Some a" "app_status a \<noteq> ARCHIVED"
    "v \<in> set (app_versions s)" "av_id v = k" "av_applicationId v = i" "\<not> av_isPublished v"
    "r = v\<lparr>av_isPublished := True, av_publishedAt := Some (now s), av_publishedBy := Some u\<rparr>"
    "save_application (a\<lparr>app_publishedVersionId := Some k, app_status := PUBLISHED\<rparr>)
       (app_versions_update (save_row av_id r) s) = (Inr a', s2)"
    "applications t = applications s2" "app_versions t = app_versions s2"
proof -
  from assms obtain a v s2 a' x where
    "app_in_org i org s = Some a" "app_status a \<noteq> ARCHIVED"
    "find (\<lambda>v. av_id v = k \<and> av_applicationId v = i) (app_versions s) = Some v" "\<not> av_isPublished v"
    "r = v\<lparr>av_isPublished := True, av_publishedAt := Some (now s), av_publishedBy := Some u\<rparr>"
    "save_application (a\<lparr>app_publishedVersionId := Some (av_id v), app_status := PUBLISHED\<rparr>)
       (app_versions_update (save_row av_id r) s) = (Inr a', s2)"
    "audit_app i u ''APPLICATION_PUBLISHED''
                 (JObj [(''publishedVersionId'', json_str_opt (app_publishedVersionId a'))])
                 (JObj [(''publishedVersionId'', JStr (av_id r)),
                        (''versionNumber'', json_int (av_versionNumber v))]) s2 = (Inr x, t)"
    unfolding publishVersion_def Let_def transaction_Inr_iff
    by (auto simp: app_run save_version_def)
  then show thesis
    by (intro that [of a v a' s2]) (auto dest: find_Some_conv audit_app_frame)
qed

lemma leaves_publish: "app_inv s \<Longrightarrow> leaves app_inv (publishVersion i k org u) s"
proof (rule leaves_transactionI [OF publishVersion_def])
  fix r t
  assume inv: "app_inv s" and run: "publishVersion i k org u s = (Inr r, t)"
  from publish_Inr [OF run] obtain a v s2 a' where a: "app_in_org i org s = Some a"
    and v: "v \<in> set (app_versions s)" "av_id v = k" "av_applicationId v = i"
    and r: "r = v\<lparr>av_isPublished := True, av_publishedAt := Some (now s), av_publishedBy := Some u\<rparr>"
    and sv: "save_application (a\<lparr>app_publishedVersionId := Some k, app_status := PUBLISHED\<rparr>)
       (app_versions_update (save_row av_id r) s) = (Inr a', s2)"
    and t: "applications t = applications s2" "app_versions t = app_versions s2"
    by metis
  note aa = app_in_org_Some [OF a]
  let ?s = "app_versions_update (save_row av_id r) s"
  have inv': "app_inv ?s"
    by (rule mark_version_inv [OF inv v(1)]) (simp_all add: r)
  have "r \<in> set (own_versions i (save_row av_id r (app_versions s)))"
    using v(3) by (simp add: own_versions_def r)
  moreover have "app_ok (app_versions ?s) a"
    using app_inv_ok [OF inv', of i org a] a by (simp add: app_in_org_def)
  ultimately have "app_ok (app_versions ?s) (a\<lparr>app_publishedVersionId := Some k, app_status := PUBLISHED\<rparr>)"
    using aa v(2) by (auto simp: app_ok_def r intro!: bexI [of _ r])
  then have "app_inv s2"
    using save_application_Inr(1) [OF sv inv'] aa by auto
  then show "app_inv t" by (rule app_inv_frame) (simp_all add: t)
qed

lemma unpublish_Inr:
  assumes "unpublishVersion i org u s = (Inr r, t)"
  obtains a pv s1 s2 where "app_in_org i org s = Some a" "app_publishedVersionId a = Some pv"
    "app_status a \<noteq> ARCHIVED"
    "s1 = (case find_row av_id pv (app_versions s) of
        Some v \<Rightarrow> app_versions_update (save_row av_id (v\<lparr>av_isPublished := False\<rparr>)) s | None \<Rightarrow> s)"
    "save_application (a\<lparr>app_publishedVersionId := None, app_status := DRAFT\<rparr>) s1 = (Inr r, s2)"
    "applications t = applications s2" "app_versions t = app_versions s2"
proof -
  have old: "(case w of Some v \<Rightarrow> save_version (v\<lparr>av_isPublished := False\<rparr>) | None \<Rightarrow> ok ()) s = (Inr x, t) \<longleftrightarrow>
      t = (case w of Some v \<Rightarrow> app_versions_update (save_row av_id (v\<lparr>av_isPublished := False\<rparr>)) s
                   | None \<Rightarrow> s)" for w x and s t :: "'a apps_state_scheme"
    by (auto simp: save_version_def ok_Inr_iff writes_Inr_iff split: option.split)
  from assms obtain a pv s2 x where
    "app_in_org i org s = Some a" "app_publishedVersionId a = Some pv" "app_status a \<noteq> ARCHIVED"
    "save_application (a\<lparr>app_publishedVersionId := None, app_status := DRAFT\<rparr>)
      (case find_row av_id pv (app_versions s) of
        Some v \<Rightarrow> app_versions_update (save_row av_id (v\<lparr>av_isPublished := False\<rparr>)) s | None \<Rightarrow> s) = (Inr r, s2)"
    "audit_app i u ''APPLICATION_UNPUBLISHED''
              (JObj [(''publishedVersionId'', json_str_opt (app_publishedVersionId r))])
              (JObj [(''status'', JStr (application_status_str DRAFT))]) s2 = (Inr x, t)"
    unfolding unpublishVersion_def transaction_Inr_iff
    by (auto simp: app_run old simp del: application_status_str.simps)
  then show thesis
    using that [of a pv _ s2] audit_app_frame by metis
qed

lemma leaves_unpublish: "app_inv s \<Longrightarrow> leaves app_inv (unpublishVersion i org u) s"
proof (rule leaves_transactionI [OF unpublishVersion_def])
  fix r t
  assume inv: "app_inv s" and run: "unpublishVersion i org u s = (Inr r, t)"
  from unpublish_Inr [OF run] obtain a pv s1 s2
    where a: "app_in_org i org s = Some a" "app_publishedVersionId a = Some pv"
      and s1: "s1 = (case find_row av_id pv (app_versions s) of
        Some v \<Rightarrow> app_versions_update (save_row av_id (v\<lparr>av_isPublished := False\<rparr>)) s | None \<Rightarrow> s)"
      and sv: "save_application (a\<lparr>app_publishedVersionId := None, app_status := DRAFT\<rparr>) s1 = (Inr r, s2)"
      and t: "applications t = applications s2" "app_versions t = app_versions s2"
    by metis
  note aa = app_in_org_Some [OF a(1)]
  have k: "keyed av_id (app_versions s)" using inv by (simp add: app_inv_but_def)
  have "\<exists>v \<in> set (own_versions i (app_versions s)). av_id v = pv"
    using app_inv_ok [OF inv a(1)] a(2) aa by (auto simp: app_ok_def)
  then obtain v where v: "v \<in> set (app_versions s)" "av_applicationId v = i" "av_id v = pv"
    by (auto simp: own_versions_def)
  have s1: "s1 = app_versions_update (save_row av_id (v\<lparr>av_isPublished := False\<rparr>)) s"
    using s1 find_row_keyed [OF k v(1)] v(3) by simp
  have inv1: "app_inv_but {i} s1"
    unfolding s1 by (rule mark_version_inv [OF inv v(1)]) (simp_all add: v)
  have "app_ok (app_versions s1) (a\<lparr>app_publishedVersionId := None, app_status := DRAFT\<rparr>)"
    using app_inv_ok [OF inv a(1)] aa
    by (simp add: app_ok_def s1 save_version_numbers [OF k v(1)])
  then have "app_inv s2"
    using save_application_Inr(1) [OF sv inv1] aa by (auto simp: s1)
  then show "app_inv t" by (rule app_inv_frame) (simp_all add: t)
qed

definition new_version ::
    "application \<Rightarrow> create_version_dto \<Rightarrow> uuid \<Rightarrow> 'z apps_state_scheme \<Rightarrow> application_version" where
  "new_version a dto u s = \<lparr> av_id = uuids s (uuid_next s), av_applicationId = app_id a,
     av_versionNumber = app_currentVersion a + 1, av_schemaVersion = cvd_schemaVersion dto,
     av_schema = full_schema (cvd_schemaVersion dto) a (cvd_schema dto),
     av_description = cvd_description dto, av_isPublished = False, av_publishedAt = None,
     av_publishedBy = None, av_createdBy = Some u, av_createdAt = now s \<rparr>"

lemma createVersion_Inr:
  assumes "createVersion i dto org u s = (Inr v, t)"
  obtains a where "app_in_org i org s = Some a" "v = new_version a dto u s"
    "app_status a \<noteq> ARCHIVED" "validateApplicationSchema (av_schema v) = []"
    "insert_version v s = (Inr (), app_versions_update (\<lambda>t. t @ [v]) s)"
    "applications t = update_where (\<lambda>r. app_id r = i) (\<lambda>r. r\<lparr>app_currentVersion := app_currentVersion a + 1,
       app_draftSchema := Some (av_schema v), app_updatedAt := now s\<rparr>) (applications s)"
    "app_versions t = app_versions s @ [v]"
proof -
  from assms obtain a where a: "app_in_org i org s = Some a"
    by (auto simp: createVersion_def transaction_Inr_iff await_Inr_iff findOne_Inr_iff)
  have i: "app_id a = i" using app_in_org_Some [OF a] by simp
  show thesis
    by (rule that [OF a])
       (use assms a in \<open>auto simp: createVersion_def Let_def transaction_Inr_iff await_Inr_iff
          findOne_Inr_iff refuse_archived_def require_Inr_iff gen_uuid_run current_time_run
          insert_version_Inr_iff writes_Inr_iff audit_app_run audit_run ok_Inr_iff new_version_def i\<close>)
qed

lemma leaves_createVersion: "app_inv s \<Longrightarrow> leaves app_inv (createVersion i dto org u) s"
proof (rule leaves_transactionI [OF createVersion_def])
  fix v t
  assume inv: "app_inv s" and run: "createVersion i dto org u s = (Inr v, t)"
  from createVersion_Inr [OF run] obtain a where a: "app_in_org i org s = Some a"
    and v: "v = new_version a dto u s"
    and ins: "insert_version v s = (Inr (), app_versions_update (\<lambda>t. t @ [v]) s)"
    and t: "applications t = update_where (\<lambda>r. app_id r = i) (\<lambda>r. r\<lparr>app_currentVersion := app_currentVersion a + 1,
     app_draftSchema := Some (av_schema v), app_updatedAt := now s\<rparr>) (applications s)"
      "app_versions t = app_versions s @ [v]"
    by blast
  note aa = app_in_org_Some [OF a]
  let ?f = "\<lambda>r. r\<lparr>app_currentVersion := app_currentVersion a + 1,
     app_draftSchema := Some (av_schema v), app_updatedAt := now s\<rparr>"
  let ?s = "app_versions_update (\<lambda>t. t @ [v]) s"
  have inv1: "app_inv_but {i} ?s"
    using insert_version_inv [OF inv ins] aa v by (auto simp: new_version_def)
  have "app_ok (app_versions ?s) (?f b)" if b: "b \<in> set (applications ?s)" "app_id b = i" for b
  proof -
    have "b = a"
      using application_repo.key_unique [of "applications s" b a] inv b aa by (auto simp: app_inv_but_def)
    then have "app_ok (app_versions s @ [v]) (?f b)"
      by (intro app_ok_next [OF app_inv_ok [OF inv a]]) (simp_all add: aa v new_version_def)
    then show ?thesis by simp
  qed
  then have "app_inv_but ({i} - {i})
    (?s\<lparr>applications := update_where (\<lambda>r. app_id r = i) ?f (applications ?s)\<rparr>)"
    by (intro update_app_inv [OF inv1]) simp_all
  then have "app_inv (?s\<lparr>applications := update_where (\<lambda>r. app_id r = i) ?f (applications ?s)\<rparr>)"
    by simp
  then show "app_inv t" by (rule app_inv_frame) (simp_all add: t)
qed

text \<open>The copy of a published version is version 1 of the new application.\<close>

definition copied_version ::
    "application \<Rightarrow> application_version \<Rightarrow> uuid \<Rightarrow> uuid \<Rightarrow> 'z apps_state_scheme \<Rightarrow> application_version" where
  "copied_version original source i u s = \<lparr> av_id = uuids s (uuid_next s), av_applicationId = i,
     av_versionNumber = 1, av_schemaVersion = av_schemaVersion source, av_schema = av_schema source,
     av_description = Some (''Duplicated from '' @ app_name original @ '' v'' @
       int_str (av_versionNumber source)),
     av_isPublished = False, av_publishedAt = None, av_publishedBy = None,
     av_createdBy = Some u, av_createdAt = now s \<rparr>"

lemma copy_published_Inr:
  assumes "copy_published original a u s = (Inr b, t)"
  obtains "b = a" "t = s"
  | source s2 where "source \<in> set (app_versions s)"
      "insert_version (copied_version original source (app_id a) u s)
         (s\<lparr>uuid_next := Suc (uuid_next s)\<rparr>) = (Inr (), s2)"
      "save_application (a\<lparr>app_currentVersion := 1\<rparr>) s2 = (Inr b, t)"
  using assms
  by (auto simp: copy_published_def await_Inr_iff reads_Inr_iff ok_Inr_iff gen_uuid_run
        current_time_run copied_version_def split: option.splits dest: find_row_Some)

lemma copy_published_inv:
  assumes inv: "app_inv s" and a: "a \<in> set (applications s)" "app_currentVersion a = 0"
    and run: "copy_published original a u s = (Inr b, t)"
  shows "app_inv t"
  using run
proof (rule copy_published_Inr)
  fix source s2
  let ?v = "copied_version original source (app_id a) u s"
  assume ins: "insert_version ?v (s\<lparr>uuid_next := Suc (uuid_next s)\<rparr>) = (Inr (), s2)"
    and sv: "save_application (a\<lparr>app_currentVersion := 1\<rparr>) s2 = (Inr b, t)"
  have ok: "app_ok (app_versions s) a" using inv a(1) by (simp add: app_inv_but_def)
  have s2: "applications s2 = applications s" "app_versions s2 = app_versions s @ [?v]"
    using ins by (auto simp: insert_version_Inr_iff)
  have "app_inv (s\<lparr>uuid_next := Suc (uuid_next s)\<rparr>)"
    by (rule app_inv_frame [OF inv]) simp_all
  from insert_version_inv [OF this ins] have inv2: "app_inv_but {app_id a} s2"
    using a(1) by (simp add: copied_version_def)
  have "app_ok (app_versions s2) (a\<lparr>app_currentVersion := 1\<rparr>)"
    unfolding s2 by (rule app_ok_next [OF ok]) (simp_all add: a copied_version_def)
  with save_application_Inr(1) [OF sv inv2] a(1) s2 show ?thesis by auto
qed (use inv in simp)

definition copied_application ::
    "application \<Rightarrow> duplicate_dto \<Rightarrow> uuid \<Rightarrow> uuid \<Rightarrow> 'z apps_state_scheme \<Rightarrow> application" where
  "copied_application original dto org u s = \<lparr> app_id = uuids s (uuid_next s), app_name = dup_name dto,
     app_description = (case dup_description dto of None \<Rightarrow> app_description original | d \<Rightarrow> d),
     app_status = DRAFT, app_currentVersion = 0, app_orgId = org, app_ownerId = u,
     app_projectId = app_projectId original, app_schemaRevision = 1,
     app_draftSchema = app_draftSchema original, app_publishedVersionId = None,
     app_createdAt = now s, app_updatedAt = now s \<rparr>"

lemma copied_application_sel:
  "app_currentVersion (copied_application o1 dto org u s) = 0"
  "app_publishedVersionId (copied_application o1 dto org u s) = None"
  "app_status (copied_application o1 dto org u s) = DRAFT"
  by (simp_all add: copied_application_def)

lemma duplicate_Inr:
  assumes "duplicateApplication i dto org u s = (Inr b, t)"
  obtains original s2 s3 where
    "app_in_org i org s = Some original" "app_status original \<noteq> ARCHIVED"
    "insert_application (copied_application original dto org u s) (s\<lparr>uuid_next := Suc (uuid_next s)\<rparr>) = (Inr (), s2)"
    "copy_published original (copied_application original dto org u s) u s2 = (Inr b, s3)"
    "applications t = applications s3" "app_versions t = app_versions s3"
proof -
  from assms obtain original s2 s3 j where
    "app_in_org i org s = Some original" "app_status original \<noteq> ARCHIVED"
    "insert_application (copied_application original dto org u s) (s\<lparr>uuid_next := Suc (uuid_next s)\<rparr>) = (Inr (), s2)"
    "copy_published original (copied_application original dto org u s) u s2 = (Inr b, s3)"
    "audit_app (app_id b) u ''APPLICATION_DUPLICATED'' JNull j s3 = (Inr (), t)"
    unfolding duplicateApplication_def Let_def transaction_Inr_iff
    by (auto simp: app_run copied_application_def)
  then show thesis using that [of original s2 s3] audit_app_frame by metis
qed

lemma leaves_duplicate: "app_inv s \<Longrightarrow> leaves app_inv (duplicateApplication i dto org u) s"
proof (rule leaves_transactionI [OF duplicateApplication_def])
  fix b t
  assume inv: "app_inv s" and run: "duplicateApplication i dto org u s = (Inr b, t)"
  let ?s1 = "s\<lparr>uuid_next := Suc (uuid_next s)\<rparr>"
  from duplicate_Inr [OF run] obtain original s2 s3 where
    ins: "insert_application (copied_application original dto org u s) ?s1 = (Inr (), s2)"
    and copy: "copy_published original (copied_application original dto org u s) u s2 = (Inr b, s3)"
    and t: "applications t = applications s3" "app_versions t = app_versions s3"
    by metis
  have "app_inv ?s1" by (rule app_inv_frame [OF inv]) simp_all
  then have inv2: "app_inv s2" by (intro keepsD [OF keeps_insert_application [OF copied_application_sel] _ ins])
  have "copied_application original dto org u s \<in> set (applications s2)"
    using ins by (auto simp: insert_application_def action_Inr)
  from copy_published_inv [OF inv2 this copied_application_sel(1) copy] show "app_inv t"
    by (rule app_inv_frame) (simp_all add: t)
qed

lemma keeps_serve_app: "keeps app_inv (serve_app r)"
proof (cases r)
  case (Archive i org u)
  then show ?thesis by (simp add: keeps_leaves leaves_archive)
qed (auto simp: keeps_leaves intro!: leaves_step leaves_updateApplication leaves_saveDraft
       leaves_createVersion leaves_publish leaves_unpublish leaves_duplicate
       leaves_keeps [OF keeps_createApplication] leaves_keeps [OF keeps_ok])

end
