(* ===== verification/AppsTheorems.thy ===== *)
theory AppsTheorems
  imports AppsProps
begin

text \<open>
  Applications over whole runs of requests: the transitions \<open>app_step\<close> an application may take,
  that every request takes such a step for every application and leaves an archived one and its
  versions alone, and the revisions of drafts through the \<open>versioned\<close> interface.
\<close>

section \<open>How an application evolves\<close>

text \<open>The transitions an application goes through; the change of \<open>updatedAt\<close> is left open.\<close>

inductive app_step :: "application \<Rightarrow> application \<Rightarrow> bool" where
  stay: "app_step a a"
| rename: "app_status a \<noteq> ARCHIVED \<Longrightarrow>
    app_step a (a\<lparr>app_name := n, app_description := d, app_updatedAt := u\<rparr>)"
| draft: "app_status a \<noteq> ARCHIVED \<Longrightarrow> schema_ok j \<Longrightarrow>
    app_step a (a\<lparr>app_draftSchema := Some j, app_schemaRevision := app_schemaRevision a + 1,
                  app_updatedAt := u\<rparr>)"
| version: "app_status a \<noteq> ARCHIVED \<Longrightarrow> schema_ok j \<Longrightarrow>
    app_step a (a\<lparr>app_currentVersion := app_currentVersion a + 1, app_draftSchema := Some j,
                  app_updatedAt := u\<rparr>)"
| publish: "app_status a \<noteq> ARCHIVED \<Longrightarrow>
    app_step a (a\<lparr>app_publishedVersionId := Some k, app_status := PUBLISHED, app_updatedAt := u\<rparr>)"
| unpublish: "app_status a = PUBLISHED \<Longrightarrow>
    app_step a (a\<lparr>app_publishedVersionId := None, app_status := DRAFT, app_updatedAt := u\<rparr>)"
| archive: "app_status a \<noteq> ARCHIVED \<Longrightarrow>
    app_step a (a\<lparr>app_status := ARCHIVED, app_updatedAt := u\<rparr>)"

inductive_cases app_step_cases: "app_step a b"

text \<open>Every application of \<open>s\<close> has taken a step, and an archived one kept its versions.\<close>

definition step_from :: "'z apps_state_scheme \<Rightarrow> 'z apps_state_scheme \<Rightarrow> bool" where
  "step_from s t \<longleftrightarrow>
     (\<forall>a \<in> set (applications s). (\<exists>b \<in> set (applications t). app_step a b) \<and>
        (app_status a = ARCHIVED \<longrightarrow>
           own_versions (app_id a) (app_versions t) = own_versions (app_id a) (app_versions s)))"

lemma step_from_same:
  "set (applications s) \<subseteq> set (applications t) \<Longrightarrow> app_versions t = app_versions s \<Longrightarrow> step_from s t"
  unfolding step_from_def using app_step.stay by (metis subsetD)

lemma step_from_refl [simp]: "step_from s s"
  by (rule step_from_same) simp_all

lemma step_from_db_only: "db_only (step_from s)"
  by (rule db_onlyI) (simp_all add: step_from_def)

lemma step_one:
  assumes inv: "app_inv s" and a: "app_in_org i org s = Some a"
    and b: "b \<in> set (applications t)" "app_step a b"
    and others: "\<And>c. c \<in> set (applications s) \<Longrightarrow> app_id c \<noteq> i \<Longrightarrow> c \<in> set (applications t) \<and>
       own_versions (app_id c) (app_versions t) = own_versions (app_id c) (app_versions s)"
    and own: "app_status a = ARCHIVED \<Longrightarrow> own_versions i (app_versions t) = own_versions i (app_versions s)"
  shows "step_from s t"
  unfolding step_from_def
proof (rule ballI)
  fix c assume c: "c \<in> set (applications s)"
  note aa = app_in_org_Some [OF a]
  show "(\<exists>b \<in> set (applications t). app_step c b) \<and> (app_status c = ARCHIVED \<longrightarrow>
      own_versions (app_id c) (app_versions t) = own_versions (app_id c) (app_versions s))"
  proof (cases "app_id c = i")
    case True
    then have "c = a"
      using application_repo.key_unique [of "applications s" c a] inv c aa
      by (auto simp: app_inv_but_def)
    with b own aa show ?thesis by auto
  next
    case False
    from others [OF c this] show ?thesis using app_step.stay by blast
  qed
qed

lemma save_app_rows:
  "save_application c s = (Inr c', t) \<Longrightarrow>
   (c' = c \<or> c' = c\<lparr>app_updatedAt := now s\<rparr>) \<and> app_id c' = app_id c \<and>
   applications t = save_row app_id c' (applications s) \<and> app_versions t = app_versions s"
  by (auto simp: save_application_run Let_def split: if_splits)

lemma save_row_others: "x \<in> set t \<Longrightarrow> key x \<noteq> key r \<Longrightarrow> x \<in> set (save_row key r t)"
  by (induction t) auto

text \<open>Saving the stepped application, when the versions of the others have not moved.\<close>

lemma step_save:
  assumes inv: "app_inv s" and a: "app_in_org i org s = Some a"
    and sv: "save_application c s1 = (Inr c', s2)" and c: "app_id c = i"
    and step: "\<And>u. app_step a (c\<lparr>app_updatedAt := u\<rparr>)"
    and s1: "applications s1 = applications s"
      "\<And>j. j \<noteq> i \<or> app_status a = ARCHIVED \<Longrightarrow> own_versions j (app_versions s1) = own_versions j (app_versions s)"
    and t: "applications t = applications s2" "app_versions t = app_versions s2"
  shows "step_from s t"
proof (rule step_one [OF inv a])
  note rows = save_app_rows [OF sv]
  show "c' \<in> set (applications t)" using rows by (simp add: t)
  have "c = c\<lparr>app_updatedAt := app_updatedAt c\<rparr>" by simp
  then show "app_step a c'" using rows step [of "now s1"] step [of "app_updatedAt c"] by auto
  show "x \<in> set (applications t) \<and>
      own_versions (app_id x) (app_versions t) = own_versions (app_id x) (app_versions s)"
    if "x \<in> set (applications s)" "app_id x \<noteq> i" for x
    using rows that c s1 save_row_others [of x "applications s" app_id c'] by (simp add: t)
  show "own_versions i (app_versions t) = own_versions i (app_versions s)" if "app_status a = ARCHIVED"
    using rows that s1(2) by (simp add: t)
qed

lemma leaves_step_save:
  assumes inv: "app_inv s" and a: "app_in_org i org s = Some a" and c: "app_id c = i"
    and step: "\<And>u. app_step a (c\<lparr>app_updatedAt := u\<rparr>)"
    and rest: "\<And>c' t. step_from s t \<Longrightarrow> leaves (step_from s) (f c') t"
  shows "leaves (step_from s) (await (save_application c) f) s"
proof -
  have "leaves (step_from s) (f c') t" if "save_application c s = (Inr c', t)" for c' t
    by (rule rest, rule step_save [OF inv a that c step]) simp_all
  moreover have "t = s" if "save_application c s = (Inl e, t)" for e t
    using that by (auto simp: save_application_run Let_def split: if_splits)
  ultimately show ?thesis
    by (cases "save_application c s"; cases "fst (save_application c s)")
       (auto simp: await_run leaves_def)
qed

section \<open>The requests take steps\<close>

lemma leaves_audit: "step_from s t \<Longrightarrow> leaves (step_from s) (await (audit_app e u ev b a) (\<lambda>_. ok x)) t"
  by (rule leaves_keeps) (intro keeps_intros step_from_db_only)

lemma step_update: "app_inv s \<Longrightarrow> leaves (step_from s) (updateApplication i dto org u) s"
  unfolding updateApplication_def
  apply (rule leaves_guard, rule read_intros, rule step_from_refl)+
  apply (rule leaves_step_save [where i = i and org = org])
      apply (auto simp: findOne_Inr_iff refuse_archived_def require_Inr_iff dest: app_in_org_Some
        intro: app_step.rename leaves_audit)
  done

lemma step_saveDraft: "app_inv s \<Longrightarrow> leaves (step_from s) (saveDraftSchema i dto org u) s"
  unfolding saveDraftSchema_def Let_def
  apply (rule leaves_transaction, rule step_from_refl)
  apply (rule leaves_guard, rule read_intros, rule step_from_refl)+
  apply (rule leaves_step_save [where i = i and org = org])
      apply (auto simp: findOne_Inr_iff refuse_archived_def require_Inr_iff validator_iff
        dest: app_in_org_Some intro: app_step.draft leaves_keeps [OF keeps_ok])
  done

lemma step_archive: "app_inv s \<Longrightarrow> leaves (step_from s) (archiveApplication i org u) s"
proof -
  assume inv: "app_inv s"
  have "step_from s t" if a: "app_in_org i org s = Some a"
      and sv: "save_application (a\<lparr>app_status := ARCHIVED\<rparr>) s = (Inr c, t)" for a c t
  proof (cases "app_status a = ARCHIVED")
    case True
    then have "a\<lparr>app_status := ARCHIVED\<rparr> = a" by simp
    moreover have "find_row app_id (app_id a) (applications s) = Some a"
      using find_row_keyed [of app_id "applications s" a] inv app_in_org_Some [OF a]
      by (simp add: app_inv_but_def)
    ultimately have "applications t = save_row app_id a (applications s)" "app_versions t = app_versions s"
      using sv by (auto simp: save_application_run Let_def split: if_splits)
    moreover have "x = a" if "x \<in> set (applications s)" "app_id x = app_id a" for x
      using application_repo.key_unique [of "applications s" x a] that inv app_in_org_Some [OF a]
      by (auto simp: app_inv_but_def)
    ultimately show ?thesis
      using save_row_others [of _ "applications s" app_id a]
      by (intro step_from_same subsetI) (metis in_save_row, simp)
  next
    case False
    then show ?thesis
      by (intro step_save [OF inv a sv _ app_step.archive]) (use app_in_org_Some [OF a] in auto)
  qed
  moreover have "step_from s t" if "save_application c s = (Inl e, t)" for c e t
    using that by (auto simp: save_application_run Let_def split: if_splits)
  ultimately have "leaves (step_from s) (save_application (a\<lparr>app_status := ARCHIVED\<rparr>)) s"
    if "app_in_org i org s = Some a" for a
    unfolding leaves_def using that step_from_refl
    by (cases "save_application (a\<lparr>app_status := ARCHIVED\<rparr>) s";
        cases "fst (save_application (a\<lparr>app_status := ARCHIVED\<rparr>) s)") simp_all
  then show ?thesis
    unfolding archiveApplication_def
    apply (intro leaves_guard [OF reads_apps(1)] step_from_refl leaves_step)
     apply (auto simp: findOne_Inr_iff intro!: leaves_keeps keeps_audit_app step_from_db_only)
    done
qed

lemma own_versions_other:
  assumes "keyed av_id vs" "v \<in> set vs" "av_id v' = av_id v" "av_applicationId v' = av_applicationId v"
    and "j \<noteq> av_applicationId v"
  shows "own_versions j (save_row av_id v' vs) = own_versions j vs"
proof -
  have "av_id x \<noteq> av_id v" if "x \<in> set (own_versions j vs)" for x
    using app_version_repo.key_unique [OF assms(1), of x v] that assms(2,5) by (auto simp: own_versions_def)
  then show ?thesis
    by (simp add: own_versions_save [OF assms(1-4)] map_idI)
qed

lemma step_publish: "app_inv s \<Longrightarrow> leaves (step_from s) (publishVersion i k org u) s"
proof (rule leaves_transactionI [OF publishVersion_def step_from_refl])
  fix r t
  assume inv: "app_inv s" and run: "publishVersion i k org u s = (Inr r, t)"
  from publish_Inr [OF run] obtain a v s2 a' where a: "app_in_org i org s = Some a"
    and st: "app_status a \<noteq> ARCHIVED"
    and v: "v \<in> set (app_versions s)" "av_id v = k" "av_applicationId v = i"
    and r: "r = v\<lparr>av_isPublished := True, av_publishedAt := Some (now s), av_publishedBy := Some u\<rparr>"
    and sv: "save_application (a\<lparr>app_publishedVersionId := Some k, app_status := PUBLISHED\<rparr>)
       (app_versions_update (save_row av_id r) s) = (Inr a', s2)"
    and t: "applications t = applications s2" "app_versions t = app_versions s2"
    by metis
  show "step_from s t"
  proof (rule step_save [OF inv a sv])
    have "keyed av_id (app_versions s)" using inv by (simp add: app_inv_but_def)
    then show "own_versions j (app_versions (app_versions_update (save_row av_id r) s)) =
        own_versions j (app_versions s)" if "j \<noteq> i \<or> app_status a = ARCHIVED" for j
      using that st v by (simp add: own_versions_other r)
  qed (use app_in_org_Some [OF a] st app_step.publish t in auto)
qed

lemma step_unpublish: "app_inv s \<Longrightarrow> leaves (step_from s) (unpublishVersion i org u) s"
proof (rule leaves_transactionI [OF unpublishVersion_def step_from_refl])
  fix r t
  assume inv: "app_inv s" and run: "unpublishVersion i org u s = (Inr r, t)"
  from unpublish_Inr [OF run] obtain a pv s1 s2
    where a: "app_in_org i org s = Some a" "app_publishedVersionId a = Some pv" "app_status a \<noteq> ARCHIVED"
      and s1: "s1 = (case find_row av_id pv (app_versions s) of
        Some v \<Rightarrow> app_versions_update (save_row av_id (v\<lparr>av_isPublished := False\<rparr>)) s | None \<Rightarrow> s)"
      and sv: "save_application (a\<lparr>app_publishedVersionId := None, app_status := DRAFT\<rparr>) s1 = (Inr r, s2)"
      and t: "applications t = applications s2" "app_versions t = app_versions s2"
    by metis
  note aa = app_in_org_Some [OF a(1)]
  have k: "keyed av_id (app_versions s)" using inv by (simp add: app_inv_but_def)
  have ok: "app_ok (app_versions s) a" by (rule app_inv_ok [OF inv a(1)])
  then obtain v where v: "v \<in> set (app_versions s)" "av_applicationId v = i" "av_id v = pv"
    using a(2) aa by (auto simp: app_ok_def own_versions_def)
  have s1: "s1 = app_versions_update (save_row av_id (v\<lparr>av_isPublished := False\<rparr>)) s"
    using s1 find_row_keyed [OF k v(1)] v(3) by simp
  have "app_status a = PUBLISHED"
    using ok a(2,3) by (cases "app_status a") (auto simp: app_ok_def)
  then show "step_from s t"
    by (intro step_save [OF inv a(1) sv])
      (use aa a(3) v t in \<open>auto simp: s1 own_versions_other [OF k v(1)] intro: app_step.unpublish\<close>)
qed

lemma step_createVersion: "app_inv s \<Longrightarrow> leaves (step_from s) (createVersion i dto org u) s"
proof (rule leaves_transactionI [OF createVersion_def step_from_refl])
  fix v t
  assume inv: "app_inv s" and run: "createVersion i dto org u s = (Inr v, t)"
  from createVersion_Inr [OF run] obtain a where a: "app_in_org i org s = Some a"
    and v: "v = new_version a dto u s" and st: "app_status a \<noteq> ARCHIVED"
    and valid: "validateApplicationSchema (av_schema v) = []"
    and t: "applications t = update_where (\<lambda>r. app_id r = i) (\<lambda>r. r\<lparr>app_currentVersion := app_currentVersion a + 1,
     app_draftSchema := Some (av_schema v), app_updatedAt := now s\<rparr>) (applications s)"
      "app_versions t = app_versions s @ [v]"
    by blast
  note aa = app_in_org_Some [OF a]
  show "step_from s t"
  proof (rule step_one [OF inv a])
    show "a\<lparr>app_currentVersion := app_currentVersion a + 1, app_draftSchema := Some (av_schema v),
        app_updatedAt := now s\<rparr> \<in> set (applications t)"
      unfolding t update_where_def using aa by force
    show "app_step a (a\<lparr>app_currentVersion := app_currentVersion a + 1,
        app_draftSchema := Some (av_schema v), app_updatedAt := now s\<rparr>)"
      using st valid by (intro app_step.version) (simp_all add: validator_iff)
    show "c \<in> set (applications t) \<and>
        own_versions (app_id c) (app_versions t) = own_versions (app_id c) (app_versions s)"
      if "c \<in> set (applications s)" "app_id c \<noteq> i" for c
      using that aa v by (force simp: t update_where_def own_versions_append new_version_def)
  qed (use st in simp)
qed

text \<open>A new application brings its rows along and leaves the others alone.\<close>

lemma step_insert_application:
  "insert_application c s = (x, t) \<Longrightarrow> step_from s t"
  by (rule step_from_same) (auto simp: insert_application_def action_simps split: if_splits)

lemma step_createApplication: "leaves (step_from s) (createApplication dto org u) s"
proof (rule leaves_keeps)
  have "keeps (step_from s) (insert_application c)" for c
    unfolding insert_application_def
    by (intro keeps_intros) (auto simp: step_from_def)
  then show "keeps (step_from s) (createApplication dto org u)"
    unfolding createApplication_def Let_def
    by (intro keeps_intros step_from_db_only)
qed simp

lemma step_copy_published:
  assumes inv: "app_inv s" and a: "a \<in> set (applications s)" "app_status a \<noteq> ARCHIVED"
    and fresh: "r \<subseteq> set (applications s)" "a \<notin> r" "keyed app_id (applications s)"
    and run: "copy_published original a u s = (Inr b, t)"
  shows "r \<subseteq> set (applications t) \<and> (\<forall>c \<in> r. app_id c \<noteq> app_id a \<and>
    own_versions (app_id c) (app_versions t) = own_versions (app_id c) (app_versions s))"
proof -
  have ids: "app_id c \<noteq> app_id a" if "c \<in> r" for c
    using application_repo.key_unique [OF fresh(3), of c a] that fresh(1,2) a(1) by blast
  from run show ?thesis
  proof (rule copy_published_Inr)
    fix source s2
    assume ins: "insert_version (copied_version original source (app_id a) u s)
         (s\<lparr>uuid_next := Suc (uuid_next s)\<rparr>) = (Inr (), s2)"
      and sv: "save_application (a\<lparr>app_currentVersion := 1\<rparr>) s2 = (Inr b, t)"
    have s2: "applications s2 = applications s"
      "app_versions s2 = app_versions s @ [copied_version original source (app_id a) u s]"
      using ins by (auto simp: insert_version_Inr_iff)
    note rows = save_app_rows [OF sv]
    have "c \<in> set (applications t)" if "c \<in> r" for c
      using save_row_others [of c "applications s" app_id b] rows ids [OF that] that fresh(1)
      by (auto simp: s2)
    moreover have "own_versions (app_id c) (app_versions t) = own_versions (app_id c) (app_versions s)"
      if "c \<in> r" for c
      using rows ids [OF that] by (simp add: s2 own_versions_append copied_version_def)
    ultimately show ?thesis using ids by blast
  qed (use ids fresh(1) in auto)
qed

lemma step_duplicate: "app_inv s \<Longrightarrow> leaves (step_from s) (duplicateApplication i dto org u) s"
proof (rule leaves_transactionI [OF duplicateApplication_def step_from_refl])
  fix b t
  assume inv: "app_inv s" and run: "duplicateApplication i dto org u s = (Inr b, t)"
  let ?s1 = "s\<lparr>uuid_next := Suc (uuid_next s)\<rparr>"
  from duplicate_Inr [OF run] obtain original s2 s3 where
    ins: "insert_application (copied_application original dto org u s) ?s1 = (Inr (), s2)"
    and copy: "copy_published original (copied_application original dto org u s) u s2 = (Inr b, s3)"
    and t: "applications t = applications s3" "app_versions t = app_versions s3"
    by metis
  let ?c = "copied_application original dto org u s"
  have "app_inv ?s1" by (rule app_inv_frame [OF inv]) simp_all
  then have inv2: "app_inv s2"
    by (intro keepsD [OF keeps_insert_application [OF copied_application_sel] _ ins])
  have s2: "applications s2 = applications s @ [?c]" "app_versions s2 = app_versions s"
    "app_id ?c \<notin> app_id ` set (applications s)"
    using ins by (auto simp: insert_application_def action_Inr)
  have "set (applications s) \<subseteq> set (applications t) \<and> (\<forall>c \<in> set (applications s). app_id c \<noteq> app_id ?c \<and>
    own_versions (app_id c) (app_versions t) = own_versions (app_id c) (app_versions s2))"
    unfolding t
    by (rule step_copy_published [OF inv2 _ _ _ _ _ copy])
       (use s2 inv2 in \<open>auto simp: copied_application_sel app_inv_but_def\<close>)
  then show "step_from s t"
    by (auto simp: step_from_def s2 intro: app_step.stay)
qed

lemma step_serve_app: "app_inv s \<Longrightarrow> step_from s (snd (serve_app r s))"
proof (cases r)
  case (Archive i org u)
  then show "app_inv s \<Longrightarrow> ?thesis" using step_archive by (simp add: leaves_def)
qed (auto simp flip: leaves_def intro!: leaves_step leaves_keeps [OF keeps_ok] step_update step_saveDraft
       step_createVersion step_publish step_unpublish step_duplicate step_createApplication)

lemma serve_app_inv: "app_inv s \<Longrightarrow> app_inv (snd (serve_app r s))"
  using keeps_serve_app unfolding keeps_def by blast

lemma serve_apps_inv: "app_inv s \<Longrightarrow> app_inv (serve_apps rs s)"
  by (induction rs arbitrary: s) (simp_all add: serve_app_inv)

lemma app_step_frame:
  "app_step a b \<Longrightarrow> app_id b = app_id a \<and> app_orgId b = app_orgId a \<and>
     app_schemaRevision a \<le> app_schemaRevision b \<and> app_currentVersion a \<le> app_currentVersion b"
  by (induction rule: app_step.induct) simp_all

lemma app_steps_frame:
  "app_step\<^sup>*\<^sup>* a b \<Longrightarrow> app_id b = app_id a \<and> app_orgId b = app_orgId a \<and>
     app_schemaRevision a \<le> app_schemaRevision b \<and> app_currentVersion a \<le> app_currentVersion b"
  by (induction rule: rtranclp_induct) (auto dest!: app_step_frame)

lemma archived_stays: "app_step a b \<Longrightarrow> app_status a = ARCHIVED \<Longrightarrow> b = a"
  by (auto elim: app_step_cases)

lemma serve_apps_steps:
  assumes "app_inv s" and "a \<in> set (applications s)"
  shows "\<exists>b \<in> set (applications (serve_apps rs s)). app_step\<^sup>*\<^sup>* a b"
  using assms
proof (induction rs arbitrary: s a)
  case (Cons r rs)
  obtain b where b: "b \<in> set (applications (snd (serve_app r s)))" "app_step a b"
    using step_serve_app [OF Cons.prems(1), of r] Cons.prems(2) unfolding step_from_def by blast
  from Cons.IH [OF serve_app_inv [OF Cons.prems(1)] b(1)] b(2) show ?case by (auto intro: converse_rtranclp_into_rtranclp)
qed auto

lemma archived_frozen:
  assumes "app_inv s" and "a \<in> set (applications s)" and "app_status a = ARCHIVED"
  shows "a \<in> set (applications (serve_apps rs s)) \<and>
    own_versions (app_id a) (app_versions (serve_apps rs s)) = own_versions (app_id a) (app_versions s)"
  using assms
proof (induction rs arbitrary: s)
  case (Cons r rs)
  have step: "a \<in> set (applications (snd (serve_app r s))) \<and>
      own_versions (app_id a) (app_versions (snd (serve_app r s))) = own_versions (app_id a) (app_versions s)"
    using step_serve_app [OF Cons.prems(1), of r] Cons.prems archived_stays
    unfolding step_from_def by metis
  from Cons.IH [OF serve_app_inv [OF Cons.prems(1)]] step Cons.prems(3) show ?case by simp
qed simp

section \<open>Draft revisions\<close>

definition draft_revision :: "uuid \<Rightarrow> uuid \<Rightarrow> 'z apps_state_scheme \<Rightarrow> int" where
  "draft_revision i org s = (case app_in_org i org s of None \<Rightarrow> 0 | Some a \<Rightarrow> app_schemaRevision a)"

definition attempt_draft ::
    "uuid \<Rightarrow> uuid \<Rightarrow> int \<Rightarrow> save_draft_dto \<times> uuid \<Rightarrow> 'z apps_state_scheme \<Rightarrow> 'z apps_state_scheme option" where
  "attempt_draft i org n p s =
     (case saveDraftSchema i ((fst p)\<lparr>sdd_expectedRevision := Some n\<rparr>) org (snd p) s of
        (Inl _, _) \<Rightarrow> None | (Inr _, t) \<Rightarrow> Some t)"

lemma find_saved:
  assumes "\<And>x. P x \<Longrightarrow> key x = key r" and "P r"
  shows "find P (save_row key r t) = Some r"
proof (induction t)
  case (Cons x t)
  then show ?case using assms(2) assms(1) [of x] by (cases "key x = key r"; cases "P x") simp_all
qed (simp add: assms(2))

lemma saveDraft_Inr:
  assumes "saveDraftSchema i dto org u s = (Inr (b, n), t)"
  obtains a where "app_in_org i org s = Some a" "app_status a \<noteq> ARCHIVED"
    "\<And>m. sdd_expectedRevision dto = Some m \<Longrightarrow> app_schemaRevision a = m"
    "n = app_schemaRevision a + 1" "app_schemaRevision b = n" "app_in_org i org t = Some b"
    "app_draftSchema b = Some (full_schema (case sdd_schemaVersion dto of None \<Rightarrow> ''1.0.0'' | Some v \<Rightarrow> v)
       a (sdd_schema dto))"
    "validateApplicationSchema (the (app_draftSchema b)) = []"
    "applications t = save_row app_id b (applications s)" "app_versions t = app_versions s"
proof -
  let ?j = "\<lambda>a. full_schema (case sdd_schemaVersion dto of None \<Rightarrow> ''1.0.0'' | Some v \<Rightarrow> v) a (sdd_schema dto)"
  from assms obtain a where a: "app_in_org i org s = Some a" "app_status a \<noteq> ARCHIVED"
    "case sdd_expectedRevision dto of None \<Rightarrow> True | Some m \<Rightarrow> app_schemaRevision a = m"
    "validateApplicationSchema (?j a) = []" "n = app_schemaRevision b"
    and sv: "save_application (a\<lparr>app_draftSchema := Some (?j a),
                 app_schemaRevision := app_schemaRevision a + 1\<rparr>) s = (Inr b, t)"
    unfolding saveDraftSchema_def Let_def transaction_Inr_iff by (auto simp: app_run)
  note rows = save_app_rows [OF sv]
  have b: "app_id b = i" "app_orgId b = org" "app_schemaRevision b = app_schemaRevision a + 1"
    "app_draftSchema b = Some (?j a)"
    using rows app_in_org_Some [OF a(1)] by auto
  have "app_in_org i org t = Some b"
    unfolding app_in_org_def rows [THEN conjunct2, THEN conjunct2, THEN conjunct1]
    by (rule find_saved) (simp_all add: b)
  with a b rows show thesis by (intro that [of a]) auto
qed

interpretation draft_rev: versioned "draft_revision i org" "attempt_draft i org" for i org
proof unfold_locales
  fix s t :: "'a apps_state_scheme" and n p
  assume "draft_revision i org s \<noteq> n"
  then show "attempt_draft i org n p s = None"
    by (auto simp: attempt_draft_def draft_revision_def split: prod.split sum.split)
       (erule saveDraft_Inr, simp)
next
  fix s t :: "'a apps_state_scheme" and n p
  assume "attempt_draft i org n p s = Some t"
  then show "draft_revision i org t = draft_revision i org s + 1"
    by (auto simp: attempt_draft_def draft_revision_def split: prod.splits sum.splits)
       (erule saveDraft_Inr, simp)
qed

lemma app_in_org_keyed:
  "app_inv s \<Longrightarrow> a \<in> set (applications s) \<Longrightarrow> app_in_org (app_id a) (app_orgId a) s = Some a"
  using application_repo.key_unique [of "applications s" _ a]
  by (cases "app_in_org (app_id a) (app_orgId a) s")
     (auto simp: app_inv_but_def app_in_org_def find_None_conv dest!: find_Some_conv)

lemma draft_revision_mono:
  assumes "app_inv s" and "app_in_org i org s \<noteq> None"
  shows "draft_revision i org s \<le> draft_revision i org (serve_apps rs s)"
proof -
  obtain a where a: "app_in_org i org s = Some a" using assms(2) by auto
  note aa = app_in_org_Some [OF a]
  obtain b where b: "b \<in> set (applications (serve_apps rs s))" "app_step\<^sup>*\<^sup>* a b"
    using serve_apps_steps [OF assms(1), of a rs] aa by blast
  from app_in_org_keyed [OF serve_apps_inv [OF assms(1)] b(1)] app_steps_frame [OF b(2)] a aa
  show ?thesis by (simp add: draft_revision_def)
qed

end
