(* ===== verification/AppsClaims.thy ===== *)
theory AppsClaims
  imports AppsTheorems
begin

text \<open>
  The properties of applications: consistency of versions and publishing, the lifecycle, the
  schemas that are stored, the drafts, and what publishing a second version leaves behind; with
  a small state on which the witnesses run.
\<close>

section \<open>Only valid schemas are stored\<close>

definition draft_ok :: "application \<Rightarrow> bool" where
  "draft_ok a \<longleftrightarrow> (case app_draftSchema a of None \<Rightarrow> True | Some j \<Rightarrow> schema_ok j)"

definition schemas_valid :: "'z apps_state_scheme \<Rightarrow> bool" where
  "schemas_valid s \<longleftrightarrow>
     list_all draft_ok (applications s) \<and> list_all (\<lambda>v. schema_ok (av_schema v)) (app_versions s)"

lemma valid_db_only: "db_only schemas_valid"
  by (rule db_onlyI) (simp_all add: schemas_valid_def)

lemma list_all_save_row: "list_all P t \<Longrightarrow> P r \<Longrightarrow> list_all P (save_row key r t)"
  using set_save_row_subset [of key r t] by (auto simp: list_all_iff)

lemma valid_find: "app_in_org i org s = Some a \<Longrightarrow> schemas_valid s \<Longrightarrow> draft_ok a"
  by (auto simp: schemas_valid_def list_all_iff dest: app_in_org_Some)

lemma draft_ok_sel [simp]:
  "draft_ok (a\<lparr>app_updatedAt := u\<rparr>) = draft_ok a" "draft_ok (a\<lparr>app_status := st\<rparr>) = draft_ok a"
  "draft_ok (a\<lparr>app_publishedVersionId := p\<rparr>) = draft_ok a" "draft_ok (a\<lparr>app_name := n\<rparr>) = draft_ok a"
  "draft_ok (a\<lparr>app_description := d\<rparr>) = draft_ok a" "draft_ok (a\<lparr>app_currentVersion := k\<rparr>) = draft_ok a"
  "draft_ok (a\<lparr>app_schemaRevision := k\<rparr>) = draft_ok a"
  "draft_ok (a\<lparr>app_draftSchema := Some j\<rparr>) = schema_ok j"
  by (simp_all add: draft_ok_def)

lemma valid_save_application:
  "schemas_valid s \<Longrightarrow> draft_ok a \<Longrightarrow> schemas_valid (snd (save_application a s))"
  by (auto simp: save_application_run Let_def schemas_valid_def list_all_save_row)

lemma leaves_valid_save:
  assumes "schemas_valid s" "draft_ok a" "\<And>b t. schemas_valid t \<Longrightarrow> leaves schemas_valid (f b) t"
  shows "leaves schemas_valid (await (save_application a) f) s"
  by (rule leaves_step) (use assms valid_save_application in \<open>auto simp: leaves_def\<close>)

lemma valid_frame:
  "schemas_valid s \<Longrightarrow> applications t = applications s \<Longrightarrow> app_versions t = app_versions s \<Longrightarrow> schemas_valid t"
  by (simp add: schemas_valid_def)

lemma valid_save_version:
  "schemas_valid s \<Longrightarrow> v \<in> set (app_versions s) \<Longrightarrow> av_schema w = av_schema v \<Longrightarrow>
   schemas_valid (app_versions_update (save_row av_id w) s)"
  by (auto simp: schemas_valid_def list_all_iff dest!: subsetD [OF set_save_row_subset])

lemma valid_save_Inr:
  "save_application a s = (Inr b, t) \<Longrightarrow> schemas_valid s \<Longrightarrow> draft_ok a \<Longrightarrow> schemas_valid t"
  using valid_save_application [of s a] by simp

lemma valid_create: "keeps schemas_valid (createApplication dto org u)"
  unfolding createApplication_def insert_application_def Let_def
  by (intro keeps_intros valid_db_only) (simp_all add: schemas_valid_def draft_ok_def)

lemma valid_update: "schemas_valid s \<Longrightarrow> leaves schemas_valid (updateApplication i dto org u) s"
  unfolding updateApplication_def
  apply (rule leaves_guard, rule read_intros, assumption)+
  apply (rule leaves_valid_save)
    apply (auto simp: findOne_Inr_iff valid_find intro!: leaves_keeps keeps_intros valid_db_only)
  done

lemma valid_saveDraft: "schemas_valid s \<Longrightarrow> leaves schemas_valid (saveDraftSchema i dto org u) s"
  unfolding saveDraftSchema_def Let_def
  apply (rule leaves_transaction, assumption)
  apply (rule leaves_guard, rule read_intros, assumption)+
  apply (rule leaves_valid_save)
    apply (auto simp: findOne_Inr_iff require_Inr_iff validator_iff intro!: leaves_keeps keeps_intros)
  done

lemma valid_archive: "schemas_valid s \<Longrightarrow> leaves schemas_valid (archiveApplication i org u) s"
  unfolding archiveApplication_def
  apply (rule leaves_guard, rule read_intros, assumption)+
  apply (rule leaves_valid_save)
    apply (auto simp: findOne_Inr_iff valid_find intro!: leaves_keeps keeps_intros valid_db_only)
  done

lemma valid_createVersion: "schemas_valid s \<Longrightarrow> leaves schemas_valid (createVersion i dto org u) s"
proof (rule leaves_transactionI [OF createVersion_def])
  fix v t
  assume inv: "schemas_valid s" and run: "createVersion i dto org u s = (Inr v, t)"
  then show "schemas_valid t"
    by (elim createVersion_Inr) (auto simp: schemas_valid_def list_all_iff update_where_def validator_iff)
qed

lemma valid_publish: "schemas_valid s \<Longrightarrow> leaves schemas_valid (publishVersion i k org u) s"
proof (rule leaves_transactionI [OF publishVersion_def])
  fix r t
  assume inv: "schemas_valid s" and run: "publishVersion i k org u s = (Inr r, t)"
  from publish_Inr [OF run] obtain a v s2 a' where a: "app_in_org i org s = Some a"
    and v: "v \<in> set (app_versions s)"
    and r: "r = v\<lparr>av_isPublished := True, av_publishedAt := Some (now s), av_publishedBy := Some u\<rparr>"
    and sv: "save_application (a\<lparr>app_publishedVersionId := Some k, app_status := PUBLISHED\<rparr>)
       (app_versions_update (save_row av_id r) s) = (Inr a', s2)"
    and t: "applications t = applications s2" "app_versions t = app_versions s2"
    by metis
  have "schemas_valid s2"
    by (rule valid_save_Inr [OF sv valid_save_version [OF inv v]]) (simp_all add: r valid_find [OF a inv])
  then show "schemas_valid t" by (rule valid_frame) (simp_all add: t)
qed

lemma valid_unpublish: "schemas_valid s \<Longrightarrow> leaves schemas_valid (unpublishVersion i org u) s"
proof (rule leaves_transactionI [OF unpublishVersion_def])
  fix r t
  assume inv: "schemas_valid s" and run: "unpublishVersion i org u s = (Inr r, t)"
  from unpublish_Inr [OF run] obtain a pv s1 s2
    where a: "app_in_org i org s = Some a"
      and s1: "s1 = (case find_row av_id pv (app_versions s) of
        Some v \<Rightarrow> app_versions_update (save_row av_id (v\<lparr>av_isPublished := False\<rparr>)) s | None \<Rightarrow> s)"
      and sv: "save_application (a\<lparr>app_publishedVersionId := None, app_status := DRAFT\<rparr>) s1 = (Inr r, s2)"
      and t: "applications t = applications s2" "app_versions t = app_versions s2"
    by metis
  have "schemas_valid s1"
    using inv valid_save_version [OF inv] unfolding s1 by (auto split: option.split dest: find_row_Some)
  then have "schemas_valid s2"
    by (rule valid_save_Inr [OF sv]) (simp add: valid_find [OF a inv])
  then show "schemas_valid t" by (rule valid_frame) (simp_all add: t)
qed

lemma valid_duplicate: "schemas_valid s \<Longrightarrow> leaves schemas_valid (duplicateApplication i dto org u) s"
proof (rule leaves_transactionI [OF duplicateApplication_def])
  fix b t
  assume inv: "schemas_valid s" and run: "duplicateApplication i dto org u s = (Inr b, t)"
  let ?s1 = "s\<lparr>uuid_next := Suc (uuid_next s)\<rparr>"
  from duplicate_Inr [OF run] obtain original s2 s3 where
    a: "app_in_org i org s = Some original" and
    ins: "insert_application (copied_application original dto org u s) ?s1 = (Inr (), s2)"
    and copy: "copy_published original (copied_application original dto org u s) u s2 = (Inr b, s3)"
    and t: "applications t = applications s3" "app_versions t = app_versions s3"
    by metis
  let ?c = "copied_application original dto org u s"
  have c: "draft_ok ?c"
    using valid_find [OF a inv] by (simp add: draft_ok_def copied_application_def)
  have s2: "schemas_valid s2"
    using ins inv c by (auto simp: insert_application_def action_Inr schemas_valid_def)
  from copy have "schemas_valid s3"
  proof (rule copy_published_Inr)
    fix source s4
    assume "source \<in> set (app_versions s2)"
      and ins: "insert_version (copied_version original source (app_id ?c) u s2)
         (s2\<lparr>uuid_next := Suc (uuid_next s2)\<rparr>) = (Inr (), s4)"
      and sv: "save_application (?c\<lparr>app_currentVersion := 1\<rparr>) s4 = (Inr b, s3)"
    then have "schemas_valid s4"
      using s2 by (auto simp: insert_version_Inr_iff schemas_valid_def list_all_iff copied_version_def)
    then show ?thesis by (rule valid_save_Inr [OF sv]) (simp add: c)
  qed (use s2 in simp)
  then show "schemas_valid t" by (rule valid_frame) (simp_all add: t)
qed

lemma valid_serve_app: "schemas_valid s \<Longrightarrow> schemas_valid (snd (serve_app r s))"
proof (cases r)
  case (Archive i org u)
  then show "schemas_valid s \<Longrightarrow> ?thesis" using valid_archive by (simp add: leaves_def)
qed (auto simp flip: leaves_def intro!: leaves_step leaves_keeps [OF keeps_ok] valid_update valid_saveDraft
       valid_createVersion valid_publish valid_unpublish valid_duplicate leaves_keeps [OF valid_create])

lemma valid_serve_apps: "schemas_valid s \<Longrightarrow> schemas_valid (serve_apps rs s)"
  by (induction rs arbitrary: s) (simp_all add: valid_serve_app)

section \<open>A small state\<close>

definition demo_version :: "uuid \<Rightarrow> int \<Rightarrow> bool \<Rightarrow> application_version" where
  "demo_version k n pub = \<lparr> av_id = k, av_applicationId = ''a'', av_versionNumber = n,
     av_schemaVersion = ''1.0.0'', av_schema = keyed_schema JNull, av_description = None,
     av_isPublished = pub, av_publishedAt = None, av_publishedBy = None, av_createdBy = None,
     av_createdAt = 0 \<rparr>"

definition demo_app :: application where
  "demo_app = \<lparr> app_id = ''a'', app_name = ''n'', app_description = None, app_status = PUBLISHED,
     app_currentVersion = 2, app_orgId = ''o'', app_ownerId = ''u'', app_projectId = ''p'',
     app_schemaRevision = 4, app_draftSchema = None, app_publishedVersionId = Some ''v1'',
     app_createdAt = 0, app_updatedAt = 0 \<rparr>"

definition demo_apps :: apps_state where
  "demo_apps = \<lparr> now = 10, uuids = fresh_name ''id'', uuid_next = 0, rooms_live = (\<lambda>_. True),
     nats_up = True, workflows = [], workflow_versions = [], sessions = [], audit_log = [],
     emitted = [], published = [], applications = [demo_app],
     app_versions = [demo_version ''v1'' 1 True, demo_version ''v2'' 2 False] \<rparr>"

lemmas demo_apps_simps = demo_apps_def demo_app_def demo_version_def

definition demo_draft :: save_draft_dto where
  "demo_draft = \<lparr> sdd_schema = JObj [(''pages'', JArr [])], sdd_schemaVersion = None,
     sdd_expectedRevision = Some 4 \<rparr>"

definition demo_version_dto :: create_version_dto where
  "demo_version_dto = \<lparr> cvd_schemaVersion = ''1.0.0'', cvd_schema = JObj [(''pages'', JArr [])],
     cvd_description = None \<rparr>"

lemma demo_apps_inv: "app_inv demo_apps"
  by (simp add: app_inv_but_def keyed_def app_ok_def own_versions_def demo_apps_simps upto.simps)

lemma demo_archived_inv: "app_inv (demo_apps\<lparr>applications := [demo_app\<lparr>app_status := ARCHIVED\<rparr>]\<rparr>)"
  by (simp add: app_inv_but_def keyed_def app_ok_def own_versions_def demo_apps_simps upto.simps)

lemma demo_empty_schema:
  "validateApplicationSchema (full_schema ''1.0.0'' demo_app (JObj [(''pages'', JArr [])])) = []"
  by (simp add: validator_iff full_schema_def spread_def demo_app_def schema_ok_def clean_keys_def PROHIBITED_KEYS_def
      str_prop_def get_prop_def MAX_PAGES_def MAX_NODES_def)

lemma demo_save: "\<exists>b t. saveDraftSchema ''a'' demo_draft ''o'' ''u'' demo_apps = (Inr (b, 5), t)"
  using demo_empty_schema
  by (simp add: saveDraftSchema_def Let_def app_in_org_def findOne_def refuse_archived_def save_application_run
      find_row_def demo_draft_def action_simps demo_apps_def)
     (simp add: demo_app_def)

lemma demo_create: "\<exists>v t. createVersion ''a'' demo_version_dto ''o'' ''u'' demo_apps = (Inr v, t)"
  using demo_empty_schema
  by (simp add: createVersion_def Let_def app_in_org_def findOne_def refuse_archived_def insert_version_def
      demo_version_dto_def action_simps demo_apps_def audit_app_run audit_run gen_uuid_run current_time_run fresh_name_def)
     (simp add: demo_app_def demo_version_def)

lemma demo_publish: "\<exists>v t. publishVersion ''a'' ''v2'' ''o'' ''u'' demo_apps = (Inr v, t)"
  by (simp add: publishVersion_def Let_def app_in_org_def findOne_def refuse_archived_def save_version_def
      action_simps demo_apps_simps audit_run save_application_run current_time_run find_row_def)

section \<open>Properties\<close>

text \<open>C10: whatever requests are served, refused ones included, the versions of every application
  stay numbered from 1 to its current version without a gap, a published application names a published
  version of its own, and a draft names none. (An archived application may still name the version that was
  published.)\<close>

theorem applications_stay_consistent:
  assumes "app_inv s"
  shows "let t = serve_apps rs s in app_inv t \<and> (\<forall>a \<in> set (applications t).
    map av_versionNumber (filter (\<lambda>v. av_applicationId v = app_id a) (app_versions t)) = [1..app_currentVersion a] \<and>
    (app_status a = PUBLISHED \<longrightarrow> (\<exists>v \<in> set (app_versions t).
       app_publishedVersionId a = Some (av_id v) \<and> av_applicationId v = app_id a \<and> av_isPublished v)) \<and>
    (app_status a = DRAFT \<longrightarrow> app_publishedVersionId a = None))"
proof -
  have inv: "app_inv (serve_apps rs s)" by (rule serve_apps_inv [OF assms])
  then have "app_ok (app_versions (serve_apps rs s)) a" if "a \<in> set (applications (serve_apps rs s))" for a
    using that by (simp add: app_inv_but_def)
  with inv show ?thesis unfolding Let_def by (fastforce simp: app_ok_def own_versions_def split: option.splits)
qed

theorem applications_stay_consistent_witness:
  "app_inv (serve_apps [Publish ''a'' ''v2'' ''o'' ''u'', Unpublish ''a'' ''o'' ''u''] demo_apps)"
  using applications_stay_consistent [OF demo_apps_inv, of "[Publish ''a'' ''v2'' ''o'' ''u'', Unpublish ''a'' ''o'' ''u'']"]
  unfolding Let_def by (rule conjunct1)

text \<open>C11: after any requests, the published version of a published application can be read: it is a
  published version of that application, with a number within its versions.\<close>

theorem published_version_is_served:
  assumes "app_inv s" and "app_in_org i org (serve_apps rs s) = Some a" and "app_status a = PUBLISHED"
  shows "\<exists>v. getPublishedVersion i org (serve_apps rs s) = (Inr v, serve_apps rs s) \<and>
    app_publishedVersionId a = Some (av_id v) \<and> av_applicationId v = i \<and> av_isPublished v \<and>
    1 \<le> av_versionNumber v \<and> av_versionNumber v \<le> app_currentVersion a"
proof -
  let ?t = "serve_apps rs s"
  have inv: "app_inv ?t" by (rule serve_apps_inv [OF assms(1)])
  note aa = app_in_org_Some [OF assms(2)]
  have ok: "app_ok (app_versions ?t) a" by (rule app_inv_ok [OF inv assms(2)])
  obtain pv where pv: "app_publishedVersionId a = Some pv"
    using ok assms(3) by (cases "app_publishedVersionId a") (simp_all add: app_ok_def)
  then have "\<exists>v \<in> set (own_versions i (app_versions ?t)). av_id v = pv \<and> av_isPublished v"
    using ok aa by (simp add: app_ok_def)
  with pv obtain v where v: "app_publishedVersionId a = Some (av_id v)" "av_isPublished v"
    "v \<in> set (own_versions i (app_versions ?t))"
    by blast
  have "map av_versionNumber (own_versions i (app_versions ?t)) = [1..app_currentVersion a]"
    using ok aa by (simp add: app_ok_def)
  from arg_cong [OF this, of set] have "av_versionNumber v \<in> {1..app_currentVersion a}"
    using v(3) by auto
  then have n: "1 \<le> av_versionNumber v" "av_versionNumber v \<le> app_currentVersion a" by simp_all
  have "keyed av_id (app_versions ?t)" using inv by (simp add: app_inv_but_def)
  moreover have o: "v \<in> set (app_versions ?t)" "av_applicationId v = i"
    using v(3) by (simp_all add: own_versions_def)
  ultimately have "find_row av_id (av_id v) (app_versions ?t) = Some v" by (intro find_row_keyed)
  then have "getPublishedVersion i org ?t = (Inr v, ?t)"
    using assms(2) v(1) by (simp add: getPublishedVersion_def findOne_def action_simps)
  with n o(2) v(1,2) show ?thesis by blast
qed

theorem published_version_is_served_witness:
  "\<exists>v. getPublishedVersion ''a'' ''o'' (serve_apps [] demo_apps) = (Inr v, serve_apps [] demo_apps) \<and>
    app_publishedVersionId demo_app = Some (av_id v) \<and> av_applicationId v = ''a'' \<and> av_isPublished v \<and>
    1 \<le> av_versionNumber v \<and> av_versionNumber v \<le> app_currentVersion demo_app"
  by (rule published_version_is_served [OF demo_apps_inv])
     (simp_all add: app_in_org_def demo_apps_simps)

text \<open>C12: only valid schemas are ever stored: if every draft and every version holds a valid schema,
  then so they do after any requests.\<close>

theorem only_valid_schemas_stored:
  assumes "schemas_valid s"
  shows "schemas_valid (serve_apps rs s)"
  by (rule valid_serve_apps [OF assms])

theorem only_valid_schemas_stored_witness:
  "schemas_valid (serve_apps [CreateVersion ''a'' demo_version_dto ''o'' ''u'']
     (demo_apps\<lparr>app_versions := []\<rparr>))"
  by (rule only_valid_schemas_stored) (simp add: schemas_valid_def draft_ok_def demo_apps_simps)

text \<open>C13: the service refines the lifecycle \<open>app_step\<close>: over any requests, an application only goes
  through its transitions, from one valid revision to the next; it keeps its id and its organization,
  and its revision and its current version never decrease. Once archived, neither the application
  nor its versions change any more.\<close>

theorem application_lifecycle:
  assumes "app_inv s" and "a \<in> set (applications s)"
  shows "(\<exists>b. b \<in> set (applications (serve_apps rs s)) \<and> app_step\<^sup>*\<^sup>* a b \<and>
      app_id b = app_id a \<and> app_orgId b = app_orgId a \<and>
      app_schemaRevision a \<le> app_schemaRevision b \<and> app_currentVersion a \<le> app_currentVersion b) \<and>
    (app_status a = ARCHIVED \<longrightarrow> a \<in> set (applications (serve_apps rs s)) \<and>
      own_versions (app_id a) (app_versions (serve_apps rs s)) = own_versions (app_id a) (app_versions s))"
  using serve_apps_steps [OF assms, of rs] app_steps_frame archived_frozen [OF assms, of rs] by blast

theorem application_lifecycle_witness:
  "let t = serve_apps [Unpublish ''a'' ''o'' ''u'']
             (demo_apps\<lparr>applications := [demo_app\<lparr>app_status := ARCHIVED\<rparr>]\<rparr>)
   in demo_app\<lparr>app_status := ARCHIVED\<rparr> \<in> set (applications t) \<and>
      own_versions ''a'' (app_versions t) = app_versions demo_apps"
  using application_lifecycle [OF demo_archived_inv, of "demo_app\<lparr>app_status := ARCHIVED\<rparr>"
      "[Unpublish ''a'' ''o'' ''u'']"]
  by (simp add: own_versions_def demo_apps_simps)

text \<open>No draft is overwritten unseen by another save: a save returns the next revision and
  stores the draft under it, and from then on, whatever is served in between, every save that
  expects an older revision is refused and changes nothing.\<close>

theorem stale_draft_refused:
  assumes "app_inv s" and "saveDraftSchema i dto org u s = (Inr (b, n), t)"
    and "sdd_expectedRevision dto' = Some m" and "m < n"
  shows "draft_revision i org s + 1 = n \<and> app_in_org i org t = Some b \<and> app_schemaRevision b = n \<and>
    (\<exists>e. saveDraftSchema i dto' org u' (serve_apps rs t) = (Inl e, serve_apps rs t))"
proof -
  let ?t = "serve_apps rs t"
  note saved = saveDraft_Inr [OF assms(2)]
  have first: "draft_revision i org s + 1 = n \<and> app_in_org i org t = Some b \<and> app_schemaRevision b = n"
    by (rule saved) (simp add: draft_revision_def)
  have "app_inv t"
    by (rule leavesD [OF leaves_saveDraft [OF assms(1)] assms(2)])
  then have "n \<le> draft_revision i org ?t"
    using draft_revision_mono [of t i org rs] first by (simp add: draft_revision_def)
  then have "attempt_draft i org m (dto', u') ?t = None"
    using assms(4) by (intro draft_rev.stale_refused) simp
  moreover have "dto'\<lparr>sdd_expectedRevision := Some m\<rparr> = dto'" using assms(3) by simp
  ultimately obtain e t' where e: "saveDraftSchema i dto' org u' ?t = (Inl e, t')"
    by (auto simp: attempt_draft_def split: prod.splits sum.splits)
  moreover have "t' = ?t"
    using e unfolding saveDraftSchema_def by (rule transaction_Inl)
  ultimately show ?thesis using first by blast
qed

theorem stale_draft_refused_witness:
  "\<exists>b t e. saveDraftSchema ''a'' demo_draft ''o'' ''u'' demo_apps = (Inr (b, 5), t) \<and>
     saveDraftSchema ''a'' demo_draft ''o'' ''u2'' (serve_apps [] t) = (Inl e, serve_apps [] t)"
proof -
  obtain b t where run: "saveDraftSchema ''a'' demo_draft ''o'' ''u'' demo_apps = (Inr (b, 5), t)"
    using demo_save by blast
  from stale_draft_refused [OF demo_apps_inv this, of demo_draft 4 "''u2''" "[]"] run show ?thesis
    by (auto simp: demo_draft_def)
qed

text \<open>Creating a version stores the schema sent as the next version, unpublished, and as the
  draft; the revision of the draft stays, so a client that has seen the replaced draft saves over
  the new one without a conflict.\<close>

theorem version_replaces_draft_unseen:
  assumes "app_inv s" and "createVersion i dto org u s = (Inr v, t)"
  shows "\<exists>a b. app_in_org i org s = Some a \<and> app_in_org i org t = Some b \<and>
    app_versions t = app_versions s @ [v] \<and> av_versionNumber v = app_currentVersion a + 1 \<and>
    \<not> av_isPublished v \<and> schema_ok (av_schema v) \<and>
    app_currentVersion b = app_currentVersion a + 1 \<and> app_draftSchema b = Some (av_schema v) \<and>
    app_schemaRevision b = app_schemaRevision a"
proof -
  from createVersion_Inr [OF assms(2)] obtain a where a: "app_in_org i org s = Some a"
    and v: "v = new_version a dto u s" and valid: "validateApplicationSchema (av_schema v) = []"
    and t: "applications t = update_where (\<lambda>r. app_id r = i) (\<lambda>r. r\<lparr>app_currentVersion := app_currentVersion a + 1,
       app_draftSchema := Some (av_schema v), app_updatedAt := now s\<rparr>) (applications s)"
    "app_versions t = app_versions s @ [v]"
    by blast
  note aa = app_in_org_Some [OF a]
  let ?b = "a\<lparr>app_currentVersion := app_currentVersion a + 1,
       app_draftSchema := Some (av_schema v), app_updatedAt := now s\<rparr>"
  have "app_inv t" using leavesD [OF leaves_createVersion [OF assms(1)] assms(2)] .
  moreover have "?b \<in> set (applications t)"
    unfolding t update_where_def using aa by force
  ultimately have "app_in_org i org t = Some ?b"
    using app_in_org_keyed [of t ?b] aa by simp
  with a v t valid show ?thesis
    by (intro exI [of _ a] exI [of _ ?b]) (simp add: new_version_def validator_iff)
qed

theorem version_replaces_draft_unseen_witness:
  "\<exists>v t b. createVersion ''a'' demo_version_dto ''o'' ''u'' demo_apps = (Inr v, t) \<and>
     app_in_org ''a'' ''o'' t = Some b \<and> app_draftSchema b = Some (av_schema v) \<and>
     app_schemaRevision b = 4"
proof -
  obtain v t where run: "createVersion ''a'' demo_version_dto ''o'' ''u'' demo_apps = (Inr v, t)"
    using demo_create by blast
  from version_replaces_draft_unseen [OF demo_apps_inv this] run show ?thesis
    by (auto simp: app_in_org_def demo_apps_simps)
qed

text \<open>Publishing a version publishes it, but leaves an earlier published version of the
  application marked; that version is then refused as already published, so the application
  cannot go back to it.\<close>

theorem publish_leaves_earlier_marked:
  assumes "app_inv s" and "publishVersion i k org u s = (Inr v, t)"
    and "w \<in> set (app_versions s)" and "av_applicationId w = i" and "av_isPublished w"
  shows "av_id v = k \<and> v \<in> set (app_versions t) \<and> av_isPublished v \<and>
    (\<exists>a. app_in_org i org t = Some a \<and> app_publishedVersionId a = Some k \<and> app_status a = PUBLISHED) \<and>
    av_id w \<noteq> k \<and> w \<in> set (app_versions t) \<and>
    (\<exists>e. publishVersion i (av_id w) org u t = (Inl (Conflict e), t))"
proof -
  from publish_Inr [OF assms(2)] obtain a x s2 a' where a: "app_in_org i org s = Some a"
    and st: "app_status a \<noteq> ARCHIVED"
    and x: "x \<in> set (app_versions s)" "av_id x = k" "av_applicationId x = i" "\<not> av_isPublished x"
    and v: "v = x\<lparr>av_isPublished := True, av_publishedAt := Some (now s), av_publishedBy := Some u\<rparr>"
    and sv: "save_application (a\<lparr>app_publishedVersionId := Some k, app_status := PUBLISHED\<rparr>)
       (app_versions_update (save_row av_id v) s) = (Inr a', s2)"
    and t: "applications t = applications s2" "app_versions t = app_versions s2"
    by metis
  note rows = save_app_rows [OF sv] and aa = app_in_org_Some [OF a]
  have inv: "app_inv t" using leavesD [OF leaves_publish [OF assms(1)] assms(2)] .
  have a': "app_id a' = i" "app_orgId a' = org" "app_publishedVersionId a' = Some k"
    "app_status a' = PUBLISHED" "a' \<in> set (applications t)"
    using rows aa t by auto
  then have at: "app_in_org i org t = Some a'" using app_in_org_keyed [OF inv a'(5)] by simp
  have "w \<noteq> x" using assms(5) x(4) by auto
  moreover have "keyed av_id (app_versions s)" using assms(1) by (simp add: app_inv_but_def)
  ultimately have wk: "av_id w \<noteq> k"
    using app_version_repo.key_unique [of "app_versions s" w x] assms(3) x by auto
  have vt: "app_versions t = save_row av_id v (app_versions s)" using t rows by simp
  have wt: "w \<in> set (app_versions t)"
    using save_row_others [of w "app_versions s" av_id v] assms(3) wk x by (simp add: vt v)
  have "find (\<lambda>y. av_id y = av_id w \<and> av_applicationId y = i) (app_versions t) = Some w"
  proof (cases "find (\<lambda>y. av_id y = av_id w \<and> av_applicationId y = i) (app_versions t)")
    case None
    then show ?thesis using wt assms(4) by (auto simp: find_None_conv)
  next
    case (Some y)
    then show ?thesis
      using app_version_repo.key_unique [of "app_versions t" y w] inv wt
      by (auto simp: app_inv_but_def dest!: find_Some_conv)
  qed
  then have "\<exists>e. publishVersion i (av_id w) org u t = (Inl (Conflict e), t)"
    using at a' assms(5)
    by (simp add: publishVersion_def findOne_def refuse_archived_def action_simps)
  then show ?thesis using at a' wk wt x v vt by auto
qed

theorem publish_leaves_earlier_marked_witness:
  "\<exists>v t e. publishVersion ''a'' ''v2'' ''o'' ''u'' demo_apps = (Inr v, t) \<and>
     demo_version ''v1'' 1 True \<in> set (app_versions t) \<and>
     publishVersion ''a'' ''v1'' ''o'' ''u'' t = (Inl (Conflict e), t)"
proof -
  obtain v t where run: "publishVersion ''a'' ''v2'' ''o'' ''u'' demo_apps = (Inr v, t)"
    using demo_publish by blast
  from publish_leaves_earlier_marked [OF demo_apps_inv this, of "demo_version ''v1'' 1 True"] run
  show ?thesis by (auto simp: demo_apps_simps)
qed

end
