(* ===== verification/Outbox.thy ===== *)
theory Outbox
  imports Tenancy
begin

text \<open>
  The transactional outbox of \<open>src/modules/outbox\<close>: \<open>OutboxService.create\<close> and the publisher, of
  which several instances may run. A publisher works through its batch one message at a time, so
  its run is cut into steps: a tick of the timer claims a batch, and every send handles the next
  event of the batch with what NATS answers. The clock moves between the steps.
\<close>

section \<open>Entity and state\<close>

datatype OutboxStatus = PENDING | PUBLISHING | PUBLISHED | FAILED

record outbox_event =
  ob_id :: uuid
  ob_aggregateType :: string
  ob_aggregateId :: string
  ob_eventType :: string
  ob_payload :: json
  ob_correlationId :: string
  ob_status :: OutboxStatus
  ob_attemptCount :: int
  ob_availableAt :: time
  ob_publishedAt :: "time option"
  ob_lastError :: "string option"
  ob_createdAt :: time

record outbox_state = tenancy +
  outbox :: "outbox_event list"

interpretation outbox_repo:
  keyed_store ob_id "find_row ob_id" "save_row ob_id" "remove_row ob_id" set "keyed ob_id"
  by (rule keyed_store_rows) simp_all

section \<open>OutboxService\<close>

record outbox_input =
  oi_aggregateType :: string
  oi_aggregateId :: string
  oi_eventType :: string
  oi_payload :: json
  oi_correlationId :: string

datatype id_field = EventId | Event_id

fun id_field_str :: "id_field \<Rightarrow> string" where
  "id_field_str EventId = ''eventId''"
| "id_field_str Event_id = ''event_id''"

fun other_field :: "id_field \<Rightarrow> id_field" where
  "other_field EventId = Event_id"
| "other_field Event_id = EventId"

record outbox_options =
  oo_eventId :: "string option"
  oo_eventIdField :: "id_field option"

definition outbox_row :: "uuid \<Rightarrow> json \<Rightarrow> outbox_input \<Rightarrow> time \<Rightarrow> outbox_event" where
  "outbox_row i payload input t = \<lparr> ob_id = i, ob_aggregateType = oi_aggregateType input,
     ob_aggregateId = oi_aggregateId input, ob_eventType = oi_eventType input, ob_payload = payload,
     ob_correlationId = oi_correlationId input, ob_status = PENDING, ob_attemptCount = 0,
     ob_availableAt = t, ob_publishedAt = None, ob_lastError = None, ob_createdAt = t \<rparr>"

text \<open>\<open>manager.save\<close> updates a row with the same id, which keeps its creation date.\<close>

definition save_outbox :: "outbox_event \<Rightarrow> ('z outbox_state_scheme, outbox_event) action" where
  "save_outbox r =
     await (reads (\<lambda>s. case find_row ob_id (ob_id r) (outbox s) of
              None \<Rightarrow> r | Some old \<Rightarrow> r\<lparr>ob_createdAt := ob_createdAt old\<rparr>)) (\<lambda>saved.
     await (writes (outbox_update (save_row ob_id saved))) (\<lambda>_. ok saved))"

definition outbox_create ::
    "outbox_input \<Rightarrow> outbox_options \<Rightarrow> ('z outbox_state_scheme, outbox_event) action" where
  "outbox_create input options = (let
       fld = (case oo_eventIdField options of None \<Rightarrow> EventId | Some f \<Rightarrow> f);
       existing = get_prop (oi_payload input) (id_field_str fld);
       alternate = get_prop (oi_payload input) (id_field_str (other_field fld))
     in await (require (case existing of None \<Rightarrow> True | Some (JStr _) \<Rightarrow> True | _ \<Rightarrow> False)
          (TypeErr (''Outbox payload '' @ id_field_str fld @ '' must be a string''))) (\<lambda>_.
        await (case oo_eventId options of Some i \<Rightarrow> ok i
               | None \<Rightarrow> (case existing of Some (JStr i) \<Rightarrow> ok i | _ \<Rightarrow> gen_uuid)) (\<lambda>i.
        await (require (existing = None \<or> existing = Some (JStr i))
          (TypeErr ''Outbox event ID conflicts with the payload event ID'')) (\<lambda>_.
        await (require (alternate = None \<or> alternate = Some (JStr i))
          (TypeErr ''Outbox payload contains two different logical event IDs'')) (\<lambda>_.
        await current_time (\<lambda>t.
        save_outbox (outbox_row i
          (JObj (put_field (id_field_str fld) (JStr i) (obj_fields (oi_payload input)))) input t)))))))"

section \<open>OutboxPublisherService\<close>

definition PUBLISH_LEASE_MS :: time where "PUBLISH_LEASE_MS = 60000"

definition due :: "time \<Rightarrow> outbox_event \<Rightarrow> bool" where
  "due t r \<longleftrightarrow>
     ((ob_status r = PENDING \<or> ob_status r = FAILED) \<and> ob_availableAt r \<le> t \<or>
      ob_status r = PUBLISHING \<and> ob_availableAt r \<le> t) \<and> ob_attemptCount r < 8"

definition claim_ids :: "'z outbox_state_scheme \<Rightarrow> uuid list" where
  "claim_ids s = map ob_id (take 20 (sort_key ob_createdAt (filter (due (now s)) (outbox s))))"

definition claim :: "('z outbox_state_scheme, outbox_event list) action" where
  "claim = transaction (
     await (reads claim_ids) (\<lambda>ids.
     if ids = [] then ok [] else
     await current_time (\<lambda>t.
     await (writes (outbox_update (update_where (\<lambda>r. ob_id r \<in> set ids)
              (\<lambda>r. r\<lparr>ob_status := PUBLISHING, ob_availableAt := t + PUBLISH_LEASE_MS\<rparr>)))) (\<lambda>_.
     reads (\<lambda>s. filter (\<lambda>r. ob_id r \<in> set ids) (outbox s))))))"

text \<open>
  What a publication ends in: acknowledged, or an error, of which the message may or may not have
  reached the stream.
\<close>

datatype nats_outcome = Acked | Lost string | Unacked string

definition sent_message :: "outbox_event \<Rightarrow> nats_msg" where
  "sent_message e = \<lparr> nm_subject = ob_eventType e, nm_payload = ob_payload e, nm_msgId = ob_id e \<rparr>"

definition nats_send :: "outbox_event \<Rightarrow> nats_outcome \<Rightarrow> ('z core_scheme, unit) action" where
  "nats_send e out = (case out of
     Acked \<Rightarrow> writes (published_update (\<lambda>l. l @ [sent_message e]))
   | Lost m \<Rightarrow> throw (PlainError m)
   | Unacked m \<Rightarrow> await (writes (published_update (\<lambda>l. l @ [sent_message e]))) (\<lambda>_. throw (PlainError m)))"

definition mark_published :: "time \<Rightarrow> outbox_event \<Rightarrow> outbox_event" where
  "mark_published t r = r\<lparr>ob_status := PUBLISHED, ob_publishedAt := Some t, ob_lastError := None\<rparr>"

definition mark_failed :: "int \<Rightarrow> string \<Rightarrow> time \<Rightarrow> outbox_event \<Rightarrow> outbox_event" where
  "mark_failed attempts message t r =
     r\<lparr>ob_status := (if 8 \<le> attempts then FAILED else PENDING), ob_attemptCount := attempts,
       ob_availableAt := t + min 300000 (1000 * 2 ^ nat attempts),
       ob_lastError := Some (take 1000 message)\<rparr>"

fun exn_message :: "exn \<Rightarrow> string" where
  "exn_message (PlainError m) = m"
| "exn_message _ = ''Unknown publication error''"

definition publishOne :: "nats_outcome \<Rightarrow> outbox_event \<Rightarrow> ('z outbox_state_scheme, unit) action" where
  "publishOne out e =
     try_catch
       (await (nats_send e out) (\<lambda>_.
        await current_time (\<lambda>t.
        writes (outbox_update (update_where (\<lambda>r. ob_id r = ob_id e) (mark_published t))))))
       (\<lambda>err.
        await current_time (\<lambda>t.
        writes (outbox_update (update_where (\<lambda>r. ob_id r = ob_id e)
          (mark_failed (ob_attemptCount e + 1) (exn_message err) t)))))"

definition reprocessFailed :: "uuid \<Rightarrow> ('z outbox_state_scheme, unit) action" where
  "reprocessFailed i =
     await current_time (\<lambda>t.
     writes (outbox_update (update_where (\<lambda>r. ob_id r = i \<and> ob_status r = FAILED)
       (\<lambda>r. r\<lparr>ob_status := PENDING, ob_attemptCount := 0, ob_availableAt := t, ob_lastError := None\<rparr>))))"

text \<open>One whole run of \<open>publishBatch\<close>, with the answers of NATS in order; the number of events.\<close>

fun publish_all :: "nats_outcome list \<Rightarrow> outbox_event list \<Rightarrow> ('z outbox_state_scheme, unit) action" where
  "publish_all outs [] = ok ()"
| "publish_all [] (e # es) = await (publishOne Acked e) (\<lambda>_. publish_all [] es)"
| "publish_all (out # outs) (e # es) = await (publishOne out e) (\<lambda>_. publish_all outs es)"

definition publishBatch :: "bool \<Rightarrow> nats_outcome list \<Rightarrow> ('z outbox_state_scheme, nat) action" where
  "publishBatch running outs =
     (if running then ok 0
      else await claim (\<lambda>events. await (publish_all outs events) (\<lambda>_. ok (length events))))"

section \<open>Publishers at work\<close>

record publisher =
  pb_running :: bool
  pb_queue :: "outbox_event list"

record outbox_system = outbox_state +
  publishers :: "nat \<Rightarrow> publisher"

definition tick :: "nat \<Rightarrow> 'z outbox_system_scheme \<Rightarrow> 'z outbox_system_scheme" where
  "tick p s =
     (if pb_running (publishers s p) then s
      else case claim s of
        (Inr es, t) \<Rightarrow> t\<lparr>publishers := (publishers t)(p := \<lparr> pb_running = es \<noteq> [], pb_queue = es \<rparr>)\<rparr>
      | (Inl _, t) \<Rightarrow> t)"

definition send :: "nat \<Rightarrow> nats_outcome \<Rightarrow> 'z outbox_system_scheme \<Rightarrow> 'z outbox_system_scheme" where
  "send p out s =
     (case pb_queue (publishers s p) of
        [] \<Rightarrow> s
      | e # es \<Rightarrow> (let t = snd (publishOne out e s)
                   in t\<lparr>publishers := (publishers t)(p := \<lparr> pb_running = es \<noteq> [], pb_queue = es \<rparr>)\<rparr>))"

text \<open>The runs of the system. New events come with a fresh id.\<close>

inductive outbox_step :: "'z outbox_system_scheme \<Rightarrow> 'z outbox_system_scheme \<Rightarrow> bool" where
  create: "outbox_create input options s = (Inr r, t) \<Longrightarrow> ob_id r \<notin> ob_id ` set (outbox s) \<Longrightarrow>
    outbox_step s t"
| tick: "outbox_step s (tick p s)"
| send: "outbox_step s (send p out s)"
| reprocess: "outbox_step s (snd (reprocessFailed i s))"
| wait: "outbox_step s (s\<lparr>now := now s + int d\<rparr>)"

inductive_cases outbox_step_cases: "outbox_step s t"

end
