(* ===== verification/OutboxProps.thy ===== *)
theory OutboxProps
  imports Outbox
begin

text \<open>
  The invariant of the outbox under any number of publishers, by rule induction over the steps: an
  event marked as published has been sent, attempts and waiting times are bounded, and no event
  that may still be sent is lost.
\<close>

section \<open>The invariant\<close>

definition row_ok :: "time \<Rightarrow> nats_msg set \<Rightarrow> outbox_event \<Rightarrow> bool" where
  "row_ok t sent r \<longleftrightarrow> 0 \<le> ob_attemptCount r \<and> ob_attemptCount r \<le> 8 \<and>
     ob_availableAt r \<le> t + 300000 \<and>
     (case ob_status r of PUBLISHED \<Rightarrow> sent_message r \<in> sent | FAILED \<Rightarrow> ob_attemptCount r = 8
      | _ \<Rightarrow> ob_attemptCount r < 8)"

definition claimed_ok :: "'z outbox_system_scheme \<Rightarrow> outbox_event \<Rightarrow> bool" where
  "claimed_ok s e \<longleftrightarrow> 0 \<le> ob_attemptCount e \<and> ob_attemptCount e < 8 \<and>
     sent_message e \<in> sent_message ` set (outbox s)"

definition outbox_inv :: "'z outbox_system_scheme \<Rightarrow> bool" where
  "outbox_inv s \<longleftrightarrow> keyed ob_id (outbox s) \<and>
     (\<forall>r \<in> set (outbox s). row_ok (now s) (set (published s)) r) \<and>
     (\<forall>p. \<forall>e \<in> set (pb_queue (publishers s p)). claimed_ok s e)"

lemma row_ok_mono: "row_ok t a r \<Longrightarrow> t \<le> u \<Longrightarrow> a \<subseteq> b \<Longrightarrow> row_ok u b r"
  by (auto simp: row_ok_def split: OutboxStatus.splits)

lemma msgId_sent [simp]: "nm_msgId (sent_message r) = ob_id r"
  by (simp add: sent_message_def)

lemma sent_image: "sent_message ` set (update_where P f t) = sent_message ` set t"
  if "\<And>r. sent_message (f r) = sent_message r"
  unfolding update_where_def set_map image_image using that by (intro image_cong) auto

text \<open>One rule for all steps that change rows without changing what they send.\<close>

lemma outbox_inv_update:
  assumes inv: "outbox_inv s" and t: "outbox t = update_where P f (outbox s)"
    and f: "\<And>r. sent_message (f r) = sent_message r"
    and ok: "\<And>r. r \<in> set (outbox s) \<Longrightarrow> P r \<Longrightarrow> row_ok (now t) (set (published t)) (f r)"
    and later: "now s \<le> now t" "set (published s) \<subseteq> set (published t)"
    and queues: "\<And>p e. e \<in> set (pb_queue (publishers t p)) \<Longrightarrow>
       (\<exists>q. e \<in> set (pb_queue (publishers s q))) \<or> claimed_ok t e"
  shows "outbox_inv t"
proof -
  have key: "ob_id (f r) = ob_id r" for r using f msgId_sent by metis
  have "row_ok (now t) (set (published t)) r'" if "r' \<in> set (outbox t)" for r'
  proof -
    from that obtain r where r: "r \<in> set (outbox s)" "r' = (if P r then f r else r)"
      by (auto simp: t update_where_def)
    then show ?thesis
      using ok [OF r(1)] row_ok_mono [OF _ later] inv by (auto simp: outbox_inv_def)
  qed
  moreover have "claimed_ok t e" if "e \<in> set (pb_queue (publishers t p))" for p e
    using queues [OF that] inv by (auto simp: outbox_inv_def claimed_ok_def t sent_image [OF f])
  ultimately show ?thesis
    using inv keyed_update_where [of ob_id f P] key by (auto simp: outbox_inv_def t)
qed

section \<open>The steps\<close>

lemma claim_run:
  "claim s = (let ids = claim_ids s in
     if ids = [] then (Inr [], s)
     else let t = s\<lparr>outbox := update_where (\<lambda>r. ob_id r \<in> set ids)
                 (\<lambda>r. r\<lparr>ob_status := PUBLISHING, ob_availableAt := now s + PUBLISH_LEASE_MS\<rparr>) (outbox s)\<rparr>
          in (Inr (filter (\<lambda>r. ob_id r \<in> set ids) (outbox t)), t))"
  by (simp add: claim_def action_simps Let_def)

lemma claim_ids_due:
  assumes "keyed ob_id (outbox s)" and "r \<in> set (outbox s)" and "ob_id r \<in> set (claim_ids s)"
  shows "due (now s) r"
proof -
  obtain x where x: "x \<in> set (take 20 (sort_key ob_createdAt (filter (due (now s)) (outbox s))))"
    "ob_id x = ob_id r"
    using assms(3) by (auto simp: claim_ids_def)
  then have "x \<in> set (outbox s)" "due (now s) x" by (auto dest!: in_set_takeD)
  moreover have "x = r"
    using outbox_repo.key_unique [OF assms(1)] assms(2) x(2) \<open>x \<in> set (outbox s)\<close> by blast
  ultimately show ?thesis by simp
qed

lemma sent_message_update [simp]:
  "sent_message (r\<lparr>ob_status := st\<rparr>) = sent_message r"
  "sent_message (r\<lparr>ob_availableAt := t\<rparr>) = sent_message r"
  "sent_message (r\<lparr>ob_attemptCount := n\<rparr>) = sent_message r"
  "sent_message (r\<lparr>ob_lastError := e\<rparr>) = sent_message r"
  "sent_message (r\<lparr>ob_publishedAt := p\<rparr>) = sent_message r"
  by (simp_all add: sent_message_def)

lemma tick_inv:
  assumes inv: "outbox_inv s"
  shows "outbox_inv (tick p s)"
proof (cases "pb_running (publishers s p)")
  case True
  with inv show ?thesis by (simp add: tick_def)
next
  case False
  let ?ids = "claim_ids s" and ?f = "\<lambda>r. r\<lparr>ob_status := PUBLISHING, ob_availableAt := now s + PUBLISH_LEASE_MS\<rparr>"
  show ?thesis
  proof (cases "?ids = []")
    case True
    have "tick p s = s\<lparr>publishers := (publishers s)(p := \<lparr> pb_running = False, pb_queue = [] \<rparr>)\<rparr>"
      using False True by (simp add: tick_def claim_run)
    with inv show ?thesis by (auto simp: outbox_inv_def claimed_ok_def)
  next
    case ids: False
    let ?o = "update_where (\<lambda>r. ob_id r \<in> set ?ids) ?f (outbox s)"
    let ?es = "filter (\<lambda>r. ob_id r \<in> set ?ids) ?o"
    have due: "due (now s) r" if "r \<in> set (outbox s)" "ob_id r \<in> set ?ids" for r
      using claim_ids_due that inv by (auto simp: outbox_inv_def)
    have t: "tick p s = s\<lparr>outbox := ?o,
        publishers := (publishers s)(p := \<lparr> pb_running = ?es \<noteq> [], pb_queue = ?es \<rparr>)\<rparr>"
      using False ids by (simp add: tick_def claim_run Let_def)
    show ?thesis
    proof (rule outbox_inv_update [OF inv, of _ "\<lambda>r. ob_id r \<in> set ?ids" ?f])
      show "row_ok (now (tick p s)) (set (published (tick p s))) (?f r)"
        if "r \<in> set (outbox s)" "ob_id r \<in> set ?ids" for r
        using due [OF that] inv that(1) by (auto simp: t row_ok_def due_def outbox_inv_def PUBLISH_LEASE_MS_def)
      show "(\<exists>q. e \<in> set (pb_queue (publishers s q))) \<or> claimed_ok (tick p s) e"
        if "e \<in> set (pb_queue (publishers (tick p s) q))" for q e
      proof (cases "q = p")
        case True
        then have e: "e \<in> set ?o" "ob_id e \<in> set ?ids" using that by (auto simp: t)
        then obtain r where r: "r \<in> set (outbox s)" "e = ?f r" "ob_id r \<in> set ?ids"
          by (auto simp: update_where_def split: if_splits)
        have "0 \<le> ob_attemptCount r" using inv r(1) by (auto simp: outbox_inv_def row_ok_def)
        moreover have "sent_message e \<in> sent_message ` set (outbox (tick p s))"
          unfolding t using imageI [OF e(1), of sent_message] by simp
        ultimately have "claimed_ok (tick p s) e"
          using due [OF r(1,3)] r(2) by (simp add: claimed_ok_def due_def)
        then show ?thesis ..
      qed (use that in \<open>auto simp: t\<close>)
    qed (simp_all add: t)
  qed
qed

lemma publishOne_run:
  "publishOne out e s = (case out of
     Acked \<Rightarrow> (Inr (), s\<lparr>published := published s @ [sent_message e],
       outbox := update_where (\<lambda>r. ob_id r = ob_id e) (mark_published (now s)) (outbox s)\<rparr>)
   | Lost m \<Rightarrow> (Inr (), s\<lparr>outbox := update_where (\<lambda>r. ob_id r = ob_id e)
       (mark_failed (ob_attemptCount e + 1) m (now s)) (outbox s)\<rparr>)
   | Unacked m \<Rightarrow> (Inr (), s\<lparr>published := published s @ [sent_message e],
       outbox := update_where (\<lambda>r. ob_id r = ob_id e)
         (mark_failed (ob_attemptCount e + 1) m (now s)) (outbox s)\<rparr>))"
  by (cases out) (simp_all add: publishOne_def nats_send_def action_simps)

lemma mark_failed_ok:
  "0 \<le> n \<Longrightarrow> n < 8 \<Longrightarrow> row_ok t sent (mark_failed (n + 1) m t r)"
  by (simp add: row_ok_def mark_failed_def min_def)

lemma send_inv:
  assumes inv: "outbox_inv s"
  shows "outbox_inv (send p out s)"
proof (cases "pb_queue (publishers s p)")
  case Nil
  with inv show ?thesis by (simp add: send_def)
next
  case (Cons e es)
  let ?t = "send p out s"
  have e: "0 \<le> ob_attemptCount e" "ob_attemptCount e < 8" "sent_message e \<in> sent_message ` set (outbox s)"
    using inv Cons unfolding outbox_inv_def claimed_ok_def by (metis list.set_intros(1))+
  have same: "sent_message r = sent_message e" if "r \<in> set (outbox s)" "ob_id r = ob_id e" for r
  proof -
    obtain x where x: "x \<in> set (outbox s)" "sent_message x = sent_message e" using e(3) by auto
    then have "ob_id x = ob_id e" by (metis msgId_sent)
    then have "x = r" using outbox_repo.key_unique [of "outbox s" x r] that x(1) inv by (auto simp: outbox_inv_def)
    with x show ?thesis by simp
  qed
  define f where "f = (case out of Acked \<Rightarrow> mark_published (now s)
    | Lost m \<Rightarrow> mark_failed (ob_attemptCount e + 1) m (now s)
    | Unacked m \<Rightarrow> mark_failed (ob_attemptCount e + 1) m (now s))"
  have t: "outbox ?t = update_where (\<lambda>r. ob_id r = ob_id e) f (outbox s)" "now ?t = now s"
    "set (published ?t) = set (published s) \<union> (case out of Lost m \<Rightarrow> {} | _ \<Rightarrow> {sent_message e})"
    "publishers ?t = (publishers s)(p := \<lparr> pb_running = es \<noteq> [], pb_queue = es \<rparr>)"
    by (auto simp: send_def Cons publishOne_run Let_def f_def split: nats_outcome.split)
  show ?thesis
  proof (rule outbox_inv_update [OF inv t(1)])
    show "sent_message (f r) = sent_message r" for r
      by (simp add: f_def mark_published_def mark_failed_def split: nats_outcome.split)
    show "row_ok (now ?t) (set (published ?t)) (f r)" if "r \<in> set (outbox s)" "ob_id r = ob_id e" for r
    proof -
      have "row_ok (now s) (set (published ?t)) (f r)"
      proof (cases out)
        case Acked
        moreover have "row_ok (now s) (set (published s)) r" using inv that(1) by (simp add: outbox_inv_def)
        ultimately show ?thesis
          using same [OF that] unfolding t f_def by (simp add: row_ok_def mark_published_def)
      qed (use e in \<open>simp_all add: f_def mark_failed_ok\<close>)
      then show ?thesis by (simp only: t(2))
    qed
    show "(\<exists>q. x \<in> set (pb_queue (publishers s q))) \<or> claimed_ok ?t x"
      if "x \<in> set (pb_queue (publishers ?t q))" for q x
      using that Cons by (cases "q = p") (auto simp: t intro: exI [of _ p])
  qed (simp_all add: t)
qed

lemma reprocess_inv: "outbox_inv s \<Longrightarrow> outbox_inv (snd (reprocessFailed i s))"
  by (rule outbox_inv_update [of s _ "\<lambda>r. ob_id r = i \<and> ob_status r = FAILED"
        "\<lambda>r. r\<lparr>ob_status := PENDING, ob_attemptCount := 0, ob_availableAt := now s, ob_lastError := None\<rparr>"])
     (auto simp: reprocessFailed_def action_simps row_ok_def)

lemma create_Inr:
  assumes "outbox_create input options s = (Inr r, t)" and "ob_id r \<notin> ob_id ` set (outbox s)"
  shows "outbox t = outbox s @ [r] \<and> now t = now s \<and> published t = published s \<and>
    publishers t = publishers (s :: 'z outbox_system_scheme) \<and>
    ob_status r = PENDING \<and> ob_attemptCount r = 0 \<and> ob_availableAt r = now s"
  using assms
  by (auto simp: outbox_create_def Let_def action_Inr gen_uuid_run current_time_run save_outbox_def
        outbox_row_def find_row_None save_row_fresh split: option.splits json.splits)

lemma outbox_step_inv: "outbox_step s t \<Longrightarrow> outbox_inv s \<Longrightarrow> outbox_inv t"
proof (induction rule: outbox_step.induct)
  case (create input options s r t)
  note c = create_Inr [OF create(1,2)]
  with create show ?case
    by (auto simp: outbox_inv_def claimed_ok_def keyed_def row_ok_def)
next
  case (wait s d)
  then show ?case
    by (auto simp: outbox_inv_def claimed_ok_def intro: row_ok_mono)
qed (simp_all add: tick_inv send_inv reprocess_inv)

lemma outbox_steps_inv: "outbox_step\<^sup>*\<^sup>* s t \<Longrightarrow> outbox_inv s \<Longrightarrow> outbox_inv t"
  by (induction rule: rtranclp_induct) (auto intro: outbox_step_inv)

section \<open>Properties\<close>

definition outbox_start :: "'z outbox_system_scheme \<Rightarrow> bool" where
  "outbox_start s \<longleftrightarrow> outbox s = [] \<and> publishers s = (\<lambda>_. \<lparr> pb_running = False, pb_queue = [] \<rparr>)"

lemma start_inv: "outbox_start s \<Longrightarrow> outbox_inv s"
  by (simp add: outbox_start_def outbox_inv_def)

definition demo_outbox :: outbox_system where
  "demo_outbox = outbox_state.extend (tenancy.extend demo_tenancy (outbox_state.fields []))
     (outbox_system.fields (\<lambda>_. \<lparr> pb_running = False, pb_queue = [] \<rparr>))"

lemmas demo_outbox_simps = demo_outbox_def demo_tenancy_def outbox_state.defs outbox_system.defs tenancy.defs

definition demo_input :: outbox_input where
  "demo_input = \<lparr> oi_aggregateType = ''source'', oi_aggregateId = ''x'', oi_eventType = ''t'',
     oi_payload = JObj [], oi_correlationId = ''c'' \<rparr>"

definition demo_row :: outbox_event where
  "demo_row = outbox_row ''id'' (JObj [(''eventId'', JStr ''id'')]) demo_input 10"

lemma demo_new_event:
  "outbox_create demo_input \<lparr> oo_eventId = None, oo_eventIdField = None \<rparr> demo_outbox =
     (Inr demo_row, demo_outbox\<lparr>uuid_next := 1, outbox := [demo_row]\<rparr>)"
  by (simp add: outbox_create_def Let_def action_simps demo_input_def demo_outbox_simps save_outbox_def
      find_row_def get_prop_def fresh_name_def demo_row_def)

lemma demo_created: "outbox_step\<^sup>*\<^sup>* demo_outbox (demo_outbox\<lparr>uuid_next := 1, outbox := [demo_row]\<rparr>)"
  by (rule r_into_rtranclp, rule outbox_step.create [OF demo_new_event]) (simp add: demo_outbox_simps)

lemma demo_sent:
  "let t = send 0 Acked (tick 0 (demo_outbox\<lparr>uuid_next := 1, outbox := [demo_row]\<rparr>))
   in outbox_step\<^sup>*\<^sup>* demo_outbox t \<and> map ob_status (outbox t) = [PUBLISHED]"
proof -
  let ?s = "demo_outbox\<lparr>uuid_next := 1, outbox := [demo_row]\<rparr>"
  have "outbox_step\<^sup>*\<^sup>* demo_outbox (send 0 Acked (tick 0 ?s))"
    using demo_created outbox_step.tick [of ?s 0] outbox_step.send [of "tick 0 ?s" 0 Acked]
    by (meson rtranclp.rtrancl_into_rtrancl)
  moreover have "claim_ids ?s = [''id'']"
    by (simp add: claim_ids_def due_def demo_outbox_simps demo_row_def outbox_row_def)
  then have "map ob_status (outbox (send 0 Acked (tick 0 ?s))) = [PUBLISHED]"
    by (simp add: tick_def claim_run send_def publishOne_run demo_outbox_simps demo_row_def
        outbox_row_def update_where_def mark_published_def)
  ultimately show ?thesis by simp
qed

text \<open>The events that the next batch takes, in the terms of the query.\<close>

definition taken :: "'z outbox_state_scheme \<Rightarrow> outbox_event list" where
  "taken s = take 20 (sort_key ob_createdAt (filter (\<lambda>x. ob_status x \<noteq> PUBLISHED \<and>
     ob_attemptCount x < 8 \<and> ob_availableAt x \<le> now s) (outbox s)))"

lemma claim_ids_taken: "claim_ids s = map ob_id (taken s)"
proof -
  have "due t = (\<lambda>x. ob_status x \<noteq> PUBLISHED \<and> ob_attemptCount x < 8 \<and> ob_availableAt x \<le> t)" for t
    unfolding fun_eq_iff due_def by (metis OutboxStatus.exhaust OutboxStatus.distinct)
  then show ?thesis by (simp add: claim_ids_def taken_def)
qed

text \<open>C15: an event that is marked as published has been sent: whatever any number of publishers
  did, with whatever answers of NATS, its message with its subject, payload and id is in the stream.\<close>

theorem published_means_sent:
  assumes "outbox_start s" and "outbox_step\<^sup>*\<^sup>* s t" and "r \<in> set (outbox t)" and "ob_status r = PUBLISHED"
  shows "\<lparr> nm_subject = ob_eventType r, nm_payload = ob_payload r, nm_msgId = ob_id r \<rparr> \<in> set (published t)"
  using outbox_steps_inv [OF assms(2) start_inv [OF assms(1)]] assms(3,4)
  by (auto simp: outbox_inv_def row_ok_def sent_message_def)

theorem published_means_sent_witness:
  "\<exists>(t :: outbox_system) r. r \<in> set (outbox t) \<and> ob_status r = PUBLISHED \<and>
     \<lparr> nm_subject = ob_eventType r, nm_payload = ob_payload r, nm_msgId = ob_id r \<rparr> \<in> set (published t)"
proof -
  note demo_sent [unfolded Let_def]
  then obtain t :: outbox_system where t: "outbox_step\<^sup>*\<^sup>* demo_outbox t" "map ob_status (outbox t) = [PUBLISHED]"
    by (elim conjE) (rule that)
  then obtain r where "outbox t = [r]" "ob_status r = PUBLISHED" by (cases "outbox t") simp_all
  then have r: "r \<in> set (outbox t)" "ob_status r = PUBLISHED" by simp_all
  have "outbox_start demo_outbox" by (simp add: outbox_start_def demo_outbox_simps)
  from published_means_sent [OF this t(1) r] r show ?thesis by blast
qed

text \<open>C16: no event gets stuck: over any steps of any publishers, an event is tried at most eight
  times, and as long as it is neither published nor has failed for good after eight attempts, it waits or is being
  published with attempts left and is due again within five minutes; a due event that is among the twenty oldest
  due ones is claimed by the next tick of any idle publisher, which takes no more than twenty.\<close>

theorem no_event_gets_stuck:
  assumes "outbox_start s" and "outbox_step\<^sup>*\<^sup>* s t" and "r \<in> set (outbox t)"
  shows "0 \<le> ob_attemptCount r \<and> ob_attemptCount r \<le> 8 \<and>
    (ob_status r = PUBLISHED \<or> ob_status r = FAILED \<and> ob_attemptCount r = 8 \<or>
     ob_status r \<in> {PENDING, PUBLISHING} \<and> ob_attemptCount r < 8 \<and> ob_availableAt r \<le> now t + 300000) \<and>
    (r \<in> set (take 20 (sort_key ob_createdAt (filter (\<lambda>x. ob_status x \<noteq> PUBLISHED \<and>
         ob_attemptCount x < 8 \<and> ob_availableAt x \<le> now t) (outbox t)))) \<and>
     \<not> pb_running (publishers t p) \<longrightarrow>
       list_ex (\<lambda>e. ob_id e = ob_id r \<and> ob_status e = PUBLISHING) (pb_queue (publishers (tick p t) p)))"
proof -
  have inv: "outbox_inv t" by (rule outbox_steps_inv [OF assms(2) start_inv [OF assms(1)]])
  then have ok: "row_ok (now t) (set (published t)) r" using assms(3) by (simp add: outbox_inv_def)
  have "ob_status r = PUBLISHED \<or> ob_status r = FAILED \<and> ob_attemptCount r = 8 \<or>
     ob_status r \<in> {PENDING, PUBLISHING} \<and> ob_attemptCount r < 8 \<and> ob_availableAt r \<le> now t + 300000"
    using ok by (cases "ob_status r") (simp_all add: row_ok_def)
  moreover have "list_ex (\<lambda>e. ob_id e = ob_id r \<and> ob_status e = PUBLISHING) (pb_queue (publishers (tick p t) p))"
    if "r \<in> set (taken t)" "\<not> pb_running (publishers t p)"
  proof -
    have i: "ob_id r \<in> set (claim_ids t)" using that(1) by (simp add: claim_ids_taken)
    let ?f = "\<lambda>r. r\<lparr>ob_status := PUBLISHING, ob_availableAt := now t + PUBLISH_LEASE_MS\<rparr>"
    let ?o = "update_where (\<lambda>r. ob_id r \<in> set (claim_ids t)) ?f (outbox t)"
    have "claim_ids t \<noteq> []" using i by auto
    then have q: "pb_queue (publishers (tick p t) p) = filter (\<lambda>r. ob_id r \<in> set (claim_ids t)) ?o"
      using that(2) by (simp add: tick_def claim_run Let_def)
    have "?f r \<in> set ?o" unfolding update_where_def using i assms(3) by force
    then have "?f r \<in> set (pb_queue (publishers (tick p t) p))" using i by (simp add: q)
    then show ?thesis unfolding list_ex_iff by (rule bexI [rotated]) simp
  qed
  ultimately show ?thesis using ok by (simp add: row_ok_def taken_def)
qed

theorem no_event_gets_stuck_witness:
  "list_ex (\<lambda>e. ob_id e = ''id'' \<and> ob_status e = PUBLISHING)
     (pb_queue (publishers (tick 3 (demo_outbox\<lparr>uuid_next := 1, outbox := [demo_row]\<rparr>)) 3))"
proof -
  let ?t = "demo_outbox\<lparr>uuid_next := 1, outbox := [demo_row]\<rparr>"
  have "outbox_start demo_outbox" by (simp add: outbox_start_def demo_outbox_simps)
  moreover have "demo_row \<in> set (outbox ?t)" by simp
  ultimately have "demo_row \<in> set (take 20 (sort_key ob_createdAt (filter (\<lambda>x. ob_status x \<noteq> PUBLISHED \<and>
         ob_attemptCount x < 8 \<and> ob_availableAt x \<le> now ?t) (outbox ?t)))) \<and> \<not> pb_running (publishers ?t 3) \<longrightarrow>
      list_ex (\<lambda>e. ob_id e = ob_id demo_row \<and> ob_status e = PUBLISHING) (pb_queue (publishers (tick 3 ?t) 3))"
    using no_event_gets_stuck [OF _ demo_created, of demo_row 3] by blast
  then show ?thesis by (simp add: demo_row_def outbox_row_def demo_outbox_simps)
qed

section \<open>One batch\<close>

text \<open>What an answer of NATS makes of an event, whatever event of a batch it is.\<close>

definition settle :: "time \<Rightarrow> nats_outcome \<Rightarrow> outbox_event \<Rightarrow> outbox_event" where
  "settle t out r = (case out of Acked \<Rightarrow> mark_published t r
     | Lost m \<Rightarrow> mark_failed (ob_attemptCount r + 1) m t r | Unacked m \<Rightarrow> mark_failed (ob_attemptCount r + 1) m t r)"

definition settle_by :: "time \<Rightarrow> (uuid \<times> nats_outcome) list \<Rightarrow> outbox_event \<Rightarrow> outbox_event" where
  "settle_by t answers r = (case map_of answers (ob_id r) of None \<Rightarrow> r | Some out \<Rightarrow> settle t out r)"

lemma settle_keys [simp]:
  "ob_id (settle t out r) = ob_id r" "ob_id (settle_by t answers r) = ob_id r"
  "sent_message (settle t out r) = sent_message r"
  by (simp_all add: settle_by_def settle_def mark_published_def mark_failed_def
      split: nats_outcome.split option.split)

definition reached :: "nats_outcome \<Rightarrow> bool" where
  "reached out \<longleftrightarrow> (case out of Lost m \<Rightarrow> False | _ \<Rightarrow> True)"

lemma publishOne_settles:
  assumes "keyed ob_id (outbox s)" and "e \<in> set (outbox s)"
  shows "\<exists>t. publishOne out e s = (Inr (), t) \<and> now t = now s \<and>
    outbox t = map (settle_by (now s) [(ob_id e, out)]) (outbox s) \<and>
    published t = published s @ (if reached out then [sent_message e] else [])"
proof -
  have "update_where (\<lambda>r. ob_id r = ob_id e) f (outbox s) = map (settle_by (now s) [(ob_id e, out)]) (outbox s)"
    if "f e = settle (now s) out e" for f
    unfolding update_where_def
  proof (rule map_cong [OF refl])
    fix r
    assume "r \<in> set (outbox s)"
    then have "r = e" if "ob_id r = ob_id e"
      using outbox_repo.key_unique [OF assms(1) _ assms(2)] that by blast
    then show "(if ob_id r = ob_id e then f r else r) = settle_by (now s) [(ob_id e, out)] r"
      using that by (auto simp: settle_by_def)
  qed
  then show ?thesis
    by (cases out) (simp_all add: publishOne_run settle_def reached_def)
qed

lemma publish_all_settles:
  assumes "length outs = length es" and "keyed ob_id (outbox s)" and "distinct (map ob_id es)"
    and "set es \<subseteq> set (outbox s)"
  shows "\<exists>t. publish_all outs es s = (Inr (), t) \<and>
    outbox t = map (settle_by (now s) (zip (map ob_id es) outs)) (outbox s) \<and>
    published t = published s @ map (\<lambda>(e, out). sent_message e) (filter (\<lambda>(e, out). reached out) (zip es outs))"
  using assms
proof (induction outs es arbitrary: s rule: list_induct2)
  case Nil
  have "settle_by (now s) [] = id" by (simp add: settle_by_def fun_eq_iff)
  then show ?case by (simp add: action_simps)
next
  case (Cons out outs e es)
  then have e: "e \<in> set (outbox s)" by simp
  obtain u where u: "publishOne out e s = (Inr (), u)" "now u = now s"
    "outbox u = map (settle_by (now s) [(ob_id e, out)]) (outbox s)"
    "published u = published s @ (if reached out then [sent_message e] else [])"
    using publishOne_settles [OF Cons.prems(1) e] by blast
  have "keyed ob_id (outbox u)" using Cons.prems(1) by (simp add: u(3) keyed_def comp_def)
  moreover have "set es \<subseteq> set (outbox u)"
  proof
    fix x
    assume x: "x \<in> set es"
    then have "ob_id x \<noteq> ob_id e" using Cons.prems(2) by simp (metis imageI)
    then have "settle_by (now s) [(ob_id e, out)] x = x" by (simp add: settle_by_def)
    moreover have "x \<in> set (outbox s)" using x Cons.prems(3) by auto
    ultimately show "x \<in> set (outbox u)" unfolding u(3) by (metis image_eqI list.set_map)
  qed
  ultimately obtain t where t: "publish_all outs es u = (Inr (), t)"
    "outbox t = map (settle_by (now s) (zip (map ob_id es) outs)) (outbox u)"
    "published t = published u @ map (\<lambda>(e, out). sent_message e) (filter (\<lambda>(e, out). reached out) (zip es outs))"
    using Cons.IH [of u] Cons.prems(2) u(2) by auto
  have none: "map_of (zip (map ob_id es) outs) (ob_id e) = None"
    using Cons.prems(2) by (auto simp: map_of_eq_None_iff dest: set_zip_leftD)
  have "settle_by (now s) (zip (map ob_id es) outs) (settle_by (now s) [(ob_id e, out)] r) =
      settle_by (now s) ((ob_id e, out) # zip (map ob_id es) outs) r" for r
    using none by (auto simp: settle_by_def split: option.split)
  then have "outbox t = map (settle_by (now s) (zip (map ob_id (e # es)) (out # outs))) (outbox s)"
    by (simp add: t(2) u(3) comp_def)
  moreover have "publish_all (out # outs) (e # es) s = (Inr (), t)" by (simp add: await_run u(1) t(1))
  ultimately show ?case using t(3) u(4) by simp
qed

lemma taken_subset: "set (taken s) \<subseteq> set (outbox s)"
  by (auto simp: taken_def dest!: in_set_takeD)

lemma taken_claimed:
  assumes "keyed ob_id (outbox s)" and "r \<in> set (outbox s)"
  shows "ob_id r \<in> set (claim_ids s) \<longleftrightarrow> r \<in> set (taken s)"
  using outbox_repo.key_unique [OF assms(1) _ assms(2)] taken_subset [of s]
  by (auto simp: claim_ids_taken)

lemma map_of_zip_key:
  assumes "length xs = length ys" and "inj_on f (insert x (set xs))"
  shows "map_of (zip (map f xs) ys) (f x) = map_of (zip xs ys) x"
  using assms
proof (induction xs ys rule: list_induct2)
  case (Cons a as b bs)
  then have "f x = f a \<longleftrightarrow> x = a" by (auto simp: inj_on_def)
  moreover have "inj_on f (insert x (set as))" using Cons.prems by (rule inj_on_subset) auto
  ultimately show ?case using Cons.IH by simp
qed simp

text \<open>A claimed event, and a batch as a whole.\<close>

definition leased :: "time \<Rightarrow> outbox_event \<Rightarrow> outbox_event" where
  "leased t r = r\<lparr>ob_status := PUBLISHING, ob_availableAt := t + PUBLISH_LEASE_MS\<rparr>"

lemma leased_keys [simp]: "ob_id (leased t r) = ob_id r" "sent_message (leased t r) = sent_message r"
  by (simp_all add: leased_def)

lemma batch_run:
  assumes key: "keyed ob_id (outbox s)" and len: "length outs = length (filter (\<lambda>r. r \<in> set (taken s)) (outbox s))"
  shows "\<exists>t. publishBatch False outs s = (Inr (length outs), t) \<and>
    outbox t = map (\<lambda>r. case map_of (zip (filter (\<lambda>r. r \<in> set (taken s)) (outbox s)) outs) r of
        None \<Rightarrow> r | Some out \<Rightarrow> settle (now s) out (leased (now s) r)) (outbox s) \<and>
    published t = published s @ map (\<lambda>(e, out). sent_message e)
      (filter (\<lambda>(e, out). reached out) (zip (filter (\<lambda>r. r \<in> set (taken s)) (outbox s)) outs))"
proof -
  let ?events = "filter (\<lambda>r. r \<in> set (taken s)) (outbox s)"
  let ?o = "map (\<lambda>r. if r \<in> set (taken s) then leased (now s) r else r) (outbox s)"
  let ?es = "map (leased (now s)) ?events" and ?u = "s\<lparr>outbox := ?o\<rparr>"
  have ids: "ob_id r \<in> set (claim_ids s) \<longleftrightarrow> r \<in> set (taken s)" if "r \<in> set (outbox s)" for r
    by (rule taken_claimed [OF key that])
  have o: "update_where (\<lambda>r. ob_id r \<in> set (claim_ids s)) (leased (now s)) (outbox s) = ?o"
    unfolding update_where_def by (rule map_cong) (simp_all add: ids)
  have es: "filter (\<lambda>r. ob_id r \<in> set (claim_ids s)) ?o = ?es"
  proof -
    have "filter (\<lambda>r. ob_id r \<in> set (claim_ids s)) (outbox s) = ?events"
      by (rule filter_cong) (simp_all add: ids)
    then have "filter (\<lambda>r. ob_id r \<in> set (claim_ids s)) ?o =
        map (\<lambda>r. if r \<in> set (taken s) then leased (now s) r else r) ?events"
      by (simp add: filter_map comp_def if_distrib [of ob_id] cong: if_cong)
    also have "\<dots> = ?es" by (rule map_cong) simp_all
    finally show ?thesis .
  qed
  have claim: "claim s = (Inr ?es, ?u)"
  proof (cases "claim_ids s = []")
    case True
    then have "taken s = []" by (simp add: claim_ids_taken)
    then show ?thesis using True by (simp add: claim_run)
  next
    case False
    then show ?thesis using o es by (simp add: claim_run Let_def leased_def [abs_def])
  qed
  have "\<exists>t. publish_all outs ?es ?u = (Inr (), t) \<and>
    outbox t = map (settle_by (now s) (zip (map ob_id ?es) outs)) ?o \<and>
    published t = published s @ map (\<lambda>(e, out). sent_message e) (filter (\<lambda>(e, out). reached out) (zip ?es outs))"
    using publish_all_settles [of outs ?es ?u] len key
    by (auto simp: keyed_def comp_def distinct_map_filter if_distrib cong: if_cong)
  then obtain t where t: "publish_all outs ?es ?u = (Inr (), t)"
    "outbox t = map (settle_by (now s) (zip (map ob_id ?es) outs)) ?o"
    "published t = published s @ map (\<lambda>(e, out). sent_message e) (filter (\<lambda>(e, out). reached out) (zip ?es outs))"
    by blast
  have "settle_by (now s) (zip (map ob_id ?es) outs) (if r \<in> set (taken s) then leased (now s) r else r) =
      (case map_of (zip ?events outs) r of None \<Rightarrow> r | Some out \<Rightarrow> settle (now s) out (leased (now s) r))"
    if "r \<in> set (outbox s)" for r
  proof -
    have "inj_on ob_id (set (outbox s))" using key by (simp add: keyed_def distinct_map)
    then have "map_of (zip (map ob_id ?events) outs) (ob_id r) = map_of (zip ?events outs) r"
      by (rule map_of_zip_key [OF len [symmetric] inj_on_subset]) (use that in auto)
    moreover have "map_of (zip ?events outs) r = None \<longleftrightarrow> r \<notin> set (taken s)"
      using len that by (simp add: map_of_zip_is_None)
    ultimately show ?thesis
      by (cases "map_of (zip ?events outs) r") (simp_all add: settle_by_def comp_def)
  qed
  then have "outbox t = map (\<lambda>r. case map_of (zip ?events outs) r of
        None \<Rightarrow> r | Some out \<Rightarrow> settle (now s) out (leased (now s) r)) (outbox s)"
    by (simp add: t(2) comp_def)
  moreover have "publishBatch False outs s = (Inr (length outs), t)"
    by (simp add: publishBatch_def await_run claim t(1) ok_run len)
  moreover have "map (\<lambda>(e, out). sent_message e) (filter (\<lambda>(e, out). reached out) (zip ?es outs)) =
      map (\<lambda>(e, out). sent_message e) (filter (\<lambda>(e, out). reached out) (zip ?events outs))"
    by (simp add: zip_map1 filter_map comp_def split_def)
  ultimately show ?thesis using t(3) by auto
qed

text \<open>C17: one run of \<open>publishBatch\<close>, at one instant and for any answers of NATS. While another run is in
  progress it does nothing. Otherwise it takes the twenty oldest events, or all if there are fewer, that
  are not published, have been tried fewer than eight times and are available, and no others: it returns
  their number; each acknowledged one is published, each other one counts an attempt, waits for
  the next, 1000 times two to the attempts in milliseconds but at most five minutes, or has failed for good after
  the eighth, and keeps the first 1000 characters of the error; their messages are in the stream, in
  the order of the events, except those that got lost; all other events are as they were.\<close>

theorem publish_batch_correct:
  assumes "distinct (map ob_id (outbox s))"
    and "batch = take 20 (sort_key ob_createdAt (filter (\<lambda>r. ob_status r \<noteq> PUBLISHED \<and>
           ob_attemptCount r < 8 \<and> ob_availableAt r \<le> now s) (outbox s)))"
    and "events = filter (\<lambda>r. r \<in> set batch) (outbox s)" and "length outs = length events"
  shows "publishBatch True outs s = (Inr 0, s) \<and>
    fst (publishBatch False outs s) = Inr (length batch) \<and>
    outbox (snd (publishBatch False outs s)) = map (\<lambda>r. case map_of (zip events outs) r of
        None \<Rightarrow> r
      | Some Acked \<Rightarrow> r\<lparr>ob_status := PUBLISHED, ob_availableAt := now s + 60000, ob_publishedAt := Some (now s),
            ob_lastError := None\<rparr>
      | Some out \<Rightarrow> r\<lparr>ob_status := (if ob_attemptCount r = 7 then FAILED else PENDING),
            ob_attemptCount := ob_attemptCount r + 1,
            ob_availableAt := now s + min 300000 (1000 * 2 ^ nat (ob_attemptCount r + 1)),
            ob_lastError := Some (take 1000 (case out of Lost m \<Rightarrow> m | Unacked m \<Rightarrow> m))\<rparr>) (outbox s) \<and>
    published (snd (publishBatch False outs s)) = published s @
      map (\<lambda>(e, out). \<lparr> nm_subject = ob_eventType e, nm_payload = ob_payload e, nm_msgId = ob_id e \<rparr>)
        (filter (\<lambda>(e, out). case out of Lost m \<Rightarrow> False | _ \<Rightarrow> True) (zip events outs))"
proof -
  have key: "keyed ob_id (outbox s)" using assms(1) by (simp add: keyed_def)
  have batch: "batch = taken s" using assms(2) by (simp add: taken_def)
  have rows: "set batch \<subseteq> set (outbox s)" unfolding batch by (rule taken_subset)
  have "distinct (outbox s)" using assms(1) by (simp add: distinct_map)
  then have "distinct batch" using assms(2) by simp
  moreover have "set events = set batch" using rows assms(3) by auto
  moreover have "distinct events" using \<open>distinct (outbox s)\<close> assms(3) by simp
  ultimately have len: "length events = length batch" by (metis distinct_card)
  have few: "ob_attemptCount r < 8" if "map_of (zip events outs) r = Some out" for r out
  proof -
    have "r \<in> set batch" using that assms(3) by (auto dest!: map_of_SomeD set_zip_leftD)
    then show ?thesis using assms(2) by (auto dest!: in_set_takeD)
  qed
  have answer: "settle (now s) out (leased (now s) r) = (case out of
        Acked \<Rightarrow> r\<lparr>ob_status := PUBLISHED, ob_availableAt := now s + 60000, ob_publishedAt := Some (now s),
            ob_lastError := None\<rparr>
      | out \<Rightarrow> r\<lparr>ob_status := (if ob_attemptCount r = 7 then FAILED else PENDING),
            ob_attemptCount := ob_attemptCount r + 1,
            ob_availableAt := now s + min 300000 (1000 * 2 ^ nat (ob_attemptCount r + 1)),
            ob_lastError := Some (take 1000 (case out of Lost m \<Rightarrow> m | Unacked m \<Rightarrow> m))\<rparr>)"
    if "ob_attemptCount r < 8" for r out
    using that by (cases out) (auto simp: settle_def leased_def mark_published_def mark_failed_def PUBLISH_LEASE_MS_def)
  obtain t where t: "publishBatch False outs s = (Inr (length outs), t)"
    "outbox t = map (\<lambda>r. case map_of (zip events outs) r of
        None \<Rightarrow> r | Some out \<Rightarrow> settle (now s) out (leased (now s) r)) (outbox s)"
    "published t = published s @ map (\<lambda>(e, out). sent_message e) (filter (\<lambda>(e, out). reached out) (zip events outs))"
    using batch_run [OF key, of outs] assms(3,4) unfolding batch by blast
  have rows_t: "outbox t = map (\<lambda>r. case map_of (zip events outs) r of
        None \<Rightarrow> r
      | Some Acked \<Rightarrow> r\<lparr>ob_status := PUBLISHED, ob_availableAt := now s + 60000, ob_publishedAt := Some (now s),
            ob_lastError := None\<rparr>
      | Some out \<Rightarrow> r\<lparr>ob_status := (if ob_attemptCount r = 7 then FAILED else PENDING),
            ob_attemptCount := ob_attemptCount r + 1,
            ob_availableAt := now s + min 300000 (1000 * 2 ^ nat (ob_attemptCount r + 1)),
            ob_lastError := Some (take 1000 (case out of Lost m \<Rightarrow> m | Unacked m \<Rightarrow> m))\<rparr>) (outbox s)"
    unfolding t(2) by (rule map_cong [OF refl]) (simp add: answer few split: option.split nats_outcome.split)
  show ?thesis
    unfolding t(1) fst_conv snd_conv rows_t t(3) using assms(4) len
    by (simp add: publishBatch_def ok_run sent_message_def [abs_def] reached_def [abs_def])
qed

theorem publish_batch_correct_witness:
  "map ob_attemptCount (outbox (snd (publishBatch False [Lost ''m'']
     (demo_outbox\<lparr>uuid_next := 1, outbox := [demo_row]\<rparr>)))) = [1]"
proof -
  let ?s = "demo_outbox\<lparr>uuid_next := 1, outbox := [demo_row]\<rparr>"
  have row: "ob_status demo_row = PENDING" "ob_attemptCount demo_row = 0" "ob_availableAt demo_row = 10" "now demo_outbox = 10"
    by (simp_all add: demo_row_def outbox_row_def demo_outbox_simps)
  have "[demo_row] = take 20 (sort_key ob_createdAt (filter (\<lambda>r. ob_status r \<noteq> PUBLISHED \<and>
      ob_attemptCount r < 8 \<and> ob_availableAt r \<le> now ?s) (outbox ?s)))"
    by (simp add: row)
  moreover have "[demo_row] = filter (\<lambda>r. r \<in> set [demo_row]) (outbox ?s)" by simp
  ultimately show ?thesis
    using publish_batch_correct [of ?s "[demo_row]" "[demo_row]" "[Lost ''m'']"] by (simp add: row del: filter.simps)
qed

end
