(* ===== verification/Storage.thy ===== *)
theory Storage
  imports Prelude
begin

text \<open>
  \<open>WorkspaceStorageService\<close> of \<open>src/infra/storage/workspace-storage.service.ts\<close>: the object
  paths of a workspace and their validation. Strings are lists of UTF-16 code units here, because
  the validation decodes percent-encoded UTF-8; \<open>js\<close> embeds the literals. The calls made to the
  MinIO client are the values the operations return.
\<close>

type_synonym jstr = "nat list"

definition js :: "string \<Rightarrow> jstr" where "js s = map of_char s"

abbreviation (input) slash :: nat where "slash \<equiv> 47"

section \<open>The string functions of the language\<close>

fun hex_val :: "nat \<Rightarrow> nat option" where
  "hex_val c = (if 48 \<le> c \<and> c \<le> 57 then Some (c - 48)
     else if 65 \<le> c \<and> c \<le> 70 then Some (c - 55)
     else if 97 \<le> c \<and> c \<le> 102 then Some (c - 87) else None)"

text \<open>The byte that two hexadecimal digits stand for, and what follows them.\<close>

fun hex_byte :: "jstr \<Rightarrow> (nat \<times> jstr) option" where
  "hex_byte (a # b # s) = (case (hex_val a, hex_val b) of
     (Some x, Some y) \<Rightarrow> Some (16 * x + y, s) | _ \<Rightarrow> None)"
| "hex_byte _ = None"

text \<open>\<open>k\<close> continuation bytes of a UTF-8 sequence, each written as \<open>%XY\<close>.\<close>

fun continuation :: "nat \<Rightarrow> nat \<Rightarrow> jstr \<Rightarrow> (nat \<times> jstr) option" where
  "continuation 0 acc s = Some (acc, s)"
| "continuation (Suc k) acc s = (case s of
     c # s' \<Rightarrow> if c \<noteq> 37 then None else (case hex_byte s' of
        Some (b, r) \<Rightarrow> if 128 \<le> b \<and> b < 192 then continuation k (64 * acc + (b - 128)) r else None
      | None \<Rightarrow> None)
   | [] \<Rightarrow> None)"

text \<open>The code point whose UTF-8 encoding starts with the byte \<open>b\<close>; overlong forms and
  surrogates are refused.\<close>

definition utf8_point :: "nat \<Rightarrow> jstr \<Rightarrow> (nat \<times> jstr) option" where
  "utf8_point b s =
     (if b < 128 then Some (b, s)
      else if 192 \<le> b \<and> b < 224 then
        (case continuation 1 (b - 192) s of
           Some (v, r) \<Rightarrow> if 128 \<le> v then Some (v, r) else None | None \<Rightarrow> None)
      else if 224 \<le> b \<and> b < 240 then
        (case continuation 2 (b - 224) s of
           Some (v, r) \<Rightarrow> if 2048 \<le> v \<and> \<not> (55296 \<le> v \<and> v < 57344) then Some (v, r) else None
         | None \<Rightarrow> None)
      else if 240 \<le> b \<and> b < 248 then
        (case continuation 3 (b - 240) s of
           Some (v, r) \<Rightarrow> if 65536 \<le> v \<and> v < 1114112 then Some (v, r) else None | None \<Rightarrow> None)
      else None)"

definition utf16 :: "nat \<Rightarrow> jstr" where
  "utf16 v = (if v < 65536 then [v]
     else [55296 + (v - 65536) div 1024, 56320 + (v - 65536) mod 1024])"

lemma hex_byte_length: "hex_byte s = Some (b, r) \<Longrightarrow> length r < length s"
  by (cases s rule: hex_byte.cases) (auto split: option.splits)

lemma continuation_length: "continuation k acc s = Some (v, r) \<Longrightarrow> length r \<le> length s"
  by (induction k acc s rule: continuation.induct)
     (auto split: list.splits option.splits if_splits dest: hex_byte_length, fastforce dest: hex_byte_length)

lemma utf8_point_length: "utf8_point b s = Some (v, r) \<Longrightarrow> length r \<le> length s"
  by (auto simp: utf8_point_def simp del: continuation.simps split: if_splits option.splits
      dest: continuation_length)

text \<open>\<open>decodeURIComponent\<close>; \<open>None\<close> is the \<open>URIError\<close>.\<close>

function decode_uri :: "jstr \<Rightarrow> jstr option" where
  "decode_uri [] = Some []"
| "decode_uri (c # s) =
     (if c \<noteq> 37 then map_option ((#) c) (decode_uri s)
      else (case hex_byte s of None \<Rightarrow> None
       | Some (b, r) \<Rightarrow> (case utf8_point b r of None \<Rightarrow> None
          | Some (v, q) \<Rightarrow> map_option ((@) (utf16 v)) (decode_uri q))))"
  by pat_completeness auto

termination
  by (relation "measure length") (auto dest!: hex_byte_length utf8_point_length)

text \<open>\<open>Buffer.byteLength(s, "utf8")\<close>: a lone surrogate is encoded as U+FFFD.\<close>

fun utf8_length :: "jstr \<Rightarrow> nat" where
  "utf8_length [] = 0"
| "utf8_length (c # s) =
     (if c < 128 then 1 + utf8_length s
      else if c < 2048 then 2 + utf8_length s
      else case s of
        d # s' \<Rightarrow> if 55296 \<le> c \<and> c < 56320 \<and> 56320 \<le> d \<and> d < 57344 then 4 + utf8_length s'
                   else 3 + utf8_length s
      | [] \<Rightarrow> 3)"

fun split_on :: "nat \<Rightarrow> jstr \<Rightarrow> jstr list" where
  "split_on c [] = [[]]"
| "split_on c (x # s) =
     (if x = c then [] # split_on c s
      else case split_on c s of p # ps \<Rightarrow> (x # p) # ps | [] \<Rightarrow> [[x]])"

definition has_prefix :: "jstr \<Rightarrow> jstr \<Rightarrow> bool" where
  "has_prefix p s \<longleftrightarrow> take (length p) s = p"

definition hasControlCharacter :: "jstr \<Rightarrow> bool" where
  "hasControlCharacter s \<longleftrightarrow> list_ex (\<lambda>c. c < 32 \<or> c = 127) s"

section \<open>Paths\<close>

text \<open>Decoding until nothing changes, at most five times.\<close>

fun decode_times :: "nat \<Rightarrow> jstr \<Rightarrow> exn + jstr" where
  "decode_times 0 v = Inl (BadRequest (JStr ''Object path is encoded too deeply''))"
| "decode_times (Suc n) v = (case decode_uri v of
     None \<Rightarrow> Inl (BadRequest (JStr ''Invalid object path encoding''))
   | Some w \<Rightarrow> if w = v then Inr v else decode_times n w)"

definition decodePathComponent :: "jstr \<Rightarrow> exn + jstr" where
  "decodePathComponent v = decode_times 5 v"

definition validateSegment :: "jstr \<Rightarrow> exn + unit" where
  "validateSegment v = (case decodePathComponent v of Inl e \<Rightarrow> Inl e
     | Inr d \<Rightarrow> if d = [] \<or> d = js ''.'' \<or> d = js ''..'' \<or> slash \<in> set d \<or> 92 \<in> set d \<or>
                  hasControlCharacter d
        then Inl (BadRequest (JStr ''Invalid path segment'')) else Inr ())"

fun validateSegments :: "jstr list \<Rightarrow> exn + unit" where
  "validateSegments [] = Inr ()"
| "validateSegments (p # ps) = (case validateSegment p of Inl e \<Rightarrow> Inl e | Inr _ \<Rightarrow> validateSegments ps)"

text \<open>A template literal with slashes between its parts.\<close>

fun join_path :: "jstr list \<Rightarrow> jstr" where
  "join_path [] = []"
| "join_path [p] = p"
| "join_path (p # q # ps) = p @ slash # join_path (q # ps)"

record object_context =
  ctx_organizationId :: jstr
  ctx_workspaceId :: jstr

definition build_path :: "jstr list \<Rightarrow> exn + jstr" where
  "build_path ps = (case validateSegments ps of Inl e \<Rightarrow> Inl e | Inr _ \<Rightarrow> Inr (join_path ps))"

definition buildWorkspaceObjectPath ::
    "object_context \<Rightarrow> jstr \<Rightarrow> jstr \<Rightarrow> int \<Rightarrow> jstr \<Rightarrow> exn + jstr" where
  "buildWorkspaceObjectPath ctx entityType entityId version filename =
     build_path [ctx_organizationId ctx, ctx_workspaceId ctx, entityType, entityId,
                 js (int_str version), filename]"

definition buildSourceObjectPath :: "object_context \<Rightarrow> jstr \<Rightarrow> jstr \<Rightarrow> jstr \<Rightarrow> exn + jstr" where
  "buildSourceObjectPath ctx sourceId sourceVersionId filename =
     build_path [js ''organizations'', ctx_organizationId ctx, js ''workspaces'', ctx_workspaceId ctx,
                 js ''sources'', sourceId, js ''versions'', sourceVersionId, filename]"

definition validatePositiveVersion :: "int \<Rightarrow> exn + unit" where
  "validatePositiveVersion version =
     (if version > 9007199254740991 \<or> version \<le> 0
      then Inl (BadRequest (JStr ''Snapshot version must be a positive integer'')) else Inr ())"

definition canvas_path :: "object_context \<Rightarrow> jstr \<Rightarrow> jstr \<Rightarrow> jstr \<Rightarrow> exn + jstr" where
  "canvas_path ctx canvasId snapshotId file =
     build_path [js ''organizations'', ctx_organizationId ctx, js ''workspaces'', ctx_workspaceId ctx,
                 js ''canvases'', canvasId, js ''snapshots'', snapshotId, file]"

definition buildSnapshotObjectPath :: "object_context \<Rightarrow> jstr \<Rightarrow> jstr \<Rightarrow> int \<Rightarrow> exn + jstr" where
  "buildSnapshotObjectPath ctx canvasId snapshotId version =
     (case validatePositiveVersion version of Inl e \<Rightarrow> Inl e
      | Inr _ \<Rightarrow> canvas_path ctx canvasId snapshotId (js (''snapshot-v'' @ int_str version @ ''.json'')))"

definition buildPreviewObjectPath :: "object_context \<Rightarrow> jstr \<Rightarrow> jstr \<Rightarrow> int \<Rightarrow> exn + jstr" where
  "buildPreviewObjectPath ctx canvasId snapshotId version =
     (case validatePositiveVersion version of Inl e \<Rightarrow> Inl e
      | Inr _ \<Rightarrow> canvas_path ctx canvasId snapshotId (js (''preview-v'' @ int_str version @ ''.png'')))"

text \<open>The bucket names of the configuration.\<close>

record buckets =
  bk_sources :: string
  bk_previews :: string
  bk_assets :: string
  bk_exports :: string
  bk_snapshots :: string
  bk_temp :: string

definition default_buckets :: buckets where
  "default_buckets = \<lparr> bk_sources = ''workspace-sources'', bk_previews = ''workspace-previews'',
     bk_assets = ''workspace-assets'', bk_exports = ''workspace-exports'',
     bk_snapshots = ''workspace-snapshots'', bk_temp = ''workspace-temp'' \<rparr>"

definition allowedBuckets :: "buckets \<Rightarrow> string list" where
  "allowedBuckets b = [bk_sources b, bk_previews b, bk_assets b, bk_exports b, bk_snapshots b, bk_temp b]"

definition tenantPrefixes :: "object_context \<Rightarrow> jstr list" where
  "tenantPrefixes ctx =
     [ctx_organizationId ctx @ slash # ctx_workspaceId ctx @ [slash],
      js ''organizations/'' @ ctx_organizationId ctx @ js ''/workspaces/'' @ ctx_workspaceId ctx @ [slash]]"

definition bad_object_path :: "jstr \<Rightarrow> bool" where
  "bad_object_path d \<longleftrightarrow> 1024 < utf8_length d \<or> has_prefix [slash] d \<or> 92 \<in> set d \<or>
     hasControlCharacter d \<or>
     list_ex (\<lambda>p. p = [] \<or> p = js ''.'' \<or> p = js ''..'') (split_on slash d)"

definition validateWorkspaceObjectPath ::
    "buckets \<Rightarrow> object_context \<Rightarrow> string \<Rightarrow> jstr \<Rightarrow> exn + jstr" where
  "validateWorkspaceObjectPath bs ctx bucket key =
     (if bucket \<notin> set (allowedBuckets bs) then Inl (BadRequest (JStr ''Unsupported storage bucket''))
      else if 1024 < utf8_length key then Inl (BadRequest (JStr ''Invalid object path''))
      else case decodePathComponent key of Inl e \<Rightarrow> Inl e
       | Inr decoded \<Rightarrow>
          if bad_object_path decoded then Inl (BadRequest (JStr ''Invalid object path''))
          else if \<not> list_ex (\<lambda>p. has_prefix p decoded) (tenantPrefixes ctx)
          then Inl (Forbidden ''Object is outside workspace scope'')
          else Inr decoded)"

section \<open>Requests to the object store\<close>

text \<open>The calls of the MinIO client; the contents are byte strings, the metadata header names
  with values.\<close>

datatype client_call =
    PresignedPut string jstr int
  | PresignedGet string jstr int
  | StatObject string jstr
  | RemoveObject string jstr
  | CopyObject string jstr string jstr
  | PutObject string jstr string "(string \<times> string) list"

definition createSignedUploadUrl where
  "createSignedUploadUrl bs ctx bucket key ttl =
     (case validateWorkspaceObjectPath bs ctx bucket key of Inl e \<Rightarrow> Inl e
      | Inr d \<Rightarrow> Inr (PresignedPut bucket d ttl))"

definition createSignedDownloadUrl where
  "createSignedDownloadUrl bs ctx bucket key ttl =
     (case validateWorkspaceObjectPath bs ctx bucket key of Inl e \<Rightarrow> Inl e
      | Inr d \<Rightarrow> Inr (PresignedGet bucket d ttl))"

definition getObjectMetadata where
  "getObjectMetadata bs ctx bucket key =
     (case validateWorkspaceObjectPath bs ctx bucket key of Inl e \<Rightarrow> Inl e
      | Inr d \<Rightarrow> Inr (StatObject bucket d))"

text \<open>\<open>objectExists\<close> answers whether the metadata request succeeds, refused paths included;
  \<open>answers\<close> is what the store says.\<close>

definition objectExists ::
    "(client_call \<Rightarrow> bool) \<Rightarrow> buckets \<Rightarrow> object_context \<Rightarrow> string \<Rightarrow> jstr \<Rightarrow> bool" where
  "objectExists answers bs ctx bucket key =
     (case getObjectMetadata bs ctx bucket key of Inl _ \<Rightarrow> False | Inr call \<Rightarrow> answers call)"

definition deleteObject where
  "deleteObject bs ctx bucket key =
     (case validateWorkspaceObjectPath bs ctx bucket key of Inl e \<Rightarrow> Inl e
      | Inr d \<Rightarrow> Inr (RemoveObject bucket d))"

definition copyObject where
  "copyObject bs ctx sourceBucket sourceKey targetBucket targetKey =
     (case validateWorkspaceObjectPath bs ctx sourceBucket sourceKey of Inl e \<Rightarrow> Inl e
      | Inr source \<Rightarrow> (case validateWorkspaceObjectPath bs ctx targetBucket targetKey of Inl e \<Rightarrow> Inl e
         | Inr target \<Rightarrow> Inr (CopyObject targetBucket target sourceBucket source)))"

definition storeChecksum ::
    "(string \<Rightarrow> string) \<Rightarrow> buckets \<Rightarrow> object_context \<Rightarrow> string \<Rightarrow> jstr \<Rightarrow> string \<Rightarrow>
     exn + client_call \<times> string" where
  "storeChecksum sha bs ctx bucket key content =
     (case validateWorkspaceObjectPath bs ctx bucket key of Inl e \<Rightarrow> Inl e
      | Inr d \<Rightarrow> Inr (PutObject bucket d content [(''x-amz-meta-checksum-sha256'', sha content)], sha content))"

record stored_object =
  so_bucket :: string
  so_key :: jstr
  so_checksumSha256 :: string
  so_sizeBytes :: nat

definition storeSource ::
    "(string \<Rightarrow> string) \<Rightarrow> buckets \<Rightarrow> object_context \<Rightarrow> jstr \<Rightarrow> string \<Rightarrow> string \<Rightarrow>
     exn + client_call \<times> stored_object" where
  "storeSource sha bs ctx key content mimeType =
     (case validateWorkspaceObjectPath bs ctx (bk_sources bs) key of Inl e \<Rightarrow> Inl e
      | Inr d \<Rightarrow> Inr (PutObject (bk_sources bs) d content
            [(''Content-Type'', mimeType), (''x-amz-meta-checksum-sha256'', sha content)],
          \<lparr> so_bucket = bk_sources bs, so_key = d, so_checksumSha256 = sha content,
            so_sizeBytes = length content \<rparr>))"

definition storeSnapshot ::
    "(string \<Rightarrow> string) \<Rightarrow> buckets \<Rightarrow> object_context \<Rightarrow> jstr \<Rightarrow> jstr \<Rightarrow> int \<Rightarrow> string \<Rightarrow>
     exn + client_call \<times> stored_object" where
  "storeSnapshot sha bs ctx canvasId snapshotId version content =
     (case buildSnapshotObjectPath ctx canvasId snapshotId version of Inl e \<Rightarrow> Inl e
      | Inr key \<Rightarrow> (case validateWorkspaceObjectPath bs ctx (bk_snapshots bs) key of Inl e \<Rightarrow> Inl e
         | Inr d \<Rightarrow> Inr (PutObject (bk_snapshots bs) d content
               [(''Content-Type'', ''application/json''), (''x-amz-meta-checksum-sha256'', sha content)],
             \<lparr> so_bucket = bk_snapshots bs, so_key = d, so_checksumSha256 = sha content,
               so_sizeBytes = length content \<rparr>)))"

end
