(* ===== verification/StorageProps.thy ===== *)
theory StorageProps
  imports Storage
begin

text \<open>
  What the path validation guarantees: an accepted path lies in the scope of one workspace only,
  and the paths the service builds itself are accepted unchanged.
\<close>

section \<open>Splitting and decoding\<close>

lemma split_on_not_Nil [simp]: "split_on c s \<noteq> []"
  by (induction s) (auto split: list.splits)

lemma split_on_append: "c \<notin> set a \<Longrightarrow> split_on c (a @ c # b) = a # split_on c b"
  by (induction a) auto

lemma split_on_free: "c \<notin> set a \<Longrightarrow> split_on c a = [a]"
  by (induction a) auto

lemma split_join: "ps \<noteq> [] \<Longrightarrow> list_all (\<lambda>p. slash \<notin> set p) ps \<Longrightarrow> split_on slash (join_path ps) = ps"
  by (induction ps rule: join_path.induct) (simp_all add: split_on_append split_on_free)

lemma decode_free: "37 \<notin> set s \<Longrightarrow> decode_uri s = Some s"
  by (induction s) auto

lemma utf8_length_ascii: "list_all (\<lambda>c. c < 128) s \<Longrightarrow> utf8_length s = length s"
  by (induction s) auto

lemma decode_times_fix: "decode_times n v = Inr d \<Longrightarrow> decode_uri d = Some d"
  by (induction n v rule: decode_times.induct) (auto split: option.splits if_splits)

lemma has_prefix_iff: "has_prefix p s \<longleftrightarrow> (\<exists>r. s = p @ r)"
  unfolding has_prefix_def by (metis append_eq_conv_conj)

lemma validate_Inr_iff:
  "validateWorkspaceObjectPath bs ctx b k = Inr d \<longleftrightarrow>
   b \<in> set (allowedBuckets bs) \<and> utf8_length k \<le> 1024 \<and> decodePathComponent k = Inr d \<and>
   \<not> bad_object_path d \<and> list_ex (\<lambda>p. has_prefix p d) (tenantPrefixes ctx)"
  by (auto simp: validateWorkspaceObjectPath_def split: sum.splits if_splits)

section \<open>Tenant isolation\<close>

text \<open>An identifier as the database makes them: no slash, and not the word of the new layout.\<close>

definition plain_id :: "jstr \<Rightarrow> bool" where
  "plain_id x \<longleftrightarrow> slash \<notin> set x \<and> x \<noteq> js ''organizations''"

definition plain_context :: "object_context \<Rightarrow> bool" where
  "plain_context ctx \<longleftrightarrow> plain_id (ctx_organizationId ctx) \<and> plain_id (ctx_workspaceId ctx)"

text \<open>Whose object a path is, in the old layout and in the new one.\<close>

definition path_owner :: "jstr \<Rightarrow> object_context option" where
  "path_owner d = (case split_on slash d of
     a # b # rest \<Rightarrow>
       if a = js ''organizations'' then
         (case rest of _ # w # _ \<Rightarrow> Some \<lparr> ctx_organizationId = b, ctx_workspaceId = w \<rparr> | _ \<Rightarrow> None)
       else Some \<lparr> ctx_organizationId = a, ctx_workspaceId = b \<rparr>
   | _ \<Rightarrow> None)"

lemma prefix_owner:
  assumes "plain_context ctx" and "list_ex (\<lambda>p. has_prefix p d) (tenantPrefixes ctx)"
  shows "path_owner d = Some ctx"
proof -
  have *: "js ''organizations/'' = js ''organizations'' @ [slash]"
    "js ''/workspaces/'' = slash # js ''workspaces'' @ [slash]"
    "slash \<notin> set (js ''organizations'')" "slash \<notin> set (js ''workspaces'')"
    by (simp_all add: js_def)
  from assms(2) consider r where "d = ctx_organizationId ctx @ slash # ctx_workspaceId ctx @ slash # r"
    | r where "d = js ''organizations'' @ slash # ctx_organizationId ctx @ slash # js ''workspaces'' @ slash #
        ctx_workspaceId ctx @ slash # r"
    by (auto simp: tenantPrefixes_def has_prefix_iff *)
  then show ?thesis
    using assms(1) *(3,4)
    by cases (simp_all add: path_owner_def split_on_append plain_context_def plain_id_def)
qed

lemma decode_five: "decodePathComponent v = decode_times (Suc (Suc (Suc (Suc (Suc 0))))) v"
  by (simp add: decodePathComponent_def numeral_eq_Suc)

lemma demo_path:
  "validateWorkspaceObjectPath default_buckets \<lparr> ctx_organizationId = js ''o'', ctx_workspaceId = js ''w'' \<rparr>
     ''workspace-temp'' (js ''o/w/%2578'') = Inr (js ''o/w/x'')"
proof -
  have "decodePathComponent (js ''o/w/%2578'') = Inr (js ''o/w/x'')"
    by (simp add: decode_five js_def utf8_point_def utf16_def)
  then show ?thesis
    by (simp add: validate_Inr_iff allowedBuckets_def default_buckets_def js_def bad_object_path_def
        has_prefix_def hasControlCharacter_def tenantPrefixes_def)
qed

text \<open>C14: no object belongs to two workspaces: a path accepted for a workspace, in whatever bucket
  and however encoded it was sent, decodes to one with no empty or dot segment, that needs no
  further decoding, and that is accepted for no other workspace.\<close>

theorem tenant_isolation:
  assumes "validateWorkspaceObjectPath bs c b k = Inr d" and "plain_context c"
  shows "path_owner d = Some c \<and>
    list_all (\<lambda>p. p \<noteq> [] \<and> p \<noteq> js ''.'' \<and> p \<noteq> js ''..'') (split_on slash d) \<and>
    decode_uri d = Some d \<and> utf8_length d \<le> 1024 \<and> b \<in> set (allowedBuckets bs) \<and>
    (plain_context c' \<longrightarrow> validateWorkspaceObjectPath bs' c' b' k' = Inr d \<longrightarrow> c' = c)"
proof -
  note v = assms(1) [unfolded validate_Inr_iff]
  have "path_owner d = Some c" using prefix_owner [OF assms(2)] v by blast
  moreover have "decode_uri d = Some d" using v decode_times_fix by (auto simp: decodePathComponent_def)
  moreover have "c' = c" if "plain_context c'" "validateWorkspaceObjectPath bs' c' b' k' = Inr d"
    using prefix_owner [OF that(1)] that(2) \<open>path_owner d = Some c\<close> by (simp add: validate_Inr_iff)
  ultimately show ?thesis
    using v by (auto simp: bad_object_path_def list_ex_iff list_all_iff)
qed

theorem tenant_isolation_witness:
  "path_owner (js ''o/w/x'') = Some \<lparr> ctx_organizationId = js ''o'', ctx_workspaceId = js ''w'' \<rparr>"
proof -
  have "plain_context \<lparr> ctx_organizationId = js ''o'', ctx_workspaceId = js ''w'' \<rparr>"
    by (simp add: plain_context_def plain_id_def js_def)
  from tenant_isolation [OF demo_path this] show ?thesis by simp
qed

section \<open>Built paths\<close>

definition plain_part :: "jstr \<Rightarrow> bool" where
  "plain_part p \<longleftrightarrow> p \<noteq> [] \<and> p \<noteq> js ''.'' \<and> p \<noteq> js ''..'' \<and>
     list_all (\<lambda>c. 32 \<le> c \<and> c < 127 \<and> c \<noteq> 37 \<and> c \<noteq> slash \<and> c \<noteq> 92) p"

lemma decode_plain: "37 \<notin> set s \<Longrightarrow> decodePathComponent s = Inr s"
  unfolding decodePathComponent_def
  by (simp add: decode_free numeral_eq_Suc)

lemma validate_plain: "plain_part p \<Longrightarrow> validateSegment p = Inr ()"
proof -
  assume p: "plain_part p"
  then have "decodePathComponent p = Inr p"
    by (intro decode_plain) (auto simp: plain_part_def list_all_iff)
  with p show ?thesis
    by (auto simp: validateSegment_def plain_part_def list_all_iff hasControlCharacter_def list_ex_iff)
qed

lemma build_plain: "list_all plain_part ps \<Longrightarrow> build_path ps = Inr (join_path ps)"
proof -
  assume "list_all plain_part ps"
  then have "validateSegments ps = Inr ()" by (induction ps) (simp_all add: validate_plain)
  then show ?thesis by (simp add: build_path_def)
qed

lemma set_join: "set (join_path ps) \<subseteq> insert slash (\<Union> (set ` set ps))"
  by (induction ps rule: join_path.induct) auto

lemma join_chars:
  assumes "list_all plain_part ps"
  shows "list_all (\<lambda>c. 32 \<le> c \<and> c < 127 \<and> c \<noteq> 37 \<and> c \<noteq> 92) (join_path ps)"
  unfolding list_all_iff
proof
  fix c assume "c \<in> set (join_path ps)"
  then consider "c = slash" | p where "p \<in> set ps" "c \<in> set p" using set_join [of ps] by auto
  then show "32 \<le> c \<and> c < 127 \<and> c \<noteq> 37 \<and> c \<noteq> 92"
  proof cases
    case 2
    then have "plain_part p" using assms by (simp add: list_all_iff)
    then show ?thesis using 2(2) by (simp add: plain_part_def list_all_iff)
  qed simp
qed

lemma join_not_rooted:
  "list_all plain_part ps \<Longrightarrow> ps \<noteq> [] \<Longrightarrow> \<not> has_prefix [slash] (join_path ps)"
proof -
  assume "list_all plain_part ps" "ps \<noteq> []"
  then obtain q qs where ps: "ps = q # qs" and q: "plain_part q" by (cases ps) simp_all
  then obtain c p where cp: "q = c # p" by (cases q) (simp_all add: plain_part_def)
  with q have "c \<noteq> slash" by (simp add: plain_part_def)
  then show ?thesis by (cases qs) (simp_all add: ps cp has_prefix_def)
qed

lemma built_accepted:
  assumes "list_all plain_part ps" and "ps \<noteq> []" and "length (join_path ps) \<le> 1024"
    and "b \<in> set (allowedBuckets bs)"
    and "list_ex (\<lambda>p. has_prefix p (join_path ps)) (tenantPrefixes ctx)"
  shows "validateWorkspaceObjectPath bs ctx b (join_path ps) = Inr (join_path ps)"
proof -
  note chars = join_chars [OF assms(1), unfolded list_all_iff]
  have ascii: "utf8_length (join_path ps) = length (join_path ps)"
    using chars by (intro utf8_length_ascii) (auto simp: list_all_iff)
  have "split_on slash (join_path ps) = ps"
    using assms(1,2) by (intro split_join) (auto simp: plain_part_def list_all_iff)
  then have "\<not> bad_object_path (join_path ps)"
    using assms(1-3) chars join_not_rooted
    by (auto simp: bad_object_path_def ascii hasControlCharacter_def list_ex_iff list_all_iff plain_part_def)
  moreover have "decodePathComponent (join_path ps) = Inr (join_path ps)"
    using chars by (intro decode_plain) auto
  ultimately show ?thesis
    using assms(3-5) by (simp add: validate_Inr_iff ascii)
qed

definition source_parts :: "object_context \<Rightarrow> jstr \<Rightarrow> jstr \<Rightarrow> jstr \<Rightarrow> jstr list" where
  "source_parts ctx i v f = [js ''organizations'', ctx_organizationId ctx, js ''workspaces'',
     ctx_workspaceId ctx, js ''sources'', i, js ''versions'', v, f]"

lemma source_prefix:
  "list_ex (\<lambda>p. has_prefix p (join_path (source_parts ctx i v f))) (tenantPrefixes ctx)"
proof -
  have "join_path (source_parts ctx i v f) =
      (js ''organizations/'' @ ctx_organizationId ctx @ js ''/workspaces/'' @ ctx_workspaceId ctx @ [slash]) @
      js ''sources/'' @ i @ js ''/versions/'' @ v @ slash # f"
    by (simp add: source_parts_def js_def)
  then show ?thesis by (auto simp: tenantPrefixes_def has_prefix_iff)
qed

lemma built_source_accepted:
  assumes "list_all plain_part [ctx_organizationId ctx, ctx_workspaceId ctx, i, v, f]"
    and "length (ctx_organizationId ctx) + length (ctx_workspaceId ctx) + length i + length v + length f \<le> 975"
    and "b \<in> set (allowedBuckets bs)"
  shows "buildSourceObjectPath ctx i v f = Inr (join_path (source_parts ctx i v f)) \<and>
    validateWorkspaceObjectPath bs ctx b (join_path (source_parts ctx i v f)) =
      Inr (join_path (source_parts ctx i v f))"
proof -
  have plain: "list_all plain_part (source_parts ctx i v f)"
    using assms(1) by (simp add: source_parts_def plain_part_def js_def)
  have "length (join_path (source_parts ctx i v f)) \<le> 1024"
    using assms(2) by (simp add: source_parts_def js_def)
  then show ?thesis
    using built_accepted [OF plain _ _ assms(3) source_prefix] build_plain [OF plain]
    by (simp add: buildSourceObjectPath_def source_parts_def)
qed

end
