(* ===== verification/FileTypes.thy ===== *)
theory FileTypes
  imports StorageProps
begin

text \<open>
  The checks on uploaded files: \<open>src/modules/documents/utils/document-validation.util.ts\<close> with its
  constants, and \<open>src/modules/sources/source-validation.util.ts\<close>. The contents of a file are
  bytes; \<open>detect\<close> is \<open>fileTypeFromBuffer\<close> of the package \<open>file-type\<close>, and \<open>nfkc\<close> is the Unicode
  normalization of \<open>String.prototype.normalize\<close>; both are parameters.
\<close>

type_synonym bytes = "nat list"

section \<open>Documents\<close>

definition ALLOWED_DOCUMENT_EXTENSIONS :: "(string \<times> string) list" where
  "ALLOWED_DOCUMENT_EXTENSIONS = [(''.txt'', ''text/plain''), (''.pdf'', ''application/pdf''),
     (''.docx'', ''application/vnd.openxmlformats-officedocument.wordprocessingml.document''),
     (''.png'', ''image/png''), (''.jpg'', ''image/jpeg''), (''.jpeg'', ''image/jpeg''),
     (''.webp'', ''image/webp''), (''.mp3'', ''audio/mpeg''), (''.wav'', ''audio/wav''),
     (''.m4a'', ''audio/x-m4a''), (''.md'', ''text/markdown'')]"

definition MAGIC_MIME_EQUIVALENTS :: "(string \<times> string list) list" where
  "MAGIC_MIME_EQUIVALENTS = [(''text/plain'', []), (''application/pdf'', [''application/pdf'']),
     (''application/vnd.openxmlformats-officedocument.wordprocessingml.document'', [''application/zip'']),
     (''image/png'', [''image/png'']), (''image/jpeg'', [''image/jpeg'']), (''image/webp'', [''image/webp'']),
     (''audio/mpeg'', [''audio/mpeg'']),
     (''audio/wav'', [''audio/wav'', ''audio/vnd.wave'', ''audio/x-wav'']),
     (''audio/x-m4a'', [''audio/x-m4a'', ''audio/mp4'', ''video/mp4'']), (''text/markdown'', [])]"

definition ALLOWED_DOCUMENT_MIME_TYPES :: "string list" where
  "ALLOWED_DOCUMENT_MIME_TYPES = [''text/plain'', ''application/pdf'',
     ''application/vnd.openxmlformats-officedocument.wordprocessingml.document'',
     ''image/png'', ''image/jpeg'', ''image/webp'', ''audio/mpeg'', ''audio/wav'', ''audio/x-m4a'',
     ''text/markdown'']"

text \<open>\<open>path.extname\<close>: from the last dot of the last segment on, unless the segment starts with it.\<close>

definition base_name :: "jstr \<Rightarrow> jstr" where
  "base_name s = rev (takeWhile (\<lambda>c. c \<noteq> slash) (dropWhile (\<lambda>c. c = slash) (rev s)))"

definition extname :: "jstr \<Rightarrow> jstr" where
  "extname s = (let b = base_name s; ext = rev (takeWhile (\<lambda>c. c \<noteq> 46) (rev b)) in
     if 46 \<notin> set b \<or> b = js ''..'' \<or> length b = Suc (length ext) then [] else 46 # ext)"

definition lower_unit :: "nat \<Rightarrow> nat" where
  "lower_unit c = (if 65 \<le> c \<and> c \<le> 90 then c + 32 else c)"

text \<open>The extensions of the table are ASCII, so only the ASCII letters matter for the lookup
  (U+212A, which lowers to \<open>k\<close>, occurs in none).\<close>

definition getMimeTypeFromFilename :: "jstr \<Rightarrow> string option" where
  "getMimeTypeFromFilename f =
     map_of (map (\<lambda>(e, t). (js e, t)) ALLOWED_DOCUMENT_EXTENSIONS) (map lower_unit (extname f))"

text \<open>Whether bytes are UTF-8 without U+FFFD, so that the decoded text has no U+FFFD.\<close>

definition cont_byte :: "nat \<Rightarrow> bool" where
  "cont_byte b \<longleftrightarrow> 128 \<le> b \<and> b < 192"

fun clean_utf8 :: "bytes \<Rightarrow> bool" where
  "clean_utf8 [] = True"
| "clean_utf8 (a # s) =
     (if a < 128 then clean_utf8 s
      else case s of
        [] \<Rightarrow> False
      | b # s2 \<Rightarrow>
          if 194 \<le> a \<and> a < 224 then cont_byte b \<and> clean_utf8 s2
          else case s2 of
            [] \<Rightarrow> False
          | c # s3 \<Rightarrow>
              if 224 \<le> a \<and> a < 240 then
                cont_byte b \<and> cont_byte c \<and> (a = 224 \<longrightarrow> 160 \<le> b) \<and> (a = 237 \<longrightarrow> b < 160) \<and>
                \<not> (a = 239 \<and> b = 191 \<and> c = 189) \<and> clean_utf8 s3
              else case s3 of
                [] \<Rightarrow> False
              | d # s4 \<Rightarrow>
                  240 \<le> a \<and> a < 245 \<and> cont_byte b \<and> cont_byte c \<and> cont_byte d \<and>
                  (a = 240 \<longrightarrow> 144 \<le> b) \<and> (a = 244 \<longrightarrow> b < 144) \<and> clean_utf8 s4)"

definition printable :: "nat \<Rightarrow> bool" where
  "printable b \<longleftrightarrow> b = 9 \<or> b = 10 \<or> b = 13 \<or> 32 \<le> b \<and> b \<le> 126"

definition bufferLooksLikeUtf8Text :: "bytes \<Rightarrow> bool" where
  "bufferLooksLikeUtf8Text buffer = (let sample = take 4096 buffer in
     0 \<notin> set sample \<and> clean_utf8 sample \<and>
     85 * max (length sample) 1 \<le> 100 * length (filter printable sample))"

definition validateDocumentMimeType ::
    "(bytes \<Rightarrow> string option) \<Rightarrow> jstr \<Rightarrow> bytes \<Rightarrow> exn + string" where
  "validateDocumentMimeType detect f buffer =
     (case getMimeTypeFromFilename f of
        None \<Rightarrow> Inl (UnsupportedMedia ''File extension is not supported.'')
      | Some ext \<Rightarrow>
          if ext \<notin> set ALLOWED_DOCUMENT_MIME_TYPES then Inl (UnsupportedMedia ''File extension is not supported.'')
          else let mismatch = Inl (UnsupportedMedia (''File content does not match the '' @ ext @ '' extension.''));
                   magic = (case map_of MAGIC_MIME_EQUIVALENTS ext of Some l \<Rightarrow> l | None \<Rightarrow> [])
          in if ext = ''text/plain'' \<or> ext = ''text/markdown'' then
               (case detect buffer of
                  Some mime \<Rightarrow> if mime \<notin> set magic then mismatch else Inr ext
                | None \<Rightarrow> if \<not> bufferLooksLikeUtf8Text buffer then mismatch else Inr ext)
             else (case detect buffer of
                  None \<Rightarrow> Inl (UnsupportedMedia ''Could not verify the uploaded file signature.'')
                | Some mime \<Rightarrow> if mime \<notin> set magic then mismatch else Inr ext))"

section \<open>Sources\<close>

definition MAX_SOURCE_FILE_SIZE_BYTES :: int where
  "MAX_SOURCE_FILE_SIZE_BYTES = 50 * 1024 * 1024"

definition SOURCE_MIME_TYPES :: "string list" where
  "SOURCE_MIME_TYPES = [''text/plain'', ''text/markdown'', ''application/pdf'',
     ''application/vnd.openxmlformats-officedocument.wordprocessingml.document'']"

definition validateSourceMimeType ::
    "(bytes \<Rightarrow> string option) \<Rightarrow> jstr \<Rightarrow> bytes \<Rightarrow> exn + string" where
  "validateSourceMimeType detect f buffer =
     (case validateDocumentMimeType detect f buffer of Inl e \<Rightarrow> Inl e
      | Inr mime \<Rightarrow> if mime \<notin> set SOURCE_MIME_TYPES
          then Inl (UnsupportedMedia ''File type is not supported for source processing.'') else Inr mime)"

definition assertSourceFileSize :: "int \<Rightarrow> exn + unit" where
  "assertSourceFileSize n =
     (if n \<le> 0 \<or> MAX_SOURCE_FILE_SIZE_BYTES < n
      then Inl (BadRequest (JStr (''Source file size must be between 1 and '' @
             int_str MAX_SOURCE_FILE_SIZE_BYTES @ '' bytes.''))) else Inr ())"

definition unicode_space :: "nat \<Rightarrow> bool" where
  "unicode_space c \<longleftrightarrow> c \<in> {9, 10, 11, 12, 13, 32, 160, 5760, 8232, 8233, 8239, 8287, 12288, 65279} \<or>
     8192 \<le> c \<and> c \<le> 8202"

definition trim_units :: "jstr \<Rightarrow> jstr" where
  "trim_units s = rev (dropWhile unicode_space (rev (dropWhile unicode_space s)))"

text \<open>\<open>replace(/[class]+/g, c)\<close>: every maximal run of the class becomes one \<open>c\<close>.\<close>

function replace_runs :: "(nat \<Rightarrow> bool) \<Rightarrow> nat \<Rightarrow> jstr \<Rightarrow> jstr" where
  "replace_runs P c [] = []"
| "replace_runs P c (x # s) =
     (if P x then c # replace_runs P c (dropWhile P s) else x # replace_runs P c s)"
  by pat_completeness auto

termination
  by (relation "measure (\<lambda>(P, c, s). length s)") (auto simp: le_imp_less_Suc length_dropWhile_le)

definition name_unit :: "nat \<Rightarrow> bool" where
  "name_unit c \<longleftrightarrow> 97 \<le> c \<and> c \<le> 122 \<or> 65 \<le> c \<and> c \<le> 90 \<or> 48 \<le> c \<and> c \<le> 57 \<or> c = 46 \<or> c = 95 \<or> c = 45"

text \<open>\<open>replace(/^-|-$/g, "")\<close>: one dash at the start, one at the end.\<close>

definition strip_dashes :: "jstr \<Rightarrow> jstr" where
  "strip_dashes s = (let t = (case s of c # r \<Rightarrow> if c = 45 then r else s | [] \<Rightarrow> [])
     in case rev t of c # r \<Rightarrow> if c = 45 then rev r else t | [] \<Rightarrow> [])"

definition last_units :: "nat \<Rightarrow> jstr \<Rightarrow> jstr" where
  "last_units n s = drop (length s - n) s"

definition invalid_filename :: exn where
  "invalid_filename = BadRequest (JStr ''Source filename is invalid.'')"

definition sanitizeSourceFilename :: "(jstr \<Rightarrow> jstr) \<Rightarrow> jstr \<Rightarrow> exn + jstr" where
  "sanitizeSourceFilename nfkc filename = (let n = trim_units (nfkc filename) in
     if n = [] \<or> n = js ''.'' \<or> n = js ''..'' \<or> has_prefix [slash] n \<or> has_prefix [92] n \<or>
        slash \<in> set n \<or> 92 \<in> set n \<or> hasControlCharacter n
     then Inl invalid_filename
     else let sanitized = strip_dashes (replace_runs (\<lambda>c. c = 45) 45 (replace_runs (\<lambda>c. \<not> name_unit c) 45 n));
              bounded = last_units 255 sanitized
          in if bounded = [] \<or> bounded = js ''.'' \<or> bounded = js ''..'' then Inl invalid_filename
             else Inr bounded)"

section \<open>What is left of a file name\<close>

lemma set_replace_runs: "set (replace_runs P c s) \<subseteq> insert c {x \<in> set s. \<not> P x}"
  by (induction P c s rule: replace_runs.induct) (auto dest: set_dropWhileD)

lemma set_strip: "set (strip_dashes s) \<subseteq> set s"
proof -
  have *: "set (case rev t of c # r \<Rightarrow> if c = 45 then rev r else t | [] \<Rightarrow> []) \<subseteq> set t" for t :: jstr
  proof (cases "rev t")
    case (Cons c r)
    then have "set t = insert c (set r)" by (metis list.simps(15) set_rev)
    with Cons show ?thesis by auto
  qed simp
  show ?thesis
    unfolding strip_dashes_def Let_def
    using * [of "case s of c # r \<Rightarrow> if c = 45 then r else s | [] \<Rightarrow> []"]
    by (cases s) (auto split: if_splits)
qed

lemma set_last_units: "set (last_units n s) \<subseteq> set s" "length (last_units n s) \<le> n"
  by (auto simp: last_units_def dest: in_set_dropD)

lemma sanitized_filename:
  assumes "sanitizeSourceFilename nfkc f = Inr g"
  shows "g \<noteq> []" "g \<noteq> js ''.''" "g \<noteq> js ''..''" "length g \<le> 255" "list_all name_unit g"
proof -
  obtain n where g: "g = last_units 255 (strip_dashes (replace_runs (\<lambda>c. c = 45) 45
      (replace_runs (\<lambda>c. \<not> name_unit c) 45 n)))" and "g \<noteq> []" "g \<noteq> js ''.''" "g \<noteq> js ''..''"
    using assms by (auto simp: sanitizeSourceFilename_def Let_def split: if_splits)
  then show "g \<noteq> []" "g \<noteq> js ''.''" "g \<noteq> js ''..''" by simp_all
  show "length g \<le> 255" using set_last_units(2) g by simp
  have "set g \<subseteq> insert 45 {x. name_unit x}"
    unfolding g
    using set_last_units(1) [of 255] set_strip set_replace_runs [of "\<lambda>c. c = 45" 45]
      set_replace_runs [of "\<lambda>c. \<not> name_unit c" 45 n]
    by blast
  moreover have "name_unit 45" by (simp add: name_unit_def)
  ultimately show "list_all name_unit g" by (auto simp: list_all_iff)
qed

lemma sanitized_plain: "sanitizeSourceFilename nfkc f = Inr g \<Longrightarrow> plain_part g"
  using sanitized_filename [of nfkc f g]
  by (auto simp: plain_part_def list_all_iff name_unit_def)

end
