(* ===== verification/Messaging.thy ===== *)
theory Messaging
  imports Storage "HOL-Library.Char_ord" "HOL-Library.List_Lexorder" "HOL-Library.Multiset"
begin

text \<open>
  The message contracts of \<open>src/core/messaging\<close>: the registry of subjects, the envelope of domain
  events, and the event that requests the processing of a source. \<open>uuid_ok\<close> is \<open>validate\<close> of the
  package \<open>uuid\<close>, \<open>parse_date\<close> is \<open>Date.parse\<close>, whose reading of strings outside the ISO format is
  left to the implementation; both are parameters. Messages are JSON values.
\<close>

section \<open>Subjects\<close>

definition SUBJECT_COMPATIBILITY :: "(string \<times> string) list" where
  "SUBJECT_COMPATIBILITY = [
     (''ai.tasks.new'', ''workspace.ai.task.requested''),
     (''ai.tasks.progress'', ''workspace.ai.task.progress''),
     (''ai.tasks.complete'', ''workspace.ai.task.completed''),
     (''ai.tasks.error'', ''workspace.ai.task.failed''),
     (''ai.tasks.result'', ''workspace.ai.task.completed''),
     (''ai.context.load'', ''workspace.ai.task.requested''),
     (''document.preprocess'', ''workspace.source.process.requested''),
     (''document.preprocess.result'', ''workspace.source.extracted''),
     (''workflow.events.updated'', ''workspace.canvas.analysis.completed''),
     (''session.events.finalized'', ''workspace.ai.task.completed'')]"

definition resolveSubject :: "string \<Rightarrow> string" where
  "resolveSubject s = (case map_of SUBJECT_COMPATIBILITY s of None \<Rightarrow> s | Some t \<Rightarrow> t)"

definition SOURCE_PROCESS_REQUESTED :: string where
  "SOURCE_PROCESS_REQUESTED = ''workspace.source.process.requested''"

section \<open>Checks\<close>

text \<open>A sequence of \<open>if (bad) throw new TypeError(message)\<close>.\<close>

fun checks :: "(bool \<times> string) list \<Rightarrow> exn + unit" where
  "checks [] = Inr ()"
| "checks ((good, message) # cs) = (if good then checks cs else Inl (TypeErr message))"

lemma checks_ok: "checks cs = Inr () \<longleftrightarrow> list_all fst cs"
  by (induction cs rule: checks.induct) simp_all

definition is_string :: "json option \<Rightarrow> bool" where
  "is_string v = (case v of Some (JStr _) \<Rightarrow> True | _ \<Rightarrow> False)"

fun str_of :: "json option \<Rightarrow> string" where
  "str_of (Some (JStr s)) = s"
| "str_of _ = []"

text \<open>\<open>Number.isSafeInteger\<close> and \<open>Number.isInteger\<close>.\<close>

fun is_integer :: "json option \<Rightarrow> bool" where
  "is_integer (Some (JNum x)) = (x = of_int \<lfloor>x\<rfloor>)"
| "is_integer _ = False"

fun int_of :: "json option \<Rightarrow> int" where
  "int_of (Some (JNum x)) = \<lfloor>x\<rfloor>"
| "int_of _ = 0"

definition is_safe_integer :: "json option \<Rightarrow> bool" where
  "is_safe_integer v \<longleftrightarrow> is_integer v \<and> \<bar>int_of v\<bar> \<le> 9007199254740991"

definition is_record :: "json option \<Rightarrow> bool" where
  "is_record v = (case v of Some (JObj _) \<Rightarrow> True | _ \<Rightarrow> False)"

definition control_free :: "string \<Rightarrow> bool" where
  "control_free s \<longleftrightarrow> \<not> hasControlCharacter (js s)"

text \<open>\<open>toISOString\<close>: the civil date of a number of days since the epoch, and the time of day.\<close>

definition civil :: "int \<Rightarrow> int \<times> int \<times> int" where
  "civil days = (let
       z = days + 719468;
       era = z div 146097;
       doe = z mod 146097;
       yoe = (doe - doe div 1460 + doe div 36524 - doe div 146096) div 365;
       doy = doe - (365 * yoe + yoe div 4 - yoe div 100);
       mp = (5 * doy + 2) div 153;
       d = doy - (153 * mp + 2) div 5 + 1;
       m = (if mp < 10 then mp + 3 else mp - 9)
     in (yoe + era * 400 + (if m \<le> 2 then 1 else 0), m, d))"

definition padded :: "nat \<Rightarrow> int \<Rightarrow> string" where
  "padded n i = (let s = nat_str (nat i) in replicate (n - length s) CHR ''0'' @ s)"

definition iso_string :: "time \<Rightarrow> string" where
  "iso_string t = (let (y, m, d) = civil (t div 86400000); r = t mod 86400000 in
     (if 0 \<le> y \<and> y \<le> 9999 then padded 4 y
      else (if y < 0 then ''-'' else ''+'') @ padded 6 \<bar>y\<bar>) @ ''-'' @ padded 2 m @ ''-'' @ padded 2 d @
     ''T'' @ padded 2 (r div 3600000) @ '':'' @ padded 2 (r div 60000 mod 60) @ '':'' @
     padded 2 (r div 1000 mod 60) @ ''.'' @ padded 3 (r mod 1000) @ ''Z'')"

section \<open>Domain events\<close>

record domain_event_input =
  de_eventId :: "string option"
  de_eventType :: string
  de_organizationId :: string
  de_workspaceId :: "string option"
  de_userId :: string
  de_correlationId :: string
  de_causationId :: "string option"
  de_stateVersion :: "int option"
  de_timestamp :: "string option"
  de_payload :: json

text \<open>A spread \<open>...(x ? { k: x } : {})\<close> leaves an empty string out.\<close>

definition given :: "string \<Rightarrow> string option \<Rightarrow> (string \<times> json) list" where
  "given k v = (case v of Some (c # cs) \<Rightarrow> [(k, JStr (c # cs))] | _ \<Rightarrow> [])"

text \<open>\<open>fresh\<close> is the \<open>randomUUID()\<close> and \<open>stamp\<close> the \<open>new Date().toISOString()\<close> of the call.\<close>

definition createDomainEvent :: "string \<Rightarrow> string \<Rightarrow> domain_event_input \<Rightarrow> json" where
  "createDomainEvent fresh stamp i = JObj (
     [(''schemaVersion'', json_int 1),
      (''eventId'', JStr (case de_eventId i of None \<Rightarrow> fresh | Some e \<Rightarrow> e)),
      (''eventType'', JStr (de_eventType i)),
      (''organizationId'', JStr (de_organizationId i))] @
     given ''workspaceId'' (de_workspaceId i) @
     [(''userId'', JStr (de_userId i)), (''correlationId'', JStr (de_correlationId i))] @
     given ''causationId'' (de_causationId i) @
     (case de_stateVersion i of None \<Rightarrow> [] | Some n \<Rightarrow> [(''stateVersion'', json_int n)]) @
     [(''timestamp'', JStr (case de_timestamp i of None \<Rightarrow> stamp | Some t \<Rightarrow> t)),
      (''payload'', de_payload i)])"

definition assertDomainEvent :: "(string \<Rightarrow> time option) \<Rightarrow> json \<Rightarrow> exn + unit" where
  "assertDomainEvent parse_date value =
     (if \<not> is_obj value then Inl (TypeErr ''Domain event must be an object'')
      else checks (
        map (\<lambda>k. (is_string (get_prop value k) \<and> str_of (get_prop value k) \<noteq> [],
                   ''Domain event '' @ k @ '' must be a non-empty string''))
          [''eventId'', ''eventType'', ''organizationId'', ''userId'', ''correlationId'', ''timestamp''] @
        [(is_integer (get_prop value ''schemaVersion'') \<and> 1 \<le> int_of (get_prop value ''schemaVersion''),
          ''Domain event schemaVersion must be a positive integer''),
         (is_record (get_prop value ''payload''), ''Domain event payload must be an object''),
         (parse_date (str_of (get_prop value ''timestamp'')) \<noteq> None,
          ''Domain event timestamp must be ISO-8601 compatible'')]))"

section \<open>The request to process a source\<close>

definition SOURCE_PROCESS_MIME_TYPES :: "string list" where
  "SOURCE_PROCESS_MIME_TYPES = [''text/plain'', ''text/markdown'', ''application/pdf'',
     ''application/vnd.openxmlformats-officedocument.wordprocessingml.document'']"

record source_process_input =
  sp_eventId :: "string option"
  sp_occurredAt :: "string option"
  sp_organizationId :: string
  sp_workspaceId :: string
  sp_projectId :: "string option"
  sp_correlationId :: string
  sp_causationId :: "string option"
  sp_actorType :: string
  sp_actorId :: string
  sp_sourceId :: string
  sp_sourceVersionId :: string
  sp_storageBucket :: string
  sp_storageKey :: string
  sp_filename :: string
  sp_mimeType :: string
  sp_sizeBytes :: int
  sp_checksumSha256 :: string

definition TOP_LEVEL_FIELDS :: "string list" where
  "TOP_LEVEL_FIELDS = [''event_id'', ''event_type'', ''occurred_at'', ''organization_id'', ''workspace_id'',
     ''project_id'', ''correlation_id'', ''causation_id'', ''actor'', ''payload'']"

definition ACTOR_FIELDS :: "string list" where
  "ACTOR_FIELDS = [''type'', ''id'']"

definition PAYLOAD_FIELDS :: "string list" where
  "PAYLOAD_FIELDS = [''source_id'', ''source_version_id'', ''storage_bucket'', ''storage_key'', ''filename'',
     ''mime_type'', ''size_bytes'', ''checksum_sha256'']"

text \<open>\<open>assertExactFields\<close> compares the sorted keys.\<close>

definition exact_fields :: "json option \<Rightarrow> string list \<Rightarrow> bool" where
  "exact_fields v names \<longleftrightarrow>
     sort (map fst (case v of Some j \<Rightarrow> obj_fields j | None \<Rightarrow> [])) = sort names"

text \<open>\<open>/(?:Z|[+-]\d{2}:\d{2})$/i\<close>.\<close>

definition digit :: "char \<Rightarrow> bool" where
  "digit c = ((of_char c :: nat) \<in> {48..57})"

definition zoned :: "string \<Rightarrow> bool" where
  "zoned s = (case rev s of
     c # cs \<Rightarrow> c = CHR ''Z'' \<or> c = CHR ''z'' \<or>
       (case cs of c2 # c3 # c4 # c5 # c6 # _ \<Rightarrow>
          digit c \<and> digit c2 \<and> c3 = CHR '':'' \<and> digit c4 \<and> digit c5 \<and> (c6 = CHR ''+'' \<or> c6 = CHR ''-'')
        | _ \<Rightarrow> False)
   | [] \<Rightarrow> False)"

definition hex_digest :: "string \<Rightarrow> bool" where
  "hex_digest s \<longleftrightarrow> length s = 64 \<and>
     list_all (\<lambda>c. (of_char c :: nat) \<in> {48..57} \<union> {97..102}) s"

definition expected_key :: "string \<Rightarrow> string \<Rightarrow> string \<Rightarrow> string \<Rightarrow> string \<Rightarrow> string" where
  "expected_key org ws source version file =
     ''organizations/'' @ org @ ''/workspaces/'' @ ws @ ''/sources/'' @ source @ ''/versions/'' @ version @
     ''/'' @ file"

definition filename_ok :: "json option \<Rightarrow> bool" where
  "filename_ok v \<longleftrightarrow> is_string v \<and> (let f = str_of v in
     f \<noteq> [] \<and> utf8_length (js f) \<le> 255 \<and> f \<noteq> ''.'' \<and> f \<noteq> ''..'' \<and>
     CHR ''/'' \<notin> set f \<and> char_of (92 :: nat) \<notin> set f \<and> control_free f)"

definition payload_checks :: "(string \<Rightarrow> bool) \<Rightarrow> json \<Rightarrow> (bool \<times> string) list" where
  "payload_checks uuid_ok event = (let
       p = get_prop event ''payload'';
       f = (\<lambda>k. get_prop (the p) k);
       uuid = (\<lambda>v. is_string v \<and> uuid_ok (str_of v));
       key = expected_key (str_of (get_prop event ''organization_id''))
         (str_of (get_prop event ''workspace_id'')) (str_of (f ''source_id'')) (str_of (f ''source_version_id''))
         (str_of (f ''filename''))
     in [(is_record p, ''payload must be an object''),
      (exact_fields p PAYLOAD_FIELDS, ''payload fields do not match the canonical contract''),
      (uuid (f ''source_id''), ''payload.source_id must be a UUID''),
      (uuid (f ''source_version_id''), ''payload.source_version_id must be a UUID''),
      (f ''storage_bucket'' = Some (JStr ''workspace-sources''),
       ''payload.storage_bucket must be workspace-sources''),
      (filename_ok (f ''filename''), ''payload.filename must be a safe non-empty filename''),
      (is_string (f ''storage_key'') \<and> str_of (f ''storage_key'') \<noteq> [],
       ''payload.storage_key must be a non-empty string''),
      (utf8_length (js (str_of (f ''storage_key''))) \<le> 1024,
       ''payload.storage_key must be at most 1024 UTF-8 bytes''),
      (str_of (f ''storage_key'') = key,
       ''payload.storage_key must exactly match the canonical tenant source path''),
      (is_string (f ''mime_type'') \<and> str_of (f ''mime_type'') \<in> set SOURCE_PROCESS_MIME_TYPES,
       ''payload.mime_type is not supported''),
      (is_safe_integer (f ''size_bytes'') \<and> 0 \<le> int_of (f ''size_bytes''),
       ''payload.size_bytes must be a non-negative safe integer''),
      (is_string (f ''checksum_sha256'') \<and> hex_digest (str_of (f ''checksum_sha256'')),
       ''payload.checksum_sha256 must be a lowercase SHA-256 hex digest'')])"

definition envelope_checks ::
    "(string \<Rightarrow> bool) \<Rightarrow> (string \<Rightarrow> time option) \<Rightarrow> json \<Rightarrow> (bool \<times> string) list" where
  "envelope_checks uuid_ok parse_date event = (let
       f = get_prop event;
       uuid = (\<lambda>v. is_string v \<and> uuid_ok (str_of v));
       a = f ''actor'';
       g = (\<lambda>k. get_prop (the a) k)
     in [(is_obj event, ''Source processing event must be an object''),
      (exact_fields (Some event) TOP_LEVEL_FIELDS,
       ''Source processing event fields do not match the canonical contract''),
      (uuid (f ''event_id''), ''event_id must be a UUID''),
      (f ''event_type'' = Some (JStr SOURCE_PROCESS_REQUESTED),
       ''event_type must be '' @ SOURCE_PROCESS_REQUESTED),
      (is_string (f ''occurred_at'') \<and> parse_date (str_of (f ''occurred_at'')) \<noteq> None \<and>
         zoned (str_of (f ''occurred_at'')),
       ''occurred_at must be timezone-aware ISO-8601''),
      (uuid (f ''organization_id''), ''organization_id must be a UUID''),
      (uuid (f ''workspace_id''), ''workspace_id must be a UUID''),
      (f ''project_id'' = Some JNull \<or> uuid (f ''project_id''), ''project_id must be a UUID''),
      (uuid (f ''correlation_id''), ''correlation_id must be a UUID''),
      (f ''causation_id'' = Some JNull \<or> uuid (f ''causation_id''), ''causation_id must be a UUID''),
      (is_record a, ''actor must be an object''),
      (exact_fields a ACTOR_FIELDS, ''actor fields do not match the canonical contract''),
      (g ''type'' = Some (JStr ''user'') \<or> g ''type'' = Some (JStr ''service''),
       ''actor.type must be user or service''),
      (is_string (g ''id'') \<and> str_of (g ''id'') \<noteq> [] \<and> length (str_of (g ''id'')) \<le> 255,
       ''actor.id must be a non-empty string of at most 255 characters'')])"

definition assertSourceProcessRequestedEvent ::
    "(string \<Rightarrow> bool) \<Rightarrow> (string \<Rightarrow> time option) \<Rightarrow> json \<Rightarrow> exn + unit" where
  "assertSourceProcessRequestedEvent uuid_ok parse_date event =
     checks (envelope_checks uuid_ok parse_date event @ payload_checks uuid_ok event)"

definition source_process_event :: "string \<Rightarrow> string \<Rightarrow> source_process_input \<Rightarrow> json" where
  "source_process_event fresh stamp i = JObj [
     (''event_id'', JStr (case sp_eventId i of None \<Rightarrow> fresh | Some e \<Rightarrow> e)),
     (''event_type'', JStr SOURCE_PROCESS_REQUESTED),
     (''occurred_at'', JStr (case sp_occurredAt i of None \<Rightarrow> stamp | Some t \<Rightarrow> t)),
     (''organization_id'', JStr (sp_organizationId i)),
     (''workspace_id'', JStr (sp_workspaceId i)),
     (''project_id'', json_str_opt (sp_projectId i)),
     (''correlation_id'', JStr (sp_correlationId i)),
     (''causation_id'', json_str_opt (sp_causationId i)),
     (''actor'', JObj [(''type'', JStr (sp_actorType i)), (''id'', JStr (sp_actorId i))]),
     (''payload'', JObj [
        (''source_id'', JStr (sp_sourceId i)),
        (''source_version_id'', JStr (sp_sourceVersionId i)),
        (''storage_bucket'', JStr (sp_storageBucket i)),
        (''storage_key'', JStr (sp_storageKey i)),
        (''filename'', JStr (sp_filename i)),
        (''mime_type'', JStr (sp_mimeType i)),
        (''size_bytes'', json_int (sp_sizeBytes i)),
        (''checksum_sha256'', JStr (sp_checksumSha256 i))])]"

definition createSourceProcessRequestedEvent ::
    "(string \<Rightarrow> bool) \<Rightarrow> (string \<Rightarrow> time option) \<Rightarrow> string \<Rightarrow> string \<Rightarrow> source_process_input \<Rightarrow> exn + json" where
  "createSourceProcessRequestedEvent uuid_ok parse_date fresh stamp i =
     (let event = source_process_event fresh stamp i
      in case assertSourceProcessRequestedEvent uuid_ok parse_date event of
           Inl e \<Rightarrow> Inl e | Inr _ \<Rightarrow> Inr event)"

section \<open>What the contract accepts\<close>

lemma zoned_iso: "zoned (iso_string t)"
  by (simp add: zoned_def iso_string_def Let_def split: prod.split)

lemma checks_append_ok: "checks (a @ b) = Inr () \<longleftrightarrow> checks a = Inr () \<and> checks b = Inr ()"
  by (simp add: checks_ok)

lemma sum_unit: "(x :: exn + unit) \<noteq> Inr () \<longleftrightarrow> (\<exists>e. x = Inl e)"
  by (cases x) auto

text \<open>The fields of a created event are always the canonical ones; what is left to check are the
  values.\<close>

definition contract_ok ::
    "(string \<Rightarrow> bool) \<Rightarrow> (string \<Rightarrow> time option) \<Rightarrow> string \<Rightarrow> string \<Rightarrow> source_process_input \<Rightarrow> bool" where
  "contract_ok uuid_ok parse_date fresh stamp i \<longleftrightarrow>
     (let t = (case sp_occurredAt i of None \<Rightarrow> stamp | Some t \<Rightarrow> t) in
      uuid_ok (case sp_eventId i of None \<Rightarrow> fresh | Some e \<Rightarrow> e) \<and> parse_date t \<noteq> None \<and> zoned t) \<and>
     uuid_ok (sp_organizationId i) \<and> uuid_ok (sp_workspaceId i) \<and>
     (case sp_projectId i of None \<Rightarrow> True | Some p \<Rightarrow> uuid_ok p) \<and> uuid_ok (sp_correlationId i) \<and>
     (case sp_causationId i of None \<Rightarrow> True | Some p \<Rightarrow> uuid_ok p) \<and>
     sp_actorType i \<in> {''user'', ''service''} \<and> sp_actorId i \<noteq> [] \<and> length (sp_actorId i) \<le> 255 \<and>
     uuid_ok (sp_sourceId i) \<and> uuid_ok (sp_sourceVersionId i) \<and>
     sp_storageBucket i = ''workspace-sources'' \<and> filename_ok (Some (JStr (sp_filename i))) \<and>
     utf8_length (js (sp_storageKey i)) \<le> 1024 \<and>
     sp_storageKey i = expected_key (sp_organizationId i) (sp_workspaceId i) (sp_sourceId i)
       (sp_sourceVersionId i) (sp_filename i) \<and>
     sp_mimeType i \<in> set SOURCE_PROCESS_MIME_TYPES \<and>
     0 \<le> sp_sizeBytes i \<and> sp_sizeBytes i \<le> 9007199254740991 \<and> hex_digest (sp_checksumSha256 i)"

lemma expected_key_not_Nil: "expected_key a b c d e \<noteq> []"
  by (simp add: expected_key_def)

lemma envelope_iff:
  "checks (envelope_checks uuid_ok parse_date (source_process_event fresh stamp i)) = Inr () \<longleftrightarrow>
   (let t = (case sp_occurredAt i of None \<Rightarrow> stamp | Some t \<Rightarrow> t) in
    uuid_ok (case sp_eventId i of None \<Rightarrow> fresh | Some e \<Rightarrow> e) \<and> parse_date t \<noteq> None \<and> zoned t) \<and>
   uuid_ok (sp_organizationId i) \<and> uuid_ok (sp_workspaceId i) \<and>
   (case sp_projectId i of None \<Rightarrow> True | Some p \<Rightarrow> uuid_ok p) \<and> uuid_ok (sp_correlationId i) \<and>
   (case sp_causationId i of None \<Rightarrow> True | Some p \<Rightarrow> uuid_ok p) \<and>
   sp_actorType i \<in> {''user'', ''service''} \<and> sp_actorId i \<noteq> [] \<and> length (sp_actorId i) \<le> 255"
  by (simp add: checks_ok envelope_checks_def source_process_event_def Let_def get_prop_def
      exact_fields_def TOP_LEVEL_FIELDS_def ACTOR_FIELDS_def is_string_def is_record_def
      split: option.split)

lemma payload_iff:
  "checks (payload_checks uuid_ok (source_process_event fresh stamp i)) = Inr () \<longleftrightarrow>
   uuid_ok (sp_sourceId i) \<and> uuid_ok (sp_sourceVersionId i) \<and>
   sp_storageBucket i = ''workspace-sources'' \<and> filename_ok (Some (JStr (sp_filename i))) \<and>
   utf8_length (js (sp_storageKey i)) \<le> 1024 \<and>
   sp_storageKey i = expected_key (sp_organizationId i) (sp_workspaceId i) (sp_sourceId i)
     (sp_sourceVersionId i) (sp_filename i) \<and>
   sp_mimeType i \<in> set SOURCE_PROCESS_MIME_TYPES \<and>
   0 \<le> sp_sizeBytes i \<and> sp_sizeBytes i \<le> 9007199254740991 \<and> hex_digest (sp_checksumSha256 i)"
  by (auto simp: checks_ok payload_checks_def source_process_event_def Let_def get_prop_def
      exact_fields_def PAYLOAD_FIELDS_def is_string_def is_record_def is_safe_integer_def
      expected_key_not_Nil)

lemma assert_source_event:
  "assertSourceProcessRequestedEvent uuid_ok parse_date (source_process_event fresh stamp i) = Inr () \<longleftrightarrow>
   contract_ok uuid_ok parse_date fresh stamp i"
  by (simp only: assertSourceProcessRequestedEvent_def checks_append_ok envelope_iff payload_iff
      contract_ok_def Let_def conj_assoc)

lemma create_source_event:
  "createSourceProcessRequestedEvent uuid_ok parse_date fresh stamp i = Inr j \<longleftrightarrow>
   contract_ok uuid_ok parse_date fresh stamp i \<and> j = source_process_event fresh stamp i"
  using assert_source_event [of uuid_ok parse_date fresh stamp i]
  by (auto simp: createSourceProcessRequestedEvent_def Let_def split: sum.split)

end
