(* ===== verification/Sources.thy ===== *)
theory Sources
  imports FileTypes Messaging Outbox
begin

text \<open>
  Uploaded sources and their processing: \<open>SourcesService.upload\<close>, the verification of internal
  service tokens, and \<open>SourceLifecycleService\<close>, which takes the events of the document worker.
  The parameters of the environment (packages, the object store, signature checks) are fields of
  the state that no operation changes.
\<close>

section \<open>Entities\<close>

datatype SourceKind = DOCUMENT

datatype SourceStatus = PENDING | PROCESSING | EXTRACTED | INDEXED | FAILED

datatype SourceProcessingStatus = PENDING | PROCESSING | EXTRACTED | INDEXED | FAILED

record source =
  src_id :: uuid
  src_organizationId :: uuid
  src_workspaceId :: uuid
  src_projectId :: "uuid option"
  src_name :: string
  src_kind :: SourceKind
  src_status :: SourceStatus
  src_currentVersionId :: "uuid option"
  src_createdBy :: uuid
  src_createdAt :: time
  src_updatedAt :: time
  src_deletedAt :: "time option"

record source_version =
  sv_id :: uuid
  sv_sourceId :: uuid
  sv_organizationId :: uuid
  sv_workspaceId :: uuid
  sv_versionNumber :: int
  sv_storageBucket :: string
  sv_storageKey :: string
  sv_filename :: string
  sv_mimeType :: string
  sv_sizeBytes :: int
  sv_checksumSha256 :: string
  sv_processingStatus :: SourceProcessingStatus
  sv_extractedAt :: "time option"
  sv_indexedAt :: "time option"
  sv_failureCode :: "string option"
  sv_failureMessage :: "string option"
  sv_createdBy :: uuid
  sv_createdAt :: time
  sv_updatedAt :: time

record source_lifecycle_event =
  sle_eventId :: uuid
  sle_eventType :: string
  sle_organizationId :: uuid
  sle_workspaceId :: uuid
  sle_sourceId :: uuid
  sle_sourceVersionId :: uuid
  sle_tokenJti :: string
  sle_createdAt :: time

text \<open>The claims of a verified token; a \<open>jti\<close> that is not a string is \<open>None\<close>; \<open>exp\<close> is in seconds.\<close>

record internal_claims =
  ic_service :: string
  ic_organizationId :: string
  ic_workspaceId :: "string option"
  ic_correlationId :: string
  ic_allowedActions :: "string list"
  ic_jti :: "string option"
  ic_taskId :: "string option"
  ic_exp :: int

text \<open>
  \<open>verify_jwt secret issuer audience token\<close> is \<open>JwtService.verifyAsync\<close>, \<open>None\<close> when it rejects.
  \<open>store_accepts n call\<close> tells whether the object store carries out \<open>call\<close> when it is the call after \<open>n\<close>
  others; a call that it does not carry out rejects with an error.
\<close>

record environment =
  uuid_ok :: "string \<Rightarrow> bool"
  parse_date :: "string \<Rightarrow> time option"
  detect_type :: "bytes \<Rightarrow> string option"
  normalize :: "jstr \<Rightarrow> jstr"
  verify_jwt :: "string \<Rightarrow> string \<Rightarrow> string \<Rightarrow> string \<Rightarrow> internal_claims option"
  auth_issuer :: string
  auth_secrets :: "string list"
  auth_services :: "string list"
  bucket_names :: buckets
  store_accepts :: "nat \<Rightarrow> client_call \<Rightarrow> bool"

record sources_state = outbox_state +
  env :: environment
  projects :: "(uuid \<times> uuid) list" \<comment> \<open>id and organization\<close>
  sources :: "source list"
  source_versions :: "source_version list"
  receipts :: "source_lifecycle_event list"
  store_calls :: "client_call list"

interpretation source_repo:
  keyed_store src_id "find_row src_id" "save_row src_id" "remove_row src_id" set "keyed src_id"
  by (rule keyed_store_rows) simp_all

interpretation source_version_repo:
  keyed_store sv_id "find_row sv_id" "save_row sv_id" "remove_row sv_id" set "keyed sv_id"
  by (rule keyed_store_rows) simp_all

section \<open>Internal tokens\<close>

text \<open>\<open>InternalServiceTokenService.verify\<close>: the current secret, then the previous one.\<close>

fun first_claims ::
    "environment \<Rightarrow> string \<Rightarrow> string \<Rightarrow> string list \<Rightarrow> internal_claims option" where
  "first_claims e token audience [] = None"
| "first_claims e token audience (secret # rest) =
     (case verify_jwt e secret (auth_issuer e) audience token of
        Some c \<Rightarrow> Some c | None \<Rightarrow> first_claims e token audience rest)"

definition verify_token :: "string \<Rightarrow> string \<Rightarrow> ('z sources_state_scheme, internal_claims) action" where
  "verify_token token audience =
     await (reads env) (\<lambda>e.
     await (some_or_throw (first_claims e token audience (filter (\<lambda>s. s \<noteq> []) (auth_secrets e)))
              (Unauthorized ''Invalid internal service token'')) (\<lambda>c.
     await (require (ic_service c \<in> set (auth_services e)) (Unauthorized ''Invalid internal service token''))
       (\<lambda>_. ok c)))"

section \<open>Uploads\<close>

record upload_file =
  uf_originalname :: jstr
  uf_buffer :: bytes
  uf_size :: int

record upload_response =
  ur_sourceId :: uuid
  ur_sourceVersionId :: uuid
  ur_versionNumber :: int
  ur_status :: SourceProcessingStatus
  ur_filename :: string
  ur_mimeType :: string
  ur_sizeBytes :: int
  ur_checksumSha256 :: string
  ur_createdAt :: time

definition lift :: "exn + 'a \<Rightarrow> ('s, 'a) action" where
  "lift r = (case r of Inl e \<Rightarrow> throw e | Inr x \<Rightarrow> ok x)"

definition unjs :: "jstr \<Rightarrow> string" where "unjs s = map char_of s"

definition context_of :: "uuid \<Rightarrow> uuid \<Rightarrow> object_context" where
  "context_of org ws = \<lparr> ctx_organizationId = js org, ctx_workspaceId = js ws \<rparr>"

definition ask_store :: "client_call \<Rightarrow> ('z sources_state_scheme, unit) action" where
  "ask_store call =
     await (reads (\<lambda>s. store_accepts (env s) (length (store_calls s)) call)) (\<lambda>accepted.
     await (writes (store_calls_update (\<lambda>l. l @ [call]))) (\<lambda>_.
     require accepted (PlainError ''Object store unavailable'')))"

definition put_source ::
    "object_context \<Rightarrow> jstr \<Rightarrow> string \<Rightarrow> string \<Rightarrow> ('z sources_state_scheme, stored_object) action" where
  "put_source ctx key content mime =
     await (reads (\<lambda>s. storeSource (sha256 s) (bucket_names (env s)) ctx key content mime)) (\<lambda>r.
     await (lift r) (\<lambda>(call, stored).
     await (ask_store call) (\<lambda>_. ok stored)))"

text \<open>The removal after a failure; a failure of the removal, by a path that is refused or by the store,
  is caught and only logged, and the object stays.\<close>

definition remove_source :: "object_context \<Rightarrow> stored_object \<Rightarrow> ('z sources_state_scheme, unit) action" where
  "remove_source ctx stored =
     try_catch
       (await (reads (\<lambda>s. deleteObject (bucket_names (env s)) ctx (so_bucket stored) (so_key stored))) (\<lambda>r.
        await (lift r) ask_store))
       (\<lambda>_. ok ())"

text \<open>The objects that the store holds after these calls, bucket and key, when it held none before.\<close>

fun call_effect :: "client_call \<Rightarrow> (string \<times> jstr) set \<Rightarrow> (string \<times> jstr) set" where
  "call_effect (PutObject b k c h) held = insert (b, k) held"
| "call_effect (RemoveObject b k) held = held - {(b, k)}"
| "call_effect (CopyObject b k b' k') held = (if (b, k) \<in> held then insert (b', k') held else held)"
| "call_effect _ held = held"

fun held_after ::
    "(nat \<Rightarrow> client_call \<Rightarrow> bool) \<Rightarrow> nat \<Rightarrow> client_call list \<Rightarrow> (string \<times> jstr) set \<Rightarrow> (string \<times> jstr) set" where
  "held_after accepts n [] held = held"
| "held_after accepts n (c # cs) held =
     held_after accepts (Suc n) cs (if accepts n c then call_effect c held else held)"

definition objects_held :: "'z sources_state_scheme \<Rightarrow> (string \<times> jstr) set" where
  "objects_held s = held_after (store_accepts (env s)) 0 (store_calls s) {}"

definition insert_source :: "source \<Rightarrow> ('z sources_state_scheme, unit) action" where
  "insert_source r =
     await (reads (\<lambda>s. src_id r \<notin> src_id ` set (sources s))) (\<lambda>fresh.
     await (require fresh (QueryFailed ''source_pkey'')) (\<lambda>_.
     writes (sources_update (\<lambda>l. l @ [r]))))"

definition insert_source_version :: "source_version \<Rightarrow> ('z sources_state_scheme, unit) action" where
  "insert_source_version v =
     await (reads source_versions) (\<lambda>rows.
     await (require (sv_id v \<notin> sv_id ` set rows) (QueryFailed ''source_version_pkey'')) (\<lambda>_.
     await (require (\<not> list_ex (\<lambda>r. sv_storageBucket r = sv_storageBucket v \<and>
              sv_storageKey r = sv_storageKey v) rows) (QueryFailed ''uq_source_version_storage'')) (\<lambda>_.
     writes (source_versions_update (\<lambda>l. l @ [v])))))"

definition upload_event ::
    "uuid \<Rightarrow> uuid \<Rightarrow> uuid option \<Rightarrow> string \<Rightarrow> uuid \<Rightarrow> source_version \<Rightarrow> source_process_input" where
  "upload_event eventId workspaceId projectId correlationId userId v = \<lparr> sp_eventId = Some eventId,
     sp_occurredAt = None, sp_organizationId = sv_organizationId v, sp_workspaceId = workspaceId,
     sp_projectId = projectId, sp_correlationId = correlationId, sp_causationId = None,
     sp_actorType = ''user'', sp_actorId = userId, sp_sourceId = sv_sourceId v,
     sp_sourceVersionId = sv_id v, sp_storageBucket = sv_storageBucket v,
     sp_storageKey = sv_storageKey v, sp_filename = sv_filename v, sp_mimeType = sv_mimeType v,
     sp_sizeBytes = sv_sizeBytes v, sp_checksumSha256 = sv_checksumSha256 v \<rparr>"

definition upload_transaction ::
    "uuid \<Rightarrow> uuid option \<Rightarrow> string \<Rightarrow> uuid \<Rightarrow> source_version \<Rightarrow>
     ('z sources_state_scheme, upload_response) action" where
  "upload_transaction workspaceId projectId correlationId userId v = transaction (
     await current_time (\<lambda>t.
     let source = \<lparr> src_id = sv_sourceId v, src_organizationId = sv_organizationId v,
           src_workspaceId = workspaceId, src_projectId = projectId, src_name = sv_filename v, src_kind = DOCUMENT,
           src_status = SourceStatus.PENDING, src_currentVersionId = None, src_createdBy = userId,
           src_createdAt = t, src_updatedAt = t, src_deletedAt = None \<rparr>
     in await (insert_source source) (\<lambda>_.
        await (insert_source_version (v\<lparr>sv_createdAt := t, sv_updatedAt := t\<rparr>)) (\<lambda>_.
        await (writes (sources_update (save_row src_id (source\<lparr>src_currentVersionId := Some (sv_id v)\<rparr>)))) (\<lambda>_.
        await gen_uuid (\<lambda>eventId.
        await (reads (\<lambda>s. createSourceProcessRequestedEvent (uuid_ok (env s)) (parse_date (env s))
                 eventId (iso_string (now s))
                 (upload_event eventId workspaceId projectId correlationId userId v))) (\<lambda>r.
        await (lift r) (\<lambda>event.
        await (outbox_create \<lparr> oi_aggregateType = ''source'', oi_aggregateId = sv_sourceId v,
                 oi_eventType = SOURCE_PROCESS_REQUESTED, oi_payload = event,
                 oi_correlationId = correlationId \<rparr>
               \<lparr> oo_eventId = Some eventId, oo_eventIdField = Some Event_id \<rparr>) (\<lambda>_.
        ok \<lparr> ur_sourceId = sv_sourceId v, ur_sourceVersionId = sv_id v,
             ur_versionNumber = sv_versionNumber v, ur_status = SourceProcessingStatus.PENDING,
             ur_filename = sv_filename v, ur_mimeType = sv_mimeType v, ur_sizeBytes = sv_sizeBytes v,
             ur_checksumSha256 = sv_checksumSha256 v, ur_createdAt = t \<rparr>)))))))))"

definition upload ::
    "uuid \<Rightarrow> uuid option \<Rightarrow> upload_file option \<Rightarrow> string \<Rightarrow> uuid \<Rightarrow> uuid \<Rightarrow>
     ('z sources_state_scheme, upload_response) action" where
  "upload workspaceId projectId file correlationId userId orgId =
     await (requireEditor userId workspaceId orgId) (\<lambda>_.
     await (some_or_throw file (BadRequest (JStr
              ''A multipart file is required under the \"file\" field.''))) (\<lambda>f.
     let sizeBytes = int (length (uf_buffer f)) in
     await (lift (assertSourceFileSize sizeBytes)) (\<lambda>_.
     await (require (uf_size f = sizeBytes) (BadRequest (JStr
              ''Source file size metadata is inconsistent''))) (\<lambda>_.
     await (reads env) (\<lambda>e.
     await (lift (validateSourceMimeType (detect_type e) (uf_originalname f) (uf_buffer f))) (\<lambda>mime.
     await (lift (sanitizeSourceFilename (normalize e) (uf_originalname f))) (\<lambda>filename.
     await (reads (\<lambda>s. case projectId of Some (c # cs) \<Rightarrow> (c # cs, orgId) \<in> set (projects s) | _ \<Rightarrow> True))
       (\<lambda>projectExists.
     await (require projectExists (NotFound ''Project not found'')) (\<lambda>_.
     await (require (uuid_ok e correlationId) (BadRequest (JStr ''Correlation ID must be a UUID''))) (\<lambda>_.
     await gen_uuid (\<lambda>sourceId.
     await gen_uuid (\<lambda>sourceVersionId.
     let ctx = context_of orgId workspaceId in
     await (lift (buildSourceObjectPath ctx (js sourceId) (js sourceVersionId) filename)) (\<lambda>key.
     await (put_source ctx key (unjs (uf_buffer f)) mime) (\<lambda>stored.
     try_catch
       (await (require (so_bucket stored = ''workspace-sources'') (BadRequest (JStr
                ''Source storage bucket must be workspace-sources''))) (\<lambda>_.
        upload_transaction workspaceId projectId correlationId userId
          \<lparr> sv_id = sourceVersionId, sv_sourceId = sourceId, sv_organizationId = orgId,
            sv_workspaceId = workspaceId, sv_versionNumber = 1, sv_storageBucket = so_bucket stored,
            sv_storageKey = unjs (so_key stored), sv_filename = unjs filename, sv_mimeType = mime,
            sv_sizeBytes = sizeBytes, sv_checksumSha256 = so_checksumSha256 stored,
            sv_processingStatus = SourceProcessingStatus.PENDING, sv_extractedAt = None, sv_indexedAt = None,
            sv_failureCode = None, sv_failureMessage = None, sv_createdBy = userId, sv_createdAt = 0,
            sv_updatedAt = 0 \<rparr>))
       (\<lambda>err. await (remove_source ctx stored) (\<lambda>_. throw err))))))))))))))))"

section \<open>Lifecycle events\<close>

datatype SourceLifecycleKind = Processing | Extracted | Indexed | Failed

fun kind_str :: "SourceLifecycleKind \<Rightarrow> string" where
  "kind_str Processing = ''processing''"
| "kind_str Extracted = ''extracted''"
| "kind_str Indexed = ''indexed''"
| "kind_str Failed = ''failed''"

definition lifecycle_subject :: "SourceLifecycleKind \<Rightarrow> string" where
  "lifecycle_subject k = ''workspace.source.'' @ kind_str k"

fun statusFor :: "SourceLifecycleKind \<Rightarrow> SourceProcessingStatus" where
  "statusFor Processing = SourceProcessingStatus.PROCESSING"
| "statusFor Extracted = SourceProcessingStatus.EXTRACTED"
| "statusFor Indexed = SourceProcessingStatus.INDEXED"
| "statusFor Failed = SourceProcessingStatus.FAILED"

fun sourceStatusFor :: "SourceLifecycleKind \<Rightarrow> SourceStatus" where
  "sourceStatusFor Processing = SourceStatus.PROCESSING"
| "sourceStatusFor Extracted = SourceStatus.EXTRACTED"
| "sourceStatusFor Indexed = SourceStatus.INDEXED"
| "sourceStatusFor Failed = SourceStatus.FAILED"

text \<open>\<open>order.indexOf\<close>, which is -1 for \<open>FAILED\<close>.\<close>

fun order_index :: "SourceProcessingStatus \<Rightarrow> int" where
  "order_index SourceProcessingStatus.PENDING = 0"
| "order_index SourceProcessingStatus.PROCESSING = 1"
| "order_index SourceProcessingStatus.EXTRACTED = 2"
| "order_index SourceProcessingStatus.INDEXED = 3"
| "order_index SourceProcessingStatus.FAILED = -1"

datatype TransitionOutcome = Changed | Ignored | Retry

definition transition :: "SourceLifecycleKind \<Rightarrow> SourceProcessingStatus \<Rightarrow> TransitionOutcome" where
  "transition kind current = (let desired = statusFor kind in
     if current = desired then Ignored
     else if kind = Failed then
       (if current = SourceProcessingStatus.FAILED \<or> current = SourceProcessingStatus.INDEXED
        then Ignored else Changed)
     else if current = SourceProcessingStatus.FAILED then Ignored
     else if order_index desired < order_index current then Ignored
     else if order_index desired > order_index current + 1 then Retry
     else Changed)"

definition str_or :: "string \<Rightarrow> json option \<Rightarrow> string" where
  "str_or d v = (case v of Some (JStr s) \<Rightarrow> s | _ \<Rightarrow> d)"

definition applyTransition ::
    "SourceLifecycleKind \<Rightarrow> source \<Rightarrow> source_version \<Rightarrow> json \<Rightarrow> time option \<Rightarrow>
     TransitionOutcome \<times> source \<times> source_version" where
  "applyTransition kind source version payload timestamp =
     (if src_currentVersionId source \<noteq> Some (sv_id version) then (Ignored, source, version)
      else case transition kind (sv_processingStatus version) of
        Ignored \<Rightarrow> (Ignored, source, version)
      | Retry \<Rightarrow> (Retry, source, version)
      | Changed \<Rightarrow> (Changed, source\<lparr>src_status := sourceStatusFor kind\<rparr>,
          let v = version\<lparr>sv_processingStatus := statusFor kind\<rparr> in
          (case kind of
             Extracted \<Rightarrow> v\<lparr>sv_extractedAt := timestamp\<rparr>
           | Indexed \<Rightarrow> v\<lparr>sv_indexedAt := timestamp\<rparr>
           | Failed \<Rightarrow> v\<lparr>
               sv_failureCode := Some (take 100 (str_or ''SOURCE_PROCESSING_FAILED'' (get_prop payload ''errorCode''))),
               sv_failureMessage := Some (take 1000 (str_or ''Source processing failed'' (get_prop payload ''errorMessage'')))\<rparr>
           | Processing \<Rightarrow> v)))"

definition assertReceiptScope ::
    "source_lifecycle_event \<Rightarrow> source_lifecycle_event \<Rightarrow> ('s, unit) action" where
  "assertReceiptScope receipt scope =
     require (sle_eventType receipt = sle_eventType scope \<and>
              sle_organizationId receipt = sle_organizationId scope \<and>
              sle_workspaceId receipt = sle_workspaceId scope \<and>
              sle_sourceId receipt = sle_sourceId scope \<and>
              sle_sourceVersionId receipt = sle_sourceVersionId scope)
       (PlainError ''Source lifecycle event ID scope mismatch'')"

text \<open>A sequence of \<open>if (bad) throw new Error(message)\<close>.\<close>

fun plain_checks :: "(bool \<times> string) list \<Rightarrow> exn + unit" where
  "plain_checks [] = Inr ()"
| "plain_checks ((good, message) # cs) = (if good then plain_checks cs else Inl (PlainError message))"

definition json_uuid :: "(string \<Rightarrow> bool) \<Rightarrow> json option \<Rightarrow> bool" where
  "json_uuid valid v \<longleftrightarrow> is_string v \<and> valid (str_of v)"

definition payload_fields :: "string list" where
  "payload_fields = [''sourceId'', ''sourceVersionId'', ''internalToken'', ''projectId'', ''actor'',
     ''chunkCount'', ''indexedCount'', ''deliveryCount'', ''errorCode'', ''errorMessage'']"

definition actor_valid :: "json \<Rightarrow> bool" where
  "actor_valid a \<longleftrightarrow> is_obj a \<and>
     (get_prop a ''type'' = Some (JStr ''user'') \<or> get_prop a ''type'' = Some (JStr ''service'')) \<and>
     is_string (get_prop a ''id'') \<and> str_of (get_prop a ''id'') \<noteq> [] \<and>
     list_all (\<lambda>f. fst f = ''type'' \<or> fst f = ''id'') (obj_fields a)"

definition payload_valid :: "(string \<Rightarrow> bool) \<Rightarrow> json \<Rightarrow> (bool \<times> string) list" where
  "payload_valid valid p =
     [(list_all (\<lambda>f. fst f \<in> set payload_fields) (obj_fields p),
       ''Source lifecycle payload contains an unknown field''),
      (is_string (get_prop p ''internalToken'') \<and> str_of (get_prop p ''internalToken'') \<noteq> [],
       ''Source lifecycle event requires internalToken''),
      (get_prop p ''projectId'' = None \<or> get_prop p ''projectId'' = Some JNull \<or>
         json_uuid valid (get_prop p ''projectId''), ''Source lifecycle projectId must be a UUID''),
      (case get_prop p ''actor'' of None \<Rightarrow> True | Some a \<Rightarrow> actor_valid a,
       ''Source lifecycle actor is invalid'')] @
     map (\<lambda>k. (case get_prop p k of None \<Rightarrow> True
                 | v \<Rightarrow> is_safe_integer v \<and> 0 \<le> int_of v,
                ''Source lifecycle '' @ k @ '' must be a non-negative integer''))
       [''chunkCount'', ''indexedCount'', ''deliveryCount''] @
     map (\<lambda>k. (case get_prop p k of None \<Rightarrow> True | v \<Rightarrow> is_string v,
                ''Source lifecycle '' @ k @ '' must be a string''))
       [''errorCode'', ''errorMessage'']"

definition event_valid ::
    "(string \<Rightarrow> bool) \<Rightarrow> SourceLifecycleKind \<Rightarrow> json \<Rightarrow> (bool \<times> string) list" where
  "event_valid valid kind event = (let p = the (get_prop event ''payload'') in
     [(get_prop event ''eventType'' = Some (JStr (lifecycle_subject kind)),
       ''Source lifecycle event type mismatch''),
      (get_prop event ''workspaceId'' \<noteq> None \<and> get_prop event ''workspaceId'' \<noteq> Some JNull \<and>
         get_prop event ''workspaceId'' \<noteq> Some (JStr []) \<and>
         get_prop event ''workspaceId'' \<noteq> Some (JNum 0) \<and> get_prop event ''workspaceId'' \<noteq> Some (JBool False),
       ''Source lifecycle event requires workspace scope''),
      (json_uuid valid (get_prop event ''eventId''), ''Source lifecycle eventId must be a UUID''),
      (json_uuid valid (get_prop event ''organizationId''), ''Source lifecycle organizationId must be a UUID''),
      (json_uuid valid (get_prop event ''workspaceId''), ''Source lifecycle workspaceId must be a UUID''),
      (json_uuid valid (get_prop p ''sourceId''), ''Source lifecycle sourceId must be a UUID''),
      (json_uuid valid (get_prop p ''sourceVersionId''), ''Source lifecycle sourceVersionId must be a UUID'')] @
     payload_valid valid p)"

definition scope_of :: "json \<Rightarrow> source_lifecycle_event" where
  "scope_of event = (let p = the (get_prop event ''payload'') in
     \<lparr> sle_eventId = str_of (get_prop event ''eventId''), sle_eventType = str_of (get_prop event ''eventType''),
       sle_organizationId = str_of (get_prop event ''organizationId''),
       sle_workspaceId = str_of (get_prop event ''workspaceId''), sle_sourceId = str_of (get_prop p ''sourceId''),
       sle_sourceVersionId = str_of (get_prop p ''sourceVersionId''), sle_tokenJti = [], sle_createdAt = 0 \<rparr>)"

definition claims_valid :: "SourceLifecycleKind \<Rightarrow> json \<Rightarrow> internal_claims \<Rightarrow> (bool \<times> string) list" where
  "claims_valid kind event c =
     [(ic_service c = ''document-worker'' \<and>
         get_prop event ''organizationId'' = Some (JStr (ic_organizationId c)) \<and>
         get_prop event ''workspaceId'' = map_option JStr (ic_workspaceId c) \<and>
         get_prop event ''correlationId'' = Some (JStr (ic_correlationId c)) \<and>
         ''source.'' @ kind_str kind \<in> set (ic_allowedActions c),
       ''Source lifecycle event authorization mismatch''),
      (case ic_jti c of None \<Rightarrow> False | Some j \<Rightarrow> j \<noteq> [] \<and> length j \<le> 255,
       ''Source lifecycle token jti is invalid'')]"

definition save_receipt :: "source_lifecycle_event \<Rightarrow> ('z sources_state_scheme, unit) action" where
  "save_receipt r =
     await (reads receipts) (\<lambda>rows.
     await (require (\<not> list_ex (\<lambda>x. sle_tokenJti x = sle_tokenJti r \<and> sle_eventId x \<noteq> sle_eventId r) rows)
              (QueryFailed ''uq_source_lifecycle_token_jti'')) (\<lambda>_.
     writes (receipts_update (save_row sle_eventId r))))"

definition find_source :: "source_lifecycle_event \<Rightarrow> 'z sources_state_scheme \<Rightarrow> source option" where
  "find_source sc s = find (\<lambda>x. src_id x = sle_sourceId sc \<and> src_organizationId x = sle_organizationId sc \<and>
     src_workspaceId x = sle_workspaceId sc \<and> src_deletedAt x = None) (sources s)"

definition find_source_version :: "source_lifecycle_event \<Rightarrow> 'z sources_state_scheme \<Rightarrow> source_version option" where
  "find_source_version sc s = find (\<lambda>x. sv_id x = sle_sourceVersionId sc \<and> sv_sourceId x = sle_sourceId sc \<and>
     sv_organizationId x = sle_organizationId sc \<and> sv_workspaceId x = sle_workspaceId sc) (source_versions s)"

definition lifecycle_transaction ::
    "SourceLifecycleKind \<Rightarrow> json \<Rightarrow> string \<Rightarrow> ('z sources_state_scheme, source option) action" where
  "lifecycle_transaction kind event jti = transaction (let sc = scope_of event in
     await (reads (\<lambda>s. find_row sle_eventId (sle_eventId sc) (receipts s))) (\<lambda>raced.
     case raced of
       Some r \<Rightarrow> await (assertReceiptScope r sc) (\<lambda>_. ok None)
     | None \<Rightarrow>
       await (reads (find_source sc)) (\<lambda>source.
       await (reads (find_source_version sc)) (\<lambda>version.
       case (source, version) of
         (Some x, Some v) \<Rightarrow>
           await (reads (\<lambda>s. parse_date (env s) (str_of (get_prop event ''timestamp'')))) (\<lambda>t.
           let (outcome, x', v') = applyTransition kind x v (the (get_prop event ''payload'')) t in
           await (require (outcome \<noteq> Retry)
                    (PlainError ''Source lifecycle event arrived before its prerequisite'')) (\<lambda>_.
           await current_time (\<lambda>t2.
           await (save_receipt (sc\<lparr>sle_tokenJti := jti, sle_createdAt := t2\<rparr>)) (\<lambda>_.
           if outcome = Changed then
             await (writes (source_versions_update (save_row sv_id (v'\<lparr>sv_updatedAt := t2\<rparr>)))) (\<lambda>_.
             await (writes (sources_update (save_row src_id (x'\<lparr>src_updatedAt := t2\<rparr>)))) (\<lambda>_.
             ok (Some x')))
           else ok None))))
       | _ \<Rightarrow> ok None))))"

definition notification :: "SourceLifecycleKind \<Rightarrow> json \<Rightarrow> json" where
  "notification kind event = JObj (
     put_field ''correlationId'' (the (get_prop event ''correlationId''))
       (put_field ''status'' (JStr (kind_str kind))
         (filter (\<lambda>f. fst f \<noteq> ''internalToken'') (obj_fields (the (get_prop event ''payload''))))))"

definition handle :: "SourceLifecycleKind \<Rightarrow> json \<Rightarrow> ('z sources_state_scheme, unit) action" where
  "handle kind event =
     await (reads env) (\<lambda>e.
     await (lift (assertDomainEvent (parse_date e) event)) (\<lambda>_.
     await (lift (plain_checks (event_valid (uuid_ok e) kind event))) (\<lambda>_.
     await (reads (\<lambda>s. find_row sle_eventId (str_of (get_prop event ''eventId'')) (receipts s))) (\<lambda>existing.
     case existing of
       Some r \<Rightarrow> assertReceiptScope r (scope_of event)
     | None \<Rightarrow>
       await (verify_token (str_of (get_prop (the (get_prop event ''payload'')) ''internalToken''))
                ''nestjs-platform'') (\<lambda>claims.
       await (lift (plain_checks (claims_valid kind event claims))) (\<lambda>_.
       await (lifecycle_transaction kind event (the (ic_jti claims))) (\<lambda>outcome.
       case outcome of
         None \<Rightarrow> ok ()
       | Some x \<Rightarrow>
           await (emit_to_room (''workspace:'' @ str_of (get_prop event ''workspaceId''))
                    (''source.'' @ kind_str kind) (notification kind event)) (\<lambda>_.
           emit_to_room (room_user (src_createdBy x)) (''source.'' @ kind_str kind)
             (notification kind event))))))))) "

end
