(* ===== verification/SourcesProps.thy ===== *)
theory SourcesProps
  imports Sources
begin

text \<open>
  Correctness of the ingestion of sources: the processing status is a state machine that never
  goes back, a source and its version always agree, an event that is delivered again has no
  effect, and an upload leaves either everything or nothing behind.
\<close>

section \<open>The processing status as a state machine\<close>

fun status_rank :: "SourceProcessingStatus \<Rightarrow> nat" where
  "status_rank SourceProcessingStatus.PENDING = 0"
| "status_rank SourceProcessingStatus.PROCESSING = 1"
| "status_rank SourceProcessingStatus.EXTRACTED = 2"
| "status_rank SourceProcessingStatus.INDEXED = 3"
| "status_rank SourceProcessingStatus.FAILED = 4"

instantiation SourceProcessingStatus :: linorder
begin

definition less_eq_SourceProcessingStatus :: "SourceProcessingStatus \<Rightarrow> SourceProcessingStatus \<Rightarrow> bool" where
  "less_eq_SourceProcessingStatus a b \<longleftrightarrow> status_rank a \<le> status_rank b"

definition less_SourceProcessingStatus :: "SourceProcessingStatus \<Rightarrow> SourceProcessingStatus \<Rightarrow> bool" where
  "less_SourceProcessingStatus a b \<longleftrightarrow> status_rank a < status_rank b"

instance
proof
  fix a b :: SourceProcessingStatus
  assume "a \<le> b" "b \<le> a"
  then have "status_rank a = status_rank b" by (simp add: less_eq_SourceProcessingStatus_def)
  then show "a = b" by (cases a; cases b) simp_all
qed (auto simp: less_eq_SourceProcessingStatus_def less_SourceProcessingStatus_def)

end

definition source_fsm_step :: "SourceProcessingStatus \<Rightarrow> SourceLifecycleKind \<Rightarrow> SourceProcessingStatus option" where
  "source_fsm_step a k = (if transition k a = Changed then Some (statusFor k) else None)"

definition source_fsm_can :: "SourceProcessingStatus \<Rightarrow> SourceProcessingStatus \<Rightarrow> bool" where
  "source_fsm_can a b \<longleftrightarrow> list_ex (\<lambda>k. source_fsm_step a k = Some b) [Processing, Extracted, Indexed, Failed]"

interpretation src_fsm: ranked_fsm source_fsm_step source_fsm_can
proof unfold_locales
  fix a b e
  show "source_fsm_can a b \<longleftrightarrow> (\<exists>e. source_fsm_step a e = Some b)"
    unfolding source_fsm_can_def by simp (metis SourceLifecycleKind.exhaust)
  show "source_fsm_step a e = Some b \<Longrightarrow> a < b"
    by (cases a; cases e) (auto simp: source_fsm_step_def transition_def less_SourceProcessingStatus_def)
qed

lemma terminal_status:
  "a = SourceProcessingStatus.INDEXED \<or> a = SourceProcessingStatus.FAILED \<Longrightarrow> transition k a \<noteq> Changed"
  by (cases k) (auto simp: transition_def)

section \<open>What a lifecycle event does\<close>

definition same_tables :: "'z sources_state_scheme \<Rightarrow> 'z sources_state_scheme \<Rightarrow> bool" where
  "same_tables s t \<longleftrightarrow> sources t = sources s \<and> source_versions t = source_versions s \<and>
     receipts t = receipts s"

lemma save_receipt_Inr:
  "save_receipt r s = (Inr x, t) \<Longrightarrow>
   t = s\<lparr>receipts := save_row sle_eventId r (receipts s)\<rparr> \<and>
   \<not> list_ex (\<lambda>x. sle_tokenJti x = sle_tokenJti r \<and> sle_eventId x \<noteq> sle_eventId r) (receipts s)"
  by (auto simp: save_receipt_def action_Inr)

lemma assertReceiptScope_Inr:
  "assertReceiptScope r sc s = (Inr x, t) \<Longrightarrow> t = s"
  by (auto simp: assertReceiptScope_def action_Inr)

text \<open>A successful run of the transaction: nothing, a receipt, or a receipt with a transition.\<close>

definition receipt_of :: "json \<Rightarrow> string \<Rightarrow> time \<Rightarrow> source_lifecycle_event" where
  "receipt_of event jti t = (scope_of event)\<lparr>sle_tokenJti := jti, sle_createdAt := t\<rparr>"

lemma lifecycle_Inr:
  assumes "lifecycle_transaction kind event jti s = (Inr out, t)"
    and "find_row sle_eventId (sle_eventId (scope_of event)) (receipts s) = None"
  obtains "out = None" "t = s" "find_source (scope_of event) s = None \<or> find_source_version (scope_of event) s = None"
  | x v o' x' v' where "find_source (scope_of event) s = Some x"
      "find_source_version (scope_of event) s = Some v"
      "applyTransition kind x v (the (get_prop event ''payload''))
         (parse_date (env s) (str_of (get_prop event ''timestamp''))) = (o', x', v')" "o' \<noteq> Retry"
      "\<not> list_ex (\<lambda>r. sle_tokenJti r = jti \<and> sle_eventId r \<noteq> sle_eventId (scope_of event)) (receipts s)"
      "out = (if o' = Changed then Some x' else None)"
      "t = (if o' = Changed then s\<lparr>receipts := save_row sle_eventId (receipt_of event jti (now s)) (receipts s),
              source_versions := save_row sv_id (v'\<lparr>sv_updatedAt := now s\<rparr>) (source_versions s),
              sources := save_row src_id (x'\<lparr>src_updatedAt := now s\<rparr>) (sources s)\<rparr>
            else s\<lparr>receipts := save_row sle_eventId (receipt_of event jti (now s)) (receipts s)\<rparr>)"
proof (cases "find_source (scope_of event) s")
  case None
  then have "out = None" "t = s"
    using assms by (auto simp: lifecycle_transaction_def Let_def action_Inr split: option.splits)
  with None that(1) show thesis by blast
next
  case (Some x)
  note x = Some
  show thesis
  proof (cases "find_source_version (scope_of event) s")
    case None
    then have "out = None" "t = s"
      using assms x by (auto simp: lifecycle_transaction_def Let_def action_Inr split: option.splits)
    with None that(1) show thesis by blast
  next
    case (Some v)
    obtain o' x' v' where a: "applyTransition kind x v (the (get_prop event ''payload''))
         (parse_date (env s) (str_of (get_prop event ''timestamp''))) = (o', x', v')"
      by (rule prod_cases3)
    show thesis
      by (rule that(2) [OF x Some a])
         (use assms x Some a in \<open>auto simp: lifecycle_transaction_def Let_def action_Inr current_time_run
            receipt_of_def split: if_splits dest!: save_receipt_Inr\<close>)
  qed
qed

lemma reads_lift [read_intros]: "reads_only (lift r)"
  by (simp add: lift_def reads_only_ok reads_only_throw split: sum.split)

lemma lift_Inr_iff: "lift r s = (Inr x, t) \<longleftrightarrow> r = Inr x \<and> t = s"
  by (auto simp: lift_def action_Inr split: sum.splits)

lemma reads_verify_token [read_intros]: "reads_only (verify_token token audience)"
  unfolding verify_token_def by (intro read_intros)

lemma reads_assertReceiptScope [read_intros]: "reads_only (assertReceiptScope r sc)"
  unfolding assertReceiptScope_def by (rule read_intros)

lemma lifecycle_Inl: "lifecycle_transaction kind event jti s = (Inl e, t) \<Longrightarrow> t = s"
  unfolding lifecycle_transaction_def by (rule transaction_Inl)

text \<open>What one event may do to the tables.\<close>

definition event_effect ::
    "SourceLifecycleKind \<Rightarrow> json \<Rightarrow> 'z sources_state_scheme \<Rightarrow> 'z sources_state_scheme \<Rightarrow> bool" where
  "event_effect kind event s t \<longleftrightarrow> same_tables s t \<or>
     (\<exists>jti u. \<exists>out. find_row sle_eventId (sle_eventId (scope_of event)) (receipts s) = None \<and>
        plain_checks (event_valid (uuid_ok (env s)) kind event) = Inr () \<and>
        assertDomainEvent (parse_date (env s)) event = Inr () \<and>
        lifecycle_transaction kind event jti s = (Inr out, u) \<and> same_tables u t)"

lemma emit_effect: "event_effect kind event s t \<Longrightarrow> event_effect kind event s (snd (emit_to_room a b c t))"
  by (auto simp: event_effect_def same_tables_def emit_to_room_run)

lemma emit_Inr: "fst (emit_to_room a b c t) = Inr ()"
  by (simp add: emit_to_room_run)

lemma scope_event_id [simp]: "sle_eventId (scope_of event) = str_of (get_prop event ''eventId'')"
  by (simp add: scope_of_def Let_def)

lemma handle_effect: "leaves (event_effect kind event s) (handle kind event) s"
proof -
  have same: "event_effect kind event s s" by (simp add: event_effect_def same_tables_def)
  show ?thesis
    unfolding handle_def
  proof (rule leaves_guard, rule read_intros, rule same,
      rule leaves_guard, rule read_intros, rule same,
      rule leaves_guard, rule read_intros, rule same,
      rule leaves_guard, rule read_intros, rule same)
    fix e a b existing
    assume e: "reads env s = (Inr e, s)"
      and a: "lift (assertDomainEvent (parse_date e) event) s = (Inr a, s)"
      and b: "lift (plain_checks (event_valid (uuid_ok e) kind event)) s = (Inr b, s)"
      and x: "reads (\<lambda>s. find_row sle_eventId (str_of (get_prop event ''eventId'')) (receipts s)) s = (Inr existing, s)"
    show "leaves (event_effect kind event s) (case existing of
       Some r \<Rightarrow> assertReceiptScope r (scope_of event)
     | None \<Rightarrow>
       await (verify_token (str_of (get_prop (the (get_prop event ''payload'')) ''internalToken''))
                ''nestjs-platform'') (\<lambda>claims.
       await (lift (plain_checks (claims_valid kind event claims))) (\<lambda>_.
       await (lifecycle_transaction kind event (the (ic_jti claims))) (\<lambda>outcome.
       case outcome of
         None \<Rightarrow> ok ()
       | Some x \<Rightarrow>
           await (emit_to_room (''workspace:'' @ str_of (get_prop event ''workspaceId''))
                    (''source.'' @ kind_str kind) (notification kind event)) (\<lambda>_.
           emit_to_room (room_user (src_createdBy x)) (''source.'' @ kind_str kind)
             (notification kind event)))))) s"
    proof (cases existing)
      case (Some r)
      have "reads_only (assertReceiptScope r (scope_of event) :: ('a sources_state_scheme, unit) action)"
        by (rule read_intros)
      then show ?thesis using same Some by (simp add: leaves_def reads_only_def)
    next
      case None
      have tx: "event_effect kind event s t"
        if "lifecycle_transaction kind event jti s = (Inr out, u)" "same_tables u t" for jti out u t
        using that None x a b e by (auto simp: event_effect_def reads_run lift_Inr_iff)
      show ?thesis
        unfolding None option.case
      proof (rule leaves_guard, rule read_intros, rule same,
          rule leaves_guard, rule read_intros, rule same)
        fix claims
        show "leaves (event_effect kind event s) (await (lifecycle_transaction kind event (the (ic_jti claims))) (\<lambda>outcome.
             case outcome of
               None \<Rightarrow> ok ()
             | Some x \<Rightarrow>
                 await (emit_to_room (''workspace:'' @ str_of (get_prop event ''workspaceId''))
                          (''source.'' @ kind_str kind) (notification kind event)) (\<lambda>_.
                 emit_to_room (room_user (src_createdBy x)) (''source.'' @ kind_str kind)
                   (notification kind event)))) s"
        proof (cases "lifecycle_transaction kind event (the (ic_jti claims)) s")
          case (Pair r u)
          show ?thesis
          proof (cases r)
            case (Inl err)
            have "u = s" by (rule lifecycle_Inl [OF Pair [unfolded Inl]])
            show ?thesis
              unfolding leaves_def await_run Pair Inl prod.case sum.case snd_conv \<open>u = s\<close> by (rule same)
          next
            case (Inr out)
            have u: "event_effect kind event s u"
              using tx [of _ out u u] Pair Inr by (simp add: same_tables_def)
            show ?thesis
            proof (cases out)
              case None
              show ?thesis
                unfolding leaves_def await_run Pair Inr None prod.case sum.case option.case ok_run snd_conv by (rule u)
            next
              case (Some x)
              show ?thesis
                unfolding leaves_def await_run Pair Inr Some prod.case sum.case option.case emit_to_room_run snd_conv
                using emit_effect [OF emit_effect [OF u]] by (simp add: emit_to_room_run)
            qed
          qed
        qed
      qed
    qed
  qed
qed

section \<open>The invariant of the tables\<close>

fun as_source :: "SourceProcessingStatus \<Rightarrow> SourceStatus" where
  "as_source SourceProcessingStatus.PENDING = SourceStatus.PENDING"
| "as_source SourceProcessingStatus.PROCESSING = SourceStatus.PROCESSING"
| "as_source SourceProcessingStatus.EXTRACTED = SourceStatus.EXTRACTED"
| "as_source SourceProcessingStatus.INDEXED = SourceStatus.INDEXED"
| "as_source SourceProcessingStatus.FAILED = SourceStatus.FAILED"

text \<open>The dates and the failure of a version are those of its status.\<close>

definition version_ok :: "source_version \<Rightarrow> bool" where
  "version_ok v \<longleftrightarrow> (case sv_processingStatus v of
     SourceProcessingStatus.PENDING \<Rightarrow> sv_extractedAt v = None \<and> sv_indexedAt v = None \<and> sv_failureCode v = None \<and> sv_failureMessage v = None
   | SourceProcessingStatus.PROCESSING \<Rightarrow> sv_extractedAt v = None \<and> sv_indexedAt v = None \<and> sv_failureCode v = None \<and> sv_failureMessage v = None
   | SourceProcessingStatus.EXTRACTED \<Rightarrow> sv_extractedAt v \<noteq> None \<and> sv_indexedAt v = None \<and> sv_failureCode v = None \<and> sv_failureMessage v = None
   | SourceProcessingStatus.INDEXED \<Rightarrow> sv_extractedAt v \<noteq> None \<and> sv_indexedAt v \<noteq> None \<and> sv_failureCode v = None \<and> sv_failureMessage v = None
   | SourceProcessingStatus.FAILED \<Rightarrow> sv_indexedAt v = None \<and>
       (\<exists>c m. sv_failureCode v = Some c \<and> length c \<le> 100 \<and> sv_failureMessage v = Some m \<and> length m \<le> 1000))"

definition agrees :: "source \<Rightarrow> source_version \<Rightarrow> bool" where
  "agrees x v \<longleftrightarrow> src_currentVersionId x = Some (sv_id v) \<and> sv_sourceId v = src_id x \<and>
     sv_organizationId v = src_organizationId x \<and> sv_workspaceId v = src_workspaceId x \<and>
     src_status x = as_source (sv_processingStatus v) \<and> version_ok v"

definition sources_inv :: "'z sources_state_scheme \<Rightarrow> bool" where
  "sources_inv s \<longleftrightarrow> keyed src_id (sources s) \<and> keyed sv_id (source_versions s) \<and>
     keyed sle_eventId (receipts s) \<and> distinct (map sle_tokenJti (receipts s)) \<and>
     list_all2 agrees (sources s) (source_versions s)"

lemma version_ok_times [simp]:
  "version_ok (v\<lparr>sv_createdAt := t\<rparr>) = version_ok v" "version_ok (v\<lparr>sv_updatedAt := t\<rparr>) = version_ok v"
  by (cases "sv_processingStatus v"; simp add: version_ok_def)+

lemma applied:
  assumes "applyTransition kind x v p ts = (Changed, x', v')"
  shows "src_currentVersionId x = Some (sv_id v)" "transition kind (sv_processingStatus v) = Changed"
    "x' = x\<lparr>src_status := sourceStatusFor kind\<rparr>" "sv_processingStatus v' = statusFor kind"
    "sv_id v' = sv_id v" "sv_sourceId v' = sv_sourceId v" "sv_organizationId v' = sv_organizationId v"
    "sv_workspaceId v' = sv_workspaceId v"
    "version_ok v \<Longrightarrow> ts \<noteq> None \<Longrightarrow> version_ok v'"
proof -
  have a: "src_currentVersionId x = Some (sv_id v)" "transition kind (sv_processingStatus v) = Changed"
    using assms by (auto simp: applyTransition_def split: TransitionOutcome.splits if_splits)
  show "src_currentVersionId x = Some (sv_id v)" "transition kind (sv_processingStatus v) = Changed"
    by (fact a)+
  note b = assms [unfolded applyTransition_def, simplified a, simplified]
  show "x' = x\<lparr>src_status := sourceStatusFor kind\<rparr>" "sv_processingStatus v' = statusFor kind"
    "sv_id v' = sv_id v" "sv_sourceId v' = sv_sourceId v" "sv_organizationId v' = sv_organizationId v"
    "sv_workspaceId v' = sv_workspaceId v"
    using b by (auto simp: Let_def split: SourceLifecycleKind.splits)
  show "version_ok v \<Longrightarrow> ts \<noteq> None \<Longrightarrow> version_ok v'"
    using a(2) b
    by (cases kind; cases "sv_processingStatus v") (auto simp: Let_def version_ok_def transition_def)
qed

lemma agrees_applied:
  assumes "applyTransition kind x v p ts = (Changed, x', v')" and "agrees x v" and "ts \<noteq> None"
  shows "agrees (x'\<lparr>src_updatedAt := t\<rparr>) (v'\<lparr>sv_updatedAt := t'\<rparr>)"
proof -
  have "sourceStatusFor kind = as_source (statusFor kind)" by (cases kind) simp_all
  then show ?thesis
    using applied [OF assms(1)] assms(2,3) by (simp add: agrees_def)
qed

lemma agrees_save:
  assumes "keyed src_id xs" and "keyed sv_id vs" and "list_all2 agrees xs vs"
    and "x \<in> set xs" and "v \<in> set vs" and "src_currentVersionId x = Some (sv_id v)"
    and "sv_sourceId v = src_id x"
    and "src_id x' = src_id x" and "sv_id v' = sv_id v" and "agrees x v \<Longrightarrow> agrees x' v'"
  shows "list_all2 agrees (save_row src_id x' xs) (save_row sv_id v' vs)"
proof -
  have x: "save_row src_id x' xs = map (\<lambda>y. if src_id y = src_id x' then x' else y) xs"
    using assms(1,4,8) by (intro save_row_map) auto
  have v: "save_row sv_id v' vs = map (\<lambda>y. if sv_id y = sv_id v' then v' else y) vs"
    using assms(2,5,9) by (intro save_row_map) auto
  have "agrees (if src_id y = src_id x' then x' else y) (if sv_id w = sv_id v' then v' else w)"
    if "y \<in> set xs" "w \<in> set vs" "agrees y w" for y w
  proof -
    have "src_id y = src_id x \<Longrightarrow> y = x" using source_repo.key_unique [OF assms(1)] that(1) assms(4) by blast
    moreover have "sv_id w = sv_id v \<Longrightarrow> w = v"
      using source_version_repo.key_unique [OF assms(2)] that(2) assms(5) by blast
    ultimately show ?thesis
      using that(3) assms(6-10) by (auto simp: agrees_def)
  qed
  then show ?thesis
    unfolding x v list_all2_map1 list_all2_map2 by (rule list.rel_mono_strong [OF assms(3)])
qed

lemma event_change:
  assumes "event_effect kind event s t"
  obtains "sources t = sources s" "source_versions t = source_versions s" "receipts t = receipts s"
  | jti where "sources t = sources s" "source_versions t = source_versions s"
      "receipts t = save_row sle_eventId (receipt_of event jti (now s)) (receipts s)"
      "find_row sle_eventId (sle_eventId (scope_of event)) (receipts s) = None"
      "\<not> list_ex (\<lambda>r. sle_tokenJti r = jti \<and> sle_eventId r \<noteq> sle_eventId (scope_of event)) (receipts s)"
  | jti x v x' v' ts where "find_source (scope_of event) s = Some x"
      "find_source_version (scope_of event) s = Some v" "ts \<noteq> None"
      "applyTransition kind x v (the (get_prop event ''payload'')) ts = (Changed, x', v')"
      "source_versions t = save_row sv_id (v'\<lparr>sv_updatedAt := now s\<rparr>) (source_versions s)"
      "sources t = save_row src_id (x'\<lparr>src_updatedAt := now s\<rparr>) (sources s)"
      "receipts t = save_row sle_eventId (receipt_of event jti (now s)) (receipts s)"
      "find_row sle_eventId (sle_eventId (scope_of event)) (receipts s) = None"
      "\<not> list_ex (\<lambda>r. sle_tokenJti r = jti \<and> sle_eventId r \<noteq> sle_eventId (scope_of event)) (receipts s)"
proof (cases "same_tables s t")
  case True
  then show thesis using that(1) by (simp add: same_tables_def)
next
  case False
  then obtain jti u out where tx: "lifecycle_transaction kind event jti s = (Inr out, u)"
    and fresh: "find_row sle_eventId (sle_eventId (scope_of event)) (receipts s) = None"
    and valid: "assertDomainEvent (parse_date (env s)) event = Inr ()" and same: "same_tables u t"
    using assms unfolding event_effect_def by blast
  have ts: "parse_date (env s) (str_of (get_prop event ''timestamp'')) \<noteq> None"
    using valid by (auto simp: assertDomainEvent_def Let_def checks_append_ok checks_ok split: if_splits)
  from tx fresh show thesis
  proof (cases rule: lifecycle_Inr)
    case 1
    with same False show thesis by (simp add: same_tables_def)
  next
    case (2 x v o' x' v')
    show thesis
    proof (cases "o' = Changed")
      case True
      show thesis
        by (rule that(3) [OF 2(1,2) ts, of x' v' jti]) (use 2 True same fresh in \<open>auto simp: same_tables_def\<close>)
    next
      case False
      show thesis
        by (rule that(2) [of jti]) (use 2 False same fresh in \<open>auto simp: same_tables_def\<close>)
    qed
  qed
qed

lemma find_source_Some:
  "find_source sc s = Some x \<Longrightarrow> x \<in> set (sources s) \<and> src_id x = sle_sourceId sc"
  by (auto simp: find_source_def dest: find_Some_conv)

lemma find_source_version_Some:
  "find_source_version sc s = Some v \<Longrightarrow>
   v \<in> set (source_versions s) \<and> sv_id v = sle_sourceVersionId sc \<and> sv_sourceId v = sle_sourceId sc"
  by (auto simp: find_source_version_def dest: find_Some_conv)

lemma receipt_of_id [simp]: "sle_eventId (receipt_of event jti t) = sle_eventId (scope_of event)"
  "sle_tokenJti (receipt_of event jti t) = jti"
  by (simp_all add: receipt_of_def)

lemma receipts_saved:
  assumes "keyed sle_eventId rs" and "distinct (map sle_tokenJti rs)"
    and "find_row sle_eventId (sle_eventId r) rs = None"
    and "\<not> list_ex (\<lambda>x. sle_tokenJti x = sle_tokenJti r \<and> sle_eventId x \<noteq> sle_eventId r) rs"
  shows "keyed sle_eventId (save_row sle_eventId r rs)" "distinct (map sle_tokenJti (save_row sle_eventId r rs))"
proof -
  have "save_row sle_eventId r rs = rs @ [r]"
    using assms(3) by (intro save_row_fresh) (simp add: find_row_None)
  moreover have "sle_tokenJti r \<notin> sle_tokenJti ` set rs"
    using assms(3,4) by (auto simp: list_ex_iff find_row_None image_iff)
  ultimately show "keyed sle_eventId (save_row sle_eventId r rs)"
      "distinct (map sle_tokenJti (save_row sle_eventId r rs))"
    using assms(1,2) keyed_save_row [OF assms(1), of r] by simp_all
qed

lemma event_inv:
  assumes "event_effect kind event s t" and inv: "sources_inv s"
  shows "sources_inv t"
  using assms(1)
proof (cases rule: event_change)
  case 1
  with inv show ?thesis by (simp add: sources_inv_def)
next
  case (2 jti)
  then show ?thesis
    using inv receipts_saved [of "receipts s" "receipt_of event jti (now s)"] by (simp add: sources_inv_def)
next
  case (3 jti x v x' v' ts)
  note a = applied [OF 3(4)] and f = find_source_Some [OF 3(1)] find_source_version_Some [OF 3(2)]
  have "list_all2 agrees (sources t) (source_versions t)"
    unfolding 3(5,6)
    by (rule agrees_save [of _ _ x v]) (use inv a f agrees_applied [OF 3(4) _ 3(3)] in \<open>auto simp: sources_inv_def\<close>)
  then show ?thesis
    using inv 3 receipts_saved [of "receipts s" "receipt_of event jti (now s)"] by (simp add: sources_inv_def)
qed

section \<open>What an upload does\<close>

lemma put_field_same: "map_of fs k = Some v \<Longrightarrow> put_field k v fs = fs"
  by (induction fs) (auto split: if_splits)

lemma outbox_create_given:
  assumes "outbox_create input \<lparr> oo_eventId = Some i, oo_eventIdField = Some Event_id \<rparr> s = (Inr r, t)"
    and "oi_payload input = JObj fs" and "map_of fs ''event_id'' = Some (JStr i)"
  shows "t = s\<lparr>outbox := save_row ob_id r (outbox s)\<rparr>" "ob_id r = i" "ob_payload r = oi_payload input"
    "ob_eventType r = oi_eventType input" "ob_aggregateId r = oi_aggregateId input"
    "ob_correlationId r = oi_correlationId input"
    "ob_status r = OutboxStatus.PENDING" "ob_attemptCount r = 0"
  using assms(1) put_field_same [OF assms(3)]
  by (auto simp: outbox_create_def Let_def action_Inr current_time_run save_outbox_def outbox_row_def assms(2)
      split: option.splits)

lemma save_row_last:
  "key r \<notin> key ` set t \<Longrightarrow> key r' = key r \<Longrightarrow> save_row key r' (t @ [r]) = t @ [r']"
  by (induction t) auto

lemma table_updates:
  "sources_update (save_row src_id x \<circ> f) s = s\<lparr>sources := save_row src_id x (f (sources s))\<rparr>"
  "source_versions_update (\<lambda>l. l @ [v]) s = s\<lparr>source_versions := source_versions s @ [v]\<rparr>"
  "store_calls_update (\<lambda>l. l @ cs) s = s\<lparr>store_calls := store_calls s @ cs\<rparr>"
  by (cases s; simp)+

text \<open>The rows a successful upload writes, with the version it describes.\<close>

definition uploaded_source :: "uuid \<Rightarrow> uuid option \<Rightarrow> uuid \<Rightarrow> source_version \<Rightarrow> time \<Rightarrow> source" where
  "uploaded_source workspaceId projectId userId v t = \<lparr> src_id = sv_sourceId v,
     src_organizationId = sv_organizationId v, src_workspaceId = workspaceId, src_projectId = projectId,
     src_name = sv_filename v, src_kind = DOCUMENT, src_status = SourceStatus.PENDING,
     src_currentVersionId = Some (sv_id v), src_createdBy = userId, src_createdAt = t, src_updatedAt = t,
     src_deletedAt = None \<rparr>"

lemma upload_transaction_Inr:
  assumes "upload_transaction w p c u v s = (Inr resp, t)"
  obtains i r where
    "t = s\<lparr>uuid_next := uuid_next s + 1, sources := sources s @ [uploaded_source w p u v (now s)],
       source_versions := source_versions s @ [v\<lparr>sv_createdAt := now s, sv_updatedAt := now s\<rparr>],
       outbox := save_row ob_id r (outbox s)\<rparr>"
    "sv_sourceId v \<notin> src_id ` set (sources s)" "sv_id v \<notin> sv_id ` set (source_versions s)"
    "contract_ok (uuid_ok (env s)) (parse_date (env s)) i (iso_string (now s)) (upload_event i w p c u v)"
    "ob_id r = i" "ob_payload r = source_process_event i (iso_string (now s)) (upload_event i w p c u v)"
    "ob_eventType r = SOURCE_PROCESS_REQUESTED" "ob_aggregateId r = sv_sourceId v"
    "ob_status r = OutboxStatus.PENDING" "ob_attemptCount r = 0"
    "ur_sourceId resp = sv_sourceId v" "ur_sourceVersionId resp = sv_id v"
    "ur_checksumSha256 resp = sv_checksumSha256 v"
proof -
  let ?x = "(uploaded_source w p u v (now s))\<lparr>src_currentVersionId := None\<rparr>"
  let ?u = "s\<lparr>sources := sources s @ [?x], source_versions := source_versions s @ [v\<lparr>sv_createdAt := now s, sv_updatedAt := now s\<rparr>]\<rparr>"
  from assms obtain i r s1 where new: "sv_sourceId v \<notin> src_id ` set (sources s)"
      "sv_id v \<notin> sv_id ` set (source_versions s)"
    and s1: "s1 = ?u\<lparr>sources := save_row src_id (?x\<lparr>src_currentVersionId := Some (sv_id v)\<rparr>) (sources ?u),
      uuid_next := uuid_next s + 1\<rparr>"
    and i: "contract_ok (uuid_ok (env s)) (parse_date (env s)) i (iso_string (now s)) (upload_event i w p c u v)"
    and o: "outbox_create \<lparr> oi_aggregateType = ''source'', oi_aggregateId = sv_sourceId v,
                 oi_eventType = SOURCE_PROCESS_REQUESTED,
                 oi_payload = source_process_event i (iso_string (now s)) (upload_event i w p c u v),
                 oi_correlationId = c \<rparr>
               \<lparr> oo_eventId = Some i, oo_eventIdField = Some Event_id \<rparr> s1 = (Inr r, t)"
    and resp: "ur_sourceId resp = sv_sourceId v" "ur_sourceVersionId resp = sv_id v"
      "ur_checksumSha256 resp = sv_checksumSha256 v"
    by (auto simp: upload_transaction_def Let_def action_Inr current_time_run gen_uuid_run insert_source_def
        insert_source_version_def lift_Inr_iff create_source_event uploaded_source_def table_updates)
  have s1': "s1 = s\<lparr>uuid_next := uuid_next s + 1, sources := sources s @ [uploaded_source w p u v (now s)],
       source_versions := source_versions s @ [v\<lparr>sv_createdAt := now s, sv_updatedAt := now s\<rparr>]\<rparr>"
    using new(1) unfolding s1 by (simp add: save_row_last uploaded_source_def)
  obtain fs where fs: "source_process_event i (iso_string (now s)) (upload_event i w p c u v) = JObj fs"
      "map_of fs ''event_id'' = Some (JStr i)"
    by (simp add: source_process_event_def upload_event_def Let_def)
  show thesis
    by (rule that [of r i])
       (use outbox_create_given [OF o, of fs] fs new i resp in \<open>simp_all add: s1'\<close>)
qed

lemma validated_again:
  "validateWorkspaceObjectPath bs ctx b k = Inr d \<Longrightarrow> validateWorkspaceObjectPath bs ctx b d = Inr d"
proof -
  assume v: "validateWorkspaceObjectPath bs ctx b k = Inr d"
  then have "decode_uri d = Some d"
    by (auto simp: validate_Inr_iff decodePathComponent_def dest: decode_times_fix)
  then have "decodePathComponent d = Inr d" by (simp add: decode_five)
  with v show ?thesis by (auto simp: validate_Inr_iff bad_object_path_def)
qed

text \<open>What an upload may leave: \<open>k\<close> is the key that was stored.\<close>

definition rows_same :: "'z sources_state_scheme \<Rightarrow> 'z sources_state_scheme \<Rightarrow> bool" where
  "rows_same s t \<longleftrightarrow> same_tables s t \<and> outbox t = outbox s"

definition object_removed :: "'z sources_state_scheme \<Rightarrow> 'z sources_state_scheme \<Rightarrow> bool" where
  "object_removed s t \<longleftrightarrow> env t = env s \<and> (store_calls t = store_calls s \<or>
     (\<exists>b k c h. store_calls t = store_calls s @ [PutObject b k c h] \<and>
        \<not> store_accepts (env s) (length (store_calls s)) (PutObject b k c h)) \<or>
     (\<exists>b k c h. store_calls t = store_calls s @ [PutObject b k c h, RemoveObject b k]))"

definition upload_version ::
    "'z sources_state_scheme \<Rightarrow> uuid \<Rightarrow> uuid \<Rightarrow> uuid \<Rightarrow> source_version \<Rightarrow> bytes \<Rightarrow> bool" where
  "upload_version s orgId workspaceId userId v content \<longleftrightarrow>
     sv_organizationId v = orgId \<and> sv_workspaceId v = workspaceId \<and> sv_createdBy v = userId \<and>
     sv_processingStatus v = SourceProcessingStatus.PENDING \<and> version_ok v \<and>
     sv_sizeBytes v = int (length content) \<and> sv_checksumSha256 v = sha256 s (unjs content)"

definition announced :: "'z sources_state_scheme \<Rightarrow> source_version \<Rightarrow> outbox_event \<Rightarrow> bool" where
  "announced s v e \<longleftrightarrow> ob_status e = OutboxStatus.PENDING \<and> ob_attemptCount e = 0 \<and>
     ob_eventType e = SOURCE_PROCESS_REQUESTED \<and> ob_aggregateId e = sv_sourceId v \<and>
     assertSourceProcessRequestedEvent (uuid_ok (env s)) (parse_date (env s)) (ob_payload e) = Inr () \<and>
     get_prop (ob_payload e) ''event_id'' = Some (JStr (ob_id e)) \<and>
     (let p = the (get_prop (ob_payload e) ''payload'') in
      get_prop p ''source_id'' = Some (JStr (sv_sourceId v)) \<and>
      get_prop p ''source_version_id'' = Some (JStr (sv_id v)) \<and>
      get_prop p ''storage_key'' = Some (JStr (sv_storageKey v)) \<and>
      get_prop p ''checksum_sha256'' = Some (JStr (sv_checksumSha256 v)))"

fun upload_effect ::
    "'z sources_state_scheme \<Rightarrow> uuid \<Rightarrow> uuid \<Rightarrow> uuid \<Rightarrow> upload_file option \<Rightarrow> exn + upload_response \<Rightarrow>
     'z sources_state_scheme \<Rightarrow> bool" where
  "upload_effect s orgId workspaceId userId file (Inl e) t \<longleftrightarrow> rows_same s t \<and> object_removed s t"
| "upload_effect s orgId workspaceId userId file (Inr resp) t \<longleftrightarrow>
     editor_permitted s userId (workspaceId, orgId) \<and>
     (\<exists>x v e f h. file = Some f \<and> sources t = sources s @ [x] \<and> source_versions t = source_versions s @ [v] \<and>
        receipts t = receipts s \<and>
        src_id x \<notin> src_id ` set (sources s) \<and> sv_id v \<notin> sv_id ` set (source_versions s) \<and>
        agrees x v \<and> src_createdBy x = userId \<and> upload_version s orgId workspaceId userId v (uf_buffer f) \<and>
        outbox t = save_row ob_id e (outbox s) \<and> announced s v e \<and>
        ur_sourceId resp = src_id x \<and> ur_sourceVersionId resp = sv_id v \<and>
        store_calls t = store_calls s @
          [PutObject (sv_storageBucket v) (js (sv_storageKey v)) (unjs (uf_buffer f)) h] \<and>
        (sv_storageBucket v, js (sv_storageKey v)) \<in> objects_held t)"

lemma ask_store_run:
  "ask_store c s = (if store_accepts (env s) (length (store_calls s)) c then Inr ()
      else Inl (PlainError ''Object store unavailable''), s\<lparr>store_calls := store_calls s @ [c]\<rparr>)"
  by (simp add: ask_store_def action_simps table_updates)

lemma remove_source_run:
  assumes "validateWorkspaceObjectPath (bucket_names (env s)) ctx (so_bucket o') (so_key o') = Inr d"
  shows "remove_source ctx o' s = (Inr (), s\<lparr>store_calls := store_calls s @ [RemoveObject (so_bucket o') d]\<rparr>)"
  using assms by (simp add: remove_source_def deleteObject_def action_simps lift_def ask_store_run)

lemma put_source_Inr:
  assumes "put_source ctx key c m s = (Inr o', t)"
  shows "validateWorkspaceObjectPath (bucket_names (env s)) ctx (so_bucket o') (so_key o') = Inr (so_key o')"
    "so_bucket o' = bk_sources (bucket_names (env s))" "so_checksumSha256 o' = sha256 s c"
    "\<exists>h. t = s\<lparr>store_calls := store_calls s @ [PutObject (so_bucket o') (so_key o') c h]\<rparr> \<and>
      store_accepts (env s) (length (store_calls s)) (PutObject (so_bucket o') (so_key o') c h)"
    "validateWorkspaceObjectPath (bucket_names (env s)) ctx (bk_sources (bucket_names (env s))) key = Inr (so_key o')"
  using assms
  by (auto simp: put_source_def storeSource_def action_Inr lift_Inr_iff ask_store_run split: sum.splits if_splits
      dest: validated_again)

lemma put_source_Inl:
  "put_source ctx key c m s = (Inl e, t) \<Longrightarrow> rows_same s t \<and> object_removed s t"
  by (auto simp: put_source_def storeSource_def action_simps lift_def ask_store_run rows_same_def same_tables_def
      object_removed_def split: sum.splits if_splits)

text \<open>What the store holds after more calls.\<close>

lemma held_after_append:
  "held_after a n (xs @ ys) held = held_after a (n + length xs) ys (held_after a n xs held)"
  by (induction a n xs held rule: held_after.induct) simp_all

lemma objects_held_more:
  "env t = env s \<Longrightarrow> store_calls t = store_calls s @ cs \<Longrightarrow>
   objects_held t = held_after (store_accepts (env s)) (length (store_calls s)) cs (objects_held s)"
  by (simp add: objects_held_def held_after_append)

text \<open>An object that a failed operation leaves is one whose deletion the store refused.\<close>

lemma object_removed_held:
  assumes "object_removed s t" and "x \<in> objects_held t" and "x \<notin> objects_held s"
  shows "\<exists>b k c h. x = (b, k) \<and> store_calls t = store_calls s @ [PutObject b k c h, RemoveObject b k] \<and>
    \<not> store_accepts (env s) (Suc (length (store_calls s))) (RemoveObject b k)"
  using assms(1) unfolding object_removed_def
proof (elim disjE exE conjE)
  assume env: "env t = env s" and "store_calls t = store_calls s"
  then have "objects_held t = objects_held s" by (simp add: objects_held_def env)
  then show ?thesis using assms(2,3) by simp
next
  fix b k c h
  assume env: "env t = env s" and "store_calls t = store_calls s @ [PutObject b k c h]"
    and "\<not> store_accepts (env s) (length (store_calls s)) (PutObject b k c h)"
  with objects_held_more [OF env] have "objects_held t = objects_held s" by simp
  then show ?thesis using assms(2,3) by simp
next
  fix b k c h
  assume env: "env t = env s" and calls: "store_calls t = store_calls s @ [PutObject b k c h, RemoveObject b k]"
  from objects_held_more [OF env calls]
  have "x = (b, k) \<and> \<not> store_accepts (env s) (Suc (length (store_calls s))) (RemoveObject b k)"
    using assms(2,3) by (simp split: if_splits)
  with calls show ?thesis by blast
qed

lemma ends_gen_uuid:
  "ends P (f (uuids s (uuid_next s))) (s\<lparr>uuid_next := Suc (uuid_next s)\<rparr>) \<Longrightarrow> ends P (await gen_uuid f) s"
  by (simp add: ends_def await_run gen_uuid_run)

lemma upload_version_created [simp]:
  "upload_version s org w u (v\<lparr>sv_createdAt := t, sv_updatedAt := t'\<rparr>) c = upload_version s org w u v c"
  by (simp add: upload_version_def)

lemma upload_committed:
  assumes "upload_transaction w p c u v s = (Inr resp, t)" and "upload_version s0 org w u v (uf_buffer f)"
    and "s = s0\<lparr>uuid_next := n, store_calls := calls\<rparr>"
  shows "\<exists>x v' e. sources t = sources s0 @ [x] \<and> source_versions t = source_versions s0 @ [v'] \<and>
        receipts t = receipts s0 \<and> store_calls t = calls \<and> env t = env s0 \<and>
        src_id x \<notin> src_id ` set (sources s0) \<and> sv_id v' \<notin> sv_id ` set (source_versions s0) \<and>
        agrees x v' \<and> src_createdBy x = u \<and> upload_version s0 org w u v' (uf_buffer f) \<and>
        outbox t = save_row ob_id e (outbox s0) \<and> announced s0 v' e \<and>
        ur_sourceId resp = src_id x \<and> ur_sourceVersionId resp = sv_id v' \<and>
        sv_storageKey v' = sv_storageKey v \<and> sv_storageBucket v' = sv_storageBucket v \<and>
        uuid_ok (env s0) org \<and> uuid_ok (env s0) w \<and> uuid_ok (env s0) (sv_sourceId v) \<and> uuid_ok (env s0) (sv_id v)"
  using assms(1)
proof (cases rule: upload_transaction_Inr)
  case (1 i r)
  let ?v = "v\<lparr>sv_createdAt := now s, sv_updatedAt := now s\<rparr>"
  have uuids: "uuid_ok (env s0) org" "uuid_ok (env s0) w" "uuid_ok (env s0) (sv_sourceId v)" "uuid_ok (env s0) (sv_id v)"
    using 1(4) assms(2,3) by (simp_all add: contract_ok_def upload_event_def upload_version_def)
  have "agrees (uploaded_source w p u v (now s)) ?v"
    using assms(2) by (simp add: agrees_def uploaded_source_def upload_version_def)
  moreover have "announced s0 ?v r"
    using 1(4-10) assms(3)
    by (simp add: announced_def assert_source_event) (simp add: source_process_event_def upload_event_def Let_def get_prop_def)
  ultimately show ?thesis
    using 1 assms(2,3) uuids
    by (intro exI [of _ "uploaded_source w p u v (now s)"] exI [of _ ?v] exI [of _ r])
       (simp add: uploaded_source_def)
qed

definition plain_uuids :: "'z sources_state_scheme \<Rightarrow> bool" where
  "plain_uuids s \<longleftrightarrow> (\<forall>u. uuid_ok (env s) u \<longrightarrow> plain_part (js u))"

lemma js_unjs: "list_all (\<lambda>c. c < 256) s \<Longrightarrow> js (unjs s) = s"
  by (induction s) (simp_all add: js_def unjs_def)

text \<open>The key of a stored source, when its ids are plain.\<close>

lemma stored_key:
  assumes "list_all plain_part [ctx_organizationId ctx, ctx_workspaceId ctx, i, v, f]"
    and "buildSourceObjectPath ctx i v f = Inr key" and "validateWorkspaceObjectPath bs ctx b key = Inr k"
  shows "js (unjs k) = k"
proof -
  have plain: "list_all plain_part (source_parts ctx i v f)"
    using assms(1) by (simp add: source_parts_def plain_part_def js_def)
  then have key: "key = join_path (source_parts ctx i v f)"
    using assms(2) build_plain [OF plain] by (simp add: buildSourceObjectPath_def source_parts_def)
  note chars = join_chars [OF plain, folded key, unfolded list_all_iff]
  then have "decodePathComponent key = Inr key" by (intro decode_plain) auto
  then have "k = key" using assms(3) by (simp add: validate_Inr_iff)
  then show ?thesis using chars by (intro js_unjs) (auto simp: list_all_iff)
qed

text \<open>What follows the store: everything is written, or the object is removed again.\<close>

lemma upload_stored:
  assumes perm: "editor_permitted s userId (workspaceId, orgId)" and fl: "file = Some f"
    and s1: "s1 = s\<lparr>uuid_next := n\<rparr>"
    and V: "\<And>st. so_checksumSha256 st = sha256 s (unjs (uf_buffer f)) \<Longrightarrow>
       upload_version s orgId workspaceId userId (V st) (uf_buffer f) \<and> sv_storageKey (V st) = unjs (so_key st) \<and>
       sv_storageBucket (V st) = so_bucket st \<and> sv_sourceId (V st) = i \<and> sv_id (V st) = v"
    and plain: "plain_uuids s" "plain_part fn"
    and built: "buildSourceObjectPath (context_of orgId workspaceId) (js i) (js v) fn = Inr key"
  shows "ends (upload_effect s orgId workspaceId userId file)
    (await (put_source (context_of orgId workspaceId) key (unjs (uf_buffer f)) mime) (\<lambda>st.
     try_catch (await (require (so_bucket st = ''workspace-sources'') err1) (\<lambda>_.
          upload_transaction workspaceId projectId correlationId userId (V st)))
       (\<lambda>err. await (remove_source (context_of orgId workspaceId) st) (\<lambda>_. throw err)))) s1"
proof (rule ends_await)
  fix e t
  assume "put_source (context_of orgId workspaceId) key (unjs (uf_buffer f)) mime s1 = (Inl e, t)"
  from put_source_Inl [OF this] show "upload_effect s orgId workspaceId userId file (Inl e) t"
    by (simp add: s1 rows_same_def same_tables_def object_removed_def)
next
  fix st t
  assume "put_source (context_of orgId workspaceId) key (unjs (uf_buffer f)) mime s1 = (Inr st, t)"
  note p = put_source_Inr [OF this]
  obtain h where t: "t = s\<lparr>uuid_next := n,
      store_calls := store_calls s @ [PutObject (so_bucket st) (so_key st) (unjs (uf_buffer f)) h]\<rparr>"
    and accepted: "store_accepts (env s) (length (store_calls s)) (PutObject (so_bucket st) (so_key st) (unjs (uf_buffer f)) h)"
    using p(4) by (auto simp: s1)
  have held: "(so_bucket st, so_key st) \<in> objects_held u" if "env u = env s" "store_calls u =
      store_calls s @ [PutObject (so_bucket st) (so_key st) (unjs (uf_buffer f)) h]" for u :: "'a sources_state_scheme"
    using accepted by (simp add: objects_held_more [OF that])
  note V = V [of st, OF p(3) [unfolded s1, simplified]]
  show "ends (upload_effect s orgId workspaceId userId file)
      (try_catch (await (require (so_bucket st = ''workspace-sources'') err1) (\<lambda>_.
          upload_transaction workspaceId projectId correlationId userId (V st)))
       (\<lambda>err. await (remove_source (context_of orgId workspaceId) st) (\<lambda>_. throw err))) t"
  proof (rule ends_try)
    fix resp u
    assume "await (require (so_bucket st = ''workspace-sources'') err1) (\<lambda>_.
          upload_transaction workspaceId projectId correlationId userId (V st)) t = (Inr resp, u)"
    then have b: "so_bucket st = ''workspace-sources''"
      and tx: "upload_transaction workspaceId projectId correlationId userId (V st) t = (Inr resp, u)"
      by (auto simp: await_Inr_iff require_Inr_iff)
    from upload_committed [OF tx conjunct1 [OF V] t] obtain x v' e where
      "sources u = sources s @ [x]" "source_versions u = source_versions s @ [v']" "receipts u = receipts s"
      "store_calls u = store_calls s @ [PutObject (so_bucket st) (so_key st) (unjs (uf_buffer f)) h]"
      "src_id x \<notin> src_id ` set (sources s)" "sv_id v' \<notin> sv_id ` set (source_versions s)"
      "agrees x v'" "src_createdBy x = userId" "upload_version s orgId workspaceId userId v' (uf_buffer f)"
      "outbox u = save_row ob_id e (outbox s)" "announced s v' e"
      "ur_sourceId resp = src_id x" "ur_sourceVersionId resp = sv_id v'" "sv_storageKey v' = unjs (so_key st)"
      "sv_storageBucket v' = so_bucket st" "uuid_ok (env s) orgId" "uuid_ok (env s) workspaceId"
      "uuid_ok (env s) i" "uuid_ok (env s) v" "env u = env s"
      using V by metis
    moreover from this have "(so_bucket st, so_key st) \<in> objects_held u"
      by (intro held)
    moreover from calculation have "js (unjs (so_key st)) = so_key st"
      using plain by (intro stored_key [OF _ built p(5)]) (simp add: plain_uuids_def context_of_def)
    ultimately show "upload_effect s orgId workspaceId userId file (Inr resp) u"
      unfolding upload_effect.simps using perm fl
      by (intro conjI exI [of _ x] exI [of _ v'] exI [of _ e] exI [of _ f] exI [of _ h]) simp_all
  next
    fix e u
    assume failed: "await (require (so_bucket st = ''workspace-sources'') err1) (\<lambda>_.
          upload_transaction workspaceId projectId correlationId userId (V st)) t = (Inl e, u)"
    then have "u = t"
      by (auto simp: await_run require_run upload_transaction_def transaction_Inl split: if_splits dest!: transaction_Inl)
    have "remove_source (context_of orgId workspaceId) st t =
        (Inr (), t\<lparr>store_calls := store_calls t @ [RemoveObject (so_bucket st) (so_key st)]\<rparr>)"
      by (rule remove_source_run) (use p(1) in \<open>simp add: t s1\<close>)
    then show "ends (upload_effect s orgId workspaceId userId file)
        (await (remove_source (context_of orgId workspaceId) st) (\<lambda>_. throw e)) u"
      by (auto simp: \<open>u = t\<close> ends_def await_run throw_run t rows_same_def same_tables_def object_removed_def)
  qed
qed

lemma ends_upload: "plain_uuids s \<Longrightarrow> ends (upload_effect s orgId workspaceId userId file)
    (upload workspaceId projectId file correlationId userId orgId) s"
  unfolding upload_def Let_def
  apply ((rule ends_guard, rule read_intros, simp add: rows_same_def same_tables_def object_removed_def)+,
      rule ends_gen_uuid, rule ends_gen_uuid,
      rule ends_guard, rule read_intros, simp add: rows_same_def same_tables_def object_removed_def)
  subgoal premises prems for m f
    by (rule upload_stored [of s userId workspaceId orgId _ f])
       (use prems in \<open>auto simp: some_or_throw_Inr_iff lift_Inr_iff upload_version_def version_ok_def
          intro: sanitized_plain editor_gate.check_grants [of userId "(workspaceId, orgId)", simplified]\<close>)
  done

section \<open>Ingestion as a system\<close>

text \<open>Uploads, lifecycle events in any order and number, and whatever else changes the state
  without touching the sources.\<close>

inductive source_step :: "'z sources_state_scheme \<Rightarrow> 'z sources_state_scheme \<Rightarrow> bool" where
  upload: "plain_uuids s \<Longrightarrow>
    source_step s (snd (upload workspaceId projectId file correlationId userId orgId s))"
| event: "source_step s (snd (handle kind event s))"
| other: "same_tables s t \<Longrightarrow> source_step s t"

inductive_cases source_stepE: "source_step s t"

definition no_sources :: "'z sources_state_scheme \<Rightarrow> bool" where
  "no_sources s \<longleftrightarrow> sources s = [] \<and> source_versions s = [] \<and> receipts s = []"

lemma upload_tables:
  assumes "upload_effect s orgId workspaceId userId file r t"
  obtains "same_tables s t"
  | x v where "sources t = sources s @ [x]" "source_versions t = source_versions s @ [v]"
      "receipts t = receipts s" "src_id x \<notin> src_id ` set (sources s)" "sv_id v \<notin> sv_id ` set (source_versions s)"
      "agrees x v"
  using assms by (cases r) (auto simp: rows_same_def)

lemma appended_inv:
  assumes "sources_inv s" and "sources t = sources s @ [x]" "source_versions t = source_versions s @ [v]"
      "receipts t = receipts s" "src_id x \<notin> src_id ` set (sources s)" "sv_id v \<notin> sv_id ` set (source_versions s)"
      "agrees x v"
  shows "sources_inv t"
  using assms list_all2_appendI [of agrees "sources s" "source_versions s" "[x]" "[v]"]
  by (simp add: sources_inv_def keyed_def)

text \<open>A version row after some steps: the same version, further along.\<close>

definition advanced :: "source_version \<Rightarrow> source_version \<Rightarrow> bool" where
  "advanced v w \<longleftrightarrow> sv_id w = sv_id v \<and> source_fsm_can\<^sup>*\<^sup>* (sv_processingStatus v) (sv_processingStatus w) \<and>
     (sv_processingStatus v = SourceProcessingStatus.INDEXED \<or> sv_processingStatus v = SourceProcessingStatus.FAILED \<longrightarrow> w = v)"

lemma advanced_trans: "advanced u v \<Longrightarrow> advanced v w \<Longrightarrow> advanced u w"
  by (auto simp: advanced_def)

lemma advanced_refl [simp]: "advanced v v"
  by (simp add: advanced_def)

lemma advanced_applied:
  assumes "applyTransition kind x v p ts = (Changed, x', v')"
  shows "advanced v (v'\<lparr>sv_updatedAt := t\<rparr>)"
proof -
  note a = applied [OF assms]
  have "source_fsm_can (sv_processingStatus v) (sv_processingStatus v')"
    using a(2,4) src_fsm.can_step by (auto simp: source_fsm_step_def)
  then show ?thesis using a(2,5) terminal_status by (auto simp: advanced_def)
qed

lemma event_advances:
  assumes "event_effect kind event s t" and "sources_inv s" and "w \<in> set (source_versions s)"
  shows "\<exists>w' \<in> set (source_versions t). advanced w w'"
  using assms(1)
proof (cases rule: event_change)
  case (3 jti x v x' v' ts)
  have keyed: "keyed sv_id (source_versions s)" using assms(2) by (simp add: sources_inv_def)
  have v: "v \<in> set (source_versions s)" using find_source_version_Some [OF 3(2)] by simp
  show ?thesis
  proof (cases "sv_id w = sv_id v")
    case True
    then have "w = v" using source_version_repo.key_unique [OF keyed] assms(3) v by blast
    show ?thesis
      unfolding 3(5) \<open>w = v\<close>
      by (rule bexI [of _ "v'\<lparr>sv_updatedAt := now s\<rparr>"], rule advanced_applied [OF 3(4)], rule in_save_row)
  next
    case False
    then show ?thesis
      using assms(3) applied(5) [OF 3(4)] unfolding 3(5) set_save_row [OF keyed] by (intro bexI [of _ w]) auto
  qed
qed (use assms(3) in \<open>auto intro: bexI [of _ w]\<close>)

lemma source_step_ok:
  assumes "source_step s t" and "sources_inv s"
  shows "sources_inv t \<and> (\<forall>w \<in> set (source_versions s). \<exists>w' \<in> set (source_versions t). advanced w w')"
  using assms
proof (induction rule: source_step.induct)
  case (upload s w p f c u org)
  have "upload_effect s org w u f (fst (upload w p f c u org s)) (snd (upload w p f c u org s))"
    using ends_upload [OF upload(1), of org w u f p c] by (simp add: ends_def split: prod.splits)
  then show ?case
  proof (cases rule: upload_tables)
    case 1
    with upload(2) show ?thesis by (auto simp: sources_inv_def same_tables_def intro: bexI [rotated])
  next
    case (2 x v)
    then show ?thesis using appended_inv [OF upload(2) 2] by (auto intro: bexI [rotated])
  qed
next
  case (event s kind event)
  have "event_effect kind event s (snd (handle kind event s))"
    using handle_effect [of kind event s] by (simp add: leaves_def)
  then show ?case using event_inv [OF _ event] event_advances [OF _ event] by blast
next
  case (other s t)
  then show ?case by (auto simp: sources_inv_def same_tables_def intro: bexI [rotated])
qed

lemma source_steps_ok:
  "source_step\<^sup>*\<^sup>* s t \<Longrightarrow> sources_inv s \<Longrightarrow>
   sources_inv t \<and> (\<forall>w \<in> set (source_versions s). \<exists>w' \<in> set (source_versions t). advanced w w')"
proof (induction rule: rtranclp_induct)
  case base
  then show ?case by (auto intro: bexI [rotated])
next
  case (step t u)
  then show ?case using source_step_ok [of t u] by (meson advanced_trans)
qed

lemma no_sources_inv: "no_sources s \<Longrightarrow> sources_inv s"
  by (simp add: no_sources_def sources_inv_def)

end
