(* ===== verification/SourcesClaims.thy ===== *)
theory SourcesClaims
  imports SourcesProps
begin

text \<open>
  The properties of the ingestion of sources, with a small instance they are applied to.
\<close>

section \<open>Delivering an event again\<close>

lemma assertReceiptScope_saved:
  "assertReceiptScope (receipt_of event jti t) (scope_of event) s = (Inr (), s)"
  by (simp add: assertReceiptScope_def receipt_of_def require_run)

lemma emit_Inr_iff:
  "emit_to_room a b c s = (Inr x, t) \<longleftrightarrow> t = snd (emit_to_room a b c s)"
  by (auto simp: emit_to_room_run)

lemma emit_tables [simp]:
  "receipts (snd (emit_to_room a b c s)) = receipts s" "env (snd (emit_to_room a b c s)) = env s"
  by (simp_all add: emit_to_room_run)

lemma handle_seen:
  assumes "assertDomainEvent (parse_date (env s)) event = Inr ()"
    and "plain_checks (event_valid (uuid_ok (env s)) kind event) = Inr ()"
    and "find_row sle_eventId (sle_eventId (scope_of event)) (receipts s) = Some (receipt_of event jti n)"
  shows "handle kind event s = (Inr (), s)"
  using assms assertReceiptScope_saved [of event jti n s]
  by (simp add: handle_def await_run reads_run lift_def ok_run)

lemma handle_Inr:
  assumes "handle kind event s = (Inr (), t)"
  shows "t = s \<or> (\<exists>jti n. assertDomainEvent (parse_date (env t)) event = Inr () \<and>
    plain_checks (event_valid (uuid_ok (env t)) kind event) = Inr () \<and>
    find_row sle_eventId (sle_eventId (scope_of event)) (receipts t) = Some (receipt_of event jti n))"
proof -
  obtain existing where checked: "assertDomainEvent (parse_date (env s)) event = Inr ()"
      "plain_checks (event_valid (uuid_ok (env s)) kind event) = Inr ()"
    and existing: "find_row sle_eventId (sle_eventId (scope_of event)) (receipts s) = existing"
    using assms by (auto simp: handle_def action_Inr lift_Inr_iff)
  show ?thesis
  proof (cases existing)
    case (Some r)
    then have "assertReceiptScope r (scope_of event) s = (Inr (), t)"
      using assms existing by (auto simp: handle_def action_Inr lift_Inr_iff)
    then show ?thesis by (auto dest: assertReceiptScope_Inr)
  next
    case None
    then obtain jti out u where tx: "lifecycle_transaction kind event jti s = (Inr out, u)"
      and t: "receipts t = receipts u" "env t = env u" "out = None \<longrightarrow> t = u"
      using assms existing
      by (auto simp: handle_def action_Inr lift_Inr_iff emit_Inr_iff split: option.splits
          dest!: reads_onlyD [OF reads_verify_token])
    from tx existing [unfolded None] show ?thesis
    proof (cases rule: lifecycle_Inr)
      case 1
      with t show ?thesis by simp
    next
      case (2 x v o' x' v')
      then have "receipts t = save_row sle_eventId (receipt_of event jti (now s)) (receipts s)" "env t = env s"
        using t by auto
      with checked show ?thesis by auto
    qed
  qed
qed

section \<open>A small instance\<close>

text \<open>''bob'' uploads a text file into ''w''; the worker's tokens are just ''t''.\<close>

definition demo_env :: environment where
  "demo_env = \<lparr> uuid_ok = (\<lambda>u. plain_part (js u)), parse_date = (\<lambda>_. Some 7), detect_type = (\<lambda>_. None),
     normalize = (\<lambda>s. s),
     verify_jwt = (\<lambda>secret issuer audience token. if token = ''t'' then Some \<lparr> ic_service = ''document-worker'',
       ic_organizationId = ''o'', ic_workspaceId = Some ''w'', ic_correlationId = ''c'',
       ic_allowedActions = [''source.processing''], ic_jti = Some ''j'',
       ic_taskId = None, ic_exp = 300 \<rparr> else None),
     auth_issuer = ''nestjs-platform'', auth_secrets = [''k''], auth_services = [''document-worker''],
     bucket_names = default_buckets, store_accepts = (\<lambda>_ _. True) \<rparr>"

definition demo_sources :: sources_state where
  "demo_sources = outbox_state.extend (tenancy.extend (demo_tenancy\<lparr>sha256 := (\<lambda>_. replicate 64 CHR ''0'')\<rparr>)
       (outbox_state.fields []))
     (sources_state.fields demo_env [] [] [] [] [])"

lemmas demo_sources_simps = demo_sources_def demo_env_def demo_simps outbox_state.defs tenancy.defs
  sources_state.defs

definition demo_file :: upload_file where
  "demo_file = \<lparr> uf_originalname = js ''a.txt'', uf_buffer = [104, 105], uf_size = 2 \<rparr>"

lemma demo_plain: "plain_uuids demo_sources"
  by (simp add: plain_uuids_def demo_sources_simps)

lemma demo_mime: "validateSourceMimeType (\<lambda>_. None) (js ''a.txt'') [104, 105] = Inr ''text/plain''"
  by (simp add: validateSourceMimeType_def validateDocumentMimeType_def getMimeTypeFromFilename_def
      extname_def base_name_def js_def ALLOWED_DOCUMENT_EXTENSIONS_def lower_unit_def
      ALLOWED_DOCUMENT_MIME_TYPES_def MAGIC_MIME_EQUIVALENTS_def bufferLooksLikeUtf8Text_def printable_def
      SOURCE_MIME_TYPES_def Let_def)

lemma demo_name: "sanitizeSourceFilename (\<lambda>s. s) (js ''a.txt'') = Inr (js ''a.txt'')"
  by (simp add: sanitizeSourceFilename_def js_def trim_units_def unicode_space_def has_prefix_def
      hasControlCharacter_def name_unit_def strip_dashes_def last_units_def Let_def)

lemma demo_key:
  "buildSourceObjectPath (context_of ''o'' ''w'') (js ''id'') (js ''idx'') (js ''a.txt'') =
     Inr (join_path (source_parts (context_of ''o'' ''w'') (js ''id'') (js ''idx'') (js ''a.txt'')))"
  "validateWorkspaceObjectPath default_buckets (context_of ''o'' ''w'') ''workspace-sources''
     (join_path (source_parts (context_of ''o'' ''w'') (js ''id'') (js ''idx'') (js ''a.txt''))) =
     Inr (join_path (source_parts (context_of ''o'' ''w'') (js ''id'') (js ''idx'') (js ''a.txt'')))"
  using built_source_accepted [of "context_of ''o'' ''w''" "js ''id''" "js ''idx''" "js ''a.txt''"
      "''workspace-sources''" default_buckets]
  by (simp_all add: context_of_def plain_part_def js_def allowedBuckets_def default_buckets_def)

definition demo_version :: source_version where
  "demo_version = \<lparr> sv_id = ''idx'', sv_sourceId = ''id'', sv_organizationId = ''o'', sv_workspaceId = ''w'',
     sv_versionNumber = 1, sv_storageBucket = ''workspace-sources'',
     sv_storageKey = ''organizations/o/workspaces/w/sources/id/versions/idx/a.txt'', sv_filename = ''a.txt'',
     sv_mimeType = ''text/plain'', sv_sizeBytes = 2, sv_checksumSha256 = replicate 64 CHR ''0'',
     sv_processingStatus = SourceProcessingStatus.PENDING, sv_extractedAt = None, sv_indexedAt = None,
     sv_failureCode = None, sv_failureMessage = None, sv_createdBy = ''bob'', sv_createdAt = 0, sv_updatedAt = 0 \<rparr>"

lemma unjs_js [simp]: "unjs (js s) = s"
  by (simp add: unjs_def js_def comp_def)

lemma char_92: "char_of (92 :: nat) = CHR 0x5C"
  by (simp add: char_of_def bit_iff_odd)

lemma demo_contract:
  "createSourceProcessRequestedEvent (\<lambda>u. plain_part (js u)) (\<lambda>_. Some 7) ''idxx'' (iso_string 10)
     (upload_event ''idxx'' ''w'' None ''c'' ''bob'' demo_version) =
   Inr (source_process_event ''idxx'' (iso_string 10) (upload_event ''idxx'' ''w'' None ''c'' ''bob'' demo_version))"
  by (simp add: create_source_event contract_ok_def zoned_iso upload_event_def demo_version_def
      plain_part_def js_def filename_ok_def is_string_def control_free_def expected_key_def
      SOURCE_PROCESS_MIME_TYPES_def hex_digest_def Let_def list_all_iff char_92
      hasControlCharacter_def)

lemma demo_put:
  fixes s :: "'z sources_state_scheme"
  assumes "env s = demo_env" and "sha256 s = (\<lambda>_. replicate 64 CHR ''0'')"
  shows "put_source (context_of ''o'' ''w'')
      (join_path (source_parts (context_of ''o'' ''w'') (js ''id'') (js ''idx'') (js ''a.txt''))) (unjs [104, 105]) ''text/plain'' s =
    (Inr \<lparr> so_bucket = ''workspace-sources'', so_key = js (sv_storageKey demo_version),
        so_checksumSha256 = replicate 64 CHR ''0'', so_sizeBytes = 2 \<rparr>,
     s\<lparr>store_calls := store_calls s @ [PutObject ''workspace-sources'' (js (sv_storageKey demo_version)) (unjs [104, 105])
          [(''Content-Type'', ''text/plain''), (''x-amz-meta-checksum-sha256'', replicate 64 CHR ''0'')]]\<rparr>)"
proof -
  have key: "join_path (source_parts (context_of ''o'' ''w'') (js ''id'') (js ''idx'') (js ''a.txt'')) =
      js (sv_storageKey demo_version)"
    by (simp add: source_parts_def context_of_def js_def demo_version_def)
  have "bk_sources (bucket_names (env s)) = ''workspace-sources''" "store_accepts (env s) = (\<lambda>_ _. True)"
       "bucket_names (env s) = default_buckets"
    by (simp_all add: assms demo_env_def default_buckets_def)
  then show ?thesis
    using demo_key(2) unfolding key
    by (simp add: put_source_def storeSource_def action_simps lift_def ask_store_run assms(2) unjs_def)
qed

definition demo_request :: outbox_event where
  "demo_request = outbox_row ''idxx'' (source_process_event ''idxx'' (iso_string 10)
       (upload_event ''idxx'' ''w'' None ''c'' ''bob'' demo_version))
     \<lparr> oi_aggregateType = ''source'', oi_aggregateId = ''id'', oi_eventType = SOURCE_PROCESS_REQUESTED,
       oi_payload = JNull, oi_correlationId = ''c'' \<rparr> 10"

definition demo_uploaded :: sources_state where
  "demo_uploaded = demo_sources\<lparr>uuid_next := 3, sources := [uploaded_source ''w'' None ''bob'' demo_version 10],
     source_versions := [demo_version\<lparr>sv_createdAt := 10, sv_updatedAt := 10\<rparr>], outbox := [demo_request],
     store_calls := [PutObject ''workspace-sources'' (js (sv_storageKey demo_version)) (unjs [104, 105])
          [(''Content-Type'', ''text/plain''), (''x-amz-meta-checksum-sha256'', replicate 64 CHR ''0'')]]\<rparr>"

definition demo_response :: upload_response where
  "demo_response = \<lparr> ur_sourceId = ''id'', ur_sourceVersionId = ''idx'', ur_versionNumber = 1,
     ur_status = SourceProcessingStatus.PENDING, ur_filename = ''a.txt'', ur_mimeType = ''text/plain'',
     ur_sizeBytes = 2, ur_checksumSha256 = replicate 64 CHR ''0'', ur_createdAt = 10 \<rparr>"

lemma demo_outbox_create:
  fixes s :: "'z outbox_state_scheme"
  assumes "outbox s = []" and "now s = 10"
  shows "outbox_create \<lparr> oi_aggregateType = ''source'', oi_aggregateId = ''id'',
       oi_eventType = SOURCE_PROCESS_REQUESTED,
       oi_payload = source_process_event ''idxx'' (iso_string 10) (upload_event ''idxx'' ''w'' None ''c'' ''bob'' demo_version),
       oi_correlationId = ''c'' \<rparr> \<lparr> oo_eventId = Some ''idxx'', oo_eventIdField = Some Event_id \<rparr> s =
     (Inr demo_request, s\<lparr>outbox := [demo_request]\<rparr>)"
proof -
  obtain fs where fs: "source_process_event ''idxx'' (iso_string 10) (upload_event ''idxx'' ''w'' None ''c'' ''bob'' demo_version) =
      JObj ((''event_id'', JStr ''idxx'') # fs)" "map_of fs ''eventId'' = None"
    by (simp add: source_process_event_def upload_event_def Let_def)
  then show ?thesis
    using assms
    by (cases s) (simp add: outbox_create_def Let_def action_simps get_prop_def save_outbox_def find_row_def outbox_row_def
        demo_request_def)
qed

lemma demo_fields [simp]:
  "now demo_sources = 10" "uuids demo_sources = fresh_name ''id''" "uuid_next demo_sources = 0"
  "env demo_sources = demo_env" "sha256 demo_sources = (\<lambda>_. replicate 64 CHR ''0'')"
  "outbox demo_sources = []" "sources demo_sources = []" "source_versions demo_sources = []"
  "receipts demo_sources = []" "store_calls demo_sources = []"
  "uuid_ok demo_env = (\<lambda>u. plain_part (js u))" "parse_date demo_env = (\<lambda>_. Some 7)"
  by (simp_all add: demo_sources_simps)

lemma demo_transaction:
  "upload_transaction ''w'' None ''c'' ''bob'' demo_version
     (demo_sources\<lparr>uuid_next := 2, store_calls := store_calls demo_uploaded\<rparr>) = (Inr demo_response, demo_uploaded)"
proof -
  have v: "sv_id demo_version = ''idx''" "sv_sourceId demo_version = ''id''" by (simp_all add: demo_version_def)
  have store: "store_calls demo_uploaded = [PutObject ''workspace-sources'' (js (sv_storageKey demo_version)) (unjs [104, 105])
      [(''Content-Type'', ''text/plain''), (''x-amz-meta-checksum-sha256'', replicate 64 CHR ''0'')]]"
    by (simp add: demo_uploaded_def)
  have name: "fresh_name ''id'' 2 = ''idxx''" by (simp add: fresh_name_def numeral_2_eq_2)
  show ?thesis
    unfolding upload_transaction_def store
    by (simp add: action_simps insert_source_def insert_source_version_def table_updates lift_def v name
        demo_contract demo_outbox_create uploaded_source_def demo_uploaded_def demo_response_def)
       (simp add: demo_version_def)
qed

lemma demo_editor:
  "requireEditor ''bob'' ''w'' ''o'' demo_sources = (Inr (demo_member ''m2'' ''bob'' EDITOR), demo_sources)"
  by (simp add: requireEditor_run demo_sources_simps active_member_def EDIT_def)

lemma demo_upload:
  "upload ''w'' None (Some demo_file) ''c'' ''bob'' ''o'' demo_sources = (Inr demo_response, demo_uploaded)"
proof -
  let ?s = "demo_sources\<lparr>uuid_next := 2\<rparr>"
  let ?stored = "\<lparr> so_bucket = ''workspace-sources'', so_key = js (sv_storageKey demo_version),
        so_checksumSha256 = replicate 64 CHR ''0'', so_sizeBytes = 2 \<rparr>"
  have fl: "uf_buffer demo_file = [104, 105]" "uf_size demo_file = 2" "uf_originalname demo_file = js ''a.txt''"
    by (simp_all add: demo_file_def)
  have env: "detect_type demo_env = (\<lambda>_. None)" "normalize demo_env = (\<lambda>s. s)" "plain_part (js ''c'')"
    by (simp_all add: demo_env_def plain_part_def js_def)
  have size: "assertSourceFileSize 2 = Inr ()"
    by (simp add: assertSourceFileSize_def MAX_SOURCE_FILE_SIZE_BYTES_def)
  have names: "fresh_name ''id'' 0 = ''id''" "fresh_name ''id'' (Suc 0) = ''idx''"
    by (simp_all add: fresh_name_def)
  note put = demo_put [of ?s]
  have two: "Suc (Suc 0) = (2 :: nat)" by simp
  have version: "\<lparr>sv_id = ''idx'', sv_sourceId = ''id'', sv_organizationId = ''o'', sv_workspaceId = ''w'',
      sv_versionNumber = 1, sv_storageBucket = ''workspace-sources'', sv_storageKey = sv_storageKey demo_version,
      sv_filename = ''a.txt'', sv_mimeType = ''text/plain'', sv_sizeBytes = 2,
      sv_checksumSha256 = replicate 64 CHR ''0'', sv_processingStatus = SourceProcessingStatus.PENDING,
      sv_extractedAt = None, sv_indexedAt = None, sv_failureCode = None, sv_failureMessage = None,
      sv_createdBy = ''bob'', sv_createdAt = 0, sv_updatedAt = 0\<rparr> = demo_version"
    by (simp add: demo_version_def)
  have store: "demo_sources\<lparr>uuid_next := 2, store_calls := [PutObject ''workspace-sources'' (js (sv_storageKey demo_version)) (unjs [104, 105])
      [(''Content-Type'', ''text/plain''), (''x-amz-meta-checksum-sha256'', replicate 64 CHR ''0'')]]\<rparr> =
     demo_sources\<lparr>uuid_next := 2, store_calls := store_calls demo_uploaded\<rparr>"
    by (simp add: demo_uploaded_def)
  show ?thesis
    unfolding upload_def Let_def
    by (simp add: await_run some_or_throw_run require_run reads_run gen_uuid_run try_catch_run lift_def ok_run
        demo_editor fl env size demo_mime demo_name names two demo_key(1) put version store
        demo_transaction del: One_nat_def)
qed

text \<open>The worker starts: its first event.\<close>

definition demo_event :: json where
  "demo_event = JObj [(''eventId'', JStr ''e''), (''eventType'', JStr ''workspace.source.processing''),
     (''organizationId'', JStr ''o''), (''workspaceId'', JStr ''w''), (''userId'', JStr ''bob''),
     (''correlationId'', JStr ''c''), (''timestamp'', JStr ''t''), (''schemaVersion'', JNum 1),
     (''payload'', JObj [(''sourceId'', JStr ''id''), (''sourceVersionId'', JStr ''idx''),
        (''internalToken'', JStr ''t'')])]"

lemma demo_checked:
  "assertDomainEvent (\<lambda>_. Some 7) demo_event = Inr ()"
  "plain_checks (event_valid (\<lambda>u. plain_part (js u)) Processing demo_event) = Inr ()"
  by (simp_all add: assertDomainEvent_def checks_ok demo_event_def get_prop_def is_string_def is_record_def
      event_valid_def payload_valid_def lifecycle_subject_def json_uuid_def plain_part_def js_def payload_fields_def
      Let_def)

definition demo_claims :: internal_claims where
  "demo_claims = \<lparr> ic_service = ''document-worker'', ic_organizationId = ''o'', ic_workspaceId = Some ''w'',
     ic_correlationId = ''c'', ic_allowedActions = [''source.processing''], ic_jti = Some ''j'',
       ic_taskId = None, ic_exp = 300 \<rparr>"

lemma demo_token: "verify_token ''t'' ''nestjs-platform'' demo_uploaded = (Inr demo_claims, demo_uploaded)"
proof -
  have "env demo_uploaded = demo_env" by (simp add: demo_uploaded_def)
  moreover have "first_claims demo_env ''t'' ''nestjs-platform'' (filter (\<lambda>s. s \<noteq> []) (auth_secrets demo_env)) = Some demo_claims"
    by (simp add: demo_env_def demo_claims_def)
  moreover have "ic_service demo_claims \<in> set (auth_services demo_env)"
    by (simp add: demo_env_def demo_claims_def)
  ultimately show ?thesis by (simp add: verify_token_def action_simps)
qed

lemma demo_claims_valid: "plain_checks (claims_valid Processing demo_event demo_claims) = Inr ()"
  by (simp add: claims_valid_def demo_claims_def demo_event_def get_prop_def)

definition demo_changed :: sources_state where
  "demo_changed = demo_uploaded\<lparr>receipts := [receipt_of demo_event ''j'' 10],
     source_versions := [demo_version\<lparr>sv_createdAt := 10, sv_updatedAt := 10, sv_processingStatus := SourceProcessingStatus.PROCESSING\<rparr>],
     sources := [(uploaded_source ''w'' None ''bob'' demo_version 10)\<lparr>src_status := SourceStatus.PROCESSING\<rparr>]\<rparr>"

lemma demo_lifecycle:
  "lifecycle_transaction Processing demo_event ''j'' demo_uploaded =
     (Inr (Some ((uploaded_source ''w'' None ''bob'' demo_version 10)\<lparr>src_status := SourceStatus.PROCESSING\<rparr>)), demo_changed)"
proof -
  have scope: "sle_eventId (scope_of demo_event) = ''e''" "sle_sourceId (scope_of demo_event) = ''id''"
    "sle_sourceVersionId (scope_of demo_event) = ''idx''" "sle_organizationId (scope_of demo_event) = ''o''"
    "sle_workspaceId (scope_of demo_event) = ''w''"
    by (simp_all add: scope_of_def demo_event_def get_prop_def Let_def)
  have found: "find_source (scope_of demo_event) demo_uploaded = Some (uploaded_source ''w'' None ''bob'' demo_version 10)"
    "find_source_version (scope_of demo_event) demo_uploaded = Some (demo_version\<lparr>sv_createdAt := 10, sv_updatedAt := 10\<rparr>)"
    by (simp_all add: find_source_def find_source_version_def scope demo_uploaded_def uploaded_source_def
        del: scope_event_id) (simp_all add: demo_version_def)
  have rows: "receipts demo_uploaded = []" "now demo_uploaded = 10"
    "sources demo_uploaded = [uploaded_source ''w'' None ''bob'' demo_version 10]"
    "source_versions demo_uploaded = [demo_version\<lparr>sv_createdAt := 10, sv_updatedAt := 10\<rparr>]"
    by (simp_all add: demo_uploaded_def)
  have applied: "applyTransition Processing (uploaded_source ''w'' None ''bob'' demo_version 10)
      (demo_version\<lparr>sv_createdAt := 10, sv_updatedAt := 10\<rparr>) p ts = (Changed,
      (uploaded_source ''w'' None ''bob'' demo_version 10)\<lparr>src_status := SourceStatus.PROCESSING\<rparr>,
      demo_version\<lparr>sv_createdAt := 10, sv_updatedAt := 10, sv_processingStatus := SourceProcessingStatus.PROCESSING\<rparr>)" for p ts
    by (simp add: applyTransition_def uploaded_source_def transition_def demo_version_def Let_def)
  have x: "(uploaded_source w p u v t)\<lparr>src_status := st, src_updatedAt := t\<rparr> =
      (uploaded_source w p u v t)\<lparr>src_status := st\<rparr>" for w p u v t st
    by (simp add: uploaded_source_def)
  show ?thesis
    unfolding lifecycle_transaction_def Let_def
    by (simp add: action_simps found applied rows find_row_def save_receipt_def x)
       (simp add: demo_changed_def receipt_of_def rows)
qed

lemma demo_handle:
  "\<exists>t. handle Processing demo_event demo_uploaded = (Inr (), t) \<and> source_versions t = source_versions demo_changed"
proof -
  have "env demo_uploaded = demo_env" "receipts demo_uploaded = []" by (simp_all add: demo_uploaded_def)
  moreover have "str_of (get_prop (the (get_prop demo_event ''payload'')) ''internalToken'') = ''t''"
    by (simp add: demo_event_def get_prop_def)
  moreover have "ic_jti demo_claims = Some ''j''" by (simp add: demo_claims_def)
  ultimately show ?thesis
    by (simp add: handle_def await_run reads_run lift_def ok_run demo_checked demo_token demo_claims_valid
        demo_lifecycle find_row_def emit_to_room_run)
qed

lemma receipts_kept:
  assumes "source_step\<^sup>*\<^sup>* s t" and "find_row sle_eventId i (receipts s) = Some r"
  shows "find_row sle_eventId i (receipts t) = Some r"
  using assms
proof (induction rule: rtranclp_induct)
  case (step t u)
  from step(2) show ?case
  proof cases
    case (upload w p f c user org)
    have "upload_effect t org w user f (fst (upload w p f c user org t)) u"
      using ends_upload [OF upload(2), of org w user f p c] upload(1) by (simp add: ends_def split: prod.splits)
    then show ?thesis using step(3) [OF step(4)] by (cases rule: upload_tables) (simp_all add: same_tables_def)
  next
    case (event kind event)
    have "event_effect kind event t u" using handle_effect [of kind event t] event by (simp add: leaves_def)
    then show ?thesis using step(3) [OF step(4)] by (cases rule: event_change) auto
  qed (use step in \<open>simp add: same_tables_def\<close>)
qed

section \<open>Properties\<close>

text \<open>C18: sources and their versions agree: after any uploads and lifecycle events, every source has
  exactly its one version, of the same organization and workspace and with the same status; a
  version has an extraction date, an index date and a bounded failure report exactly as its status
  requires; no event id and no token was taken twice.\<close>

theorem sources_consistent:
  assumes "no_sources s" and "source_step\<^sup>*\<^sup>* s t"
  shows "list_all2 (\<lambda>x v. src_currentVersionId x = Some (sv_id v) \<and> sv_sourceId v = src_id x \<and>
      sv_organizationId v = src_organizationId x \<and> sv_workspaceId v = src_workspaceId x \<and>
      src_status x = as_source (sv_processingStatus v) \<and> version_ok v) (sources t) (source_versions t) \<and>
    distinct (map src_id (sources t)) \<and> distinct (map sv_id (source_versions t)) \<and>
    distinct (map sle_eventId (receipts t)) \<and> distinct (map sle_tokenJti (receipts t))"
proof -
  have "sources_inv t" using source_steps_ok [OF assms(2) no_sources_inv [OF assms(1)]] by simp
  then show ?thesis by (simp add: sources_inv_def keyed_def agrees_def [abs_def])
qed

lemma demo_start: "no_sources demo_sources"
  by (simp add: no_sources_def)

lemma demo_upload_step: "source_step demo_sources demo_uploaded"
  using source_step.upload [OF demo_plain, of "''w''" None "Some demo_file" "''c''" "''bob''" "''o''"]
  by (simp add: demo_upload)

lemma demo_event_step: "source_step demo_uploaded (snd (handle Processing demo_event demo_uploaded))"
  by (rule source_step.event)

theorem sources_consistent_witness:
  "(case handle Processing demo_event demo_uploaded of (r, t) \<Rightarrow> r = Inr () \<and>
     map sv_processingStatus (source_versions t) = [SourceProcessingStatus.PROCESSING] \<and>
     list_all2 (\<lambda>x v. src_status x = as_source (sv_processingStatus v)) (sources t) (source_versions t))"
proof -
  obtain t where t: "handle Processing demo_event demo_uploaded = (Inr (), t)"
      "source_versions t = source_versions demo_changed"
    using demo_handle by blast
  have "source_step\<^sup>*\<^sup>* demo_sources t"
    using demo_upload_step demo_event_step t(1) by (auto intro: rtranclp.rtrancl_into_rtrancl)
  from sources_consistent [OF demo_start this] t show ?thesis
    by (auto simp: demo_changed_def elim: list_all2_mono)
qed

text \<open>C19: processing never goes back: whatever events arrive, in whatever order, late or twice, a
  version that exists keeps existing, its status moves along the transitions of the state machine
  only, and once it is indexed or failed, nothing of the version changes any more.\<close>

theorem status_never_back:
  assumes "no_sources s" and "source_step\<^sup>*\<^sup>* s t" and "source_step\<^sup>*\<^sup>* t u"
    and "find_row sv_id i (source_versions t) = Some v"
  shows "\<exists>w. find_row sv_id i (source_versions u) = Some w \<and>
    source_fsm_can\<^sup>*\<^sup>* (sv_processingStatus v) (sv_processingStatus w) \<and>
    sv_processingStatus v \<le> sv_processingStatus w \<and>
    (sv_processingStatus v \<in> {SourceProcessingStatus.INDEXED, SourceProcessingStatus.FAILED} \<longrightarrow> w = v)"
proof -
  have inv: "sources_inv t" using source_steps_ok [OF assms(2) no_sources_inv [OF assms(1)]] by simp
  have v: "v \<in> set (source_versions t)" "sv_id v = i" using find_row_Some [OF assms(4)] by simp_all
  from source_steps_ok [OF assms(3) inv] v obtain w where
    u: "sources_inv u" and w: "w \<in> set (source_versions u)" "advanced v w" by blast
  have "find_row sv_id i (source_versions u) = Some w"
    using find_row_keyed [of sv_id _ w] u w v(2) by (simp add: sources_inv_def advanced_def)
  moreover have "sv_processingStatus v \<le> sv_processingStatus w"
    using src_fsm.never_back [of "sv_processingStatus v" "sv_processingStatus w"] w(2)
    by (auto simp: advanced_def not_le [symmetric])
  ultimately show ?thesis using w(2) by (auto simp: advanced_def)
qed

theorem status_never_back_witness:
  "\<exists>w. find_row sv_id ''idx'' (source_versions (snd (handle Processing demo_event demo_uploaded))) = Some w \<and>
     SourceProcessingStatus.PENDING \<le> sv_processingStatus w"
proof -
  let ?v = "demo_version\<lparr>sv_createdAt := 10, sv_updatedAt := 10\<rparr>"
  have v: "find_row sv_id ''idx'' (source_versions demo_uploaded) = Some ?v"
    by (simp add: demo_uploaded_def find_row_def) (simp add: demo_version_def)
  have "sv_processingStatus ?v = SourceProcessingStatus.PENDING" by (simp add: demo_version_def)
  with status_never_back [OF demo_start r_into_rtranclp r_into_rtranclp v, OF demo_upload_step demo_event_step]
  show ?thesis by auto
qed

text \<open>C20: lifecycle events take effect once: after an event was taken, with whatever uploads and
  events in between, taking it again succeeds and changes nothing, no row, no receipt and no
  notification; unless the first delivery already had no effect at all.\<close>

theorem redelivery_no_effect:
  assumes "handle kind event s = (Inr (), t)" and "source_step\<^sup>*\<^sup>* t u" and "env u = env t"
  shows "handle kind event u = (Inr (), u) \<or> t = s"
proof (cases "t = s")
  case False
  then show ?thesis
    using handle_Inr [OF assms(1)] receipts_kept [OF assms(2)] handle_seen [of u event kind] assms(3) by auto
qed simp

theorem redelivery_no_effect_witness:
  "(case handle Processing demo_event demo_uploaded of (_, t) \<Rightarrow>
     handle Processing demo_event t = (Inr (), t) \<and> t \<noteq> demo_uploaded)"
proof -
  obtain t where t: "handle Processing demo_event demo_uploaded = (Inr (), t)"
      "source_versions t = source_versions demo_changed"
    using demo_handle by blast
  then have "map sv_processingStatus (source_versions t) \<noteq> map sv_processingStatus (source_versions demo_uploaded)"
    by (simp add: demo_changed_def demo_uploaded_def) (simp add: demo_version_def)
  then have "t \<noteq> demo_uploaded" by auto
  with redelivery_no_effect [OF t(1) rtranclp.rtrancl_refl refl] t(1) show ?thesis by simp
qed

text \<open>C21: an upload leaves everything or nothing in the database, and nothing in the object store but what the
  store itself refused to delete. On success the caller may edit, exactly one new source and one new version of the
  stored content were added, pending, the store holds the object in the source bucket under the key of the
  version, and the outbox holds the request to process it, which the consumer's contract accepts and which names
  this version and key. On any failure the tables and the outbox are as before, and every object that the store
  holds and did not hold before was stored by this upload, which then asked to delete it, and the store
  refused that deletion.\<close>

theorem upload_all_or_nothing:
  assumes "plain_uuids s"
  shows "(case upload workspaceId projectId fl correlationId userId orgId s of
      (Inr resp, t) \<Rightarrow> editor_permitted s userId (workspaceId, orgId) \<and>
        (\<exists>x v e f h. fl = Some f \<and> sources t = sources s @ [x] \<and> source_versions t = source_versions s @ [v] \<and>
           src_id x \<notin> src_id ` set (sources s) \<and> sv_id v \<notin> sv_id ` set (source_versions s) \<and>
           agrees x v \<and> src_createdBy x = userId \<and> upload_version s orgId workspaceId userId v (uf_buffer f) \<and>
           outbox t = save_row ob_id e (outbox s) \<and> announced s v e \<and>
           ur_sourceId resp = src_id x \<and> ur_sourceVersionId resp = sv_id v \<and>
           store_calls t = store_calls s @
             [PutObject (sv_storageBucket v) (js (sv_storageKey v)) (unjs (uf_buffer f)) h] \<and>
           (sv_storageBucket v, js (sv_storageKey v)) \<in> objects_held t)
    | (Inl e, t) \<Rightarrow> sources t = sources s \<and> source_versions t = source_versions s \<and>
        receipts t = receipts s \<and> outbox t = outbox s \<and>
        (\<forall>x \<in> objects_held t - objects_held s. \<exists>b k c h. x = (b, k) \<and>
           store_calls t = store_calls s @ [PutObject b k c h, RemoveObject b k] \<and>
           \<not> store_accepts (env s) (Suc (length (store_calls s))) (RemoveObject b k)))"
proof -
  obtain r t where run: "upload workspaceId projectId fl correlationId userId orgId s = (r, t)" by fastforce
  have eff: "upload_effect s orgId workspaceId userId fl r t"
    by (rule endsD [OF ends_upload [OF assms] run])
  show ?thesis
  proof (cases r)
    case (Inl e)
    with eff have same: "rows_same s t" and removed: "object_removed s t" by simp_all
    show ?thesis using object_removed_held [OF removed] same
      by (simp add: run Inl rows_same_def same_tables_def)
  next
    case (Inr resp)
    with eff show ?thesis unfolding run Inr prod.case sum.case upload_effect.simps by blast
  qed
qed

theorem upload_all_or_nothing_witness:
  "\<exists>v h. source_versions demo_uploaded = [v] \<and>
     store_calls demo_uploaded = [PutObject (sv_storageBucket v) (js (sv_storageKey v)) ''hi'' h]"
proof -
  have hi: "unjs (uf_buffer demo_file) = ''hi''"
    by (simp add: demo_file_def unjs_def char_of_def bit_iff_odd)
  show ?thesis
    using upload_all_or_nothing [OF demo_plain, where workspaceId = "''w''" and projectId = None
        and fl = "Some demo_file" and correlationId = "''c''" and userId = "''bob''" and orgId = "''o''"] hi
    unfolding demo_upload by auto
qed

end
