(* ===== verification/RulesClaims.thy ===== *)
theory RulesClaims
  imports RulesProps
begin

text \<open>
  The properties of the business rules, with a small instance: ''ann'', a business analyst of the
  organization ''o'', administers rules about the actor that a source label stands for.
\<close>

section \<open>A small instance\<close>

definition ann :: request_user where
  "ann = \<lparr> ru_id = ''ann'', ru_orgId = ''o'', ru_role = user_role_str BUSINESS_ANALYST \<rparr>"

definition demo_rules :: rules_state where
  "demo_rules = \<lparr> now = 10, uuids = fresh_name ''id'', uuid_next = 0, rooms_live = (\<lambda>_. True), nats_up = True,
     workflows = [], workflow_versions = [], sessions = [], audit_log = [], emitted = [], published = [],
     messages = [], documents = [], skills = [], pipeline_executions = [], agent_executions = [], agent_logs = [],
     agent_definitions = [], dead_letters = [], kg_nodes = [], kg_edges = [], graph_snapshots = [],
     divergence_reports = [], correlation_id = ''system'',
     rules = [], rule_versions = [], rule_applications = [],
     rule_cache = (\<lambda>_. None), simulation_cache = [], fastapi_url = None, simulate = (\<lambda>_. None),
     digest = (\<lambda>x. x) \<rparr>"

lemma demo_rules_inv: "rules_inv demo_rules"
  by (simp add: rules_inv_def consistent_def keyed_def cache_but_def demo_rules_def)

definition mapping_rule :: "string \<Rightarrow> (string \<times> json) list \<Rightarrow> create_rule_dto" where
  "mapping_rule instruction c = \<lparr> cr_name = ''n'', cr_description = None, cr_type = RuleType.ACTOR_MAPPING,
     cr_scope = ORG, cr_workflow_id = None, cr_target_agent = None, cr_condition = Some c,
     cr_instruction = instruction, cr_priority = None \<rparr>"

text \<open>C29: whatever requests are served, refused ones included, no two active rules of one organization,
  type, scope, agent and workflow contradict each other, as long as the conditions of the requests
  are in the form the database stores.\<close>

theorem active_rules_never_contradict:
  assumes "rules_inv s" and "list_all normal_request qs"
    and "r \<in> set (rules (serve_all_rules qs s))" and "x \<in> set (rules (serve_all_rules qs s))"
    and "rl_isActive r" and "rl_ruleType r \<in> set CONTRADICTABLE_RULE_TYPES" and "same_group r x"
  shows "\<not> conflicts_with r x"
proof -
  have "consistent (rules (serve_all_rules qs s))"
    using serve_all_rules_inv [OF assms(1,2)] by (simp add: rules_inv_def)
  then have "\<not> clash r x" using assms(3,4) by (simp add: consistent_def)
  then show ?thesis using assms(5-7) by (simp add: clash_def)
qed


lemma ann_manager: "assertRuleManager ann s = (Inr (), s)"
  by (simp add: assertRuleManager_def ann_def action_simps)

lemma org_scope: "assertScopeConsistency ORG None None org s = (Inr (), s)"
  by (simp add: assertScopeConsistency_def present_def action_simps)

lemmas demo_condition = normal_condition_def mapping_rule_def

theorem active_rules_never_contradict_witness:
  "let rs = rules (serve_all_rules [Create (mapping_rule ''i'' [(''source'', JStr ''a'')]) ann,
        Create (mapping_rule ''i'' [(''source'', JStr ''a'')]) ann] demo_rules)
   in length rs = 2 \<and> \<not> conflicts_with (rs ! 1) (rs ! 0)"
proof -
  let ?qs = "[Create (mapping_rule ''i'' [(''source'', JStr ''a'')]) ann,
    Create (mapping_rule ''i'' [(''source'', JStr ''a'')]) ann]"
  have two: "length (rules (serve_all_rules ?qs demo_rules)) = 2" by code_simp
  have "\<not> conflicts_with (rules (serve_all_rules ?qs demo_rules) ! 1) (rules (serve_all_rules ?qs demo_rules) ! 0)"
  proof (rule active_rules_never_contradict [OF demo_rules_inv, where qs = ?qs])
    show "rl_isActive (rules (serve_all_rules ?qs demo_rules) ! 1)" by code_simp
    show "rl_ruleType (rules (serve_all_rules ?qs demo_rules) ! 1) \<in> set CONTRADICTABLE_RULE_TYPES" by code_simp
    show "same_group (rules (serve_all_rules ?qs demo_rules) ! 1) (rules (serve_all_rules ?qs demo_rules) ! 0)"
      by code_simp
  qed (use two in \<open>simp_all add: demo_condition del: serve_all_rules.simps\<close>)
  with two show ?thesis unfolding Let_def by blast
qed

lemma sessionRules_fst:
  assumes "rules_inv s"
  shows "fst (getSessionContextRules i org s) = fst (getSessionContextRules i org (s\<lparr>rule_cache := (\<lambda>_. None)\<rparr>))"
proof -
  have frame: "rules_inv (s\<lparr>rule_cache := (\<lambda>_. None)\<rparr>)"
    using assms by (simp add: rules_inv_def cache_but_def)
  obtain t where "getCachedActiveRules org s = (Inr (active_rules org s), t)"
    using getCached_Inr [OF assms] by blast
  moreover obtain u where "getCachedActiveRules org (s\<lparr>rule_cache := (\<lambda>_. None)\<rparr>) = (Inr (active_rules org s), u)"
    using getCached_Inr [OF frame, of org] active_rules_cong [of "s\<lparr>rule_cache := (\<lambda>_. None)\<rparr>" s] by auto
  ultimately show ?thesis
    by (auto simp: getSessionContextRules_def action_simps workflow_in_org_def split: option.split)
qed

text \<open>C30: the cache cannot be observed: after any requests, also when time has passed, the preview of a
  session's rules answers the same with the cache and without it.\<close>

theorem cache_is_transparent:
  fixes s :: "'z rules_state_scheme"
  assumes "rules_inv s" and "list_all normal_request qs"
  defines "t \<equiv> serve_all_rules qs s"
  shows "fst (previewForSession i u t) = fst (previewForSession i u (t\<lparr>rule_cache := (\<lambda>_. None)\<rparr>))"
proof -
  have "fst (getSessionContextRules i (ru_orgId u) t) =
      fst (getSessionContextRules i (ru_orgId u) (t\<lparr>rule_cache := (\<lambda>_. None)\<rparr>))"
    unfolding t_def by (rule sessionRules_fst [OF serve_all_rules_inv [OF assms(1,2)]])
  then show ?thesis
    by (cases "getSessionContextRules i (ru_orgId u) t";
        cases "getSessionContextRules i (ru_orgId u) (t\<lparr>rule_cache := (\<lambda>_. None)\<rparr>)")
       (auto simp: previewForSession_def await_run ok_run split: sum.split prod.split)
qed


theorem cache_is_transparent_witness:
  "(let t = serve_all_rules [Create (mapping_rule ''i'' [(''source'', JStr ''a'')]) ann, Preview ''s'' ann,
        Deactivate ''id'' ann] demo_rules
    in fst (previewForSession ''s'' ann t) = fst (previewForSession ''s'' ann (t\<lparr>rule_cache := (\<lambda>_. None)\<rparr>)))"
  unfolding Let_def
  by (rule cache_is_transparent [OF demo_rules_inv]) (simp add: demo_condition)

lemma createRule_refused:
  assumes "assertRuleManager u s = (Inr (), s)"
    and "assertScopeConsistency (cr_scope dto) (cr_workflow_id dto) (cr_target_agent dto) (ru_orgId u) s = (Inr (), s)"
    and "x \<in> set (rules s)" and "clash (new_rule dto 1 True u) x"
  shows "\<exists>e t. createRule dto u s = (Inl (Conflict e), t) \<and> rules t = rules s"
proof -
  let ?r = "new_rule dto 1 True u"
  have act: "rl_isActive ?r" "rl_ruleType ?r \<in> set CONTRADICTABLE_RULE_TYPES"
    and x: "conflicts_with ?r x" "same_group ?r x"
    using assms(4) by (simp_all add: clash_def)
  have "x \<in> set (by_priority (filter (same_group ?r) (rules s)))"
    using x(2) assms(3) by (simp add: by_priority_def)
  then obtain y where "find (\<lambda>x. None \<noteq> Some (rl_id x) \<and> conflicts_with ?r x)
      (by_priority (filter (same_group ?r) (rules s))) = Some y"
    using x(1) by (cases "find (\<lambda>x. None \<noteq> Some (rl_id x) \<and> conflicts_with ?r x)
      (by_priority (filter (same_group ?r) (rules s)))") (auto simp: find_None_conv)
  then have "\<exists>e t. ensureNoConflict ?r None None s = (Inl (Conflict e), t) \<and> rules t = rules s"
    using act by (simp add: ensureNoConflict_def await_run ok_run reads_run throw_run Let_def emitConflictEvent_def
        emit_to_room_run)
  then show ?thesis
    using assms(1,2) by (auto simp: createRule_def await_run Let_def)
qed

lemma insert_rule_ok:
  assumes "smallint (rl_priority r)" and "smallint (rl_version r)" and "uuids s (uuid_next s) \<notin> rl_id ` set (rules s)"
  shows "\<exists>x t. insert_rule r s = (Inr x, t) \<and> rules t = rules s @ [stored_as (uuids s (uuid_next s)) (now s) r]"
  using assms by (simp add: insert_rule_def action_simps gen_uuid_run current_time_run Let_def stored_as_def)

text \<open>A request of a rule manager with a consistent scope creates the rule exactly when no active rule
  contradicts it; otherwise it is refused with a conflict and no rule changes.\<close>

theorem createRule_decides:
  fixes s :: "'z rules_state_scheme"
  assumes "assertRuleManager u s = (Inr (), s)"
    and "assertScopeConsistency (cr_scope dto) (cr_workflow_id dto) (cr_target_agent dto) (ru_orgId u) s = (Inr (), s)"
    and "smallint (default 100 (cr_priority dto))" and "uuids s (uuid_next s) \<notin> rl_id ` set (rules s)"
  defines "r \<equiv> new_rule dto 1 True u"
  shows "if \<exists>x \<in> set (rules s). clash r x
    then \<exists>e t. createRule dto u s = (Inl (Conflict e), t) \<and> rules t = rules s
    else \<exists>a t. createRule dto u s = (Inr a, t) \<and>
      rules t = rules s @ [stored_as (uuids s (uuid_next s)) (now s) r]"
proof (cases "\<exists>x \<in> set (rules s). clash r x")
  case True
  then show ?thesis using createRule_refused [OF assms(1,2)] unfolding r_def by auto
next
  case False
  have "find (\<lambda>x. None \<noteq> Some (rl_id x) \<and> conflicts_with r x) (by_priority (filter (same_group r) (rules s))) = None"
    if "rl_ruleType r \<in> set CONTRADICTABLE_RULE_TYPES"
    using False that by (auto simp: find_None_conv clash_def r_def new_rule_def by_priority_def)
  then have e: "ensureNoConflict r None None s = (Inr (), s)"
    by (simp add: ensureNoConflict_def await_run ok_run reads_run)
  obtain x t where i: "insert_rule r s = (Inr x, t)"
    and t: "rules t = rules s @ [stored_as (uuids s (uuid_next s)) (now s) r]"
    using insert_rule_ok [of r s] assms(3,4) by (auto simp: r_def new_rule_def smallint_def)
  obtain v where v: "audit_rule (rl_workflowId x) (ru_id u) ''RULE_CREATED'' JNull (auditShape x) t = (Inr (), v)"
    "rules v = rules t"
    using audit_rule_run [of "rl_workflowId x" "ru_id u" "''RULE_CREATED''" JNull "auditShape x" t]
    by (metis snd_conv)
  obtain w where w: "invalidate (ru_orgId u) (rl_id x) v = (Inr (), w)" "rules w = rules v"
    by (simp add: invalidate_def invalidateOrgRuleCache_def invalidateRuleSimulationCache_def await_run writes_run)
  have "createRule dto u s = (Inr (JObj [(''rule'', serializeRule x)]), w)"
    by (simp add: createRule_def await_run Let_def r_def [symmetric] assms(1,2) e i v(1) w(1) ok_run)
  then show ?thesis using False t v(2) w(2) by auto
qed


theorem createRule_decides_witness:
  "\<exists>a t. createRule (mapping_rule ''i'' [(''source'', JStr ''a'')]) ann demo_rules = (Inr a, t) \<and>
     rules t = [stored_as ''id'' 10 (new_rule (mapping_rule ''i'' [(''source'', JStr ''a'')]) 1 True ann)]"
proof -
  have d: "rules demo_rules = []" "uuids demo_rules (uuid_next demo_rules) = ''id''" "now demo_rules = 10"
    by (simp_all add: demo_rules_def fresh_name_def)
  show ?thesis
    using createRule_decides [OF ann_manager, of "mapping_rule ''i'' [(''source'', JStr ''a'')]" demo_rules]
    by (simp add: d org_scope mapping_rule_def smallint_def default_def ann_def)
qed

text \<open>A value whose properties the database reorders, and rules for one agent.\<close>

definition nested :: json where
  "nested = JObj [(''role'', JStr ''x''), (''of'', JStr ''y'')]"

definition rule_for :: "AgentType \<Rightarrow> string \<Rightarrow> create_rule_dto" where
  "rule_for a instruction = (mapping_rule instruction [(''source'', JStr ''a'')])
     \<lparr>cr_scope := AGENT, cr_target_agent := Some a\<rparr>"

definition bundle_of :: "create_rule_dto list \<Rightarrow> rules_bundle" where
  "bundle_of dtos = \<lparr> rb_schema_version = ''1.0'',
     rb_rules = map (\<lambda>d. create_rule_dto.extend d (bundle_rule.fields None None)) dtos \<rparr>"

fun is_conflict :: "exn + 'a \<Rightarrow> bool" where
  "is_conflict (Inl (Conflict _)) = True"
| "is_conflict _ = False"

text \<open>The check compares values as they print, but the database stores the properties of a value in
  its own order. So one condition can be given twice, with contradictory instructions: both rules
  are stored, active, with the same condition, and the check itself finds them in conflict once
  they are read back.\<close>

theorem reordered_condition_evades_check:
  "let rs = rules (serve_all_rules [Create (mapping_rule ''map to A'' [(''when'', nested)]) ann,
        Create (mapping_rule ''map to B'' [(''when'', nested)]) ann] demo_rules);
       r = rs ! 1; x = rs ! 0
   in length rs = 2 \<and> rl_isActive r \<and> same_group r x \<and> rl_condition r = rl_condition x \<and> conflicts_with r x"
  by code_simp

text \<open>an import compares every rule with all active rules and all earlier rules of the bundle,
  whatever their agent. So two rules that can be created one after the other, for two agents,
  cannot be imported together into an organization without rules.\<close>

theorem import_refuses_what_create_accepts:
  "length (rules (serve_all_rules [Create (rule_for INTAKE ''map to A'') ann,
        Create (rule_for QA ''map to B'') ann] demo_rules)) = 2 \<and>
   is_conflict (fst (importRules (bundle_of [rule_for INTAKE ''map to A'', rule_for QA ''map to B'']) ann
     demo_rules))"
  by code_simp

end
