(* ===== verification/Comments.thy ===== *)
theory Comments
  imports AiGateway Tenancy
begin

text \<open>
  Comments on workflows and the review of their elements: \<open>src/modules/comments/services/comments.service.ts\<close>.
  The caller is the authenticated user whose id, role and organization the controllers pass on.
\<close>

section \<open>State\<close>

datatype CommentType = QUESTION | CORRECTION | APPROVAL | SUGGESTION | ESCALATION

fun comment_type_str :: "CommentType \<Rightarrow> string" where
  "comment_type_str QUESTION = ''question''"
| "comment_type_str CORRECTION = ''correction''"
| "comment_type_str APPROVAL = ''approval''"
| "comment_type_str SUGGESTION = ''suggestion''"
| "comment_type_str ESCALATION = ''escalation''"

record comment =
  cm_id :: uuid
  cm_workflowId :: uuid
  cm_elementId :: "string option"
  cm_authorId :: uuid
  cm_type :: CommentType
  cm_content :: string
  cm_resolved :: bool
  cm_resolvedAt :: "time option"
  cm_resolvedBy :: "uuid option"
  cm_resolutionNote :: "string option"
  cm_parentId :: "uuid option"
  cm_assignedTo :: "uuid option"
  cm_createdAt :: time

record comments_state = tables +
  comments :: "comment list"
  accounts :: "user_account list"

interpretation comment_repo:
  keyed_store cm_id "find_row cm_id" "save_row cm_id" "remove_row cm_id" set "keyed cm_id"
  by (rule keyed_store_rows) simp_all

text \<open>The entity of a session declares no relations.\<close>

definition session_relations :: "string list" where
  "session_relations = []"

section \<open>Helpers\<close>

definition canUserCreateComment :: "string \<Rightarrow> bool" where
  "canUserCreateComment role \<longleftrightarrow> role \<in> user_role_str ` {REVIEWER, BUSINESS_ANALYST, PROCESS_OWNER, UserRole.ADMIN}"

definition canUserInjectToAi :: "string \<Rightarrow> bool" where
  "canUserInjectToAi role \<longleftrightarrow> role \<in> user_role_str ` {BUSINESS_ANALYST, PROCESS_OWNER, UserRole.ADMIN}"

definition logUserAudit ::
    "uuid \<Rightarrow> request_user \<Rightarrow> string \<Rightarrow> string option \<Rightarrow> json \<Rightarrow> json \<Rightarrow> ('z core_scheme, unit) action" where
  "logUserAudit wid caller event element old new = audit (Some wid) (Some (ru_id caller)) ActorType.USER event element old new"

definition findCommentWithWorkflow :: "uuid \<Rightarrow> uuid \<Rightarrow> ('z comments_state_scheme, comment) action" where
  "findCommentWithWorkflow i org =
     await (reads (\<lambda>s. find_row cm_id i (comments s))) (\<lambda>c.
     await (some_or_throw c (NotFound ''Comment not found'')) (\<lambda>c.
     await (findWorkflowInOrgOrThrow (cm_workflowId c) org ''Comment not found in organization'') (\<lambda>_. ok c)))"

definition save_comment :: "comment \<Rightarrow> ('z comments_state_scheme, unit) action" where
  "save_comment c = writes (comments_update (save_row cm_id c))"

text \<open>\<open>create\<close> and \<open>save\<close> of a new comment; columns that are not given have their defaults.\<close>

definition insert_comment ::
    "uuid \<Rightarrow> string option \<Rightarrow> uuid \<Rightarrow> CommentType \<Rightarrow> string \<Rightarrow> uuid option \<Rightarrow> ('z comments_state_scheme, comment) action" where
  "insert_comment wid element author ty content parent =
     await gen_uuid (\<lambda>i.
     await current_time (\<lambda>t.
     await (reads (\<lambda>s. i \<notin> cm_id ` set (comments s))) (\<lambda>fresh.
     await (require fresh (QueryFailed ''comment_pkey'')) (\<lambda>_.
     let c = \<lparr> cm_id = i, cm_workflowId = wid, cm_elementId = element, cm_authorId = author, cm_type = ty,
               cm_content = content, cm_resolved = False, cm_resolvedAt = None, cm_resolvedBy = None,
               cm_resolutionNote = None, cm_parentId = parent, cm_assignedTo = None, cm_createdAt = t \<rparr>
     in await (writes (comments_update (\<lambda>l. l @ [c]))) (\<lambda>_. ok c)))))"

section \<open>Comments\<close>

record create_comment_dto =
  cc_element_id :: "string option"
  cc_type :: CommentType
  cc_content :: string

definition createComment :: "uuid \<Rightarrow> create_comment_dto \<Rightarrow> request_user \<Rightarrow> ('z comments_state_scheme, comment) action" where
  "createComment wid dto caller =
     await (findWorkflowInOrgOrThrow wid (ru_orgId caller) ''Workflow not found'') (\<lambda>_.
     await (require (canUserCreateComment (ru_role caller)) (Unauthorized ''User role cannot create comments'')) (\<lambda>_.
     await (insert_comment wid (cc_element_id dto) (ru_id caller) (cc_type dto) (cc_content dto) None) (\<lambda>saved.
     await (logUserAudit wid caller ''COMMENT_CREATED'' (cc_element_id dto) JNull
              (JObj [(''comment_id'', JStr (cm_id saved)), (''type'', JStr (comment_type_str (cc_type dto)))])) (\<lambda>_.
     ok saved))))"

record list_comments_query =
  lq_resolved :: "string option"
  lq_type :: "CommentType option"
  lq_element_id :: "string option"

definition comment_matches :: "list_comments_query \<Rightarrow> comment \<Rightarrow> bool" where
  "comment_matches q c \<longleftrightarrow>
     given (lq_resolved q) (\<lambda>r. cm_resolved c = (r = ''true'')) \<and>
     (case lq_type q of None \<Rightarrow> True | Some t \<Rightarrow> cm_type c = t) \<and>
     given (lq_element_id q) (\<lambda>e. cm_elementId c = Some e)"

definition listComments ::
    "uuid \<Rightarrow> uuid \<Rightarrow> list_comments_query \<Rightarrow> ('z comments_state_scheme, comment list \<times> int) action" where
  "listComments wid org q =
     await (findWorkflowInOrgOrThrow wid org ''Workflow not found'') (\<lambda>_.
     reads (\<lambda>s. let cs = sort_key cm_createdAt (filter (\<lambda>c. cm_workflowId c = wid \<and> comment_matches q c) (comments s))
       in (cs, int (length cs))))"

definition updateComment :: "uuid \<Rightarrow> string \<Rightarrow> request_user \<Rightarrow> ('z comments_state_scheme, comment) action" where
  "updateComment i content caller =
     await (findCommentWithWorkflow i (ru_orgId caller)) (\<lambda>c.
     await (require (cm_authorId c = ru_id caller \<or> ru_role caller = user_role_str UserRole.ADMIN)
              (Forbidden ''Only comment author or admin can edit'')) (\<lambda>_.
     let saved = c\<lparr>cm_content := content\<rparr> in
     await (save_comment saved) (\<lambda>_.
     await (logUserAudit (cm_workflowId c) caller ''COMMENT_UPDATED'' (cm_elementId c)
              (JObj [(''content'', JStr (cm_content c))]) (JObj [(''content'', JStr content)])) (\<lambda>_.
     ok saved))))"

definition deleteComment :: "uuid \<Rightarrow> request_user \<Rightarrow> ('z comments_state_scheme, unit) action" where
  "deleteComment i caller =
     await (findCommentWithWorkflow i (ru_orgId caller)) (\<lambda>c.
     await (require (cm_authorId c = ru_id caller \<or> ru_role caller = user_role_str UserRole.ADMIN)
              (Forbidden ''Only comment author or admin can delete'')) (\<lambda>_.
     await current_time (\<lambda>t.
     await (save_comment (c\<lparr>cm_resolved := True, cm_resolvedAt := Some t, cm_resolvedBy := Some (ru_id caller),
              cm_resolutionNote := Some ''deleted''\<rparr>)) (\<lambda>_.
     logUserAudit (cm_workflowId c) caller ''COMMENT_DELETED'' (cm_elementId c) JNull JNull))))"

definition createReply :: "uuid \<Rightarrow> string \<Rightarrow> request_user \<Rightarrow> ('z comments_state_scheme, comment) action" where
  "createReply i content caller =
     await (findCommentWithWorkflow i (ru_orgId caller)) (\<lambda>parent.
     await (require (canUserCreateComment (ru_role caller)) (Unauthorized ''User role cannot create comments'')) (\<lambda>_.
     await (insert_comment (cm_workflowId parent) (cm_elementId parent) (ru_id caller) (cm_type parent) content
              (Some (cm_id parent))) (\<lambda>saved.
     await (logUserAudit (cm_workflowId parent) caller ''COMMENT_REPLY_CREATED'' (cm_elementId parent)
              (JObj [(''parent_comment_id'', JStr (cm_id parent))]) (JObj [(''reply_id'', JStr (cm_id saved))])) (\<lambda>_.
     ok saved))))"

definition resolveComment :: "uuid \<Rightarrow> string \<Rightarrow> request_user \<Rightarrow> ('z comments_state_scheme, comment) action" where
  "resolveComment i note caller =
     await (findCommentWithWorkflow i (ru_orgId caller)) (\<lambda>c.
     await (require (note \<noteq> [] \<and> js_trim note \<noteq> []) (Forbidden ''Resolution note is required'')) (\<lambda>_.
     await current_time (\<lambda>t.
     let saved = c\<lparr>cm_resolved := True, cm_resolvedAt := Some t, cm_resolvedBy := Some (ru_id caller),
                   cm_resolutionNote := Some note\<rparr> in
     await (save_comment saved) (\<lambda>_.
     await (logUserAudit (cm_workflowId c) caller ''COMMENT_RESOLVED'' (cm_elementId c)
              (JObj [(''resolved'', JBool False)])
              (JObj [(''resolved'', JBool True), (''resolution_note'', JStr note)])) (\<lambda>_.
     ok saved)))))"

definition assignComment :: "uuid \<Rightarrow> uuid \<Rightarrow> request_user \<Rightarrow> ('z comments_state_scheme, comment) action" where
  "assignComment i assignee caller =
     await (findCommentWithWorkflow i (ru_orgId caller)) (\<lambda>c.
     await (require (cm_authorId c = ru_id caller \<or> ru_role caller \<in> user_role_str ` {UserRole.ADMIN, PROCESS_OWNER})
              (Forbidden ''Only comment author, admin, or process owner can assign'')) (\<lambda>_.
     await (reads (\<lambda>s. find (\<lambda>u. usr_id u = assignee \<and> usr_orgId u = ru_orgId caller) (accounts s))) (\<lambda>u.
     await (some_or_throw u (NotFound ''Assignee not found in organization'')) (\<lambda>_.
     let saved = c\<lparr>cm_assignedTo := Some assignee\<rparr> in
     await (save_comment saved) (\<lambda>_.
     await (logUserAudit (cm_workflowId c) caller ''COMMENT_ASSIGNED'' (cm_elementId c)
              (JObj [(''assigned_to'', JNull)]) (JObj [(''assigned_to'', JStr assignee)])) (\<lambda>_.
     await (emit_to_room (room_session assignee) ''notification.review_request''
              (JObj [(''comment_id'', JStr i), (''workflow_id'', JStr (cm_workflowId c))])) (\<lambda>_.
     ok saved)))))))"

definition getAssignedToMe :: "uuid \<Rightarrow> uuid \<Rightarrow> string option \<Rightarrow> ('z comments_state_scheme, comment list) action" where
  "getAssignedToMe org user resolved =
     reads (\<lambda>s. sort_key cm_createdAt (filter (\<lambda>c. cm_assignedTo c = Some user \<and>
       given resolved (\<lambda>r. cm_resolved c = (r = ''true''))) (comments s)))"

section \<open>A comment becomes a task\<close>

text \<open>\<open>findOne\<close> with a relation that the entity does not declare throws.\<close>

definition session_with_relations :: "string list \<Rightarrow> uuid \<Rightarrow> ('z core_scheme, session option) action" where
  "session_with_relations relations wid =
     await (require (set relations \<subseteq> set session_relations)
              (PlainError ''Property was not found in \"Session\". Make sure your query is correct.'')) (\<lambda>_.
     reads (\<lambda>s. first_row (filter (\<lambda>r. ses_workflowId r = wid) (sessions s))))"

definition injectToAi :: "uuid \<Rightarrow> request_user \<Rightarrow> ('z comments_state_scheme, uuid) action" where
  "injectToAi i caller =
     await (findCommentWithWorkflow i (ru_orgId caller)) (\<lambda>c.
     await (require (canUserInjectToAi (ru_role caller)) (Unauthorized ''User role cannot inject to AI'')) (\<lambda>_.
     await (session_with_relations [''userId''] (cm_workflowId c)) (\<lambda>found.
     await (case found of Some ses \<Rightarrow> ok ses
            | None \<Rightarrow>
                await (reads (\<lambda>s. find_row wf_id (cm_workflowId c) (workflows s))) (\<lambda>w.
                await (some_or_throw w (NotFound ''Workflow not found'')) (\<lambda>w.
                await (new_id ses_id sessions ''session_pkey'') (\<lambda>j.
                await current_time (\<lambda>t.
                let ses = \<lparr> ses_id = j, ses_workflowId = cm_workflowId c, ses_userId = wf_ownerId w, ses_mode = AUTO,
                            ses_status = SessionStatus.CREATED, ses_confidenceScore = 0, ses_createdAt = t,
                            ses_finalizedAt = None, ses_archivedAt = None \<rparr>
                in await (writes (sessions_update (\<lambda>l. l @ [ses]))) (\<lambda>_. ok ses)))))) (\<lambda>ses.
     await (new_id pe_id pipeline_executions ''pipeline_execution_pkey'') (\<lambda>j.
     await current_time (\<lambda>t.
     let text = JObj [(''comment_text'', JStr (cm_content c)), (''target_element_id'', json_str_opt (cm_elementId c))];
         p = \<lparr> tp_sessionId = ses_id ses, tp_taskType = SCOPED_REPROCESS, tp_mode = AUTO, tp_input = text,
               tp_triggeredBy = Some (ru_id caller), tp_resumeFromCheckpoint = None \<rparr>;
         execution = new_pipeline p j t;
         correlation = ''comment-'' @ i in
     await (writes (pipeline_executions_update (\<lambda>l. l @ [execution]))) (\<lambda>_.
     await (nats_publish ''ai.tasks.new''
              (JObj (obj_fields (task_new_event correlation (ru_orgId caller) p j) @
                [(''scoped_target'', JObj [(''comment_id'', JStr i), (''element_id'', json_str_opt (cm_elementId c))])]))
              (msg_id_for correlation ''ai.tasks.new'' j)) (\<lambda>_.
     await (save_pipeline (execution\<lparr>pe_natsMessageId := Some (correlation @ '':ai.tasks.new:'' @ j)\<rparr>)) (\<lambda>_.
     await (insert_message \<lparr> msg_id = [], msg_sessionId = ses_id ses, msg_role = SYSTEM, msg_type = SYSTEM_NOTE,
              msg_content = ''AI task injected from comment '' @ i @ '': '' @ cm_content c,
              msg_metadata = JObj [(''comment_id'', JStr i), (''task_type'', JStr ''SCOPED_REPROCESS''),
                (''pipeline_execution_id'', JStr j)],
              msg_createdAt = 0, msg_archivedAt = None \<rparr>) (\<lambda>_.
     await (logUserAudit (cm_workflowId c) caller ''COMMENT_INJECTED_TO_AI'' (cm_elementId c) JNull
              (JObj [(''comment_id'', JStr i), (''pipeline_execution_id'', JStr j), (''session_id'', JStr (ses_id ses))])) (\<lambda>_.
     ok j)))))))))))"

section \<open>Review of the elements\<close>

text \<open>
  The elements are the array that \<open>elements_json\<close> holds; calling \<open>map\<close> or \<open>filter\<close> of something else throws,
  and so does reading a property of \<open>null\<close>. A spread copies the own properties, of a string or an
  array its indices.
\<close>

definition elements_array :: "json \<Rightarrow> ('s, json list) action" where
  "elements_array j = (case j of
     JArr es \<Rightarrow> await (require (JNull \<notin> set es) (TypeErr ''Cannot read properties of null'')) (\<lambda>_. ok es)
   | _ \<Rightarrow> throw (TypeErr ''is not a function''))"

fun own_fields :: "json \<Rightarrow> (string \<times> json) list" where
  "own_fields (JObj fs) = fs"
| "own_fields (JArr vs) = zip (map nat_str [0..<length vs]) vs"
| "own_fields (JStr t) = zip (map nat_str [0..<length t]) (map (\<lambda>c. JStr [c]) t)"
| "own_fields _ = []"

definition approved :: "json \<Rightarrow> bool" where
  "approved e \<longleftrightarrow> get_prop e ''approved'' = Some (JBool True)"

definition archived_element :: "json \<Rightarrow> bool" where
  "archived_element e \<longleftrightarrow> get_prop e ''archived'' = Some (JBool True)"

definition approve :: "uuid \<Rightarrow> time \<Rightarrow> json \<Rightarrow> json" where
  "approve user t e = JObj (spread (own_fields e)
     [(''approved'', JBool True), (''approved_by'', JStr user), (''approved_at'', json_date t)])"

text \<open>\<open>Math.round\<close> of the percentage; quotients are exact here.\<close>

definition completion_pct :: "int \<Rightarrow> int \<Rightarrow> int" where
  "completion_pct n count = (if count > 0 then \<lfloor>of_int n / of_int count * 100 + (1 / 2 :: rat)\<rfloor> else 0)"

definition getReviewProgress :: "uuid \<Rightarrow> uuid \<Rightarrow> ('z comments_state_scheme, int \<times> int \<times> int) action" where
  "getReviewProgress wid org =
     await (findWorkflowInOrgOrThrow wid org ''Workflow not found'') (\<lambda>_.
     await (reads (latest_version wid)) (\<lambda>v.
     await (case v of
         None \<Rightarrow> ok []
       | Some v \<Rightarrow> if truthy (wv_elementsJson v) then elements_array (wv_elementsJson v) else ok []) (\<lambda>es.
     let shown = filter (\<lambda>e. \<not> archived_element e) es;
         count = int (length shown); n = int (length (filter approved shown)) in
     ok (n, count, completion_pct n count))))"

definition save_elements :: "uuid \<Rightarrow> json list \<Rightarrow> ('z core_scheme, unit) action" where
  "save_elements vid es =
     writes (workflow_versions_update (update_where (\<lambda>v. wv_id v = vid) (\<lambda>v. v\<lparr>wv_elementsJson := JArr es\<rparr>)))"

definition approveElement :: "uuid \<Rightarrow> string \<Rightarrow> request_user \<Rightarrow> ('z comments_state_scheme, unit) action" where
  "approveElement wid element caller =
     await (findWorkflowInOrgOrThrow wid (ru_orgId caller) ''Workflow not found'') (\<lambda>_.
     await (reads (latest_version wid)) (\<lambda>v.
     await (some_or_throw v (NotFound ''No version found for workflow'')) (\<lambda>v.
     await (elements_array (wv_elementsJson v)) (\<lambda>es.
     await current_time (\<lambda>t.
     await (save_elements (wv_id v) (map (\<lambda>e. if get_prop e ''id'' = Some (JStr element)
                                             then approve (ru_id caller) t e else e) es)) (\<lambda>_.
     logUserAudit wid caller ''ELEMENT_APPROVED'' (Some element) JNull JNull))))))"

text \<open>
  The elements a bulk approval is for: those with one of the given ids, or, when none are given, those
  whose id is that of an element that is not approved. \<open>includes\<close> compares objects by identity.
\<close>

definition targeted :: "string list option \<Rightarrow> json list \<Rightarrow> json \<Rightarrow> bool" where
  "targeted ids es e \<longleftrightarrow> (case ids of
     Some l \<Rightarrow> list_ex (\<lambda>i. get_prop e ''id'' = Some (JStr i)) l
   | None \<Rightarrow> \<not> approved e \<or> list_ex (\<lambda>x. \<not> approved x \<and> same_id x e) es)"

definition bulkApproveElements ::
    "uuid \<Rightarrow> string list option \<Rightarrow> request_user \<Rightarrow> ('z comments_state_scheme, int) action" where
  "bulkApproveElements wid ids caller =
     await (findWorkflowInOrgOrThrow wid (ru_orgId caller) ''Workflow not found'') (\<lambda>_.
     await (require (ru_role caller \<in> user_role_str ` {UserRole.ADMIN, PROCESS_OWNER})
              (Forbidden ''Only Admin or Process Owner can bulk approve'')) (\<lambda>_.
     await (reads (latest_version wid)) (\<lambda>v.
     await (some_or_throw v (NotFound ''No version found for workflow'')) (\<lambda>v.
     await (elements_array (wv_elementsJson v)) (\<lambda>es.
     await current_time (\<lambda>t.
     let chosen = filter (targeted ids es) es in
     await (save_elements (wv_id v) (map (\<lambda>e. if targeted ids es e then approve (ru_id caller) t e else e) es)) (\<lambda>_.
     await (logUserAudit wid caller ''ELEMENTS_BULK_APPROVED'' None JNull
              (JObj [(''element_ids'', JArr (map (\<lambda>e. case get_prop e ''id'' of None \<Rightarrow> JNull | Some j \<Rightarrow> j) chosen))])) (\<lambda>_.
     ok (int (length chosen))))))))))"

section \<open>Notifying reviewers\<close>

fun first_occurrences :: "'a list \<Rightarrow> 'a list" where
  "first_occurrences [] = []"
| "first_occurrences (x # xs) = x # filter (\<lambda>y. y \<noteq> x) (first_occurrences xs)"

definition triggerReviewerNotification :: "uuid \<Rightarrow> ('z comments_state_scheme, unit) action" where
  "triggerReviewerNotification wid =
     await (reads (\<lambda>s. find_row wf_id wid (workflows s))) (\<lambda>w. case w of
       None \<Rightarrow> ok ()
     | Some w \<Rightarrow> if wf_status w \<noteq> PENDING_REVIEW then ok ()
         else await (reads (\<lambda>s. first_occurrences (filter (\<lambda>u. u \<noteq> [])
                  (List.map_filter cm_assignedTo (filter (\<lambda>c. cm_workflowId c = wid) (comments s)))))) (\<lambda>reviewers.
              for_each reviewers (\<lambda>u.
                await (reads (\<lambda>s. find_row usr_id u (accounts s))) (\<lambda>account. case account of
                    None \<Rightarrow> ok ()
                  | Some _ \<Rightarrow> emit_to_room (room_session u) ''notification.review_request''
                      (JObj [(''workflow_id'', JStr wid), (''workflow_title'', JStr (wf_title w))])))))"

end
