(* ===== verification/CommentsProps.thy ===== *)
theory CommentsProps
  imports Comments GatewayProps
begin

text \<open>
  What comments and reviews keep: nothing of another organization changes, a bulk approval approves
  everything, and what cannot be reviewed. A small instance serves the witnesses.
\<close>

section \<open>Rows that are left alone\<close>

lemma filter_save_row:
  "find_row key (key r') l = Some r \<Longrightarrow> \<not> P r \<Longrightarrow> \<not> P r' \<Longrightarrow> filter P (save_row key r' l) = filter P l"
  by (induction l) (auto simp: find_row_def split: if_splits)

lemma filter_update_where:
  "(\<And>v. v \<in> set l \<Longrightarrow> Q v \<Longrightarrow> \<not> P v \<and> \<not> P (f v)) \<Longrightarrow> filter P (update_where Q f l) = filter P l"
  by (induction l) (auto simp: update_where_def)

lemma keyed_update_same: "keyed key l \<Longrightarrow> (\<And>v. key (f v) = key v) \<Longrightarrow> keyed key (update_where Q f l)"
  by (simp add: keyed_def update_where_def comp_def if_distrib cong: if_cong)

section \<open>Who may see a comment\<close>

definition comment_visible :: "'z comments_state_scheme \<Rightarrow> uuid \<Rightarrow> uuid \<Rightarrow> bool" where
  "comment_visible s org i \<longleftrightarrow> (\<exists>c. find_row cm_id i (comments s) = Some c \<and> workflow_in_org (cm_workflowId c) org s \<noteq> None)"

lemma reads_findComment [read_intros]: "reads_only (findCommentWithWorkflow i org)"
  unfolding findCommentWithWorkflow_def by (intro read_intros)

lemma findComment_Inr: "findCommentWithWorkflow i org s = (Inr c, t) \<longleftrightarrow>
    find_row cm_id i (comments s) = Some c \<and> workflow_in_org (cm_workflowId c) org s \<noteq> None \<and> t = s"
  by (auto simp: findCommentWithWorkflow_def action_Inr findWorkflow_Inr_iff)

interpretation comment_gate: access_gate "\<lambda>org i. findCommentWithWorkflow i org" comment_visible
proof unfold_locales
  show "reads_only (findCommentWithWorkflow i org)" for i org by (rule reads_findComment)
  show "comment_visible s org i" if "findCommentWithWorkflow i org s = (Inr c, t)"
    for s :: "'a comments_state_scheme" and org i c t
    using that by (auto simp: findComment_Inr comment_visible_def)
  show "\<not> comment_visible s org i" if "findCommentWithWorkflow i org s = (Inl e, t)"
    for s :: "'a comments_state_scheme" and org i e t
  proof
    assume "comment_visible s org i"
    then obtain c where "findCommentWithWorkflow i org s = (Inr c, s)" by (auto simp: findComment_Inr comment_visible_def)
    with that show False by simp
  qed
qed

section \<open>Other organizations\<close>

definition foreign :: "uuid \<Rightarrow> 'z core_scheme \<Rightarrow> uuid \<Rightarrow> bool" where
  "foreign org s wid \<longleftrightarrow> workflow_in_org wid org s = None"

text \<open>Since \<open>s\<close>, nothing that hangs on the workflows of other organizations has changed.\<close>

definition untouched :: "uuid \<Rightarrow> 'z comments_state_scheme \<Rightarrow> 'z comments_state_scheme \<Rightarrow> bool" where
  "untouched org s t \<longleftrightarrow> workflows t = workflows s \<and> keyed cm_id (comments t) \<and> keyed wv_id (workflow_versions t) \<and>
     filter (\<lambda>c. foreign org s (cm_workflowId c)) (comments t) = filter (\<lambda>c. foreign org s (cm_workflowId c)) (comments s) \<and>
     filter (\<lambda>v. foreign org s (wv_workflowId v)) (workflow_versions t) =
       filter (\<lambda>v. foreign org s (wv_workflowId v)) (workflow_versions s)"

lemma untouched_db_only: "db_only (untouched org s)"
  by (rule db_onlyI) (simp_all add: untouched_def)

lemma same_org: "workflows t = workflows s \<Longrightarrow> workflow_in_org wid org t = workflow_in_org wid org s"
  by (simp add: workflow_in_org_def)

lemma keeps_logUserAudit [keeps_intros]: "db_only P \<Longrightarrow> keeps P (logUserAudit wid u e el a b)"
  unfolding logUserAudit_def by (intro keeps_intros)

lemma leaves_save_comment:
  assumes "untouched org s t" and "findCommentWithWorkflow i org t = (Inr c, t)"
    and "cm_id c' = cm_id c" and "cm_workflowId c' = cm_workflowId c"
  shows "leaves (untouched org s) (save_comment c') t"
proof -
  have c: "find_row cm_id i (comments t) = Some c" "workflow_in_org (cm_workflowId c) org t \<noteq> None"
    using assms(2) by (auto simp: findComment_Inr)
  have own: "\<not> foreign org s (cm_workflowId c)"
    using c(2) assms(1) same_org [of t s] by (simp add: foreign_def untouched_def)
  have "find_row cm_id (cm_id c') (comments t) = Some c" using c(1) find_row_Some [OF c(1)] assms(3) by simp
  from filter_save_row [OF this, of "\<lambda>c. foreign org s (cm_workflowId c)"] own assms(1,4) show ?thesis
    by (simp add: leaves_def save_comment_def writes_run untouched_def)
qed

lemma leaves_insert_comment:
  assumes "untouched org s t" and "workflow_in_org wid org t \<noteq> None"
  shows "leaves (untouched org s) (insert_comment wid el a ty x p) t"
  using assms same_org [of t s]
  by (auto simp: leaves_def insert_comment_def action_simps Let_def untouched_def foreign_def keyed_def)

lemma leaves_edits:
  "untouched (ru_orgId u) s t \<Longrightarrow> leaves (untouched (ru_orgId u) s) (updateComment i x u) t"
    "untouched (ru_orgId u) s t \<Longrightarrow> leaves (untouched (ru_orgId u) s) (deleteComment i u) t"
    "untouched (ru_orgId u) s t \<Longrightarrow> leaves (untouched (ru_orgId u) s) (resolveComment i x u) t"
    "untouched (ru_orgId u) s t \<Longrightarrow> leaves (untouched (ru_orgId u) s) (assignComment i a u) t"
  unfolding updateComment_def deleteComment_def resolveComment_def assignComment_def Let_def
  by ((rule leaves_guard, rule read_intros, assumption)+, rule leaves_step, rule leaves_save_comment, assumption,
      assumption, simp, simp, rule leaves_keeps, intro keeps_intros untouched_db_only, assumption)+

lemma leaves_new_comments:
  "untouched (ru_orgId u) s t \<Longrightarrow> leaves (untouched (ru_orgId u) s) (createReply i x u) t"
    "untouched (ru_orgId u) s t \<Longrightarrow> leaves (untouched (ru_orgId u) s) (createComment wid dto u) t"
  unfolding createReply_def createComment_def
  by ((rule leaves_guard, rule read_intros, assumption)+, rule leaves_step, rule leaves_insert_comment, assumption,
      simp add: findComment_Inr findWorkflow_Inr_iff, rule leaves_keeps, intro keeps_intros untouched_db_only, assumption)+

lemma injectToAi_refused: "\<exists>e. injectToAi i u s = (Inl e, s)"
  by (cases "findCommentWithWorkflow i (ru_orgId u) s")
     (auto simp: injectToAi_def session_with_relations_def session_relations_def action_simps
       findCommentWithWorkflow_def split: if_splits option.splits)


section \<open>Reviews\<close>

lemma latest_version_in:
  "latest_version wid s = Some v \<Longrightarrow> v \<in> set (workflow_versions s) \<and> wv_workflowId v = wid"
  unfolding latest_version_def versions_of_def by (drule first_row_in) simp

lemma reads_elements_array [read_intros]: "reads_only (elements_array j)"
  unfolding elements_array_def by (cases j) (simp_all, (intro read_intros)+)

lemma keyed_same: "keyed key l \<Longrightarrow> x \<in> set l \<Longrightarrow> y \<in> set l \<Longrightarrow> key x = key y \<Longrightarrow> x = y"
  using find_row_keyed by (metis option.inject)

lemma leaves_save_elements:
  assumes "untouched org s t" and "findWorkflowInOrgOrThrow wid org m t = (Inr w, t)"
    and "some_or_throw v0 e t = (Inr v, t)" and "reads (latest_version wid) t = (Inr v0, t)"
  shows "leaves (untouched org s) (save_elements (wv_id v) es) t"
proof -
  have v: "v \<in> set (workflow_versions t)" "wv_workflowId v = wid"
    using assms(3,4) latest_version_in [of wid t v] by (simp_all add: reads_run some_or_throw_Inr_iff)
  have k: "keyed wv_id (workflow_versions t)" using assms(1) by (simp add: untouched_def)
  have own: "\<not> foreign org s wid"
    using assms(1,2) same_org [of t s] by (auto simp: foreign_def untouched_def findWorkflow_Inr_iff)
  have "wv_workflowId x = wid" if "x \<in> set (workflow_versions t)" "wv_id x = wv_id v" for x
    using keyed_same [OF k that(1) v(1) that(2)] v(2) by simp
  then have "filter (\<lambda>v. foreign org s (wv_workflowId v))
      (update_where (\<lambda>x. wv_id x = wv_id v) (\<lambda>x. x\<lparr>wv_elementsJson := JArr es\<rparr>) (workflow_versions t)) =
    filter (\<lambda>v. foreign org s (wv_workflowId v)) (workflow_versions t)"
    using own by (intro filter_update_where) auto
  moreover have "keyed wv_id (update_where (\<lambda>x. wv_id x = wv_id v) (\<lambda>x. x\<lparr>wv_elementsJson := JArr es\<rparr>) (workflow_versions t))"
    by (rule keyed_update_same [OF k]) simp
  ultimately show ?thesis using assms(1)
    by (simp add: leaves_def save_elements_def writes_run untouched_def)
qed

lemma leaves_reviews:
  "untouched (ru_orgId u) s t \<Longrightarrow> leaves (untouched (ru_orgId u) s) (approveElement wid el u) t"
    "untouched (ru_orgId u) s t \<Longrightarrow> leaves (untouched (ru_orgId u) s) (bulkApproveElements wid ids u) t"
  unfolding approveElement_def bulkApproveElements_def Let_def
  by ((rule leaves_guard, rule read_intros, assumption)+, rule leaves_step, rule leaves_save_elements, assumption,
      assumption, assumption, assumption, rule leaves_keeps, intro keeps_intros untouched_db_only, assumption)+

lemma keeps_notify: "keeps (untouched org s) (triggerReviewerNotification wid)"
  unfolding triggerReviewerNotification_def by (intro keeps_intros untouched_db_only)

section \<open>Requests\<close>

datatype comment_request =
    CreateComment uuid create_comment_dto
  | UpdateComment uuid string
  | DeleteComment uuid
  | CreateReply uuid string
  | ResolveComment uuid string
  | InjectToAi uuid
  | AssignComment uuid uuid
  | ApproveElement uuid string
  | BulkApprove uuid "string list option"

fun serve_comments :: "request_user \<Rightarrow> comment_request \<Rightarrow> ('z comments_state_scheme, unit) action" where
  "serve_comments u (CreateComment wid dto) = answer (createComment wid dto u)"
| "serve_comments u (UpdateComment i x) = answer (updateComment i x u)"
| "serve_comments u (DeleteComment i) = answer (deleteComment i u)"
| "serve_comments u (CreateReply i x) = answer (createReply i x u)"
| "serve_comments u (ResolveComment i x) = answer (resolveComment i x u)"
| "serve_comments u (InjectToAi i) = answer (injectToAi i u)"
| "serve_comments u (AssignComment i a) = answer (assignComment i a u)"
| "serve_comments u (ApproveElement wid el) = answer (approveElement wid el u)"
| "serve_comments u (BulkApprove wid ids) = answer (bulkApproveElements wid ids u)"

fun serve_all_comments ::
    "(request_user \<times> comment_request) list \<Rightarrow> 'z comments_state_scheme \<Rightarrow> 'z comments_state_scheme" where
  "serve_all_comments [] s = s"
| "serve_all_comments ((u, q) # qs) s = serve_all_comments qs (snd (serve_comments u q s))"

lemma serve_comments_untouched:
  "untouched (ru_orgId u) s t \<Longrightarrow> leaves (untouched (ru_orgId u) s) (serve_comments u q) t"
proof (cases q)
  case (InjectToAi i)
  obtain e where "injectToAi i u t = (Inl e, t)" using injectToAi_refused by blast
  then have "leaves (untouched (ru_orgId u) s) (injectToAi i u) t" if "untouched (ru_orgId u) s t"
    using that by (simp add: leaves_def)
  then show "untouched (ru_orgId u) s t \<Longrightarrow> leaves (untouched (ru_orgId u) s) (serve_comments u q) t"
    using InjectToAi by (simp add: leaves_answer)
qed (simp_all add: leaves_answer leaves_edits leaves_new_comments leaves_reviews)

lemma serve_all_untouched:
  "list_all (\<lambda>(u, q). ru_orgId u = org) qs \<Longrightarrow> untouched org s t \<Longrightarrow> untouched org s (serve_all_comments qs t)"
proof (induction qs t rule: serve_all_comments.induct)
  case (2 u q qs t)
  then have "leaves (untouched org s) (serve_comments u q) t" using serve_comments_untouched [of u s t q] by simp
  with 2 show ?case by (simp add: leaves_def)
qed simp

section \<open>A bulk approval approves everything\<close>

lemma approve_fields: "get_prop (approve u t e) k =
   (if k = ''approved_at'' then Some (json_date t) else if k = ''approved_by'' then Some (JStr u)
    else if k = ''approved'' then Some (JBool True) else map_of (own_fields e) k)"
  by (simp add: approve_def get_prop_def map_of_spread map_add_def)

lemma approved_approve [simp]: "approved (approve u t e)"
  by (simp add: approved_def approve_fields)

lemma approve_not_null [simp]: "approve u t e \<noteq> JNull" "JNull \<noteq> approve u t e"
  by (simp_all add: approve_def)

lemma not_targeted: "\<not> targeted None es e \<Longrightarrow> approved e"
  by (auto simp: targeted_def)

lemma sort_key_map: "sort_key f (map g xs) = map g (sort_key (\<lambda>x. f (g x)) xs)"
proof -
  have "insort_key f (g x) (map g ys) = map g (insort_key (\<lambda>x. f (g x)) x ys)" for x ys
    by (induction ys) simp_all
  then show ?thesis by (induction xs) (simp_all add: sort_key_def)
qed

lemma first_row_map: "first_row (map g xs) = map_option g (first_row xs)"
  by (cases xs) simp_all

lemma latest_version_save:
  assumes "latest_version wid s = Some v" and "keyed wv_id (workflow_versions s)"
  shows "latest_version wid (s\<lparr>workflow_versions :=
    update_where (\<lambda>x. wv_id x = wv_id v) (\<lambda>x. x\<lparr>wv_elementsJson := j\<rparr>) (workflow_versions s)\<rparr>) = Some (v\<lparr>wv_elementsJson := j\<rparr>)"
proof -
  let ?g = "\<lambda>x. if wv_id x = wv_id v then x\<lparr>wv_elementsJson := j\<rparr> else x"
  have f: "filter (\<lambda>x. wv_workflowId x = wid) (map ?g l) = map ?g (filter (\<lambda>x. wv_workflowId x = wid) l)" for l
    by (induction l) simp_all
  have k: "(\<lambda>x. - wv_versionNumber (?g x)) = (\<lambda>x. - wv_versionNumber x)" by auto
  show ?thesis
    using assms(1) by (simp add: latest_version_def versions_of_def update_where_def f sort_desc_def sort_key_map
        first_row_map k [simplified])
qed

lemma elements_array_Inr: "elements_array j s = (Inr es, t) \<longleftrightarrow> j = JArr es \<and> JNull \<notin> set es \<and> t = s"
  by (cases j) (auto simp: elements_array_def action_Inr throw_run)

lemma logUserAudit_frame:
  assumes "logUserAudit wid u e el a b s = (r, t)"
  shows "workflows t = workflows s" "workflow_versions t = workflow_versions s"
  using assms by (auto simp: logUserAudit_def audit_run)

lemma progress_run:
  assumes "workflow_in_org wid org s = Some w" and "latest_version wid s = Some v" and "wv_elementsJson v = JArr es"
    and "JNull \<notin> set es"
  shows "getReviewProgress wid org s = (let shown = filter (\<lambda>e. \<not> archived_element e) es;
     m = int (length shown); n = int (length (filter approved shown)) in (Inr (n, m, completion_pct n m), s))"
  using assms by (simp add: getReviewProgress_def await_run reads_run findWorkflowInOrgOrThrow_run elements_array_def
      require_run ok_run Let_def)

lemma completion_full: "completion_pct m m = (if 0 < m then 100 else 0)"
  by (auto simp: completion_pct_def floor_eq_iff)

lemma bulk_then_progress:
  assumes run: "bulkApproveElements wid None u s = (Inr n, t)" and k: "keyed wv_id (workflow_versions s)"
  shows "\<exists>m \<ge> 0. getReviewProgress wid (ru_orgId u) t = (Inr (m, m, if 0 < m then 100 else 0), t)"
proof -
  from run obtain w v es t' j where w: "workflow_in_org wid (ru_orgId u) s = Some w"
    and v: "latest_version wid s = Some v" "wv_elementsJson v = JArr es" "JNull \<notin> set es"
    and t: "save_elements (wv_id v) (map (\<lambda>e. if targeted None es e then approve (ru_id u) (now s) e else e) es) s = (Inr (), t')"
    and tt: "logUserAudit wid u ''ELEMENTS_BULK_APPROVED'' None JNull j t' = (Inr (), t)"
    by (auto simp: bulkApproveElements_def action_Inr findWorkflow_Inr_iff elements_array_Inr current_time_run Let_def)
  note same = logUserAudit_frame [OF tt]
  let ?es = "map (\<lambda>e. if targeted None es e then approve (ru_id u) (now s) e else e) es"
  have latest: "latest_version wid t = Some (v\<lparr>wv_elementsJson := JArr ?es\<rparr>)"
    using latest_version_save [OF v(1) k, of "JArr ?es"] t
    by (auto simp: same save_elements_def writes_run latest_version_def versions_of_def)
  have w': "workflow_in_org wid (ru_orgId u) t = Some w"
    using w t by (auto simp: same save_elements_def writes_run workflow_in_org_def)
  have null: "JNull \<notin> set ?es" using v(3) by auto
  have all: "filter approved (filter (\<lambda>e. \<not> archived_element e) ?es) = filter (\<lambda>e. \<not> archived_element e) ?es"
    by (rule filter_True) (auto simp: not_targeted)
  have el: "wv_elementsJson (v\<lparr>wv_elementsJson := JArr ?es\<rparr>) = JArr ?es" by simp
  let ?m = "int (length (filter (\<lambda>e. \<not> archived_element e) ?es))"
  have "getReviewProgress wid (ru_orgId u) t = (Inr (?m, ?m, if 0 < ?m then 100 else 0), t)"
    using progress_run [OF w' latest el null] by (simp only: all Let_def completion_full)
  then show ?thesis by (intro exI [of _ ?m] conjI of_nat_0_le_iff)
qed

end
