(* ===== verification/CommentsClaims.thy ===== *)
theory CommentsClaims
  imports CommentsProps
begin

text \<open>The properties of comments and reviews, with a small instance.\<close>

definition bob :: request_user where
  "bob = \<lparr> ru_id = ''bob'', ru_orgId = ''o'', ru_role = user_role_str PROCESS_OWNER \<rparr>"

definition review_workflow :: "uuid \<Rightarrow> uuid \<Rightarrow> workflow" where
  "review_workflow i org = (blank_workflow org ''bob'')\<lparr>wf_id := i, wf_currentVersion := 1\<rparr>"

definition review_version :: "uuid \<Rightarrow> uuid \<Rightarrow> json \<Rightarrow> workflow_version" where
  "review_version i wid j = version_row i 0 \<lparr> nv_workflowId = wid, nv_versionNumber = 1, nv_elementsJson = j,
     nv_elsaJson = None, nv_confidenceScore = None, nv_createdBy = None \<rparr>"

definition demo_comment :: "uuid \<Rightarrow> uuid \<Rightarrow> comment" where
  "demo_comment i wid = \<lparr> cm_id = i, cm_workflowId = wid, cm_elementId = None, cm_authorId = ''bob'', cm_type = QUESTION,
     cm_content = ''?'', cm_resolved = False, cm_resolvedAt = None, cm_resolvedBy = None, cm_resolutionNote = None,
     cm_parentId = None, cm_assignedTo = None, cm_createdAt = 0 \<rparr>"

text \<open>The workflow ''w'' of the organization ''o'' with the given content, and ''w2'' of ''o2''.\<close>

definition demo_comments :: "json \<Rightarrow> comments_state" where
  "demo_comments j = \<lparr> now = 10, uuids = fresh_name ''id'', uuid_next = 0, rooms_live = (\<lambda>_. True), nats_up = True,
     workflows = [review_workflow ''w'' ''o'', review_workflow ''w2'' ''o2''],
     workflow_versions = [review_version ''v'' ''w'' j, review_version ''v2'' ''w2'' j],
     sessions = [], audit_log = [], emitted = [], published = [],
     messages = [], documents = [], skills = [], pipeline_executions = [], agent_executions = [], agent_logs = [],
     agent_definitions = [], dead_letters = [], kg_nodes = [], kg_edges = [], graph_snapshots = [],
     divergence_reports = [], correlation_id = ''system'',
     comments = [demo_comment ''c'' ''w'', demo_comment ''c2'' ''w2''], accounts = [] \<rparr>"

lemmas demo_comments_simps = demo_comments_def review_workflow_def review_version_def version_row_def blank_workflow_def
  demo_comment_def bob_def workflow_in_org_def latest_version_def versions_of_def sort_desc_def keyed_def find_row_def

text \<open>C36: Whatever members of one organization ask for, comments on workflows of other organizations, and the
  versions of these workflows, stay as they are.\<close>

theorem comments_stay_in_organization:
  assumes "keyed cm_id (comments s)" and "keyed wv_id (workflow_versions s)"
    and "list_all (\<lambda>(u, q). ru_orgId u = org) qs"
  shows "filter (\<lambda>c. foreign org s (cm_workflowId c)) (comments (serve_all_comments qs s)) =
      filter (\<lambda>c. foreign org s (cm_workflowId c)) (comments s) \<and>
    filter (\<lambda>v. foreign org s (wv_workflowId v)) (workflow_versions (serve_all_comments qs s)) =
      filter (\<lambda>v. foreign org s (wv_workflowId v)) (workflow_versions s)"
proof -
  have "untouched org s s" using assms(1,2) by (simp add: untouched_def)
  from serve_all_untouched [OF assms(3) this] show ?thesis by (simp add: untouched_def)
qed

theorem comments_stay_in_organization_witness:
  "let s = demo_comments (JArr []);
       t = serve_all_comments [(bob, UpdateComment ''c2'' ''!''), (bob, DeleteComment ''c''), (bob, BulkApprove ''w2'' None)] s in
     filter (\<lambda>c. foreign ''o'' s (cm_workflowId c)) (comments t) = [demo_comment ''c2'' ''w2''] \<and>
     map cm_resolved (comments t) = [True, False]"
proof -
  let ?s = "demo_comments (JArr [])"
  let ?t = "serve_all_comments [(bob, UpdateComment ''c2'' ''!''), (bob, DeleteComment ''c''), (bob, BulkApprove ''w2'' None)] ?s"
  have ids: "keyed cm_id (comments ?s)" "keyed wv_id (workflow_versions ?s)" by (simp_all add: demo_comments_simps)
  have requests: "list_all (\<lambda>(u, q). ru_orgId u = ''o'') [(bob, UpdateComment ''c2'' ''!''), (bob, DeleteComment ''c''),
      (bob, BulkApprove ''w2'' None)]"
    by (simp add: bob_def)
  have "filter (\<lambda>c. foreign ''o'' ?s (cm_workflowId c)) (comments ?t) =
      filter (\<lambda>c. foreign ''o'' ?s (cm_workflowId c)) (comments ?s)"
    using comments_stay_in_organization [OF ids requests] by (rule conjunct1)
  moreover have "filter (\<lambda>c. foreign ''o'' ?s (cm_workflowId c)) (comments ?s) = [demo_comment ''c2'' ''w2'']"
    by (simp add: demo_comments_simps foreign_def)
  moreover have "map cm_resolved (comments ?t) = [True, False]" by code_simp
  ultimately show ?thesis by (simp only: Let_def)
qed

text \<open>No comment can be handed to the AI: the lookup of the session asks for a relation that the entity does
  not declare, so the request always fails, before it stores or publishes anything.\<close>

theorem inject_to_ai_never_succeeds: "\<exists>e. injectToAi i u s = (Inl e, s)"
  by (rule injectToAi_refused)

text \<open>C37: After a bulk approval without a list of elements the review of the workflow is complete: every element
  that is not archived counts as approved.\<close>

theorem bulk_approval_completes_review:
  assumes "bulkApproveElements wid None u s = (Inr n, t)" and "keyed wv_id (workflow_versions s)"
  shows "\<exists>m \<ge> 0. getReviewProgress wid (ru_orgId u) t = (Inr (m, m, if 0 < m then 100 else 0), t)"
  using assms by (rule bulk_then_progress)

theorem bulk_approval_completes_review_witness:
  "let s = demo_comments (JArr [JObj [(''id'', JStr ''a'')], JObj [(''archived'', JBool True)], JObj [(''id'', JNum 1)]]);
       t = snd (bulkApproveElements ''w'' None bob s) in
     fst (getReviewProgress ''w'' ''o'' s) = Inr (0, 2, 0) \<and> fst (getReviewProgress ''w'' ''o'' t) = Inr (2, 2, 100)"
proof -
  let ?s = "demo_comments (JArr [JObj [(''id'', JStr ''a'')], JObj [(''archived'', JBool True)], JObj [(''id'', JNum 1)]])"
  let ?x = "bulkApproveElements ''w'' None bob ?s"
  have org: "ru_orgId bob = ''o''" by (simp add: bob_def)
  have "fst ?x = Inr 3" by code_simp
  then have x: "?x = (Inr 3, snd ?x)" by (metis prod.collapse)
  have "keyed wv_id (workflow_versions ?s)" by (simp add: demo_comments_simps)
  from bulk_approval_completes_review [OF x this] obtain m where
    "getReviewProgress ''w'' (ru_orgId bob) (snd ?x) = (Inr (m, m, if 0 < m then 100 else 0), snd ?x)" by blast
  then have p: "fst (getReviewProgress ''w'' ''o'' (snd ?x)) = Inr (m, m, if 0 < m then 100 else 0)"
    by (simp only: org fst_conv)
  have "map_sum (\<lambda>_. ()) (\<lambda>y. fst (snd y)) (fst (getReviewProgress ''w'' ''o'' (snd ?x))) = Inr 2" by code_simp
  then have "m = 2" unfolding p by simp
  with p have "fst (getReviewProgress ''w'' ''o'' (snd ?x)) = Inr (2, 2, 100)" by simp
  moreover have "fst (getReviewProgress ''w'' ''o'' ?s) = Inr (0, 2, 0)" by code_simp
  ultimately show ?thesis by (simp only: Let_def)
qed

text \<open>A workflow whose content is an object, as it is when the workflow is created and after every result of
  the AI, cannot be reviewed: approving an element and asking for the progress fail.\<close>

theorem stored_objects_cannot_be_reviewed:
  assumes "workflow_in_org wid (ru_orgId u) s = Some w" and "latest_version wid s = Some v"
    and "wv_elementsJson v = JObj fs"
  shows "approveElement wid el u s = (Inl (TypeErr ''is not a function''), s) \<and>
    getReviewProgress wid (ru_orgId u) s = (Inl (TypeErr ''is not a function''), s)"
  using assms by (simp add: approveElement_def getReviewProgress_def action_simps elements_array_def)

theorem stored_objects_cannot_be_reviewed_witness:
  "approveElement ''w'' ''a'' bob (demo_comments (JObj [])) = (Inl (TypeErr ''is not a function''), demo_comments (JObj []))"
proof -
  let ?s = "demo_comments (JObj [])"
  have "workflow_in_org ''w'' (ru_orgId bob) ?s = Some (review_workflow ''w'' ''o'')"
    "latest_version ''w'' ?s = Some (review_version ''v'' ''w'' (JObj []))"
    "wv_elementsJson (review_version ''v'' ''w'' (JObj [])) = JObj []"
    by (simp_all add: demo_comments_simps)
  from stored_objects_cannot_be_reviewed [OF this] show ?thesis by (rule conjunct1)
qed

end
