(* ===== verification/Skills.thy ===== *)
theory Skills
  imports Complex_Main Entities
begin

text \<open>
  The skills that are offered to the AI agents: \<open>src/modules/skills/services/skills.service.ts\<close>. The service
  that computes embeddings is a parameter of the state.
\<close>

section \<open>State\<close>

record skill_application =
  ka_id :: uuid
  ka_skillId :: uuid
  ka_agentExecutionId :: uuid
  ka_retrievalRank :: "int option"
  ka_similarityScore :: "rat option"
  ka_injectedTokens :: int
  ka_wasMandatory :: bool
  ka_createdAt :: time

text \<open>
  \<open>embed url text\<close> is what the service at \<open>url\<close> answers: \<open>None\<close> when the request or the service fails, else
  the embedding or null. \<open>embed_all\<close> takes a batch. \<open>rounded\<close> gives the double that an exact result is rounded to.
\<close>

record skills_state = tables +
  skill_applications :: "skill_application list"
  platform_audits :: "platform_audit list"
  fastapi_enabled :: bool
  fastapi_internal :: "string option"
  env_fastapi_internal_url :: "string option"
  env_fastapi_url :: "string option"
  embed :: "string \<Rightarrow> string \<Rightarrow> rat list option option"
  embed_all :: "string \<Rightarrow> string list \<Rightarrow> rat list option list option"
  rounded :: "real \<Rightarrow> real"

interpretation skill_repo:
  keyed_store sk_id "find_row sk_id" "save_row sk_id" "remove_row sk_id" set "keyed sk_id"
  by (rule keyed_store_rows) simp_all

section \<open>Helpers\<close>

definition assertCanModify :: "string \<Rightarrow> ('s, unit) action" where
  "assertCanModify role = require (role \<in> user_role_str ` {UserRole.ADMIN, BUSINESS_ANALYST})
     (Forbidden ''Only Admin and Business Analyst can modify skills'')"

definition findSkillByIdAndOrg :: "uuid \<Rightarrow> uuid \<Rightarrow> ('z tables_scheme, skill) action" where
  "findSkillByIdAndOrg i org =
     await (reads (\<lambda>s. find (\<lambda>k. sk_id k = i \<and> sk_orgId k = org) (skills s))) (\<lambda>k.
     some_or_throw k (NotFound ''Skill not found''))"

definition active_catalog :: "uuid \<Rightarrow> skill \<Rightarrow> bool" where
  "active_catalog org k \<longleftrightarrow> sk_orgId k = org \<and> sk_skillType k = ACTOR_CATALOG \<and> sk_isActive k"

definition validateActorCatalogUniqueness :: "uuid \<Rightarrow> ('z tables_scheme, unit) action" where
  "validateActorCatalogUniqueness org =
     await (reads (\<lambda>s. list_ex (active_catalog org) (skills s))) (\<lambda>existing.
     require (\<not> existing) (Conflict (JObj [(''code'', JStr ''ACTOR_CATALOG_EXISTS''),
       (''message'', JStr ''An ACTOR_CATALOG skill already exists. Deactivate it first.'')])))"

definition prepareContentForEmbedding :: "string \<Rightarrow> string \<Rightarrow> string" where
  "prepareContentForEmbedding name content = ''Skill: '' @ name @ ''. Content: '' @ content"

text \<open>\<open>replace\<close> of the slashes at the end or at the start; the first of several addresses that is not empty.\<close>

definition strip_end :: "string \<Rightarrow> string" where
  "strip_end t = rev (dropWhile (\<lambda>c. c = CHR ''/'') (rev t))"

fun given_one :: "string option list \<Rightarrow> string option" where
  "given_one [] = None"
| "given_one (Some (c # cs) # xs) = Some (c # cs)"
| "given_one (_ # xs) = given_one xs"

definition getFastApiUrl :: "string \<Rightarrow> 'z skills_state_scheme \<Rightarrow> string option" where
  "getFastApiUrl path s =
     (if \<not> fastapi_enabled s then None
      else map_option (\<lambda>url. strip_end url @ ''/'' @ dropWhile (\<lambda>c. c = CHR ''/'') path)
        (given_one [fastapi_internal s, env_fastapi_internal_url s,
           case env_fastapi_url s of Some (c # cs) \<Rightarrow> Some (strip_end (c # cs) @ ''/internal'') | _ \<Rightarrow> None]))"

definition generateEmbedding :: "string \<Rightarrow> ('z skills_state_scheme, rat list option) action" where
  "generateEmbedding text =
     await (reads (getFastApiUrl ''embed'')) (\<lambda>url. case url of
       None \<Rightarrow> ok None
     | Some url \<Rightarrow> await (reads (\<lambda>s. embed s url text)) (\<lambda>answer.
         some_or_throw answer (PlainError ''Embedding failed'')))"

definition generateEmbeddingBatch :: "string list \<Rightarrow> ('z skills_state_scheme, rat list option list) action" where
  "generateEmbeddingBatch texts =
     await (reads (getFastApiUrl ''embed/batch'')) (\<lambda>url. case url of
       None \<Rightarrow> ok (map (\<lambda>_. None) texts)
     | Some url \<Rightarrow> await (reads (\<lambda>s. embed_all s url texts)) (\<lambda>answer.
         some_or_throw answer (PlainError ''Batch embedding failed'')))"

text \<open>\<open>try { m } catch { throw e }\<close>.\<close>

definition or_fail :: "('s, 'a) action \<Rightarrow> exn \<Rightarrow> ('s, 'a) action" where
  "or_fail m e = try_catch m (\<lambda>_. throw e)"

text \<open>A skill holds what this service stored, an object with the text under \<open>full\<close>.\<close>

definition full_content :: "skill \<Rightarrow> string" where
  "full_content k = (case get_prop (sk_content k) ''full'' of Some (JStr t) \<Rightarrow> t | _ \<Rightarrow> [])"

definition agents_json :: "AgentType list option \<Rightarrow> json" where
  "agents_json a = json_opt (\<lambda>l. JArr (map (\<lambda>x. JStr (agent_type_str x)) l)) a"

definition strings_json :: "string list option \<Rightarrow> json" where
  "strings_json a = json_opt (\<lambda>l. JArr (map JStr l)) a"

definition skill_json :: "skill \<Rightarrow> json" where
  "skill_json k = JObj [(''id'', JStr (sk_id k)), (''orgId'', JStr (sk_orgId k)), (''name'', JStr (sk_name k)),
     (''description'', json_str_opt (sk_description k)), (''skillType'', JStr (skill_type_str (sk_skillType k))),
     (''content'', sk_content k), (''embedding'', json_opt (\<lambda>v. JArr (map JNum v)) (sk_embedding k)),
     (''appliesToDomains'', strings_json (sk_appliesToDomains k)), (''appliesToAgents'', agents_json (sk_appliesToAgents k)),
     (''isActive'', JBool (sk_isActive k)), (''isMandatory'', JBool (sk_isMandatory k)),
     (''usageCount'', json_int (sk_usageCount k)), (''version'', json_int (sk_version k)),
     (''createdBy'', JStr (sk_createdBy k)), (''createdAt'', json_date (sk_createdAt k)),
     (''updatedAt'', json_date (sk_updatedAt k))]"

definition toResponseDto :: "skill \<Rightarrow> (string \<times> json) list" where
  "toResponseDto k = [(''id'', JStr (sk_id k)), (''name'', JStr (sk_name k)),
     (''description'', json_str_opt (sk_description k)), (''skillType'', JStr (skill_type_str (sk_skillType k))),
     (''content'', JStr (full_content k)),
     (''appliesToDomains'', strings_json (sk_appliesToDomains k)), (''appliesToAgents'', agents_json (sk_appliesToAgents k)),
     (''isActive'', JBool (sk_isActive k)), (''isMandatory'', JBool (sk_isMandatory k)),
     (''usageCount'', json_int (sk_usageCount k)), (''version'', json_int (sk_version k)),
     (''createdAt'', json_date (sk_createdAt k)), (''updatedAt'', json_date (sk_updatedAt k))]"

definition logSkillChange ::
    "uuid \<Rightarrow> request_user \<Rightarrow> json \<Rightarrow> json \<Rightarrow> string \<Rightarrow> ('z skills_state_scheme, unit) action" where
  "logSkillChange i caller old new event =
     await (reads correlation_id) (\<lambda>c.
     await current_time (\<lambda>t.
     writes (platform_audits_update (\<lambda>l. l @ [\<lparr> pa_organizationId = ru_orgId caller, pa_workspaceId = None,
       pa_actorId = ru_id caller, pa_action = event, pa_entityType = ''skill'', pa_entityId = i,
       pa_before = old, pa_after = new, pa_correlationId = c, pa_createdAt = t \<rparr>]))))"

section \<open>Storing a skill\<close>

text \<open>The columns: a vector of 768 numbers, a \<open>smallint\<close> version.\<close>

definition storable :: "skill \<Rightarrow> bool" where
  "storable k \<longleftrightarrow> (case sk_embedding k of None \<Rightarrow> True | Some v \<Rightarrow> length v = 768) \<and> smallint (sk_version k)"

definition insert_skill :: "skill \<Rightarrow> ('z tables_scheme, skill) action" where
  "insert_skill k =
     await (new_id sk_id skills ''skill_pkey'') (\<lambda>i.
     await current_time (\<lambda>t.
     let saved = k\<lparr>sk_id := i, sk_createdAt := t, sk_updatedAt := t\<rparr> in
     await (require (storable saved) (PlainError ''vector length'')) (\<lambda>_.
     await (writes (skills_update (\<lambda>l. l @ [saved]))) (\<lambda>_. ok saved))))"

definition save_skill :: "skill \<Rightarrow> ('z tables_scheme, skill) action" where
  "save_skill k =
     await current_time (\<lambda>t.
     let saved = k\<lparr>sk_updatedAt := t\<rparr> in
     await (require (storable saved) (PlainError ''vector length'')) (\<lambda>_.
     await (writes (skills_update (save_row sk_id saved))) (\<lambda>_. ok saved)))"

section \<open>The service\<close>

record create_skill_dto =
  ck_name :: string
  ck_description :: "string option"
  ck_skillType :: SkillType
  ck_content :: string
  ck_appliesToDomains :: "string list option"
  ck_appliesToAgents :: "AgentType list option"
  ck_isMandatory :: "bool option"

definition skill_from :: "create_skill_dto \<Rightarrow> request_user \<Rightarrow> rat list option \<Rightarrow> bool \<Rightarrow> skill" where
  "skill_from dto caller embedding mandatory = \<lparr> sk_id = [], sk_orgId = ru_orgId caller, sk_name = ck_name dto,
     sk_description = ck_description dto, sk_skillType = ck_skillType dto,
     sk_content = JObj [(''full'', JStr (ck_content dto))], sk_embedding = embedding,
     sk_appliesToDomains = ck_appliesToDomains dto, sk_appliesToAgents = ck_appliesToAgents dto, sk_isActive = True,
     sk_isMandatory = mandatory, sk_usageCount = 0, sk_version = 1, sk_createdBy = ru_id caller,
     sk_createdAt = 0, sk_updatedAt = 0 \<rparr>"

definition mandatory_for :: "create_skill_dto \<Rightarrow> bool" where
  "mandatory_for dto \<longleftrightarrow> ck_skillType dto = ACTOR_CATALOG \<or> ck_isMandatory dto = Some True"

definition createSkill :: "create_skill_dto \<Rightarrow> request_user \<Rightarrow> ('z skills_state_scheme, json) action" where
  "createSkill dto caller =
     await (assertCanModify (ru_role caller)) (\<lambda>_.
     await (if ck_skillType dto = ACTOR_CATALOG then validateActorCatalogUniqueness (ru_orgId caller) else ok ()) (\<lambda>_.
     await (or_fail (generateEmbedding (prepareContentForEmbedding (ck_name dto) (ck_content dto)))
              (ServerError ''Failed to generate skill embedding'')) (\<lambda>embedding.
     await (insert_skill (skill_from dto caller embedding (mandatory_for dto))) (\<lambda>saved.
     await (logSkillChange (sk_id saved) caller JNull (skill_json saved) ''skill.created'') (\<lambda>_.
     ok (JObj (toResponseDto saved)))))))"

definition findAllSkills ::
    "SkillType option \<Rightarrow> bool option \<Rightarrow> request_user \<Rightarrow> ('z tables_scheme, json list \<times> int) action" where
  "findAllSkills ty active caller =
     reads (\<lambda>s. let ks = sort_desc sk_createdAt (filter (\<lambda>k. sk_orgId k = ru_orgId caller \<and>
         (case ty of None \<Rightarrow> True | Some x \<Rightarrow> sk_skillType k = x) \<and>
         (case active of None \<Rightarrow> True | Some x \<Rightarrow> sk_isActive k = x)) (skills s))
       in (map (\<lambda>k. JObj (toResponseDto k)) ks, int (length ks)))"

definition mean :: "rat list \<Rightarrow> rat option" where
  "mean xs = (if xs = [] then None else Some (sum_list xs / of_nat (length xs)))"

definition score_or_zero :: "skill_application \<Rightarrow> rat" where
  "score_or_zero a = (case ka_similarityScore a of None \<Rightarrow> 0 | Some x \<Rightarrow> x)"

definition applications_of :: "uuid \<Rightarrow> 'z skills_state_scheme \<Rightarrow> skill_application list" where
  "applications_of i s = filter (\<lambda>a. ka_skillId a = i) (skill_applications s)"

definition getUsageStats :: "uuid \<Rightarrow> ('z skills_state_scheme, int \<times> rat option) action" where
  "getUsageStats i = reads (\<lambda>s. let l = applications_of i s in (int (length l), mean (map score_or_zero l)))"

definition findOneSkill :: "uuid \<Rightarrow> request_user \<Rightarrow> ('z skills_state_scheme, json) action" where
  "findOneSkill i caller =
     await (findSkillByIdAndOrg i (ru_orgId caller)) (\<lambda>k.
     await (getUsageStats i) (\<lambda>(n, average).
     ok (JObj (toResponseDto k @ [(''applicationCount'', json_int n), (''avgSimilarityScore'', json_opt JNum average)]))))"

record update_skill_dto =
  uk_name :: "string option"
  uk_description :: "string option option"
  uk_content :: "string option"
  uk_appliesToDomains :: "string list option option"
  uk_appliesToAgents :: "AgentType list option option"
  uk_isMandatory :: "bool option"
  uk_isActive :: "bool option"

definition set_to :: "'a option \<Rightarrow> 'a \<Rightarrow> 'a" where
  "set_to new old = (case new of None \<Rightarrow> old | Some x \<Rightarrow> x)"

definition edited_skill :: "update_skill_dto \<Rightarrow> skill \<Rightarrow> skill" where
  "edited_skill dto k = k\<lparr>sk_name := set_to (uk_name dto) (sk_name k),
     sk_description := set_to (uk_description dto) (sk_description k),
     sk_content := (case uk_content dto of None \<Rightarrow> sk_content k | Some t \<Rightarrow> JObj [(''full'', JStr t)]),
     sk_appliesToDomains := set_to (uk_appliesToDomains dto) (sk_appliesToDomains k),
     sk_appliesToAgents := set_to (uk_appliesToAgents dto) (sk_appliesToAgents k),
     sk_isActive := set_to (uk_isActive dto) (sk_isActive k)\<rparr>"

definition content_changed :: "update_skill_dto \<Rightarrow> skill \<Rightarrow> bool" where
  "content_changed dto k \<longleftrightarrow> (case uk_content dto of None \<Rightarrow> False
     | Some t \<Rightarrow> get_prop (sk_content k) ''full'' \<noteq> Some (JStr t))"

definition updateSkill :: "uuid \<Rightarrow> update_skill_dto \<Rightarrow> request_user \<Rightarrow> ('z skills_state_scheme, json) action" where
  "updateSkill i dto caller =
     await (findSkillByIdAndOrg i (ru_orgId caller)) (\<lambda>k.
     await (assertCanModify (ru_role caller)) (\<lambda>_.
     let edited = edited_skill dto k in
     await (require (\<not> (sk_skillType k = ACTOR_CATALOG \<and> uk_isMandatory dto = Some False))
              (Forbidden ''ACTOR_CATALOG skills must always be mandatory'')) (\<lambda>_.
     await (if content_changed dto k
            then await (or_fail (generateEmbedding (prepareContentForEmbedding (sk_name edited) (the (uk_content dto))))
                          (ServerError ''Failed to regenerate skill embedding'')) (\<lambda>embedding.
                 ok (edited\<lparr>sk_version := sk_version k + 1, sk_embedding := embedding\<rparr>))
            else ok edited) (\<lambda>changed.
     await (save_skill changed) (\<lambda>saved.
     await (logSkillChange i caller (skill_json k) (skill_json saved) ''skill.updated'') (\<lambda>_.
     ok (JObj (toResponseDto saved))))))))"

definition removeSkill :: "uuid \<Rightarrow> request_user \<Rightarrow> ('z skills_state_scheme, unit) action" where
  "removeSkill i caller =
     await (findSkillByIdAndOrg i (ru_orgId caller)) (\<lambda>k.
     await (assertCanModify (ru_role caller)) (\<lambda>_.
     await (require (\<not> (sk_skillType k = ACTOR_CATALOG \<and> sk_isMandatory k))
              (Forbidden ''Cannot delete mandatory ACTOR_CATALOG skill'')) (\<lambda>_.
     await (save_skill (k\<lparr>sk_isActive := False\<rparr>)) (\<lambda>_.
     logSkillChange i caller (JObj [(''isActive'', JBool True)]) (JObj [(''isActive'', JBool False)]) ''skill.deleted''))))"

section \<open>Search\<close>

fun contains :: "string \<Rightarrow> string \<Rightarrow> bool" where
  "contains p [] = (p = [])"
| "contains p (c # cs) = (starts_with p (c # cs) \<or> contains p cs)"

text \<open>\<open>split(/\s+/).filter(Boolean)\<close>; the first argument is the word so far, reversed.\<close>

fun words_from :: "string \<Rightarrow> string \<Rightarrow> string list" where
  "words_from w [] = (if w = [] then [] else [rev w])"
| "words_from w (c # cs) = (if is_space c then (if w = [] then [] else [rev w]) @ words_from [] cs
     else words_from (c # w) cs)"

definition keywordOverlap :: "string \<Rightarrow> string \<Rightarrow> rat" where
  "keywordOverlap query haystack = (let terms = words_from [] query in
     if terms = [] then 0
     else of_nat (length (filter (\<lambda>t. contains t haystack) terms)) / of_nat (length terms))"

text \<open>Similarities are computed in doubles: every operation is rounded.\<close>

definition dot :: "(real \<Rightarrow> real) \<Rightarrow> rat list \<Rightarrow> rat list \<Rightarrow> real" where
  "dot rnd a b = foldl (\<lambda>acc (x, y). rnd (acc + rnd (of_rat x * of_rat y))) 0 (zip a b)"

definition cosineSimilarity :: "(real \<Rightarrow> real) \<Rightarrow> rat list \<Rightarrow> rat list \<Rightarrow> real" where
  "cosineSimilarity rnd a b =
     (if length a \<noteq> length b then 0
      else let magA = rnd (sqrt (dot rnd a a)); magB = rnd (sqrt (dot rnd b b)) in
        if magA = 0 \<or> magB = 0 then 0 else rnd (dot rnd a b / rnd (magA * magB)))"

text \<open>\<open>slice(0, k)\<close>.\<close>

definition slice_to :: "int \<Rightarrow> 'a list \<Rightarrow> 'a list" where
  "slice_to k xs = (if 0 \<le> k then take (nat k) xs else take (length xs - nat (- k)) xs)"

definition ranked :: "(skill \<Rightarrow> real) \<Rightarrow> int \<Rightarrow> skill list \<Rightarrow> skill list" where
  "ranked score k ks = slice_to k (sort_key (\<lambda>x. - score x) ks)"

record semantic_search_dto =
  sd_queryText :: string
  sd_topK :: "int option"
  sd_filterTypes :: "SkillType list option"
  sd_minSimilarity :: "rat option"

record search_result =
  sr_id :: uuid
  sr_name :: string
  sr_skillType :: SkillType
  sr_similarityScore :: real
  sr_contentPreview :: string

definition results :: "semantic_search_dto \<Rightarrow> (skill \<Rightarrow> real) \<Rightarrow> skill list \<Rightarrow> search_result list" where
  "results dto score ks =
     map (\<lambda>k. \<lparr> sr_id = sk_id k, sr_name = sk_name k, sr_skillType = sk_skillType k,
                sr_similarityScore = score k, sr_contentPreview = take 200 (full_content k) \<rparr>)
       (ranked score (set_to (sd_topK dto) 5)
          (filter (\<lambda>k. of_rat (set_to (sd_minSimilarity dto) (35 / 100)) \<le> score k) ks))"

definition text_score :: "string \<Rightarrow> skill \<Rightarrow> rat" where
  "text_score query k =
     (let haystack = js_lower (sk_name k @ '' '' @ (case sk_description k of None \<Rightarrow> [] | Some d \<Rightarrow> d) @ '' '' @ full_content k)
      in if contains query haystack then 1 else keywordOverlap query haystack)"

definition textSearchFallback :: "skill list \<Rightarrow> semantic_search_dto \<Rightarrow> search_result list" where
  "textSearchFallback ks dto =
     (let query = js_lower (js_trim (sd_queryText dto)) in
      if query = [] then [] else results dto (\<lambda>k. of_rat (text_score query k)) ks)"

definition vector_score :: "(real \<Rightarrow> real) \<Rightarrow> rat list \<Rightarrow> skill \<Rightarrow> real" where
  "vector_score rnd v k = (case sk_embedding k of None \<Rightarrow> 0 | Some e \<Rightarrow> cosineSimilarity rnd v e)"

definition semanticSearch :: "semantic_search_dto \<Rightarrow> request_user \<Rightarrow> ('z skills_state_scheme, search_result list) action" where
  "semanticSearch dto caller =
     await (or_fail (generateEmbedding (sd_queryText dto)) (ServerError ''Failed to process search query'')) (\<lambda>embedding.
     reads (\<lambda>s. let ks = sort_desc sk_usageCount (filter (\<lambda>k. sk_orgId k = ru_orgId caller \<and> sk_isActive k \<and>
            (case sd_filterTypes dto of Some (t # ts) \<Rightarrow> sk_skillType k \<in> set (t # ts) | _ \<Rightarrow> True)) (skills s))
       in case embedding of
            None \<Rightarrow> textSearchFallback ks dto
          | Some v \<Rightarrow> results dto (vector_score (rounded s) v) (filter (\<lambda>k. sk_embedding k \<noteq> None) ks)))"

definition listMandatorySkills :: "uuid \<Rightarrow> ('z tables_scheme, skill list) action" where
  "listMandatorySkills org = reads (\<lambda>s. filter (\<lambda>k. sk_orgId k = org \<and> sk_isMandatory k \<and> sk_isActive k) (skills s))"

definition retrieveTopKSkills :: "uuid \<Rightarrow> rat list \<Rightarrow> int \<Rightarrow> ('z skills_state_scheme, skill list) action" where
  "retrieveTopKSkills org context topK =
     reads (\<lambda>s. ranked (vector_score (rounded s) context) topK
       (filter (\<lambda>k. sk_orgId k = org \<and> sk_isActive k \<and> sk_embedding k \<noteq> None) (skills s)))"

section \<open>Import and export\<close>

text \<open>
  A dto is refused when it is a catalog and the organization has one. What is inserted afterwards are
  as many dtos as were not refused, from the first on.
\<close>

definition refused_dto :: "uuid \<Rightarrow> 'z tables_scheme \<Rightarrow> create_skill_dto \<Rightarrow> bool" where
  "refused_dto org s dto \<longleftrightarrow> ck_skillType dto = ACTOR_CATALOG \<and> list_ex (active_catalog org) (skills s)"

definition nth_or_none :: "'a option list \<Rightarrow> nat \<Rightarrow> 'a option" where
  "nth_or_none xs i = (if i < length xs then xs ! i else None)"

definition import_failures :: "bool list \<Rightarrow> (nat \<times> string) list" where
  "import_failures refused = [(i, ''ACTOR_CATALOG already exists for org''). i \<leftarrow> [0..<length refused], refused ! i]"

definition import_items :: "bool list \<Rightarrow> create_skill_dto list \<Rightarrow> string list" where
  "import_items refused dtos =
     [prepareContentForEmbedding (ck_name (dtos ! i)) (ck_content (dtos ! i)). i \<leftarrow> [0..<length refused], \<not> refused ! i]"

definition importSkills ::
    "create_skill_dto list \<Rightarrow> request_user \<Rightarrow> ('z skills_state_scheme, int \<times> (nat \<times> string) list) action" where
  "importSkills dtos caller =
     await (assertCanModify (ru_role caller)) (\<lambda>_.
     await (require (length dtos \<le> 200) (BadRequest (JStr ''Maximum 200 skills per import''))) (\<lambda>_.
     await (reads (\<lambda>s. map (refused_dto (ru_orgId caller) s) dtos)) (\<lambda>refused.
     let items = import_items refused dtos in
     await (or_fail (generateEmbeddingBatch items) (ServerError ''Failed to generate embeddings for import'')) (\<lambda>embeddings.
     await (transaction (for_each [0..<length items] (\<lambda>i.
              await (insert_skill (skill_from (dtos ! i) caller (nth_or_none embeddings i) (mandatory_for (dtos ! i)))) (\<lambda>_.
              ok ())))) (\<lambda>_.
     ok (int (length items), import_failures refused))))))"

definition export_json :: "skill \<Rightarrow> json" where
  "export_json k = JObj [(''id'', JStr (sk_id k)), (''name'', JStr (sk_name k)),
     (''description'', json_str_opt (sk_description k)), (''skillType'', JStr (skill_type_str (sk_skillType k))),
     (''content'', JStr (full_content k)), (''appliesToDomains'', strings_json (sk_appliesToDomains k)),
     (''appliesToAgents'', agents_json (sk_appliesToAgents k)), (''isActive'', JBool (sk_isActive k)),
     (''isMandatory'', JBool (sk_isMandatory k)), (''version'', json_int (sk_version k)),
     (''createdAt'', json_date (sk_createdAt k)), (''updatedAt'', json_date (sk_updatedAt k))]"

definition exportSkills :: "request_user \<Rightarrow> ('z tables_scheme, json list) action" where
  "exportSkills caller = reads (\<lambda>s. map export_json (filter (\<lambda>k. sk_orgId k = ru_orgId caller \<and> sk_isActive k) (skills s)))"

section \<open>Applications\<close>

definition application_row :: "skill_application \<Rightarrow> json" where
  "application_row a = JObj [(''id'', JStr (ka_id a)), (''skillId'', JStr (ka_skillId a)),
     (''agentExecutionId'', JStr (ka_agentExecutionId a)), (''retrievalRank'', json_opt (\<lambda>n. json_int n) (ka_retrievalRank a)),
     (''similarityScore'', json_opt JNum (ka_similarityScore a)), (''injectedTokens'', json_int (ka_injectedTokens a)),
     (''wasMandatory'', JBool (ka_wasMandatory a)), (''createdAt'', json_date (ka_createdAt a))]"

definition findApplications :: "uuid \<Rightarrow> request_user \<Rightarrow> int \<Rightarrow> int \<Rightarrow> ('z skills_state_scheme, json list) action" where
  "findApplications i caller page limit =
     await (findSkillByIdAndOrg i (ru_orgId caller)) (\<lambda>_.
     await (require (0 \<le> (page - 1) * limit \<and> 0 \<le> limit) (QueryFailed ''OFFSET'')) (\<lambda>_.
     reads (\<lambda>s. map application_row (take (nat limit) (drop (nat ((page - 1) * limit))
       (sort_desc ka_createdAt (applications_of i s)))))))"

text \<open>Ascending order puts rows without a rank last.\<close>

definition findApplicationsByExecution :: "uuid \<Rightarrow> request_user \<Rightarrow> ('z skills_state_scheme, json list) action" where
  "findApplicationsByExecution execution caller =
     reads (\<lambda>s. let l = filter (\<lambda>a. ka_agentExecutionId a = execution) (skill_applications s) in
       map application_row (sort_key (\<lambda>a. case ka_retrievalRank a of None \<Rightarrow> 0 | Some n \<Rightarrow> n) (filter (\<lambda>a. ka_retrievalRank a \<noteq> None) l) @
         filter (\<lambda>a. ka_retrievalRank a = None) l))"

record skill_analytics =
  sa_id :: uuid
  sa_name :: string
  sa_applicationCount :: int
  sa_avgSimilarity :: "rat option"
  sa_avgTokens :: "rat option"

definition getAnalytics :: "request_user \<Rightarrow> ('z skills_state_scheme, skill_analytics list) action" where
  "getAnalytics caller =
     await (require (ru_role caller = user_role_str UserRole.ADMIN) (Forbidden ''Admin only'')) (\<lambda>_.
     reads (\<lambda>s. map (\<lambda>k. let l = applications_of (sk_id k) s in \<lparr> sa_id = sk_id k, sa_name = sk_name k,
         sa_applicationCount = int (length l), sa_avgSimilarity = mean (map score_or_zero l),
         sa_avgTokens = mean (map (\<lambda>a. of_int (ka_injectedTokens a)) l) \<rparr>)
       (sort_desc sk_usageCount (filter (\<lambda>k. sk_orgId k = ru_orgId caller) (skills s)))))"

end
