(* ===== verification/SkillsProps.thy ===== *)
theory SkillsProps
  imports Skills
begin

text \<open>
  Rankings, the catalogs of an organization, and what an import stores.
\<close>

section \<open>Ranking\<close>

lemma ranked_best:
  assumes "0 \<le> k"
  shows "length (ranked f k ks) = min (nat k) (length ks) \<and> set (ranked f k ks) \<subseteq> set ks \<and>
    sorted (map (\<lambda>x. - f x) (ranked f k ks)) \<and>
    (\<forall>x \<in> set ks - set (ranked f k ks). \<forall>y \<in> set (ranked f k ks). f x \<le> f y)"
proof -
  let ?s = "sort_key (\<lambda>x. - f x) ks" and ?n = "nat k"
  have r: "ranked f k ks = take ?n ?s" using assms by (simp add: ranked_def slice_to_def)
  have sorted: "sorted (map (\<lambda>x. - f x) ?s)" by simp
  have parts: "sorted (map (\<lambda>x. - f x) (take ?n ?s @ drop ?n ?s))" by simp
  have "f x \<le> f y" if "x \<in> set ks - set (take ?n ?s)" "y \<in> set (take ?n ?s)" for x y
  proof -
    have "x \<in> set (take ?n ?s @ drop ?n ?s)" using that(1) by simp
    then have "x \<in> set (drop ?n ?s)" using that(1) by (auto simp del: append_take_drop_id)
    with parts that(2) show ?thesis unfolding map_append sorted_append by force
  qed
  moreover have "sorted (map (\<lambda>x. - f x) (take ?n ?s))" using sorted by (simp add: take_map [symmetric] sorted_wrt_take)
  ultimately show ?thesis unfolding r using set_take_subset [of ?n ?s] by auto
qed


section \<open>Import\<close>

text \<open>What a stored skill shows of the dto it comes from.\<close>

definition dto_shape :: "create_skill_dto \<Rightarrow> string \<times> SkillType \<times> json" where
  "dto_shape dto = (ck_name dto, ck_skillType dto, JObj [(''full'', JStr (ck_content dto))])"

definition skill_shape :: "skill \<Rightarrow> string \<times> SkillType \<times> json" where
  "skill_shape k = (sk_name k, sk_skillType k, sk_content k)"

lemma skill_shape_stamp [simp]: "skill_shape (k\<lparr>sk_id := i, sk_createdAt := u, sk_updatedAt := v\<rparr>) = skill_shape k"
  by (simp add: skill_shape_def)

lemma insert_skill_Inr:
  "insert_skill k s = (Inr saved, t) \<Longrightarrow> skills t = skills s @ [saved] \<and> (\<exists>i u. saved = k\<lparr>sk_id := i, sk_createdAt := u, sk_updatedAt := u\<rparr>)"
  by (auto simp: insert_skill_def new_id_def action_Inr gen_uuid_run current_time_run Let_def)

lemma inserts_Inr:
  "for_each xs (\<lambda>i. await (insert_skill (f i)) (\<lambda>_. ok ())) s = (Inr y, t) \<Longrightarrow>
   \<exists>new. skills t = skills s @ new \<and> map skill_shape new = map (\<lambda>i. skill_shape (f i)) xs \<and>
     list_all2 (\<lambda>k i. sk_orgId k = sk_orgId (f i) \<and> sk_isActive k = sk_isActive (f i) \<and> sk_isMandatory k = sk_isMandatory (f i)) new xs"
proof (induction xs arbitrary: s)
  case (Cons x xs)
  then obtain saved u where u: "insert_skill (f x) s = (Inr saved, u)"
    and rest: "for_each xs (\<lambda>i. await (insert_skill (f i)) (\<lambda>_. ok ())) u = (Inr y, t)"
    by (auto simp: action_Inr)
  from Cons.IH [OF rest] obtain new where new: "skills t = skills u @ new" "map skill_shape new = map (\<lambda>i. skill_shape (f i)) xs"
    "list_all2 (\<lambda>k i. sk_orgId k = sk_orgId (f i) \<and> sk_isActive k = sk_isActive (f i) \<and> sk_isMandatory k = sk_isMandatory (f i)) new xs"
    by blast
  from insert_skill_Inr [OF u] new show ?case
    by (intro exI [of _ "saved # new"]) auto
qed (auto simp: ok_run)

lemma length_partition: "length (import_failures refused) + length (import_items refused dtos) = length refused"
proof -
  have "length (concat (map (\<lambda>x. if P x then [f x] else []) xs)) +
      length (concat (map (\<lambda>x. if \<not> P x then [g x] else []) xs)) = length xs"
    for P and f :: "nat \<Rightarrow> nat \<times> string" and g :: "nat \<Rightarrow> string" and xs
    by (induction xs) auto
  from this [of "\<lambda>i. refused ! i" _ "[0..<length refused]"] show ?thesis
    by (simp add: import_failures_def import_items_def)
qed

lemma reads_generate_batch: "reads_only (or_fail (generateEmbeddingBatch items) e)"
  by (auto simp: or_fail_def generateEmbeddingBatch_def reads_only_def action_simps split: option.split)

lemma assertCanModify_same: "assertCanModify role s = (Inr x, t) \<Longrightarrow> t = s"
  by (simp add: assertCanModify_def require_Inr_iff)

lemma generate_batch_same: "or_fail (generateEmbeddingBatch items) e s = (Inr x, t) \<Longrightarrow> t = s"
  by (rule reads_onlyD [OF reads_generate_batch])

lemma importSkills_Inr:
  "importSkills dtos caller s = (Inr (n, failed), t) \<Longrightarrow>
   let refused = map (refused_dto (ru_orgId caller) s) dtos; m = length (import_items refused dtos) in
     n = int m \<and> failed = import_failures refused \<and>
     (\<exists>embeddings x. for_each [0..<m] (\<lambda>i. await (insert_skill (skill_from (dtos ! i) caller (nth_or_none embeddings i)
        (mandatory_for (dtos ! i)))) (\<lambda>_. ok ())) s = (Inr x, t))"
  unfolding importSkills_def Let_def
  apply (elim await_InrE)
  apply (drule assertCanModify_same, drule generate_batch_same)
  apply (simp only: reads_Inr_iff require_Inr_iff transaction_Inr_iff ok_Inr_iff prod.inject)
  apply (elim conjE, hypsubst)
  apply (intro conjI exI refl)
  apply assumption
  done

lemma import_prefix:
  assumes run: "importSkills dtos caller s = (Inr (n, failed), t)"
  shows "\<exists>new. skills t = skills s @ new \<and> n = int (length new) \<and> length new + length failed = length dtos \<and>
    map skill_shape new = map dto_shape (take (length new) dtos)"
proof -
  let ?r = "map (refused_dto (ru_orgId caller) s) dtos"
  let ?items = "import_items ?r dtos"
  note facts = importSkills_Inr [OF run, unfolded Let_def]
  have n: "n = int (length ?items)" and failed: "failed = import_failures ?r" using facts by (rule conjunct1, rule conjunct1 [OF conjunct2])
  obtain embeddings y where t:
    "for_each [0..<length ?items] (\<lambda>i. await (insert_skill (skill_from (dtos ! i) caller (nth_or_none embeddings i)
       (mandatory_for (dtos ! i)))) (\<lambda>_. ok ())) s = (Inr y, t)"
    using facts by (elim conjE exE)
  have len: "length failed + length ?items = length dtos"
    using length_partition [of ?r dtos] by (simp add: failed)
  let ?shape = "\<lambda>i. skill_shape (skill_from (dtos ! i) caller (nth_or_none embeddings i) (mandatory_for (dtos ! i)))"
  obtain new where new: "skills t = skills s @ new" "map skill_shape new = map ?shape [0..<length ?items]"
    using inserts_Inr [OF t] by (elim exE conjE)
  from arg_cong [OF new(2), of length] have l: "length new = length ?items" by simp
  have "map ?shape [0..<m] = map dto_shape (take m dtos)" if "m \<le> length dtos" for m
    using that by (simp add: skill_shape_def dto_shape_def skill_from_def list_eq_iff_nth_eq)
  from this [of "length ?items"] have "map skill_shape new = map dto_shape (take (length new) dtos)"
    using len new(2) l by simp
  with new(1) n len l show ?thesis by (intro exI [of _ new] conjI) (assumption | simp)+
qed


section \<open>Catalogs\<close>

definition catalogs_mandatory :: "'z tables_scheme \<Rightarrow> bool" where
  "catalogs_mandatory s \<longleftrightarrow> keyed sk_id (skills s) \<and>
     (\<forall>k \<in> set (skills s). sk_skillType k = ACTOR_CATALOG \<longrightarrow> sk_isMandatory k)"

definition one_catalog :: "'z tables_scheme \<Rightarrow> bool" where
  "one_catalog s \<longleftrightarrow> keyed sk_id (skills s) \<and> (\<forall>org. length (filter (active_catalog org) (skills s)) \<le> 1)"

lemma skills_frame:
  "catalogs_mandatory s \<Longrightarrow> skills t = skills s \<Longrightarrow> catalogs_mandatory t"
  "one_catalog s \<Longrightarrow> skills t = skills s \<Longrightarrow> one_catalog t"
  by (simp_all add: catalogs_mandatory_def one_catalog_def)

lemma skills_db_only: "db_only catalogs_mandatory" "db_only one_catalog"
  by (rule db_onlyI; (erule skills_frame, simp))+

lemma keeps_new_row [keeps_intros]: "db_only P \<Longrightarrow> keeps P (new_id key table c)"
  unfolding new_id_def by (intro keeps_intros)

lemma keeps_logSkillChange [keeps_intros]:
  "keeps catalogs_mandatory (logSkillChange i u a b e)" "keeps one_catalog (logSkillChange i u a b e)"
  unfolding logSkillChange_def by (intro keeps_intros; erule skills_frame; simp)+

lemma reads_or_fail [read_intros]: "reads_only m \<Longrightarrow> reads_only (or_fail m e)"
  by (auto simp: or_fail_def reads_only_def try_catch_def throw_def split: prod.split sum.split) (metis snd_conv)+

lemma reads_generate [read_intros]: "reads_only (generateEmbedding x)"
  unfolding generateEmbedding_def by (intro read_intros)

lemma reads_skill_checks [read_intros]:
  "reads_only (assertCanModify r)" "reads_only (findSkillByIdAndOrg i org)" "reads_only (validateActorCatalogUniqueness org)"
  unfolding assertCanModify_def findSkillByIdAndOrg_def validateActorCatalogUniqueness_def by (intro read_intros)+

lemma keeps_insert_mandatory:
  assumes "sk_skillType k = ACTOR_CATALOG \<longrightarrow> sk_isMandatory k"
  shows "keeps catalogs_mandatory (insert_skill k)"
proof (rule keepsI)
  fix s :: "'a tables_scheme"
  assume s: "catalogs_mandatory s"
  obtain r t where run: "insert_skill k s = (r, t)" by (cases "insert_skill k s")
  then have "skills t = skills s \<or> (\<exists>saved. skills t = skills s @ [saved] \<and> sk_id saved \<notin> sk_id ` set (skills s) \<and>
      sk_skillType saved = sk_skillType k \<and> sk_isMandatory saved = sk_isMandatory k)"
    by (auto simp: insert_skill_def new_id_def action_simps gen_uuid_run current_time_run Let_def split: if_splits)
  then show "catalogs_mandatory (snd (insert_skill k s))"
    using s assms run by (auto simp: catalogs_mandatory_def keyed_def)
qed

lemma leaves_save_mandatory:
  assumes "catalogs_mandatory s" and "findSkillByIdAndOrg i org s = (Inr k, s)"
    and "sk_skillType k' = sk_skillType k" "sk_isMandatory k' = sk_isMandatory k"
  shows "leaves catalogs_mandatory (save_skill k') s"
proof -
  have "k \<in> set (skills s)" using assms(2) by (auto simp: findSkillByIdAndOrg_def action_Inr dest: find_Some_conv)
  then have "sk_skillType k' = ACTOR_CATALOG \<longrightarrow> sk_isMandatory k'" using assms by (auto simp: catalogs_mandatory_def)
  then show ?thesis
    using assms(1) set_save_row_subset [of sk_id "k'\<lparr>sk_updatedAt := now s\<rparr>" "skills s"]
    by (auto simp: leaves_def save_skill_def action_simps current_time_run Let_def catalogs_mandatory_def)
qed

lemma edited_fixed [simp]: "sk_skillType (edited_skill dto k) = sk_skillType k" "sk_isMandatory (edited_skill dto k) = sk_isMandatory k"
  "sk_id (edited_skill dto k) = sk_id k" "sk_orgId (edited_skill dto k) = sk_orgId k"
  by (simp_all add: edited_skill_def)

datatype skill_request =
    CreateSkill create_skill_dto
  | UpdateSkill uuid update_skill_dto
  | RemoveSkill uuid
  | ImportSkills "create_skill_dto list"

fun serve_skills :: "request_user \<Rightarrow> skill_request \<Rightarrow> ('z skills_state_scheme, unit) action" where
  "serve_skills u (CreateSkill dto) = answer (createSkill dto u)"
| "serve_skills u (UpdateSkill i dto) = answer (updateSkill i dto u)"
| "serve_skills u (RemoveSkill i) = answer (removeSkill i u)"
| "serve_skills u (ImportSkills dtos) = answer (importSkills dtos u)"

fun serve_all_skills :: "(request_user \<times> skill_request) list \<Rightarrow> 'z skills_state_scheme \<Rightarrow> 'z skills_state_scheme" where
  "serve_all_skills [] s = s"
| "serve_all_skills ((u, q) # qs) s = serve_all_skills qs (snd (serve_skills u q s))"

lemma mandatory_from: "sk_skillType (skill_from dto u e (mandatory_for dto)) = ACTOR_CATALOG \<longrightarrow>
    sk_isMandatory (skill_from dto u e (mandatory_for dto))"
  by (simp add: skill_from_def mandatory_for_def)

lemma changed_Inr:
  assumes "(if content_changed dto k then await (or_fail (generateEmbedding x) e)
      (\<lambda>v. ok (edited_skill dto k\<lparr>sk_version := n, sk_embedding := v\<rparr>)) else ok (edited_skill dto k)) s = (Inr c, t)"
  shows "sk_skillType c = sk_skillType k" "sk_isMandatory c = sk_isMandatory k" "sk_id c = sk_id k" "sk_orgId c = sk_orgId k"
    "sk_isActive c = set_to (uk_isActive dto) (sk_isActive k)"
  using assms by (auto simp: action_Inr edited_skill_def split: if_splits)

lemma leaves_updateSkill_mandatory: "catalogs_mandatory s \<Longrightarrow> leaves catalogs_mandatory (updateSkill i dto u) s"
  unfolding updateSkill_def Let_def
  apply (rule leaves_guard, rule read_intros, assumption)
  apply (rule leaves_guard, rule read_intros, assumption)
  apply (rule leaves_guard, rule read_intros, assumption)
  apply (rule leaves_guard, (intro read_intros)[1], assumption)
  subgoal premises prems for k x y c
    by (rule leaves_step, rule leaves_save_mandatory [OF prems(1,2)], rule changed_Inr [OF prems(5)], rule changed_Inr [OF prems(5)],
        rule leaves_keeps, intro keeps_intros)
  done

lemma leaves_removeSkill_mandatory: "catalogs_mandatory s \<Longrightarrow> leaves catalogs_mandatory (removeSkill i u) s"
  unfolding removeSkill_def
  apply (rule leaves_guard, rule read_intros, assumption)
  apply (rule leaves_guard, rule read_intros, assumption)
  apply (rule leaves_guard, rule read_intros, assumption)
  apply (rule leaves_step, rule leaves_save_mandatory, assumption, assumption, simp, simp, rule leaves_keeps, intro keeps_intros, assumption)
  done

lemma keeps_serve_mandatory: "keeps catalogs_mandatory (serve_skills u q)"
proof -
  have "keeps catalogs_mandatory (createSkill dto u :: ('a skills_state_scheme, json) action)"
    "keeps catalogs_mandatory (importSkills dtos u :: ('a skills_state_scheme, int \<times> (nat \<times> string) list) action)" for dto dtos
    unfolding createSkill_def importSkills_def Let_def or_fail_def generateEmbedding_def generateEmbeddingBatch_def
      assertCanModify_def validateActorCatalogUniqueness_def
    by (intro keeps_intros skills_db_only keeps_insert_mandatory mandatory_from)+
  moreover have "keeps catalogs_mandatory (updateSkill i dto u :: ('a skills_state_scheme, json) action)"
    "keeps catalogs_mandatory (removeSkill i u :: ('a skills_state_scheme, unit) action)" for i dto
    by (simp_all add: keeps_leaves leaves_updateSkill_mandatory leaves_removeSkill_mandatory)
  ultimately show ?thesis by (cases q) (simp_all add: keeps_answer)
qed

lemma serve_all_mandatory: "catalogs_mandatory s \<Longrightarrow> catalogs_mandatory (serve_all_skills qs s)"
  by (induction qs s rule: serve_all_skills.induct) (simp_all add: keeps_serve_mandatory [unfolded keeps_def, rule_format])


section \<open>One catalog\<close>

text \<open>What the checks are enough for: requests that neither import nor reactivate.\<close>

fun checked_request :: "skill_request \<Rightarrow> bool" where
  "checked_request (UpdateSkill i dto) \<longleftrightarrow> uk_isActive dto \<noteq> Some True"
| "checked_request (ImportSkills dtos) \<longleftrightarrow> False"
| "checked_request _ \<longleftrightarrow> True"

lemma length_filter_save_row:
  "find_row key (key r') l = Some r \<Longrightarrow> (P r' \<Longrightarrow> P r) \<Longrightarrow> length (filter P (save_row key r' l)) \<le> length (filter P l)"
  by (induction l) (auto simp: find_row_def split: if_splits)

lemma leaves_save_one:
  assumes "one_catalog s" and "findSkillByIdAndOrg i org s = (Inr k, s)"
    and k': "sk_id k' = sk_id k" "sk_skillType k' = sk_skillType k" "sk_orgId k' = sk_orgId k"
    and "sk_isActive k' \<Longrightarrow> sk_isActive k"
  shows "leaves one_catalog (save_skill k') s"
proof -
  have key: "keyed sk_id (skills s)" using assms(1) by (simp add: one_catalog_def)
  let ?k = "k'\<lparr>sk_updatedAt := now s\<rparr>"
  have "k \<in> set (skills s)" using assms(2) by (auto simp: findSkillByIdAndOrg_def action_Inr dest: find_Some_conv)
  then have "find_row sk_id (sk_id ?k) (skills s) = Some k" using find_row_keyed [OF key] k' by simp
  from length_filter_save_row [OF this, of "active_catalog org" for org]
  have "length (filter (active_catalog org) (save_row sk_id ?k (skills s))) \<le> length (filter (active_catalog org) (skills s))" for org
    using k' assms(6) by (auto simp: active_catalog_def)
  moreover have "length (filter (active_catalog org) (skills s)) \<le> 1" for org using assms(1) by (simp add: one_catalog_def)
  ultimately have "length (filter (active_catalog org) (save_row sk_id ?k (skills s))) \<le> 1" for org by (meson le_trans)
  then show ?thesis
    using assms(1) key by (simp add: leaves_def save_skill_def action_simps current_time_run Let_def one_catalog_def)
qed

lemma leaves_insert_one:
  assumes "one_catalog s" and "active_catalog org k \<Longrightarrow> \<not> list_ex (active_catalog org) (skills s)"
    and "sk_orgId k = org"
  shows "leaves one_catalog (insert_skill k) s"
proof -
  obtain r t where run: "insert_skill k s = (r, t)" by (cases "insert_skill k s")
  then have "skills t = skills s \<or> (\<exists>saved. skills t = skills s @ [saved] \<and> sk_id saved \<notin> sk_id ` set (skills s) \<and>
      sk_skillType saved = sk_skillType k \<and> sk_isActive saved = sk_isActive k \<and> sk_orgId saved = org)"
    using assms(3) by (auto simp: insert_skill_def new_id_def action_simps gen_uuid_run current_time_run Let_def split: if_splits)
  moreover have "filter (active_catalog org) (skills s) = []" if "active_catalog org k"
    using assms(2) [OF that] by (auto simp: list_ex_iff filter_empty_conv)
  ultimately have "one_catalog t"
    using assms(1,3) by (auto simp: one_catalog_def keyed_def active_catalog_def)
  then show ?thesis by (simp add: leaves_def run)
qed

lemma leaves_createSkill_one: "one_catalog s \<Longrightarrow> leaves one_catalog (createSkill dto u) s"
  unfolding createSkill_def
  apply (rule leaves_guard, rule read_intros, assumption)
  apply (rule leaves_guard, (intro read_intros)[1], assumption)
  apply (rule leaves_guard, (intro read_intros)[1], assumption)
  subgoal premises prems for x y e
  proof (rule leaves_step, rule leaves_insert_one [OF prems(1)])
    show "sk_orgId (skill_from dto u e (mandatory_for dto)) = ru_orgId u" by (simp add: skill_from_def)
    show "\<not> list_ex (active_catalog (ru_orgId u)) (skills s)"
      if "active_catalog (ru_orgId u) (skill_from dto u e (mandatory_for dto))"
      using prems(3) that by (auto simp: active_catalog_def skill_from_def validateActorCatalogUniqueness_def action_Inr)
  qed (rule leaves_keeps, intro keeps_intros, assumption)
  done

lemma leaves_updateSkill_one:
  "uk_isActive dto \<noteq> Some True \<Longrightarrow> one_catalog s \<Longrightarrow> leaves one_catalog (updateSkill i dto u) s"
  unfolding updateSkill_def Let_def
  apply (rule leaves_guard, rule read_intros, assumption)
  apply (rule leaves_guard, rule read_intros, assumption)
  apply (rule leaves_guard, rule read_intros, assumption)
  apply (rule leaves_guard, (intro read_intros)[1], assumption)
  subgoal premises prems for k x y c
  proof (rule leaves_step, rule leaves_save_one [OF prems(2,3)])
    show "sk_isActive k" if "sk_isActive c"
      using that changed_Inr(5) [OF prems(6)] prems(1) by (cases "uk_isActive dto") (auto simp: set_to_def)
  qed (rule changed_Inr [OF prems(6)] | rule leaves_keeps, intro keeps_intros, assumption)+
  done

lemma leaves_removeSkill_one: "one_catalog s \<Longrightarrow> leaves one_catalog (removeSkill i u) s"
  unfolding removeSkill_def
  apply (rule leaves_guard, rule read_intros, assumption)
  apply (rule leaves_guard, rule read_intros, assumption)
  apply (rule leaves_guard, rule read_intros, assumption)
  apply (rule leaves_step, rule leaves_save_one, assumption, assumption, simp, simp, simp, simp, rule leaves_keeps, intro keeps_intros,
      assumption)
  done

lemma serve_all_one:
  "list_all (\<lambda>(u, q). checked_request q) qs \<Longrightarrow> one_catalog s \<Longrightarrow> one_catalog (serve_all_skills qs s)"
proof (induction qs s rule: serve_all_skills.induct)
  case (2 u q qs s)
  have "leaves one_catalog (serve_skills u q) s"
    using 2 by (cases q) (simp_all add: leaves_answer leaves_createSkill_one leaves_updateSkill_one leaves_removeSkill_one)
  with 2 show ?case by (simp add: leaves_def)
qed simp

end
