(* ===== verification/SkillsClaims.thy ===== *)
theory SkillsClaims
  imports SkillsProps
begin

text \<open>The properties of the skills, with a small instance.\<close>

definition ann :: request_user where
  "ann = \<lparr> ru_id = ''ann'', ru_orgId = ''o'', ru_role = user_role_str UserRole.ADMIN \<rparr>"

definition skill_dto :: "string \<Rightarrow> SkillType \<Rightarrow> create_skill_dto" where
  "skill_dto name ty = \<lparr> ck_name = name, ck_description = None, ck_skillType = ty, ck_content = ''text'',
     ck_appliesToDomains = None, ck_appliesToAgents = None, ck_isMandatory = None \<rparr>"

definition stored_skill :: "uuid \<Rightarrow> SkillType \<Rightarrow> rat list option \<Rightarrow> skill" where
  "stored_skill i ty v = (skill_from (skill_dto i ty) ann v (ty = ACTOR_CATALOG))\<lparr>sk_id := i\<rparr>"

definition no_changes :: update_skill_dto where
  "no_changes = \<lparr> uk_name = None, uk_description = None, uk_content = None, uk_appliesToDomains = None,
     uk_appliesToAgents = None, uk_isMandatory = None, uk_isActive = None \<rparr>"

text \<open>The given skills, without a service for embeddings.\<close>

definition demo_skills :: "skill list \<Rightarrow> skills_state" where
  "demo_skills ks = \<lparr> now = 10, uuids = fresh_name ''id'', uuid_next = 0, rooms_live = (\<lambda>_. True), nats_up = True,
     workflows = [], workflow_versions = [], sessions = [], audit_log = [], emitted = [], published = [],
     messages = [], documents = [], skills = ks, pipeline_executions = [], agent_executions = [], agent_logs = [],
     agent_definitions = [], dead_letters = [], kg_nodes = [], kg_edges = [], graph_snapshots = [],
     divergence_reports = [], correlation_id = ''system'',
     skill_applications = [], platform_audits = [], fastapi_enabled = False, fastapi_internal = None,
     env_fastapi_internal_url = None, env_fastapi_url = None, embed = (\<lambda>_ _. None), embed_all = (\<lambda>_ _. None),
     rounded = (\<lambda>x. x) \<rparr>"

definition one_skill :: "skill list" where
  "one_skill = [stored_skill ''c'' ACTOR_CATALOG None]"

text \<open>An import stores a prefix of the request. As many skills as were not refused are stored, taken from the
  first one on, whichever were refused; the answer counts them and the refused ones.\<close>

theorem import_stores_a_prefix:
  assumes "importSkills dtos caller s = (Inr (n, failed), t)"
  shows "\<exists>new. skills t = skills s @ new \<and> n = int (length new) \<and> length new + length failed = length dtos \<and>
    map skill_shape new = map dto_shape (take (length new) dtos)"
  using assms by (rule import_prefix)

text \<open>A second catalog is refused, the rule behind it accepted; what is stored is the catalog.\<close>

theorem import_stores_a_prefix_witness:
  "let s = demo_skills one_skill;
       x = importSkills [skill_dto ''second'' ACTOR_CATALOG, skill_dto ''rule'' ARCHETYPE] ann s in
     fst x = Inr (1, [(0, ''ACTOR_CATALOG already exists for org'')]) \<and> map sk_name (skills (snd x)) = [''c'', ''second'']"
proof -
  let ?dtos = "[skill_dto ''second'' ACTOR_CATALOG, skill_dto ''rule'' ARCHETYPE]"
  let ?s = "demo_skills one_skill"
  let ?x = "importSkills ?dtos ann ?s"
  have x: "fst ?x = Inr (1, [(0, ''ACTOR_CATALOG already exists for org'')])" by code_simp
  then have "?x = (Inr (1, [(0, ''ACTOR_CATALOG already exists for org'')]), snd ?x)" by (metis prod.collapse)
  from import_stores_a_prefix [OF this] obtain new where
    new: "skills (snd ?x) = skills ?s @ new" "1 = int (length new)" "map skill_shape new = map dto_shape (take (length new) ?dtos)"
    by (elim exE conjE)
  then obtain k where k: "new = [k]" by (cases new) auto
  have "sk_name k = ''second''" using new(3) by (simp add: k skill_shape_def dto_shape_def skill_dto_def)
  moreover have "map sk_name (skills ?s) = [''c'']"
    by (simp add: demo_skills_def one_skill_def stored_skill_def skill_from_def skill_dto_def)
  ultimately have "map sk_name (skills (snd ?x)) = [''c'', ''second'']" by (simp add: new(1) k)
  with x show ?thesis by (simp only: Let_def)
qed

text \<open>C38: Every catalog of actors stays mandatory, whatever requests are served.\<close>

theorem catalogs_stay_mandatory:
  assumes "catalogs_mandatory s"
  shows "catalogs_mandatory (serve_all_skills qs s)"
  using assms by (rule serve_all_mandatory)

theorem catalogs_stay_mandatory_witness:
  "let s = serve_all_skills [(ann, CreateSkill (skill_dto ''new'' ACTOR_CATALOG)),
         (ann, UpdateSkill ''id0'' (no_changes\<lparr>uk_isMandatory := Some False, uk_isActive := Some False\<rparr>)),
         (ann, RemoveSkill ''id0'')] (demo_skills []) in
     catalogs_mandatory s \<and> map (\<lambda>k. (sk_name k, sk_isMandatory k, sk_isActive k)) (skills s) = [(''new'', True, True)]"
proof -
  have "catalogs_mandatory (demo_skills [])" by (simp add: catalogs_mandatory_def demo_skills_def keyed_def)
  note catalogs_stay_mandatory [OF this]
  moreover have "map (\<lambda>k. (sk_name k, sk_isMandatory k, sk_isActive k)) (skills (serve_all_skills
      [(ann, CreateSkill (skill_dto ''new'' ACTOR_CATALOG)),
       (ann, UpdateSkill ''id0'' (no_changes\<lparr>uk_isMandatory := Some False, uk_isActive := Some False\<rparr>)),
       (ann, RemoveSkill ''id0'')] (demo_skills []))) = [(''new'', True, True)]"
    by code_simp
  ultimately show ?thesis by (simp only: Let_def)
qed

text \<open>C39: An organization never has two active catalogs of actors: creating, editing and removing skills keeps that,
  refused requests included, as long as nobody imports skills or switches one on again, which the service does
  not check.\<close>

theorem one_catalog_per_organization:
  assumes "keyed sk_id (skills s)"
    and "\<forall>org. length (filter (\<lambda>k. sk_orgId k = org \<and> sk_skillType k = ACTOR_CATALOG \<and> sk_isActive k) (skills s)) \<le> 1"
    and "list_all (\<lambda>(u, q). case q of ImportSkills dtos \<Rightarrow> False | UpdateSkill i dto \<Rightarrow> uk_isActive dto \<noteq> Some True | _ \<Rightarrow> True) qs"
  shows "\<forall>org. length (filter (\<lambda>k. sk_orgId k = org \<and> sk_skillType k = ACTOR_CATALOG \<and> sk_isActive k)
    (skills (serve_all_skills qs s))) \<le> 1"
proof -
  have catalog: "active_catalog org = (\<lambda>k. sk_orgId k = org \<and> sk_skillType k = ACTOR_CATALOG \<and> sk_isActive k)" for org
    by (auto simp: active_catalog_def fun_eq_iff)
  have checked: "(case q of ImportSkills dtos \<Rightarrow> False | UpdateSkill i dto \<Rightarrow> uk_isActive dto \<noteq> Some True | _ \<Rightarrow> True) =
      checked_request q" for q by (cases q) simp_all
  have "one_catalog s" using assms(1,2) by (simp add: one_catalog_def catalog)
  moreover have "list_all (\<lambda>(u, q). checked_request q) qs" using assms(3) unfolding checked .
  ultimately show ?thesis using serve_all_one [of qs s] by (simp add: one_catalog_def catalog)
qed

theorem one_catalog_per_organization_witness:
  "let s = serve_all_skills [(ann, CreateSkill (skill_dto ''second'' ACTOR_CATALOG)),
         (ann, UpdateSkill ''c'' (no_changes\<lparr>uk_isActive := Some False\<rparr>)),
         (ann, CreateSkill (skill_dto ''third'' ACTOR_CATALOG))] (demo_skills one_skill) in
     length (filter (\<lambda>k. sk_orgId k = ''o'' \<and> sk_skillType k = ACTOR_CATALOG \<and> sk_isActive k) (skills s)) \<le> 1 \<and>
     map (\<lambda>k. (sk_name k, sk_isActive k)) (skills s) = [(''c'', False), (''third'', True)]"
proof -
  let ?qs = "[(ann, CreateSkill (skill_dto ''second'' ACTOR_CATALOG)),
     (ann, UpdateSkill ''c'' (no_changes\<lparr>uk_isActive := Some False\<rparr>)), (ann, CreateSkill (skill_dto ''third'' ACTOR_CATALOG))]"
  have start: "keyed sk_id (skills (demo_skills one_skill))"
    "\<forall>org. length (filter (\<lambda>k. sk_orgId k = org \<and> sk_skillType k = ACTOR_CATALOG \<and> sk_isActive k)
       (skills (demo_skills one_skill))) \<le> 1"
    by (simp_all add: demo_skills_def keyed_def one_skill_def)
  have "list_all (\<lambda>(u, q). case q of ImportSkills dtos \<Rightarrow> False | UpdateSkill i dto \<Rightarrow> uk_isActive dto \<noteq> Some True | _ \<Rightarrow> True) ?qs"
    by (simp add: no_changes_def)
  from one_catalog_per_organization [OF start this]
  have "length (filter (\<lambda>k. sk_orgId k = ''o'' \<and> sk_skillType k = ACTOR_CATALOG \<and> sk_isActive k)
      (skills (serve_all_skills ?qs (demo_skills one_skill)))) \<le> 1" by blast
  moreover have "map (\<lambda>k. (sk_name k, sk_isActive k)) (skills (serve_all_skills ?qs (demo_skills one_skill))) =
      [(''c'', False), (''third'', True)]"
    by code_simp
  ultimately show ?thesis by (simp only: Let_def)
qed

text \<open>Switching a catalog on again is not checked: two requests of an administrator leave the organization with
  two active catalogs.\<close>

theorem reactivation_gives_two_catalogs:
  "let s = demo_skills [stored_skill ''c'' ACTOR_CATALOG None, (stored_skill ''d'' ACTOR_CATALOG None)\<lparr>sk_isActive := False\<rparr>];
       t = snd (updateSkill ''d'' (no_changes\<lparr>uk_isActive := Some True\<rparr>) ann s) in
     filter (active_catalog ''o'') (skills s) = [stored_skill ''c'' ACTOR_CATALOG None] \<and>
     map sk_id (filter (active_catalog ''o'') (skills t)) = [''c'', ''d'']"
proof -
  let ?s = "demo_skills [stored_skill ''c'' ACTOR_CATALOG None, (stored_skill ''d'' ACTOR_CATALOG None)\<lparr>sk_isActive := False\<rparr>]"
  have "filter (active_catalog ''o'') (skills ?s) = [stored_skill ''c'' ACTOR_CATALOG None]"
    by (simp add: demo_skills_def active_catalog_def stored_skill_def skill_from_def skill_dto_def ann_def)
  moreover have "map sk_id (filter (active_catalog ''o'')
      (skills (snd (updateSkill ''d'' (no_changes\<lparr>uk_isActive := Some True\<rparr>) ann ?s)))) = [''c'', ''d'']"
    by code_simp
  ultimately show ?thesis by (simp only: Let_def)
qed

text \<open>C40: The skills retrieved for an agent are the best ones: at most as many as asked for, all active and of the
  organization, in descending order of similarity as computed with any rounding, and no candidate left out is more similar than one of them.\<close>

theorem top_k_is_best:
  assumes "0 \<le> k"
  shows "\<exists>best. retrieveTopKSkills org v k s = (Inr best, s) \<and>
    (let candidates = filter (\<lambda>x. sk_orgId x = org \<and> sk_isActive x \<and> sk_embedding x \<noteq> None) (skills s) in
      length best = min (nat k) (length candidates) \<and> set best \<subseteq> set candidates \<and>
      sorted (map (\<lambda>x. - vector_score (rounded s) v x) best) \<and>
      (\<forall>x \<in> set candidates - set best. \<forall>y \<in> set best. vector_score (rounded s) v x \<le> vector_score (rounded s) v y))"
  unfolding retrieveTopKSkills_def reads_run Let_def by (intro exI conjI refl) (use ranked_best [OF assms] in blast)+

theorem top_k_is_best_witness:
  "let s = demo_skills [stored_skill ''a'' ARCHETYPE (Some [0, 1]), stored_skill ''b'' ARCHETYPE (Some [2, 0])] in
     retrieveTopKSkills ''o'' [1, 0] 1 s = (Inr [stored_skill ''b'' ARCHETYPE (Some [2, 0])], s)"
proof -
  let ?a = "stored_skill ''a'' ARCHETYPE (Some [0, 1])" and ?b = "stored_skill ''b'' ARCHETYPE (Some [2, 0])"
  let ?s = "demo_skills [?a, ?b]"
  have candidates: "filter (\<lambda>x. sk_orgId x = ''o'' \<and> sk_isActive x \<and> sk_embedding x \<noteq> None) (skills ?s) = [?a, ?b]"
    by (simp add: demo_skills_def stored_skill_def skill_from_def ann_def)
  have "sk_embedding ?a = Some [0, 1]" "sk_embedding ?b = Some [2, 0]" by (simp_all add: stored_skill_def skill_from_def)
  then have scores: "vector_score (rounded ?s) [1, 0] ?a = 0" "vector_score (rounded ?s) [1, 0] ?b = 1"
    by (simp_all add: vector_score_def cosineSimilarity_def dot_def real_sqrt_mult demo_skills_def)
  have ids: "sk_id ?a = ''a''" "sk_id ?b = ''b''" by (simp_all add: stored_skill_def)
  obtain best where best: "retrieveTopKSkills ''o'' [1, 0] 1 ?s = (Inr best, ?s)" "length best = 1" "set best \<subseteq> {?a, ?b}"
    "\<forall>x \<in> {?a, ?b} - set best. \<forall>y \<in> set best. vector_score (rounded ?s) [1, 0] x \<le> vector_score (rounded ?s) [1, 0] y"
    using top_k_is_best [of 1 "''o''" "[1, 0]" ?s] unfolding Let_def candidates by auto
  then obtain k where k: "best = [k]" by (cases best) auto
  have "?a \<noteq> ?b" using ids by auto
  with best(3,4) scores have "k = ?b" by (auto simp: k)
  with best(1) show ?thesis by (simp add: k Let_def)
qed

end
