(* ===== verification/Jobs.thy ===== *)
theory Jobs
  imports Sources CanvasRealtime Jsonb
begin

text \<open>
  The tasks of the AI workers (\<open>src/modules/jobs\<close>), the ledger of usage they draw on
  (\<open>src/modules/usage/usage.service.ts\<close>) and the suggestions their results become
  (\<open>src/modules/canvas/services/canvas-ai-suggestion.service.ts\<close>). The payloads of the workers' events
  have the types that the code's interfaces declare; null counts as absent. The payload of a task is kept as
  \<open>jsonb\<close>. A used token is remembered in Redis until it expires.
\<close>

section \<open>Entities\<close>

datatype JobStatus = QUEUED | RUNNING | WAITING_FOR_USER | COMPLETED | FAILED | CANCELLED | SUPERSEDED | STALE

fun job_status_str :: "JobStatus \<Rightarrow> string" where
  "job_status_str QUEUED = ''queued''"
| "job_status_str RUNNING = ''running''"
| "job_status_str WAITING_FOR_USER = ''waiting_for_user''"
| "job_status_str COMPLETED = ''completed''"
| "job_status_str FAILED = ''failed''"
| "job_status_str CANCELLED = ''cancelled''"
| "job_status_str SUPERSEDED = ''superseded''"
| "job_status_str STALE = ''stale''"

record ai_task =
  at_id :: uuid
  at_organizationId :: uuid
  at_workspaceId :: uuid
  at_userId :: uuid
  at_taskType :: string
  at_status :: JobStatus
  at_progress :: int
  at_currentStep :: "string option"
  at_requestPayload :: json
  at_resultPayload :: "json option"
  at_errorCode :: "string option"
  at_errorMessage :: "string option"
  at_correlationId :: string
  at_idempotencyKey :: string
  at_usageReservationId :: uuid
  at_canvasId :: "uuid option"
  at_snapshotId :: "uuid option"
  at_snapshotVersion :: "int option"
  at_canvasRevision :: "int option"
  at_supersededByTaskId :: "uuid option"
  at_createdAt :: time
  at_startedAt :: "time option"
  at_completedAt :: "time option"
  at_cancelledAt :: "time option"

datatype UsageDimension = WORKSPACE_COUNT | MEMBER_COUNT | STORAGE_BYTES | AI_INPUT_TOKENS | AI_OUTPUT_TOKENS
  | AI_COST_USD | RESEARCH_PAGES | IMAGE_GENERATIONS | EXPORT_BYTES

fun usage_dimension_str :: "UsageDimension \<Rightarrow> string" where
  "usage_dimension_str WORKSPACE_COUNT = ''workspace_count''"
| "usage_dimension_str MEMBER_COUNT = ''member_count''"
| "usage_dimension_str STORAGE_BYTES = ''storage_bytes''"
| "usage_dimension_str AI_INPUT_TOKENS = ''ai_input_tokens''"
| "usage_dimension_str AI_OUTPUT_TOKENS = ''ai_output_tokens''"
| "usage_dimension_str AI_COST_USD = ''ai_cost_usd''"
| "usage_dimension_str RESEARCH_PAGES = ''research_pages''"
| "usage_dimension_str IMAGE_GENERATIONS = ''image_generations''"
| "usage_dimension_str EXPORT_BYTES = ''export_bytes''"

datatype UsageReservationStatus = RESERVED | COMMITTED | RELEASED | EXPIRED

record usage_reservation =
  us_id :: uuid
  us_organizationId :: uuid
  us_workspaceId :: uuid
  us_dimension :: UsageDimension
  us_amount :: rat
  us_actualAmount :: "rat option"
  us_idempotencyKey :: string
  us_status :: UsageReservationStatus
  us_expiresAt :: time
  us_createdAt :: time
  us_updatedAt :: time

record workspace_usage =
  wu_id :: uuid
  wu_organizationId :: uuid
  wu_workspaceId :: uuid
  wu_totals :: "(string \<times> rat) list"
  wu_updatedAt :: time

datatype NotificationType = WORKSPACE_INVITATION | INVITATION_ACCEPTED | MEMBER_ADDED | MEMBER_REMOVED | MEMBER_SUSPENDED
  | AI_TASK_COMPLETED | AI_TASK_FAILED | RESEARCH_COMPLETED | APPROVAL_REQUESTED | CONCEPT_READY | EXPORT_READY
  | EXPORT_FAILED

record notification_row =
  nt_id :: uuid
  nt_organizationId :: uuid
  nt_workspaceId :: "uuid option"
  nt_userId :: uuid
  nt_type :: NotificationType
  nt_title :: string
  nt_body :: string
  nt_metadata :: json
  nt_readAt :: "time option"
  nt_createdAt :: time

datatype AiSuggestionStatus = QUEUED | PROCESSING | READY | STALE | ACCEPTED | REJECTED | FAILED | CANCELLED | SUPERSEDED

fun suggestion_status_str :: "AiSuggestionStatus \<Rightarrow> string" where
  "suggestion_status_str AiSuggestionStatus.QUEUED = ''queued''"
| "suggestion_status_str PROCESSING = ''processing''"
| "suggestion_status_str READY = ''ready''"
| "suggestion_status_str AiSuggestionStatus.STALE = ''stale''"
| "suggestion_status_str ACCEPTED = ''accepted''"
| "suggestion_status_str REJECTED = ''rejected''"
| "suggestion_status_str AiSuggestionStatus.FAILED = ''failed''"
| "suggestion_status_str AiSuggestionStatus.CANCELLED = ''cancelled''"
| "suggestion_status_str AiSuggestionStatus.SUPERSEDED = ''superseded''"

record suggestion =
  sg_id :: uuid
  sg_taskId :: uuid
  sg_organizationId :: uuid
  sg_workspaceId :: uuid
  sg_canvasId :: uuid
  sg_snapshotId :: "uuid option"
  sg_snapshotVersion :: "int option"
  sg_canvasRevision :: "int option"
  sg_resultType :: string
  sg_componentSpec :: "json option"
  sg_assetId :: "uuid option"
  sg_assetVersionId :: "uuid option"
  sg_status :: AiSuggestionStatus
  sg_enhancedPrompt :: "string option"
  sg_evidenceIds :: "string list option"
  sg_stale :: bool
  sg_acceptedAt :: "time option"
  sg_rejectedAt :: "time option"
  sg_createdAt :: time
  sg_updatedAt :: time

text \<open>\<open>used_tokens\<close> holds the keys in Redis with the time they are kept until.\<close>

record jobs_state = sources_state +
  request_correlation :: string
  ai_tasks :: "ai_task list"
  reservations :: "usage_reservation list"
  workspace_usages :: "workspace_usage list"
  notifications :: "notification_row list"
  suggestions :: "suggestion list"
  job_audits :: "platform_audit list"
  used_tokens :: "(string \<times> time) list"

interpretation task_repo:
  keyed_store at_id "find_row at_id" "save_row at_id" "remove_row at_id" set "keyed at_id"
  by (rule keyed_store_rows) simp_all

interpretation reservation_repo:
  keyed_store us_id "find_row us_id" "save_row us_id" "remove_row us_id" set "keyed us_id"
  by (rule keyed_store_rows) simp_all

interpretation suggestion_repo:
  keyed_store sg_id "find_row sg_id" "save_row sg_id" "remove_row sg_id" set "keyed sg_id"
  by (rule keyed_store_rows) simp_all

text \<open>The id of a new row, which no row of the table has.\<close>

definition row_id ::
    "('r \<Rightarrow> uuid) \<Rightarrow> ('z jobs_state_scheme \<Rightarrow> 'r list) \<Rightarrow> string \<Rightarrow> ('z jobs_state_scheme, uuid) action" where
  "row_id key table constraint =
     await gen_uuid (\<lambda>i.
     await (reads (\<lambda>s. i \<notin> key ` set (table s))) (\<lambda>fresh.
     await (require fresh (QueryFailed constraint)) (\<lambda>_. ok i)))"

section \<open>Usage\<close>

record reserve_usage_input =
  ri_organizationId :: uuid
  ri_workspaceId :: uuid
  ri_dimension :: UsageDimension
  ri_amount :: rat
  ri_idempotencyKey :: string
  ri_limit :: "rat option"

definition usage_of :: "uuid \<Rightarrow> 'z jobs_state_scheme \<Rightarrow> workspace_usage option" where
  "usage_of ws s = find (\<lambda>u. wu_workspaceId u = ws) (workspace_usages s)"

definition total_of :: "UsageDimension \<Rightarrow> workspace_usage \<Rightarrow> rat" where
  "total_of d u = (case map_of (wu_totals u) (usage_dimension_str d) of None \<Rightarrow> 0 | Some x \<Rightarrow> x)"

definition committed_usage :: "uuid \<Rightarrow> UsageDimension \<Rightarrow> 'z jobs_state_scheme \<Rightarrow> rat" where
  "committed_usage ws d s = (case usage_of ws s of None \<Rightarrow> 0 | Some u \<Rightarrow> total_of d u)"

definition reserved_usage :: "uuid \<Rightarrow> UsageDimension \<Rightarrow> 'z jobs_state_scheme \<Rightarrow> rat" where
  "reserved_usage ws d s = sum_list (map us_amount (filter (\<lambda>r. us_workspaceId r = ws \<and> us_dimension r = d \<and>
     us_status r = RESERVED) (reservations s)))"

text \<open>The column of the key holds 160 characters.\<close>

definition reserveUsage :: "reserve_usage_input \<Rightarrow> ('z jobs_state_scheme, usage_reservation) action" where
  "reserveUsage input =
     await (reads (\<lambda>s. find (\<lambda>r. us_idempotencyKey r = ri_idempotencyKey input) (reservations s))) (\<lambda>existing.
     case existing of Some r \<Rightarrow> ok r | None \<Rightarrow>
     await (require (0 < ri_amount input) (Conflict (JStr ''Usage amount must be positive''))) (\<lambda>_.
     await (reads (committed_usage (ri_workspaceId input) (ri_dimension input))) (\<lambda>committed.
     await (reads (reserved_usage (ri_workspaceId input) (ri_dimension input))) (\<lambda>raw.
     await (require (case ri_limit input of None \<Rightarrow> True | Some l \<Rightarrow> committed + raw + ri_amount input \<le> l)
              (Conflict (JStr ''Usage limit exceeded''))) (\<lambda>_.
     await (row_id us_id reservations ''usage_reservation_pkey'') (\<lambda>i.
     await current_time (\<lambda>t.
     await (require (length (ri_idempotencyKey input) \<le> 160) (QueryFailed ''value too long'')) (\<lambda>_.
     let r = \<lparr> us_id = i, us_organizationId = ri_organizationId input, us_workspaceId = ri_workspaceId input,
           us_dimension = ri_dimension input, us_amount = ri_amount input, us_actualAmount = None,
           us_idempotencyKey = ri_idempotencyKey input, us_status = RESERVED, us_expiresAt = t + 30 * 60000,
           us_createdAt = t, us_updatedAt = t \<rparr>
     in await (writes (reservations_update (\<lambda>l. l @ [r]))) (\<lambda>_. ok r)))))))))"

definition add_usage :: "usage_reservation \<Rightarrow> rat \<Rightarrow> ('z jobs_state_scheme, unit) action" where
  "add_usage r actual =
     await (reads (usage_of (us_workspaceId r))) (\<lambda>found.
     await current_time (\<lambda>t.
     await (case found of Some u \<Rightarrow> ok u
            | None \<Rightarrow> await (row_id wu_id workspace_usages ''workspace_usage_pkey'') (\<lambda>i.
                ok \<lparr> wu_id = i, wu_organizationId = us_organizationId r, wu_workspaceId = us_workspaceId r,
                     wu_totals = [], wu_updatedAt = t \<rparr>)) (\<lambda>u.
     writes (workspace_usages_update (save_row wu_id (u\<lparr>wu_totals := put_field (usage_dimension_str (us_dimension r))
       (total_of (us_dimension r) u + actual) (wu_totals u), wu_updatedAt := t\<rparr>))))))"

definition finish_usage ::
    "uuid \<Rightarrow> UsageReservationStatus \<Rightarrow> rat \<Rightarrow> ('z jobs_state_scheme, usage_reservation) action" where
  "finish_usage i status actual =
     await (reads (\<lambda>s. find_row us_id i (reservations s))) (\<lambda>found.
     await (some_or_throw found (NotFound ''Usage reservation not found'')) (\<lambda>r.
     if us_status r \<noteq> RESERVED then ok r else
     await current_time (\<lambda>t.
     let r' = r\<lparr>us_status := status, us_actualAmount := Some actual, us_updatedAt := t\<rparr> in
     await (writes (reservations_update (save_row us_id r'))) (\<lambda>_.
     await (if status = COMMITTED then add_usage r' actual else ok ()) (\<lambda>_. ok r')))))"

definition commitUsage :: "uuid \<Rightarrow> rat \<Rightarrow> ('z jobs_state_scheme, usage_reservation) action" where
  "commitUsage i actual = finish_usage i COMMITTED actual"

definition releaseUsage :: "uuid \<Rightarrow> ('z jobs_state_scheme, usage_reservation) action" where
  "releaseUsage i = finish_usage i RELEASED 0"

definition getUsageSummary :: "uuid \<Rightarrow> ('z jobs_state_scheme, (string \<times> rat) list) action" where
  "getUsageSummary ws = reads (\<lambda>s. case usage_of ws s of None \<Rightarrow> [] | Some u \<Rightarrow> wu_totals u)"

definition cleanupExpired :: "('z jobs_state_scheme, unit) action" where
  "cleanupExpired = await current_time (\<lambda>t.
     writes (reservations_update (update_where (\<lambda>r. us_status r = RESERVED \<and> us_expiresAt r < t)
       (\<lambda>r. r\<lparr>us_status := EXPIRED, us_updatedAt := t\<rparr>))))"

section \<open>Notifications\<close>

definition createNotification ::
    "uuid \<Rightarrow> uuid option \<Rightarrow> uuid \<Rightarrow> NotificationType \<Rightarrow> string \<Rightarrow> string \<Rightarrow> json \<Rightarrow> ('z jobs_state_scheme, unit) action" where
  "createNotification org ws user ty title body metadata =
     await (row_id nt_id notifications ''notification_pkey'') (\<lambda>i.
     await current_time (\<lambda>t.
     writes (notifications_update (\<lambda>l. l @ [\<lparr> nt_id = i, nt_organizationId = org, nt_workspaceId = ws,
       nt_userId = user, nt_type = ty, nt_title = title, nt_body = body, nt_metadata = metadata,
       nt_readAt = None, nt_createdAt = t \<rparr>]))))"

definition listNotifications :: "uuid \<Rightarrow> ('z jobs_state_scheme, notification_row list) action" where
  "listNotifications userId = reads (\<lambda>s. sort_desc nt_createdAt (filter (\<lambda>n. nt_userId n = userId) (notifications s)))"

definition readNotification :: "uuid \<Rightarrow> uuid \<Rightarrow> ('z jobs_state_scheme, notification_row) action" where
  "readNotification i userId =
     await (reads (\<lambda>s. find (\<lambda>n. nt_id n = i \<and> nt_userId n = userId) (notifications s))) (\<lambda>found.
     await (some_or_throw found (NotFound ''Notification not found'')) (\<lambda>n.
     if nt_readAt n \<noteq> None then ok n else
     await current_time (\<lambda>t. let n' = n\<lparr>nt_readAt := Some t\<rparr> in
     await (writes (notifications_update (save_row nt_id n'))) (\<lambda>_. ok n'))))"

definition readAllNotifications :: "uuid \<Rightarrow> ('z jobs_state_scheme, unit) action" where
  "readAllNotifications userId = await current_time (\<lambda>t.
     writes (notifications_update (update_where (\<lambda>n. nt_userId n = userId \<and> nt_readAt n = None)
       (\<lambda>n. n\<lparr>nt_readAt := Some t\<rparr>))))"

section \<open>Shared steps\<close>

definition createAuditLog ::
    "uuid \<Rightarrow> uuid option \<Rightarrow> uuid \<Rightarrow> string \<Rightarrow> string \<Rightarrow> string \<Rightarrow> json \<Rightarrow> string \<Rightarrow> ('z jobs_state_scheme, unit) action" where
  "createAuditLog org ws actor act entityType entityId after correlation =
     await current_time (\<lambda>t.
     writes (job_audits_update (\<lambda>l. l @ [\<lparr> pa_organizationId = org, pa_workspaceId = ws, pa_actorId = actor,
       pa_action = act, pa_entityType = entityType, pa_entityId = entityId, pa_before = JNull,
       pa_after = after, pa_correlationId = correlation, pa_createdAt = t \<rparr>])))"

definition save_task :: "ai_task \<Rightarrow> ('z jobs_state_scheme, unit) action" where
  "save_task t = writes (ai_tasks_update (save_row at_id t))"

definition task_created_json :: "ai_task \<Rightarrow> json" where
  "task_created_json t = JObj [(''status'', JStr (job_status_str (at_status t))), (''taskType'', JStr (at_taskType t))]"

definition task_status_json :: "ai_task \<Rightarrow> json" where
  "task_status_json t = JObj [(''status'', JStr (job_status_str (at_status t)))]"

section \<open>AiTasksService\<close>

definition EDITORS :: "WorkspaceRole list" where
  "EDITORS = [WorkspaceRole.OWNER, WorkspaceRole.ADMIN, EDITOR]"

text \<open>The request without a key gets a fresh one.\<close>

definition ai_task_event :: "string \<Rightarrow> ai_task \<Rightarrow> uuid \<Rightarrow> string \<Rightarrow> json \<Rightarrow> domain_event_input" where
  "ai_task_event eventType t userId correlation payload = \<lparr> de_eventId = None, de_eventType = eventType,
     de_organizationId = at_organizationId t, de_workspaceId = Some (at_workspaceId t), de_userId = userId,
     de_correlationId = correlation, de_causationId = None, de_stateVersion = None, de_timestamp = None,
     de_payload = payload \<rparr>"

definition send_task_event :: "domain_event_input \<Rightarrow> ai_task \<Rightarrow> ('z jobs_state_scheme, unit) action" where
  "send_task_event i t =
     await gen_uuid (\<lambda>eventId.
     await current_time (\<lambda>stamp.
     await (outbox_create \<lparr> oi_aggregateType = ''ai_task'', oi_aggregateId = at_id t,
              oi_eventType = de_eventType i, oi_payload = createDomainEvent eventId (iso_string stamp) i,
              oi_correlationId = de_correlationId i \<rparr> \<lparr> oo_eventId = None, oo_eventIdField = None \<rparr>) (\<lambda>_.
     ok ())))"

definition insert_task :: "ai_task \<Rightarrow> ('z jobs_state_scheme, ai_task) action" where
  "insert_task t =
     await (row_id at_id ai_tasks ''ai_task_pkey'') (\<lambda>i.
     await current_time (\<lambda>u.
     await (reads (\<lambda>s. at_idempotencyKey t \<notin> at_idempotencyKey ` set (ai_tasks s))) (\<lambda>fresh.
     await (require fresh (QueryFailed ''ai_task_idempotency_key_key'')) (\<lambda>_.
     let saved = t\<lparr>at_id := i, at_createdAt := u\<rparr> in
     await (writes (ai_tasks_update (\<lambda>l. l @ [saved\<lparr>at_requestPayload := jsonb (at_requestPayload saved)\<rparr>]))) (\<lambda>_.
     ok saved)))))"

definition new_task :: "uuid \<Rightarrow> uuid \<Rightarrow> uuid \<Rightarrow> string \<Rightarrow> json \<Rightarrow> string \<Rightarrow> string \<Rightarrow> uuid \<Rightarrow> ai_task" where
  "new_task org ws user taskType payload correlation key reservation = \<lparr> at_id = [], at_organizationId = org,
     at_workspaceId = ws, at_userId = user, at_taskType = taskType, at_status = JobStatus.QUEUED, at_progress = 0,
     at_currentStep = None, at_requestPayload = payload, at_resultPayload = None, at_errorCode = None,
     at_errorMessage = None, at_correlationId = correlation, at_idempotencyKey = key,
     at_usageReservationId = reservation, at_canvasId = None, at_snapshotId = None, at_snapshotVersion = None,
     at_canvasRevision = None, at_supersededByTaskId = None, at_createdAt = 0, at_startedAt = None,
     at_completedAt = None, at_cancelledAt = None \<rparr>"

definition createTask ::
    "uuid \<Rightarrow> string \<Rightarrow> json \<Rightarrow> string option \<Rightarrow> uuid \<Rightarrow> ('z jobs_state_scheme, ai_task) action" where
  "createTask ws taskType payload givenKey userId =
     await (requireRole userId ws EDITORS) (\<lambda>member.
     await (case givenKey of Some k \<Rightarrow> ok k | None \<Rightarrow> gen_uuid) (\<lambda>key.
     await (reads (\<lambda>s. find (\<lambda>t. at_idempotencyKey t = key \<and> at_workspaceId t = ws \<and> at_userId t = userId) (ai_tasks s)))
       (\<lambda>existing. case existing of Some t \<Rightarrow> ok t | None \<Rightarrow>
     await (reads request_correlation) (\<lambda>correlation.
     await (transaction (
       await (reserveUsage \<lparr> ri_organizationId = wm_organizationId member, ri_workspaceId = ws,
                ri_dimension = AI_INPUT_TOKENS, ri_amount = 1, ri_idempotencyKey = ''ai-task:'' @ key,
                ri_limit = None \<rparr>) (\<lambda>reservation.
       await (insert_task (new_task (wm_organizationId member) ws userId taskType payload correlation key
                (us_id reservation))) (\<lambda>t.
       await (send_task_event (ai_task_event ''workspace.ai.task.requested'' t userId correlation
                (JObj [(''taskId'', JStr (at_id t)), (''taskType'', JStr (at_taskType t)),
                  (''requestPayload'', at_requestPayload t)])) t) (\<lambda>_. ok t))))) (\<lambda>t.
     await (createAuditLog (at_organizationId t) (Some ws) userId ''ai_task.created'' ''ai_task'' (at_id t)
              (task_created_json t) correlation) (\<lambda>_. ok t))))))"

definition listTasks :: "uuid \<Rightarrow> uuid \<Rightarrow> ('z jobs_state_scheme, ai_task list) action" where
  "listTasks ws userId = await (requireMember userId ws) (\<lambda>_.
     reads (\<lambda>s. sort_desc at_createdAt (filter (\<lambda>t. at_workspaceId t = ws) (ai_tasks s))))"

definition getTask :: "uuid \<Rightarrow> uuid \<Rightarrow> uuid \<Rightarrow> ('z jobs_state_scheme, ai_task) action" where
  "getTask ws i userId = await (requireMember userId ws) (\<lambda>_.
     await (reads (\<lambda>s. find (\<lambda>t. at_id t = i \<and> at_workspaceId t = ws) (ai_tasks s))) (\<lambda>t.
     some_or_throw t (NotFound ''AI task not found'')))"

definition ACTIVE_STATUSES :: "JobStatus set" where
  "ACTIVE_STATUSES = {JobStatus.QUEUED, RUNNING, WAITING_FOR_USER}"

definition cancelTask :: "uuid \<Rightarrow> uuid \<Rightarrow> uuid \<Rightarrow> ('z jobs_state_scheme, ai_task) action" where
  "cancelTask ws i userId =
     await (requireRole userId ws EDITORS) (\<lambda>_.
     await (reads request_correlation) (\<lambda>correlation.
     transaction (
       await (reads (\<lambda>s. find (\<lambda>t. at_id t = i \<and> at_workspaceId t = ws) (ai_tasks s))) (\<lambda>found.
       await (some_or_throw found (NotFound ''AI task not found'')) (\<lambda>locked.
       if at_status locked = JobStatus.CANCELLED then ok locked else
       await (require (at_status locked \<in> ACTIVE_STATUSES) (Conflict (JStr ''AI task cannot be cancelled''))) (\<lambda>_.
       await current_time (\<lambda>u.
       let t = locked\<lparr>at_status := JobStatus.CANCELLED, at_cancelledAt := Some u\<rparr> in
       await (save_task t) (\<lambda>_.
       await (releaseUsage (at_usageReservationId t)) (\<lambda>_.
       await (send_task_event (ai_task_event ''workspace.ai.task.cancel.requested'' t userId correlation
                (JObj [(''taskId'', JStr (at_id t))])) t) (\<lambda>_.
       ok t))))))))))"

section \<open>Suggestions\<close>

record create_suggestion_input =
  gi_taskId :: uuid
  gi_organizationId :: uuid
  gi_workspaceId :: uuid
  gi_canvasId :: uuid
  gi_snapshotId :: "uuid option"
  gi_snapshotVersion :: "int option"
  gi_canvasRevision :: "int option"
  gi_resultType :: string
  gi_componentSpec :: "json option"
  gi_assetId :: "uuid option"
  gi_assetVersionId :: "uuid option"
  gi_enhancedPrompt :: "string option"
  gi_evidenceIds :: "string list option"

definition or_else :: "'a option \<Rightarrow> 'a \<Rightarrow> 'a" where
  "or_else x d = (case x of None \<Rightarrow> d | Some y \<Rightarrow> y)"

definition canvas_scope :: "uuid \<Rightarrow> uuid \<Rightarrow> uuid \<Rightarrow> uuid \<Rightarrow> (string \<times> json) list" where
  "canvas_scope org ws canvasId taskId = [(''organization_id'', JStr org), (''workspace_id'', JStr ws),
     (''canvas_id'', JStr canvasId), (''task_id'', JStr taskId)]"

definition lineage :: "uuid option \<Rightarrow> int option \<Rightarrow> int option \<Rightarrow> (string \<times> json) list" where
  "lineage snapshotId version revision = [(''snapshot_id'', JStr (or_else snapshotId [])),
     (''snapshot_version'', json_int (or_else version 0)), (''canvas_revision'', json_int (or_else revision 0))]"

definition findSuggestion ::
    "uuid \<Rightarrow> uuid \<Rightarrow> uuid \<Rightarrow> ('z jobs_state_scheme, suggestion) action" where
  "findSuggestion i org ws =
     await (reads (\<lambda>s. find (\<lambda>g. sg_id g = i \<and> sg_organizationId g = org \<and> sg_workspaceId g = ws) (suggestions s)))
       (\<lambda>g. some_or_throw g (NotFound ''Suggestion not found''))"

definition suggestion_of_task :: "uuid \<Rightarrow> uuid \<Rightarrow> uuid \<Rightarrow> 'z jobs_state_scheme \<Rightarrow> suggestion option" where
  "suggestion_of_task taskId org ws s =
     find (\<lambda>g. sg_taskId g = taskId \<and> sg_organizationId g = org \<and> sg_workspaceId g = ws) (suggestions s)"

definition findSuggestionsByCanvas ::
    "uuid \<Rightarrow> uuid \<Rightarrow> uuid \<Rightarrow> ('z jobs_state_scheme, suggestion list) action" where
  "findSuggestionsByCanvas canvasId org ws = reads (\<lambda>s. take 50 (sort_desc sg_createdAt
     (filter (\<lambda>g. sg_canvasId g = canvasId \<and> sg_organizationId g = org \<and> sg_workspaceId g = ws) (suggestions s))))"

definition save_suggestion :: "suggestion \<Rightarrow> ('z jobs_state_scheme, unit) action" where
  "save_suggestion g = await current_time (\<lambda>t.
     writes (suggestions_update (save_row sg_id (g\<lparr>sg_updatedAt := t\<rparr>))))"

definition renewed_suggestion :: "create_suggestion_input \<Rightarrow> suggestion \<Rightarrow> suggestion" where
  "renewed_suggestion i g = g\<lparr>sg_status := READY, sg_componentSpec := gi_componentSpec i, sg_assetId := gi_assetId i,
     sg_assetVersionId := gi_assetVersionId i, sg_enhancedPrompt := gi_enhancedPrompt i,
     sg_evidenceIds := gi_evidenceIds i, sg_resultType := gi_resultType i,
     sg_snapshotId := (if gi_snapshotId i = None then sg_snapshotId g else gi_snapshotId i),
     sg_snapshotVersion := (if gi_snapshotVersion i = None then sg_snapshotVersion g else gi_snapshotVersion i),
     sg_canvasRevision := (if gi_canvasRevision i = None then sg_canvasRevision g else gi_canvasRevision i)\<rparr>"

definition new_suggestion :: "create_suggestion_input \<Rightarrow> uuid \<Rightarrow> time \<Rightarrow> suggestion" where
  "new_suggestion i u t = \<lparr> sg_id = u, sg_taskId = gi_taskId i, sg_organizationId = gi_organizationId i,
     sg_workspaceId = gi_workspaceId i, sg_canvasId = gi_canvasId i, sg_snapshotId = gi_snapshotId i,
     sg_snapshotVersion = gi_snapshotVersion i, sg_canvasRevision = gi_canvasRevision i,
     sg_resultType = gi_resultType i, sg_componentSpec = gi_componentSpec i, sg_assetId = gi_assetId i,
     sg_assetVersionId = gi_assetVersionId i, sg_status = READY, sg_enhancedPrompt = gi_enhancedPrompt i,
     sg_evidenceIds = gi_evidenceIds i, sg_stale = False, sg_acceptedAt = None, sg_rejectedAt = None,
     sg_createdAt = t, sg_updatedAt = t \<rparr>"

definition createOrUpdate :: "create_suggestion_input \<Rightarrow> ('z jobs_state_scheme, unit) action" where
  "createOrUpdate i =
     await (reads (suggestion_of_task (gi_taskId i) (gi_organizationId i) (gi_workspaceId i))) (\<lambda>existing.
     case existing of
       Some g \<Rightarrow> save_suggestion (renewed_suggestion i g)
     | None \<Rightarrow>
       await (row_id sg_id suggestions ''canvas_ai_suggestion_pkey'') (\<lambda>u.
       await current_time (\<lambda>t.
       await (writes (suggestions_update (\<lambda>l. l @ [new_suggestion i u t]))) (\<lambda>_.
       emitCanvasEvent (gi_canvasId i) ''canvas.ai.preview.ready'' (JObj (
         canvas_scope (gi_organizationId i) (gi_workspaceId i) (gi_canvasId i) (gi_taskId i) @
         [(''suggestion_id'', JStr u)] @
         lineage (gi_snapshotId i) (gi_snapshotVersion i) (gi_canvasRevision i) @
         [(''result_type'', JStr (gi_resultType i))]))))))"

definition suggestion_json :: "suggestion \<Rightarrow> uuid \<Rightarrow> uuid \<Rightarrow> string \<Rightarrow> time \<Rightarrow> json" where
  "suggestion_json g org ws k t = JObj (canvas_scope org ws (sg_canvasId g) (sg_taskId g) @
     [(''suggestion_id'', JStr (sg_id g))] @
     lineage (sg_snapshotId g) (sg_snapshotVersion g) (sg_canvasRevision g) @ [(k, json_date t)])"

definition accept_suggestion :: "uuid \<Rightarrow> uuid \<Rightarrow> uuid \<Rightarrow> ('z jobs_state_scheme, suggestion) action" where
  "accept_suggestion i org ws =
     await (findSuggestion i org ws) (\<lambda>g.
     await (require (\<not> sg_stale g) (Conflict (JStr ''Cannot accept a stale suggestion''))) (\<lambda>_.
     await (require (sg_status g \<noteq> ACCEPTED) (Conflict (JStr ''Suggestion is already accepted''))) (\<lambda>_.
     await (require (sg_status g = READY)
              (BadRequest (JStr (''Cannot accept suggestion in status '' @ suggestion_status_str (sg_status g))))) (\<lambda>_.
     await current_time (\<lambda>t.
     let g' = g\<lparr>sg_status := ACCEPTED, sg_acceptedAt := Some t\<rparr> in
     await (save_suggestion g') (\<lambda>_.
     await (emitCanvasEvent (sg_canvasId g) ''canvas.ai.preview.accepted''
              (suggestion_json g' org ws ''accepted_at'' t)) (\<lambda>_.
     ok g')))))))"

definition reject_suggestion :: "uuid \<Rightarrow> uuid \<Rightarrow> uuid \<Rightarrow> ('z jobs_state_scheme, suggestion) action" where
  "reject_suggestion i org ws =
     await (findSuggestion i org ws) (\<lambda>g.
     await (require (\<not> sg_stale g) (Conflict (JStr ''Cannot reject a stale suggestion''))) (\<lambda>_.
     await (require (sg_status g \<noteq> REJECTED) (Conflict (JStr ''Suggestion is already rejected''))) (\<lambda>_.
     await (require (sg_status g = READY)
              (BadRequest (JStr (''Cannot reject suggestion in status '' @ suggestion_status_str (sg_status g))))) (\<lambda>_.
     await current_time (\<lambda>t.
     let g' = g\<lparr>sg_status := REJECTED, sg_rejectedAt := Some t\<rparr> in
     await (save_suggestion g') (\<lambda>_.
     await (emitCanvasEvent (sg_canvasId g) ''canvas.ai.preview.rejected''
              (suggestion_json g' org ws ''rejected_at'' t)) (\<lambda>_.
     ok g')))))))"

definition becomes_stale :: "uuid \<Rightarrow> uuid \<Rightarrow> uuid \<Rightarrow> suggestion \<Rightarrow> bool" where
  "becomes_stale canvasId org ws g \<longleftrightarrow> sg_canvasId g = canvasId \<and> sg_organizationId g = org \<and>
     sg_workspaceId g = ws \<and> \<not> sg_stale g \<and> sg_status g \<in> {AiSuggestionStatus.QUEUED, PROCESSING, READY}"

text \<open>The update keeps \<open>updatedAt\<close> in step.\<close>

definition markStale :: "uuid \<Rightarrow> uuid \<Rightarrow> int \<Rightarrow> uuid \<Rightarrow> uuid \<Rightarrow> ('z jobs_state_scheme, int) action" where
  "markStale canvasId snapshotId version org ws =
     await (reads (\<lambda>s. length (filter (becomes_stale canvasId org ws) (suggestions s)))) (\<lambda>affected.
     await current_time (\<lambda>t.
     await (writes (suggestions_update (update_where (becomes_stale canvasId org ws)
              (\<lambda>g. g\<lparr>sg_stale := True, sg_status := AiSuggestionStatus.STALE, sg_updatedAt := t\<rparr>)))) (\<lambda>_.
     await (if 0 < affected then emitCanvasEvent canvasId ''canvas.ai.preview.stale'' (JObj (
              canvas_scope org ws canvasId [] @ [(''snapshot_id'', JStr snapshotId), (''canvas_revision'', json_int version)]))
            else ok ()) (\<lambda>_.
     ok (int affected)))))"

section \<open>AiTaskEventsService\<close>

datatype TaskEventKind = TaskStarted | TaskProgress | TaskCompleted | TaskFailed | TaskCancelled

fun task_kind_str :: "TaskEventKind \<Rightarrow> string" where
  "task_kind_str TaskStarted = ''started''"
| "task_kind_str TaskProgress = ''progress''"
| "task_kind_str TaskCompleted = ''completed''"
| "task_kind_str TaskFailed = ''failed''"
| "task_kind_str TaskCancelled = ''cancelled''"

definition str_field :: "json \<Rightarrow> string \<Rightarrow> string option" where
  "str_field p k = (case get_prop p k of Some (JStr x) \<Rightarrow> Some x | _ \<Rightarrow> None)"

definition num_field :: "json \<Rightarrow> string \<Rightarrow> rat option" where
  "num_field p k = (case get_prop p k of Some (JNum x) \<Rightarrow> Some x | _ \<Rightarrow> None)"

definition obj_field :: "json \<Rightarrow> string \<Rightarrow> json option" where
  "obj_field p k = (case get_prop p k of Some (JObj fs) \<Rightarrow> Some (JObj fs) | _ \<Rightarrow> None)"

definition strs_field :: "json \<Rightarrow> string \<Rightarrow> string list option" where
  "strs_field p k = (case get_prop p k of Some (JArr vs) \<Rightarrow> Some (map (\<lambda>v. str_of (Some v)) vs) | _ \<Rightarrow> None)"

text \<open>
  \<open>InternalServiceTokenService.validate\<close>. The package refuses a token from the second on in which it expires;
  \<open>markOnce\<close> sets a key unless it is there, and keeps it for the given number of seconds.
\<close>

definition markOnce :: "string \<Rightarrow> int \<Rightarrow> ('z jobs_state_scheme, bool) action" where
  "markOnce k ttl =
     await current_time (\<lambda>t.
     await (reads (\<lambda>s. list_ex (\<lambda>(j, until). j = k \<and> t < until) (used_tokens s))) (\<lambda>live.
     if live then ok False
     else await (writes (used_tokens_update (\<lambda>l. (k, t + ttl * 1000) # l))) (\<lambda>_. ok True)))"

definition validate_token :: "string \<Rightarrow> string \<Rightarrow> ('z jobs_state_scheme, internal_claims) action" where
  "validate_token token audience =
     await (verify_token token audience) (\<lambda>c.
     await current_time (\<lambda>t.
     await (require (t div 1000 < ic_exp c) (Unauthorized ''Invalid internal service token'')) (\<lambda>_.
     await (markOnce (''internal-auth:'' @ or_else (ic_jti c) ''undefined'') (max 1 (ic_exp c - t div 1000))) (\<lambda>first.
     await (require first (Unauthorized ''Internal token replay detected'')) (\<lambda>_. ok c)))))"

definition on_canvas :: "ai_task \<Rightarrow> string \<Rightarrow> (string \<times> json) list \<Rightarrow> ('z core_scheme, unit) action" where
  "on_canvas t event fs = (case at_canvasId t of None \<Rightarrow> ok ()
     | Some c \<Rightarrow> emitCanvasEvent c event (JObj (canvas_scope (at_organizationId t) (at_workspaceId t) c (at_id t) @ fs)))"

definition task_lineage :: "ai_task \<Rightarrow> (string \<times> json) list" where
  "task_lineage t = lineage (at_snapshotId t) (at_snapshotVersion t) (at_canvasRevision t)"

definition snapshot_field :: "ai_task \<Rightarrow> (string \<times> json) list" where
  "snapshot_field t = (case at_snapshotId t of None \<Rightarrow> [] | Some i \<Rightarrow> [(''snapshot_id'', JStr i)])"

text \<open>What the handler has left to tell: the task, the event and its payload; \<open>None\<close> for an early return.\<close>

type_synonym told = "(ai_task \<times> string \<times> json) option"

definition on_started :: "ai_task \<Rightarrow> json \<Rightarrow> ('z jobs_state_scheme, told) action" where
  "on_started t p =
     (if at_status t \<noteq> JobStatus.QUEUED then ok None else
      await current_time (\<lambda>u.
      let t' = t\<lparr>at_status := RUNNING, at_startedAt := Some u, at_currentStep := str_field p ''currentStep''\<rparr> in
      await (save_task t') (\<lambda>_.
      await (on_canvas t' ''canvas.ai.preview.started'' (task_lineage t' @
               [(''current_step'', JStr (or_else (str_field p ''currentStep'') ''started''))])) (\<lambda>_.
      ok (Some (t', ''ai.task.started'', p))))))"

definition progressed :: "json \<Rightarrow> ai_task \<Rightarrow> rat" where
  "progressed p t = max (of_int (at_progress t)) (min 99 (or_else (num_field p ''progress'') (of_int (at_progress t))))"

definition on_progress :: "ai_task \<Rightarrow> json \<Rightarrow> ('z jobs_state_scheme, told) action" where
  "on_progress t p =
     (if at_status t \<notin> {RUNNING, WAITING_FOR_USER} then ok None else
      await (require (progressed p t = of_int \<lfloor>progressed p t\<rfloor>)
               (QueryFailed ''invalid input syntax for type integer'')) (\<lambda>_.
      let t' = t\<lparr>at_progress := \<lfloor>progressed p t\<rfloor>,
            at_currentStep := (case str_field p ''currentStep'' of None \<Rightarrow> at_currentStep t | Some x \<Rightarrow> Some x)\<rparr> in
      await (save_task t') (\<lambda>_.
      await (on_canvas t' ''canvas.ai.preview.progress'' (task_lineage t' @
               [(''progress'', json_int (at_progress t')), (''current_step'', JStr (or_else (at_currentStep t') []))])) (\<lambda>_.
      ok (Some (t', ''ai.task.progress'', p))))))"

definition on_cancelled :: "ai_task \<Rightarrow> json \<Rightarrow> ('z jobs_state_scheme, told) action" where
  "on_cancelled t p =
     (if at_status t \<in> {COMPLETED, JobStatus.FAILED, JobStatus.CANCELLED, JobStatus.STALE} then ok None else
      await current_time (\<lambda>u.
      let t' = t\<lparr>at_status := JobStatus.CANCELLED, at_cancelledAt := Some u\<rparr> in
      await (transaction (await (save_task t') (\<lambda>_.
               await (releaseUsage (at_usageReservationId t')) (\<lambda>_. ok ())))) (\<lambda>_.
      await (on_canvas t' ''canvas.ai.preview.cancelled'' (snapshot_field t')) (\<lambda>_.
      ok (Some (t', ''ai.task.cancelled'', p))))))"

datatype FinishOutcome = Finished | IgnoredResult | StaleResult

definition finished_task :: "bool \<Rightarrow> json \<Rightarrow> time \<Rightarrow> ai_task \<Rightarrow> ai_task" where
  "finished_task success p u t = t\<lparr>at_status := (if success then COMPLETED else JobStatus.FAILED),
     at_progress := (if success then 100 else at_progress t),
     at_resultPayload := (if success then Some (or_else (obj_field p ''result'') (JObj [])) else None),
     at_errorCode := (if success then None else Some (take 100 (or_else (str_field p ''errorCode'') ''WORKER_FAILED''))),
     at_errorMessage := (if success then None
       else Some (take 1000 (or_else (str_field p ''errorMessage'') ''Worker task failed''))),
     at_completedAt := Some u\<rparr>"

definition stale_task :: "time \<Rightarrow> ai_task \<Rightarrow> ai_task" where
  "stale_task u t = t\<lparr>at_status := JobStatus.STALE, at_resultPayload := None, at_errorCode := Some ''STALE_RESULT'',
     at_errorMessage := Some ''A late worker result was ignored after supersession'', at_completedAt := Some u\<rparr>"

definition finish_task ::
    "ai_task \<Rightarrow> json \<Rightarrow> string \<Rightarrow> bool \<Rightarrow> ('z jobs_state_scheme, ai_task \<times> FinishOutcome) action" where
  "finish_task t p correlation success =
     (if at_status t = JobStatus.SUPERSEDED then
        await current_time (\<lambda>u. let t' = stale_task u t in
        await (save_task t') (\<lambda>_.
        await (createAuditLog (at_organizationId t) (Some (at_workspaceId t)) (at_userId t) ''ai_task.stale'' ''ai_task''
                 (at_id t) (task_status_json t') correlation) (\<lambda>_.
        await (on_canvas t' ''canvas.ai.preview.stale'' [(''snapshot_id'', JStr (or_else (at_snapshotId t) [])),
                 (''canvas_revision'', json_int (or_else (at_canvasRevision t) 0))]) (\<lambda>_.
        ok (t', StaleResult)))))
      else if at_status t \<in> {COMPLETED, JobStatus.FAILED, JobStatus.CANCELLED, JobStatus.STALE} then ok (t, IgnoredResult)
      else
        await current_time (\<lambda>u. let t' = finished_task success p u t in
        await (transaction (await (save_task t') (\<lambda>_.
                 await (if success then commitUsage (at_usageReservationId t') (or_else (num_field p ''actualUsage'') 1)
                        else releaseUsage (at_usageReservationId t')) (\<lambda>_. ok ())))) (\<lambda>_.
        await (createNotification (at_organizationId t) (Some (at_workspaceId t)) (at_userId t)
                 (if success then AI_TASK_COMPLETED else AI_TASK_FAILED)
                 (if success then ''AI task completed'' else ''AI task failed'')
                 (if success then ''Your AI task is ready.'' else ''Your AI task could not be completed.'')
                 (JObj [(''taskId'', JStr (at_id t))])) (\<lambda>_.
        await (createAuditLog (at_organizationId t) (Some (at_workspaceId t)) (at_userId t)
                 (if success then ''ai_task.completed'' else ''ai_task.failed'') ''ai_task'' (at_id t)
                 (task_status_json t') correlation) (\<lambda>_.
        ok (t', Finished))))))"

definition suggestion_from :: "ai_task \<Rightarrow> json \<Rightarrow> create_suggestion_input" where
  "suggestion_from t result = (let spec = obj_field result ''componentSpec''; asset = str_field result ''assetId'' in
     \<lparr> gi_taskId = at_id t, gi_organizationId = at_organizationId t, gi_workspaceId = at_workspaceId t,
       gi_canvasId = or_else (at_canvasId t) [], gi_snapshotId = at_snapshotId t,
       gi_snapshotVersion = at_snapshotVersion t, gi_canvasRevision = at_canvasRevision t,
       gi_resultType = (if spec \<noteq> None then ''component'' else if asset \<noteq> None \<and> asset \<noteq> Some [] then ''image'' else ''unknown''),
       gi_componentSpec = spec, gi_assetId = asset, gi_assetVersionId = str_field result ''assetVersionId'',
       gi_enhancedPrompt = str_field result ''enhancedPrompt'', gi_evidenceIds = strs_field result ''evidenceIds'' \<rparr>)"

definition createSuggestionFromResult :: "ai_task \<Rightarrow> json \<Rightarrow> ('z jobs_state_scheme, unit) action" where
  "createSuggestionFromResult t p = createOrUpdate (suggestion_from t (or_else (obj_field p ''result'') (JObj [])))"

definition stale_json :: "ai_task \<Rightarrow> json" where
  "stale_json t = JObj [(''taskId'', JStr (at_id t)), (''snapshotId'', json_str_opt (at_snapshotId t)),
     (''canvasRevision'', json_opt (\<lambda>n. json_int n) (at_canvasRevision t)), (''currentStep'', JStr ''stale_result_ignored'')]"

definition on_finish :: "bool \<Rightarrow> ai_task \<Rightarrow> json \<Rightarrow> string \<Rightarrow> ('z jobs_state_scheme, told) action" where
  "on_finish success t p correlation =
     await (finish_task t p correlation success) (\<lambda>(t', outcome). case outcome of
       IgnoredResult \<Rightarrow> ok None
     | StaleResult \<Rightarrow> ok (Some (t', ''ai.task.stale'', stale_json t'))
     | Finished \<Rightarrow>
         await (if success \<and> at_canvasId t' \<noteq> None then createSuggestionFromResult t' p
                else if \<not> success then on_canvas t' ''canvas.ai.preview.failed'' (snapshot_field t' @
                  [(''error_code'', JStr (or_else (str_field p ''errorCode'') ''WORKER_FAILED'')),
                   (''error_message'', JStr (or_else (str_field p ''errorMessage'') ''Worker task failed''))])
                else ok ()) (\<lambda>_.
         ok (Some (t', ''ai.task.'' @ (if success then ''completed'' else ''failed''), p))))"

definition broadcast_task :: "ai_task \<Rightarrow> string \<Rightarrow> json \<Rightarrow> ('z core_scheme, unit) action" where
  "broadcast_task t event payload = (let
       data = JObj (spread [(''taskId'', JStr (at_id t)), (''correlationId'', JStr (at_correlationId t))]
         (filter (\<lambda>f. fst f \<noteq> ''internalToken'') (obj_fields payload)))
     in await (emit_to_room (''ai-task:'' @ at_id t) event data) (\<lambda>_.
        await (emit_to_room (''workspace:'' @ at_workspaceId t) event data) (\<lambda>_.
        emit_to_room (room_user (at_userId t)) event data)))"

text \<open>\<open>findOne\<close> ignores a condition that is undefined.\<close>

definition where_is :: "json option \<Rightarrow> string \<Rightarrow> bool" where
  "where_is v x \<longleftrightarrow> v = None \<or> v = Some JNull \<or> v = Some (JStr x)"

definition task_claims_ok :: "TaskEventKind \<Rightarrow> json \<Rightarrow> internal_claims \<Rightarrow> bool" where
  "task_claims_ok kind event c \<longleftrightarrow>
     get_prop event ''organizationId'' = Some (JStr (ic_organizationId c)) \<and>
     get_prop event ''workspaceId'' = map_option JStr (ic_workspaceId c) \<and>
     get_prop (the (get_prop event ''payload'')) ''taskId'' = map_option JStr (ic_taskId c) \<and>
     ''ai.task.'' @ task_kind_str kind \<in> set (ic_allowedActions c)"

definition task_of_event :: "json \<Rightarrow> 'z jobs_state_scheme \<Rightarrow> ai_task option" where
  "task_of_event event s = find (\<lambda>t. where_is (get_prop (the (get_prop event ''payload'')) ''taskId'') (at_id t) \<and>
     where_is (get_prop event ''organizationId'') (at_organizationId t) \<and>
     where_is (get_prop event ''workspaceId'') (at_workspaceId t)) (ai_tasks s)"

definition take_event :: "TaskEventKind \<Rightarrow> ai_task \<Rightarrow> json \<Rightarrow> string \<Rightarrow> ('z jobs_state_scheme, told) action" where
  "take_event kind t p correlation = (case kind of
     TaskStarted \<Rightarrow> on_started t p
   | TaskProgress \<Rightarrow> on_progress t p
   | TaskCancelled \<Rightarrow> on_cancelled t p
   | TaskCompleted \<Rightarrow> on_finish True t p correlation
   | TaskFailed \<Rightarrow> on_finish False t p correlation)"

definition handle_task_event :: "TaskEventKind \<Rightarrow> json \<Rightarrow> ('z jobs_state_scheme, unit) action" where
  "handle_task_event kind event =
     await (reads env) (\<lambda>e.
     await (lift (assertDomainEvent (parse_date e) event)) (\<lambda>_.
     await (require (get_prop event ''eventType'' = Some (JStr (''workspace.ai.task.'' @ task_kind_str kind)))
              (PlainError ''Worker event type mismatch'')) (\<lambda>_.
     let p = the (get_prop event ''payload'') in
     await (validate_token (str_of (get_prop p ''internalToken'')) ''nestjs-platform'') (\<lambda>claims.
     await (require (task_claims_ok kind event claims) (PlainError ''Worker event authorization mismatch'')) (\<lambda>_.
     await (reads (task_of_event event)) (\<lambda>found.
     await (some_or_throw found (PlainError ''AI task scope mismatch'')) (\<lambda>t.
     await (take_event kind t p (str_of (get_prop event ''correlationId''))) (\<lambda>told.
     case told of None \<Rightarrow> ok () | Some (t', name, payload) \<Rightarrow> broadcast_task t' name payload))))))))"

end
