(* ===== verification/CanvasSnapshots.thy ===== *)
theory CanvasSnapshots
  imports CanvasRealtime Messaging Patterns
begin

text \<open>
  The frozen form of a canvas that is handed to the AI:
  \<open>src/modules/canvas/services/canvas-snapshot-serializer.service.ts\<close>. \<open>uuid_ok\<close> and \<open>sha\<close> are the
  validation of the package \<open>uuid\<close> and SHA-256. Numbers print as decimals of at most twenty places.
\<close>

section \<open>JSON as text\<close>

fun frac_text :: "nat \<Rightarrow> rat \<Rightarrow> string" where
  "frac_text 0 x = []"
| "frac_text (Suc n) x = (if x = of_int \<lfloor>x\<rfloor> then []
     else digit_char (nat (\<lfloor>10 * x\<rfloor> mod 10)) # frac_text n (10 * x))"

definition num_text :: "rat \<Rightarrow> string" where
  "num_text x = (let a = \<bar>x\<bar>; f = frac_text 20 a in
     (if x < 0 then ''-'' else []) @ nat_str (nat \<lfloor>a\<rfloor>) @ (if f = [] then [] else ''.'' @ f))"

definition hex_char :: "nat \<Rightarrow> char" where
  "hex_char d = (if d < 10 then char_of (48 + d) else char_of (87 + d))"

definition char_text :: "char \<Rightarrow> string" where
  "char_text c = (let n = of_char c :: nat; esc = (\<lambda>x. [char_of (92 :: nat), x]) in
     if n = 34 \<or> n = 92 then esc c
     else if n = 8 then esc CHR ''b'' else if n = 9 then esc CHR ''t'' else if n = 10 then esc CHR ''n''
     else if n = 12 then esc CHR ''f'' else if n = 13 then esc CHR ''r''
     else if n < 32 then esc CHR ''u'' @ ''00'' @ [hex_char (n div 16), hex_char (n mod 16)]
     else [c])"

definition str_text :: "string \<Rightarrow> string" where
  "str_text s = [char_of (34 :: nat)] @ concat (map char_text s) @ [char_of (34 :: nat)]"

fun separated :: "string list \<Rightarrow> string" where
  "separated [] = []"
| "separated [x] = x"
| "separated (x # xs) = x @ '','' @ separated xs"

text \<open>\<open>JSON.stringify\<close>, and the bytes of its UTF-8 encoding.\<close>

fun json_text :: "json \<Rightarrow> string" where
  "json_text JNull = ''null''"
| "json_text (JBool b) = (if b then ''true'' else ''false'')"
| "json_text (JNum x) = num_text x"
| "json_text (JStr s) = str_text s"
| "json_text (JArr vs) = ''['' @ separated (map json_text vs) @ '']''"
| "json_text (JObj fs) = ''{'' @ separated (map (\<lambda>(k, v). str_text k @ '':'' @ json_text v) fs) @ ''}''"

definition utf8 :: "string \<Rightarrow> string" where
  "utf8 s = concat (map (\<lambda>c. let n = of_char c :: nat in
     if n < 128 then [c] else [char_of (192 + n div 64), char_of (128 + n mod 64)]) s)"

fun canonicalize :: "json \<Rightarrow> json" where
  "canonicalize (JArr vs) = JArr (map canonicalize vs)"
| "canonicalize (JObj fs) = JObj (sort_key fst (map (\<lambda>(k, v). (k, canonicalize v)) fs))"
| "canonicalize v = v"

section \<open>Reading values\<close>

definition MAX_ELEMENT_COUNT :: nat where "MAX_ELEMENT_COUNT = 1000"
definition MAX_DIMENSION :: rat where "MAX_DIMENSION = 65536"
definition MAX_COORDINATE_MAGNITUDE :: rat where "MAX_COORDINATE_MAGNITUDE = 1000000"
definition MAX_VISIBLE_TEXT_CHARACTERS :: nat where "MAX_VISIBLE_TEXT_CHARACTERS = 10000"

definition CANVAS_SNAPSHOT_ELEMENT_TYPES :: "string list" where
  "CANVAS_SNAPSHOT_ELEMENT_TYPES = [''text'', ''rectangle'', ''ellipse'', ''image'', ''line'', ''frame'', ''group'',
     ''activity'', ''gateway'', ''event'', ''connector'', ''annotation'']"

definition bind :: "exn + 'a \<Rightarrow> ('a \<Rightarrow> exn + 'b) \<Rightarrow> exn + 'b" where
  "bind r f = (case r of Inl e \<Rightarrow> Inl e | Inr x \<Rightarrow> f x)"

definition check :: "bool \<Rightarrow> string \<Rightarrow> exn + unit" where
  "check b message = (if b then Inr () else Inl (BadRequest (JStr message)))"

lemma bind_Inr: "bind r f = Inr y \<longleftrightarrow> (\<exists>x. r = Inr x \<and> f x = Inr y)"
  by (simp add: bind_def split: sum.split)

lemma check_Inr: "check b m = Inr u \<longleftrightarrow> b"
  by (simp add: check_def)

text \<open>\<open>a ?? b\<close>, and what a nullable value is.\<close>

definition nullish :: "json option \<Rightarrow> json option \<Rightarrow> json option" where
  "nullish a b = (if a = None \<or> a = Some JNull then b else a)"

definition absent :: "json option \<Rightarrow> bool" where
  "absent v \<longleftrightarrow> v = None \<or> v = Some JNull"

definition digits_value :: "string \<Rightarrow> int" where
  "digits_value s = foldl (\<lambda>a c. 10 * a + (of_char c - 48)) 0 s"

definition numeral_string :: "string \<Rightarrow> bool" where
  "numeral_string s \<longleftrightarrow> s \<noteq> [] \<and> list_all is_digit s"

definition toSafeInteger :: "json option \<Rightarrow> string \<Rightarrow> exn + int" where
  "toSafeInteger v field = (let n = (case v of Some (JStr s) \<Rightarrow> if numeral_string s then Some (json_int (digits_value s)) else v
       | _ \<Rightarrow> v)
     in bind (check (is_safe_integer n) (field @ '' must be a safe integer'')) (\<lambda>_. Inr (int_of n)))"

definition validateCoordinate :: "rat \<Rightarrow> string \<Rightarrow> exn + unit" where
  "validateCoordinate x field = check (\<bar>x\<bar> \<le> MAX_COORDINATE_MAGNITUDE) (field @ '' is outside the supported range'')"

definition validateDimension :: "rat \<Rightarrow> string \<Rightarrow> bool \<Rightarrow> exn + unit" where
  "validateDimension x field allowZero = (let minimum = (if allowZero then 0 else 1) :: int in
     check (of_int minimum \<le> x \<and> x \<le> MAX_DIMENSION) (field @ '' must be between '' @ int_str minimum @ '' and 65536''))"

definition validateNonnegative :: "int \<Rightarrow> string \<Rightarrow> exn + unit" where
  "validateNonnegative n field = check (0 \<le> n) (field @ '' must not be negative'')"

definition readFiniteNumber :: "json option \<Rightarrow> string \<Rightarrow> exn + rat" where
  "readFiniteNumber v field = (case v of Some (JNum x) \<Rightarrow> Inr x
     | _ \<Rightarrow> Inl (BadRequest (JStr (field @ '' must be a finite number''))))"

definition readOptionalNumber :: "json option \<Rightarrow> rat \<Rightarrow> string \<Rightarrow> exn + rat" where
  "readOptionalNumber v fallback field = (if absent v then Inr fallback else readFiniteNumber v field)"

definition readBoolean :: "json option \<Rightarrow> bool \<Rightarrow> string \<Rightarrow> exn + bool" where
  "readBoolean v fallback field = (if absent v then Inr fallback else case v of Some (JBool b) \<Rightarrow> Inr b
     | _ \<Rightarrow> Inl (BadRequest (JStr (field @ '' must be a boolean''))))"

text \<open>\<open>/^#[0-9A-Fa-f]{6}(?:[0-9A-Fa-f]{2})?$/\<close>.\<close>

definition hex_digit :: "char \<Rightarrow> bool" where
  "hex_digit c \<longleftrightarrow> is_digit c \<or> between 65 70 c \<or> between 97 102 c"

definition color :: "string \<Rightarrow> bool" where
  "color s = (case s of c # cs \<Rightarrow> c = CHR ''#'' \<and> length cs \<in> {6, 8} \<and> list_all hex_digit cs | [] \<Rightarrow> False)"

definition readColor :: "json option \<Rightarrow> string \<Rightarrow> bool \<Rightarrow> exn + string option" where
  "readColor v field nullable =
     (if absent v then (if nullable then Inr None else Inl (BadRequest (JStr (field @ '' must be a color''))))
      else bind (check (is_string v \<and> color (str_of v)) (field @ '' must be a hexadecimal color''))
        (\<lambda>_. Inr (Some (str_of v))))"

definition asset_prefix :: string where "asset_prefix = ''asset://''"

definition asset_ref :: "(string \<Rightarrow> bool) \<Rightarrow> string \<Rightarrow> bool" where
  "asset_ref uuid_ok s \<longleftrightarrow> starts_with asset_prefix s \<and> uuid_ok (drop (length asset_prefix) s)"

definition readAssetReference :: "(string \<Rightarrow> bool) \<Rightarrow> json option \<Rightarrow> exn + string option" where
  "readAssetReference uuid_ok v = (if absent v then Inr None
     else bind (check (is_string v \<and> asset_ref uuid_ok (str_of v)) ''asset_ref must be null or an asset:// UUID reference'')
       (\<lambda>_. Inr (Some (str_of v))))"

definition readVisibleText :: "string option \<Rightarrow> json option \<Rightarrow> exn + string option" where
  "readVisibleText label propertyText = (let v = nullish (map_option JStr label) propertyText in
     if absent v then Inr None
     else bind (check (is_string v) ''Visible text must be a string'') (\<lambda>_.
       bind (check (length (str_of v) \<le> MAX_VISIBLE_TEXT_CHARACTERS) ''Visible text exceeds the snapshot limit'') (\<lambda>_.
       Inr (Some (str_of v)))))"

section \<open>Secrets\<close>

definition UNSAFE_PATTERNS :: "atom list list" where
  "UNSAFE_PATTERNS =
    [ilit ''<script'' @ [Boundary], ilit ''javascript'' @ spaces @ lit '':'',
     ilit ''data'' @ spaces @ lit '':'' @ spaces @ ilit ''text/html''] @
    map (\<lambda>kind. lit (''-----BEGIN '' @ kind @ ''PRIVATE KEY-----'')) [[], ''RSA '', ''EC '', ''OPENSSH ''] @
    map (\<lambda>prefix. [Boundary] @ lit prefix @ replicate 20 (Cls (\<lambda>c. is_word c \<or> c = CHR ''-'')) @
      [Many (\<lambda>c. is_word c \<or> c = CHR ''-''), Boundary]) [''sk_'', ''pk_''] @
    [[Boundary] @ lit ''AKIA'' @ replicate 16 (Cls (\<lambda>c. is_digit c \<or> is_upper c)) @ [Boundary]]"

definition unsafe_text :: "string \<Rightarrow> bool" where
  "unsafe_text s = some_test UNSAFE_PATTERNS s"

definition SECRET_KEYS :: "string list" where
  "SECRET_KEYS = [''password'', ''passwd'', ''secret'', ''token'', ''apikey'', ''api_key'', ''api-key'',
     ''privatekey'', ''private_key'', ''private-key'']"

definition secret_key :: "string \<Rightarrow> bool" where
  "secret_key k \<longleftrightarrow> js_lower k \<in> set SECRET_KEYS"

fun assertNoExecutableOrSecret :: "json \<Rightarrow> string \<Rightarrow> exn + unit"
  and assert_items :: "json list \<Rightarrow> nat \<Rightarrow> string \<Rightarrow> exn + unit"
  and assert_fields :: "(string \<times> json) list \<Rightarrow> string \<Rightarrow> exn + unit" where
  "assertNoExecutableOrSecret (JStr s) path =
     check (\<not> unsafe_text s) (path @ '' contains executable content or a credential'')"
| "assertNoExecutableOrSecret (JArr vs) path = assert_items vs 0 path"
| "assertNoExecutableOrSecret (JObj fs) path = assert_fields fs path"
| "assertNoExecutableOrSecret _ path = Inr ()"
| "assert_items [] n path = Inr ()"
| "assert_items (v # vs) n path =
     bind (assertNoExecutableOrSecret v (path @ ''['' @ nat_str n @ '']'')) (\<lambda>_. assert_items vs (Suc n) path)"
| "assert_fields [] path = Inr ()"
| "assert_fields ((k, v) # fs) path =
     bind (check (\<not> secret_key k) (path @ ''.'' @ k @ '' is not allowed in a snapshot'')) (\<lambda>_.
     bind (assertNoExecutableOrSecret v (path @ ''.'' @ k)) (\<lambda>_. assert_fields fs path))"

section \<open>Elements\<close>

record snapshot_element =
  el_id :: uuid
  el_type :: string
  el_x :: rat
  el_y :: rat
  el_width :: rat
  el_height :: rat
  el_rotation :: rat
  el_z_index :: int
  el_visible :: bool
  el_locked :: bool
  el_text :: "string option"
  el_fill :: "string option"
  el_stroke :: "string option"
  el_asset_ref :: "string option"

definition or_value :: "'a option \<Rightarrow> 'a \<Rightarrow> 'a" where
  "or_value x d = (case x of None \<Rightarrow> d | Some y \<Rightarrow> y)"

definition serializeElement :: "(string \<Rightarrow> bool) \<Rightarrow> canvas_object \<Rightarrow> exn + snapshot_element" where
  "serializeElement uuid_ok obj =
     bind (check (co_type obj \<in> set CANVAS_SNAPSHOT_ELEMENT_TYPES) (''Unknown canvas element type: '' @ co_type obj)) (\<lambda>_.
     bind (assertNoExecutableOrSecret (co_properties obj) ''properties'') (\<lambda>_.
     bind (assertNoExecutableOrSecret (or_value (co_style obj) JNull) ''style'') (\<lambda>_.
     bind (assertNoExecutableOrSecret (json_str_opt (co_label obj)) ''label'') (\<lambda>_.
     let pr = get_prop (co_properties obj); st = get_prop (or_value (co_style obj) JNull);
         width = or_value (co_width obj) 0; height = or_value (co_height obj) 0 in
     bind (validateCoordinate (co_positionX obj) ''position_x'') (\<lambda>_.
     bind (validateCoordinate (co_positionY obj) ''position_y'') (\<lambda>_.
     bind (validateDimension width ''width'' True) (\<lambda>_.
     bind (validateDimension height ''height'' True) (\<lambda>_.
     bind (readOptionalNumber (nullish (st ''rotation'') (pr ''rotation'')) 0 ''rotation'') (\<lambda>rotation.
     bind (check (\<bar>rotation\<bar> \<le> 360000) ''rotation is outside the supported range'') (\<lambda>_.
     bind (toSafeInteger (nullish (nullish (nullish (st ''z_index'') (st ''zIndex'')) (pr ''z_index'')) (Some (JNum 0)))
             ''z_index'') (\<lambda>zIndex.
     bind (check (\<bar>zIndex\<bar> \<le> 1000000) ''z_index is outside the supported range'') (\<lambda>_.
     bind (readVisibleText (co_label obj) (pr ''text'')) (\<lambda>txt.
     bind (readColor (nullish (st ''fill'') (pr ''fill'')) ''fill'' True) (\<lambda>fill.
     bind (readColor (nullish (st ''stroke'') (pr ''stroke'')) ''stroke'' True) (\<lambda>stroke.
     bind (readAssetReference uuid_ok (nullish (pr ''asset_ref'') (pr ''assetRef''))) (\<lambda>assetRef.
     bind (readBoolean (nullish (pr ''visible'') (st ''visible'')) True ''visible'') (\<lambda>visible.
     Inr \<lparr> el_id = co_id obj, el_type = co_type obj, el_x = co_positionX obj, el_y = co_positionY obj,
           el_width = width, el_height = height, el_rotation = rotation, el_z_index = zIndex, el_visible = visible,
           el_locked = co_isLocked obj, el_text = txt, el_fill = fill, el_stroke = stroke,
           el_asset_ref = assetRef \<rparr>)))))))))))))))))"

fun serialize_all :: "(string \<Rightarrow> bool) \<Rightarrow> canvas_object list \<Rightarrow> exn + snapshot_element list" where
  "serialize_all uuid_ok [] = Inr []"
| "serialize_all uuid_ok (x # xs) =
     bind (serializeElement uuid_ok x) (\<lambda>y. bind (serialize_all uuid_ok xs) (\<lambda>ys. Inr (y # ys)))"

section \<open>The document\<close>

record snapshot_document =
  doc_canvasId :: uuid
  doc_revision :: int
  doc_width :: int
  doc_height :: int
  doc_background :: string
  doc_elements :: "snapshot_element list"

definition snapshot_element_json :: "snapshot_element \<Rightarrow> json" where
  "snapshot_element_json e = JObj [(''id'', JStr (el_id e)), (''type'', JStr (el_type e)),
     (''bounds'', JObj [(''x'', JNum (el_x e)), (''y'', JNum (el_y e)), (''width'', JNum (el_width e)),
        (''height'', JNum (el_height e))]),
     (''rotation'', JNum (el_rotation e)), (''z_index'', json_int (el_z_index e)), (''visible'', JBool (el_visible e)),
     (''locked'', JBool (el_locked e)), (''text'', json_str_opt (el_text e)), (''fill'', json_str_opt (el_fill e)),
     (''stroke'', json_str_opt (el_stroke e)), (''asset_ref'', json_str_opt (el_asset_ref e))]"

definition document_json :: "snapshot_document \<Rightarrow> json" where
  "document_json d = JObj [(''schema_version'', JStr ''1''),
     (''canvas'', JObj [(''id'', JStr (doc_canvasId d)), (''revision'', json_int (doc_revision d)),
        (''width'', json_int (doc_width d)), (''height'', json_int (doc_height d)),
        (''background'', JStr (doc_background d))]),
     (''elements'', JArr (map snapshot_element_json (doc_elements d))), (''relationships'', JArr []), (''groups'', JArr []),
     (''metadata'', JObj [])]"

record serialization_result =
  sz_document :: snapshot_document
  sz_jsonBytes :: string
  sz_checksumSha256 :: string
  sz_sizeBytes :: nat

definition serialize_document ::
    "(string \<Rightarrow> bool) \<Rightarrow> canvas option \<Rightarrow> canvas_object list \<Rightarrow> int option \<Rightarrow> exn + snapshot_document" where
  "serialize_document uuid_ok found objects expectedRevision = (case found of
     None \<Rightarrow> Inl (BadRequest (JStr ''Canvas not found''))
   | Some c \<Rightarrow>
     bind (check (length objects \<le> MAX_ELEMENT_COUNT) ''Canvas exceeds maximum element count of 1000'') (\<lambda>_.
     bind (toSafeInteger (Some (JStr (int_str (cv_revision c)))) ''canvas.revision'') (\<lambda>revision.
     bind (validateNonnegative revision ''canvas.revision'') (\<lambda>_.
     bind (check (case expectedRevision of None \<Rightarrow> True | Some r \<Rightarrow> revision = r)
             (''Canvas revision changed: expected '' @ int_str (or_value expectedRevision 0) @ '', received '' @
              int_str revision)) (\<lambda>_.
     bind (toSafeInteger (Some (json_int (cv_width c))) ''canvas.width'') (\<lambda>width.
     bind (toSafeInteger (Some (json_int (cv_height c))) ''canvas.height'') (\<lambda>height.
     bind (validateDimension (of_int width) ''canvas.width'' False) (\<lambda>_.
     bind (validateDimension (of_int height) ''canvas.height'' False) (\<lambda>_.
     bind (readColor (Some (JStr (cv_background c))) ''canvas.background'' False) (\<lambda>background.
     bind (check (background \<noteq> None) ''canvas.background must be a color'') (\<lambda>_.
     bind (serialize_all uuid_ok objects) (\<lambda>elements.
     Inr \<lparr> doc_canvasId = cv_id c, doc_revision = revision, doc_width = width, doc_height = height,
           doc_background = the background, doc_elements = sort_key el_id elements \<rparr>))))))))))))"

text \<open>\<open>serialize\<close>: the canvas, its objects in the order of their ids, and the text of the document.\<close>

definition serialize ::
    "(string \<Rightarrow> bool) \<Rightarrow> (string \<Rightarrow> string) \<Rightarrow> canvas list \<Rightarrow> canvas_object list \<Rightarrow> uuid \<Rightarrow> int option \<Rightarrow>
     exn + serialization_result" where
  "serialize uuid_ok sha cs xs canvasId expectedRevision =
     bind (serialize_document uuid_ok (find_row cv_id canvasId cs)
             (sort_key co_id (filter (\<lambda>x. co_canvasId x = canvasId) xs)) expectedRevision) (\<lambda>d.
     let bytes = utf8 (json_text (canonicalize (document_json d))) in
     Inr \<lparr> sz_document = d, sz_jsonBytes = bytes, sz_checksumSha256 = sha bytes, sz_sizeBytes = length bytes \<rparr>)"

end
