(* ===== verification/PreviewEvent.thy ===== *)
theory PreviewEvent
  imports Messaging Patterns
begin

text \<open>
  The event that requests a preview of a canvas,
  \<open>src/core/messaging/events/canvas-ai-preview-requested.event.ts\<close>: its construction, the checks that the
  publisher and the consumer make, and what they come to for a constructed event.
\<close>

section \<open>The event\<close>

definition CANVAS_AI_PREVIEW_REQUESTED :: string where
  "CANVAS_AI_PREVIEW_REQUESTED = ''workspace.canvas.ai.preview.requested''"

definition CANVAS_AI_PREVIEW_OPERATIONS :: "string list" where
  "CANVAS_AI_PREVIEW_OPERATIONS = [''improve_canvas'', ''improve_selection'', ''generate_component'', ''generate_image'']"

definition MAX_CANVAS_AI_ELEMENT_IDS :: nat where "MAX_CANVAS_AI_ELEMENT_IDS = 100"
definition MAX_CANVAS_AI_SOURCE_IDS :: nat where "MAX_CANVAS_AI_SOURCE_IDS = 100"
definition MAX_CANVAS_AI_PROMPT_CHARACTERS :: nat where "MAX_CANVAS_AI_PROMPT_CHARACTERS = 4000"
definition MAX_CANVAS_AI_DIMENSION :: int where "MAX_CANVAS_AI_DIMENSION = 65536"

record preview_event_input =
  pi_eventId :: "string option"
  pi_occurredAt :: "string option"
  pi_organizationId :: string
  pi_workspaceId :: string
  pi_projectId :: "string option"
  pi_correlationId :: string
  pi_causationId :: "string option"
  pi_actorType :: string
  pi_actorId :: string
  pi_taskId :: string
  pi_canvasId :: string
  pi_canvasRevision :: int
  pi_snapshotId :: string
  pi_snapshotVersion :: int
  pi_storageBucket :: string
  pi_storageKey :: string
  pi_checksumSha256 :: string
  pi_previewStatus :: string
  pi_previewBucket :: "string option"
  pi_previewKey :: "string option"
  pi_previewChecksumSha256 :: "string option"
  pi_operation :: string
  pi_selectedElementIds :: "string list"
  pi_lockedElementIds :: "string list"
  pi_editableElementIds :: "string list"
  pi_sourceIds :: "string list"
  pi_userPrompt :: string
  pi_desiredWidth :: int
  pi_desiredHeight :: int

definition PREVIEW_PAYLOAD_FIELDS :: "string list" where
  "PREVIEW_PAYLOAD_FIELDS = [''task_id'', ''canvas_id'', ''canvas_revision'', ''snapshot_id'', ''snapshot_version'',
     ''storage_bucket'', ''storage_key'', ''checksum_sha256'', ''preview_status'', ''preview_bucket'',
     ''preview_key'', ''preview_checksum_sha256'', ''operation'', ''selected_element_ids'',
     ''locked_element_ids'', ''editable_element_ids'', ''source_ids'', ''user_prompt'', ''desired_width'',
     ''desired_height'']"

definition strings :: "string list \<Rightarrow> json" where
  "strings l = JArr (map JStr l)"

definition preview_payload :: "preview_event_input \<Rightarrow> json" where
  "preview_payload i = JObj [
     (''task_id'', JStr (pi_taskId i)), (''canvas_id'', JStr (pi_canvasId i)),
     (''canvas_revision'', json_int (pi_canvasRevision i)), (''snapshot_id'', JStr (pi_snapshotId i)),
     (''snapshot_version'', json_int (pi_snapshotVersion i)), (''storage_bucket'', JStr (pi_storageBucket i)),
     (''storage_key'', JStr (pi_storageKey i)), (''checksum_sha256'', JStr (pi_checksumSha256 i)),
     (''preview_status'', JStr (pi_previewStatus i)), (''preview_bucket'', json_str_opt (pi_previewBucket i)),
     (''preview_key'', json_str_opt (pi_previewKey i)),
     (''preview_checksum_sha256'', json_str_opt (pi_previewChecksumSha256 i)),
     (''operation'', JStr (pi_operation i)), (''selected_element_ids'', strings (pi_selectedElementIds i)),
     (''locked_element_ids'', strings (pi_lockedElementIds i)),
     (''editable_element_ids'', strings (pi_editableElementIds i)), (''source_ids'', strings (pi_sourceIds i)),
     (''user_prompt'', JStr (pi_userPrompt i)), (''desired_width'', json_int (pi_desiredWidth i)),
     (''desired_height'', json_int (pi_desiredHeight i))]"

definition preview_event :: "string \<Rightarrow> string \<Rightarrow> preview_event_input \<Rightarrow> json" where
  "preview_event fresh stamp i = JObj [
     (''event_id'', JStr (case pi_eventId i of None \<Rightarrow> fresh | Some e \<Rightarrow> e)),
     (''event_type'', JStr CANVAS_AI_PREVIEW_REQUESTED),
     (''occurred_at'', JStr (case pi_occurredAt i of None \<Rightarrow> stamp | Some t \<Rightarrow> t)),
     (''organization_id'', JStr (pi_organizationId i)), (''workspace_id'', JStr (pi_workspaceId i)),
     (''project_id'', json_str_opt (pi_projectId i)), (''correlation_id'', JStr (pi_correlationId i)),
     (''causation_id'', json_str_opt (pi_causationId i)),
     (''actor'', JObj [(''type'', JStr (pi_actorType i)), (''id'', JStr (pi_actorId i))]),
     (''payload'', preview_payload i)]"

section \<open>The checks\<close>

definition snapshot_path :: "string \<Rightarrow> string \<Rightarrow> string \<Rightarrow> string \<Rightarrow> string \<Rightarrow> string" where
  "snapshot_path org ws canvasId snapshotId file =
     ''organizations/'' @ org @ ''/workspaces/'' @ ws @ ''/canvases/'' @ canvasId @ ''/snapshots/'' @ snapshotId @
     ''/'' @ file"

definition snapshotKey :: "string \<Rightarrow> string \<Rightarrow> string \<Rightarrow> string \<Rightarrow> int \<Rightarrow> string" where
  "snapshotKey org ws canvasId snapshotId version =
     snapshot_path org ws canvasId snapshotId (''snapshot-v'' @ int_str version @ ''.json'')"

definition previewKey :: "string \<Rightarrow> string \<Rightarrow> string \<Rightarrow> string \<Rightarrow> int \<Rightarrow> string" where
  "previewKey org ws canvasId snapshotId version =
     snapshot_path org ws canvasId snapshotId (''preview-v'' @ int_str version @ ''.png'')"

text \<open>\<open>/^[A-Za-z0-9][A-Za-z0-9_.:-]{0,127}$/\<close>.\<close>

definition element_id_char :: "char \<Rightarrow> bool" where
  "element_id_char c \<longleftrightarrow> is_alnum c \<or> c \<in> {CHR ''_'', CHR ''.'', CHR '':'', CHR ''-''}"

definition element_id_ok :: "string \<Rightarrow> bool" where
  "element_id_ok s = (case s of [] \<Rightarrow> False | c # cs \<Rightarrow> is_alnum c \<and> list_all element_id_char cs \<and> length cs \<le> 127)"

fun items :: "json option \<Rightarrow> json list" where
  "items (Some (JArr vs)) = vs"
| "items _ = []"

definition is_array :: "json option \<Rightarrow> bool" where
  "is_array v = (case v of Some (JArr _) \<Rightarrow> True | _ \<Rightarrow> False)"

definition assertElementIds :: "json option \<Rightarrow> string \<Rightarrow> (bool \<times> string) list" where
  "assertElementIds v field =
     [(is_array v \<and> length (items v) \<le> MAX_CANVAS_AI_ELEMENT_IDS, field @ '' must be an array of at most 100 IDs''),
      (list_all (\<lambda>x. is_string (Some x) \<and> element_id_ok (str_of (Some x))) (items v),
       field @ '' contains an unsafe element ID''),
      (distinct (items v), field @ '' must not contain duplicate IDs'')]"

definition assertSourceIds :: "(string \<Rightarrow> bool) \<Rightarrow> json option \<Rightarrow> string \<Rightarrow> (bool \<times> string) list" where
  "assertSourceIds uuid_ok v field =
     [(is_array v \<and> length (items v) \<le> MAX_CANVAS_AI_SOURCE_IDS, field @ '' must be an array of at most 100 IDs'')] @
     map (\<lambda>(i, x). (is_string (Some x) \<and> uuid_ok (str_of (Some x)), field @ ''['' @ nat_str i @ ''] must be a UUID''))
       (zip [0..<length (items v)] (items v)) @
     [(distinct (items v), field @ '' must not contain duplicate IDs'')]"

definition dimension_ok :: "json option \<Rightarrow> bool" where
  "dimension_ok v \<longleftrightarrow> is_safe_integer v \<and> 1 \<le> int_of v \<and> int_of v \<le> MAX_CANVAS_AI_DIMENSION"

definition bounded_string :: "json option \<Rightarrow> nat \<Rightarrow> bool \<Rightarrow> bool" where
  "bounded_string v n all_controls \<longleftrightarrow> is_string v \<and> js_trim (str_of v) \<noteq> [] \<and> length (str_of v) \<le> n \<and>
     (if all_controls then control_free (str_of v) else char_of (0 :: nat) \<notin> set (str_of v))"

definition uuid_field :: "(string \<Rightarrow> bool) \<Rightarrow> json option \<Rightarrow> bool" where
  "uuid_field uuid_ok v \<longleftrightarrow> is_string v \<and> uuid_ok (str_of v)"

definition sha_field :: "json option \<Rightarrow> bool" where
  "sha_field v \<longleftrightarrow> is_string v \<and> hex_digest (str_of v)"

definition assertPreviewFields :: "json \<Rightarrow> json \<Rightarrow> (bool \<times> string) list" where
  "assertPreviewFields event payload = (let f = get_prop payload in
     if f ''preview_status'' = Some (JStr ''pending'') then
       [(f ''preview_bucket'' = Some JNull \<and> f ''preview_key'' = Some JNull \<and> f ''preview_checksum_sha256'' = Some JNull,
         ''pending preview fields must not claim an unavailable artifact'')]
     else
       [(f ''preview_status'' = Some (JStr ''available''), ''payload.preview_status must be available or pending''),
        (f ''preview_bucket'' = Some (JStr ''workspace-previews''),
         ''available payload.preview_bucket must be workspace-previews''),
        (f ''preview_key'' = Some (JStr (previewKey (str_of (get_prop event ''organization_id''))
           (str_of (get_prop event ''workspace_id'')) (str_of (f ''canvas_id'')) (str_of (f ''snapshot_id''))
           (int_of (f ''snapshot_version'')))),
         ''payload.preview_key must exactly match the canonical tenant preview path''),
        (sha_field (f ''preview_checksum_sha256''),
         ''payload.preview_checksum_sha256 must be a lowercase SHA-256 hex digest'')])"

definition preview_envelope_checks ::
    "(string \<Rightarrow> bool) \<Rightarrow> (string \<Rightarrow> time option) \<Rightarrow> json \<Rightarrow> (bool \<times> string) list" where
  "preview_envelope_checks uuid_ok parse_date event = (let
       f = get_prop event; uuid = uuid_field uuid_ok; a = f ''actor''; g = (\<lambda>k. get_prop (the a) k)
     in [(is_obj event, ''Canvas AI preview event must be an object''),
      (exact_fields (Some event) TOP_LEVEL_FIELDS,
       ''Canvas AI preview event fields do not match the canonical contract''),
      (uuid (f ''event_id''), ''event_id must be a UUID''),
      (f ''event_type'' = Some (JStr CANVAS_AI_PREVIEW_REQUESTED),
       ''event_type must be '' @ CANVAS_AI_PREVIEW_REQUESTED),
      (is_string (f ''occurred_at'') \<and> parse_date (str_of (f ''occurred_at'')) \<noteq> None \<and>
         zoned (str_of (f ''occurred_at'')), ''occurred_at must be timezone-aware ISO-8601''),
      (uuid (f ''organization_id''), ''organization_id must be a UUID''),
      (uuid (f ''workspace_id''), ''workspace_id must be a UUID''),
      (f ''project_id'' = Some JNull \<or> uuid (f ''project_id''), ''project_id must be a UUID''),
      (uuid (f ''correlation_id''), ''correlation_id must be a UUID''),
      (f ''causation_id'' = Some JNull \<or> uuid (f ''causation_id''), ''causation_id must be a UUID''),
      (is_record a, ''actor must be an object''),
      (exact_fields a ACTOR_FIELDS, ''actor fields do not match the canonical contract''),
      (g ''type'' = Some (JStr ''user'') \<or> g ''type'' = Some (JStr ''service''),
       ''actor.type must be user or service''),
      (bounded_string (g ''id'') 255 True, ''actor.id must be a safe string of at most 255 characters'')])"

definition preview_payload_checks :: "(string \<Rightarrow> bool) \<Rightarrow> json \<Rightarrow> (bool \<times> string) list" where
  "preview_payload_checks uuid_ok event = (let
       p = get_prop event ''payload''; f = (\<lambda>k. get_prop (the p) k); uuid = uuid_field uuid_ok;
       key = snapshotKey (str_of (get_prop event ''organization_id'')) (str_of (get_prop event ''workspace_id''))
         (str_of (f ''canvas_id'')) (str_of (f ''snapshot_id'')) (int_of (f ''snapshot_version''))
     in [(is_record p, ''payload must be an object''),
      (exact_fields p PREVIEW_PAYLOAD_FIELDS, ''payload fields do not match the canonical contract''),
      (uuid (f ''task_id''), ''payload.task_id must be a UUID''),
      (uuid (f ''canvas_id''), ''payload.canvas_id must be a UUID''),
      (is_safe_integer (f ''canvas_revision'') \<and> 0 \<le> int_of (f ''canvas_revision''),
       ''payload.canvas_revision must be a non-negative safe integer''),
      (uuid (f ''snapshot_id''), ''payload.snapshot_id must be a UUID''),
      (is_safe_integer (f ''snapshot_version'') \<and> 0 < int_of (f ''snapshot_version''),
       ''payload.snapshot_version must be a positive safe integer''),
      (f ''storage_bucket'' = Some (JStr ''workspace-snapshots''),
       ''payload.storage_bucket must be workspace-snapshots''),
      (f ''storage_key'' = Some (JStr key),
       ''payload.storage_key must exactly match the canonical tenant snapshot path''),
      (sha_field (f ''checksum_sha256''), ''payload.checksum_sha256 must be a lowercase SHA-256 hex digest'')] @
      assertPreviewFields event (the p) @
      [(is_string (f ''operation'') \<and> str_of (f ''operation'') \<in> set CANVAS_AI_PREVIEW_OPERATIONS,
        ''payload.operation is not supported'')] @
      assertElementIds (f ''selected_element_ids'') ''payload.selected_element_ids'' @
      assertElementIds (f ''locked_element_ids'') ''payload.locked_element_ids'' @
      assertElementIds (f ''editable_element_ids'') ''payload.editable_element_ids'' @
      [(\<not> list_ex (\<lambda>x. x \<in> set (items (f ''locked_element_ids''))) (items (f ''editable_element_ids'')),
        ''payload.locked_element_ids and payload.editable_element_ids must not overlap'')] @
      assertSourceIds uuid_ok (f ''source_ids'') ''payload.source_ids'' @
      [(bounded_string (f ''user_prompt'') MAX_CANVAS_AI_PROMPT_CHARACTERS False,
        ''payload.user_prompt must be a safe string of at most 4000 characters''),
       (dimension_ok (f ''desired_width''), ''payload.desired_width must be an integer between 1 and 65536''),
       (dimension_ok (f ''desired_height''), ''payload.desired_height must be an integer between 1 and 65536'')])"

definition assertCanvasAiPreviewRequestedEvent ::
    "(string \<Rightarrow> bool) \<Rightarrow> (string \<Rightarrow> time option) \<Rightarrow> json \<Rightarrow> exn + unit" where
  "assertCanvasAiPreviewRequestedEvent uuid_ok parse_date event =
     checks (preview_envelope_checks uuid_ok parse_date event @ preview_payload_checks uuid_ok event)"

definition createCanvasAiPreviewRequestedEvent ::
    "(string \<Rightarrow> bool) \<Rightarrow> (string \<Rightarrow> time option) \<Rightarrow> string \<Rightarrow> string \<Rightarrow> preview_event_input \<Rightarrow> exn + json" where
  "createCanvasAiPreviewRequestedEvent uuid_ok parse_date fresh stamp i =
     (let event = preview_event fresh stamp i
      in case assertCanvasAiPreviewRequestedEvent uuid_ok parse_date event of Inl e \<Rightarrow> Inl e | Inr _ \<Rightarrow> Inr event)"

section \<open>What the contract accepts\<close>

definition ids_ok :: "string list \<Rightarrow> bool" where
  "ids_ok l \<longleftrightarrow> length l \<le> 100 \<and> list_all element_id_ok l \<and> distinct l"

definition preview_fields_ok :: "preview_event_input \<Rightarrow> bool" where
  "preview_fields_ok i \<longleftrightarrow>
     (if pi_previewStatus i = ''pending''
      then pi_previewBucket i = None \<and> pi_previewKey i = None \<and> pi_previewChecksumSha256 i = None
      else pi_previewStatus i = ''available'' \<and> pi_previewBucket i = Some ''workspace-previews'' \<and>
        pi_previewKey i = Some (previewKey (pi_organizationId i) (pi_workspaceId i) (pi_canvasId i) (pi_snapshotId i)
          (pi_snapshotVersion i)) \<and>
        (case pi_previewChecksumSha256 i of None \<Rightarrow> False | Some c \<Rightarrow> hex_digest c))"

definition preview_envelope_ok ::
    "(string \<Rightarrow> bool) \<Rightarrow> (string \<Rightarrow> time option) \<Rightarrow> string \<Rightarrow> string \<Rightarrow> preview_event_input \<Rightarrow> bool" where
  "preview_envelope_ok uuid_ok parse_date fresh stamp i \<longleftrightarrow>
     (let t = (case pi_occurredAt i of None \<Rightarrow> stamp | Some t \<Rightarrow> t) in
      uuid_ok (case pi_eventId i of None \<Rightarrow> fresh | Some e \<Rightarrow> e) \<and> parse_date t \<noteq> None \<and> zoned t) \<and>
     uuid_ok (pi_organizationId i) \<and> uuid_ok (pi_workspaceId i) \<and>
     (case pi_projectId i of None \<Rightarrow> True | Some p \<Rightarrow> uuid_ok p) \<and> uuid_ok (pi_correlationId i) \<and>
     (case pi_causationId i of None \<Rightarrow> True | Some p \<Rightarrow> uuid_ok p) \<and>
     pi_actorType i \<in> {''user'', ''service''} \<and> js_trim (pi_actorId i) \<noteq> [] \<and> length (pi_actorId i) \<le> 255 \<and>
     control_free (pi_actorId i)"

definition preview_payload_ok :: "(string \<Rightarrow> bool) \<Rightarrow> preview_event_input \<Rightarrow> bool" where
  "preview_payload_ok uuid_ok i \<longleftrightarrow>
     uuid_ok (pi_taskId i) \<and> uuid_ok (pi_canvasId i) \<and> uuid_ok (pi_snapshotId i) \<and>
     0 \<le> pi_canvasRevision i \<and> pi_canvasRevision i \<le> 9007199254740991 \<and>
     0 < pi_snapshotVersion i \<and> pi_snapshotVersion i \<le> 9007199254740991 \<and>
     pi_storageBucket i = ''workspace-snapshots'' \<and>
     pi_storageKey i = snapshotKey (pi_organizationId i) (pi_workspaceId i) (pi_canvasId i) (pi_snapshotId i)
       (pi_snapshotVersion i) \<and>
     hex_digest (pi_checksumSha256 i) \<and> preview_fields_ok i \<and>
     pi_operation i \<in> set CANVAS_AI_PREVIEW_OPERATIONS \<and>
     ids_ok (pi_selectedElementIds i) \<and> ids_ok (pi_lockedElementIds i) \<and> ids_ok (pi_editableElementIds i) \<and>
     set (pi_lockedElementIds i) \<inter> set (pi_editableElementIds i) = {} \<and>
     length (pi_sourceIds i) \<le> 100 \<and> list_all uuid_ok (pi_sourceIds i) \<and> distinct (pi_sourceIds i) \<and>
     js_trim (pi_userPrompt i) \<noteq> [] \<and> length (pi_userPrompt i) \<le> 4000 \<and>
     char_of (0 :: nat) \<notin> set (pi_userPrompt i) \<and>
     1 \<le> pi_desiredWidth i \<and> pi_desiredWidth i \<le> 65536 \<and> 1 \<le> pi_desiredHeight i \<and> pi_desiredHeight i \<le> 65536"

lemma preview_envelope_iff:
  "checks (preview_envelope_checks uuid_ok parse_date (preview_event fresh stamp i)) = Inr () \<longleftrightarrow>
   preview_envelope_ok uuid_ok parse_date fresh stamp i"
  by (simp add: checks_ok preview_envelope_checks_def preview_event_def preview_envelope_ok_def Let_def get_prop_def
      exact_fields_def TOP_LEVEL_FIELDS_def ACTOR_FIELDS_def is_string_def is_record_def uuid_field_def bounded_string_def
      split: option.split)

lemma element_ids_iff: "list_all fst (assertElementIds (Some (strings l)) field) \<longleftrightarrow> ids_ok l"
  by (auto simp: assertElementIds_def strings_def is_array_def MAX_CANVAS_AI_ELEMENT_IDS_def is_string_def ids_ok_def
      list_all_iff distinct_map inj_on_def)

lemma list_all_zip_snd: "list_all fst (map (\<lambda>(i, x). (P x, f i)) (zip [n..<n + length xs] xs)) \<longleftrightarrow> list_all P xs"
proof (induction xs arbitrary: n)
  case (Cons x xs)
  then show ?case using Cons.IH [of "Suc n"] by (simp add: upt_conv_Cons del: upt_Suc)
qed simp

lemma source_ids_iff:
  "list_all fst (assertSourceIds uuid_ok (Some (strings l)) field) \<longleftrightarrow>
   length l \<le> 100 \<and> list_all uuid_ok l \<and> distinct l"
  using list_all_zip_snd [of "\<lambda>x. is_string (Some x) \<and> uuid_ok (str_of (Some x))"
      "\<lambda>i. field @ ''['' @ nat_str i @ ''] must be a UUID''" 0 "map JStr l"]
  by (auto simp: assertSourceIds_def strings_def is_array_def MAX_CANVAS_AI_SOURCE_IDS_def is_string_def
      list_all_iff distinct_map inj_on_def)

lemma json_str_opt_iff: "json_str_opt x = JNull \<longleftrightarrow> x = None" "json_str_opt x = JStr y \<longleftrightarrow> x = Some y"
  by (cases x; simp)+

lemma preview_fields_iff:
  "list_all fst (assertPreviewFields (preview_event fresh stamp i) (preview_payload i)) \<longleftrightarrow> preview_fields_ok i"
  by (auto simp: assertPreviewFields_def preview_event_def preview_payload_def preview_fields_ok_def Let_def get_prop_def
      sha_field_def is_string_def json_str_opt_iff split: option.split)

lemma payload_props:
  "get_prop (preview_event fresh stamp i) ''payload'' = Some (preview_payload i)"
  "get_prop (preview_event fresh stamp i) ''organization_id'' = Some (JStr (pi_organizationId i))"
  "get_prop (preview_event fresh stamp i) ''workspace_id'' = Some (JStr (pi_workspaceId i))"
  by (simp_all add: preview_event_def get_prop_def)

lemma preview_payload_fields:
  "exact_fields (Some (preview_payload i)) PREVIEW_PAYLOAD_FIELDS" "is_record (Some (preview_payload i))"
  by (simp_all add: preview_payload_def exact_fields_def PREVIEW_PAYLOAD_FIELDS_def is_record_def)

lemma shared_iff: "list_ex (\<lambda>x. x \<in> set (items (Some (strings a)))) (items (Some (strings b))) \<longleftrightarrow> set a \<inter> set b \<noteq> {}"
  by (auto simp: strings_def list_ex_iff)

lemma preview_payload_iff:
  "checks (preview_payload_checks uuid_ok (preview_event fresh stamp i)) = Inr () \<longleftrightarrow> preview_payload_ok uuid_ok i"
proof -
  let ?f = "get_prop (preview_payload i)"
  have f: "?f ''task_id'' = Some (JStr (pi_taskId i))" "?f ''canvas_id'' = Some (JStr (pi_canvasId i))"
    "?f ''canvas_revision'' = Some (json_int (pi_canvasRevision i))" "?f ''snapshot_id'' = Some (JStr (pi_snapshotId i))"
    "?f ''snapshot_version'' = Some (json_int (pi_snapshotVersion i))"
    "?f ''storage_bucket'' = Some (JStr (pi_storageBucket i))" "?f ''storage_key'' = Some (JStr (pi_storageKey i))"
    "?f ''checksum_sha256'' = Some (JStr (pi_checksumSha256 i))" "?f ''operation'' = Some (JStr (pi_operation i))"
    "?f ''selected_element_ids'' = Some (strings (pi_selectedElementIds i))"
    "?f ''locked_element_ids'' = Some (strings (pi_lockedElementIds i))"
    "?f ''editable_element_ids'' = Some (strings (pi_editableElementIds i))"
    "?f ''source_ids'' = Some (strings (pi_sourceIds i))" "?f ''user_prompt'' = Some (JStr (pi_userPrompt i))"
    "?f ''desired_width'' = Some (json_int (pi_desiredWidth i))" "?f ''desired_height'' = Some (json_int (pi_desiredHeight i))"
    by (simp_all add: preview_payload_def get_prop_def)
  show ?thesis
    unfolding checks_ok preview_payload_checks_def Let_def payload_props option.sel list_all_append list.pred_inject fst_conv f
      element_ids_iff source_ids_iff preview_fields_iff shared_iff
    by (auto simp: preview_payload_fields preview_payload_ok_def uuid_field_def sha_field_def is_string_def is_safe_integer_def
        bounded_string_def dimension_ok_def MAX_CANVAS_AI_PROMPT_CHARACTERS_def MAX_CANVAS_AI_DIMENSION_def)
qed

lemma create_preview_event:
  "createCanvasAiPreviewRequestedEvent uuid_ok parse_date fresh stamp i = Inr j \<longleftrightarrow>
   preview_envelope_ok uuid_ok parse_date fresh stamp i \<and> preview_payload_ok uuid_ok i \<and> j = preview_event fresh stamp i"
  using checks_append_ok [of "preview_envelope_checks uuid_ok parse_date (preview_event fresh stamp i)"
      "preview_payload_checks uuid_ok (preview_event fresh stamp i)"]
    preview_envelope_iff [of uuid_ok parse_date fresh stamp i] preview_payload_iff [of uuid_ok fresh stamp i]
  by (auto simp: createCanvasAiPreviewRequestedEvent_def assertCanvasAiPreviewRequestedEvent_def Let_def split: sum.split)

end
