(* ===== verification/Coordinator.thy ===== *)
theory Coordinator
  imports Prelude
begin

text \<open>
  The debouncing of automatic previews,
  \<open>src/modules/canvas/services/canvas-ai-preview-coordinator.service.ts\<close>. \<open>'h\<close> is the type of the handlers. A
  timer is the closure that was passed to \<open>setTimeout\<close> with the time it is due; \<open>triggered\<close> lists what was
  handed to a handler.
\<close>

section \<open>State\<close>

datatype trigger_reason = Debounce | MaxDebounce | Explicit

record 'h trigger =
  tr_canvasId :: uuid
  tr_revision :: int
  tr_reason :: trigger_reason
  tr_handler :: 'h

record 'h pending_preview =
  pp_timer :: nat
  pp_firstEditAt :: time
  pp_dueAt :: time
  pp_revision :: int
  pp_handler :: 'h

record 'h timer =
  ti_id :: nat
  ti_dueAt :: time
  ti_trigger :: "'h trigger"

record 'h coordinator =
  cd_debounceMs :: time
  cd_maxDebounceMs :: time
  cd_enabled :: bool
  cd_pending :: "uuid \<rightharpoonup> 'h pending_preview"
  cd_timers :: "'h timer list"
  cd_next :: nat
  cd_triggered :: "(time \<times> 'h trigger) list"

definition newCoordinator :: "time \<Rightarrow> time \<Rightarrow> bool \<Rightarrow> string + 'h coordinator" where
  "newCoordinator debounce maximum enabled =
     (if maximum < debounce
      then Inl ''CANVAS_AI_MAX_DEBOUNCE_MS must be greater than or equal to CANVAS_AI_DEBOUNCE_MS''
      else Inr \<lparr> cd_debounceMs = debounce, cd_maxDebounceMs = maximum, cd_enabled = enabled, cd_pending = Map.empty,
             cd_timers = [], cd_next = 0, cd_triggered = [] \<rparr>)"

definition clearTimeout :: "nat \<Rightarrow> 'h coordinator \<Rightarrow> 'h coordinator" where
  "clearTimeout n c = c\<lparr>cd_timers := filter (\<lambda>x. ti_id x \<noteq> n) (cd_timers c)\<rparr>"

definition clear_pending :: "uuid \<Rightarrow> 'h coordinator \<Rightarrow> 'h coordinator" where
  "clear_pending canvasId c = (case cd_pending c canvasId of None \<Rightarrow> c | Some p \<Rightarrow> clearTimeout (pp_timer p) c)"

section \<open>Operations\<close>

text \<open>\<open>t\<close> is \<open>clock.now()\<close>; the answer is the time the preview is due.\<close>

definition first_edit :: "uuid \<Rightarrow> time \<Rightarrow> 'h coordinator \<Rightarrow> time" where
  "first_edit canvasId t c = (case cd_pending c canvasId of None \<Rightarrow> t | Some p \<Rightarrow> pp_firstEditAt p)"

definition due_at :: "uuid \<Rightarrow> time \<Rightarrow> 'h coordinator \<Rightarrow> time" where
  "due_at canvasId t c = min (t + cd_debounceMs c) (first_edit canvasId t c + cd_maxDebounceMs c)"

definition scheduleEdit ::
    "uuid \<Rightarrow> int \<Rightarrow> 'h \<Rightarrow> time \<Rightarrow> 'h coordinator \<Rightarrow> time option \<times> 'h coordinator" where
  "scheduleEdit canvasId revision handler t c =
     (if \<not> cd_enabled c then (None, c) else
      let maxDueAt = first_edit canvasId t c + cd_maxDebounceMs c; dueAt = due_at canvasId t c; n = cd_next c;
        reason = (if dueAt = maxDueAt then MaxDebounce else Debounce);
        p = \<lparr> pp_timer = n, pp_firstEditAt = first_edit canvasId t c, pp_dueAt = dueAt, pp_revision = revision,
              pp_handler = handler \<rparr>;
        x = \<lparr> ti_id = n, ti_dueAt = t + max 0 (dueAt - t),
              ti_trigger = \<lparr> tr_canvasId = canvasId, tr_revision = revision, tr_reason = reason, tr_handler = handler \<rparr> \<rparr>;
        d = clear_pending canvasId c
      in (Some dueAt, d\<lparr>cd_timers := cd_timers d @ [x], cd_next := Suc n, cd_pending := (cd_pending d)(canvasId \<mapsto> p)\<rparr>))"

text \<open>A timer goes off: only the pending preview it was set for is triggered.\<close>

definition fire :: "nat \<Rightarrow> time \<Rightarrow> 'h coordinator \<Rightarrow> 'h coordinator" where
  "fire n t c = (case find (\<lambda>x. ti_id x = n) (cd_timers c) of
     None \<Rightarrow> c
   | Some x \<Rightarrow> let d = clearTimeout n c; i = tr_canvasId (ti_trigger x) in
       (case cd_pending d i of
          Some p \<Rightarrow> if pp_timer p = n
            then d\<lparr>cd_pending := (cd_pending d)(i := None), cd_triggered := cd_triggered d @ [(t, ti_trigger x)]\<rparr> else d
        | None \<Rightarrow> d))"

definition cancel :: "uuid \<Rightarrow> 'h coordinator \<Rightarrow> bool \<times> 'h coordinator" where
  "cancel canvasId c = (case cd_pending c canvasId of None \<Rightarrow> (False, c)
     | Some p \<Rightarrow> (True, (clearTimeout (pp_timer p) c)\<lparr>cd_pending := (cd_pending c)(canvasId := None)\<rparr>))"

definition triggerExplicit :: "uuid \<Rightarrow> int \<Rightarrow> 'h \<Rightarrow> time \<Rightarrow> 'h coordinator \<Rightarrow> 'h coordinator" where
  "triggerExplicit canvasId revision handler t c = (let d = snd (cancel canvasId c) in
     d\<lparr>cd_triggered := cd_triggered d @ [(t, \<lparr> tr_canvasId = canvasId, tr_revision = revision, tr_reason = Explicit,
       tr_handler = handler \<rparr>)]\<rparr>)"

definition getPending :: "uuid \<Rightarrow> 'h coordinator \<Rightarrow> (int \<times> time \<times> time) option" where
  "getPending canvasId c =
     map_option (\<lambda>p. (pp_revision p, pp_firstEditAt p, pp_dueAt p)) (cd_pending c canvasId)"

definition getPendingCount :: "'h coordinator \<Rightarrow> nat" where
  "getPendingCount c = card (dom (cd_pending c))"

section \<open>Runs\<close>

text \<open>
  What happens to a coordinator over time. At a tick of the event loop, which may come late, the timers that are
  due go off in the order they were set.
\<close>

datatype 'h happening = Edit uuid int 'h | Cancel uuid | Trigger uuid int 'h | Tick

definition expired :: "time \<Rightarrow> 'h coordinator \<Rightarrow> nat list" where
  "expired t c = map ti_id (filter (\<lambda>x. ti_dueAt x \<le> t) (cd_timers c))"

fun happen :: "'h happening \<Rightarrow> time \<Rightarrow> 'h coordinator \<Rightarrow> 'h coordinator" where
  "happen (Edit i r h) t c = snd (scheduleEdit i r h t c)"
| "happen (Cancel i) t c = snd (cancel i c)"
| "happen (Trigger i r h) t c = triggerExplicit i r h t c"
| "happen Tick t c = fold (\<lambda>n. fire n t) (expired t c) c"

fun coordinate :: "(time \<times> 'h happening) list \<Rightarrow> 'h coordinator \<Rightarrow> 'h coordinator" where
  "coordinate [] c = c"
| "coordinate ((t, e) # es) c = coordinate es (happen e t c)"

section \<open>One timer for every pending preview\<close>

text \<open>
  Up to time \<open>now\<close>: every timer belongs to the pending preview of its canvas and the other way round, and is due
  with it, or was at once.
\<close>

definition timer_for :: "time \<Rightarrow> uuid \<Rightarrow> 'h pending_preview \<Rightarrow> 'h timer \<Rightarrow> bool" where
  "timer_for now i p x \<longleftrightarrow> ti_id x = pp_timer p \<and> (\<exists>t \<le> now. ti_dueAt x = max t (pp_dueAt p)) \<and>
     tr_canvasId (ti_trigger x) = i \<and> tr_revision (ti_trigger x) = pp_revision p \<and>
     tr_handler (ti_trigger x) = pp_handler p"

definition coordinated :: "time \<Rightarrow> 'h coordinator \<Rightarrow> bool" where
  "coordinated now c \<longleftrightarrow> distinct (map ti_id (cd_timers c)) \<and> (\<forall>x \<in> set (cd_timers c). ti_id x < cd_next c) \<and>
     (\<forall>x \<in> set (cd_timers c). \<exists>i p. cd_pending c i = Some p \<and> timer_for now i p x) \<and>
     (\<forall>i p. cd_pending c i = Some p \<longrightarrow> (\<exists>x \<in> set (cd_timers c). timer_for now i p x) \<and>
        pp_dueAt p \<le> pp_firstEditAt p + cd_maxDebounceMs c)"

lemma coordinated_new: "newCoordinator a b e = Inr c \<Longrightarrow> coordinated t c"
  by (auto simp: newCoordinator_def coordinated_def split: if_splits)

lemma timer_for_later: "timer_for s i p x \<Longrightarrow> s \<le> t \<Longrightarrow> timer_for t i p x"
  by (auto simp: timer_for_def intro: order_trans)

lemma coordinated_later: "coordinated s c \<Longrightarrow> s \<le> t \<Longrightarrow> coordinated t c"
  unfolding coordinated_def by (meson timer_for_later)

lemma pending_timer:
  "coordinated t c \<Longrightarrow> cd_pending c i = Some p \<Longrightarrow> \<exists>x \<in> set (cd_timers c). timer_for t i p x"
  by (simp add: coordinated_def)

lemma timer_pending:
  assumes "coordinated t c" and "x \<in> set (cd_timers c)"
  obtains p where "cd_pending c (tr_canvasId (ti_trigger x)) = Some p" and "timer_for t (tr_canvasId (ti_trigger x)) p x"
proof -
  obtain i p where "cd_pending c i = Some p" "timer_for t i p x" using assms unfolding coordinated_def by blast
  moreover then have "i = tr_canvasId (ti_trigger x)" by (simp add: timer_for_def)
  ultimately show thesis using that by simp
qed

lemma timers_unique:
  "coordinated t c \<Longrightarrow> x \<in> set (cd_timers c) \<Longrightarrow> y \<in> set (cd_timers c) \<Longrightarrow> ti_id x = ti_id y \<Longrightarrow> x = y"
  by (simp add: coordinated_def distinct_map inj_on_def)

lemma pending_unique:
  assumes "coordinated t c" and "cd_pending c i = Some p" and "cd_pending c j = Some q" and "pp_timer p = pp_timer q"
  shows "i = j"
proof -
  obtain x y where "x \<in> set (cd_timers c)" "y \<in> set (cd_timers c)" "timer_for t i p x" "timer_for t j q y"
    using pending_timer [OF assms(1,2)] pending_timer [OF assms(1,3)] by blast
  moreover from this assms(1,4) have "x = y" by (metis timer_for_def timers_unique)
  ultimately show ?thesis by (simp add: timer_for_def)
qed

text \<open>A canvas without its pending preview and the timer of it.\<close>

definition dropped :: "uuid \<Rightarrow> nat \<Rightarrow> 'h coordinator \<Rightarrow> 'h coordinator" where
  "dropped i n c = (clearTimeout n c)\<lparr>cd_pending := (cd_pending c)(i := None)\<rparr>"

lemma coordinated_dropped:
  assumes "coordinated t c" and "cd_pending c i = Some p"
  shows "coordinated t (dropped i (pp_timer p) c)"
proof -
  have "\<exists>j q. ((cd_pending c)(i := None)) j = Some q \<and> timer_for t j q x"
    if x: "x \<in> set (cd_timers c)" "ti_id x \<noteq> pp_timer p" for x
    using timer_pending [OF assms(1) x(1)] x(2) assms(2)
    by (metis fun_upd_apply option.inject timer_for_def)
  moreover have "\<exists>x \<in> set (cd_timers c). ti_id x \<noteq> pp_timer p \<and> timer_for t j q x" if j: "j \<noteq> i" "cd_pending c j = Some q" for j q
  proof -
    obtain x where x: "x \<in> set (cd_timers c)" "timer_for t j q x" using pending_timer [OF assms(1) j(2)] by blast
    then have "ti_id x \<noteq> pp_timer p"
      using pending_unique [OF assms(1) j(2) assms(2)] j(1) by (auto simp: timer_for_def)
    with x show ?thesis by blast
  qed
  moreover have "pp_dueAt q \<le> pp_firstEditAt q + cd_maxDebounceMs c" if "cd_pending c j = Some q" for j q
    using assms(1) that by (simp add: coordinated_def)
  moreover have "distinct (map ti_id (cd_timers c))" "\<forall>x \<in> set (cd_timers c). ti_id x < cd_next c"
    using assms(1) by (simp_all add: coordinated_def)
  ultimately show ?thesis
    unfolding coordinated_def dropped_def clearTimeout_def
    by (simp add: distinct_map_filter) (meson bexE)
qed

lemma coordinated_cancel: "coordinated t c \<Longrightarrow> coordinated t (snd (cancel i c))"
  using coordinated_dropped [of t c i] by (auto simp: cancel_def dropped_def split: option.split)

lemma coordinated_triggered [simp]: "coordinated t (c\<lparr>cd_triggered := l\<rparr>) = coordinated t c"
  by (simp add: coordinated_def)

text \<open>A new timer for a canvas without a pending preview.\<close>

lemma coordinated_new_timer:
  assumes "coordinated t c" and "cd_pending c i = None" and "timer_for t i p x" and "ti_id x = cd_next c"
    and "pp_dueAt p \<le> pp_firstEditAt p + cd_maxDebounceMs c"
  shows "coordinated t (c\<lparr>cd_timers := cd_timers c @ [x], cd_next := Suc (cd_next c), cd_pending := (cd_pending c)(i \<mapsto> p)\<rparr>)"
proof -
  have c: "distinct (map ti_id (cd_timers c))" "\<forall>y \<in> set (cd_timers c). ti_id y < cd_next c"
    "\<forall>y \<in> set (cd_timers c). \<exists>j q. cd_pending c j = Some q \<and> timer_for t j q y"
    "\<forall>j q. cd_pending c j = Some q \<longrightarrow> (\<exists>y \<in> set (cd_timers c). timer_for t j q y) \<and>
       pp_dueAt q \<le> pp_firstEditAt q + cd_maxDebounceMs c"
    using assms(1) unfolding coordinated_def by blast+
  have "\<exists>j q. ((cd_pending c)(i \<mapsto> p)) j = Some q \<and> timer_for t j q y" if "y \<in> set (cd_timers c)" for y
    using c(3) that assms(2) by (metis fun_upd_other option.distinct(1))
  moreover have "cd_next c \<notin> ti_id ` set (cd_timers c)" using c(2) by auto
  moreover have "\<forall>y \<in> set (cd_timers c). ti_id y < Suc (cd_next c)" using c(2) by auto
  ultimately show ?thesis using c(1,4) assms(3-5) by (auto simp: coordinated_def)
qed

lemma coordinated_schedule:
  assumes "coordinated t c"
  shows "coordinated t (snd (scheduleEdit i r h t c))"
proof (cases "cd_enabled c")
  case True
  define d where "d = (case cd_pending c i of None \<Rightarrow> c | Some p \<Rightarrow> dropped i (pp_timer p) c)"
  let ?p = "\<lparr> pp_timer = cd_next c, pp_firstEditAt = first_edit i t c, pp_dueAt = due_at i t c, pp_revision = r, pp_handler = h \<rparr>"
  let ?x = "\<lparr> ti_id = cd_next c, ti_dueAt = t + max 0 (due_at i t c - t), ti_trigger = \<lparr> tr_canvasId = i, tr_revision = r,
    tr_reason = (if due_at i t c = first_edit i t c + cd_maxDebounceMs c then MaxDebounce else Debounce), tr_handler = h \<rparr> \<rparr>"
  have d: "coordinated t d" "cd_pending d i = None" "cd_next d = cd_next c" "cd_maxDebounceMs d = cd_maxDebounceMs c"
    using assms coordinated_dropped [OF assms] by (auto simp: d_def dropped_def clearTimeout_def split: option.split)
  have "timer_for t i ?p ?x" by (auto simp: timer_for_def intro!: exI [of _ t])
  then have "coordinated t (d\<lparr>cd_timers := cd_timers d @ [?x], cd_next := Suc (cd_next d), cd_pending := (cd_pending d)(i \<mapsto> ?p)\<rparr>)"
    using d by (intro coordinated_new_timer) (simp_all add: due_at_def)
  moreover have "snd (scheduleEdit i r h t c) =
      d\<lparr>cd_timers := cd_timers d @ [?x], cd_next := Suc (cd_next d), cd_pending := (cd_pending d)(i \<mapsto> ?p)\<rparr>"
    using True by (simp add: scheduleEdit_def d_def clear_pending_def dropped_def clearTimeout_def Let_def split: option.split)
  ultimately show ?thesis by simp
qed (use assms in \<open>simp add: scheduleEdit_def\<close>)

section \<open>Timers that go off\<close>

text \<open>In a coordinated state a timer that goes off triggers its preview, and only it.\<close>

lemma fire_armed:
  assumes "coordinated t c" and "x \<in> set (cd_timers c)"
  shows "fire (ti_id x) s c = (dropped (tr_canvasId (ti_trigger x)) (ti_id x) c)
    \<lparr>cd_triggered := cd_triggered c @ [(s, ti_trigger x)]\<rparr>"
proof -
  obtain y where y: "find (\<lambda>y. ti_id y = ti_id x) (cd_timers c) = Some y"
    using assms(2) by (metis (mono_tags, lifting) find_None_conv option.exhaust)
  then have "y = x" using find_Some_conv [OF y] timers_unique [OF assms(1) _ assms(2)] by blast
  obtain p where "cd_pending c (tr_canvasId (ti_trigger x)) = Some p" "pp_timer p = ti_id x"
    using timer_pending [OF assms] by (metis timer_for_def)
  then show ?thesis by (simp add: fire_def y \<open>y = x\<close> Let_def clearTimeout_def dropped_def)
qed

lemma coordinated_fire:
  assumes "coordinated t c" and "x \<in> set (cd_timers c)"
  shows "coordinated t (fire (ti_id x) s c)"
proof -
  obtain p where "cd_pending c (tr_canvasId (ti_trigger x)) = Some p" "ti_id x = pp_timer p"
    using timer_pending [OF assms] by (metis timer_for_def)
  then have "coordinated t (dropped (tr_canvasId (ti_trigger x)) (ti_id x) c)"
    using coordinated_dropped [OF assms(1)] by metis
  then show ?thesis by (simp add: fire_armed [OF assms])
qed

lemma fire_all:
  assumes "coordinated t c" and "set xs \<subseteq> set (cd_timers c)" and "distinct xs"
  shows "coordinated t (fold (\<lambda>x. fire (ti_id x) s) xs c) \<and>
    cd_timers (fold (\<lambda>x. fire (ti_id x) s) xs c) = filter (\<lambda>x. x \<notin> set xs) (cd_timers c) \<and>
    cd_triggered (fold (\<lambda>x. fire (ti_id x) s) xs c) = cd_triggered c @ map (\<lambda>x. (s, ti_trigger x)) xs \<and>
    cd_pending (fold (\<lambda>x. fire (ti_id x) s) xs c) =
      (\<lambda>i. if i \<in> (\<lambda>x. tr_canvasId (ti_trigger x)) ` set xs then None else cd_pending c i)"
  using assms
proof (induction xs arbitrary: c)
  case (Cons x xs)
  let ?d = "fire (ti_id x) s c"
  have x: "x \<in> set (cd_timers c)" using Cons.prems by simp
  have d: "?d = (dropped (tr_canvasId (ti_trigger x)) (ti_id x) c)\<lparr>cd_triggered := cd_triggered c @ [(s, ti_trigger x)]\<rparr>"
    by (rule fire_armed [OF Cons.prems(1) x])
  have timers: "cd_timers ?d = filter (\<lambda>y. y \<noteq> x) (cd_timers c)"
    unfolding d using timers_unique [OF Cons.prems(1) _ x] by (auto simp: dropped_def clearTimeout_def intro!: filter_cong)
  have triggered: "cd_triggered ?d = cd_triggered c @ [(s, ti_trigger x)]" unfolding d by simp
  have pending: "cd_pending ?d = (cd_pending c)(tr_canvasId (ti_trigger x) := None)" unfolding d by (simp add: dropped_def)
  have "set xs \<subseteq> set (cd_timers ?d)" using Cons.prems by (auto simp: timers)
  from Cons.IH [OF coordinated_fire [OF Cons.prems(1) x] this] Cons.prems(3)
  show ?case by (simp add: timers triggered pending fun_eq_iff conj_commute)
qed simp

lemma tick_run:
  assumes "coordinated t c"
  shows "coordinated t (happen Tick s c) \<and> cd_timers (happen Tick s c) = filter (\<lambda>x. \<not> ti_dueAt x \<le> s) (cd_timers c) \<and>
    cd_triggered (happen Tick s c) = cd_triggered c @ map (\<lambda>x. (s, ti_trigger x)) (filter (\<lambda>x. ti_dueAt x \<le> s) (cd_timers c)) \<and>
    cd_pending (happen Tick s c) = (\<lambda>i. if \<exists>x \<in> set (cd_timers c). ti_dueAt x \<le> s \<and> tr_canvasId (ti_trigger x) = i
      then None else cd_pending c i)"
proof -
  let ?xs = "filter (\<lambda>x. ti_dueAt x \<le> s) (cd_timers c)"
  have "distinct ?xs" using assms by (simp add: coordinated_def distinct_map)
  moreover have "happen Tick s c = fold (\<lambda>x. fire (ti_id x) s) ?xs c"
    by (simp add: expired_def fold_map comp_def)
  moreover have "filter (\<lambda>x. x \<notin> set ?xs) (cd_timers c) = filter (\<lambda>x. \<not> ti_dueAt x \<le> s) (cd_timers c)"
    by (rule filter_cong) auto
  moreover have "i \<in> (\<lambda>x. tr_canvasId (ti_trigger x)) ` set ?xs \<longleftrightarrow>
      (\<exists>x \<in> set (cd_timers c). ti_dueAt x \<le> s \<and> tr_canvasId (ti_trigger x) = i)" for i by auto
  ultimately show ?thesis using fire_all [OF assms, of ?xs s] by (simp del: happen.simps)
qed

lemma coordinated_happen: "coordinated t c \<Longrightarrow> coordinated t (happen e t c)"
  using tick_run [of t c t] by (cases e) (simp_all add: coordinated_schedule coordinated_cancel triggerExplicit_def Let_def del: happen.simps(4))

lemma coordinated_run:
  "coordinated s c \<Longrightarrow> sorted (s # map fst es) \<Longrightarrow> coordinated (last (s # map fst es)) (coordinate es c)"
proof (induction es arbitrary: s c)
  case (Cons te es)
  obtain t e where te: "te = (t, e)" by (cases te)
  have "coordinated t (happen e t c)"
    using Cons.prems by (intro coordinated_happen) (auto simp: te intro: coordinated_later)
  from Cons.IH [OF this] Cons.prems(2) show ?case by (simp add: te)
qed simp

section \<open>One canvas\<close>

lemma filter_one:
  assumes "distinct xs" and "x \<in> set xs"
  shows "filter (\<lambda>y. y = x) xs = [x]"
proof -
  obtain as bs where xs: "xs = as @ x # bs" using split_list [OF assms(2)] by blast
  then have "x \<notin> set as" "x \<notin> set bs" using assms(1) by auto
  then have "filter (\<lambda>y. y = x) as = []" "filter (\<lambda>y. y = x) bs = []" by (blast intro: filter_False)+
  then show ?thesis unfolding xs by (simp only: filter_append filter.simps if_True append_Nil refl)
qed

text \<open>The timers of a canvas: one when a preview is pending, none otherwise.\<close>

lemma timers_of_canvas:
  assumes "coordinated t c"
  shows "case cd_pending c i of None \<Rightarrow> filter (\<lambda>x. tr_canvasId (ti_trigger x) = i) (cd_timers c) = []
    | Some p \<Rightarrow> \<exists>x. filter (\<lambda>x. tr_canvasId (ti_trigger x) = i) (cd_timers c) = [x] \<and> timer_for t i p x"
proof (cases "cd_pending c i")
  case None
  have "tr_canvasId (ti_trigger x) \<noteq> i" if "x \<in> set (cd_timers c)" for x
    using timer_pending [OF assms that] None by (metis option.distinct(1))
  then have "filter (\<lambda>x. tr_canvasId (ti_trigger x) = i) (cd_timers c) = []" by (blast intro: filter_False)
  with None show ?thesis by simp
next
  case (Some p)
  then obtain x where x: "x \<in> set (cd_timers c)" "timer_for t i p x" using pending_timer [OF assms] by blast
  have only: "tr_canvasId (ti_trigger y) = i \<longleftrightarrow> y = x" if "y \<in> set (cd_timers c)" for y
    using timer_pending [OF assms that] x timers_unique [OF assms that x(1)] Some
    by (metis option.inject timer_for_def)
  have "distinct (cd_timers c)" using assms by (simp add: coordinated_def distinct_map)
  then have "filter (\<lambda>y. y = x) (cd_timers c) = [x]"
    using x(1) by (rule filter_one)
  moreover have "filter (\<lambda>x. tr_canvasId (ti_trigger x) = i) (cd_timers c) = filter (\<lambda>y. y = x) (cd_timers c)"
    by (rule filter_cong) (simp_all add: only)
  ultimately show ?thesis using x(2) Some by simp
qed

text \<open>What is handed to a handler for one canvas.\<close>

definition triggers_of :: "uuid \<Rightarrow> (time \<times> 'h trigger) list \<Rightarrow> (time \<times> 'h trigger) list" where
  "triggers_of i l = filter (\<lambda>(u, x). tr_canvasId x = i) l"

lemma triggers_of_append [simp]: "triggers_of i (a @ b) = triggers_of i a @ triggers_of i b"
  by (simp add: triggers_of_def)

text \<open>\<open>served i p u out q\<close>: of the pending preview \<open>p\<close> of canvas \<open>i\<close>, \<open>out\<close> was triggered until \<open>u\<close> and \<open>q\<close> is
  left: it is untouched, or it was triggered once, when it was due.\<close>

definition served ::
    "'h pending_preview option \<Rightarrow> (time \<times> 'h trigger) list \<Rightarrow> 'h pending_preview option \<Rightarrow> bool" where
  "served p out q \<longleftrightarrow> out = [] \<and> q = p \<or>
     (\<exists>r u x. p = Some r \<and> out = [(u, x)] \<and> tr_revision x = pp_revision r \<and> tr_handler x = pp_handler r \<and>
        pp_dueAt r \<le> u \<and> q = None)"

lemma served_trans: "served p a q \<Longrightarrow> served q b r \<Longrightarrow> served p (a @ b) r"
  by (auto simp: served_def)

lemma tick_serves:
  assumes "coordinated t c"
  shows "\<exists>new. cd_triggered (happen Tick t c) = cd_triggered c @ new \<and>
    served (cd_pending c i) (triggers_of i new) (cd_pending (happen Tick t c) i)"
proof -
  let ?new = "map (\<lambda>x. (t, ti_trigger x)) (filter (\<lambda>x. ti_dueAt x \<le> t) (cd_timers c))"
  let ?mine = "filter (\<lambda>x. tr_canvasId (ti_trigger x) = i) (cd_timers c)"
  have new: "triggers_of i ?new = map (\<lambda>x. (t, ti_trigger x)) (filter (\<lambda>x. ti_dueAt x \<le> t) ?mine)"
    by (simp add: triggers_of_def filter_map comp_def conj_commute)
  have left: "cd_pending (happen Tick t c) i = (if filter (\<lambda>x. ti_dueAt x \<le> t) ?mine = [] then cd_pending c i else None)"
    using tick_run [OF assms, of t] by (auto simp: filter_empty_conv simp del: happen.simps)
  have "served (cd_pending c i) (triggers_of i ?new) (cd_pending (happen Tick t c) i)"
  proof (cases "cd_pending c i")
    case None
    then have "?mine = []" using timers_of_canvas [OF assms, of i] by simp
    then show ?thesis unfolding new left by (simp add: served_def None)
  next
    case (Some p)
    then obtain x where "?mine = [x]" "timer_for t i p x" using timers_of_canvas [OF assms, of i] by auto
    then show ?thesis unfolding new left by (auto simp: served_def Some timer_for_def)
  qed
  then show ?thesis using tick_run [OF assms, of t] by blast
qed

text \<open>Whether a happening is about a canvas.\<close>

fun concerns :: "uuid \<Rightarrow> 'h happening \<Rightarrow> bool" where
  "concerns i (Edit j r h) \<longleftrightarrow> j = i"
| "concerns i (Cancel j) \<longleftrightarrow> j = i"
| "concerns i (Trigger j r h) \<longleftrightarrow> j = i"
| "concerns i Tick \<longleftrightarrow> False"

lemma pending_operations [simp]:
  "cd_pending (clearTimeout n c) = cd_pending c" "cd_pending (clear_pending i c) = cd_pending c"
  "cd_triggered (clearTimeout n c) = cd_triggered c" "cd_triggered (clear_pending i c) = cd_triggered c"
  "cd_triggered (snd (cancel i c)) = cd_triggered c" "cd_triggered (snd (scheduleEdit i r h t c)) = cd_triggered c"
  "cd_pending (snd (cancel i c)) = (cd_pending c)(i := None)"
  by (auto simp: clearTimeout_def clear_pending_def cancel_def scheduleEdit_def Let_def split: option.split)

lemma pending_schedule:
  "cd_enabled c \<Longrightarrow> cd_pending (snd (scheduleEdit i r h t c)) = (cd_pending c)(i \<mapsto>
     \<lparr> pp_timer = cd_next c, pp_firstEditAt = first_edit i t c, pp_dueAt = due_at i t c, pp_revision = r, pp_handler = h \<rparr>)"
  by (simp add: scheduleEdit_def Let_def)

lemma unconcerned_serves:
  assumes "coordinated t c" and "cd_enabled c" and "\<not> concerns i e"
  shows "\<exists>new. cd_triggered (happen e t c) = cd_triggered c @ new \<and>
    served (cd_pending c i) (triggers_of i new) (cd_pending (happen e t c) i)"
proof (cases e)
  case Tick
  then show ?thesis using tick_serves [OF assms(1)] by simp
qed (use assms in \<open>simp_all add: served_def triggers_of_def triggerExplicit_def Let_def pending_schedule\<close>)

text \<open>After the timers were served no preview is overdue.\<close>

lemma none_overdue:
  assumes "coordinated t c" and "cd_pending (happen Tick t c) i = Some p"
  shows "t < pp_dueAt p \<and> t < pp_firstEditAt p + cd_maxDebounceMs (happen Tick t c)"
proof -
  let ?d = "happen Tick t c"
  have d: "coordinated t ?d" "cd_timers ?d = filter (\<lambda>x. \<not> ti_dueAt x \<le> t) (cd_timers c)"
    using tick_run [OF assms(1), of t] by simp_all
  obtain x where "x \<in> set (cd_timers ?d)" "timer_for t i p x" using pending_timer [OF d(1) assms(2)] by blast
  then have "t < pp_dueAt p" using d(2) by (auto simp: timer_for_def)
  moreover have "pp_dueAt p \<le> pp_firstEditAt p + cd_maxDebounceMs ?d" using d(1) assms(2) by (simp add: coordinated_def)
  ultimately show ?thesis by linarith
qed

text \<open>Every step adds to what was triggered, at its own time.\<close>

lemma happen_grows:
  assumes "coordinated t c"
  shows "\<exists>new. cd_triggered (happen e t c) = cd_triggered c @ new \<and> (\<forall>(u, x) \<in> set new. u = t)"
proof (cases e)
  case Tick
  have "\<forall>(u, x) \<in> set (map (\<lambda>x. (t, ti_trigger x)) (filter (\<lambda>x. ti_dueAt x \<le> t) (cd_timers c))). u = t" by auto
  then show ?thesis using tick_run [OF assms, of t] unfolding Tick by blast
qed (simp_all add: triggerExplicit_def Let_def)

lemma coordinate_append: "coordinate (es @ fs) c = coordinate fs (coordinate es c)"
  by (induction es c rule: coordinate.induct) simp_all

text \<open>The configuration never changes.\<close>

definition config :: "'h coordinator \<Rightarrow> time \<times> time \<times> bool" where
  "config c = (cd_debounceMs c, cd_maxDebounceMs c, cd_enabled c)"

lemma config_happen [simp]: "config (happen e t c) = config c"
proof -
  have fire: "config (fire n t c) = config c" for n :: nat and c :: "'a coordinator"
    by (simp add: config_def fire_def clearTimeout_def Let_def split: option.split)
  have "config (fold (\<lambda>n. fire n t) ns c) = config c" for ns
    by (induction ns arbitrary: c) (simp_all add: fire)
  then show ?thesis
    by (cases e) (simp_all add: config_def scheduleEdit_def clear_pending_def cancel_def triggerExplicit_def
      clearTimeout_def Let_def split: option.split)
qed

lemma config_coordinate [simp]: "config (coordinate es c) = config c"
  by (induction es c rule: coordinate.induct) simp_all

section \<open>Runs, one canvas\<close>

lemma coordinated_next:
  assumes "coordinated s c" and "sorted (s # map fst ((t, e) # es))"
  shows "coordinated t c" and "coordinated t (happen e t c)" and "sorted (t # map fst es)"
proof -
  show t: "coordinated t c" using assms by (auto intro: coordinated_later)
  then show "coordinated t (happen e t c)" by (rule coordinated_happen)
  show "sorted (t # map fst es)" using assms(2) by simp
qed

lemma coordinate_grows:
  "coordinated s c \<Longrightarrow> sorted (s # map fst es) \<Longrightarrow> \<exists>new. cd_triggered (coordinate es c) = cd_triggered c @ new"
proof (induction es arbitrary: s c)
  case (Cons te es)
  obtain t e where te: "te = (t, e)" by (cases te)
  note n = coordinated_next [OF Cons.prems(1) Cons.prems(2) [unfolded te]]
  obtain a where "cd_triggered (happen e t c) = cd_triggered c @ a" using happen_grows [OF n(1), of e] by blast
  moreover obtain b where "cd_triggered (coordinate es (happen e t c)) = cd_triggered (happen e t c) @ b"
    using Cons.IH [OF n(2,3)] by blast
  ultimately show ?case by (simp add: te)
qed simp

lemma undisturbed_serves:
  assumes "coordinated s c" and "cd_enabled c" and "sorted (s # map fst es)" and "\<forall>(u, e) \<in> set es. \<not> concerns i e"
  shows "\<exists>new. cd_triggered (coordinate es c) = cd_triggered c @ new \<and>
    served (cd_pending c i) (triggers_of i new) (cd_pending (coordinate es c) i)"
  using assms
proof (induction es arbitrary: s c)
  case Nil
  then show ?case by (simp add: served_def triggers_of_def)
next
  case (Cons te es)
  obtain t e where te: "te = (t, e)" by (cases te)
  note n = coordinated_next [OF Cons.prems(1) Cons.prems(3) [unfolded te]]
  let ?d = "happen e t c"
  have "cd_enabled ?d" using config_happen [of e t c] Cons.prems(2) by (simp add: config_def)
  then obtain b where b: "cd_triggered (coordinate es ?d) = cd_triggered ?d @ b"
    "served (cd_pending ?d i) (triggers_of i b) (cd_pending (coordinate es ?d) i)"
    using Cons.IH [OF n(2) _ n(3)] Cons.prems(4) by auto
  obtain a where a: "cd_triggered ?d = cd_triggered c @ a" "served (cd_pending c i) (triggers_of i a) (cd_pending ?d i)"
    using unconcerned_serves [OF n(1) Cons.prems(2)] Cons.prems(4) te by fastforce
  then show ?case using b served_trans [OF a(2) b(2)] by (intro exI [of _ "a @ b"]) (simp add: te)
qed

text \<open>A pending preview waits, or is triggered, unless it is cancelled; later edits do not start it anew.\<close>

lemma step_waits:
  assumes "coordinated t c" and "cd_enabled c" and "e \<noteq> Cancel i" and "cd_pending c i = Some p"
  shows "(\<exists>new x. cd_triggered (happen e t c) = cd_triggered c @ new \<and> (t, x) \<in> set (triggers_of i new)) \<or>
    (\<exists>q. cd_pending (happen e t c) i = Some q \<and> pp_firstEditAt q = pp_firstEditAt p)"
proof (cases "concerns i e")
  case True
  then show ?thesis
    using assms by (cases e) (auto simp: pending_schedule first_edit_def triggerExplicit_def Let_def triggers_of_def)
next
  case False
  obtain new where new: "cd_triggered (happen e t c) = cd_triggered c @ new"
    "served (cd_pending c i) (triggers_of i new) (cd_pending (happen e t c) i)"
    using unconcerned_serves [OF assms(1,2) False] by blast
  moreover have "\<forall>(u, x) \<in> set new. u = t" using happen_grows [OF assms(1), of e] new(1) by auto
  then have "\<forall>(u, x) \<in> set (triggers_of i new). u = t" by (auto simp: triggers_of_def)
  ultimately show ?thesis using assms(4) by (fastforce simp: served_def)
qed

lemma waits_or_triggers:
  assumes "coordinated s c" and "cd_enabled c" and "sorted (s # map fst es)" and "\<forall>u. (u, Cancel i) \<notin> set es"
    and "cd_pending c i = Some p"
  shows "\<exists>new. cd_triggered (coordinate es c) = cd_triggered c @ new \<and>
    ((\<exists>(u, x) \<in> set (triggers_of i new). s \<le> u) \<or>
     (\<exists>q. cd_pending (coordinate es c) i = Some q \<and> pp_firstEditAt q = pp_firstEditAt p))"
  using assms
proof (induction es arbitrary: s c p)
  case (Cons te es)
  obtain t e where te: "te = (t, e)" by (cases te)
  note n = coordinated_next [OF Cons.prems(1) Cons.prems(3) [unfolded te]]
  have st: "s \<le> t" using Cons.prems(3) by (simp add: te)
  let ?d = "happen e t c"
  have d: "cd_enabled ?d" using config_happen [of e t c] Cons.prems(2) by (simp add: config_def)
  have "e \<noteq> Cancel i" using Cons.prems(4) by (auto simp: te)
  from step_waits [OF n(1) Cons.prems(2) this Cons.prems(5)] show ?case
  proof (elim disjE exE conjE)
    fix a x
    assume a: "cd_triggered ?d = cd_triggered c @ a" "(t, x) \<in> set (triggers_of i a)"
    obtain b where "cd_triggered (coordinate es ?d) = cd_triggered ?d @ b" using coordinate_grows [OF n(2,3)] by blast
    then have "cd_triggered (coordinate (te # es) c) = cd_triggered c @ a @ b" by (simp add: te a(1))
    moreover have "\<exists>(u, x) \<in> set (triggers_of i (a @ b)). s \<le> u" using a(2) st by auto
    ultimately show ?thesis by blast
  next
    fix q
    assume q: "cd_pending ?d i = Some q" "pp_firstEditAt q = pp_firstEditAt p"
    obtain a where a: "cd_triggered ?d = cd_triggered c @ a" using happen_grows [OF n(1)] by blast
    obtain b where b: "cd_triggered (coordinate es ?d) = cd_triggered ?d @ b"
      "(\<exists>(u, x) \<in> set (triggers_of i b). t \<le> u) \<or>
       (\<exists>r. cd_pending (coordinate es ?d) i = Some r \<and> pp_firstEditAt r = pp_firstEditAt q)"
      using Cons.IH [OF n(2) d n(3) _ q(1)] Cons.prems(4) by auto
    then have "cd_triggered (coordinate (te # es) c) = cd_triggered c @ a @ b" by (simp add: te a)
    moreover have "(\<exists>(u, x) \<in> set (triggers_of i (a @ b)). s \<le> u) \<or>
       (\<exists>r. cd_pending (coordinate (te # es) c) i = Some r \<and> pp_firstEditAt r = pp_firstEditAt p)"
      using b(2)
    proof (elim disjE bexE)
      fix y
      assume "y \<in> set (triggers_of i b)" "case y of (u, x) \<Rightarrow> t \<le> u"
      then have "y \<in> set (triggers_of i (a @ b))" "case y of (u, x) \<Rightarrow> s \<le> u" using st by (auto split: prod.splits)
      then show ?thesis by blast
    qed (simp add: te q(2))
    ultimately show ?thesis by blast
  qed
qed simp

text \<open>The first edit of a pending preview is one of the run.\<close>

lemma first_edit_happened:
  assumes "coordinated s c" and "cd_enabled c" and "sorted (s # map fst es)" and "cd_pending (coordinate es c) i = Some p"
  shows "(\<exists>q. cd_pending c i = Some q \<and> pp_firstEditAt q = pp_firstEditAt p) \<or> (\<exists>r h. (pp_firstEditAt p, Edit i r h) \<in> set es)"
  using assms
proof (induction es arbitrary: s c)
  case (Cons te es)
  obtain t e where te: "te = (t, e)" by (cases te)
  note n = coordinated_next [OF Cons.prems(1) Cons.prems(3) [unfolded te]]
  let ?d = "happen e t c"
  have d: "cd_enabled ?d" using config_happen [of e t c] Cons.prems(2) by (simp add: config_def)
  have "(\<exists>q. cd_pending ?d i = Some q \<and> pp_firstEditAt q = pp_firstEditAt p) \<or> (\<exists>r h. (pp_firstEditAt p, Edit i r h) \<in> set es)"
    using Cons.IH [OF n(2) d n(3)] Cons.prems(4) by (simp add: te)
  moreover have "(\<exists>q. cd_pending c i = Some q \<and> pp_firstEditAt q = pp_firstEditAt p) \<or> (\<exists>r h. (pp_firstEditAt p, Edit i r h) = te)"
    if q: "cd_pending ?d i = Some q" "pp_firstEditAt q = pp_firstEditAt p" for q
  proof (cases "concerns i e")
    case True
    then show ?thesis
      using q Cons.prems(2) by (cases e) (auto simp: te pending_schedule first_edit_def triggerExplicit_def Let_def
        split: option.splits)
  next
    case False
    then show ?thesis using unconcerned_serves [OF n(1) Cons.prems(2) False] q by (auto simp: served_def)
  qed
  ultimately show ?case by auto
qed simp

end
