(* ===== verification/Previews.thy ===== *)
theory Previews
  imports Jobs CanvasSnapshots PreviewEvent Coordinator
begin

text \<open>
  Requests for AI previews of a canvas, \<open>src/modules/canvas/services/canvas-ai-preview.service.ts\<close>: a request
  freezes the canvas as a snapshot in the object store, queues a task with a reservation of usage, supersedes
  the older ones and announces the task in the outbox. The ids are of version 5, computed from the request;
  like other fresh ids, they are refused when a row has them.
\<close>

section \<open>State\<close>

datatype AiPreviewSnapshotStatus = PENDING | AVAILABLE | SUPERSEDED | FAILED

fun snapshot_status_str :: "AiPreviewSnapshotStatus \<Rightarrow> string" where
  "snapshot_status_str AiPreviewSnapshotStatus.PENDING = ''pending''"
| "snapshot_status_str AVAILABLE = ''available''"
| "snapshot_status_str AiPreviewSnapshotStatus.SUPERSEDED = ''superseded''"
| "snapshot_status_str AiPreviewSnapshotStatus.FAILED = ''failed''"

record preview_snapshot =
  sn_id :: uuid
  sn_organizationId :: uuid
  sn_workspaceId :: uuid
  sn_projectId :: "uuid option"
  sn_canvasId :: uuid
  sn_snapshotVersion :: int
  sn_canvasRevision :: int
  sn_status :: AiPreviewSnapshotStatus
  sn_storageBucket :: string
  sn_storageKey :: string
  sn_checksumSha256 :: string
  sn_contentType :: string
  sn_sizeBytes :: int
  sn_previewStatus :: string
  sn_previewBucket :: "string option"
  sn_previewKey :: "string option"
  sn_previewChecksumSha256 :: "string option"
  sn_createdBy :: uuid
  sn_createdAt :: time
  sn_supersededBySnapshotId :: "uuid option"

record preview_request_dto =
  pd_operation :: string
  pd_user_prompt :: string
  pd_selected_element_ids :: "string list"
  pd_locked_element_ids :: "string list"
  pd_editable_element_ids :: "string list"
  pd_source_ids :: "string list"
  pd_desired_width :: int
  pd_desired_height :: int
  pd_auto_apply :: bool

record preview_target =
  tg_operation :: string
  tg_selectedElementIds :: "string list"
  tg_lockedElementIds :: "string list"
  tg_editableElementIds :: "string list"
  tg_sourceIds :: "string list"
  tg_userPrompt :: string
  tg_desiredWidth :: int
  tg_desiredHeight :: int

record preview_response =
  pr_taskId :: uuid
  pr_snapshotId :: uuid
  pr_snapshotVersion :: int
  pr_canvasRevision :: int
  pr_status :: JobStatus

record persisted_preview =
  ps_task :: ai_task
  ps_snapshot :: preview_snapshot
  ps_createdSnapshot :: bool
  ps_duplicate :: bool
  ps_superseded :: "(uuid \<times> uuid) list"

text \<open>
  \<open>uuid_v5\<close> is the function of the package \<open>uuid\<close> in the namespace of previews, \<open>coordinator\<close> the debouncing
  service with the automatic requests as handlers, \<open>stored_snapshot\<close> the variable of the current request that
  remembers what it stored.
\<close>

type_synonym automatic_request = "uuid \<times> canvas \<times> request_user"

record preview_state = jobs_state +
  canvas_rows :: "canvas list"
  object_rows :: "canvas_object list"
  preview_snapshots :: "preview_snapshot list"
  ai_enabled :: bool
  uuid_v5 :: "string \<Rightarrow> uuid"
  coordinator :: "automatic_request coordinator"
  stored_snapshot :: "stored_object option"

interpretation snapshot_repo:
  keyed_store sn_id "find_row sn_id" "save_row sn_id" "remove_row sn_id" set "keyed sn_id"
  by (rule keyed_store_rows) simp_all

section \<open>Targets and keys\<close>

definition normalizeTarget :: "preview_request_dto \<Rightarrow> preview_target" where
  "normalizeTarget d = \<lparr> tg_operation = pd_operation d, tg_selectedElementIds = sort (pd_selected_element_ids d),
     tg_lockedElementIds = sort (pd_locked_element_ids d), tg_editableElementIds = sort (pd_editable_element_ids d),
     tg_sourceIds = sort (pd_source_ids d), tg_userPrompt = pd_user_prompt d, tg_desiredWidth = pd_desired_width d,
     tg_desiredHeight = pd_desired_height d \<rparr>"

definition target_json :: "preview_target \<Rightarrow> json" where
  "target_json g = JObj [(''operation'', JStr (tg_operation g)), (''selectedElementIds'', strings (tg_selectedElementIds g)),
     (''lockedElementIds'', strings (tg_lockedElementIds g)), (''editableElementIds'', strings (tg_editableElementIds g)),
     (''sourceIds'', strings (tg_sourceIds g)), (''userPrompt'', JStr (tg_userPrompt g)),
     (''desiredWidth'', json_int (tg_desiredWidth g)), (''desiredHeight'', json_int (tg_desiredHeight g)),
     (''autoApply'', JBool False)]"

definition sameTarget :: "json \<Rightarrow> preview_target \<Rightarrow> bool" where
  "sameTarget payload g \<longleftrightarrow> json_text payload = json_text (target_json g)"

definition MAX_IDEMPOTENCY_KEY_LENGTH :: nat where "MAX_IDEMPOTENCY_KEY_LENGTH = 160"

text \<open>\<open>/^[\x21-\x7e]+$/\<close>.\<close>

definition printable :: "char \<Rightarrow> bool" where
  "printable c \<longleftrightarrow> 33 \<le> (of_char c :: nat) \<and> (of_char c :: nat) \<le> 126"

definition normalizeIdempotencyKey ::
    "(string \<Rightarrow> string) \<Rightarrow> uuid \<Rightarrow> uuid \<Rightarrow> uuid \<Rightarrow> string option \<Rightarrow> exn + string" where
  "normalizeIdempotencyKey sha ws canvasId userId raw = (case raw of
     None \<Rightarrow> Inl (BadRequest (JStr ''Idempotency-Key must contain 1-160 printable non-space ASCII characters''))
   | Some k \<Rightarrow>
       if k = [] \<or> MAX_IDEMPOTENCY_KEY_LENGTH < length k \<or> \<not> list_all printable k
       then Inl (BadRequest (JStr ''Idempotency-Key must contain 1-160 printable non-space ASCII characters''))
       else Inr (''canvas-preview:'' @ sha (ws @ '':'' @ canvasId @ '':'' @ userId @ '':'' @ k)))"

definition locked_editable_disjoint :: "preview_target \<Rightarrow> bool" where
  "locked_editable_disjoint g \<longleftrightarrow> \<not> list_ex (\<lambda>i. i \<in> set (tg_lockedElementIds g)) (tg_editableElementIds g)"

definition unknown_elements :: "uuid list \<Rightarrow> preview_target \<Rightarrow> string list" where
  "unknown_elements known g = filter (\<lambda>i. i \<notin> set known)
     (tg_selectedElementIds g @ tg_lockedElementIds g @ tg_editableElementIds g)"

definition assertElementReferences :: "snapshot_element list \<Rightarrow> preview_target \<Rightarrow> ('s, unit) action" where
  "assertElementReferences elements g = (case sort (remdups (unknown_elements (map el_id elements) g)) of
     [] \<Rightarrow> ok () | i # _ \<Rightarrow> throw (BadRequest (JStr (''Unknown canvas element ID: '' @ i))))"

text \<open>The count leaves deleted sources out.\<close>

definition assertSourcesInTenant :: "uuid list \<Rightarrow> uuid \<Rightarrow> uuid \<Rightarrow> ('z sources_state_scheme, unit) action" where
  "assertSourcesInTenant ids org ws =
     (if ids = [] then ok () else
      await (reads (\<lambda>s. length (filter (\<lambda>x. src_id x \<in> set ids \<and> src_organizationId x = org \<and>
               src_workspaceId x = ws \<and> src_deletedAt x = None) (sources s)))) (\<lambda>n.
      require (n = length ids) (BadRequest (JStr ''Every source_id must belong to the requested workspace''))))"

section \<open>Tasks and snapshots\<close>

definition find_preview_task :: "string \<Rightarrow> uuid \<Rightarrow> uuid \<Rightarrow> uuid \<Rightarrow> 'z jobs_state_scheme \<Rightarrow> ai_task option" where
  "find_preview_task key org ws canvasId s = find (\<lambda>t. at_idempotencyKey t = key \<and> at_organizationId t = org \<and>
     at_workspaceId t = ws \<and> at_canvasId t = Some canvasId) (ai_tasks s)"

definition active_previews :: "uuid \<Rightarrow> uuid \<Rightarrow> uuid \<Rightarrow> 'z jobs_state_scheme \<Rightarrow> ai_task list" where
  "active_previews org ws canvasId s = filter (\<lambda>t. at_organizationId t = org \<and> at_workspaceId t = ws \<and>
     at_canvasId t = Some canvasId \<and> at_status t \<in> ACTIVE_STATUSES) (ai_tasks s)"

definition requireTaskSnapshot :: "ai_task \<Rightarrow> ('z preview_state_scheme, preview_snapshot) action" where
  "requireTaskSnapshot t =
     await (some_or_throw (at_snapshotId t) (ServerError ''Canvas preview task is missing snapshot lineage'')) (\<lambda>i.
     await (reads (\<lambda>s. find (\<lambda>n. sn_id n = i \<and> sn_organizationId n = at_organizationId t \<and>
              sn_workspaceId n = at_workspaceId t) (preview_snapshots s))) (\<lambda>found.
     some_or_throw found (ServerError ''Canvas preview snapshot lineage is missing'')))"

definition responseFromTask :: "ai_task \<Rightarrow> ('s, preview_response) action" where
  "responseFromTask t = (case (at_snapshotId t, at_snapshotVersion t, at_canvasRevision t) of
     (Some i, Some v, Some r) \<Rightarrow> ok \<lparr> pr_taskId = at_id t, pr_snapshotId = i, pr_snapshotVersion = v,
       pr_canvasRevision = r, pr_status = at_status t \<rparr>
   | _ \<Rightarrow> throw (ServerError ''Canvas preview task is missing snapshot lineage''))"

text \<open>
  The constraints of \<open>ai_preview_snapshot\<close> that a new row can violate. The ids of a preview are derived from its key:
  a row that has one already would be the row of the same request, which is looked for before.
\<close>

definition insert_snapshot :: "preview_snapshot \<Rightarrow> ('z preview_state_scheme, preview_snapshot) action" where
  "insert_snapshot n =
     await (reads preview_snapshots) (\<lambda>rows.
     await (require (sn_id n \<notin> sn_id ` set rows) (QueryFailed ''ai_preview_snapshot_pkey'')) (\<lambda>_.
     await (require (\<not> list_ex (\<lambda>r. sn_canvasId r = sn_canvasId n \<and> sn_snapshotVersion r = sn_snapshotVersion n) rows)
              (QueryFailed ''uq_ai_preview_snapshot_canvas_version'')) (\<lambda>_.
     await (require (\<not> list_ex (\<lambda>r. sn_storageBucket r = sn_storageBucket n \<and> sn_storageKey r = sn_storageKey n) rows)
              (QueryFailed ''uq_ai_preview_snapshot_storage'')) (\<lambda>_.
     await (require (sn_storageKey n = snapshotKey (sn_organizationId n) (sn_workspaceId n) (sn_canvasId n) (sn_id n)
              (sn_snapshotVersion n)) (QueryFailed ''ck_ai_preview_snapshot_storage_key'')) (\<lambda>_.
     await (require (hex_digest (sn_checksumSha256 n)) (QueryFailed ''ck_ai_preview_snapshot_checksum'')) (\<lambda>_.
     await current_time (\<lambda>t. let saved = n\<lparr>sn_createdAt := t\<rparr> in
     await (writes (preview_snapshots_update (\<lambda>l. l @ [saved]))) (\<lambda>_. ok saved))))))))"

definition insert_preview_task :: "ai_task \<Rightarrow> ('z jobs_state_scheme, ai_task) action" where
  "insert_preview_task x =
     await (reads (\<lambda>s. at_id x \<notin> at_id ` set (ai_tasks s))) (\<lambda>free.
     await (require free (QueryFailed ''ai_task_pkey'')) (\<lambda>_.
     await (reads (\<lambda>s. at_idempotencyKey x \<notin> at_idempotencyKey ` set (ai_tasks s))) (\<lambda>fresh.
     await (require fresh (QueryFailed ''ai_task_idempotency_key_key'')) (\<lambda>_.
     await current_time (\<lambda>u. let saved = x\<lparr>at_createdAt := u\<rparr> in
     await (writes (ai_tasks_update (\<lambda>l. l @ [saved\<lparr>at_requestPayload := jsonb (at_requestPayload saved)\<rparr>]))) (\<lambda>_.
     ok saved))))))"

definition put_snapshot ::
    "object_context \<Rightarrow> uuid \<Rightarrow> uuid \<Rightarrow> int \<Rightarrow> string \<Rightarrow> ('z preview_state_scheme, stored_object) action" where
  "put_snapshot ctx canvasId snapshotId version bytes =
     await (reads (\<lambda>s. storeSnapshot (sha256 s) (bucket_names (env s)) ctx (js canvasId) (js snapshotId) version bytes)) (\<lambda>r.
     await (lift r) (\<lambda>(call, stored).
     await (ask_store call) (\<lambda>_.
     await (writes (stored_snapshot_update (\<lambda>_. Some stored))) (\<lambda>_. ok stored))))"

section \<open>The steps of a request\<close>

text \<open>The canvas and its workflow; a canvas without a workspace is bound to the one of the request.\<close>

definition lock_canvas ::
    "uuid \<Rightarrow> uuid \<Rightarrow> uuid \<Rightarrow> ('z preview_state_scheme, canvas \<times> workflow) action" where
  "lock_canvas ws canvasId org =
     await (reads (\<lambda>s. find_row cv_id canvasId (canvas_rows s))) (\<lambda>found.
     await (some_or_throw found (NotFound ''Canvas not found'')) (\<lambda>c.
     await (findWorkflowInOrgOrThrow (cv_workflowId c) org ''Canvas not found'') (\<lambda>w.
     await (require (cv_workspaceId c = None \<or> cv_workspaceId c = Some ws)
              (Forbidden ''Canvas belongs to another workspace'')) (\<lambda>_.
     if cv_workspaceId c = None then
       await current_time (\<lambda>t. let c' = c\<lparr>cv_workspaceId := Some ws, cv_updatedAt := t\<rparr> in
       await (writes (canvas_rows_update (save_row cv_id c'))) (\<lambda>_. ok (c', w)))
     else ok (c, w)))))"

definition serialize_canvas ::
    "uuid \<Rightarrow> int \<Rightarrow> ('z preview_state_scheme, serialization_result) action" where
  "serialize_canvas canvasId revision =
     await (reads (\<lambda>s. serialize (uuid_ok (env s)) (sha256 s) (canvas_rows s) (object_rows s) canvasId (Some revision)))
       lift"

definition next_version :: "uuid \<Rightarrow> 'z preview_state_scheme \<Rightarrow> int" where
  "next_version canvasId s = 1 + (case first_row (sort_desc sn_snapshotVersion
     (filter (\<lambda>n. sn_canvasId n = canvasId) (preview_snapshots s))) of None \<Rightarrow> 0 | Some n \<Rightarrow> sn_snapshotVersion n)"

definition available_snapshot ::
    "uuid \<Rightarrow> uuid \<Rightarrow> uuid \<Rightarrow> int \<Rightarrow> 'z preview_state_scheme \<Rightarrow> preview_snapshot option" where
  "available_snapshot org ws canvasId revision s = first_row (sort_desc sn_snapshotVersion
     (filter (\<lambda>n. sn_organizationId n = org \<and> sn_workspaceId n = ws \<and> sn_canvasId n = canvasId \<and>
        sn_canvasRevision n = revision \<and> sn_status n = AVAILABLE) (preview_snapshots s)))"

definition new_snapshot ::
    "uuid \<Rightarrow> uuid \<Rightarrow> uuid \<Rightarrow> uuid option \<Rightarrow> uuid \<Rightarrow> int \<Rightarrow> int \<Rightarrow> stored_object \<Rightarrow> uuid \<Rightarrow> preview_snapshot" where
  "new_snapshot i org ws project canvasId version revision stored userId = \<lparr> sn_id = i, sn_organizationId = org,
     sn_workspaceId = ws, sn_projectId = project, sn_canvasId = canvasId, sn_snapshotVersion = version,
     sn_canvasRevision = revision, sn_status = AVAILABLE, sn_storageBucket = so_bucket stored,
     sn_storageKey = unjs (so_key stored), sn_checksumSha256 = so_checksumSha256 stored,
     sn_contentType = ''application/json'', sn_sizeBytes = int (so_sizeBytes stored), sn_previewStatus = ''pending'',
     sn_previewBucket = None, sn_previewKey = None, sn_previewChecksumSha256 = None, sn_createdBy = userId,
     sn_createdAt = 0, sn_supersededBySnapshotId = None \<rparr>"

definition freeze ::
    "uuid \<Rightarrow> uuid \<Rightarrow> uuid \<Rightarrow> int \<Rightarrow> uuid \<Rightarrow> uuid option \<Rightarrow> uuid \<Rightarrow> preview_target \<Rightarrow>
     ('z preview_state_scheme, preview_snapshot \<times> bool) action" where
  "freeze org ws canvasId revision snapshotId project userId target =
     await (reads (available_snapshot org ws canvasId revision)) (\<lambda>found.
     case found of
       Some n \<Rightarrow>
         await (serialize_canvas canvasId revision) (\<lambda>z.
         await (assertElementReferences (doc_elements (sz_document z)) target) (\<lambda>_. ok (n, False)))
     | None \<Rightarrow>
         await (reads (next_version canvasId)) (\<lambda>version.
         await (serialize_canvas canvasId revision) (\<lambda>z.
         await (assertElementReferences (doc_elements (sz_document z)) target) (\<lambda>_.
         await (put_snapshot (context_of org ws) canvasId snapshotId version (sz_jsonBytes z)) (\<lambda>stored.
         await (require (so_bucket stored = ''workspace-snapshots'' \<and> so_checksumSha256 stored = sz_checksumSha256 z \<and>
                  so_sizeBytes stored = sz_sizeBytes z)
                  (ServerError ''Stored snapshot metadata does not match the frozen bytes'')) (\<lambda>_.
         await (insert_snapshot (new_snapshot snapshotId org ws project canvasId version revision stored userId)) (\<lambda>n.
         ok (n, True))))))))"

definition preview_task ::
    "uuid \<Rightarrow> uuid \<Rightarrow> uuid \<Rightarrow> uuid \<Rightarrow> preview_target \<Rightarrow> string \<Rightarrow> string \<Rightarrow> uuid \<Rightarrow> uuid \<Rightarrow> preview_snapshot \<Rightarrow> int \<Rightarrow> ai_task" where
  "preview_task i org ws userId target correlation key reservation canvasId n revision = \<lparr> at_id = i,
     at_organizationId = org, at_workspaceId = ws, at_userId = userId, at_taskType = ''canvas.ai.preview.validate'',
     at_status = JobStatus.QUEUED, at_progress = 0, at_currentStep = Some ''snapshot_queued'',
     at_requestPayload = target_json target, at_resultPayload = None, at_errorCode = None, at_errorMessage = None,
     at_correlationId = correlation, at_idempotencyKey = key, at_usageReservationId = reservation,
     at_canvasId = Some canvasId, at_snapshotId = Some (sn_id n), at_snapshotVersion = Some (sn_snapshotVersion n),
     at_canvasRevision = Some revision, at_supersededByTaskId = None, at_createdAt = 0, at_startedAt = None,
     at_completedAt = None, at_cancelledAt = None \<rparr>"

definition older_previews :: "uuid \<Rightarrow> uuid \<Rightarrow> uuid \<Rightarrow> uuid \<Rightarrow> int \<Rightarrow> 'z jobs_state_scheme \<Rightarrow> ai_task list" where
  "older_previews org ws canvasId taskId revision s = filter (\<lambda>t. at_id t \<noteq> taskId \<and>
     (case at_canvasRevision t of None \<Rightarrow> False | Some r \<Rightarrow> r < revision)) (active_previews org ws canvasId s)"

definition supersede_task :: "uuid \<Rightarrow> ai_task \<Rightarrow> ('z jobs_state_scheme, unit) action" where
  "supersede_task newer t =
     await (save_task (t\<lparr>at_status := JobStatus.SUPERSEDED, at_supersededByTaskId := Some newer\<rparr>)) (\<lambda>_.
     await (releaseUsage (at_usageReservationId t)) (\<lambda>_. ok ()))"

definition superseded_of :: "ai_task list \<Rightarrow> (uuid \<times> uuid) list" where
  "superseded_of ts = concat (map (\<lambda>t. case at_snapshotId t of None \<Rightarrow> [] | Some i \<Rightarrow> [(at_id t, i)]) ts)"

definition supersede_snapshot :: "uuid \<Rightarrow> uuid \<Rightarrow> uuid \<Rightarrow> uuid \<Rightarrow> uuid \<Rightarrow> ('z preview_state_scheme, unit) action" where
  "supersede_snapshot org ws canvasId newer i =
     await (reads (\<lambda>s. find (\<lambda>n. sn_id n = i \<and> sn_organizationId n = org \<and> sn_workspaceId n = ws \<and>
              sn_canvasId n = canvasId) (preview_snapshots s))) (\<lambda>found.
     case found of None \<Rightarrow> ok () | Some n \<Rightarrow>
       await (require (sn_id n \<noteq> newer) (QueryFailed ''ck_ai_preview_snapshot_not_self_superseded'')) (\<lambda>_.
       writes (preview_snapshots_update (save_row sn_id (n\<lparr>sn_status := AiPreviewSnapshotStatus.SUPERSEDED,
         sn_supersededBySnapshotId := Some newer\<rparr>)))))"

definition preview_event_of ::
    "uuid \<Rightarrow> uuid \<Rightarrow> uuid \<Rightarrow> uuid option \<Rightarrow> string \<Rightarrow> uuid \<Rightarrow> uuid \<Rightarrow> uuid \<Rightarrow> int \<Rightarrow> preview_snapshot \<Rightarrow> preview_target \<Rightarrow>
     preview_event_input" where
  "preview_event_of eventId org ws project correlation userId taskId canvasId revision n g = \<lparr> pi_eventId = Some eventId,
     pi_occurredAt = None, pi_organizationId = org, pi_workspaceId = ws, pi_projectId = project,
     pi_correlationId = correlation, pi_causationId = None, pi_actorType = ''user'', pi_actorId = userId,
     pi_taskId = taskId, pi_canvasId = canvasId, pi_canvasRevision = revision, pi_snapshotId = sn_id n,
     pi_snapshotVersion = sn_snapshotVersion n, pi_storageBucket = ''workspace-snapshots'',
     pi_storageKey = sn_storageKey n, pi_checksumSha256 = sn_checksumSha256 n, pi_previewStatus = ''pending'',
     pi_previewBucket = None, pi_previewKey = None, pi_previewChecksumSha256 = None, pi_operation = tg_operation g,
     pi_selectedElementIds = tg_selectedElementIds g, pi_lockedElementIds = tg_lockedElementIds g,
     pi_editableElementIds = tg_editableElementIds g, pi_sourceIds = tg_sourceIds g,
     pi_userPrompt = tg_userPrompt g, pi_desiredWidth = tg_desiredWidth g, pi_desiredHeight = tg_desiredHeight g \<rparr>"

definition announce ::
    "uuid \<Rightarrow> uuid \<Rightarrow> string \<Rightarrow> preview_event_input \<Rightarrow> ('z jobs_state_scheme, unit) action" where
  "announce eventId snapshotId correlation i =
     await gen_uuid (\<lambda>fresh.
     await (reads (\<lambda>s. createCanvasAiPreviewRequestedEvent (uuid_ok (env s)) (parse_date (env s)) fresh
              (iso_string (now s)) i)) (\<lambda>r.
     await (lift r) (\<lambda>event.
     await (outbox_create \<lparr> oi_aggregateType = ''ai_preview_snapshot'', oi_aggregateId = snapshotId,
              oi_eventType = CANVAS_AI_PREVIEW_REQUESTED, oi_payload = event, oi_correlationId = correlation \<rparr>
            \<lparr> oo_eventId = Some eventId, oo_eventIdField = Some Event_id \<rparr>) (\<lambda>_. ok ()))))"

section \<open>A request\<close>

record preview_ids =
  id_key :: string
  id_task :: uuid
  id_snapshot :: uuid
  id_event :: uuid

definition preview_ids_of :: "(string \<Rightarrow> uuid) \<Rightarrow> string \<Rightarrow> uuid \<Rightarrow> uuid \<Rightarrow> uuid \<Rightarrow> preview_ids" where
  "preview_ids_of v5 key org ws canvasId = (let seed = key @ '':'' @ org @ '':'' @ ws @ '':'' @ canvasId in
     \<lparr> id_key = key, id_task = v5 (''task:'' @ seed), id_snapshot = v5 (''snapshot:'' @ seed),
       id_event = v5 (''event:'' @ seed) \<rparr>)"

definition duplicate_of :: "ai_task \<Rightarrow> ('z preview_state_scheme, persisted_preview) action" where
  "duplicate_of t = await (requireTaskSnapshot t) (\<lambda>n.
     ok \<lparr> ps_task = t, ps_snapshot = n, ps_createdSnapshot = False, ps_duplicate = True, ps_superseded = [] \<rparr>)"

text \<open>What is written for a request that is neither repeated nor equivalent to a running one.\<close>

definition enqueue ::
    "preview_ids \<Rightarrow> uuid \<Rightarrow> uuid \<Rightarrow> canvas \<Rightarrow> uuid option \<Rightarrow> preview_target \<Rightarrow> string \<Rightarrow> uuid \<Rightarrow>
     ('z preview_state_scheme, persisted_preview) action" where
  "enqueue ids org ws c project target correlation userId = (let canvasId = cv_id c; revision = cv_revision c in
     await (freeze org ws canvasId revision (id_snapshot ids) project userId target) (\<lambda>(n, created).
     await (reserveUsage \<lparr> ri_organizationId = org, ri_workspaceId = ws, ri_dimension = AI_INPUT_TOKENS, ri_amount = 1,
              ri_idempotencyKey = ''canvas-preview:'' @ id_task ids, ri_limit = None \<rparr>) (\<lambda>reservation.
     await (insert_preview_task (preview_task (id_task ids) org ws userId target correlation (id_key ids)
              (us_id reservation) canvasId n revision)) (\<lambda>t.
     await (reads (older_previews org ws canvasId (at_id t) revision)) (\<lambda>older.
     await (for_each older (supersede_task (at_id t))) (\<lambda>_.
     await (for_each (remdups (map snd (superseded_of older))) (supersede_snapshot org ws canvasId (sn_id n))) (\<lambda>_.
     await (announce (id_event ids) (sn_id n) correlation
              (preview_event_of (id_event ids) org ws project correlation userId (at_id t) canvasId revision n target)) (\<lambda>_.
     ok \<lparr> ps_task = t, ps_snapshot = n, ps_createdSnapshot = created, ps_duplicate = False,
          ps_superseded = superseded_of older \<rparr>))))))))"

definition preview_body ::
    "preview_ids \<Rightarrow> uuid \<Rightarrow> uuid \<Rightarrow> uuid \<Rightarrow> preview_target \<Rightarrow> string \<Rightarrow> uuid \<Rightarrow>
     ('z preview_state_scheme, persisted_preview) action" where
  "preview_body ids org ws canvasId target correlation userId =
     await (lock_canvas ws canvasId org) (\<lambda>(c, w).
     await (reads (find_preview_task (id_key ids) org ws canvasId)) (\<lambda>duplicate.
     case duplicate of Some t \<Rightarrow> duplicate_of t | None \<Rightarrow>
     await (require (0 \<le> cv_revision c \<and> cv_revision c \<le> 9007199254740991)
              (BadRequest (JStr ''Canvas revision is invalid''))) (\<lambda>_.
     await (assertSourcesInTenant (tg_sourceIds target) org ws) (\<lambda>_.
     await (reads (\<lambda>s. find (\<lambda>t. at_canvasRevision t = Some (cv_revision c) \<and> sameTarget (at_requestPayload t) target)
              (active_previews org ws canvasId s))) (\<lambda>equivalent.
     case equivalent of Some t \<Rightarrow> duplicate_of t
     | None \<Rightarrow> enqueue ids org ws c (wf_projectId w) target correlation userId)))))"

text \<open>
  The transaction takes back what it wrote to the tables, but not the calls to the object store; a snapshot it
  had stored is deleted afterwards, and a failure to delete it is only logged.
\<close>

definition preview_transaction ::
    "('z preview_state_scheme, 'a) action \<Rightarrow> ('z preview_state_scheme, 'a) action" where
  "preview_transaction m = (\<lambda>s. case m s of
     (Inl e, t) \<Rightarrow> (Inl e, s\<lparr>store_calls := store_calls t, stored_snapshot := stored_snapshot t\<rparr>)
   | (Inr x, t) \<Rightarrow> (Inr x, t))"

definition remove_stored :: "object_context \<Rightarrow> ('z preview_state_scheme, unit) action" where
  "remove_stored ctx =
     await (reads stored_snapshot) (\<lambda>stored. case stored of None \<Rightarrow> ok ()
     | Some x \<Rightarrow>
         try_catch
           (await (reads (\<lambda>s. deleteObject (bucket_names (env s)) ctx (so_bucket x) (so_key x))) (\<lambda>r.
            await (lift r) ask_store))
           (\<lambda>_. ok ()))"

definition preview_scope :: "uuid \<Rightarrow> uuid \<Rightarrow> uuid \<Rightarrow> (string \<times> json) list" where
  "preview_scope org ws canvasId = [(''organization_id'', JStr org), (''workspace_id'', JStr ws),
     (''canvas_id'', JStr canvasId)]"

definition snapshot_lineage :: "persisted_preview \<Rightarrow> (string \<times> json) list" where
  "snapshot_lineage r = [(''task_id'', JStr (at_id (ps_task r))), (''snapshot_id'', JStr (sn_id (ps_snapshot r))),
     (''snapshot_version'', json_int (sn_snapshotVersion (ps_snapshot r))),
     (''canvas_revision'', json_int (sn_canvasRevision (ps_snapshot r)))]"

definition emitPersistedEvents ::
    "persisted_preview \<Rightarrow> uuid \<Rightarrow> uuid \<Rightarrow> uuid \<Rightarrow> ('z core_scheme, unit) action" where
  "emitPersistedEvents r org ws canvasId =
     await (if ps_createdSnapshot r then broadcastSnapshotCreated canvasId (JObj (preview_scope org ws canvasId @
              snapshot_lineage r @ [(''status'', JStr (snapshot_status_str (sn_status (ps_snapshot r)))),
                (''created_at'', json_date (sn_createdAt (ps_snapshot r)))]))
            else ok ()) (\<lambda>_.
     await (broadcastAiPreview Queued canvasId (JObj (preview_scope org ws canvasId @ snapshot_lineage r @
              [(''status'', JStr (job_status_str (at_status (ps_task r))))]))) (\<lambda>_.
     for_each (ps_superseded r) (\<lambda>(t, i). broadcastAiPreview Superseded canvasId (JObj (preview_scope org ws canvasId @
       [(''superseded_task_id'', JStr t), (''superseded_snapshot_id'', JStr i),
        (''replacement_task_id'', JStr (at_id (ps_task r))),
        (''replacement_snapshot_id'', JStr (sn_id (ps_snapshot r))),
        (''canvas_revision'', json_int (sn_canvasRevision (ps_snapshot r)))])))))"

definition create_preview ::
    "uuid \<Rightarrow> uuid \<Rightarrow> preview_request_dto \<Rightarrow> string option \<Rightarrow> request_user \<Rightarrow>
     ('z preview_state_scheme, preview_response) action" where
  "create_preview ws canvasId dto rawKey user = (let org = ru_orgId user; userId = ru_id user in
     await (reads (\<lambda>s. normalizeIdempotencyKey (sha256 s) ws canvasId userId rawKey)) (\<lambda>k.
     await (lift k) (\<lambda>key.
     await (reads request_correlation) (\<lambda>correlation.
     await (reads (\<lambda>s. uuid_ok (env s) correlation)) (\<lambda>valid.
     await (require valid (BadRequest (JStr ''Correlation ID must be a UUID''))) (\<lambda>_.
     await (require (\<not> pd_auto_apply dto) (BadRequest (JStr ''auto_apply must be false''))) (\<lambda>_.
     await (reads ai_enabled) (\<lambda>on.
     await (require on (Unavailable (JObj [(''code'', JStr ''AI_SERVICE_DISABLED''),
              (''message'', JStr ''AI generation is disabled in this environment'')]))) (\<lambda>_.
     let target = normalizeTarget dto in
     await (require (locked_editable_disjoint target)
              (BadRequest (JStr ''locked_element_ids and editable_element_ids must not overlap''))) (\<lambda>_.
     await (requireEditor userId ws org) (\<lambda>_.
     await (reads (find_preview_task key org ws canvasId)) (\<lambda>preexisting.
     case preexisting of Some t \<Rightarrow> responseFromTask t | None \<Rightarrow>
     await (reads uuid_v5) (\<lambda>v5.
     await (writes (stored_snapshot_update (\<lambda>_. None))) (\<lambda>_.
     try_catch
       (await (preview_transaction (preview_body (preview_ids_of v5 key org ws canvasId) org ws canvasId target
                 correlation userId)) (\<lambda>r.
        await (if ps_duplicate r then ok () else emitPersistedEvents r org ws canvasId) (\<lambda>_.
        responseFromTask (ps_task r))))
       (\<lambda>e. await (remove_stored (context_of org ws)) (\<lambda>_. throw e))))))))))))))))"

definition createExplicit ::
    "uuid \<Rightarrow> uuid \<Rightarrow> preview_request_dto \<Rightarrow> string option \<Rightarrow> request_user \<Rightarrow>
     ('z preview_state_scheme, preview_response) action" where
  "createExplicit ws canvasId dto rawKey user =
     await (writes (coordinator_update (\<lambda>c. snd (cancel canvasId c)))) (\<lambda>_. create_preview ws canvasId dto rawKey user)"

section \<open>Automatic requests\<close>

definition automatic_dto :: "canvas \<Rightarrow> preview_request_dto" where
  "automatic_dto c = \<lparr> pd_operation = ''improve_canvas'',
     pd_user_prompt = ''Improve this canvas while preserving its intent.'', pd_selected_element_ids = [],
     pd_locked_element_ids = [], pd_editable_element_ids = [], pd_source_ids = [], pd_desired_width = cv_width c,
     pd_desired_height = cv_height c, pd_auto_apply = False \<rparr>"

definition scheduleAutomatic ::
    "uuid \<Rightarrow> canvas \<Rightarrow> request_user \<Rightarrow> ('z preview_state_scheme, time option) action" where
  "scheduleAutomatic ws c user =
     (if cv_workspaceId c \<noteq> Some ws \<or> cv_workspaceId c = Some [] then ok None else
      await current_time (\<lambda>t.
      await (reads (\<lambda>s. scheduleEdit (cv_id c) (cv_revision c) (ws, c, user) t (coordinator s))) (\<lambda>(dueAt, d).
      await (writes (coordinator_update (\<lambda>_. d))) (\<lambda>_. ok dueAt))))"

text \<open>The handler of a scheduled request; its failure is logged.\<close>

definition automatic_preview :: "automatic_request \<Rightarrow> ('z preview_state_scheme, unit) action" where
  "automatic_preview r = (case r of (ws, c, user) \<Rightarrow>
     try_catch (await (create_preview ws (cv_id c) (automatic_dto c)
         (Some (''auto:'' @ cv_id c @ '':'' @ int_str (cv_revision c))) user) (\<lambda>_. ok ())) (\<lambda>_. ok ()))"

end
