(* ===== verification/JobBoard.thy ===== *)
theory JobBoard
  imports Jobs
begin

text \<open>
  An abstract board of the tasks of the workers: which steps a task takes together with its reservation, the
  ledger and the suggestions, and what holds on every board that is reached. \<open>JobsProps\<close> shows that the services
  only take these steps.
\<close>

section \<open>The states of a task\<close>

fun job_rank :: "JobStatus \<Rightarrow> nat" where
  "job_rank JobStatus.QUEUED = 0"
| "job_rank RUNNING = 1"
| "job_rank WAITING_FOR_USER = 2"
| "job_rank JobStatus.SUPERSEDED = 3"
| "job_rank COMPLETED = 4"
| "job_rank JobStatus.FAILED = 5"
| "job_rank JobStatus.CANCELLED = 6"
| "job_rank JobStatus.STALE = 7"

lemma job_rank_inject: "job_rank a = job_rank b \<longleftrightarrow> a = b"
  by (cases a; cases b) simp_all

instantiation JobStatus :: linorder
begin

definition less_eq_JobStatus :: "JobStatus \<Rightarrow> JobStatus \<Rightarrow> bool" where
  "less_eq_JobStatus a b \<longleftrightarrow> job_rank a \<le> job_rank b"

definition less_JobStatus :: "JobStatus \<Rightarrow> JobStatus \<Rightarrow> bool" where
  "less_JobStatus a b \<longleftrightarrow> job_rank a < job_rank b"

instance
  by standard (auto simp: less_eq_JobStatus_def less_JobStatus_def job_rank_inject)

end

datatype job_event = Starts | Completes | Fails | Cancels | Supersedes | Arrives

definition FINAL_STATUSES :: "JobStatus set" where
  "FINAL_STATUSES = {COMPLETED, JobStatus.FAILED, JobStatus.CANCELLED, JobStatus.STALE}"

fun job_next :: "JobStatus \<Rightarrow> job_event \<Rightarrow> JobStatus option" where
  "job_next a Starts = (if a = JobStatus.QUEUED then Some RUNNING else None)"
| "job_next a Completes = (if a \<in> ACTIVE_STATUSES then Some COMPLETED else None)"
| "job_next a Fails = (if a \<in> ACTIVE_STATUSES then Some JobStatus.FAILED else None)"
| "job_next a Cancels = (if a \<in> FINAL_STATUSES then None else Some JobStatus.CANCELLED)"
| "job_next a Supersedes = (if a \<in> ACTIVE_STATUSES then Some JobStatus.SUPERSEDED else None)"
| "job_next a Arrives = (if a = JobStatus.SUPERSEDED then Some JobStatus.STALE else None)"

definition job_can :: "JobStatus \<Rightarrow> JobStatus \<Rightarrow> bool" where
  "job_can a b \<longleftrightarrow> (\<exists>e. job_next a e = Some b)"

interpretation job: ranked_fsm job_next job_can
proof unfold_locales
  show "job_can a b \<longleftrightarrow> (\<exists>e. job_next a e = Some b)" for a b by (rule job_can_def)
  show "a < b" if "job_next a e = Some b" for a e b
    using that by (cases a; cases e; cases b)
      (simp_all add: less_JobStatus_def ACTIVE_STATUSES_def FINAL_STATUSES_def split: if_splits)
qed

section \<open>The board\<close>

record board =
  bd_tasks :: "ai_task list"
  bd_reservations :: "usage_reservation list"
  bd_usages :: "workspace_usage list"
  bd_suggestions :: "suggestion list"

definition board_of :: "'z jobs_state_scheme \<Rightarrow> board" where
  "board_of s = \<lparr> bd_tasks = ai_tasks s, bd_reservations = reservations s, bd_usages = workspace_usages s,
     bd_suggestions = suggestions s \<rparr>"

definition reservation_status :: "JobStatus \<Rightarrow> UsageReservationStatus" where
  "reservation_status a = (if a \<in> ACTIVE_STATUSES then RESERVED else if a = COMPLETED then COMMITTED else RELEASED)"

text \<open>What a task is and stays.\<close>

definition same_task :: "ai_task \<Rightarrow> ai_task \<Rightarrow> bool" where
  "same_task t t' \<longleftrightarrow> t' = t\<lparr>at_status := at_status t', at_progress := at_progress t', at_currentStep := at_currentStep t',
     at_resultPayload := at_resultPayload t', at_errorCode := at_errorCode t', at_errorMessage := at_errorMessage t',
     at_supersededByTaskId := at_supersededByTaskId t', at_startedAt := at_startedAt t',
     at_completedAt := at_completedAt t', at_cancelledAt := at_cancelledAt t'\<rparr>"

definition same_suggestion :: "suggestion \<Rightarrow> suggestion \<Rightarrow> bool" where
  "same_suggestion g g' \<longleftrightarrow> g' = g\<lparr>sg_status := sg_status g', sg_acceptedAt := sg_acceptedAt g',
     sg_rejectedAt := sg_rejectedAt g', sg_updatedAt := sg_updatedAt g'\<rparr>"

definition key_of :: "usage_reservation \<Rightarrow> ai_task \<Rightarrow> bool" where
  "key_of r t \<longleftrightarrow> us_idempotencyKey r = ''ai-task:'' @ at_idempotencyKey t \<or>
     us_idempotencyKey r = ''canvas-preview:'' @ at_id t"

definition committed_in :: "workspace_usage list \<Rightarrow> uuid \<Rightarrow> UsageDimension \<Rightarrow> rat" where
  "committed_in us ws d = (case find (\<lambda>u. wu_workspaceId u = ws) us of None \<Rightarrow> 0 | Some u \<Rightarrow> total_of d u)"

definition booking :: "workspace_usage list \<Rightarrow> usage_reservation \<Rightarrow> rat \<Rightarrow> workspace_usage \<Rightarrow> bool" where
  "booking us r a v \<longleftrightarrow> (\<exists>u t. v = u\<lparr>wu_totals := put_field (usage_dimension_str (us_dimension r))
       (total_of (us_dimension r) u + a) (wu_totals u), wu_updatedAt := t\<rparr> \<and> wu_workspaceId u = us_workspaceId r \<and>
     (find (\<lambda>u. wu_workspaceId u = us_workspaceId r) us = Some u \<or>
      find (\<lambda>u. wu_workspaceId u = us_workspaceId r) us = None \<and> wu_id u \<notin> wu_id ` set us \<and> wu_totals u = []))"

text \<open>
  The steps: a task is created with a reservation; worked on; finished, which settles the reservation; a
  superseded task is cancelled or its late result ignored; the result of a completed task becomes a suggestion,
  which is reviewed.
\<close>

inductive board_step :: "board \<Rightarrow> board \<Rightarrow> bool" where
  create: "at_id t \<notin> at_id ` set (bd_tasks b) \<Longrightarrow> at_idempotencyKey t \<notin> at_idempotencyKey ` set (bd_tasks b) \<Longrightarrow>
    us_id r \<notin> us_id ` set (bd_reservations b) \<Longrightarrow> at_usageReservationId t = us_id r \<Longrightarrow> key_of r t \<Longrightarrow>
    at_status t = JobStatus.QUEUED \<Longrightarrow> us_status r = RESERVED \<Longrightarrow> at_progress t = 0 \<Longrightarrow> at_resultPayload t = None \<Longrightarrow>
    board_step b (b\<lparr>bd_tasks := bd_tasks b @ [t], bd_reservations := bd_reservations b @ [r]\<rparr>)"
| work: "t \<in> set (bd_tasks b) \<Longrightarrow> same_task t t' \<Longrightarrow> at_status t \<in> ACTIVE_STATUSES \<Longrightarrow> at_status t' \<in> ACTIVE_STATUSES \<Longrightarrow>
    at_status t = at_status t' \<or> job_can (at_status t) (at_status t') \<Longrightarrow> at_progress t \<le> at_progress t' \<Longrightarrow>
    at_progress t' = at_progress t \<or> at_progress t' \<le> 99 \<Longrightarrow> at_resultPayload t' = at_resultPayload t \<Longrightarrow>
    board_step b (b\<lparr>bd_tasks := save_row at_id t' (bd_tasks b)\<rparr>)"
| finish: "t \<in> set (bd_tasks b) \<Longrightarrow> same_task t t' \<Longrightarrow> at_status t \<in> ACTIVE_STATUSES \<Longrightarrow> at_status t' \<notin> ACTIVE_STATUSES \<Longrightarrow>
    job_can (at_status t) (at_status t') \<Longrightarrow> at_resultPayload t' = None \<longleftrightarrow> at_status t' \<noteq> COMPLETED \<Longrightarrow>
    at_progress t' = (if at_status t' = COMPLETED then 100 else at_progress t) \<Longrightarrow>
    r \<in> set (bd_reservations b) \<Longrightarrow> us_id r = at_usageReservationId t \<Longrightarrow>
    r' = r\<lparr>us_status := reservation_status (at_status t'), us_actualAmount := Some a, us_updatedAt := u\<rparr> \<Longrightarrow>
    (if at_status t' = COMPLETED then \<exists>v. booking (bd_usages b) r' a v \<and> l = save_row wu_id v (bd_usages b)
     else l = bd_usages b) \<Longrightarrow>
    board_step b (b\<lparr>bd_tasks := save_row at_id t' (bd_tasks b), bd_reservations := save_row us_id r' (bd_reservations b),
      bd_usages := l\<rparr>)"
| ignore: "t \<in> set (bd_tasks b) \<Longrightarrow> same_task t t' \<Longrightarrow> at_status t = JobStatus.SUPERSEDED \<Longrightarrow>
    at_status t' \<in> {JobStatus.STALE, JobStatus.CANCELLED} \<Longrightarrow> at_progress t' = at_progress t \<Longrightarrow>
    at_resultPayload t' = None \<Longrightarrow> board_step b (b\<lparr>bd_tasks := save_row at_id t' (bd_tasks b)\<rparr>)"
| suggest: "t \<in> set (bd_tasks b) \<Longrightarrow> at_status t = COMPLETED \<Longrightarrow> sg_taskId g = at_id t \<Longrightarrow>
    sg_id g \<notin> sg_id ` set (bd_suggestions b) \<Longrightarrow> at_id t \<notin> sg_taskId ` set (bd_suggestions b) \<Longrightarrow> sg_status g = READY \<Longrightarrow>
    board_step b (b\<lparr>bd_suggestions := bd_suggestions b @ [g]\<rparr>)"
| review: "g \<in> set (bd_suggestions b) \<Longrightarrow> sg_status g = READY \<Longrightarrow> same_suggestion g g' \<Longrightarrow>
    sg_status g' \<in> {ACCEPTED, REJECTED} \<Longrightarrow>
    board_step b (b\<lparr>bd_suggestions := save_row sg_id g' (bd_suggestions b)\<rparr>)"

section \<open>Consistent boards\<close>

definition task_ok :: "usage_reservation list \<Rightarrow> ai_task \<Rightarrow> bool" where
  "task_ok rs t \<longleftrightarrow> 0 \<le> at_progress t \<and> at_progress t \<le> 100 \<and> (at_progress t = 100 \<longleftrightarrow> at_status t = COMPLETED) \<and>
     (at_resultPayload t \<noteq> None \<longleftrightarrow> at_status t = COMPLETED) \<and>
     (\<exists>r \<in> set rs. us_id r = at_usageReservationId t \<and> us_status r = reservation_status (at_status t))"

definition spent :: "usage_reservation list \<Rightarrow> uuid \<Rightarrow> UsageDimension \<Rightarrow> rat" where
  "spent rs ws d = sum_list (map (\<lambda>r. if us_status r = COMMITTED \<and> us_workspaceId r = ws \<and> us_dimension r = d
     then or_else (us_actualAmount r) 0 else 0) rs)"

definition consistent :: "board \<Rightarrow> bool" where
  "consistent b \<longleftrightarrow> keyed at_id (bd_tasks b) \<and> keyed at_idempotencyKey (bd_tasks b) \<and>
     keyed at_usageReservationId (bd_tasks b) \<and> (\<forall>t \<in> set (bd_tasks b). task_ok (bd_reservations b) t) \<and>
     keyed us_id (bd_reservations b) \<and>
     (\<forall>r \<in> set (bd_reservations b). \<exists>t \<in> set (bd_tasks b). at_usageReservationId t = us_id r \<and> key_of r t) \<and>
     keyed wu_id (bd_usages b) \<and> keyed wu_workspaceId (bd_usages b) \<and>
     (\<forall>ws d. committed_in (bd_usages b) ws d = spent (bd_reservations b) ws d) \<and>
     keyed sg_id (bd_suggestions b) \<and> keyed sg_taskId (bd_suggestions b) \<and>
     (\<forall>g \<in> set (bd_suggestions b). \<exists>t \<in> set (bd_tasks b). at_id t = sg_taskId g \<and> at_status t = COMPLETED)"

lemma keyed_same_col: "keyed col l \<Longrightarrow> x \<in> set l \<Longrightarrow> y \<in> set l \<Longrightarrow> col x = col y \<Longrightarrow> x = y"
  by (rule keyed_store.key_unique [OF keyed_store_rows [OF refl refl]])

lemma sum_save_row:
  "find_row key (key r') l = Some r \<Longrightarrow>
   sum_list (map f (save_row key r' l)) = sum_list (map f l) - f r + (f r' :: rat)"
  by (induction l) (auto simp: find_row_def split: if_splits)

lemma keyed_save_other:
  assumes "keyed key l" and "keyed col l" and "r \<in> set l" and "key r' = key r" and "col r' = col r"
  shows "keyed col (save_row key r' l)"
proof -
  have "save_row key r' l = map (\<lambda>x. if key x = key r' then r' else x) l"
    using assms by (intro save_row_map) auto
  moreover have "map col (map (\<lambda>x. if key x = key r' then r' else x) l) = map col l"
    using keyed_same_col [of key l _ r] assms by auto
  ultimately show ?thesis using assms(2) by (simp only: keyed_def)
qed

lemma usage_dimension_inject: "usage_dimension_str d = usage_dimension_str e \<longleftrightarrow> d = e"
  by (cases d; cases e) simp_all

lemma total_of_booked:
  "total_of d (u\<lparr>wu_totals := put_field (usage_dimension_str e) (total_of e u + a) (wu_totals u), wu_updatedAt := t\<rparr>) =
   total_of d u + (if d = e then a else 0)"
  by (simp add: total_of_def usage_dimension_inject)

lemma committed_booking:
  assumes "booking us r a v" and "keyed wu_id us" and "keyed wu_workspaceId us"
  shows "committed_in (save_row wu_id v us) ws d =
      committed_in us ws d + (if us_workspaceId r = ws \<and> us_dimension r = d then a else 0)"
    and "keyed wu_workspaceId (save_row wu_id v us)"
proof -
  obtain u t where v: "v = u\<lparr>wu_totals := put_field (usage_dimension_str (us_dimension r))
      (total_of (us_dimension r) u + a) (wu_totals u), wu_updatedAt := t\<rparr>" and ws: "wu_workspaceId u = us_workspaceId r"
    and u: "find (\<lambda>u. wu_workspaceId u = us_workspaceId r) us = Some u \<or>
      find (\<lambda>u. wu_workspaceId u = us_workspaceId r) us = None \<and> wu_id u \<notin> wu_id ` set us \<and> wu_totals u = []"
    using assms(1) unfolding booking_def by blast
  have id: "wu_id v = wu_id u" "wu_workspaceId v = us_workspaceId r" using ws by (simp_all add: v)
  have total: "total_of d v = total_of d u + (if d = us_dimension r then a else 0)"
    by (simp add: v total_of_booked)
  from u have "committed_in (save_row wu_id v us) ws d =
      committed_in us ws d + (if us_workspaceId r = ws \<and> us_dimension r = d then a else 0) \<and>
    keyed wu_workspaceId (save_row wu_id v us)"
  proof
    assume found: "find (\<lambda>u. wu_workspaceId u = us_workspaceId r) us = Some u"
    have mem: "u \<in> set us" using find_Some_conv [OF found] by simp
    have own: "find (\<lambda>u. wu_workspaceId u = us_workspaceId r) (save_row wu_id v us) = Some v"
      by (rule find_save_row [OF found id(1) id(2) assms(2)])
    have row: "find_row wu_id (wu_id v) us = Some u" using find_row_keyed [OF assms(2) mem] id(1) by simp
    have other: "find (\<lambda>u. wu_workspaceId u = ws) (save_row wu_id v us) = find (\<lambda>u. wu_workspaceId u = ws) us"
      if "ws \<noteq> us_workspaceId r"
    proof (cases "find (\<lambda>u. wu_workspaceId u = ws) us")
      case None
      then have "\<forall>x \<in> set (save_row wu_id v us). wu_workspaceId x \<noteq> ws"
        using set_save_row_subset [of wu_id v us] id(2) that by (auto simp: find_None_conv)
      then have "find (\<lambda>u. wu_workspaceId u = ws) (save_row wu_id v us) = None" by (simp add: find_None_conv)
      with None show ?thesis by simp
    next
      case (Some x)
      then have x: "x \<in> set us" "wu_workspaceId x = ws" by (auto dest: find_Some_conv)
      have "wu_id v \<noteq> wu_id x"
      proof
        assume "wu_id v = wu_id x"
        then have "wu_id x = wu_id u" using id(1) by simp
        then have "x = u" by (rule keyed_same_col [OF assms(2) x(1) mem])
        then show False using x(2) ws that by simp
      qed
      with find_save_other [OF Some row] id(2) that ws Some show ?thesis by simp
    qed
    have "keyed wu_workspaceId (save_row wu_id v us)"
      using keyed_save_other [OF assms(2,3) mem id(1)] id(2) ws by simp
    moreover have "committed_in us (us_workspaceId r) d = total_of d u"
      "committed_in (save_row wu_id v us) (us_workspaceId r) d = total_of d v"
      using found own by (simp_all add: committed_in_def)
    moreover have "committed_in (save_row wu_id v us) ws d = committed_in us ws d" if "ws \<noteq> us_workspaceId r"
      using other [OF that] by (simp add: committed_in_def)
    ultimately show ?thesis using total by (cases "us_workspaceId r = ws") simp_all
  next
    assume new: "find (\<lambda>u. wu_workspaceId u = us_workspaceId r) us = None \<and> wu_id u \<notin> wu_id ` set us \<and> wu_totals u = []"
    then have l: "save_row wu_id v us = us @ [v]" using id(1) by (intro save_row_fresh) simp
    have "total_of d v = (if d = us_dimension r then a else 0)" using new total by (simp add: total_of_def)
    then have "committed_in (us @ [v]) ws d =
        committed_in us ws d + (if us_workspaceId r = ws \<and> us_dimension r = d then a else 0)"
      using new id(2) by (cases "us_workspaceId r = ws")
        (simp_all add: committed_in_def find_append split: option.split)
    moreover have "us_workspaceId r \<notin> wu_workspaceId ` set us" using new by (auto simp: find_None_conv)
    ultimately show ?thesis using assms(3) id(2) by (auto simp: l keyed_def)
  qed
  then show "committed_in (save_row wu_id v us) ws d =
      committed_in us ws d + (if us_workspaceId r = ws \<and> us_dimension r = d then a else 0)"
    and "keyed wu_workspaceId (save_row wu_id v us)" by simp_all
qed

lemma same_task_simps:
  "same_task t t' \<Longrightarrow> at_id t' = at_id t \<and> at_idempotencyKey t' = at_idempotencyKey t \<and>
     at_usageReservationId t' = at_usageReservationId t \<and> key_of r t' = key_of r t"
  unfolding same_task_def key_of_def
  by (drule arg_cong [of _ _ "\<lambda>x. (at_id x, at_idempotencyKey x, at_usageReservationId x)"]) simp

text \<open>A task and its reservation are replaced together; everything else stays.\<close>

lemma task_ok_other:
  assumes "task_ok rs x" and "keyed us_id rs" and "us_id r' \<noteq> at_usageReservationId x"
  shows "task_ok (save_row us_id r' rs) x"
  using assms unfolding task_ok_def set_save_row [OF assms(2)] by auto

lemma consistent_save_task:
  assumes "consistent b" and "t \<in> set (bd_tasks b)" and "same_task t t'" and "task_ok (bd_reservations b) t'"
    and "at_status t = COMPLETED \<Longrightarrow> at_status t' = COMPLETED"
  shows "consistent (b\<lparr>bd_tasks := save_row at_id t' (bd_tasks b)\<rparr>)"
proof -
  note same = same_task_simps [OF assms(3)]
  have k: "keyed at_id (bd_tasks b)" "keyed at_idempotencyKey (bd_tasks b)" "keyed at_usageReservationId (bd_tasks b)"
    using assms(1) by (simp_all add: consistent_def)
  have "keyed at_idempotencyKey (save_row at_id t' (bd_tasks b))" "keyed at_usageReservationId (save_row at_id t' (bd_tasks b))"
    using keyed_save_other [OF k(1,2) assms(2)] keyed_save_other [OF k(1,3) assms(2)] same by simp_all
  moreover have "\<exists>x \<in> set (save_row at_id t' (bd_tasks b)). at_usageReservationId x = us_id r \<and> key_of r x"
    if "r \<in> set (bd_reservations b)" for r
  proof -
    obtain x where "x \<in> set (bd_tasks b)" "at_usageReservationId x = us_id r" "key_of r x"
      using assms(1) \<open>r \<in> set (bd_reservations b)\<close> unfolding consistent_def by blast
    then show ?thesis
      using same keyed_same_col [of at_id "bd_tasks b" x t] k(1) assms(2)
      by (cases "at_id x = at_id t") (auto simp: set_save_row [OF k(1)])
  qed
  moreover have "\<exists>x \<in> set (save_row at_id t' (bd_tasks b)). at_id x = sg_taskId g \<and> at_status x = COMPLETED"
    if "g \<in> set (bd_suggestions b)" for g
  proof -
    obtain x where "x \<in> set (bd_tasks b)" "at_id x = sg_taskId g" "at_status x = COMPLETED"
      using assms(1) \<open>g \<in> set (bd_suggestions b)\<close> unfolding consistent_def by blast
    then show ?thesis
      using same assms(5) keyed_same_col [of at_id "bd_tasks b" x t] k(1) assms(2)
      by (cases "at_id x = at_id t") (auto simp: set_save_row [OF k(1)])
  qed
  ultimately show ?thesis
    using assms(1,4) k(1) by (auto simp: consistent_def set_save_row [OF k(1)])
qed

text \<open>A row of the ledger and a reservation are replaced together with the task they belong to.\<close>

lemma consistent_finish:
  assumes b: "consistent b" and t: "t \<in> set (bd_tasks b)" "same_task t t'" "at_status t \<in> ACTIVE_STATUSES"
      "at_status t' \<notin> ACTIVE_STATUSES"
    and fin: "at_resultPayload t' = None \<longleftrightarrow> at_status t' \<noteq> COMPLETED"
      "at_progress t' = (if at_status t' = COMPLETED then 100 else at_progress t)"
    and r: "r \<in> set (bd_reservations b)" "us_id r = at_usageReservationId t"
      "r' = r\<lparr>us_status := reservation_status (at_status t'), us_actualAmount := Some a, us_updatedAt := u\<rparr>"
    and l: "if at_status t' = COMPLETED then \<exists>v. booking (bd_usages b) r' a v \<and> l = save_row wu_id v (bd_usages b)
      else l = bd_usages b"
  shows "consistent (b\<lparr>bd_tasks := save_row at_id t' (bd_tasks b), bd_reservations := save_row us_id r' (bd_reservations b),
      bd_usages := l\<rparr>)"
proof -
  note same = same_task_simps [OF t(2)]
  have k: "keyed at_id (bd_tasks b)" "keyed at_idempotencyKey (bd_tasks b)" "keyed at_usageReservationId (bd_tasks b)"
    "keyed us_id (bd_reservations b)" "keyed wu_id (bd_usages b)" "keyed wu_workspaceId (bd_usages b)"
    using b by (simp_all add: consistent_def)
  have rid: "us_id r' = us_id r" "us_idempotencyKey r' = us_idempotencyKey r" by (simp_all add: r(3))
  have status: "us_status r = RESERVED"
  proof -
    obtain x where "x \<in> set (bd_reservations b)" "us_id x = at_usageReservationId t" "us_status x = RESERVED"
      using b t(1,3) unfolding consistent_def task_ok_def reservation_status_def by metis
    then show ?thesis using reservation_repo.key_unique [OF k(4) r(1)] r(2) by simp
  qed
  have row: "find_row us_id (us_id r') (bd_reservations b) = Some r"
    using find_row_keyed [OF k(4) r(1)] r(3) by simp
  have spent: "spent (save_row us_id r' (bd_reservations b)) ws d = spent (bd_reservations b) ws d +
      (if at_status t' = COMPLETED \<and> us_workspaceId r = ws \<and> us_dimension r = d then a else 0)" for ws d
    unfolding spent_def sum_save_row [OF row] using t(4) by (simp add: status r(3) reservation_status_def or_else_def)
  have "keyed wu_id l \<and> keyed wu_workspaceId l \<and>
      (\<forall>ws d. committed_in l ws d = spent (save_row us_id r' (bd_reservations b)) ws d)"
  proof (cases "at_status t' = COMPLETED")
    case True
    then obtain v where "booking (bd_usages b) r' a v" "l = save_row wu_id v (bd_usages b)" using l by auto
    note v = this committed_booking [OF this(1) k(5,6)]
    have "committed_in l ws d = spent (save_row us_id r' (bd_reservations b)) ws d" for ws d
      using b True r(3) unfolding spent v(2) v(3) by (simp add: consistent_def)
    with v(2,4) k(5) show ?thesis by simp
  qed (use l b spent in \<open>simp add: consistent_def\<close>)
  moreover have "task_ok (save_row us_id r' (bd_reservations b)) t'"
  proof -
    have "task_ok (bd_reservations b) t" using b t(1) by (simp add: consistent_def)
    then show ?thesis using fin same r(2,3) t(3) by (auto simp: task_ok_def set_save_row [OF k(4)] ACTIVE_STATUSES_def)
  qed
  moreover have "task_ok (save_row us_id r' (bd_reservations b)) x" if "x \<in> set (bd_tasks b)" "at_id x \<noteq> at_id t" for x
  proof (rule task_ok_other [OF _ k(4)])
    show "task_ok (bd_reservations b) x" using b that(1) by (simp add: consistent_def)
    show "us_id r' \<noteq> at_usageReservationId x"
    proof
      assume "us_id r' = at_usageReservationId x"
      then have "at_usageReservationId x = at_usageReservationId t" using rid r(2) by simp
      then have "x = t" by (rule keyed_same_col [OF k(3) that(1) t(1)])
      with that(2) show False by simp
    qed
  qed
  moreover have "\<exists>x \<in> set (save_row at_id t' (bd_tasks b)). at_usageReservationId x = us_id y \<and> key_of y x"
    if "y \<in> set (save_row us_id r' (bd_reservations b))" for y
  proof -
    have "\<exists>z \<in> set (bd_reservations b). us_id y = us_id z \<and> us_idempotencyKey y = us_idempotencyKey z"
      using \<open>y \<in> set (save_row us_id r' (bd_reservations b))\<close> r(1,3) by (auto simp: set_save_row [OF k(4)])
    then obtain x where x: "x \<in> set (bd_tasks b)" "at_usageReservationId x = us_id y" "key_of y x"
      using b unfolding consistent_def key_of_def by metis
    show ?thesis
    proof (cases "at_id x = at_id t")
      case True
      then have "x = t" using task_repo.key_unique [OF k(1) x(1) t(1)] by simp
      then show ?thesis using x same by (auto simp: set_save_row [OF k(1)])
    qed (use x same in \<open>auto simp: set_save_row [OF k(1)]\<close>)
  qed
  moreover have "\<exists>x \<in> set (save_row at_id t' (bd_tasks b)). at_id x = sg_taskId g \<and> at_status x = COMPLETED"
    if "g \<in> set (bd_suggestions b)" for g
  proof -
    obtain x where x: "x \<in> set (bd_tasks b)" "at_id x = sg_taskId g" "at_status x = COMPLETED"
      using b \<open>g \<in> set (bd_suggestions b)\<close> unfolding consistent_def by blast
    then have "at_id x \<noteq> at_id t" using task_repo.key_unique [OF k(1) x(1) t(1)] t(3) by (auto simp: ACTIVE_STATUSES_def)
    then show ?thesis using x same by (auto simp: set_save_row [OF k(1)])
  qed
  moreover have "keyed at_idempotencyKey (save_row at_id t' (bd_tasks b))" "keyed at_usageReservationId (save_row at_id t' (bd_tasks b))"
    using keyed_save_other [OF k(1,2) t(1)] keyed_save_other [OF k(1,3) t(1)] same by simp_all
  moreover have "keyed sg_id (bd_suggestions b)" "keyed sg_taskId (bd_suggestions b)" using b by (simp_all add: consistent_def)
  ultimately show ?thesis using k same by (auto simp: consistent_def set_save_row [OF k(1)])
qed

lemma consistent_create:
  assumes "consistent b" and "at_id t \<notin> at_id ` set (bd_tasks b)" and "at_idempotencyKey t \<notin> at_idempotencyKey ` set (bd_tasks b)"
    and "us_id r \<notin> us_id ` set (bd_reservations b)" and "at_usageReservationId t = us_id r" and "key_of r t"
    and "at_status t = JobStatus.QUEUED" and "us_status r = RESERVED" and "at_progress t = 0" and "at_resultPayload t = None"
  shows "consistent (b\<lparr>bd_tasks := bd_tasks b @ [t], bd_reservations := bd_reservations b @ [r]\<rparr>)"
proof -
  have "us_id r \<notin> at_usageReservationId ` set (bd_tasks b)"
  proof
    assume "us_id r \<in> at_usageReservationId ` set (bd_tasks b)"
    then obtain x where x: "x \<in> set (bd_tasks b)" "us_id r = at_usageReservationId x" by blast
    have "task_ok (bd_reservations b) x" using assms(1) x(1) by (simp add: consistent_def)
    then obtain q where "q \<in> set (bd_reservations b)" "us_id q = us_id r" using x(2) by (auto simp: task_ok_def)
    with assms(4) show False by (metis imageI)
  qed
  moreover have "task_ok (bd_reservations b @ [r]) x" if "x \<in> set (bd_tasks b)" for x
    using assms(1) that by (auto simp: consistent_def task_ok_def)
  moreover have "task_ok (bd_reservations b @ [r]) t"
    using assms(5,7-10) by (auto simp: task_ok_def reservation_status_def ACTIVE_STATUSES_def)
  moreover have "spent (bd_reservations b @ [r]) ws d = spent (bd_reservations b) ws d" for ws d
    using assms(8) by (simp add: spent_def)
  ultimately show ?thesis using assms(1-6) by (auto simp: consistent_def keyed_def)
qed

lemma active_statuses: "a \<in> ACTIVE_STATUSES \<Longrightarrow> a \<noteq> COMPLETED \<and> reservation_status a = RESERVED"
  by (auto simp: reservation_status_def ACTIVE_STATUSES_def)

theorem consistent_step: "board_step b c \<Longrightarrow> consistent b \<Longrightarrow> consistent c"
proof (induction rule: board_step.induct)
  case (create t b r)
  then show ?case by (intro consistent_create)
next
  case (work t b t')
  have "task_ok (bd_reservations b) t" using work(1,9) by (simp add: consistent_def)
  then have "task_ok (bd_reservations b) t'"
    using work(6-8) same_task_simps [OF work(2)] active_statuses [OF work(3)] active_statuses [OF work(4)]
    by (auto simp: task_ok_def)
  then show ?case using work(1,2,9) active_statuses [OF work(3)] by (intro consistent_save_task [where t = t]) simp_all
next
  case (finish t b t' r r' a u l)
  then show ?case by (intro consistent_finish) 
next
  case (ignore t b t')
  have "task_ok (bd_reservations b) t" using ignore(1,7) by (simp add: consistent_def)
  then have "task_ok (bd_reservations b) t'"
    using ignore(3-6) same_task_simps [OF ignore(2)] by (auto simp: task_ok_def reservation_status_def ACTIVE_STATUSES_def)
  then show ?case using ignore(1-3,7) by (intro consistent_save_task [where t = t]) simp_all
next
  case (suggest t b g)
  then show ?case by (auto simp: consistent_def keyed_def)
next
  case (review g b g')
  have same: "sg_id g' = sg_id g" "sg_taskId g' = sg_taskId g"
    using arg_cong [OF review(3) [unfolded same_suggestion_def], of sg_id]
      arg_cong [OF review(3) [unfolded same_suggestion_def], of sg_taskId] by simp_all
  have k: "keyed sg_id (bd_suggestions b)" "keyed sg_taskId (bd_suggestions b)" using review by (simp_all add: consistent_def)
  have "keyed sg_taskId (save_row sg_id g' (bd_suggestions b))"
    using keyed_save_other [OF k review(1)] same by simp
  with review k same show ?case by (auto simp: consistent_def set_save_row [OF k(1)])
qed

section \<open>Tasks only move forward\<close>

text \<open>A finished task never changes; every other one stays the same task and moves forward.\<close>

definition grows :: "ai_task \<Rightarrow> ai_task \<Rightarrow> bool" where
  "grows t t' \<longleftrightarrow> same_task t t' \<and> at_progress t \<le> at_progress t' \<and> job_can\<^sup>*\<^sup>* (at_status t) (at_status t') \<and>
     (at_status t \<in> FINAL_STATUSES \<longrightarrow> t' = t)"

lemma grows_refl: "grows t t"
  by (simp add: grows_def same_task_def)

lemma same_task_trans: "same_task a b \<Longrightarrow> same_task b c \<Longrightarrow> same_task a c"
  unfolding same_task_def by (cases a; cases b; cases c) simp

lemma grows_trans: "grows a b \<Longrightarrow> grows b c \<Longrightarrow> grows a c"
  unfolding grows_def by (auto intro: same_task_trans order_trans rtranclp_trans)

lemma grows_save:
  assumes "consistent b" and "x \<in> set (bd_tasks b)" and "t \<in> set (bd_tasks b)" and "grows t t'"
  shows "\<exists>y \<in> set (save_row at_id t' (bd_tasks b)). grows x y"
proof (cases "at_id x = at_id t")
  case True
  have "keyed at_id (bd_tasks b)" using assms(1) by (simp add: consistent_def)
  then have "x = t" using task_repo.key_unique [OF _ assms(2,3) True] by simp
  with assms(4) show ?thesis by auto
next
  case False
  have "at_id t' = at_id t" using assms(4) same_task_simps by (simp add: grows_def)
  moreover have "keyed at_id (bd_tasks b)" using assms(1) by (simp add: consistent_def)
  ultimately have "x \<in> set (save_row at_id t' (bd_tasks b))" using False assms(2) by (simp add: set_save_row)
  then show ?thesis using grows_refl by blast
qed

lemma active_not_final: "a \<in> ACTIVE_STATUSES \<Longrightarrow> a \<notin> FINAL_STATUSES"
  by (auto simp: ACTIVE_STATUSES_def FINAL_STATUSES_def)

lemma tasks_grow_step: "board_step b c \<Longrightarrow> consistent b \<Longrightarrow> x \<in> set (bd_tasks b) \<Longrightarrow> \<exists>y \<in> set (bd_tasks c). grows x y"
proof (induction rule: board_step.induct)
  case (create t b r)
  then show ?case using grows_refl [of x] by auto
next
  case (work t b t')
  then have "grows t t'" using active_not_final by (auto simp: grows_def)
  with work grows_save show ?case by simp
next
  case (finish t b t' r r' a u l)
  then have "at_progress t \<le> at_progress t'" by (auto simp: consistent_def task_ok_def)
  with finish have "grows t t'" using active_not_final by (auto simp: grows_def)
  with finish grows_save show ?case by simp
next
  case (ignore t b t')
  have "job_can (at_status t) (at_status t')"
    using ignore(3,4) by (auto simp: job_can_def FINAL_STATUSES_def intro: exI [of _ Arrives] exI [of _ Cancels])
  with ignore have "grows t t'" by (auto simp: grows_def FINAL_STATUSES_def)
  with ignore grows_save show ?case by simp
qed (use grows_refl in auto)

lemma consistent_steps: "board_step\<^sup>*\<^sup>* b c \<Longrightarrow> consistent b \<Longrightarrow> consistent c"
  by (induction rule: rtranclp_induct) (auto intro: consistent_step)

lemma tasks_grow:
  assumes "board_step\<^sup>*\<^sup>* b c" and "consistent b" and "x \<in> set (bd_tasks b)"
  shows "\<exists>y \<in> set (bd_tasks c). grows x y"
  using assms
proof (induction rule: rtranclp_induct)
  case base
  then show ?case using grows_refl by blast
next
  case (step c d)
  then obtain y where y: "y \<in> set (bd_tasks c)" "grows x y" by blast
  obtain z where "z \<in> set (bd_tasks d)" "grows y z"
    using tasks_grow_step [OF step(2) consistent_steps [OF step(1) step.prems(1)] y(1)] by blast
  with y(2) show ?case using grows_trans by blast
qed

end
