(* ===== verification/JobsProps.thy ===== *)
theory JobsProps
  imports JobBoard SourcesProps
begin

text \<open>
  The services of tasks, usage and suggestions take the steps of the board (\<open>JobBoard\<close>), whatever they are asked
  and wherever they fail.
\<close>

section \<open>What the board depends on\<close>

definition board_only :: "('z jobs_state_scheme \<Rightarrow> bool) \<Rightarrow> bool" where
  "board_only P \<longleftrightarrow> (\<forall>s t. board_of t = board_of s \<longrightarrow> P s \<longrightarrow> P t)"

lemma board_onlyD: "board_only P \<Longrightarrow> P s \<Longrightarrow> board_of t = board_of s \<Longrightarrow> P t"
  by (simp add: board_only_def)

lemma board_only_db: "board_only P \<Longrightarrow> db_only P"
  by (rule db_onlyI; erule (1) board_onlyD) (simp_all add: board_of_def)

lemma keeps_board: "board_only P \<Longrightarrow> (\<And>s. board_of (snd (m s)) = board_of s) \<Longrightarrow> keeps P m"
  unfolding keeps_def by (meson board_onlyD)

lemma keeps_row_id [keeps_intros]: "db_only P \<Longrightarrow> keeps P (row_id key table c)"
  unfolding row_id_def by (intro keeps_intros)

lemma keeps_writes_board: "board_only P \<Longrightarrow> (\<And>s. board_of (f s) = board_of s) \<Longrightarrow> keeps P (writes f)"
  by (rule keeps_board) (simp_all add: writes_run)

lemma keeps_createAuditLog [keeps_intros]: "board_only P \<Longrightarrow> keeps P (createAuditLog org ws u act ty i a c)"
  unfolding createAuditLog_def by (intro keeps_intros keeps_writes_board) (assumption, simp add: board_of_def)

lemma keeps_createNotification [keeps_intros]:
  "board_only P \<Longrightarrow> keeps P (createNotification org ws u ty title body m)"
  unfolding createNotification_def
  by (intro keeps_intros keeps_writes_board board_only_db) (assumption+, simp add: board_of_def)

lemma keeps_outbox_create [keeps_intros]: "board_only P \<Longrightarrow> keeps P (outbox_create input options)"
  unfolding outbox_create_def save_outbox_def Let_def
  by (intro keeps_intros keeps_writes_board board_only_db) (auto simp: board_of_def intro: keeps_intros board_only_db split: option.split json.split)

lemma keeps_send_task_event [keeps_intros]: "board_only P \<Longrightarrow> keeps P (send_task_event i t)"
  unfolding send_task_event_def by (intro keeps_intros board_only_db)

lemma keeps_emitCanvasEvent [keeps_intros]: "db_only P \<Longrightarrow> keeps P (emitCanvasEvent c e p)"
  unfolding emitCanvasEvent_def by (rule keeps_emitIfListeners)

lemma keeps_on_canvas [keeps_intros]: "db_only P \<Longrightarrow> keeps P (on_canvas t e fs)"
  unfolding on_canvas_def by (intro keeps_intros)

lemma keeps_broadcast_task [keeps_intros]: "db_only P \<Longrightarrow> keeps P (broadcast_task t e p)"
  unfolding broadcast_task_def Let_def by (intro keeps_intros)

lemma keeps_markOnce [keeps_intros]: "board_only P \<Longrightarrow> keeps P (markOnce k ttl)"
  unfolding markOnce_def by (intro keeps_intros keeps_writes_board) (assumption, simp add: board_of_def)

lemma keeps_validate_token [keeps_intros]: "board_only P \<Longrightarrow> keeps P (validate_token token aud)"
  unfolding validate_token_def by (intro keeps_intros reads_only_keepsI [OF reads_verify_token])

section \<open>Runs of the shared steps\<close>

lemma row_id_Inr: "row_id key table c s = (Inr i, t) \<Longrightarrow> i \<notin> key ` set (table t) \<and> board_of t = board_of s"
  by (auto simp: row_id_def action_Inr gen_uuid_run board_of_def)

lemma reserveUsage_Inr:
  assumes "reserveUsage input s = (Inr r, t)"
  shows "us_idempotencyKey r = ri_idempotencyKey input \<and>
    (board_of t = board_of s \<and> r \<in> set (reservations s) \<or>
     us_id r \<notin> us_id ` set (reservations s) \<and> us_status r = RESERVED \<and>
     board_of t = (board_of s)\<lparr>bd_reservations := reservations s @ [r]\<rparr>)"
proof (cases "find (\<lambda>r. us_idempotencyKey r = ri_idempotencyKey input) (reservations s)")
  case None
  with assms show ?thesis
    by (auto simp: reserveUsage_def action_Inr current_time_run Let_def board_of_def dest!: row_id_Inr)
next
  case (Some x)
  with assms find_Some_conv [OF Some] show ?thesis by (auto simp: reserveUsage_def action_Inr)
qed

lemma insert_task_Inr:
  assumes "insert_task x s = (Inr x', t)"
  shows "at_id x' \<notin> at_id ` set (ai_tasks s) \<and> at_idempotencyKey x \<notin> at_idempotencyKey ` set (ai_tasks s) \<and>
    (\<exists>i u. x' = x\<lparr>at_id := i, at_createdAt := u\<rparr>) \<and>
    board_of t = (board_of s)\<lparr>bd_tasks := ai_tasks s @ [x'\<lparr>at_requestPayload := jsonb (at_requestPayload x')\<rparr>]\<rparr>"
  using assms by (auto simp: insert_task_def action_Inr current_time_run Let_def board_of_def dest!: row_id_Inr)

lemma add_usage_Inr:
  assumes "add_usage r a s = (Inr x, t)"
  shows "\<exists>v. booking (workspace_usages s) r a v \<and>
    board_of t = (board_of s)\<lparr>bd_usages := save_row wu_id v (workspace_usages s)\<rparr>"
proof (cases "usage_of (us_workspaceId r) s")
  case None
  with assms obtain i s1 where i: "row_id wu_id workspace_usages ''workspace_usage_pkey'' s = (Inr i, s1)"
    and t: "t = workspace_usages_update (save_row wu_id \<lparr> wu_id = i, wu_organizationId = us_organizationId r,
      wu_workspaceId = us_workspaceId r, wu_totals = put_field (usage_dimension_str (us_dimension r))
        (total_of (us_dimension r) \<lparr> wu_id = i, wu_organizationId = us_organizationId r,
          wu_workspaceId = us_workspaceId r, wu_totals = [], wu_updatedAt = now s \<rparr> + a) [], wu_updatedAt = now s \<rparr>) s1"
    by (auto simp: add_usage_def action_Inr current_time_run)
  note i = row_id_Inr [OF i]
  then have b: "board_of t = (board_of s)\<lparr>bd_usages := bd_usages (board_of t)\<rparr>" "workspace_usages s1 = workspace_usages s"
    unfolding t by (simp_all add: board_of_def)
  show ?thesis
    by (rule exI, subst b(1), rule conjI [OF _ arg_cong [of _ _ "\<lambda>l. (board_of s)\<lparr>bd_usages := l\<rparr>"]])
       (use None i b(2) in \<open>auto simp: t booking_def usage_of_def board_of_def
         intro!: exI [of _ "\<lparr> wu_id = i, wu_organizationId = us_organizationId r, wu_workspaceId = us_workspaceId r,
           wu_totals = [], wu_updatedAt = now s \<rparr>"]\<close>)
next
  case (Some u)
  with find_Some_conv [of _ _ u] assms show ?thesis
    by (fastforce simp: add_usage_def action_Inr current_time_run booking_def usage_of_def board_of_def)
qed

lemma finish_usage_Inr:
  assumes "finish_usage i st a s = (Inr q, t)"
  obtains r where "find_row us_id i (reservations s) = Some r" and "us_status r \<noteq> RESERVED" and "board_of t = board_of s"
  | r r' u l where "find_row us_id i (reservations s) = Some r" and "us_status r = RESERVED"
      and "r' = r\<lparr>us_status := st, us_actualAmount := Some a, us_updatedAt := u\<rparr>"
      and "if st = COMMITTED then \<exists>v. booking (workspace_usages s) r' a v \<and> l = save_row wu_id v (workspace_usages s)
        else l = workspace_usages s"
      and "board_of t = (board_of s)\<lparr>bd_reservations := save_row us_id r' (reservations s), bd_usages := l\<rparr>"
proof -
  from assms obtain r where r: "find_row us_id i (reservations s) = Some r"
    by (auto simp: finish_usage_def action_Inr)
  show thesis
  proof (cases "us_status r = RESERVED")
    case False
    with r assms that(1) show thesis by (simp add: finish_usage_def action_Inr)
  next
    case True
    let ?r = "r\<lparr>us_status := st, us_actualAmount := Some a, us_updatedAt := now s\<rparr>"
    let ?s = "reservations_update (save_row us_id ?r) s"
    have b: "board_of ?s = (board_of s)\<lparr>bd_reservations := save_row us_id ?r (reservations s)\<rparr>"
      "workspace_usages ?s = workspace_usages s" by (simp_all add: board_of_def)
    from True r assms have run: "(if st = COMMITTED then add_usage ?r a else ok ()) ?s = (Inr (), t)"
      by (auto simp: finish_usage_def action_Inr current_time_run Let_def)
    show thesis
    proof (cases "st = COMMITTED")
      case True
      with run add_usage_Inr [of ?r a ?s "()" t] obtain v where "booking (workspace_usages s) ?r a v"
        "board_of t = (board_of ?s)\<lparr>bd_usages := save_row wu_id v (workspace_usages s)\<rparr>" using b(2) by auto
      then show thesis using that(2) [OF r \<open>us_status r = RESERVED\<close> refl, of "now s" "save_row wu_id v (workspace_usages s)"] b(1) True
        by auto
    next
      case False
      with run have "t = ?s" by (simp add: ok_run)
      then show thesis using that(2) [OF r \<open>us_status r = RESERVED\<close> refl, of "now s" "workspace_usages s"] b False
        by (simp add: board_of_def)
    qed
  qed
qed

section \<open>Advancing\<close>

definition moved_on :: "'z jobs_state_scheme \<Rightarrow> 'z jobs_state_scheme \<Rightarrow> bool" where
  "moved_on s t \<longleftrightarrow> consistent (board_of t) \<and> board_step\<^sup>*\<^sup>* (board_of s) (board_of t)"

lemma moved_on_refl: "consistent (board_of s) \<Longrightarrow> moved_on s s"
  by (simp add: moved_on_def)

lemma moved_on_board_only: "board_only (moved_on s)"
  by (simp add: board_only_def moved_on_def)

lemma moved_on_db: "db_only (moved_on s)"
  by (rule board_only_db [OF moved_on_board_only])

lemma moved_on_step: "moved_on s t \<Longrightarrow> board_step (board_of t) (board_of u) \<Longrightarrow> moved_on s u"
  unfolding moved_on_def using consistent_step by (meson rtranclp.rtrancl_into_rtrancl)

lemma moved_on_same: "moved_on s t \<Longrightarrow> board_of u = board_of t \<Longrightarrow> moved_on s u"
  by (simp add: moved_on_def)

lemma moved_on_consistent: "moved_on s t \<Longrightarrow> consistent (board_of t)"
  by (simp add: moved_on_def)

lemma keeps_committed: "(\<And>s x t. P s \<Longrightarrow> m s = (Inr x, t) \<Longrightarrow> P t) \<Longrightarrow> keeps P (transaction m)"
  by (auto simp: keeps_def transaction_run split: prod.split sum.split)

lemma bd_simps [simp]:
  "bd_tasks (board_of s) = ai_tasks s" "bd_reservations (board_of s) = reservations s"
  "bd_usages (board_of s) = workspace_usages s" "bd_suggestions (board_of s) = suggestions s"
  by (simp_all add: board_of_def)

lemma board_of_tasks: "board_of (ai_tasks_update f s) = (board_of s)\<lparr>bd_tasks := f (ai_tasks s)\<rparr>"
  and board_of_suggestions: "board_of (suggestions_update g s) = (board_of s)\<lparr>bd_suggestions := g (suggestions s)\<rparr>"
  by (simp_all add: board_of_def)

section \<open>Creating a task\<close>

lemma keepsE: "keeps P m \<Longrightarrow> m s = (Inr x, t) \<Longrightarrow> P s \<Longrightarrow> P t"
  by (erule keepsD)

lemma same_board: "keeps (\<lambda>t. board_of t = board_of s) m \<Longrightarrow> m s = (Inr x, t) \<Longrightarrow> board_of t = board_of s"
  by (erule keepsD [where I = "\<lambda>t. board_of t = board_of s"]) simp_all

lemma board_only_eq: "board_only (\<lambda>t. board_of t = b)"
  by (simp add: board_only_def)

lemma moved_on_create:
  assumes "moved_on s t0" and "reserveUsage input t0 = (Inr r, t1)" and "insert_task x t1 = (Inr x', t2)"
    and "ri_idempotencyKey input = ''ai-task:'' @ at_idempotencyKey x" and "at_usageReservationId x = us_id r"
    and "at_status x = JobStatus.QUEUED" and "at_progress x = 0" and "at_resultPayload x = None"
  shows "moved_on s t2"
proof -
  let ?y = "x'\<lparr>at_requestPayload := jsonb (at_requestPayload x')\<rparr>"
  have key: "us_idempotencyKey r = ''ai-task:'' @ at_idempotencyKey x"
    using reserveUsage_Inr [OF assms(2)] assms(4) by simp
  note ins = insert_task_Inr [OF assms(3)]
  then obtain i u where x': "x' = x\<lparr>at_id := i, at_createdAt := u\<rparr>" by blast
  have t1: "ai_tasks t1 = ai_tasks t0"
    using reserveUsage_Inr [OF assms(2)] by (auto dest: arg_cong [where f = bd_tasks])
  have "\<not> (board_of t1 = board_of t0 \<and> r \<in> set (reservations t0))"
  proof
    assume "board_of t1 = board_of t0 \<and> r \<in> set (reservations t0)"
    then obtain y where y: "y \<in> set (ai_tasks t0)" "key_of r y"
      using moved_on_consistent [OF assms(1)] by (auto simp: consistent_def)
    then have "at_idempotencyKey y = at_idempotencyKey x" using key by (auto simp: key_of_def)
    with y(1) ins t1 show False by (metis image_eqI)
  qed
  then have r: "us_id r \<notin> us_id ` set (reservations t0)" "us_status r = RESERVED"
    "board_of t1 = (board_of t0)\<lparr>bd_reservations := reservations t0 @ [r]\<rparr>"
    using reserveUsage_Inr [OF assms(2)] by blast+
  have "board_step (board_of t0) ((board_of t0)\<lparr>bd_tasks := bd_tasks (board_of t0) @ [?y],
      bd_reservations := bd_reservations (board_of t0) @ [r]\<rparr>)"
    using ins t1 r(1,2) key assms(5-8) by (intro board_step.create) (simp_all add: x' key_of_def)
  moreover have "board_of t2 = (board_of t0)\<lparr>bd_tasks := bd_tasks (board_of t0) @ [?y],
      bd_reservations := bd_reservations (board_of t0) @ [r]\<rparr>"
    using ins r(3) t1 by (simp add: board_of_def)
  ultimately show ?thesis by (intro moved_on_step [OF assms(1)]) simp
qed

lemma keeps_createTask: "keeps (moved_on s) (createTask ws ty p k u)"
proof -
  have run: "keeps (moved_on s) (transaction (
       await (reserveUsage \<lparr> ri_organizationId = wm_organizationId m, ri_workspaceId = ws,
                ri_dimension = AI_INPUT_TOKENS, ri_amount = 1, ri_idempotencyKey = ''ai-task:'' @ key,
                ri_limit = None \<rparr>) (\<lambda>reservation.
       await (insert_task (new_task (wm_organizationId m) ws u ty p c key (us_id reservation))) (\<lambda>t.
       await (send_task_event (f t) t) (\<lambda>_. ok t)))))" (is "keeps _ (transaction ?body)") for m key c f
  proof (rule keeps_committed)
    fix t1 x t2
    assume t1: "moved_on s t1" and "?body t1 = (Inr x, t2)"
    then obtain q t3 y t4 where q: "reserveUsage \<lparr> ri_organizationId = wm_organizationId m, ri_workspaceId = ws,
                ri_dimension = AI_INPUT_TOKENS, ri_amount = 1, ri_idempotencyKey = ''ai-task:'' @ key,
                ri_limit = None \<rparr> t1 = (Inr q, t3)"
      "insert_task (new_task (wm_organizationId m) ws u ty p c key (us_id q)) t3 = (Inr y, t4)"
      "send_task_event (f y) y t4 = (Inr (), t2)"
      by (auto simp: await_Inr_iff ok_Inr_iff)
    have "moved_on s t4"
      by (rule moved_on_create [OF t1 q(1,2)]) (simp_all add: new_task_def)
    then show "moved_on s t2"
      by (rule keepsD [OF keeps_send_task_event [OF moved_on_board_only] _ q(3)])
  qed
  show ?thesis unfolding createTask_def
    by (intro keeps_await keeps_requireRole keeps_reads keeps_case_option keeps_ok keeps_gen_uuid keeps_createAuditLog
        moved_on_db moved_on_board_only run)
qed

section \<open>Finishing a task\<close>

lemma reservation_of:
  assumes "consistent (board_of t)" and "x \<in> set (ai_tasks t)"
    and "find_row us_id (at_usageReservationId x) (reservations t) = Some r"
  shows "us_status r = reservation_status (at_status x)"
proof -
  have "task_ok (reservations t) x" and k: "keyed us_id (reservations t)" using assms(1,2) by (simp_all add: consistent_def)
  then obtain q where q: "q \<in> set (reservations t)" "us_id q = at_usageReservationId x"
    "us_status q = reservation_status (at_status x)" by (auto simp: task_ok_def)
  then show ?thesis using find_row_keyed [OF k q(1)] assms(3) by simp
qed

lemma moved_on_settle:
  assumes "moved_on s t0" and "x \<in> set (ai_tasks t0)" and "same_task x x'" and "at_status x \<in> ACTIVE_STATUSES"
    and "at_status x' \<notin> ACTIVE_STATUSES" and "job_can (at_status x) (at_status x')"
    and "at_resultPayload x' = None \<longleftrightarrow> at_status x' \<noteq> COMPLETED"
    and "at_progress x' = (if at_status x' = COMPLETED then 100 else at_progress x)"
    and "save_task x' t0 = (Inr y, t1)" and "st = reservation_status (at_status x')"
    and "finish_usage (at_usageReservationId x') st a t1 = (Inr q, t2)"
  shows "moved_on s t2"
proof -
  have t1: "board_of t1 = (board_of t0)\<lparr>bd_tasks := save_row at_id x' (ai_tasks t0)\<rparr>"
    using assms(9) by (auto simp: save_task_def writes_run board_of_tasks)
  have t1': "reservations t1 = reservations t0" "workspace_usages t1 = workspace_usages t0"
    using bd_simps(2,3) [of t1] t1 by simp_all
  have rid: "at_usageReservationId x' = at_usageReservationId x" using same_task_simps [OF assms(3)] by simp
  have comm: "st = COMMITTED \<longleftrightarrow> at_status x' = COMPLETED"
    using assms(5,10) by (auto simp: reservation_status_def)
  from assms(11) show ?thesis
  proof (cases rule: finish_usage_Inr)
    case (1 r)
    then have "us_status r = reservation_status (at_status x)"
      using reservation_of [OF moved_on_consistent [OF assms(1)] assms(2)] t1'(1) rid by simp
    with 1(2) assms(4) show ?thesis by (simp add: reservation_status_def)
  next
    case (2 r r' u l)
    have r: "r \<in> set (reservations t0)" "us_id r = at_usageReservationId x"
      using find_row_Some [OF 2(1)] t1'(1) rid by simp_all
    have l: "if at_status x' = COMPLETED then \<exists>v. booking (workspace_usages t0) r' a v \<and> l = save_row wu_id v (workspace_usages t0)
      else l = workspace_usages t0"
      using 2(4) unfolding comm t1'(2) .
    have "board_step (board_of t0) ((board_of t0)\<lparr>bd_tasks := save_row at_id x' (bd_tasks (board_of t0)),
        bd_reservations := save_row us_id r' (bd_reservations (board_of t0)), bd_usages := l\<rparr>)"
      by (rule board_step.finish [where r = r and a = a and u = u])
         (use assms(2-8) r 2(3) l assms(10) in \<open>simp_all only: bd_simps simp_thms\<close>)
    then show ?thesis using 2(5) t1 t1' by (intro moved_on_step [OF assms(1)]) simp
  qed
qed

lemma moved_on_ignore:
  assumes "moved_on s t0" and "x \<in> set (ai_tasks t0)" and "same_task x x'" and "at_status x = JobStatus.SUPERSEDED"
    and "at_status x' \<in> {JobStatus.STALE, JobStatus.CANCELLED}" and "at_progress x' = at_progress x"
    and "at_resultPayload x' = None" and "save_task x' t0 = (Inr y, t1)"
  shows "moved_on s t1"
proof -
  have "board_of t1 = (board_of t0)\<lparr>bd_tasks := save_row at_id x' (bd_tasks (board_of t0))\<rparr>"
    using assms(8) by (auto simp: save_task_def writes_run board_of_tasks)
  then show ?thesis using board_step.ignore [of x "board_of t0" x'] assms(2-7)
    by (intro moved_on_step [OF assms(1)]) simp
qed

lemma released_again:
  assumes "consistent (board_of t0)" and "x \<in> set (ai_tasks t0)" and "at_status x = JobStatus.SUPERSEDED"
    and "reservations t1 = reservations t0" and "finish_usage (at_usageReservationId x) st a t1 = (Inr q, t2)"
  shows "board_of t2 = board_of t1"
  using assms(5)
proof (cases rule: finish_usage_Inr)
  case (2 r r' u l)
  then have "us_status r = reservation_status (at_status x)" using reservation_of [OF assms(1,2)] assms(4) by simp
  with 2(2) assms(3) show ?thesis by (simp add: reservation_status_def ACTIVE_STATUSES_def)
qed

lemma moved_on_result: "moved_on s t \<Longrightarrow> x \<in> set (ai_tasks t) \<Longrightarrow> at_resultPayload x \<noteq> None \<longleftrightarrow> at_status x = COMPLETED"
  by (auto simp: moved_on_def consistent_def task_ok_def)

lemma keeps_cancelTask: "keeps (moved_on s) (cancelTask ws i u)"
proof -
  have run: "keeps (moved_on s) (transaction (
       await (reads (\<lambda>s. find (\<lambda>t. at_id t = i \<and> at_workspaceId t = ws) (ai_tasks s))) (\<lambda>found.
       await (some_or_throw found e) (\<lambda>locked.
       if at_status locked = JobStatus.CANCELLED then ok locked else
       await (require (at_status locked \<in> ACTIVE_STATUSES) f) (\<lambda>_.
       await current_time (\<lambda>u.
       let t = locked\<lparr>at_status := JobStatus.CANCELLED, at_cancelledAt := Some u\<rparr> in
       await (save_task t) (\<lambda>_.
       await (releaseUsage (at_usageReservationId t)) (\<lambda>_.
       await (send_task_event (g t) t) (\<lambda>_. ok t)))))))))" (is "keeps _ (transaction ?body)") for e f g
  proof (rule keeps_committed)
    fix t1 y t2
    assume t1: "moved_on s t1" and run: "?body t1 = (Inr y, t2)"
    then obtain x where x: "find (\<lambda>t. at_id t = i \<and> at_workspaceId t = ws) (ai_tasks t1) = Some x"
      by (auto simp: action_Inr)
    let ?x = "x\<lparr>at_status := JobStatus.CANCELLED, at_cancelledAt := Some (now t1)\<rparr>"
    show "moved_on s t2"
    proof (cases "at_status x = JobStatus.CANCELLED")
      case True
      with t1 run x show ?thesis by (simp add: action_Inr)
    next
      case False
      with run x obtain y1 t3 q t4 where t: "at_status x \<in> ACTIVE_STATUSES" "save_task ?x t1 = (Inr y1, t3)"
        "finish_usage (at_usageReservationId ?x) RELEASED 0 t3 = (Inr q, t4)"
        "send_task_event (g ?x) ?x t4 = (Inr (), t2)"
        by (auto simp: action_Inr Let_def current_time_run releaseUsage_def)
      have "moved_on s t4"
      proof (rule moved_on_settle [OF t1 _ _ t(1) _ _ _ _ t(2) _ t(3)])
        show mem: "x \<in> set (ai_tasks t1)" using find_Some_conv [OF x] by simp
        show "at_resultPayload ?x = None \<longleftrightarrow> at_status ?x \<noteq> COMPLETED"
          using moved_on_result [OF t1 mem] active_statuses [OF t(1)] by simp
        show "job_can (at_status x) (at_status ?x)"
          using t(1) by (auto simp: job_can_def FINAL_STATUSES_def ACTIVE_STATUSES_def intro: exI [of _ Cancels])
      qed (simp_all add: same_task_def ACTIVE_STATUSES_def reservation_status_def)
      then show ?thesis by (rule keepsD [OF keeps_send_task_event [OF moved_on_board_only] _ t(4)])
    qed
  qed
  show ?thesis unfolding cancelTask_def by (intro keeps_await keeps_requireRole keeps_reads run)
qed

section \<open>What the workers tell\<close>

lemma moved_on_work:
  assumes "moved_on s t0" and "x \<in> set (ai_tasks t0)" and "same_task x x'" and "at_status x \<in> ACTIVE_STATUSES"
    and "at_status x' \<in> ACTIVE_STATUSES" and "at_status x = at_status x' \<or> job_can (at_status x) (at_status x')"
    and "at_progress x \<le> at_progress x'" and "at_progress x' = at_progress x \<or> at_progress x' \<le> 99"
    and "at_resultPayload x' = at_resultPayload x"
  shows "leaves (moved_on s) (save_task x') t0"
proof -
  have "board_step (board_of t0) ((board_of t0)\<lparr>bd_tasks := save_row at_id x' (bd_tasks (board_of t0))\<rparr>)"
    by (rule board_step.work [of x]) (use assms(2-9) in simp_all)
  then have "moved_on s (ai_tasks_update (save_row at_id x') t0)"
    by (intro moved_on_step [OF assms(1)]) (simp add: board_of_tasks)
  then show ?thesis by (simp add: leaves_def save_task_def writes_run)
qed

lemma leaves_on_started:
  assumes "moved_on s t" and "x \<in> set (ai_tasks t)"
  shows "leaves (moved_on s) (on_started x p) t"
proof (cases "at_status x = JobStatus.QUEUED")
  case True
  have "job_can (at_status x) RUNNING" using True by (auto simp: job_can_def intro: exI [of _ Starts])
  then have "leaves (moved_on s) (save_task (x\<lparr>at_status := RUNNING, at_startedAt := Some u, at_currentStep := c\<rparr>)) t" for u c
    by (intro moved_on_work [OF assms]) (use True in \<open>simp_all add: same_task_def ACTIVE_STATUSES_def\<close>)
  with True assms(1) show ?thesis unfolding on_started_def Let_def
    by simp (rule leaves_guard [OF reads_current_time], assumption, rule leaves_step, assumption,
      rule leaves_keeps, intro keeps_intros moved_on_db, assumption)
qed (use assms in \<open>simp add: on_started_def leaves_ok\<close>)

lemma leaves_on_progress:
  assumes "moved_on s t" and "x \<in> set (ai_tasks t)"
  shows "leaves (moved_on s) (on_progress x p) t"
proof (cases "at_status x \<in> {RUNNING, WAITING_FOR_USER}")
  case True
  have x: "at_progress x \<le> 99" using assms True moved_on_consistent [OF assms(1)]
    by (fastforce simp: consistent_def task_ok_def)
  have "of_int (at_progress x) \<le> progressed p x" "progressed p x \<le> 99"
    using x by (simp_all add: progressed_def)
  then have "at_progress x \<le> \<lfloor>progressed p x\<rfloor>" "\<lfloor>progressed p x\<rfloor> \<le> 99"
    by (simp_all add: le_floor_iff floor_le_iff)
  then have "leaves (moved_on s) (save_task (x\<lparr>at_progress := \<lfloor>progressed p x\<rfloor>, at_currentStep := c\<rparr>)) t" for c
    by (intro moved_on_work [OF assms]) (use True in \<open>auto simp add: same_task_def ACTIVE_STATUSES_def\<close>)
  with True assms(1) show ?thesis unfolding on_progress_def Let_def
    by simp (rule leaves_guard [OF reads_only_require], assumption, rule leaves_step, assumption,
      rule leaves_keeps, intro keeps_intros moved_on_db, assumption)
qed (use assms in \<open>simp add: on_progress_def leaves_ok\<close>)

lemma leaves_committed:
  "P s \<Longrightarrow> (\<And>x t. m s = (Inr x, t) \<Longrightarrow> P t) \<Longrightarrow> leaves P (transaction m) s"
  by (cases "m s") (auto simp: leaves_def transaction_run split: sum.split)

lemma save_task_tables: "save_task x t0 = (Inr y, t1) \<Longrightarrow> reservations t1 = reservations t0"
  by (auto simp: save_task_def writes_run)

lemma leaves_on_cancelled:
  assumes "moved_on s t" and "x \<in> set (ai_tasks t)"
  shows "leaves (moved_on s) (on_cancelled x p) t"
proof (cases "at_status x \<in> FINAL_STATUSES")
  case False
  let ?x = "\<lambda>u. x\<lparr>at_status := JobStatus.CANCELLED, at_cancelledAt := Some u\<rparr>"
  have result: "at_resultPayload x = None"
    using moved_on_result [OF assms] False by (auto simp: FINAL_STATUSES_def)
  have "leaves (moved_on s) (transaction (await (save_task (?x u)) (\<lambda>_.
      await (releaseUsage (at_usageReservationId (?x u))) (\<lambda>_. ok ())))) t" for u
  proof (rule leaves_committed [where P = "moved_on s", OF assms(1)])
    fix y t2
    assume "await (save_task (?x u)) (\<lambda>_. await (releaseUsage (at_usageReservationId (?x u))) (\<lambda>_. ok ())) t = (Inr y, t2)"
    then obtain y1 t1 q where t: "save_task (?x u) t = (Inr y1, t1)"
      "finish_usage (at_usageReservationId (?x u)) RELEASED 0 t1 = (Inr q, t2)"
      by (auto simp: action_Inr releaseUsage_def)
    show "moved_on s t2"
    proof (cases "at_status x = JobStatus.SUPERSEDED")
      case True
      have "moved_on s t1"
        by (rule moved_on_ignore [OF assms _ True _ _ _ t(1)]) (simp_all add: same_task_def result)
      moreover have "board_of t2 = board_of t1"
        using released_again [OF moved_on_consistent [OF assms(1)] assms(2) True save_task_tables [OF t(1)]] t(2) by simp
      ultimately show ?thesis by (rule moved_on_same)
    next
      case False
      then have active: "at_status x \<in> ACTIVE_STATUSES"
        using \<open>at_status x \<notin> FINAL_STATUSES\<close> by (cases "at_status x") (auto simp: ACTIVE_STATUSES_def FINAL_STATUSES_def)
      show ?thesis
      proof (rule moved_on_settle [OF assms _ active _ _ _ _ t(1) _ t(2)])
        show "job_can (at_status x) (at_status (?x u))"
          using \<open>at_status x \<notin> FINAL_STATUSES\<close> by (auto simp: job_can_def intro: exI [of _ Cancels])
      qed (simp_all add: same_task_def ACTIVE_STATUSES_def reservation_status_def result)
    qed
  qed
  with False assms(1) show ?thesis unfolding on_cancelled_def Let_def FINAL_STATUSES_def
    by simp (rule leaves_guard [OF reads_current_time], assumption, rule leaves_step, assumption,
      rule leaves_keeps, intro keeps_intros moved_on_db, assumption)
qed (use assms in \<open>simp add: on_cancelled_def leaves_ok FINAL_STATUSES_def\<close>)

text \<open>A task that was finished successfully is completed and has no suggestion yet.\<close>

definition fresh_result :: "ai_task \<Rightarrow> 'z jobs_state_scheme \<Rightarrow> bool" where
  "fresh_result x t \<longleftrightarrow> x \<in> set (ai_tasks t) \<and> at_status x = COMPLETED \<and> at_id x \<notin> sg_taskId ` set (suggestions t)"

lemma fresh_result_only: "board_only (fresh_result x)"
proof -
  have "fresh_result x t \<longleftrightarrow> x \<in> set (bd_tasks (board_of t)) \<and> at_status x = COMPLETED \<and>
      at_id x \<notin> sg_taskId ` set (bd_suggestions (board_of t))" for t :: "'a jobs_state_scheme"
    by (simp add: fresh_result_def)
  then show ?thesis by (simp add: board_only_def del: bd_simps)
qed

lemma board_only_conj: "board_only P \<Longrightarrow> board_only Q \<Longrightarrow> board_only (\<lambda>t. P t \<and> Q t)"
  unfolding board_only_def by blast

definition after_finish :: "'z jobs_state_scheme \<Rightarrow> bool \<Rightarrow> ai_task \<Rightarrow> 'z jobs_state_scheme \<Rightarrow> bool" where
  "after_finish s success x t \<longleftrightarrow> moved_on s t \<and> (success \<longrightarrow> fresh_result x t)"

lemma after_finish_only: "board_only (after_finish s success x)"
  using moved_on_board_only [of s] fresh_result_only [of x] unfolding board_only_def after_finish_def by blast

lemma finish_settles:
  assumes "moved_on s t" and "x \<in> set (ai_tasks t)" and "at_status x \<in> ACTIVE_STATUSES"
    and "await (save_task (finished_task success p u x)) (\<lambda>_.
      await (if success then commitUsage (at_usageReservationId (finished_task success p u x)) a
             else releaseUsage (at_usageReservationId (finished_task success p u x))) (\<lambda>_. ok ())) t = (Inr y, t2)"
  shows "after_finish s success (finished_task success p u x) t2"
proof -
  let ?x = "finished_task success p u x"
  obtain y1 t1 q b where t: "save_task ?x t = (Inr y1, t1)"
    "finish_usage (at_usageReservationId ?x) (reservation_status (at_status ?x)) b t1 = (Inr q, t2)"
    using assms(4) by (auto simp: action_Inr releaseUsage_def commitUsage_def finished_task_def reservation_status_def
        ACTIVE_STATUSES_def split: if_splits)
  have "job_can (at_status x) (at_status ?x)"
    using assms(3) by (auto simp: job_can_def finished_task_def intro: exI [of _ Completes] exI [of _ Fails])
  then have adv: "moved_on s t2"
    by (intro moved_on_settle [OF assms(1,2) _ assms(3) _ _ _ _ t(1) refl t(2)])
      (simp_all add: same_task_def finished_task_def ACTIVE_STATUSES_def)
  have "fresh_result ?x t2" if success
  proof -
    have "at_id x \<notin> sg_taskId ` set (suggestions t)"
    proof
      assume "at_id x \<in> sg_taskId ` set (suggestions t)"
      then obtain z where z: "z \<in> set (ai_tasks t)" "at_id z = at_id x" "at_status z = COMPLETED"
        using moved_on_consistent [OF assms(1)] unfolding consistent_def by force
      have "keyed at_id (ai_tasks t)" using moved_on_consistent [OF assms(1)] by (simp add: consistent_def)
      then have "z = x" using z(1) assms(2) z(2) by (rule keyed_same_col)
      with z(3) assms(3) show False by (simp add: ACTIVE_STATUSES_def)
    qed
    moreover have "ai_tasks t2 = ai_tasks t1 \<and> suggestions t2 = suggestions t1"
      using t(2) by (cases rule: finish_usage_Inr)
        (auto dest: arg_cong [where f = "\<lambda>b. (bd_tasks b, bd_suggestions b)"])
    moreover have "?x \<in> set (ai_tasks t1)" "suggestions t1 = suggestions t"
      using t(1) by (auto simp: save_task_def writes_run)
    ultimately show ?thesis using that by (simp add: fresh_result_def finished_task_def)
  qed
  with adv show ?thesis by (simp add: after_finish_def)
qed

lemma active_cases: "a \<noteq> JobStatus.SUPERSEDED \<Longrightarrow> a \<notin> FINAL_STATUSES \<Longrightarrow> a \<in> ACTIVE_STATUSES"
  by (cases a) (auto simp: ACTIVE_STATUSES_def FINAL_STATUSES_def)

lemma leaves_finish_task:
  assumes "moved_on s t" and "x \<in> set (ai_tasks t)"
  shows "leaves (moved_on s) (finish_task x p c success) t"
proof (cases "at_status x = JobStatus.SUPERSEDED")
  case True
  have "leaves (moved_on s) (save_task (stale_task u x)) t" for u
  proof -
    obtain t1 where run: "save_task (stale_task u x) t = (Inr (), t1)" by (simp add: save_task_def writes_run)
    have "moved_on s t1"
      by (rule moved_on_ignore [OF assms _ True _ _ _ run]) (simp_all add: stale_task_def same_task_def)
    with run show ?thesis by (simp add: leaves_def)
  qed
  with True assms(1) show ?thesis unfolding finish_task_def Let_def
    by simp (rule leaves_guard [OF reads_current_time], assumption, rule leaves_step, assumption,
      rule leaves_keeps, intro keeps_intros moved_on_db moved_on_board_only, assumption)
next
  case False
  show ?thesis
  proof (cases "at_status x \<in> FINAL_STATUSES")
    case True
    with False assms(1) show ?thesis by (simp add: finish_task_def FINAL_STATUSES_def leaves_ok)
  next
    case final: False
    have "leaves (moved_on s) (transaction (await (save_task (finished_task success p u x)) (\<lambda>_.
      await (if success then commitUsage (at_usageReservationId (finished_task success p u x)) (or_else (num_field p ''actualUsage'') 1)
             else releaseUsage (at_usageReservationId (finished_task success p u x))) (\<lambda>_. ok ())))) t" for u
      by (rule leaves_committed [where P = "moved_on s", OF assms(1)])
        (use finish_settles [OF assms active_cases [OF False final]] in \<open>auto simp: after_finish_def\<close>)
    with False final assms(1) show ?thesis unfolding finish_task_def Let_def FINAL_STATUSES_def if_not_P [OF False]
      by (simp only: if_False not_False_eq_True)
        (rule leaves_guard [OF reads_current_time], assumption, rule leaves_step, assumption,
         rule leaves_keeps, intro keeps_intros moved_on_db moved_on_board_only, assumption)
  qed
qed

lemma finish_task_Finished:
  assumes "moved_on s t" and "x \<in> set (ai_tasks t)" and "finish_task x p c True t = (Inr (x', Finished), t2)"
  shows "fresh_result x' t2"
proof -
  have status: "at_status x \<noteq> JobStatus.SUPERSEDED" "at_status x \<notin> FINAL_STATUSES"
    using assms(3) by (auto simp: finish_task_def action_Inr Let_def FINAL_STATUSES_def)
  let ?x = "finished_task True p (now t) x"
  obtain t1 t3 where x': "x' = ?x" and run: "await (save_task ?x) (\<lambda>_.
      await (commitUsage (at_usageReservationId ?x) (or_else (num_field p ''actualUsage'') 1)) (\<lambda>_. ok ())) t = (Inr (), t1)"
    "createNotification (at_organizationId x) (Some (at_workspaceId x)) (at_userId x) AI_TASK_COMPLETED
       ''AI task completed'' ''Your AI task is ready.'' (JObj [(''taskId'', JStr (at_id x))]) t1 = (Inr (), t3)"
    "createAuditLog (at_organizationId x) (Some (at_workspaceId x)) (at_userId x) ''ai_task.completed'' ''ai_task'' (at_id x)
       (task_status_json ?x) c t3 = (Inr (), t2)"
    using assms(3) status
    by (auto simp: finish_task_def FINAL_STATUSES_def await_Inr_iff transaction_Inr_iff ok_Inr_iff current_time_run Let_def)
  have "fresh_result ?x t1"
    using finish_settles [of s t x True p "now t"] assms(1,2) active_cases [OF status] run(1)
    by (auto simp: after_finish_def)
  then have "fresh_result ?x t3" by (rule keepsD [OF keeps_createNotification [OF fresh_result_only] _ run(2)])
  then have "fresh_result ?x t2" by (rule keepsD [OF keeps_createAuditLog [OF fresh_result_only] _ run(3)])
  with x' show ?thesis by simp
qed

lemma leaves_createSuggestion:
  assumes "moved_on s t" and "fresh_result x t"
  shows "leaves (moved_on s) (createSuggestionFromResult x p) t"
proof -
  let ?i = "suggestion_from x (or_else (obj_field p ''result'') (JObj []))"
  have i: "gi_taskId ?i = at_id x" by (simp add: suggestion_from_def Let_def)
  have none: "suggestion_of_task (gi_taskId ?i) (gi_organizationId ?i) (gi_workspaceId ?i) t = None"
    using assms(2) unfolding i by (auto simp: suggestion_of_task_def find_None_conv fresh_result_def image_iff)
  have step: "moved_on s (suggestions_update (\<lambda>l. l @ [new_suggestion ?i u v]) t1)"
    if "row_id sg_id suggestions ''canvas_ai_suggestion_pkey'' t = (Inr u, t1)" for u v t1
  proof -
    note row = row_id_Inr [OF that]
    have t1: "suggestions t1 = suggestions t" "ai_tasks t1 = ai_tasks t"
      using arg_cong [OF conjunct2 [OF row], of bd_suggestions] arg_cong [OF conjunct2 [OF row], of bd_tasks]
      by (simp_all only: bd_simps)
    have "board_step (board_of t1) ((board_of t1)\<lparr>bd_suggestions := bd_suggestions (board_of t1) @ [new_suggestion ?i u v]\<rparr>)"
      by (rule board_step.suggest [of x]) (use row assms(2) i t1 in \<open>simp_all add: fresh_result_def new_suggestion_def\<close>)
    moreover have "moved_on s t1" by (rule moved_on_same [OF assms(1)]) (simp only: row)
    ultimately show ?thesis by (elim moved_on_step) (simp add: board_of_suggestions)
  qed
  have rows: "moved_on s t1" if "row_id sg_id suggestions ''canvas_ai_suggestion_pkey'' t = (r, t1)" for r t1
    by (rule keepsD [OF keeps_row_id [OF moved_on_db] assms(1) that])
  show ?thesis unfolding createSuggestionFromResult_def createOrUpdate_def
    by (rule leaves_guard [where P = "moved_on s", OF reads_only_reads assms(1)], simp add: reads_run none,
        rule leaves_await, erule rows, rule leaves_guard [OF reads_current_time], erule rows, rule leaves_writes,
        rule leaves_keeps, intro keeps_intros moved_on_db, erule step)
qed

lemma leaves_on_finish:
  assumes "moved_on s t" and "x \<in> set (ai_tasks t)"
  shows "leaves (moved_on s) (on_finish success x p c) t"
  unfolding on_finish_def
proof (rule leaves_step [where P = "moved_on s", OF leaves_finish_task [OF assms]], clarify)
  fix x' outcome t1
  assume run: "finish_task x p c success t = (Inr (x', outcome), t1)" and t1: "moved_on s t1"
  have "leaves (moved_on s) (createSuggestionFromResult x' p) t1" if success "outcome = Finished"
    using finish_task_Finished [OF assms, of p c x' t1] run that by (intro leaves_createSuggestion t1) simp
  moreover have "leaves (moved_on s) (on_canvas x' e fs) t1" for e fs
    by (rule leaves_keeps [where P = "moved_on s", OF keeps_on_canvas [OF moved_on_db] t1])
  ultimately show "leaves (moved_on s) (case outcome of IgnoredResult \<Rightarrow> ok None
     | StaleResult \<Rightarrow> ok (Some (x', ''ai.task.stale'', stale_json x'))
     | Finished \<Rightarrow> await (if success \<and> at_canvasId x' \<noteq> None then createSuggestionFromResult x' p
         else if \<not> success then on_canvas x' ''canvas.ai.preview.failed'' (snapshot_field x' @
                  [(''error_code'', JStr (or_else (str_field p ''errorCode'') ''WORKER_FAILED'')),
                   (''error_message'', JStr (or_else (str_field p ''errorMessage'') ''Worker task failed''))])
         else ok ()) (\<lambda>_. ok (Some (x', ''ai.task.'' @ (if success then ''completed'' else ''failed''), p)))) t1"
    using t1 by (cases outcome) (auto intro!: leaves_step leaves_ok)
qed

lemma leaves_take_event:
  "moved_on s t \<Longrightarrow> x \<in> set (ai_tasks t) \<Longrightarrow> leaves (moved_on s) (take_event k x p c) t"
  by (cases k) (simp_all add: take_event_def leaves_on_started leaves_on_progress leaves_on_cancelled leaves_on_finish)

lemma task_of_event_in: "task_of_event e s = Some x \<Longrightarrow> x \<in> set (ai_tasks s)"
  unfolding task_of_event_def by (drule find_Some_conv) simp

lemma leaves_handle_task_event:
  assumes "moved_on s t"
  shows "leaves (moved_on s) (handle_task_event k e) t"
proof -
  have *: "leaves (moved_on s) (await (reads (task_of_event e)) (\<lambda>found. await (some_or_throw found ex) (\<lambda>x.
      await (take_event k x p c) (\<lambda>told. case told of None \<Rightarrow> ok () | Some (t', name, q) \<Rightarrow> broadcast_task t' name q)))) t1"
    if "moved_on s t1" for ex p c t1
    by (rule leaves_guard [where P = "moved_on s", OF reads_only_reads that], rule leaves_guard [where P = "moved_on s", OF reads_only_some_or_throw that],
        rule leaves_step [where P = "moved_on s", OF leaves_take_event [OF that]], simp add: reads_run some_or_throw_Inr_iff task_of_event_in,
        rule leaves_keeps, intro keeps_intros moved_on_db, assumption)
  show ?thesis unfolding handle_task_event_def Let_def
    by (rule leaves_guard [where P = "moved_on s", OF reads_only_reads assms], rule leaves_guard [where P = "moved_on s", OF reads_lift assms],
        rule leaves_guard [where P = "moved_on s", OF reads_only_require assms], rule leaves_step [where P = "moved_on s", OF leaves_keeps
          [where P = "moved_on s", OF keeps_validate_token [OF moved_on_board_only] assms]], rule leaves_guard [OF reads_only_require], assumption, rule *)
qed

section \<open>Reviews of suggestions\<close>

lemma leaves_save_suggestion:
  assumes "moved_on s t" and "g \<in> set (suggestions t)" and "sg_status g = READY"
    and "same_suggestion g (g'\<lparr>sg_updatedAt := now t\<rparr>)" and "sg_status g' \<in> {ACCEPTED, REJECTED}"
  shows "leaves (moved_on s) (save_suggestion g') t"
proof -
  let ?g = "g'\<lparr>sg_updatedAt := now t\<rparr>"
  have "board_step (board_of t) ((board_of t)\<lparr>bd_suggestions := save_row sg_id ?g (bd_suggestions (board_of t))\<rparr>)"
    by (rule board_step.review [where g = g]) (use assms(2-5) in simp_all)
  then have "moved_on s (suggestions_update (save_row sg_id ?g) t)"
    by (intro moved_on_step [OF assms(1)]) (simp add: board_of_suggestions)
  then show ?thesis by (simp add: leaves_def save_suggestion_def action_simps)
qed

lemma reads_findSuggestion [read_intros]: "reads_only (findSuggestion i org ws)"
  unfolding findSuggestion_def by (intro read_intros)

lemma findSuggestion_in: "findSuggestion i org ws t = (Inr g, u) \<Longrightarrow> g \<in> set (suggestions t)"
  by (auto simp: findSuggestion_def action_Inr dest: find_Some_conv)

lemma leaves_suggestion_reviews:
  assumes "moved_on s t"
  shows "leaves (moved_on s) (accept_suggestion i org ws) t" "leaves (moved_on s) (reject_suggestion i org ws) t"
  unfolding accept_suggestion_def reject_suggestion_def Let_def
  by (rule leaves_guard [where P = "moved_on s", OF reads_findSuggestion assms], (rule leaves_guard [where P = "moved_on s", OF reads_only_require assms])+,
      rule leaves_guard [where P = "moved_on s", OF reads_current_time assms], rule leaves_step, rule leaves_save_suggestion [OF assms],
      erule findSuggestion_in, simp add: require_Inr_iff, simp add: same_suggestion_def, simp, rule leaves_keeps,
      intro keeps_intros moved_on_db, assumption)+

end
