(* ===== verification/PreviewsProps.thy ===== *)
theory PreviewsProps
  imports Previews JobsProps
begin

text \<open>
  A request for a preview takes the steps of the board, leaves nothing behind when it fails, and supersedes the
  previews of older revisions; equivalent requests are never recognized.
\<close>

section \<open>What leaves the board alone\<close>

lemma board_of_tables [simp]:
  "board_of (canvas_rows_update f s) = board_of s" "board_of (preview_snapshots_update g s) = board_of s"
  "board_of (stored_snapshot_update h s) = board_of s" "board_of (coordinator_update k s) = board_of s"
  by (simp_all add: board_of_def)

lemma board_of_calls [simp]: "board_of (store_calls_update f s) = board_of s"
  by (simp add: board_of_def)

lemma keeps_lift [keeps_intros]: "keeps P (lift r)"
  by (rule reads_only_keepsI [OF reads_lift])

lemma keeps_assertElementReferences [keeps_intros]: "keeps P (assertElementReferences es g)"
  by (simp add: assertElementReferences_def keeps_intros split: list.split)

lemma keeps_serialize_canvas [keeps_intros]: "keeps P (serialize_canvas i n)"
  unfolding serialize_canvas_def by (intro keeps_intros)

lemma keeps_ask_store [keeps_intros]: "board_only P \<Longrightarrow> keeps P (ask_store c)"
  unfolding ask_store_def by (intro keeps_intros keeps_writes_board) simp_all

lemma keeps_put_snapshot [keeps_intros]: "board_only P \<Longrightarrow> keeps P (put_snapshot ctx c i v b)"
  unfolding put_snapshot_def by (intro keeps_intros keeps_writes_board) simp_all

lemma keeps_insert_snapshot [keeps_intros]: "board_only P \<Longrightarrow> keeps P (insert_snapshot n)"
  unfolding insert_snapshot_def Let_def by (intro keeps_intros keeps_writes_board) simp_all

lemma keeps_freeze [keeps_intros]: "board_only P \<Longrightarrow> keeps P (freeze org ws c r i p u g)"
  unfolding freeze_def by (intro keeps_intros)

lemma keeps_lock_canvas [keeps_intros]: "board_only P \<Longrightarrow> keeps P (lock_canvas ws c org)"
  unfolding lock_canvas_def Let_def by (intro keeps_intros keeps_writes_board) simp_all

lemma keeps_supersede_snapshot [keeps_intros]: "board_only P \<Longrightarrow> keeps P (supersede_snapshot org ws c n i)"
  unfolding supersede_snapshot_def by (intro keeps_intros keeps_writes_board) simp_all

lemma keeps_supersede_snapshots: "board_only P \<Longrightarrow> keeps P (for_each l (supersede_snapshot org ws c n))"
  by (intro keeps_intros)

lemma keeps_announce [keeps_intros]: "board_only P \<Longrightarrow> keeps P (announce e n c i)"
  unfolding announce_def by (intro keeps_intros board_only_db)

lemma keeps_emitPersisted [keeps_intros]: "db_only P \<Longrightarrow> keeps P (emitPersistedEvents r org ws c)"
  unfolding emitPersistedEvents_def broadcastSnapshotCreated_def broadcastAiPreview_def by (intro keeps_intros)

lemma keeps_responseFromTask [keeps_intros]: "keeps P (responseFromTask t)"
  by (simp add: responseFromTask_def keeps_intros split: option.split)

lemma keeps_duplicate_of [keeps_intros]: "keeps P (duplicate_of t)"
  unfolding duplicate_of_def requireTaskSnapshot_def by (intro keeps_intros)

lemma keeps_assertSources [keeps_intros]: "keeps P (assertSourcesInTenant ids org ws)"
  unfolding assertSourcesInTenant_def by (intro keeps_intros)

lemma keeps_remove_stored [keeps_intros]: "board_only P \<Longrightarrow> keeps P (remove_stored ctx)"
  unfolding remove_stored_def
  by (intro keeps_intros) (auto intro: keeps_intros)

section \<open>Superseding\<close>

lemma insert_preview_task_Inr:
  assumes "insert_preview_task x s = (Inr x', t)"
  shows "at_id x \<notin> at_id ` set (ai_tasks s) \<and> at_idempotencyKey x \<notin> at_idempotencyKey ` set (ai_tasks s) \<and>
    x' = x\<lparr>at_createdAt := now s\<rparr> \<and>
    t = ai_tasks_update (\<lambda>l. l @ [x'\<lparr>at_requestPayload := jsonb (at_requestPayload x')\<rparr>]) s"
  using assms by (auto simp: insert_preview_task_def action_Inr current_time_run Let_def)

lemma moved_on_preview:
  assumes "moved_on s t0" and "reserveUsage input t0 = (Inr r, t1)" and "insert_preview_task x t1 = (Inr x', t2)"
    and "ri_idempotencyKey input = ''canvas-preview:'' @ at_id x" and "at_usageReservationId x = us_id r"
    and "at_status x = JobStatus.QUEUED" and "at_progress x = 0" and "at_resultPayload x = None"
  shows "moved_on s t2"
proof -
  let ?y = "x'\<lparr>at_requestPayload := jsonb (at_requestPayload x')\<rparr>"
  have key: "us_idempotencyKey r = ''canvas-preview:'' @ at_id x"
    using reserveUsage_Inr [OF assms(2)] assms(4) by simp
  note ins = insert_preview_task_Inr [OF assms(3)]
  have t1: "ai_tasks t1 = ai_tasks t0"
    using reserveUsage_Inr [OF assms(2)] by (auto dest: arg_cong [where f = bd_tasks])
  have "\<not> (board_of t1 = board_of t0 \<and> r \<in> set (reservations t0))"
  proof
    assume "board_of t1 = board_of t0 \<and> r \<in> set (reservations t0)"
    then obtain y where y: "y \<in> set (ai_tasks t0)" "key_of r y"
      using moved_on_consistent [OF assms(1)] by (auto simp: consistent_def)
    then have "at_id y = at_id x" using key by (auto simp: key_of_def)
    with y(1) ins t1 show False by (metis image_eqI)
  qed
  then have r: "us_id r \<notin> us_id ` set (reservations t0)" "us_status r = RESERVED"
    "board_of t1 = (board_of t0)\<lparr>bd_reservations := reservations t0 @ [r]\<rparr>"
    using reserveUsage_Inr [OF assms(2)] by blast+
  have "board_step (board_of t0) ((board_of t0)\<lparr>bd_tasks := bd_tasks (board_of t0) @ [?y],
      bd_reservations := bd_reservations (board_of t0) @ [r]\<rparr>)"
    using ins t1 r(1,2) key assms(5-8) by (intro board_step.create) (simp_all add: key_of_def)
  moreover have "board_of t2 = (board_of t1)\<lparr>bd_tasks := ai_tasks t1 @ [?y]\<rparr>"
    using ins by (simp add: board_of_def)
  then have "board_of t2 = (board_of t0)\<lparr>bd_tasks := bd_tasks (board_of t0) @ [?y],
      bd_reservations := bd_reservations (board_of t0) @ [r]\<rparr>"
    using r(3) t1 by (simp add: board_of_def)
  ultimately show ?thesis by (intro moved_on_step [OF assms(1)]) simp
qed

lemma supersede_task_Inr:
  assumes "moved_on s t" and "x \<in> set (ai_tasks t)" and "at_status x \<in> ACTIVE_STATUSES"
    and "supersede_task i x t = (Inr y, u)"
  shows "moved_on s u"
    and "ai_tasks u = save_row at_id (x\<lparr>at_status := JobStatus.SUPERSEDED, at_supersededByTaskId := Some i\<rparr>) (ai_tasks t)"
proof -
  let ?x = "x\<lparr>at_status := JobStatus.SUPERSEDED, at_supersededByTaskId := Some i\<rparr>"
  obtain y1 t1 q where run: "save_task ?x t = (Inr y1, t1)" "finish_usage (at_usageReservationId ?x) RELEASED 0 t1 = (Inr q, u)"
    using assms(4) by (auto simp: supersede_task_def action_Inr releaseUsage_def)
  have none: "at_resultPayload x = None"
    using moved_on_result [OF assms(1,2)] active_statuses [OF assms(3)] by simp
  have "job_can (at_status x) (at_status ?x)"
    using assms(3) by (auto simp: job_can_def intro: exI [of _ Supersedes])
  then show "moved_on s u"
    by (intro moved_on_settle [OF assms(1,2) _ assms(3) _ _ _ _ run(1) _ run(2)])
      (simp_all add: same_task_def ACTIVE_STATUSES_def reservation_status_def none)
  have "ai_tasks u = ai_tasks t1"
    using run(2) by (cases rule: finish_usage_Inr) (auto dest: arg_cong [where f = bd_tasks])
  then show "ai_tasks u = save_row at_id ?x (ai_tasks t)"
    using run(1) by (auto simp: save_task_def writes_run)
qed

lemma supersede_all:
  assumes "moved_on s t" and "distinct (map at_id xs)" and "\<forall>x \<in> set xs. x \<in> set (ai_tasks t) \<and> at_status x \<in> ACTIVE_STATUSES"
    and "for_each xs (supersede_task i) t = (Inr y, u)"
  shows "moved_on s u \<and> (\<forall>z \<in> set (ai_tasks u). z \<in> set (ai_tasks t) \<and> at_id z \<notin> at_id ` set xs \<or>
    at_id z \<in> at_id ` set xs \<and> at_status z = JobStatus.SUPERSEDED) \<and>
    (\<forall>z \<in> set (ai_tasks t). at_id z \<notin> at_id ` set xs \<longrightarrow> z \<in> set (ai_tasks u)) \<and>
    map at_id (ai_tasks u) = map at_id (ai_tasks t)"
  using assms
proof (induction xs arbitrary: t)
  case Nil
  then show ?case by (simp add: ok_run)
next
  case (Cons x xs)
  let ?x = "x\<lparr>at_status := JobStatus.SUPERSEDED, at_supersededByTaskId := Some i\<rparr>"
  obtain y1 t1 where run: "supersede_task i x t = (Inr y1, t1)" "for_each xs (supersede_task i) t1 = (Inr y, u)"
    using Cons.prems(4) by (auto simp: await_Inr_iff)
  have x: "x \<in> set (ai_tasks t)" "at_status x \<in> ACTIVE_STATUSES" using Cons.prems(3) by simp_all
  note sup = supersede_task_Inr [OF Cons.prems(1) x run(1)]
  have k: "keyed at_id (ai_tasks t)" using moved_on_consistent [OF Cons.prems(1)] by (simp add: consistent_def)
  have t1: "set (ai_tasks t1) = insert ?x {z \<in> set (ai_tasks t). at_id z \<noteq> at_id x}"
    unfolding sup(2) by (simp add: set_save_row [OF k])
  have m: "map at_id (ai_tasks t1) = map at_id (ai_tasks t)"
    unfolding sup(2) using x(1) by (intro map_key_save_row) force
  have "\<forall>z \<in> set xs. z \<in> set (ai_tasks t1) \<and> at_status z \<in> ACTIVE_STATUSES"
    using Cons.prems(2,3) by (auto simp: t1 image_iff)
  from Cons.IH [OF sup(1) _ this run(2)] Cons.prems(2) show ?case by (auto simp: t1 image_iff m)
qed

lemma enqueue_Inr:
  assumes "moved_on s t0" and "enqueue ids org ws c p g corr usr t0 = (Inr r, u)"
  shows "moved_on s u"
    and "\<exists>x \<in> set (ai_tasks u). at_id x = id_task ids \<and> at_status x = JobStatus.QUEUED \<and> at_canvasId x = Some (cv_id c) \<and>
      at_organizationId x = org \<and> at_workspaceId x = ws \<and> at_canvasRevision x = Some (cv_revision c) \<and>
      at_requestPayload x = jsonb (target_json g) \<and> at_id (ps_task r) = at_id x \<and> \<not> ps_duplicate r \<and>
      id_task ids \<notin> at_id ` set (ai_tasks t0)"
    and "\<forall>y \<in> set (active_previews org ws (cv_id c) u). (case at_canvasRevision y of None \<Rightarrow> True | Some n \<Rightarrow> cv_revision c \<le> n)"
    and "map at_id (ai_tasks u) = map at_id (ai_tasks t0) @ [id_task ids]"
proof -
  obtain n created t1 q t2 x t3 t4 t5 y1 y2 y3 where
    run: "freeze org ws (cv_id c) (cv_revision c) (id_snapshot ids) p usr g t0 = (Inr (n, created), t1)"
    "reserveUsage \<lparr> ri_organizationId = org, ri_workspaceId = ws, ri_dimension = AI_INPUT_TOKENS, ri_amount = 1,
              ri_idempotencyKey = ''canvas-preview:'' @ id_task ids, ri_limit = None \<rparr> t1 = (Inr q, t2)"
    "insert_preview_task (preview_task (id_task ids) org ws usr g corr (id_key ids) (us_id q) (cv_id c) n (cv_revision c)) t2 =
       (Inr x, t3)"
    "for_each (older_previews org ws (cv_id c) (at_id x) (cv_revision c) t3) (supersede_task (at_id x)) t3 = (Inr y1, t4)"
    "for_each (remdups (map snd (superseded_of (older_previews org ws (cv_id c) (at_id x) (cv_revision c) t3))))
       (supersede_snapshot org ws (cv_id c) (sn_id n)) t4 = (Inr y2, t5)"
    "announce (id_event ids) (sn_id n) corr (preview_event_of (id_event ids) org ws p corr usr (at_id x) (cv_id c)
       (cv_revision c) n g) t5 = (Inr y3, u)"
    and r: "at_id (ps_task r) = at_id x" "\<not> ps_duplicate r"
    using assms(2) unfolding enqueue_def Let_def by (auto simp: await_Inr_iff ok_Inr_iff reads_Inr_iff)
  let ?older = "older_previews org ws (cv_id c) (at_id x) (cv_revision c) t3"
  have t1: "moved_on s t1" by (rule keepsD [OF keeps_freeze [OF moved_on_board_only] assms(1) run(1)])
  have t3: "moved_on s t3"
    by (rule moved_on_preview [OF t1 run(2,3)]) (simp_all add: preview_task_def)
  have "distinct (map at_id (ai_tasks t3))" using moved_on_consistent [OF t3] by (simp add: consistent_def keyed_def)
  then have older: "distinct (map at_id ?older)" "\<forall>z \<in> set ?older. z \<in> set (ai_tasks t3) \<and> at_status z \<in> ACTIVE_STATUSES"
    by (auto simp: older_previews_def active_previews_def distinct_map_filter)
  note sup = supersede_all [OF t3 older run(4)]
  have b4: "board_of t5 = board_of t4"
    by (rule same_board [OF keeps_supersede_snapshots [OF board_only_eq] run(5)])
  have b5: "board_of u = board_of t5"
    by (rule same_board [OF keeps_announce [OF board_only_eq] run(6)])
  show "moved_on s u" using sup moved_on_same [of s t4 u] b4 b5 by simp
  have tasks: "ai_tasks u = ai_tasks t4" using b4 b5 by (auto dest: arg_cong [where f = bd_tasks])
  note ins = insert_preview_task_Inr [OF run(3)]
  have "ai_tasks t1 = ai_tasks t0"
    using keepsD [OF keeps_freeze [OF board_only_eq] refl run(1)] by (auto dest: arg_cong [where f = bd_tasks])
  moreover have "ai_tasks t2 = ai_tasks t1"
    using reserveUsage_Inr [OF run(2)] by (auto dest: arg_cong [where f = bd_tasks])
  ultimately have fresh: "id_task ids \<notin> at_id ` set (ai_tasks t0)"
    and added: "map at_id (ai_tasks t3) = map at_id (ai_tasks t0) @ [id_task ids]" using ins by (simp_all add: preview_task_def)
  show "map at_id (ai_tasks u) = map at_id (ai_tasks t0) @ [id_task ids]"
    using sup added tasks by simp
  let ?x = "x\<lparr>at_requestPayload := jsonb (at_requestPayload x)\<rparr>"
  have x: "x = (preview_task (id_task ids) org ws usr g corr (id_key ids) (us_id q) (cv_id c) n (cv_revision c))\<lparr>at_createdAt := now t2\<rparr>"
    using ins by blast
  have others: "z \<in> set (ai_tasks t3) \<Longrightarrow> at_id z \<notin> at_id ` set ?older \<Longrightarrow> z \<in> set (ai_tasks t4)" for z
    using conjunct1 [OF conjunct2 [OF conjunct2 [OF sup]]] by (elim ballE) (erule (1) mp, erule (1) notE)
  have x3: "?x \<in> set (ai_tasks t3)" using ins by simp
  have "?x \<in> set (ai_tasks u)" unfolding tasks
    by (rule others [OF x3]) (auto simp: older_previews_def)
  then show "\<exists>x \<in> set (ai_tasks u). at_id x = id_task ids \<and> at_status x = JobStatus.QUEUED \<and> at_canvasId x = Some (cv_id c) \<and>
      at_organizationId x = org \<and> at_workspaceId x = ws \<and> at_canvasRevision x = Some (cv_revision c) \<and>
      at_requestPayload x = jsonb (target_json g) \<and> at_id (ps_task r) = at_id x \<and> \<not> ps_duplicate r \<and>
      id_task ids \<notin> at_id ` set (ai_tasks t0)"
    by (rule bexI [rotated]) (use r fresh in \<open>simp add: x preview_task_def\<close>)
  show "\<forall>y \<in> set (active_previews org ws (cv_id c) u). (case at_canvasRevision y of None \<Rightarrow> True | Some n \<Rightarrow> cv_revision c \<le> n)"
  proof
    fix y
    assume "y \<in> set (active_previews org ws (cv_id c) u)"
    then have y: "y \<in> set (ai_tasks t4)" "at_status y \<in> ACTIVE_STATUSES" "at_organizationId y = org"
      "at_workspaceId y = ws" "at_canvasId y = Some (cv_id c)" by (simp_all add: active_previews_def tasks)
    then have z: "y \<in> set (ai_tasks t3)" "at_id y \<notin> at_id ` set ?older" using sup by (auto simp: ACTIVE_STATUSES_def)
    show "case at_canvasRevision y of None \<Rightarrow> True | Some n \<Rightarrow> cv_revision c \<le> n"
    proof (cases "at_id y = at_id x")
      case True
      have "keyed at_id (ai_tasks t3)" using moved_on_consistent [OF t3] by (simp add: consistent_def)
      then have "y = ?x" using z(1) x3 True by (auto dest: keyed_same_col)
      then show ?thesis by (simp add: x preview_task_def)
    next
      case False
      with y z have "y \<notin> set ?older" by auto
      with False y z(1) show ?thesis by (auto simp: older_previews_def active_previews_def split: option.splits)
    qed
  qed
qed

section \<open>Requests\<close>

lemma keeps_preview_transaction:
  assumes "board_only P" and "\<And>s x t. P s \<Longrightarrow> m s = (Inr x, t) \<Longrightarrow> P t"
  shows "keeps P (preview_transaction m)"
proof (rule keepsI)
  fix s
  assume s: "P s"
  have "P (s\<lparr>store_calls := a, stored_snapshot := b\<rparr>)" for a b
    by (rule board_onlyD [OF assms(1) s]) (simp add: board_of_def)
  then show "P (snd (preview_transaction m s))"
    using s assms(2) by (auto simp: preview_transaction_def split: prod.split sum.split)
qed

section \<open>Outside the tables\<close>

text \<open>The calls to the object store and the outbox; most steps leave both alone.\<close>

definition outer :: "'z preview_state_scheme \<Rightarrow> _" where
  "outer s = (env s, store_calls s, stored_snapshot s, outbox s)"

definition outer_only :: "('z preview_state_scheme \<Rightarrow> bool) \<Rightarrow> bool" where
  "outer_only P \<longleftrightarrow> (\<forall>s t. outer t = outer s \<longrightarrow> P s \<longrightarrow> P t)"

lemma outer_onlyD: "outer_only P \<Longrightarrow> P s \<Longrightarrow> outer t = outer s \<Longrightarrow> P t"
  unfolding outer_only_def by blast

lemma outer_only_db: "outer_only P \<Longrightarrow> db_only P"
  by (rule db_onlyI; erule (1) outer_onlyD) (simp_all add: outer_def)

lemma keeps_writes_outer: "outer_only P \<Longrightarrow> (\<And>s. outer (f s) = outer s) \<Longrightarrow> keeps P (writes f)"
  unfolding keeps_def by (simp add: writes_run) (meson outer_onlyD)

lemma outer_tables [simp]:
  "outer (ai_tasks_update f1 s) = outer s" "outer (reservations_update f2 s) = outer s"
  "outer (workspace_usages_update f3 s) = outer s" "outer (canvas_rows_update f4 s) = outer s"
  "outer (preview_snapshots_update f5 s) = outer s"
  by (simp_all add: outer_def)

lemma keeps_outer_usage:
  assumes "outer_only P"
  shows "keeps P (reserveUsage i)" "keeps P (add_usage r a)" "keeps P (finish_usage j st a)"
proof -
  note k = keeps_writes_outer [OF assms] outer_only_db [OF assms]
  show "keeps P (reserveUsage i)" unfolding reserveUsage_def Let_def by (intro keeps_intros k) simp_all
  show add: "keeps P (add_usage r a)" for r a unfolding add_usage_def by (intro keeps_intros k) simp_all
  show "keeps P (finish_usage j st a)" unfolding finish_usage_def Let_def by (intro keeps_intros k add) simp_all
qed

lemma keeps_outer_steps:
  assumes "outer_only P"
  shows "keeps P (lock_canvas ws c org)" "keeps P (insert_snapshot n)" "keeps P (insert_preview_task x)"
    "keeps P (supersede_task i x)" "keeps P (supersede_snapshot org ws c i j)"
proof -
  note k = keeps_writes_outer [OF assms] keeps_outer_usage [OF assms] outer_only_db [OF assms]
  show "keeps P (lock_canvas ws c org)" unfolding lock_canvas_def Let_def by (intro keeps_intros k) simp_all
  show "keeps P (insert_snapshot n)" unfolding insert_snapshot_def Let_def by (intro keeps_intros k) simp_all
  show "keeps P (insert_preview_task x)" unfolding insert_preview_task_def Let_def by (intro keeps_intros k) simp_all
  show "keeps P (supersede_task i x)"
    unfolding supersede_task_def save_task_def releaseUsage_def by (intro keeps_intros k) simp_all
  show "keeps P (supersede_snapshot org ws c i j)" unfolding supersede_snapshot_def by (intro keeps_intros k) simp_all
qed

text \<open>What was asked of the object store since the call list was \<open>l\<close>.\<close>

definition asked :: "environment \<Rightarrow> object_context \<Rightarrow> client_call list \<Rightarrow> 'z preview_state_scheme \<Rightarrow> bool" where
  "asked e ctx l t \<longleftrightarrow> env t = e \<and>
     (store_calls t = l \<and> stored_snapshot t = None \<or>
      (\<exists>b k c h. store_calls t = l @ [PutObject b k c h] \<and> \<not> store_accepts e (length l) (PutObject b k c h) \<and> stored_snapshot t = None) \<or>
      (\<exists>x c h. store_calls t = l @ [PutObject (so_bucket x) (so_key x) c h] \<and> stored_snapshot t = Some x \<and>
         validateWorkspaceObjectPath (bucket_names e) ctx (so_bucket x) (so_key x) = Inr (so_key x)))"

definition unasked :: "environment \<Rightarrow> client_call list \<Rightarrow> 'z preview_state_scheme \<Rightarrow> bool" where
  "unasked e l t \<longleftrightarrow> env t = e \<and> store_calls t = l \<and> stored_snapshot t = None"

lemma asked_outer: "outer_only (asked e ctx l)" "outer_only (unasked e l)"
  by (simp_all add: outer_only_def outer_def asked_def unasked_def)

lemma unasked_asked: "unasked e l t \<Longrightarrow> asked e ctx l t"
  by (simp add: unasked_def asked_def)

lemma asked_outbox [simp]: "asked e ctx l (outbox_update f t) = asked e ctx l t"
  by (simp add: asked_def)

lemma asked_put:
  assumes "unasked e l t"
  shows "leaves (asked e ctx l) (put_snapshot ctx c i v b) t"
proof (cases "storeSnapshot (sha256 t) (bucket_names (env t)) ctx (js c) (js i) v b")
  case (Inl x)
  with assms show ?thesis
    by (simp add: put_snapshot_def leaves_def action_simps lift_def unasked_asked)
next
  case (Inr x)
  then obtain k d where x: "x = (PutObject (bk_snapshots (bucket_names (env t))) d b
      [(''Content-Type'', ''application/json''), (''x-amz-meta-checksum-sha256'', sha256 t b)],
      \<lparr> so_bucket = bk_snapshots (bucket_names (env t)), so_key = d, so_checksumSha256 = sha256 t b,
        so_sizeBytes = length b \<rparr>)"
    and d: "validateWorkspaceObjectPath (bucket_names (env t)) ctx (bk_snapshots (bucket_names (env t))) k = Inr d"
    by (auto simp: storeSnapshot_def split: sum.splits)
  from validated_again [OF d] Inr assms show ?thesis
    by (simp add: put_snapshot_def leaves_def action_simps lift_def ask_store_run x asked_def unasked_def)
qed

lemma keeps_asked_announce: "keeps (asked e ctx l) (announce i n c j)"
proof -
  have "keeps (asked e ctx l) (outbox_create input options)" for input options
    unfolding outbox_create_def save_outbox_def Let_def
    by (intro keeps_intros outer_only_db asked_outer) (auto intro: keeps_intros outer_only_db asked_outer split: option.split json.split)
  then show ?thesis unfolding announce_def
    by (intro keeps_await keeps_gen_uuid keeps_reads keeps_lift keeps_ok outer_only_db asked_outer)
qed

lemma asked_guard:
  assumes "keeps (unasked e l) m" and "unasked e l s"
    and "\<And>x t. m s = (Inr x, t) \<Longrightarrow> unasked e l t \<Longrightarrow> leaves (asked e ctx l) (f x) t"
  shows "leaves (asked e ctx l) (await m f) s"
  by (rule leaves_via [where Q = "unasked e l", OF assms(1,2) unasked_asked assms(3)])

lemma leaves_freeze:
  assumes "unasked e l t"
  shows "leaves (asked e (context_of org ws) l) (freeze org ws c r i p u g) t"
proof -
  have put: "leaves (asked e (context_of org ws) l) (await (put_snapshot (context_of org ws) c i v (sz_jsonBytes z)) (\<lambda>stored.
         await (require (F stored) (ServerError ''Stored snapshot metadata does not match the frozen bytes'')) (\<lambda>_.
         await (insert_snapshot (G stored)) (\<lambda>n. ok (n, True))))) t1" if "unasked e l t1" for v z t1 F G
    by (rule leaves_step [OF asked_put [OF that]], rule leaves_keeps, intro keeps_intros keeps_outer_steps asked_outer, assumption)
  show ?thesis unfolding freeze_def
  proof (rule asked_guard [OF keeps_reads assms])
    fix found t1
    assume 1: "reads (available_snapshot org ws c r) t = (Inr found, t1)" "unasked e l t1"
    then show "leaves (asked e (context_of org ws) l) (case found of Some n \<Rightarrow>
         await (serialize_canvas c r) (\<lambda>z. await (assertElementReferences (doc_elements (sz_document z)) g) (\<lambda>_. ok (n, False)))
     | None \<Rightarrow>
         await (reads (next_version c)) (\<lambda>version.
         await (serialize_canvas c r) (\<lambda>z.
         await (assertElementReferences (doc_elements (sz_document z)) g) (\<lambda>_.
         await (put_snapshot (context_of org ws) c i version (sz_jsonBytes z)) (\<lambda>stored.
         await (require (so_bucket stored = ''workspace-snapshots'' \<and> so_checksumSha256 stored = sz_checksumSha256 z \<and>
                  so_sizeBytes stored = sz_sizeBytes z)
                  (ServerError ''Stored snapshot metadata does not match the frozen bytes'')) (\<lambda>_.
         await (insert_snapshot (new_snapshot i org ws p c version r stored u)) (\<lambda>n.
         ok (n, True)))))))) t1"
    proof (cases found)
      case None
      then show ?thesis
        by simp (rule asked_guard [OF keeps_reads 1(2)], rule asked_guard [OF keeps_serialize_canvas], assumption,
          rule asked_guard [OF keeps_assertElementReferences], assumption, erule put)
    next
      case (Some n)
      with 1 show ?thesis
        by simp (rule leaves_keeps, intro keeps_intros, erule unasked_asked)
    qed
  qed
qed

lemma leaves_preview_body:
  assumes "unasked e l t"
  shows "leaves (asked e (context_of org ws) l) (preview_body ids org ws c g corr usr) t"
proof -
  note k = keeps_outer_steps [OF asked_outer(1)] keeps_outer_usage [OF asked_outer(1)] keeps_asked_announce
  have enq: "leaves (asked e (context_of org ws) l) (enqueue ids org ws d p g corr usr) t1" if "unasked e l t1" for d p t1
    unfolding enqueue_def Let_def
    by (rule leaves_step [OF leaves_freeze [OF that]], rule leaves_keeps, intro keeps_intros k, assumption)
  have dup: "leaves (asked e (context_of org ws) l) (duplicate_of x) t1" if "unasked e l t1" for x t1
    by (rule leaves_keeps [where P = "asked e (context_of org ws) l", OF keeps_duplicate_of unasked_asked [OF that]])
  show ?thesis unfolding preview_body_def
    by (rule asked_guard [OF keeps_outer_steps(1) [OF asked_outer(2)] assms], clarsimp,
        rule asked_guard [OF keeps_reads], assumption, clarsimp split: option.split, intro conjI impI allI,
        rule asked_guard [OF keeps_require], assumption, rule asked_guard [OF keeps_assertSources], assumption,
        rule asked_guard [OF keeps_reads], assumption, clarsimp split: option.split, intro conjI impI allI,
        erule enq, erule dup, erule dup)
qed

section \<open>The outcome of a request\<close>

lemma outbox_outer: "outer_only (\<lambda>t. outbox t = l)"
  by (simp add: outer_only_def outer_def)

lemma keeps_outbox_freeze: "keeps (\<lambda>t. outbox t = l) (freeze org ws c r i p u g)"
  unfolding freeze_def put_snapshot_def ask_store_def
  by (intro keeps_intros keeps_outer_steps outbox_outer) simp_all

text \<open>The event of a new preview: pending in the outbox, accepted by the contract of its consumer.\<close>

definition announced_preview :: "'z preview_state_scheme \<Rightarrow> uuid \<Rightarrow> uuid \<Rightarrow> outbox_event \<Rightarrow> bool" where
  "announced_preview s taskId snapshotId e \<longleftrightarrow> ob_status e = OutboxStatus.PENDING \<and> ob_attemptCount e = 0 \<and>
     ob_eventType e = CANVAS_AI_PREVIEW_REQUESTED \<and> ob_aggregateId e = snapshotId \<and>
     assertCanvasAiPreviewRequestedEvent (uuid_ok (env s)) (parse_date (env s)) (ob_payload e) = Inr () \<and>
     get_prop (ob_payload e) ''event_id'' = Some (JStr (ob_id e)) \<and>
     (let p = the (get_prop (ob_payload e) ''payload'') in
      get_prop p ''task_id'' = Some (JStr taskId) \<and> get_prop p ''snapshot_id'' = Some (JStr snapshotId))"

lemma create_event_Inr:
  "createCanvasAiPreviewRequestedEvent u d fresh stamp i = Inr j \<Longrightarrow>
   j = preview_event fresh stamp i \<and> assertCanvasAiPreviewRequestedEvent u d j = Inr ()"
  by (auto simp: createCanvasAiPreviewRequestedEvent_def Let_def split: sum.splits)

lemma announce_Inr:
  assumes "announce i n c j t = (Inr y, u)" and "pi_eventId j = Some i" and "pi_snapshotId j = n"
  shows "\<exists>e. outbox u = save_row ob_id e (outbox t) \<and> announced_preview t (pi_taskId j) n e \<and> env u = env t"
proof -
  obtain ev r where ev: "createCanvasAiPreviewRequestedEvent (uuid_ok (env t)) (parse_date (env t)) (uuids t (uuid_next t))
      (iso_string (now t)) j = Inr ev"
    and run: "outbox_create \<lparr> oi_aggregateType = ''ai_preview_snapshot'', oi_aggregateId = n,
              oi_eventType = CANVAS_AI_PREVIEW_REQUESTED, oi_payload = ev, oi_correlationId = c \<rparr>
            \<lparr> oo_eventId = Some i, oo_eventIdField = Some Event_id \<rparr> (t\<lparr>uuid_next := Suc (uuid_next t)\<rparr>) = (Inr r, u)"
    using assms(1) by (auto simp: announce_def action_Inr gen_uuid_run lift_Inr_iff)
  note ev = create_event_Inr [OF ev]
  obtain fs where fs: "ev = JObj fs" "map_of fs ''event_id'' = Some (JStr i)"
    using ev assms(2) by (simp add: preview_event_def)
  note o = outbox_create_given [OF run, of fs, simplified, OF fs]
  have "get_prop ev ''event_id'' = Some (JStr i)" "get_prop ev ''payload'' = Some (preview_payload j)"
    using ev assms(2) by (simp_all add: preview_event_def get_prop_def)
  moreover have "get_prop (preview_payload j) ''task_id'' = Some (JStr (pi_taskId j))"
    "get_prop (preview_payload j) ''snapshot_id'' = Some (JStr n)"
    using assms(3) by (simp_all add: preview_payload_def get_prop_def)
  moreover have "ob_payload r = ev" using o(3) fs(1) by simp
  ultimately show ?thesis using o(1,2,4,5,7,8) conjunct2 [OF ev]
    by (intro exI [of _ r]) (simp add: announced_preview_def)
qed

lemma enqueue_announces:
  assumes "enqueue ids org ws c p g corr usr t0 = (Inr r, u)"
  shows "\<exists>e. outbox u = save_row ob_id e (outbox t0) \<and> announced_preview t0 (at_id (ps_task r)) (sn_id (ps_snapshot r)) e \<and>
    at_snapshotId (ps_task r) = Some (sn_id (ps_snapshot r)) \<and> at_snapshotVersion (ps_task r) \<noteq> None \<and>
    at_canvasRevision (ps_task r) \<noteq> None"
proof -
  obtain n created t1 q t2 x t3 t4 t5 y1 y2 y3 where
    run: "freeze org ws (cv_id c) (cv_revision c) (id_snapshot ids) p usr g t0 = (Inr (n, created), t1)"
    "reserveUsage \<lparr> ri_organizationId = org, ri_workspaceId = ws, ri_dimension = AI_INPUT_TOKENS, ri_amount = 1,
              ri_idempotencyKey = ''canvas-preview:'' @ id_task ids, ri_limit = None \<rparr> t1 = (Inr q, t2)"
    "insert_preview_task (preview_task (id_task ids) org ws usr g corr (id_key ids) (us_id q) (cv_id c) n (cv_revision c)) t2 =
       (Inr x, t3)"
    "for_each (older_previews org ws (cv_id c) (at_id x) (cv_revision c) t3) (supersede_task (at_id x)) t3 = (Inr y1, t4)"
    "for_each (remdups (map snd (superseded_of (older_previews org ws (cv_id c) (at_id x) (cv_revision c) t3))))
       (supersede_snapshot org ws (cv_id c) (sn_id n)) t4 = (Inr y2, t5)"
    "announce (id_event ids) (sn_id n) corr (preview_event_of (id_event ids) org ws p corr usr (at_id x) (cv_id c)
       (cv_revision c) n g) t5 = (Inr y3, u)"
    and r: "ps_task r = x" "ps_snapshot r = n"
    using assms unfolding enqueue_def Let_def by (auto simp: await_Inr_iff ok_Inr_iff reads_Inr_iff)
  have env_freeze: "keeps (\<lambda>t. env t = env t0) (freeze org ws c' r' i p' u' g')" for c' r' i p' u' g'
    unfolding freeze_def put_snapshot_def ask_store_def
    by (intro keeps_intros keeps_outer_steps) (simp_all add: outer_only_def outer_def)
  have t1: "env t1 = env t0 \<and> outbox t1 = outbox t0"
    using keepsD [OF env_freeze refl run(1)] keepsD [OF keeps_outbox_freeze refl run(1)] by simp
  have o: "outer_only (\<lambda>t. env t = env t0 \<and> outbox t = outbox t0)" by (simp add: outer_only_def outer_def)
  have t5: "env t5 = env t0 \<and> outbox t5 = outbox t0"
    by (rule keepsD [OF keeps_for_each [OF keeps_outer_steps(5) [OF o]] _ run(5)],
        rule keepsD [OF keeps_for_each [OF keeps_outer_steps(4) [OF o]] _ run(4)],
        rule keepsD [OF keeps_outer_steps(3) [OF o] _ run(3)], rule keepsD [OF keeps_outer_usage(1) [OF o] _ run(2)], rule t1)
  obtain e where "outbox u = save_row ob_id e (outbox t5)" "announced_preview t5 (at_id x) (sn_id n) e"
    using announce_Inr [OF run(6)] by (auto simp: preview_event_of_def)
  moreover have "x = (preview_task (id_task ids) org ws usr g corr (id_key ids) (us_id q) (cv_id c) n (cv_revision c))
      \<lparr>at_createdAt := now t2\<rparr>" using insert_preview_task_Inr [OF run(3)] by blast
  ultimately show ?thesis using t5 r by (auto simp: announced_preview_def preview_task_def)
qed

text \<open>What a request that was served did: it was a repetition, or a new task replaces the older ones.\<close>

definition repeated :: "'z preview_state_scheme \<Rightarrow> uuid \<Rightarrow> 'z preview_state_scheme \<Rightarrow> bool" where
  "repeated s taskId t \<longleftrightarrow> board_of t = board_of s \<and> outbox t = outbox s \<and>
     preview_snapshots t = preview_snapshots s \<and> taskId \<in> at_id ` set (ai_tasks s)"

definition new_preview ::
    "'z preview_state_scheme \<Rightarrow> uuid \<Rightarrow> uuid \<Rightarrow> uuid \<Rightarrow> preview_target \<Rightarrow> uuid \<Rightarrow> 'z preview_state_scheme \<Rightarrow> bool" where
  "new_preview s org ws canvasId target taskId t \<longleftrightarrow> taskId \<notin> at_id ` set (ai_tasks s) \<and>
     map at_id (ai_tasks t) = map at_id (ai_tasks s) @ [taskId] \<and>
     (\<exists>revision snapshotId e. (\<exists>x \<in> set (ai_tasks t). at_id x = taskId \<and> at_status x = JobStatus.QUEUED \<and>
        at_organizationId x = org \<and> at_workspaceId x = ws \<and> at_canvasId x = Some canvasId \<and>
        at_canvasRevision x = Some revision \<and> at_requestPayload x = jsonb (target_json target)) \<and>
      (\<exists>c \<in> set (canvas_rows s). cv_id c = canvasId \<and> cv_revision c = revision) \<and>
      (\<forall>y \<in> set (active_previews org ws canvasId t).
         case at_canvasRevision y of None \<Rightarrow> True | Some n \<Rightarrow> revision \<le> n) \<and>
      outbox t = save_row ob_id e (outbox s) \<and> announced_preview s taskId snapshotId e)"

lemma lock_canvas_Inr:
  assumes "lock_canvas ws canvasId org t = (Inr (c, w), u)"
  shows "cv_id c = canvasId" "\<exists>d \<in> set (canvas_rows t). cv_id d = canvasId \<and> cv_revision c = cv_revision d"
    "board_of u = board_of t" "outer u = outer t" "preview_snapshots u = preview_snapshots t"
proof -
  obtain d where d: "find_row cv_id canvasId (canvas_rows t) = Some d"
    and run: "(if cv_workspaceId d = None
      then (c, u) = (d\<lparr>cv_workspaceId := Some ws, cv_updatedAt := now t\<rparr>,
        canvas_rows_update (save_row cv_id (d\<lparr>cv_workspaceId := Some ws, cv_updatedAt := now t\<rparr>)) t)
      else (c, u) = (d, t))"
    using assms unfolding lock_canvas_def Let_def
    by (elim await_InrE) (simp only: reads_Inr_iff some_or_throw_Inr_iff require_Inr_iff findWorkflow_Inr_iff,
        simp add: action_Inr current_time_run split: if_splits)
  have "d \<in> set (canvas_rows t)" "cv_id d = canvasId" using find_row_Some [OF d] by simp_all
  then show "cv_id c = canvasId" "\<exists>d \<in> set (canvas_rows t). cv_id d = canvasId \<and> cv_revision c = cv_revision d"
    "board_of u = board_of t" "outer u = outer t" "preview_snapshots u = preview_snapshots t"
    using run by (auto split: if_splits)
qed

lemma duplicate_of_Inr: "duplicate_of x t = (Inr r, u) \<Longrightarrow> u = t \<and> ps_task r = x \<and> ps_duplicate r"
  by (auto simp: duplicate_of_def requireTaskSnapshot_def action_Inr)

lemma reads_assertSources: "reads_only (assertSourcesInTenant ids org ws)"
  unfolding assertSourcesInTenant_def by (intro read_intros)

lemma preview_body_Inr:
  assumes "moved_on s t" and "preview_body ids org ws canvasId g corr usr t = (Inr r, u)"
  shows "moved_on s u \<and>
    (ps_duplicate r \<and> repeated t (at_id (ps_task r)) u \<or>
     new_preview t org ws canvasId g (at_id (ps_task r)) u \<and>
     at_snapshotId (ps_task r) \<noteq> None \<and> at_snapshotVersion (ps_task r) \<noteq> None \<and> at_canvasRevision (ps_task r) \<noteq> None)"
proof -
  obtain c w t1 where lock: "lock_canvas ws canvasId org t = (Inr (c, w), t1)"
    and rest: "(case find_preview_task (id_key ids) org ws canvasId t1 of Some t \<Rightarrow> duplicate_of t | None \<Rightarrow>
     await (require (0 \<le> cv_revision c \<and> cv_revision c \<le> 9007199254740991)
              (BadRequest (JStr ''Canvas revision is invalid''))) (\<lambda>_.
     await (assertSourcesInTenant (tg_sourceIds g) org ws) (\<lambda>_.
     await (reads (\<lambda>s. find (\<lambda>t. at_canvasRevision t = Some (cv_revision c) \<and> sameTarget (at_requestPayload t) g)
              (active_previews org ws canvasId s))) (\<lambda>equivalent.
     case equivalent of Some t \<Rightarrow> duplicate_of t
     | None \<Rightarrow> enqueue ids org ws c (wf_projectId w) g corr usr)))) t1 = (Inr r, u)"
    using assms(2) by (auto simp: preview_body_def await_Inr_iff reads_Inr_iff)
  note lock = lock_canvas_Inr [OF lock]
  have t1: "moved_on s t1" by (rule moved_on_same [OF assms(1) lock(3)])
  have same: "ai_tasks t1 = ai_tasks t" "outbox t1 = outbox t" "env t1 = env t"
    using lock(3,4) by (auto dest: arg_cong [where f = bd_tasks] simp: outer_def)
  have dup: "moved_on s u \<and> ps_duplicate r \<and> repeated t (at_id (ps_task r)) u"
    if "duplicate_of x t1 = (Inr r, u)" "x \<in> set (ai_tasks t1)" for x
    using duplicate_of_Inr [OF that(1)] that(2) t1 lock(3,5) same by (simp add: repeated_def)
  show ?thesis
  proof (cases "find_preview_task (id_key ids) org ws canvasId t1")
    case (Some x)
    then have "x \<in> set (ai_tasks t1)" unfolding find_preview_task_def by (auto dest: find_Some_conv)
    with dup rest Some show ?thesis by simp
  next
    case None
    obtain y t2 where run: "assertSourcesInTenant (tg_sourceIds g) org ws t1 = (Inr y, t2)"
      "(case find (\<lambda>t. at_canvasRevision t = Some (cv_revision c) \<and> sameTarget (at_requestPayload t) g)
              (active_previews org ws canvasId t2) of Some t \<Rightarrow> duplicate_of t
        | None \<Rightarrow> enqueue ids org ws c (wf_projectId w) g corr usr) t2 = (Inr r, u)"
      using rest unfolding None option.case by (elim await_InrE) (simp only: require_Inr_iff reads_Inr_iff)
    have t2: "t2 = t1" by (rule reads_onlyD [OF reads_assertSources run(1)])
    show ?thesis
    proof (cases "find (\<lambda>t. at_canvasRevision t = Some (cv_revision c) \<and> sameTarget (at_requestPayload t) g)
              (active_previews org ws canvasId t1)")
      case (Some x)
      then have "x \<in> set (ai_tasks t1)" by (auto dest: find_Some_conv simp: active_previews_def)
      with dup run(2) Some show ?thesis by (simp add: t2)
    next
      case None
      with run(2) have e: "enqueue ids org ws c (wf_projectId w) g corr usr t1 = (Inr r, u)" by (simp add: t2)
      obtain ev where ev: "outbox u = save_row ob_id ev (outbox t1)"
        "announced_preview t1 (at_id (ps_task r)) (sn_id (ps_snapshot r)) ev"
        "at_snapshotId (ps_task r) = Some (sn_id (ps_snapshot r))" "at_snapshotVersion (ps_task r) \<noteq> None"
        "at_canvasRevision (ps_task r) \<noteq> None"
        using enqueue_announces [OF e] by blast
      note x = enqueue_Inr(2) [OF t1 e, unfolded lock(1) same(1)]
      have "new_preview t org ws canvasId g (at_id (ps_task r)) u"
        unfolding new_preview_def
      proof (intro conjI exI [of _ "cv_revision c"] exI [of _ "sn_id (ps_snapshot r)"] exI [of _ ev])
        show "at_id (ps_task r) \<notin> at_id ` set (ai_tasks t)" using x by force
        show "map at_id (ai_tasks u) = map at_id (ai_tasks t) @ [at_id (ps_task r)]"
          using x enqueue_Inr(4) [OF t1 e] same(1) by force
        show "\<exists>x \<in> set (ai_tasks u). at_id x = at_id (ps_task r) \<and> at_status x = JobStatus.QUEUED \<and>
          at_organizationId x = org \<and> at_workspaceId x = ws \<and> at_canvasId x = Some canvasId \<and>
          at_canvasRevision x = Some (cv_revision c) \<and> at_requestPayload x = jsonb (target_json g)" using x by force
        show "\<exists>d \<in> set (canvas_rows t). cv_id d = canvasId \<and> cv_revision d = cv_revision c" using lock(2) by auto
        show "\<forall>y \<in> set (active_previews org ws canvasId u). case at_canvasRevision y of None \<Rightarrow> True | Some n \<Rightarrow> cv_revision c \<le> n"
          by (rule enqueue_Inr(3) [OF t1 e, unfolded lock(1)])
        show "outbox u = save_row ob_id ev (outbox t)" using ev(1) same by simp
        show "announced_preview t (at_id (ps_task r)) (sn_id (ps_snapshot r)) ev"
          using ev(2) same by (simp add: announced_preview_def)
      qed
      with enqueue_Inr(1) [OF t1 e] ev(3-5) show ?thesis by simp
    qed
  qed
qed

fun preview_effect ::
    "'z preview_state_scheme \<Rightarrow> request_user \<Rightarrow> uuid \<Rightarrow> uuid \<Rightarrow> preview_request_dto \<Rightarrow> exn + preview_response \<Rightarrow>
     'z preview_state_scheme \<Rightarrow> bool" where
  "preview_effect s user ws canvasId dto (Inl e) t \<longleftrightarrow> board_of t = board_of s \<and> outbox t = outbox s \<and>
     preview_snapshots t = preview_snapshots s \<and> object_removed s t"
| "preview_effect s user ws canvasId dto (Inr resp) t \<longleftrightarrow> editor_permitted s (ru_id user) (ws, ru_orgId user) \<and>
     (repeated s (pr_taskId resp) t \<or>
      new_preview s (ru_orgId user) ws canvasId (normalizeTarget dto) (pr_taskId resp) t)"

lemma remove_stored_removes:
  assumes "asked (env s) ctx (store_calls s) t" and "remove_stored ctx t = (r, u)"
  shows "object_removed s u \<and> board_of u = board_of t \<and> outbox u = outbox t \<and> preview_snapshots u = preview_snapshots t \<and> r = Inr ()"
  using assms
  by (auto simp: asked_def remove_stored_def deleteObject_def action_simps lift_def ask_store_run object_removed_def
      split: option.splits sum.splits)

text \<open>Telling the clients never fails.\<close>

definition succeeds :: "('s, 'a) action \<Rightarrow> bool" where
  "succeeds m \<longleftrightarrow> (\<forall>s e t. m s \<noteq> (Inl e, t))"

lemma succeeds_rules:
  "succeeds (ok x)" "succeeds (writes f)" "succeeds (reads g)"
  "succeeds m \<Longrightarrow> (\<And>x. succeeds (h x)) \<Longrightarrow> succeeds (await m h)"
  "succeeds m1 \<Longrightarrow> succeeds m2 \<Longrightarrow> succeeds (if b then m1 else m2)"
  by (auto simp: succeeds_def action_simps split: prod.split sum.split)

lemma succeeds_for_each: "(\<And>x. succeeds (h x)) \<Longrightarrow> succeeds (for_each l h)"
  by (induction l) (simp_all add: succeeds_rules)

lemma succeeds_emit: "succeeds (emitPersistedEvents r org ws c)"
proof -
  have "succeeds (emitIfListeners room e p)" for room e p
    by (simp add: succeeds_def emitIfListeners_run)
  then show ?thesis
    unfolding emitPersistedEvents_def broadcastSnapshotCreated_def broadcastAiPreview_def emitCanvasEvent_def
    by (intro succeeds_rules succeeds_for_each) (auto split: prod.split)
qed

lemma effects_db_only: "db_only (repeated s i)" "db_only (new_preview s org ws c g i)" "db_only (asked e ctx l)"
  by (rule db_onlyI; simp add: repeated_def new_preview_def asked_def board_of_def active_previews_def)+

lemma responseFromTask_Inr: "responseFromTask x t = (Inr resp, u) \<Longrightarrow> u = t \<and> pr_taskId resp = at_id x"
  by (auto simp: responseFromTask_def ok_run throw_run split: option.splits)

lemma responseFromTask_Inl:
  "responseFromTask x t = (Inl e, u) \<Longrightarrow> u = t \<and> (at_snapshotId x = None \<or> at_snapshotVersion x = None \<or> at_canvasRevision x = None)"
  by (auto simp: responseFromTask_def ok_run throw_run split: option.splits)

lemma ends_writes: "ends P (f ()) (g s) \<Longrightarrow> ends P (await (writes g) f) s"
  by (simp add: ends_def await_run writes_run)

text \<open>The part of a request that writes.\<close>

lemma ends_preview_try:
  assumes s: "moved_on s0 s" "stored_snapshot s = None"
    and m: "m = await (preview_transaction (preview_body ids org ws canvasId g corr usr)) (\<lambda>r.
        await (if ps_duplicate r then ok () else emitPersistedEvents r org ws canvasId) (\<lambda>_. responseFromTask (ps_task r)))"
  shows "ends (\<lambda>r t. case r of
      Inl e \<Rightarrow> board_of t = board_of s \<and> outbox t = outbox s \<and> preview_snapshots t = preview_snapshots s \<and> object_removed s t
    | Inr resp \<Rightarrow> moved_on s0 t \<and> (repeated s (pr_taskId resp) t \<or> new_preview s org ws canvasId g (pr_taskId resp) t))
    (try_catch m (\<lambda>e. await (remove_stored (context_of org ws)) (\<lambda>_. throw e))) s"
proof (rule ends_try)
  fix resp t
  assume "m s = (Inr resp, t)"
  then obtain r t1 where run: "preview_body ids org ws canvasId g corr usr s = (Inr r, t1)"
    "(if ps_duplicate r then ok () else emitPersistedEvents r org ws canvasId) t1 = (Inr (), t)" "pr_taskId resp = at_id (ps_task r)"
    unfolding m by (auto simp: await_Inr_iff preview_transaction_def dest!: responseFromTask_Inr split: prod.splits sum.splits)
  note body = preview_body_Inr [OF s(1) run(1)]
  have keep: "P t" if "db_only P" "P t1" for P
  proof -
    have "keeps P (if ps_duplicate r then ok () else emitPersistedEvents r org ws canvasId)"
      by (intro keeps_intros \<open>db_only P\<close>)
    from keepsD [OF this \<open>P t1\<close> run(2)] show ?thesis .
  qed
  have "moved_on s0 t" using body by (elim conjE) (rule keep [OF moved_on_db])
  moreover have "repeated s (pr_taskId resp) t \<or> new_preview s org ws canvasId g (pr_taskId resp) t"
  proof -
    from body have "repeated s (at_id (ps_task r)) t1 \<or> new_preview s org ws canvasId g (at_id (ps_task r)) t1" by blast
    then show ?thesis unfolding run(3)
      by (rule disj_forward) (rule keep [OF effects_db_only(1)], assumption, rule keep [OF effects_db_only(2)], assumption)
  qed
  ultimately show "case Inr resp of
      Inl e \<Rightarrow> board_of t = board_of s \<and> outbox t = outbox s \<and> preview_snapshots t = preview_snapshots s \<and> object_removed s t
    | Inr resp \<Rightarrow> moved_on s0 t \<and> (repeated s (pr_taskId resp) t \<or> new_preview s org ws canvasId g (pr_taskId resp) t)" by simp
next
  fix e t
  assume fail: "m s = (Inl e, t)"
  let ?ctx = "context_of org ws"
  obtain r0 u where body: "preview_body ids org ws canvasId g corr usr s = (r0, u)" by fastforce
  have asked: "asked (env s) ?ctx (store_calls s) u"
    by (rule leavesD [OF leaves_preview_body body]) (simp add: unasked_def s(2))
  have t: "board_of t = board_of s \<and> outbox t = outbox s \<and> preview_snapshots t = preview_snapshots s \<and>
      asked (env s) ?ctx (store_calls s) t"
  proof (cases r0)
    case (Inl e')
    with fail body have "t = s\<lparr>store_calls := store_calls u, stored_snapshot := stored_snapshot u\<rparr>"
      by (simp add: m await_run preview_transaction_def)
    with asked show ?thesis by (simp add: board_of_def asked_def)
  next
    case (Inr r)
    note b = preview_body_Inr [OF s(1) body [unfolded Inr]]
    obtain r1 t1 where emit: "(if ps_duplicate r then ok () else emitPersistedEvents r org ws canvasId) u = (r1, t1)" by fastforce
    have "succeeds (if ps_duplicate r then ok () else emitPersistedEvents r org ws canvasId)"
      by (intro succeeds_rules succeeds_emit)
    then obtain y where y: "r1 = Inr y" using emit unfolding succeeds_def by (cases r1) auto
    have resp: "responseFromTask (ps_task r) t1 = (Inl e, t)"
      using fail body emit Inr y by (simp add: m await_run preview_transaction_def)
    note resp = responseFromTask_Inl [OF resp]
    with b have "ps_duplicate r" "repeated s (at_id (ps_task r)) u" by auto
    with emit resp asked show ?thesis by (simp add: ok_run repeated_def)
  qed
  obtain r2 v where rem: "remove_stored ?ctx t = (r2, v)" by fastforce
  then show "ends (\<lambda>r t. case r of
      Inl e \<Rightarrow> board_of t = board_of s \<and> outbox t = outbox s \<and> preview_snapshots t = preview_snapshots s \<and> object_removed s t
    | Inr resp \<Rightarrow> moved_on s0 t \<and> (repeated s (pr_taskId resp) t \<or> new_preview s org ws canvasId g (pr_taskId resp) t))
    (await (remove_stored ?ctx) (\<lambda>_. throw e)) t"
    using remove_stored_removes [of s ?ctx t r2 v] t rem by (auto simp: ends_def await_run throw_run)
qed

lemma create_preview_ends:
  assumes "consistent (board_of s)"
  shows "ends (\<lambda>r t. moved_on s t \<and> preview_effect s user ws canvasId dto r t) (create_preview ws canvasId dto k user) s"
  unfolding create_preview_def Let_def
  apply ((rule ends_guard, (rule read_intros), simp add: moved_on_refl [OF assms] object_removed_def)+)
  subgoal premises prems for key0 key corr valid u1 u2 on u3 u4 m pre
  proof (cases pre)
    case None
    have perm: "editor_permitted s (ru_id user) (ws, ru_orgId user)"
      using prems by (auto intro: editor_gate.check_grants [of "ru_id user" "(ws, ru_orgId user)", simplified])
    let ?s = "stored_snapshot_update (\<lambda>_. None) s"
    have s: "moved_on s ?s" "stored_snapshot ?s = None" by (simp_all add: moved_on_same [OF moved_on_refl [OF assms]])
    have same: "repeated ?s = repeated s" "new_preview ?s = new_preview s" "object_removed ?s = object_removed s"
      by (simp_all add: fun_eq_iff repeated_def new_preview_def announced_preview_def object_removed_def board_of_def)
    have "ends (\<lambda>r t. moved_on s t \<and> preview_effect s user ws canvasId dto r t) m' ?s"
      if "ends (\<lambda>r t. case r of
          Inl e \<Rightarrow> board_of t = board_of ?s \<and> outbox t = outbox ?s \<and> preview_snapshots t = preview_snapshots ?s \<and> object_removed ?s t
        | Inr resp \<Rightarrow> moved_on s t \<and> (repeated ?s (pr_taskId resp) t \<or>
            new_preview ?s (ru_orgId user) ws canvasId (normalizeTarget dto) (pr_taskId resp) t)) m' ?s" for m'
      using that perm moved_on_refl [OF assms]
      by (cases "m' ?s") (auto simp: ends_def same intro: moved_on_same split: sum.splits)
    from this [OF ends_preview_try [OF s refl]] None show ?thesis
      by (simp only: option.case) (rule ends_guard [OF reads_only_reads],
        simp add: moved_on_refl [OF assms] object_removed_def, rule ends_writes)
  next
    case (Some x)
    have perm: "editor_permitted s (ru_id user) (ws, ru_orgId user)"
      using prems by (auto intro: editor_gate.check_grants [of "ru_id user" "(ws, ru_orgId user)", simplified])
    have "x \<in> set (ai_tasks s)" using prems Some by (auto simp: reads_run find_preview_task_def dest: find_Some_conv)
    moreover obtain r t where run: "responseFromTask x s = (r, t)" by fastforce
    moreover have "t = s" using run responseFromTask_Inr [of x s] responseFromTask_Inl [of x s] by (cases r) auto
    ultimately have "moved_on s t \<and> preview_effect s user ws canvasId dto r t"
      using perm moved_on_refl [OF assms] responseFromTask_Inr [of x s]
      by (cases r) (auto simp: repeated_def object_removed_def)
    with run Some show ?thesis by (simp add: ends_def)
  qed
  done

end
