(* ===== verification/CanvasSnapshotsProps.thy ===== *)
theory CanvasSnapshotsProps
  imports CanvasSnapshots
begin

text \<open>What the serializer accepts, what it writes, and that it depends on nothing but the canvas.\<close>

section \<open>Text\<close>

lemma length_nat_str: "length (nat_str n) = nat_digits n"
  by (induction n rule: nat_digits.induct) (subst nat_str.simps, subst nat_digits.simps, simp)

lemma length_frac_text: "length (frac_text n x) = frac_digits n x"
  by (induction n x rule: frac_text.induct) simp_all

lemma utf8_append [simp]: "utf8 (a @ b) = utf8 a @ utf8 b"
  by (simp add: utf8_def)

lemma utf8_Nil [simp]: "utf8 [] = []"
  by (simp add: utf8_def)

lemma length_utf8_Cons: "length (utf8 (c # s)) = (if (of_char c :: nat) < 128 then 1 else 2) + length (utf8 s)"
  by (simp add: utf8_def Let_def)

lemma length_utf8_ascii: "list_all (\<lambda>c. (of_char c :: nat) < 128) s \<Longrightarrow> length (utf8 s) = length s"
  by (induction s) (auto simp: utf8_def Let_def)

lemma digit_ascii: "(of_char (digit_char (d mod 10)) :: nat) < 128"
  by (simp add: digit_char_def take_bit_nat_def of_char_of)

lemma nat_str_ascii: "list_all (\<lambda>c. (of_char c :: nat) < 128) (nat_str n)"
proof (induction n rule: nat_str.induct)
  case (1 n)
  show ?case using 1 digit_ascii [of n] by (subst nat_str.simps) auto
qed

lemma frac_text_ascii: "list_all (\<lambda>c. (of_char c :: nat) < 128) (frac_text n x)"
proof (induction n x rule: frac_text.induct)
  case (2 n x)
  have "nat (\<lfloor>10 * x\<rfloor> mod 10) = nat (\<lfloor>10 * x\<rfloor> mod 10) mod 10" by simp
  with 2 digit_ascii [of "nat (\<lfloor>10 * x\<rfloor> mod 10)"] show ?case by auto
qed simp

lemma length_num_text: "length (utf8 (num_text x)) = num_bytes x"
proof -
  have "list_all (\<lambda>c. (of_char c :: nat) < 128) (num_text x)"
    using nat_str_ascii frac_text_ascii by (auto simp: num_text_def Let_def)
  then have "length (utf8 (num_text x)) = length (num_text x)" by (rule length_utf8_ascii)
  also have "frac_digits 20 \<bar>x\<bar> = 0 \<longleftrightarrow> frac_text 20 \<bar>x\<bar> = []"
    by (simp flip: length_frac_text)
  then have "length (num_text x) = num_bytes x"
    by (simp add: num_text_def num_bytes_def Let_def length_nat_str length_frac_text)
  finally show ?thesis .
qed

lemma length_char_text: "length (utf8 (char_text c)) = char_bytes c"
proof -
  have "(of_char (hex_char d) :: nat) < 128" if "d < 16" for d
    using that by (simp add: hex_char_def take_bit_nat_def of_char_of)
  then have "length (utf8 [hex_char d, hex_char e]) = 2" if "d < 16" "e < 16" for d e
    using that by (simp add: utf8_def Let_def)
  then show ?thesis
    by (auto simp: char_text_def char_bytes_def Let_def utf8_def of_char_of)
qed

lemma length_str_text: "length (utf8 (str_text s)) = str_bytes s"
proof -
  have "length (utf8 (concat (map char_text s))) = sum_list (map char_bytes s)"
    by (induction s) (simp_all add: length_char_text)
  then show ?thesis by (simp add: str_text_def str_bytes_def length_utf8_Cons)
qed

lemma length_separated:
  "length (utf8 (separated xs)) = sum_list (map (\<lambda>x. length (utf8 x)) xs) + (length xs - 1)"
  by (induction xs rule: separated.induct) (simp_all add: length_utf8_Cons)

text \<open>The text of a value takes as many bytes as \<open>json_bytes\<close> counts.\<close>

lemma length_json_text: "length (utf8 (json_text v)) = json_bytes v"
proof (induction v)
  case (JArr vs)
  then have "map (\<lambda>x. length (utf8 (json_text x))) vs = map json_bytes vs" by simp
  from arg_cong [OF this, of sum_list] show ?case
    by (simp only: json_text.simps json_bytes.simps) (simp add: length_separated comp_def length_utf8_Cons)
next
  case (JObj fs)
  have "map ((\<lambda>x. length (utf8 x)) \<circ> (\<lambda>(k, v). str_text k @ '':'' @ json_text v)) fs =
      map (\<lambda>(k, v). str_bytes k + 1 + json_bytes v) fs"
    using JObj by (auto simp: length_str_text length_utf8_Cons)
  from arg_cong [OF this, of sum_list] show ?case
    by (simp only: json_text.simps json_bytes.simps) (simp add: length_separated comp_def length_utf8_Cons)
qed (simp_all add: length_num_text length_str_text length_utf8_Cons)

lemma canonicalize_idem: "canonicalize (canonicalize v) = canonicalize v"
proof (induction v)
  case (JObj fs)
  let ?f = "\<lambda>(k, v). (k, canonicalize v)"
  have "map ?f (sort_key fst (map ?f fs)) = sort_key fst (map ?f fs)"
    using JObj by (intro map_idI) auto
  then show ?case by (simp add: sort_key_id_if_sorted)
qed auto

section \<open>Secrets\<close>

fun clean :: "json \<Rightarrow> bool" where
  "clean (JStr s) = (\<not> unsafe_text s)"
| "clean (JArr vs) = list_all clean vs"
| "clean (JObj fs) = list_all (\<lambda>(k, v). \<not> secret_key k \<and> clean v) fs"
| "clean _ = True"

lemma assert_clean:
  "assertNoExecutableOrSecret v path = Inr () \<longleftrightarrow> clean v"
  "assert_items vs n path = Inr () \<longleftrightarrow> list_all clean vs"
  "assert_fields fs path = Inr () \<longleftrightarrow> list_all (\<lambda>(k, v). \<not> secret_key k \<and> clean v) fs"
  by (induction v path and vs n path and fs path rule: assertNoExecutableOrSecret_assert_items_assert_fields.induct)
    (auto simp: bind_Inr check_Inr)

lemma clean_prop: "clean v \<Longrightarrow> get_prop v k = Some w \<Longrightarrow> clean w"
  by (cases v) (auto simp: get_prop_def list_all_iff dest!: map_of_SomeD)

section \<open>Elements\<close>

definition element_ok :: "(string \<Rightarrow> bool) \<Rightarrow> snapshot_element \<Rightarrow> bool" where
  "element_ok uuid_ok e \<longleftrightarrow> el_type e \<in> set CANVAS_SNAPSHOT_ELEMENT_TYPES \<and>
     \<bar>el_x e\<bar> \<le> 1000000 \<and> \<bar>el_y e\<bar> \<le> 1000000 \<and>
     0 \<le> el_width e \<and> el_width e \<le> 65536 \<and> 0 \<le> el_height e \<and> el_height e \<le> 65536 \<and>
     \<bar>el_rotation e\<bar> \<le> 360000 \<and> \<bar>el_z_index e\<bar> \<le> 1000000 \<and>
     pred_option (\<lambda>t. length t \<le> 10000 \<and> \<not> unsafe_text t) (el_text e) \<and>
     pred_option color (el_fill e) \<and> pred_option color (el_stroke e) \<and> pred_option (asset_ref uuid_ok) (el_asset_ref e)"

lemma readColor_ok: "readColor v field b = Inr x \<Longrightarrow> pred_option color x"
  by (auto simp: readColor_def bind_Inr check_Inr split: if_splits)

lemma readAsset_ok: "readAssetReference u v = Inr x \<Longrightarrow> pred_option (asset_ref u) x"
  by (auto simp: readAssetReference_def bind_Inr check_Inr split: if_splits)

lemma readText_ok:
  assumes "readVisibleText label v = Inr x" and "pred_option (\<lambda>l. \<not> unsafe_text l) label" and "pred_option clean v"
  shows "pred_option (\<lambda>t. length t \<le> 10000 \<and> \<not> unsafe_text t) x"
  using assms by (cases label)
    (auto simp: readVisibleText_def nullish_def absent_def bind_Inr check_Inr is_string_def
      MAX_VISIBLE_TEXT_CHARACTERS_def Let_def split: if_splits option.splits json.splits)

lemma serializeElement_ok:
  assumes "serializeElement u x = Inr e"
  shows "element_ok u e \<and> el_id e = co_id x"
proof -
  have clean: "clean (co_properties x)" "pred_option (\<lambda>l. \<not> unsafe_text l) (co_label x)"
    using assms by (auto simp: serializeElement_def bind_Inr check_Inr assert_clean split: option.split) (cases "co_label x"; auto)
  have shown: "pred_option (\<lambda>t. length t \<le> 10000 \<and> \<not> unsafe_text t) (el_text e)"
  proof -
    have "readVisibleText (co_label x) (get_prop (co_properties x) ''text'') = Inr (el_text e)"
      using assms by (auto simp: serializeElement_def bind_Inr Let_def)
    moreover have "pred_option clean (get_prop (co_properties x) ''text'')"
      using clean_prop [OF clean(1)] by (cases "get_prop (co_properties x) ''text''") auto
    ultimately show ?thesis using readText_ok clean(2) by blast
  qed
  have "pred_option color (el_fill e)" "pred_option color (el_stroke e)" "pred_option (asset_ref u) (el_asset_ref e)"
    using assms by (auto simp: serializeElement_def bind_Inr Let_def dest: readColor_ok readAsset_ok)
  moreover have "el_type e \<in> set CANVAS_SNAPSHOT_ELEMENT_TYPES \<and> \<bar>el_x e\<bar> \<le> 1000000 \<and> \<bar>el_y e\<bar> \<le> 1000000 \<and>
     0 \<le> el_width e \<and> el_width e \<le> 65536 \<and> 0 \<le> el_height e \<and> el_height e \<le> 65536 \<and>
     \<bar>el_rotation e\<bar> \<le> 360000 \<and> \<bar>el_z_index e\<bar> \<le> 1000000 \<and> el_id e = co_id x"
    using assms by (auto simp: serializeElement_def bind_Inr check_Inr Let_def validateCoordinate_def validateDimension_def
        MAX_COORDINATE_MAGNITUDE_def MAX_DIMENSION_def)
  ultimately show ?thesis using shown by (simp add: element_ok_def)
qed

lemma serialize_all_ok:
  "serialize_all u xs = Inr ys \<Longrightarrow> list_all (element_ok u) ys \<and> map el_id ys = map co_id xs"
  by (induction xs arbitrary: ys) (auto simp: bind_Inr dest: serializeElement_ok)

section \<open>What an element says of its object\<close>

text \<open>The first of these fields that is there and not null.\<close>

fun given :: "(json \<times> string) list \<Rightarrow> json" where
  "given [] = JNull"
| "given ((j, k) # rest) = (case get_prop j k of Some v \<Rightarrow> if v = JNull then given rest else v | None \<Rightarrow> given rest)"

definition describes :: "canvas_object \<Rightarrow> snapshot_element \<Rightarrow> bool" where
  "describes x e \<longleftrightarrow> (let pr = co_properties x; st = (case co_style x of None \<Rightarrow> JNull | Some j \<Rightarrow> j) in
     el_id e = co_id x \<and> el_type e = co_type x \<and> el_x e = co_positionX x \<and> el_y e = co_positionY x \<and>
     el_width e = (case co_width x of None \<Rightarrow> 0 | Some w \<Rightarrow> w) \<and>
     el_height e = (case co_height x of None \<Rightarrow> 0 | Some h \<Rightarrow> h) \<and> el_locked e = co_isLocked x \<and>
     JNum (el_rotation e) = (case given [(st, ''rotation''), (pr, ''rotation'')] of JNull \<Rightarrow> JNum 0 | v \<Rightarrow> v) \<and>
     (case given [(st, ''z_index''), (st, ''zIndex''), (pr, ''z_index'')] of JNull \<Rightarrow> el_z_index e = 0
        | JStr d \<Rightarrow> el_z_index e = digits_value d | v \<Rightarrow> v = json_int (el_z_index e)) \<and>
     JBool (el_visible e) = (case given [(pr, ''visible''), (st, ''visible'')] of JNull \<Rightarrow> JBool True | v \<Rightarrow> v) \<and>
     json_str_opt (el_text e) = (case co_label x of Some l \<Rightarrow> JStr l | None \<Rightarrow> given [(pr, ''text'')]) \<and>
     json_str_opt (el_fill e) = given [(st, ''fill''), (pr, ''fill'')] \<and>
     json_str_opt (el_stroke e) = given [(st, ''stroke''), (pr, ''stroke'')] \<and>
     json_str_opt (el_asset_ref e) = given [(pr, ''asset_ref''), (pr, ''assetRef'')])"

lemma given_two: "given [(a, k), (b, l)] = (case nullish (get_prop a k) (get_prop b l) of None \<Rightarrow> JNull | Some v \<Rightarrow> v)"
  by (auto simp: nullish_def split: option.split)

lemma given_three: "given [(a, k), (b, l), (c, m)] =
    (case nullish (nullish (get_prop a k) (get_prop b l)) (get_prop c m) of None \<Rightarrow> JNull | Some v \<Rightarrow> v)"
  by (auto simp: nullish_def split: option.split)

lemma readOptional_describes:
  "readOptionalNumber v 0 field = Inr y \<Longrightarrow> JNum y = (case (case v of None \<Rightarrow> JNull | Some j \<Rightarrow> j) of JNull \<Rightarrow> JNum 0 | j \<Rightarrow> j)"
  by (auto simp: readOptionalNumber_def absent_def readFiniteNumber_def split: if_splits option.splits json.splits)

lemma readBoolean_describes:
  "readBoolean v True field = Inr y \<Longrightarrow> JBool y = (case (case v of None \<Rightarrow> JNull | Some j \<Rightarrow> j) of JNull \<Rightarrow> JBool True | j \<Rightarrow> j)"
  by (auto simp: readBoolean_def absent_def split: if_splits option.splits json.splits)

lemma readColor_describes:
  "readColor v field True = Inr y \<Longrightarrow> json_str_opt y = (case v of None \<Rightarrow> JNull | Some j \<Rightarrow> j)"
  by (auto simp: readColor_def absent_def bind_Inr check_Inr is_string_def split: if_splits option.splits json.splits)

lemma readAsset_describes:
  "readAssetReference u v = Inr y \<Longrightarrow> json_str_opt y = (case v of None \<Rightarrow> JNull | Some j \<Rightarrow> j)"
  by (auto simp: readAssetReference_def absent_def bind_Inr check_Inr is_string_def split: if_splits option.splits json.splits)

lemma readText_describes:
  "readVisibleText label v = Inr y \<Longrightarrow>
   json_str_opt y = (case label of Some l \<Rightarrow> JStr l | None \<Rightarrow> (case v of None \<Rightarrow> JNull | Some j \<Rightarrow> j))"
  by (auto simp: readVisibleText_def nullish_def absent_def bind_Inr check_Inr is_string_def Let_def
      split: if_splits option.splits json.splits)

lemma toSafeInteger_describes:
  "toSafeInteger (nullish v (Some (JNum 0))) field = Inr y \<Longrightarrow>
   (case (case v of None \<Rightarrow> JNull | Some j \<Rightarrow> j) of JNull \<Rightarrow> y = 0 | JStr d \<Rightarrow> y = digits_value d | j \<Rightarrow> j = json_int y)"
  by (auto simp: toSafeInteger_def nullish_def bind_Inr check_Inr is_safe_integer_def Let_def
      split: if_splits option.splits json.splits)

lemma serializeElement_describes:
  assumes "serializeElement u x = Inr e"
  shows "describes x e"
proof -
  let ?pr = "co_properties x" and ?st = "case co_style x of None \<Rightarrow> JNull | Some j \<Rightarrow> j"
  have fields: "el_id e = co_id x" "el_type e = co_type x" "el_x e = co_positionX x" "el_y e = co_positionY x"
    "el_width e = (case co_width x of None \<Rightarrow> 0 | Some w \<Rightarrow> w)" "el_height e = (case co_height x of None \<Rightarrow> 0 | Some h \<Rightarrow> h)"
    "el_locked e = co_isLocked x"
    and read: "readOptionalNumber (nullish (get_prop ?st ''rotation'') (get_prop ?pr ''rotation'')) 0 ''rotation'' = Inr (el_rotation e)"
    "toSafeInteger (nullish (nullish (nullish (get_prop ?st ''z_index'') (get_prop ?st ''zIndex'')) (get_prop ?pr ''z_index''))
       (Some (JNum 0))) ''z_index'' = Inr (el_z_index e)"
    "readVisibleText (co_label x) (get_prop ?pr ''text'') = Inr (el_text e)"
    "readColor (nullish (get_prop ?st ''fill'') (get_prop ?pr ''fill'')) ''fill'' True = Inr (el_fill e)"
    "readColor (nullish (get_prop ?st ''stroke'') (get_prop ?pr ''stroke'')) ''stroke'' True = Inr (el_stroke e)"
    "readAssetReference u (nullish (get_prop ?pr ''asset_ref'') (get_prop ?pr ''assetRef'')) = Inr (el_asset_ref e)"
    "readBoolean (nullish (get_prop ?pr ''visible'') (get_prop ?st ''visible'')) True ''visible'' = Inr (el_visible e)"
    using assms by (auto simp: serializeElement_def bind_Inr Let_def or_value_def)
  have shown: "given [(?pr, ''text'')] = (case get_prop ?pr ''text'' of None \<Rightarrow> JNull | Some v \<Rightarrow> v)"
    by (auto split: option.split)
  show ?thesis
    unfolding describes_def Let_def given_two given_three shown
    by (intro conjI fields readOptional_describes [OF read(1)] toSafeInteger_describes [OF read(2)]
        readText_describes [OF read(3)] readColor_describes [OF read(4)] readColor_describes [OF read(5)]
        readAsset_describes [OF read(6)] readBoolean_describes [OF read(7)])
qed

lemma serialize_all_describes: "serialize_all u xs = Inr ys \<Longrightarrow> list_all2 describes xs ys"
  by (induction xs arbitrary: ys) (auto simp: bind_Inr intro: serializeElement_describes)

lemma serialize_document_describes:
  assumes "serialize_document u (Some c) xs expected = Inr d" and "sorted (map co_id xs)"
  shows "list_all2 describes xs (doc_elements d)"
proof -
  obtain elements where e: "serialize_all u xs = Inr elements" and d: "doc_elements d = sort_key el_id elements"
    using assms(1) by (auto simp: serialize_document_def bind_Inr)
  have "sorted (map el_id elements)" using serialize_all_ok [OF e] assms(2) by simp
  then have "doc_elements d = elements" using d by (simp add: sort_key_id_if_sorted)
  with serialize_all_describes [OF e] show ?thesis by simp
qed

text \<open>The document as it is stored, its fields in the order of their names.\<close>

lemma canonical_document:
  "canonicalize (document_json d) = JObj [
     (''canvas'', JObj [(''background'', JStr (doc_background d)), (''height'', json_int (doc_height d)),
        (''id'', JStr (doc_canvasId d)), (''revision'', json_int (doc_revision d)), (''width'', json_int (doc_width d))]),
     (''elements'', JArr (map (\<lambda>e. JObj [(''asset_ref'', json_str_opt (el_asset_ref e)),
        (''bounds'', JObj [(''height'', JNum (el_height e)), (''width'', JNum (el_width e)), (''x'', JNum (el_x e)),
           (''y'', JNum (el_y e))]), (''fill'', json_str_opt (el_fill e)), (''id'', JStr (el_id e)),
        (''locked'', JBool (el_locked e)), (''rotation'', JNum (el_rotation e)), (''stroke'', json_str_opt (el_stroke e)),
        (''text'', json_str_opt (el_text e)), (''type'', JStr (el_type e)), (''visible'', JBool (el_visible e)),
        (''z_index'', json_int (el_z_index e))]) (doc_elements d))),
     (''groups'', JArr []), (''metadata'', JObj []), (''relationships'', JArr []), (''schema_version'', JStr ''1'')]"
proof -
  have opt: "canonicalize (json_str_opt v) = json_str_opt v" for v by (cases v) simp_all
  show ?thesis by (simp add: document_json_def snapshot_element_json_def comp_def opt)
qed

section \<open>Documents\<close>

definition document_ok :: "(string \<Rightarrow> bool) \<Rightarrow> canvas \<Rightarrow> uuid list \<Rightarrow> snapshot_document \<Rightarrow> bool" where
  "document_ok uuid_ok c ids d \<longleftrightarrow> doc_canvasId d = cv_id c \<and> doc_revision d = cv_revision c \<and> 0 \<le> doc_revision d \<and>
     doc_width d = cv_width c \<and> doc_height d = cv_height c \<and>
     1 \<le> doc_width d \<and> doc_width d \<le> 65536 \<and> 1 \<le> doc_height d \<and> doc_height d \<le> 65536 \<and>
     doc_background d = cv_background c \<and> color (doc_background d) \<and>
     list_all (element_ok uuid_ok) (doc_elements d) \<and> length (doc_elements d) \<le> 1000 \<and>
     sorted (map el_id (doc_elements d)) \<and> mset (map el_id (doc_elements d)) = mset ids"

lemma digits_value_snoc: "digits_value (s @ [c]) = 10 * digits_value s + (of_char c - 48)"
  by (simp add: digits_value_def)

lemma nat_str_value: "digits_value (nat_str n) = int n \<and> numeral_string (nat_str n)"
proof (induction n rule: nat_str.induct)
  case (1 n)
  have nat: "(of_char (digit_char (d mod 10)) :: nat) = 48 + d mod 10" for d
    by (simp add: digit_char_def)
  have digit: "(of_char (digit_char (d mod 10)) :: int) = 48 + int (d mod 10)" "is_digit (digit_char (d mod 10))" for d
    using nat [of d] of_nat_of_char [of "digit_char (d mod 10)", where ?'a = int]
    by (simp_all add: is_digit_def between_def Let_def)
  show ?case
  proof (cases "n < 10")
    case True
    then show ?thesis using digit [of n] by (subst (1 2) nat_str.simps) (simp add: digits_value_def numeral_string_def)
  next
    case False
    have "10 * int (n div 10) + int (n mod 10) = int n" by presburger
    with False 1 digit [of n] show ?thesis
      by (subst (1 2) nat_str.simps) (simp add: digits_value_snoc numeral_string_def flip: of_nat_mod)
  qed
qed

lemma int_str_negative: "n < 0 \<Longrightarrow> \<not> numeral_string (int_str n)"
  by (simp add: int_str_def numeral_string_def is_digit_def between_def)

lemma revision_read: "toSafeInteger (Some (JStr (int_str n))) field = Inr m \<Longrightarrow> m = n \<and> 0 \<le> n"
  using nat_str_value [of "nat n"] int_str_negative [of n]
  by (cases "n < 0") (auto simp: toSafeInteger_def bind_Inr check_Inr int_str_def is_safe_integer_def)

lemma integer_read: "toSafeInteger (Some (json_int n)) field = Inr m \<Longrightarrow> m = n"
  by (auto simp: toSafeInteger_def bind_Inr)

lemma serialize_document_ok:
  assumes "serialize_document u (Some c) xs expected = Inr d"
  shows "document_ok u c (map co_id xs) d"
proof -
  obtain revision background elements where parts:
    "toSafeInteger (Some (JStr (int_str (cv_revision c)))) ''canvas.revision'' = Inr revision"
    "readColor (Some (JStr (cv_background c))) ''canvas.background'' False = Inr background" "background \<noteq> None"
    "serialize_all u xs = Inr elements" "length xs \<le> 1000"
    "1 \<le> cv_width c" "cv_width c \<le> 65536" "1 \<le> cv_height c" "cv_height c \<le> 65536"
    and d: "d = \<lparr> doc_canvasId = cv_id c, doc_revision = revision, doc_width = cv_width c, doc_height = cv_height c,
      doc_background = the background, doc_elements = sort_key el_id elements \<rparr>"
    using assms by (auto simp: serialize_document_def bind_Inr check_Inr MAX_ELEMENT_COUNT_def validateDimension_def
        MAX_DIMENSION_def dest!: integer_read)
  have elements: "list_all (element_ok u) elements" "map el_id elements = map co_id xs"
    using serialize_all_ok [OF parts(4)] by simp_all
  from elements(2) have elements_mset: "image_mset el_id (mset elements) = image_mset co_id (mset xs)"
    by (simp flip: mset_map)
  have "length elements = length xs" using arg_cong [OF elements(2), of length] by simp
  moreover have "the background = cv_background c" "color (cv_background c)"
    using parts(2,3) by (auto simp: readColor_def bind_Inr check_Inr absent_def is_string_def split: if_splits)
  ultimately show ?thesis
    using parts(5-) revision_read [OF parts(1)] d elements elements_mset
    by (auto simp: document_ok_def list_all_iff)
qed

text \<open>Rows in any order give the same document.\<close>

lemma sorted_rows_unique:
  assumes "keyed f xs" and "mset xs = mset ys"
  shows "sort_key f (filter P xs) = sort_key f (filter P ys)"
proof (rule map_sorted_distinct_set_unique [where f = f])
  have "mset (map f xs) = mset (map f ys)" using assms(2) by simp
  then have "distinct (map f ys)" using assms(1) by (metis keyed_def distinct_count_atmost_1 set_mset_mset)
  then show "distinct (map f (sort_key f (filter P xs)))" "distinct (map f (sort_key f (filter P ys)))"
    using assms(1) by (auto simp: keyed_def distinct_map inj_on_def)
  have "set xs = set ys" using assms(2) by (rule mset_eq_setD)
  then show "set (sort_key f (filter P xs)) = set (sort_key f (filter P ys))" by simp
  then show "inj_on f (set (sort_key f (filter P xs)) \<union> set (sort_key f (filter P ys)))"
    using assms(1) by (auto simp: keyed_def distinct_map inj_on_def)
qed simp_all

lemma serialize_order:
  "keyed co_id xs \<Longrightarrow> mset xs = mset ys \<Longrightarrow> serialize u sha cs xs i r = serialize u sha cs ys i r"
  unfolding serialize_def by (simp add: sorted_rows_unique)

end
