(* ===== verification/JobsClaims.thy ===== *)
theory JobsClaims
  imports PreviewsProps CanvasSnapshotsProps
begin

text \<open>
  Tasks, usage, suggestions and previews as a system: what holds whatever is asked for in whatever order, and
  the instances the witnesses run on.
\<close>

section \<open>Instances\<close>

definition job_claims :: internal_claims where
  "job_claims = \<lparr> ic_service = ''ai'', ic_organizationId = ''o'', ic_workspaceId = Some ''w'', ic_correlationId = ''c'',
     ic_allowedActions = [''ai.task.completed''], ic_jti = Some ''j'', ic_taskId = Some ''task:x'', ic_exp = 300 \<rparr>"

definition job_env :: environment where
  "job_env = \<lparr> uuid_ok = (\<lambda>_. True), parse_date = (\<lambda>_. Some 7), detect_type = (\<lambda>_. None), normalize = (\<lambda>s. s),
     verify_jwt = (\<lambda>secret issuer audience token. if token = ''t'' then Some job_claims else None),
     auth_issuer = ''nestjs-platform'', auth_secrets = [''k''], auth_services = [''ai''],
     bucket_names = default_buckets, store_accepts = (\<lambda>_ _. True) \<rparr>"

definition job_canvas :: canvas where
  "job_canvas = \<lparr> cv_id = ''cv'', cv_workflowId = ''wf'', cv_workspaceId = None, cv_revision = 3, cv_width = 800,
     cv_height = 600, cv_background = ''#ffffff'', cv_createdAt = 1, cv_updatedAt = 1 \<rparr>"

definition job_workflow :: workflow where
  "job_workflow = \<lparr> wf_id = ''wf'', wf_title = [], wf_description = None, wf_status = WorkflowStatus.DRAFT,
     wf_currentVersion = 0, wf_orgId = ''o'', wf_ownerId = ''ann'', wf_projectId = None, wf_domain = None, wf_tags = [],
     wf_shareToken = None, wf_shareExpiresAt = None, wf_shareMaxViews = None, wf_shareViewCount = 0, wf_createdAt = 1,
     wf_updatedAt = 1 \<rparr>"

definition job_demo :: preview_state where
  "job_demo = jobs_state.extend (sources_state.extend (outbox_state.extend
       (tenancy.extend (demo_tenancy\<lparr>workflows := [job_workflow], sha256 := (\<lambda>_. replicate 64 CHR ''0'')\<rparr>) (outbox_state.fields []))
       (sources_state.fields job_env [] [] [] [] [])) (jobs_state.fields ''c'' [] [] [] [] [] [] []))
     (preview_state.fields [job_canvas] [] [] True (\<lambda>x. x)
       \<lparr> cd_debounceMs = 3000, cd_maxDebounceMs = 15000, cd_enabled = True, cd_pending = Map.empty, cd_timers = [],
         cd_next = 0, cd_triggered = [] \<rparr> None)"

definition job_dto :: preview_request_dto where
  "job_dto = \<lparr> pd_operation = ''improve_canvas'', pd_user_prompt = ''x'', pd_selected_element_ids = [],
     pd_locked_element_ids = [], pd_editable_element_ids = [], pd_source_ids = [], pd_desired_width = 800,
     pd_desired_height = 600, pd_auto_apply = False \<rparr>"

definition job_user :: request_user where
  "job_user = \<lparr> ru_id = ''bob'', ru_orgId = ''o'', ru_role = ''x'' \<rparr>"

text \<open>A task that is running, with what it reserved.\<close>

definition job_task :: ai_task where
  "job_task = \<lparr> at_id = ''t1'', at_organizationId = ''o'', at_workspaceId = ''w'', at_userId = ''bob'',
     at_taskType = ''canvas.ai.preview.validate'', at_status = RUNNING, at_progress = 40, at_currentStep = None,
     at_requestPayload = JObj [], at_resultPayload = None, at_errorCode = None, at_errorMessage = None,
     at_correlationId = ''c'', at_idempotencyKey = ''canvas-preview:'' @ replicate 64 CHR ''0'', at_usageReservationId = ''r1'', at_canvasId = Some ''cv'',
     at_snapshotId = Some ''n1'', at_snapshotVersion = Some 1, at_canvasRevision = Some 3, at_supersededByTaskId = None,
     at_createdAt = 5, at_startedAt = Some 6, at_completedAt = None, at_cancelledAt = None \<rparr>"

definition job_reservation :: usage_reservation where
  "job_reservation = \<lparr> us_id = ''r1'', us_organizationId = ''o'', us_workspaceId = ''w'', us_dimension = AI_INPUT_TOKENS,
     us_amount = 1, us_actualAmount = None, us_idempotencyKey = ''ai-task:canvas-preview:'' @ replicate 64 CHR ''0'', us_status = RESERVED, us_expiresAt = 900000,
     us_createdAt = 5, us_updatedAt = 5 \<rparr>"

definition job_busy :: preview_state where
  "job_busy = job_demo\<lparr>ai_tasks := [job_task], reservations := [job_reservation]\<rparr>"

lemmas job_simps = job_busy_def job_demo_def job_task_def job_reservation_def job_env_def job_user_def job_dto_def
  demo_simps jobs_state.defs sources_state.defs outbox_state.defs tenancy.defs preview_state.defs

lemma job_busy_consistent: "consistent (board_of job_busy)"
  by (simp add: consistent_def board_of_def keyed_def task_ok_def committed_in_def spent_def key_of_def
    reservation_status_def ACTIVE_STATUSES_def job_simps)

lemma job_busy_repeated:
  "fst (createExplicit ''w'' ''cv'' job_dto (Some ''k'') job_user job_busy) =
     Inr \<lparr> pr_taskId = ''t1'', pr_snapshotId = ''n1'', pr_snapshotVersion = 1, pr_canvasRevision = 3, pr_status = RUNNING \<rparr>"
  by (simp add: createExplicit_def create_preview_def action_simps lift_def normalizeIdempotencyKey_def
    Previews.printable_def MAX_IDEMPOTENCY_KEY_LENGTH_def locked_editable_disjoint_def normalizeTarget_def
    requireEditor_def active_member_def find_preview_task_def responseFromTask_def cancel_def Let_def EDIT_def job_simps)

section \<open>Requests\<close>

text \<open>\<open>CanvasChanged\<close> and \<open>Clock\<close> are the other services and the time that passes.\<close>

datatype job_request =
    CreateTask uuid string json "string option" uuid
  | CancelTask uuid uuid uuid
  | WorkerEvent TaskEventKind json
  | AcceptSuggestion uuid uuid uuid
  | RejectSuggestion uuid uuid uuid
  | ReadNotification uuid uuid
  | ReadAllNotifications uuid
  | RequestPreview uuid uuid preview_request_dto "string option" request_user
  | AutomaticPreview automatic_request
  | CanvasChanged "canvas list" "canvas_object list"
  | Clock time

fun serve_job :: "job_request \<Rightarrow> (preview_state, unit) action" where
  "serve_job (CreateTask ws ty p k u) = answer (createTask ws ty p k u)"
| "serve_job (CancelTask ws i u) = answer (cancelTask ws i u)"
| "serve_job (WorkerEvent k e) = handle_task_event k e"
| "serve_job (AcceptSuggestion i org ws) = answer (accept_suggestion i org ws)"
| "serve_job (RejectSuggestion i org ws) = answer (reject_suggestion i org ws)"
| "serve_job (ReadNotification i u) = answer (readNotification i u)"
| "serve_job (ReadAllNotifications u) = readAllNotifications u"
| "serve_job (RequestPreview ws c dto k u) = answer (createExplicit ws c dto k u)"
| "serve_job (AutomaticPreview r) = automatic_preview r"
| "serve_job (CanvasChanged cs xs) = writes (\<lambda>s. s\<lparr>canvas_rows := cs, object_rows := xs\<rparr>)"
| "serve_job (Clock t) = writes (\<lambda>s. s\<lparr>now := max t (now s)\<rparr>)"

fun serve_jobs :: "job_request list \<Rightarrow> preview_state \<Rightarrow> preview_state" where
  "serve_jobs [] s = s"
| "serve_jobs (r # rs) s = serve_jobs rs (snd (serve_job r s))"

lemma moved_on_trans: "moved_on s t \<Longrightarrow> moved_on t u \<Longrightarrow> moved_on s u"
  by (auto simp: moved_on_def)

lemma create_preview_moves:
  assumes "moved_on s t"
  shows "leaves (moved_on s) (create_preview ws c dto k u) t"
proof -
  obtain r v where "create_preview ws c dto k u t = (r, v)" by fastforce
  with endsD [OF create_preview_ends [OF moved_on_consistent [OF assms]] this] show ?thesis
    using moved_on_trans [OF assms, of v] by (simp add: leaves_def)
qed

lemma keeps_create_preview: "keeps (moved_on s) (create_preview ws c dto k u)"
  by (simp add: keeps_leaves create_preview_moves)

lemma keeps_createExplicit: "keeps (moved_on s) (createExplicit ws c dto k u)"
  unfolding createExplicit_def
  by (intro keeps_await keeps_create_preview keeps_writes_board moved_on_board_only) simp

lemma keeps_automatic: "keeps (moved_on s) (automatic_preview r)"
  unfolding automatic_preview_def
  by (cases r) (simp, intro keeps_try_catch keeps_await keeps_create_preview keeps_ok)

lemma keeps_notifications:
  assumes "board_only P"
  shows "keeps P (readNotification i u)" "keeps P (readAllNotifications u)"
  unfolding readNotification_def readAllNotifications_def Let_def
  by (intro keeps_intros keeps_writes_board [OF assms]; simp add: board_of_def)+

lemma serve_job_moves: "keeps (moved_on s) (serve_job r)"
proof (cases r)
  case (CanvasChanged cs xs)
  then show ?thesis by (simp, intro keeps_writes_board moved_on_board_only) (simp add: board_of_def)
next
  case (Clock t)
  then show ?thesis by (simp, intro keeps_writes_board moved_on_board_only) (simp add: board_of_def)
next
  case (WorkerEvent k e)
  then show ?thesis by (simp add: keeps_leaves leaves_handle_task_event)
next
  case (AcceptSuggestion i org ws)
  then show ?thesis by (simp add: keeps_leaves leaves_suggestion_reviews leaves_answer)
next
  case (RejectSuggestion i org ws)
  then show ?thesis by (simp add: keeps_leaves leaves_suggestion_reviews leaves_answer)
qed (simp_all add: keeps_answer keeps_createTask keeps_cancelTask keeps_createExplicit keeps_automatic
    keeps_notifications [OF moved_on_board_only])

lemma serve_jobs_moves: "moved_on s t \<Longrightarrow> moved_on s (serve_jobs rs t)"
proof (induction rs arbitrary: t)
  case (Cons r rs)
  then show ?case using serve_job_moves [of s r] by (simp add: keeps_def)
qed simp

text \<open>C22: from tables without tasks, whatever is asked for in whatever order and wherever it fails: ids, idempotency
  keys and reservations of tasks are unique; every reservation belongs to a task, is reserved as long as the
  task is active, committed when it completed and released otherwise; the usage that is booked on a
  workspace is the sum of what its committed reservations cost; progress stays between 0 and 100, and a result is
  stored exactly for completed tasks, as suggestions are, at most one for each.\<close>

theorem jobs_stay_consistent:
  assumes "ai_tasks s = []" and "reservations s = []" and "workspace_usages s = []" and "suggestions s = []"
  shows "let t = serve_jobs rs s in
    distinct (map at_id (ai_tasks t)) \<and> distinct (map at_idempotencyKey (ai_tasks t)) \<and>
    distinct (map at_usageReservationId (ai_tasks t)) \<and> distinct (map us_id (reservations t)) \<and>
    (\<forall>x \<in> set (ai_tasks t). 0 \<le> at_progress x \<and> at_progress x \<le> 100 \<and>
       (at_progress x = 100 \<longleftrightarrow> at_status x = COMPLETED) \<and> (at_resultPayload x \<noteq> None \<longleftrightarrow> at_status x = COMPLETED) \<and>
       (\<exists>r \<in> set (reservations t). us_id r = at_usageReservationId x \<and> us_status r =
          (if at_status x \<in> ACTIVE_STATUSES then RESERVED else if at_status x = COMPLETED then COMMITTED else RELEASED))) \<and>
    (\<forall>r \<in> set (reservations t). \<exists>x \<in> set (ai_tasks t). at_usageReservationId x = us_id r) \<and>
    (\<forall>ws d. committed_usage ws d t = sum_list (map (\<lambda>r. if us_status r = COMMITTED \<and> us_workspaceId r = ws \<and>
       us_dimension r = d then or_else (us_actualAmount r) 0 else 0) (reservations t))) \<and>
    distinct (map sg_taskId (suggestions t)) \<and>
    (\<forall>g \<in> set (suggestions t). \<exists>x \<in> set (ai_tasks t). at_id x = sg_taskId g \<and> at_status x = COMPLETED)"
proof -
  have "consistent (board_of s)"
    using assms by (simp add: consistent_def committed_in_def spent_def)
  then have "consistent (board_of (serve_jobs rs s))"
    using moved_on_consistent [OF serve_jobs_moves [OF moved_on_refl]] by blast
  then show ?thesis
    unfolding consistent_def Let_def keyed_def bd_simps task_ok_def spent_def reservation_status_def
      committed_in_def committed_usage_def usage_of_def by blast
qed

definition job_requests :: "job_request list" where
  "job_requests = [CreateTask ''w'' ''summary'' (JObj []) (Some ''k1'') ''bob'', Clock 20]"

theorem jobs_stay_consistent_witness:
  "let t = serve_jobs job_requests job_demo in
     map (\<lambda>x. (at_idempotencyKey x, at_status x)) (ai_tasks t) = [(''k1'', JobStatus.QUEUED)] \<and>
     distinct (map at_id (ai_tasks t)) \<and> committed_usage ''w'' AI_INPUT_TOKENS t = 0"
proof -
  have "map (\<lambda>x. (at_idempotencyKey x, at_status x)) (ai_tasks (serve_jobs job_requests job_demo)) = [(''k1'', JobStatus.QUEUED)]
    \<and> map us_status (reservations (serve_jobs job_requests job_demo)) = [RESERVED]"
    by code_simp
  then show ?thesis using jobs_stay_consistent [of job_demo job_requests]
    by (auto simp: Let_def job_simps)
qed

text \<open>C23: whatever is served, every task stays the same task, with its request, reservation and lineage; its progress
  never decreases, its status only moves forward along the state machine of tasks, and a completed, failed,
  cancelled or stale task never changes.\<close>

theorem tasks_never_go_back:
  assumes "consistent (board_of s)" and "x \<in> set (ai_tasks s)"
  shows "\<exists>y \<in> set (ai_tasks (serve_jobs rs s)). same_task x y \<and> at_progress x \<le> at_progress y \<and>
    at_status x \<le> at_status y \<and> job_can\<^sup>*\<^sup>* (at_status x) (at_status y) \<and>
    (at_status x \<in> FINAL_STATUSES \<longrightarrow> y = x)"
proof -
  have "board_step\<^sup>*\<^sup>* (board_of s) (board_of (serve_jobs rs s))"
    using serve_jobs_moves [OF moved_on_refl [OF assms(1)], of rs] by (simp add: moved_on_def)
  from tasks_grow [OF this assms(1), of x] assms(2) obtain y where
    y: "y \<in> set (ai_tasks (serve_jobs rs s))" "grows x y" by auto
  then have "at_status x \<le> at_status y" using job.never_back by (metis grows_def not_le)
  with y show ?thesis by (auto simp: grows_def)
qed

theorem tasks_never_go_back_witness:
  "\<exists>y \<in> set (ai_tasks (serve_jobs [CancelTask ''w'' ''t1'' ''bob'', Clock 20] job_busy)). same_task job_task y \<and>
     at_status y = JobStatus.CANCELLED \<and> 40 \<le> at_progress y"
proof -
  have "\<forall>y \<in> set (ai_tasks (serve_jobs [CancelTask ''w'' ''t1'' ''bob'', Clock 20] job_busy)). at_status y = JobStatus.CANCELLED"
    by code_simp
  with tasks_never_go_back [OF job_busy_consistent, of job_task "[CancelTask ''w'' ''t1'' ''bob'', Clock 20]"]
  show ?thesis by (auto simp: job_simps)
qed

section \<open>Tokens\<close>

lemma verify_token_same: "env t = env s \<Longrightarrow> verify_token token audience s = (r, s) \<Longrightarrow> verify_token token audience t = (r, t)"
  by (auto simp: verify_token_def action_simps split: prod.splits sum.splits if_splits)

lemma validate_token_Inr:
  assumes "validate_token token audience s = (Inr c, s')"
  shows "verify_token token audience s = (Inr c, s)" and "now s div 1000 < ic_exp c" and
    "(''internal-auth:'' @ or_else (ic_jti c) ''undefined'', now s + max 1 (ic_exp c - now s div 1000) * 1000) \<in> set (used_tokens s')"
proof -
  obtain r t where v: "verify_token token audience s = (r, t)" by fastforce
  moreover from this have "t = s" by (rule reads_onlyD [OF reads_verify_token])
  ultimately show "verify_token token audience s = (Inr c, s)" "now s div 1000 < ic_exp c"
    "(''internal-auth:'' @ or_else (ic_jti c) ''undefined'', now s + max 1 (ic_exp c - now s div 1000) * 1000) \<in> set (used_tokens s')"
    using assms by (auto simp: validate_token_def markOnce_def current_time_run action_simps split: sum.splits if_splits)
qed

lemma validate_token_again:
  assumes "validate_token token audience s = (Inr c, s')" and "env t = env s" and "now s \<le> now t"
    and "set (used_tokens s') \<subseteq> set (used_tokens t)"
  shows "\<exists>m. validate_token token audience t = (Inl (Unauthorized m), t)"
proof (cases "now t div 1000 < ic_exp c")
  case True
  note first = validate_token_Inr [OF assms(1)]
  have "now t < ic_exp c * 1000" using True by linarith
  moreover have "now s div 1000 * 1000 \<le> now s" by simp
  ultimately have "now t < now s + max 1 (ic_exp c - now s div 1000) * 1000" using first(2) by (simp add: algebra_simps max_def)
  then have "list_ex (\<lambda>(j, until). j = ''internal-auth:'' @ or_else (ic_jti c) ''undefined'' \<and> now t < until) (used_tokens t)"
    using first(3) assms(4) by (fastforce simp: list_ex_iff)
  with True verify_token_same [OF assms(2) first(1)] show ?thesis
    by (simp add: validate_token_def markOnce_def current_time_run action_simps)
qed (use verify_token_same [OF assms(2) validate_token_Inr(1) [OF assms(1)]] in
  \<open>simp add: validate_token_def current_time_run action_simps\<close>)

text \<open>C24: a token of a worker counts once. After it was accepted, as long as Redis keeps its keys and the secrets stay,
  every event that carries it, of any kind and at any time, is refused and changes nothing.\<close>

theorem worker_token_counts_once:
  assumes "validate_token token ''nestjs-platform'' s = (Inr claims, s')" and "env t = env s" and "now s \<le> now t"
    and "set (used_tokens s') \<subseteq> set (used_tokens t)"
    and "str_of (get_prop (the (get_prop event ''payload'')) ''internalToken'') = token"
  shows "\<exists>e. handle_task_event kind event t = (Inl e, t)"
proof -
  obtain m where "validate_token token ''nestjs-platform'' t = (Inl (Unauthorized m), t)"
    using validate_token_again [OF assms(1-4)] by blast
  then show ?thesis
    by (cases "assertDomainEvent (parse_date (env t)) event";
      cases "get_prop event ''eventType'' = Some (JStr (''workspace.ai.task.'' @ task_kind_str kind))")
      (simp_all add: handle_task_event_def lift_def assms(5) Let_def await_run reads_run throw_run ok_run require_run)
qed

definition job_event :: json where
  "job_event = JObj [(''payload'', JObj [(''internalToken'', JStr ''t'')])]"

theorem worker_token_counts_once_witness:
  "isl (fst (handle_task_event TaskCompleted job_event
     (job_demo\<lparr>now := 20, used_tokens := [(''internal-auth:j'', 300010)]\<rparr>)))"
proof -
  have "validate_token ''t'' ''nestjs-platform'' job_demo =
      (Inr job_claims, job_demo\<lparr>used_tokens := [(''internal-auth:j'', 300010)]\<rparr>)"
    by (simp add: validate_token_def verify_token_def markOnce_def current_time_run action_simps
      job_claims_def or_else_def job_simps)
  then have "\<exists>e. handle_task_event TaskCompleted job_event (job_demo\<lparr>now := 20, used_tokens := [(''internal-auth:j'', 300010)]\<rparr>) =
      (Inl e, job_demo\<lparr>now := 20, used_tokens := [(''internal-auth:j'', 300010)]\<rparr>)"
    by (rule worker_token_counts_once) (simp_all add: job_event_def get_prop_def job_simps)
  then show ?thesis by force
qed

section \<open>Previews\<close>

text \<open>C25: a request for a preview has all of its effects or none. When it is served, the caller may edit the
  workspace, and either it is a repetition and nothing was written to the tables of tasks and events, or exactly
  one new task was added, queued, with what was asked for, and for the current revision of the canvas; no task for
  an older revision is active any more (one for the same revision, with another target, may still be), and the outbox holds one event for it, pending, accepted by
  the consumer's contract and naming this task. When it fails, tasks, reservations, usage, suggestions, snapshots
  and outbox are as before, and every object that the object store holds and did not hold before was stored by this
  request, which then asked to delete it, and the store refused that deletion.\<close>

theorem preview_all_or_nothing:
  fixes s :: "'z preview_state_scheme"
  assumes "consistent (board_of s)"
  shows "(case createExplicit ws canvasId dto key user s of
      (Inr resp, t) \<Rightarrow> editor_permitted s (ru_id user) (ws, ru_orgId user) \<and>
        (board_of t = board_of s \<and> outbox t = outbox s \<and> pr_taskId resp \<in> at_id ` set (ai_tasks s) \<or>
         pr_taskId resp \<notin> at_id ` set (ai_tasks s) \<and>
         map at_id (ai_tasks t) = map at_id (ai_tasks s) @ [pr_taskId resp] \<and>
         (\<exists>revision snapshotId e.
            (\<exists>x \<in> set (ai_tasks t). at_id x = pr_taskId resp \<and> at_status x = JobStatus.QUEUED \<and>
               at_organizationId x = ru_orgId user \<and> at_workspaceId x = ws \<and> at_canvasId x = Some canvasId \<and>
               at_canvasRevision x = Some revision \<and> at_requestPayload x = jsonb (target_json (normalizeTarget dto))) \<and>
            (\<exists>c \<in> set (canvas_rows s). cv_id c = canvasId \<and> cv_revision c = revision) \<and>
            (\<forall>y \<in> set (active_previews (ru_orgId user) ws canvasId t).
               case at_canvasRevision y of None \<Rightarrow> True | Some n \<Rightarrow> revision \<le> n) \<and>
            outbox t = save_row ob_id e (outbox s) \<and> announced_preview s (pr_taskId resp) snapshotId e))
    | (Inl e, t) \<Rightarrow> board_of t = board_of s \<and> outbox t = outbox s \<and> preview_snapshots t = preview_snapshots s \<and>
        (\<forall>x \<in> objects_held t - objects_held s. \<exists>b k c h. x = (b, k) \<and>
           store_calls t = store_calls s @ [PutObject b k c h, RemoveObject b k] \<and>
           \<not> store_accepts (env s) (Suc (length (store_calls s))) (RemoveObject b k)))"
proof -
  let ?s = "coordinator_update (\<lambda>c. snd (cancel canvasId c)) s"
  obtain r t where run: "createExplicit ws canvasId dto key user s = (r, t)" by fastforce
  then have "create_preview ws canvasId dto key user ?s = (r, t)"
    by (simp add: createExplicit_def await_run writes_run)
  from endsD [OF create_preview_ends this] assms have eff: "preview_effect ?s user ws canvasId dto r t" by simp
  have same: "editor_permitted ?s = editor_permitted s" "object_removed ?s = object_removed s"
    "announced_preview ?s = announced_preview s"
    by (simp_all add: fun_eq_iff editor_permitted_def object_removed_def announced_preview_def)
  show ?thesis
  proof (cases r)
    case (Inl e)
    with eff same have removed: "object_removed s t" by simp
    with eff Inl show ?thesis using object_removed_held [OF removed] by (simp add: run)
  next
    case (Inr resp)
    with eff show ?thesis unfolding run Inr prod.case sum.case preview_effect.simps same repeated_def new_preview_def
      by (simp, blast)
  qed
qed

theorem preview_all_or_nothing_witness:
  "case createExplicit ''w'' ''cv'' job_dto (Some ''k'') job_user job_busy of
     (Inr resp, t) \<Rightarrow> pr_taskId resp = ''t1'' \<and> editor_permitted job_busy ''bob'' (''w'', ''o'') \<and>
       board_of t = board_of job_busy \<and> outbox t = outbox job_busy
   | (Inl e, t) \<Rightarrow> False"
  using preview_all_or_nothing [OF job_busy_consistent, where ws = "''w''" and canvasId = "''cv''" and
      dto = job_dto and key = "Some ''k''" and user = job_user]
    job_busy_repeated
  by (auto simp: job_simps split: prod.splits sum.splits)

end
