(* ===== verification/PreviewClaims.thy ===== *)
theory PreviewClaims
  imports Previews CanvasSnapshotsProps Coordinator
begin

text \<open>
  The parts a preview is made of: what a snapshot holds, what the event that asks for it must look like, and
  when automatic requests are made.
\<close>

section \<open>Snapshots\<close>

text \<open>C27: a serialized snapshot describes the canvas of its revision and exactly the objects on it, one element
  for each in the order of their ids: identity, type, place, size and lock are the object's, rotation, layer,
  colours, visibility, text and asset reference are the first that its style, properties or label give, or the
  default. At most 1000 elements, every one of a known type, with coordinates, dimensions, rotation and layer within
  their ranges, colours and asset references in their formats, and texts of at most 10000 characters in which none
  of the code's patterns for scripts, private keys and access keys occurs. The bytes are the text of this document
  with its fields in the order of their names, with its length and its checksum.\<close>

theorem snapshot_well_formed:
  assumes "serialize valid sha cs xs canvasId expected = Inr z"
  shows "\<exists>c \<in> set cs. cv_id c = canvasId \<and> pred_option (\<lambda>r. r = cv_revision c) expected \<and>
     document_ok valid c (map co_id (filter (\<lambda>x. co_canvasId x = canvasId) xs)) (sz_document z) \<and>
     list_all2 (\<lambda>x e. let pr = co_properties x; st = (case co_style x of None \<Rightarrow> JNull | Some j \<Rightarrow> j) in
       el_id e = co_id x \<and> el_type e = co_type x \<and> el_x e = co_positionX x \<and> el_y e = co_positionY x \<and>
       el_width e = (case co_width x of None \<Rightarrow> 0 | Some w \<Rightarrow> w) \<and>
       el_height e = (case co_height x of None \<Rightarrow> 0 | Some h \<Rightarrow> h) \<and> el_locked e = co_isLocked x \<and>
       JNum (el_rotation e) = (case given [(st, ''rotation''), (pr, ''rotation'')] of JNull \<Rightarrow> JNum 0 | v \<Rightarrow> v) \<and>
       (case given [(st, ''z_index''), (st, ''zIndex''), (pr, ''z_index'')] of JNull \<Rightarrow> el_z_index e = 0
          | JStr d \<Rightarrow> el_z_index e = digits_value d | v \<Rightarrow> v = json_int (el_z_index e)) \<and>
       JBool (el_visible e) = (case given [(pr, ''visible''), (st, ''visible'')] of JNull \<Rightarrow> JBool True | v \<Rightarrow> v) \<and>
       json_str_opt (el_text e) = (case co_label x of Some l \<Rightarrow> JStr l | None \<Rightarrow> given [(pr, ''text'')]) \<and>
       json_str_opt (el_fill e) = given [(st, ''fill''), (pr, ''fill'')] \<and>
       json_str_opt (el_stroke e) = given [(st, ''stroke''), (pr, ''stroke'')] \<and>
       json_str_opt (el_asset_ref e) = given [(pr, ''asset_ref''), (pr, ''assetRef'')])
       (sort_key co_id (filter (\<lambda>x. co_canvasId x = canvasId) xs)) (doc_elements (sz_document z)) \<and>
     sz_jsonBytes z = utf8 (json_text (JObj [
       (''canvas'', JObj [(''background'', JStr (cv_background c)), (''height'', json_int (cv_height c)),
          (''id'', JStr canvasId), (''revision'', json_int (cv_revision c)), (''width'', json_int (cv_width c))]),
       (''elements'', JArr (map (\<lambda>e. JObj [(''asset_ref'', json_str_opt (el_asset_ref e)),
          (''bounds'', JObj [(''height'', JNum (el_height e)), (''width'', JNum (el_width e)), (''x'', JNum (el_x e)),
             (''y'', JNum (el_y e))]), (''fill'', json_str_opt (el_fill e)), (''id'', JStr (el_id e)),
          (''locked'', JBool (el_locked e)), (''rotation'', JNum (el_rotation e)), (''stroke'', json_str_opt (el_stroke e)),
          (''text'', json_str_opt (el_text e)), (''type'', JStr (el_type e)), (''visible'', JBool (el_visible e)),
          (''z_index'', json_int (el_z_index e))]) (doc_elements (sz_document z)))),
       (''groups'', JArr []), (''metadata'', JObj []), (''relationships'', JArr []), (''schema_version'', JStr ''1'')])) \<and>
     sz_sizeBytes z = length (sz_jsonBytes z) \<and> sz_checksumSha256 z = sha (sz_jsonBytes z)"
proof -
  let ?xs = "sort_key co_id (filter (\<lambda>x. co_canvasId x = canvasId) xs)"
  obtain d where d: "serialize_document valid (find_row cv_id canvasId cs) ?xs expected = Inr d"
    and z: "z = (let bytes = utf8 (json_text (canonicalize (document_json d))) in
      \<lparr> sz_document = d, sz_jsonBytes = bytes, sz_checksumSha256 = sha bytes, sz_sizeBytes = length bytes \<rparr>)"
    using assms by (auto simp: serialize_def bind_Inr Let_def)
  obtain c where c: "find_row cv_id canvasId cs = Some c"
    using d by (cases "find_row cv_id canvasId cs") (auto simp: serialize_document_def)
  then have row: "c \<in> set cs" "cv_id c = canvasId" by (auto simp: find_row_def dest: find_Some_conv)
  have doc: "document_ok valid c (map co_id ?xs) d" using serialize_document_ok d c by simp
  then have ids: "document_ok valid c (map co_id (filter (\<lambda>x. co_canvasId x = canvasId) xs)) d"
    by (auto simp: document_ok_def)
  have canvas: "doc_canvasId d = canvasId" "doc_revision d = cv_revision c" "doc_width d = cv_width c"
    "doc_height d = cv_height c" "doc_background d = cv_background c"
    using doc row(2) by (simp_all add: document_ok_def)
  have expected: "pred_option (\<lambda>r. r = cv_revision c) expected"
    using d c by (cases expected) (auto simp: serialize_document_def bind_Inr check_Inr dest!: revision_read)
  have elements: "list_all2 describes ?xs (doc_elements d)" using serialize_document_describes d c by simp
  show ?thesis
    by (rule bexI [OF _ row(1)])
       (simp only: z Let_def serialization_result.simps canonical_document canvas, intro conjI refl
         row(2) expected ids elements [unfolded describes_def [abs_def] Let_def])
qed

text \<open>A canvas with one activity.\<close>

lemma demo_snapshot_document:
  "case serialize_document (\<lambda>_. True) (Some demo_canvas) [demo_object] None of Inl e \<Rightarrow> False
   | Inr d \<Rightarrow> map el_text (doc_elements d) = [Some ''A'']"
  by code_simp

theorem snapshot_well_formed_witness:
  "case serialize (\<lambda>_. True) (\<lambda>_. ''sum'') [demo_canvas] [demo_object] ''c'' None of Inl e \<Rightarrow> False
   | Inr z \<Rightarrow> map el_text (doc_elements (sz_document z)) = [Some ''A''] \<and> map el_id (doc_elements (sz_document z)) = [''ob''] \<and>
     sz_sizeBytes z = length (sz_jsonBytes z) \<and> sz_checksumSha256 z = ''sum''"
proof -
  obtain z where z: "serialize (\<lambda>_. True) (\<lambda>_. ''sum'') [demo_canvas] [demo_object] ''c'' None = Inr z"
    "map el_text (doc_elements (sz_document z)) = [Some ''A'']"
    using demo_snapshot_document
    by (auto simp: serialize_def find_row_def bind_def Let_def demo_canvas_def demo_object_def split: sum.splits)
  obtain e where e: "doc_elements (sz_document z) = [e]" using z(2) by (cases "doc_elements (sz_document z)") auto
  have own: "sort_key co_id (filter (\<lambda>x. co_canvasId x = ''c'') [demo_object]) = [demo_object]" "co_id demo_object = ''ob''"
    by (simp_all add: demo_object_def)
  from snapshot_well_formed [OF z(1)]
  have "el_id e = ''ob'' \<and> sz_sizeBytes z = length (sz_jsonBytes z) \<and> sz_checksumSha256 z = ''sum''"
    unfolding own(1) e Let_def by (elim bexE conjE) (simp only: list_all2_Cons list_all2_Nil own(2))
  with z e show ?thesis by simp
qed

section \<open>Events\<close>

text \<open>C28: a preview request event is created exactly when it meets the contract of its consumer: ids are UUIDs,
  the actor and the time are valid, revision and version are safe integers, the storage keys are those of this
  snapshot, checksums are digests, the operation is known, ids of elements and sources are distinct and at most 100,
  no element is locked and editable, and the prompt and the dimensions are in range.\<close>

theorem preview_event_contract:
  "(\<exists>j. createCanvasAiPreviewRequestedEvent valid parse fresh stamp i = Inr j) \<longleftrightarrow>
   preview_envelope_ok valid parse fresh stamp i \<and> preview_payload_ok valid i"
  by (simp add: create_preview_event)

text \<open>The request of a stored task never equals a target as it prints, since \<open>jsonb\<close> puts \<open>autoApply\<close> first.\<close>

lemma stored_order:
  "\<exists>r. jsonb_fields [(''operation'', a), (''selectedElementIds'', b), (''lockedElementIds'', c), (''editableElementIds'', d),
     (''sourceIds'', e), (''userPrompt'', f), (''desiredWidth'', g), (''desiredHeight'', h), (''autoApply'', i)] =
   (''autoApply'', i) # r"
  by (simp add: jsonb_fields_def utf8_bytes_def)

lemma stored_request_first: "\<exists>r. json_text (jsonb (target_json g)) = ''{'' @ [char_of (34 :: nat)] @ ''a'' @ r"
proof -
  have str: "\<exists>r. json_text (JObj ((''autoApply'', v) # r')) = ''{'' @ [char_of (34 :: nat)] @ ''a'' @ r" for v r'
    by (cases r') (simp_all add: str_text_def char_text_def)
  show ?thesis
    unfolding target_json_def jsonb.simps list.map prod.case
    using stored_order str by metis
qed

lemma stored_request_differs: "\<not> sameTarget (jsonb (target_json a)) b"
proof -
  obtain r where "json_text (jsonb (target_json a)) = ''{'' @ [char_of (34 :: nat)] @ ''a'' @ r"
    using stored_request_first by blast
  then show ?thesis by (auto simp: sameTarget_def target_json_def str_text_def char_text_def)
qed

section \<open>Automatic requests\<close>

text \<open>C26: whatever is edited, cancelled and requested from the start of the service, in the order of time, with
  the timers served at \<open>t\<close>. Take any edit of a canvas, at \<open>te\<close>, that is not cancelled afterwards. When the
  maximal delay since that edit has passed, a preview of the canvas has been triggered since, however many
  edits followed. When the canvas is neither edited nor requested after it and the delay has passed, exactly one
  preview was triggered since, for this edit's revision and with its handler, and not before the delay after this
  edit or the maximal delay after an earlier one. Every canvas with a pending preview has exactly
  one timer, and no other has any.\<close>

theorem previews_never_overdue:
  assumes "newCoordinator debounce maximum True = Inr c"
    and "sorted (map fst earlier @ te # map fst later @ [t])"
    and "\<forall>s. (s, Cancel i) \<notin> set later"
  shows "let d0 = coordinate (earlier @ [(te, Edit i r h)]) c; d = coordinate (later @ [(t, Tick)]) d0 in
    (\<exists>new. cd_triggered d = cd_triggered d0 @ new \<and>
       (te + maximum \<le> t \<longrightarrow> (\<exists>(u, x) \<in> set new. tr_canvasId x = i \<and> te \<le> u)) \<and>
       ((\<forall>s r' h'. (s, Edit i r' h') \<notin> set later \<and> (s, Trigger i r' h') \<notin> set later) \<and> te + debounce \<le> t \<longrightarrow>
          (\<exists>u x. filter (\<lambda>(u, x). tr_canvasId x = i) new = [(u, x)] \<and> tr_revision x = r \<and> tr_handler x = h \<and>
             (te + debounce \<le> u \<or> (\<exists>s r' h'. (s, Edit i r' h') \<in> set earlier \<and> s + maximum \<le> u))))) \<and>
    (\<forall>j. length (filter (\<lambda>x. tr_canvasId (ti_trigger x) = j) (cd_timers d)) =
       (if cd_pending d j = None then 0 else 1))"
proof -
  define s where "s = hd (map fst earlier @ [te])"
  let ?c1 = "coordinate earlier c"
  let ?b = "coordinate (earlier @ [(te, Edit i r h)]) c"
  let ?c2 = "coordinate later ?b"
  let ?d = "coordinate (later @ [(t, Tick)]) ?b"
  have conf: "cd_debounceMs c = debounce" "cd_maxDebounceMs c = maximum" "cd_enabled c" "debounce \<le> maximum"
    and none: "cd_pending c i = None" and c: "coordinated s c"
    using assms(1) coordinated_new [OF assms(1)] by (auto simp: newCoordinator_def split: if_splits)
  have conf1: "cd_debounceMs ?c1 = debounce" "cd_maxDebounceMs ?c1 = maximum" "cd_enabled ?c1"
    using config_coordinate [of earlier c] conf by (simp_all add: config_def)
  have conf0: "cd_maxDebounceMs ?b = maximum" "cd_enabled ?b"
    using config_coordinate [of "earlier @ [(te, Edit i r h)]" c] conf by (simp_all add: config_def)
  have order: "sorted (s # map fst earlier)" "last (s # map fst earlier) \<le> te" "sorted (te # map fst later @ [t])"
    using assms(2) by (cases earlier; auto simp: s_def sorted_append last_conv_nth)+
  have c1: "coordinated te ?c1" using coordinated_later [OF coordinated_run [OF c order(1)] order(2)] .
  have d0: "coordinated te ?b" using coordinated_happen [OF c1, of "Edit i r h"] by (simp add: coordinate_append)
  define p where "p = \<lparr> pp_timer = cd_next ?c1, pp_firstEditAt = first_edit i te ?c1, pp_dueAt = due_at i te ?c1,
      pp_revision = r, pp_handler = h \<rparr>"
  have p: "cd_pending ?b i = Some p" using pending_schedule [OF conf1(3)] by (simp add: coordinate_append p_def)
  have first: "first_edit i te ?c1 = te \<or> (\<exists>r' h'. (first_edit i te ?c1, Edit i r' h') \<in> set earlier)"
    using first_edit_happened [OF c conf(3) order(1), of i] none by (auto simp: first_edit_def split: option.split)
  then have first_le: "first_edit i te ?c1 \<le> te" using assms(2) by (fastforce simp: sorted_append)
  have sorted: "sorted (te # map fst (later @ [(t, Tick)]))" using order(3) by simp
  have c2: "coordinated t ?c2"
    using coordinated_later [OF coordinated_run [OF d0, of later]] order(3) by (auto simp: sorted_append last_conv_nth)
  have last: "?d = happen Tick t ?c2" by (simp add: coordinate_append)
  have due: "t < te + maximum" if "cd_pending ?d i = Some q" "pp_firstEditAt q = pp_firstEditAt p" for q
  proof -
    have "cd_maxDebounceMs ?d = maximum"
      using config_coordinate [of "later @ [(t, Tick)]" ?b] conf0 by (simp add: config_def)
    then show ?thesis using none_overdue [OF c2] that first_le by (fastforce simp: last p_def)
  qed
  have one: "length (filter (\<lambda>x. tr_canvasId (ti_trigger x) = j) (cd_timers ?d)) = (if cd_pending ?d j = None then 0 else 1)" for j
    using timers_of_canvas [OF coordinated_happen [OF c2, of Tick], of j] unfolding last
    by (cases "cd_pending (happen Tick t ?c2) j") (auto simp del: happen.simps)
  obtain new where new: "cd_triggered ?d = cd_triggered ?b @ new"
    "(\<exists>(u, x) \<in> set (triggers_of i new). te \<le> u) \<or> (\<exists>q. cd_pending ?d i = Some q \<and> pp_firstEditAt q = pp_firstEditAt p)"
    using waits_or_triggers [OF d0 conf0(2) sorted _ p] assms(3) by auto
  have late: "\<exists>(u, x) \<in> set new. tr_canvasId x = i \<and> te \<le> u" if "te + maximum \<le> t"
    using new(2) due that by (fastforce simp: triggers_of_def)
  have quiet: "\<exists>u x. filter (\<lambda>(u, x). tr_canvasId x = i) new = [(u, x)] \<and> tr_revision x = r \<and> tr_handler x = h \<and>
      (te + debounce \<le> u \<or> (\<exists>s r' h'. (s, Edit i r' h') \<in> set earlier \<and> s + maximum \<le> u))"
    if q: "\<forall>s r' h'. (s, Edit i r' h') \<notin> set later \<and> (s, Trigger i r' h') \<notin> set later" "te + debounce \<le> t"
  proof -
    have quiet: "\<not> concerns i e" if e: "(u, e) \<in> set (later @ [(t, Tick)])" for u e
      using e q(1) assms(3) by (cases e) auto
    have "served (Some p) (triggers_of i new) (cd_pending ?d i)"
      using undisturbed_serves [OF d0 conf0(2) sorted, of i] quiet p new(1) by fastforce
    moreover have "cd_pending ?d i \<noteq> Some p"
    proof
      assume "cd_pending ?d i = Some p"
      then have "t < pp_dueAt p" using none_overdue [OF c2] by (simp add: last)
      then show False using q(2) by (simp add: p_def due_at_def conf1)
    qed
    ultimately obtain u x where x: "triggers_of i new = [(u, x)]" "tr_revision x = r" "tr_handler x = h" "pp_dueAt p \<le> u"
      by (auto simp: served_def p_def)
    then have "te + debounce \<le> u \<or> first_edit i te ?c1 + maximum \<le> u" by (auto simp: p_def due_at_def conf1)
    with x first conf(4) show ?thesis by (fastforce simp: triggers_of_def)
  qed
  show ?thesis unfolding Let_def using new(1) late quiet one by blast
qed

text \<open>Two edits and the timer that is served at 4000, with a delay of 3 s and at most 15 s.\<close>

definition demo_coordinator :: "string coordinator" where
  "demo_coordinator = \<lparr> cd_debounceMs = 3000, cd_maxDebounceMs = 15000, cd_enabled = True, cd_pending = Map.empty,
     cd_timers = [], cd_next = 0, cd_triggered = [] \<rparr>"

theorem previews_never_overdue_witness:
  "newCoordinator 3000 15000 True = Inr demo_coordinator \<and>
   (\<exists>new u x. cd_triggered (coordinate [(4000, Tick)] (coordinate [(0, Edit ''cv'' 1 ''h''), (1000, Edit ''cv'' 2 ''h'')] demo_coordinator)) =
      cd_triggered (coordinate [(0, Edit ''cv'' 1 ''h''), (1000, Edit ''cv'' 2 ''h'')] demo_coordinator) @ new \<and>
      filter (\<lambda>(u, x). tr_canvasId x = ''cv'') new = [(u, x)] \<and> tr_revision x = 2)"
proof -
  have c: "newCoordinator 3000 15000 True = Inr demo_coordinator"
    by (simp add: newCoordinator_def demo_coordinator_def)
  then show ?thesis
    using previews_never_overdue [OF c, where earlier = "[(0, Edit ''cv'' 1 ''h'')]" and te = 1000 and later = "[]" and
      t = 4000 and i = "''cv''" and r = 2 and h = "''h''"]
    by (auto simp: Let_def)
qed

end
