(* ===== verification/Spec2Isabelle.thy ===== *)
theory Spec2Isabelle
  imports GatewayClaims Workspaces CanvasProps AppsClaims OutboxProps SourcesClaims RulesClaims CommentsClaims
    SkillsClaims JobsClaims PreviewClaims
begin

text \<open>
  A model of the Manbaa backend, a NestJS service in which the members of an organization work on
  canvases, sources and generated applications, with the theorems that make it correct. Names in
  \<open>this font\<close> are names of the code under \<open>src/src\<close>, or of the theories.

  \<^bold>\<open>The program.\<close> Requests reach services through controllers; the services check the membership of
  the caller, change PostgreSQL tables inside transactions, tell connected clients through rooms
  of a socket server, and write events into an outbox, from which publishers send them to NATS.
  Workers answer with events of their own. The parts that carry the logic:

  \<^item> the state machine of the sessions (\<open>modules/sessions/session-fsm.ts\<close>): theory \<open>SessionFsm\<close>;
  \<^item> workspaces, their members and invitations (\<open>modules/workspaces\<close>): \<open>Tenancy\<close> has the entities and
    the permission checks of \<open>WorkspacePermissionService\<close>, \<open>Workspaces\<close> the other services;
  \<^item> the canvas (\<open>modules/canvas/services/canvas.service.ts\<close> and \<open>canvas-realtime.service.ts\<close>):
    \<open>Canvas\<close> has every operation of the service, \<open>CanvasRealtime\<close> presence, cursors and broadcasts,
    \<open>CanvasLog\<close> and \<open>CanvasProps\<close> their theorems;
  \<^item> applications (\<open>modules/applications\<close>): \<open>SchemaValidator\<close> is the validator of page schemas,
    \<open>Applications\<close> the service, \<open>AppsProps\<close>, \<open>AppsTheorems\<close> and \<open>AppsClaims\<close> its theorems;
  \<^item> stored objects (\<open>infra/storage/workspace-storage.service.ts\<close>): \<open>Storage\<close>, \<open>StorageProps\<close>; the types
    and names of uploaded files (\<open>modules/documents/utils\<close>, \<open>modules/sources\<close>): \<open>FileTypes\<close>;
  \<^item> message contracts (\<open>core/messaging\<close>): \<open>Messaging\<close>; the outbox and its publishers
    (\<open>modules/outbox\<close>): \<open>Outbox\<close>, \<open>OutboxProps\<close>;
  \<^item> sources (\<open>modules/sources\<close>, with the verification of \<open>core/internal-auth\<close>): \<open>Sources\<close> has the
    upload and the handler of the worker's events, \<open>SourcesProps\<close> and \<open>SourcesClaims\<close> the theorems;
  \<^item> AI tasks with the usage they are charged, notifications and suggestions (\<open>modules/jobs\<close>,
    \<open>modules/usage\<close>, \<open>modules/notifications\<close>, \<open>canvas-ai-suggestion.service.ts\<close>): \<open>Jobs\<close> has the services
    and the handler of the workers' events, with the replay check of internal tokens; \<open>JobBoard\<close> is the
    abstract board of tasks, reservations, usage and suggestions with its steps and invariant, \<open>JobsProps\<close>
    shows that the services take these steps, \<open>JobsClaims\<close> has the theorems;
  \<^item> previews of a canvas (\<open>modules/canvas/services/canvas-ai-preview.service.ts\<close>): \<open>CanvasSnapshots\<close> is the
    serializer of snapshots with their text, \<open>PreviewEvent\<close> the event that asks for a preview and its
    contract, \<open>Coordinator\<close> the timers of automatic requests, \<open>Previews\<close> the requests;
    \<open>CanvasSnapshotsProps\<close>, \<open>PreviewsProps\<close>, \<open>PreviewClaims\<close> and \<open>JobsClaims\<close> have the theorems. \<open>Jsonb\<close> is the
    order of properties in a \<open>jsonb\<close> column, \<open>Patterns\<close> a matcher for the regular expressions;
  \<^item> rules (\<open>modules/rules/rules.service.ts\<close>): \<open>Rules\<close> has every method of the service, \<open>RulesProps\<close> and
    \<open>RulesClaims\<close> the theorems;
  \<^item> workflows (\<open>modules/workflows/workflows.service.ts\<close>): \<open>Workflows\<close>, with the trigger of its table, and
    \<open>WorkflowsProps\<close>; \<open>Entities\<close> has the tables that the services around a session share;
  \<^item> sessions (\<open>modules/sessions/sessions.service.ts\<close>) and the publication of AI tasks: \<open>Sessions\<close>;
  \<^item> the AI gateway (\<open>modules/ai-gateway\<close>): \<open>AiGateway\<close> has the handlers of what the AI workers send, the
    subscriptions and the delivery of messages (\<open>infra/nats/nats.client.ts\<close>); \<open>GatewayProps\<close>, \<open>GatewayFsm\<close>,
    \<open>GatewayResults\<close> and \<open>GatewayClaims\<close> have the theorems about workflows, sessions and results;
  \<^item> comments and the review of elements (\<open>modules/comments/services/comments.service.ts\<close>): \<open>Comments\<close>,
    \<open>CommentsProps\<close> and \<open>CommentsClaims\<close>;
  \<^item> skills (\<open>modules/skills/services/skills.service.ts\<close>): \<open>Skills\<close>, \<open>SkillsProps\<close> and \<open>SkillsClaims\<close>.

  \<^bold>\<open>The state.\<close> A service method is an action, a function from the state to an exception or a result
  and the state it leaves (\<open>Prelude\<close>). The state is a record of the tables, each the list of its rows,
  and of the outside world: the clock, a supply of fresh ids, the rooms that have listeners, whether
  NATS answers, which calls the object store carries out, and the lists of what was emitted, published and
  asked of the object store. \<open>Platform\<close> has the record \<open>core\<close>; \<open>tenancy\<close>, \<open>canvas_state\<close>, \<open>apps_state\<close>,
  \<open>outbox_state\<close>, \<open>sources_state\<close> and \<open>tables\<close> extend it by the tables of their component, \<open>rules_state\<close>,
  \<open>gateway_state\<close>, \<open>comments_state\<close> and \<open>skills_state\<close> extend \<open>tables\<close> by the rules, by what the handlers
  remember, by the comments and by the uses of skills; \<open>jobs_state\<close> extends \<open>sources_state\<close> by tasks, reservations,
  usage, notifications, suggestions and the tokens that were used, \<open>preview_state\<close> extends it by canvases, snapshots
  and the coordinator. A transaction takes
  its writes back when its body throws, and only it does, so what a method leaves behind when it
  fails halfway is part of the model. Unique constraints of the migrations are checks of the
  insert operations and fail with \<open>QueryFailed\<close>.

  \<^bold>\<open>Interfaces.\<close> \<open>Interfaces\<close> states the contracts as locales: \<open>keyed_store\<close> for a table with a
  primary key, \<open>access_gate\<close> for a permission check, \<open>versioned\<close> for optimistic concurrency, \<open>fsm\<close>
  and \<open>ranked_fsm\<close> for state machines. Each is interpreted on the code's own definitions: every
  table, \<open>requireRole\<close> and \<open>requireEditor\<close>, canvas operations and draft schemas, session and source
  statuses.

  \<^bold>\<open>What the theorems show.\<close>

  \<^item> sessions: the transition table of the sessions is the reference function, the two functions over
    it agree, and validated sessions stay validated;
  \<^item> workspaces: permission checks are exact and nested; a workspace keeps an active owner under
    every membership request, but accepting an invitation can demote the last one; pending
    invitations are unique, and acceptances atomic;
  \<^item> canvas: the operation log of a canvas is gapless and its revision is the number of
    operations, retries are idempotent, stale operations are refused, commits create the next
    version; cursors are throttled, presence is exact; two requests that can never succeed;
  \<^item> applications: the validator accepts exactly the schemas of a reference definition; versions of
    an application stay numbered and consistent, the service refines a small lifecycle, stored
    schemas are valid, stale drafts are refused;
  \<^item> storage: no stored object is in reach of two workspaces;
  \<^item> outbox: published events were sent, none gets stuck, and what one batch does to every event;
  \<^item> sources: sources and versions agree, processing never goes back, events take effect
    once, an upload leaves everything or nothing but an object that the store refuses to delete;
  \<^item> tasks and previews: tasks, reservations, booked usage and suggestions stay consistent and tasks never go
    back, whatever is requested and reported; a token of a worker counts once; a preview request has all of
    its effects or none; an edit is followed by an automatic preview in time, and by one only; what a snapshot
    says of the canvas and its objects; which request events are valid; a stored request never prints like a new one;
  \<^item> rules: no two active rules contradict each other, as far as the database keeps conditions as they
    were given; the cache of active rules cannot be observed; what import refuses;
  \<^item> workflows, sessions and the AI gateway: versions of a workflow are numbered without a gap whatever
    fails, the status of a session follows the state machine but for two exceptions, a result
    is acknowledged, or recorded after three attempts, or ends its subscription, and takes effect once;
    differences of versions can be applied when ids are distinct; what a result does to a session that cannot take it, and one that names no session;
  \<^item> comments: members of an organization never touch the comments and contents of another, a bulk
    approval completes the review; no comment reaches the AI, and contents stored as objects cannot
    be reviewed;
  \<^item> skills: catalogs stay mandatory, and unique as long as requests are checked; the retrieved skills
    are the most similar ones; an import stores a prefix of its request.

  \<^bold>\<open>Bounds.\<close> No operation needs fuel: recursion is structural or has a measure; the deliveries of a message are
  the three that the consumer is configured with, taken one after the other. The decoding of paths
  follows the five rounds of the code. Decimal fractions are measured to twenty places
  (\<open>json_bytes\<close>). Strings are Latin-1 except in paths and file names, which are lists of UTF-16 code
  units; integers are unbounded, as the code's counters stay far below the limits of a double and the
  checks for safe integers are written out. Other numbers are exact rationals, but for
  similarities, which are reals with a rounding of every operation (\<open>rounded\<close>); overflow and NaN do not occur.

  \<^bold>\<open>Parameters.\<close> SHA-256, regular expressions of the UUID package, \<open>Date.parse\<close>, the detection of file
  types, Unicode normalization, name-based UUIDs, the verification of JWTs, the rounding of doubles in similarities and the service that
  computes embeddings are arguments or fields of the state
  that no operation changes. Requests run one after the other, except for the publishers of the
  outbox, which interleave; row locks have no counterpart where a transaction is one step.

  \<^bold>\<open>Not modelled.\<close> Controllers, request DTO decorators, guards, filters, configuration and modules are
  declarations to NestJS. Authentication and health checks rest on external packages and systems.
  The services of documents repeat the pattern of the sources, those of concepts and assets the pattern of the
  tasks; messages and the audit log are rows with queries and full-text searches that are SQL; divergence reports
  are rows that workers fill; the export of workflows produces files for other tools. The realtime gateway, with its
  rooms and the bridge to NATS, is the platform under the services and appears as the list of what they
  emit. Migrations appear as the constraints of the insert operations.
\<close>

end
